(* ===== verification/Prelude.thy ===== *)
theory Prelude
  imports
    Main
    "HOL-Library.AList"
    "HOL-Library.Char_ord"
    "HOL-Library.List_Lexorder"
    "HOL-Library.Multiset"
    "HOL-Library.Product_Lexorder"
    "HOL-Library.Sublist"
begin

text \<open>
  Shared vocabulary of the development: Python dictionaries as association lists in
  insertion order, Python's truth value of optional strings, its stable sorts, the
  string functions the sources use, and the named collections the component theories
  put their facts into.

  A Python \<open>str\<close> is modelled as a HOL \<open>string\<close>, a list of code points below 256;
  the functions below follow Python on that range.
\<close>

named_theorems gate_simps \<open>unfoldings of gate decisions\<close>
named_theorems store_simps \<open>lookup and update laws of the stores\<close>

subsection \<open>Dictionaries in insertion order\<close>

type_synonym ('k, 'v) dict = "('k \<times> 'v) list"

abbreviation dict_get :: "('k, 'v) dict \<Rightarrow> 'k \<Rightarrow> 'v option" where
  "dict_get d k \<equiv> map_of d k"

abbreviation dict_set :: "'k \<Rightarrow> 'v \<Rightarrow> ('k, 'v) dict \<Rightarrow> ('k, 'v) dict" where
  "dict_set \<equiv> AList.update"

abbreviation dict_pop :: "'k \<Rightarrow> ('k, 'v) dict \<Rightarrow> ('k, 'v) dict" where
  "dict_pop \<equiv> AList.delete"

abbreviation dict_values :: "('k, 'v) dict \<Rightarrow> 'v list" where
  "dict_values d \<equiv> map snd d"

abbreviation dict_wf :: "('k, 'v) dict \<Rightarrow> bool" where
  "dict_wf d \<equiv> distinct (map fst d)"

lemma dict_get_set [simp]:
  "dict_get (dict_set k v d) k' = (if k' = k then Some v else dict_get d k')"
  by (simp add: update_conv)

lemma dict_get_pop [simp]:
  "dict_get (dict_pop k d) k' = (if k' = k then None else dict_get d k')"
  by (simp add: delete_conv)

lemma dict_wf_set [intro, simp]: "dict_wf d \<Longrightarrow> dict_wf (dict_set k v d)"
  by (rule distinct_update)

lemma dict_wf_pop [intro, simp]: "dict_wf d \<Longrightarrow> dict_wf (dict_pop k d)"
  by (simp add: delete_keys distinct_removeAll)

lemma dict_values_iff:
  assumes "dict_wf d"
  shows "v \<in> set (dict_values d) \<longleftrightarrow> (\<exists>k. dict_get d k = Some v)"
  using assms by (force simp: map_of_eq_Some_iff)

lemma dict_get_map:
  "dict_get (map (\<lambda>(k, v). (k, f v)) d) k = map_option f (dict_get d k)"
  by (induction d) auto

lemma dict_set_map:
  "map (\<lambda>(k, v). (k, f v)) (dict_set k v d) = dict_set k (f v) (map (\<lambda>(k, v). (k, f v)) d)"
  by (induction d) auto

lemma dict_set_fresh: "k \<notin> fst ` set d \<Longrightarrow> dict_set k v d = d @ [(k, v)]"
  by (induction d) auto

subsection \<open>Truth values and sorting\<close>

text \<open>\<open>bool(x)\<close> of an \<open>Optional[str]\<close>: absent and empty are both false.\<close>

fun truthy :: "string option \<Rightarrow> bool" where
  "truthy None = False"
| "truthy (Some s) = (s \<noteq> [])"

text \<open>\<open>x or ""\<close> of an \<open>Optional[str]\<close>.\<close>

fun or_empty :: "string option \<Rightarrow> string" where
  "or_empty None = []"
| "or_empty (Some s) = s"

lemma truthy_or_empty: "truthy x \<longleftrightarrow> or_empty x \<noteq> []"
  by (cases x) auto

lemma truthyE: "truthy x \<Longrightarrow> (\<And>s. x = Some s \<Longrightarrow> s \<noteq> [] \<Longrightarrow> P) \<Longrightarrow> P"
  by (cases x) auto

text \<open>
  \<open>sorted(xs, key=f)\<close> is stable, and so is HOL's \<open>sort_key\<close>;
  \<open>sorted(xs, key=f, reverse=True)\<close> keeps the order of equal elements too.
\<close>

definition sorted_desc :: "('a \<Rightarrow> 'k::linorder) \<Rightarrow> 'a list \<Rightarrow> 'a list" where
  "sorted_desc f xs = rev (sort_key f (rev xs))"

lemma set_sorted_desc [simp]: "set (sorted_desc f xs) = set xs"
  by (simp add: sorted_desc_def)

lemma length_sorted_desc [simp]: "length (sorted_desc f xs) = length xs"
  by (simp add: sorted_desc_def)

lemma mset_sorted_desc [simp]: "mset (sorted_desc f xs) = mset xs"
  by (simp add: sorted_desc_def)

lemma sorted_desc_sorted: "sorted (rev (map f (sorted_desc f xs)))"
  by (simp add: sorted_desc_def rev_map [symmetric])

lemma sort_eq_iff_mset: "sort xs = sort ys \<longleftrightarrow> mset xs = mset ys"
  by (metis mset_sort properties_for_sort sorted_sort)

text \<open>The first element that satisfies a predicate: \<open>next((x for x in xs if p(x)), None)\<close>.\<close>

lemma find_Some_set: "List.find p xs = Some x \<Longrightarrow> x \<in> set xs \<and> p x"
  by (auto simp: find_Some_iff)

lemma find_None_all: "List.find p xs = None \<longleftrightarrow> (\<forall>x \<in> set xs. \<not> p x)"
  by (auto simp: find_None_iff)

lemma find_map: "List.find P (map f xs) = map_option f (List.find (P \<circ> f) xs)"
  by (induction xs) auto

text \<open>Updating one element of a list of records, found by its key.\<close>

lemma map_if_id: "(\<forall>x \<in> set xs. \<not> p x) \<Longrightarrow> map (\<lambda>x. if p x then f x else x) xs = xs"
  by (induction xs) auto

text \<open>\<open>max(1, min(xs))\<close> and its bounds; \<open>min\<close> of an empty sequence raises.\<close>

definition clamp_min :: "int list \<Rightarrow> int" where
  "clamp_min xs = max 1 (Min (set xs))"

lemma clamp_min_pos: "1 \<le> clamp_min xs"
  by (simp add: clamp_min_def)

lemma clamp_min_le: "x \<in> set xs \<Longrightarrow> 1 \<le> x \<Longrightarrow> clamp_min xs \<le> x"
  by (simp add: clamp_min_def)

text \<open>\<open>math.ceil(a / b)\<close> for positive \<open>b\<close>.\<close>

definition ceil_div :: "int \<Rightarrow> int \<Rightarrow> int" where
  "ceil_div a b = - ((- a) div b)"

lemma ceil_div_nonneg: "0 \<le> a \<Longrightarrow> 0 < b \<Longrightarrow> 0 \<le> ceil_div a b"
  using zdiv_mono1 [of "- a" 0 b] by (simp add: ceil_div_def)

end
