(* ===== verification/PyStr.thy ===== *)
theory PyStr
  imports Prelude
begin

text \<open>
  The functions of Python's \<open>str\<close> that the sources call: \<open>lower\<close>, \<open>in\<close>,
  \<open>startswith\<close>, \<open>endswith\<close>, \<open>strip\<close>, \<open>split\<close>, \<open>join\<close>, the decimal
  rendering of an integer and \<open>int(text)\<close>.
\<close>

definition code :: "char \<Rightarrow> nat" where
  "code c = of_char c"

lemma code_inj: "code c = code d \<longleftrightarrow> c = d"
  by (simp add: code_def)

lemma code_less_256: "code c < 256"
  by (simp add: code_def)

lemma char_of_code [simp]: "char_of (code c) = c"
  by (simp add: code_def)

definition lower_char :: "char \<Rightarrow> char" where
  "lower_char c = (let n = code c in
     if (65 \<le> n \<and> n \<le> 90) \<or> (192 \<le> n \<and> n \<le> 222 \<and> n \<noteq> 215)
     then char_of (n + 32) else c)"

definition lower :: "string \<Rightarrow> string" where
  "lower s = map lower_char s"

abbreviation str_in :: "string \<Rightarrow> string \<Rightarrow> bool" where
  "str_in needle s \<equiv> sublist needle s"

abbreviation starts_with :: "string \<Rightarrow> string \<Rightarrow> bool" where
  "starts_with s p \<equiv> prefix p s"

abbreviation ends_with :: "string \<Rightarrow> string \<Rightarrow> bool" where
  "ends_with s p \<equiv> suffix p s"

definition is_space :: "char \<Rightarrow> bool" where
  "is_space c = (code c \<in> {9, 10, 11, 12, 13, 28, 29, 30, 31, 32, 133, 160})"

definition strip :: "string \<Rightarrow> string" where
  "strip s = rev (dropWhile is_space (rev (dropWhile is_space s)))"

text \<open>\<open>sep.join(parts)\<close>\<close>

fun join_str :: "string \<Rightarrow> string list \<Rightarrow> string" where
  "join_str sep [] = []"
| "join_str sep [x] = x"
| "join_str sep (x # xs) = x @ sep @ join_str sep xs"

lemma join_str_eq_Nil: "(\<forall>x \<in> set xs. x \<noteq> []) \<Longrightarrow> join_str sep xs = [] \<longleftrightarrow> xs = []"
  by (induction sep xs rule: join_str.induct) auto

text \<open>\<open>text.split(c, 1)\<close>: at most two parts.\<close>

definition split_once :: "char \<Rightarrow> string \<Rightarrow> string list" where
  "split_once c s =
     (case dropWhile (\<lambda>x. x \<noteq> c) s of
        [] \<Rightarrow> [s]
      | _ # rest \<Rightarrow> [takeWhile (\<lambda>x. x \<noteq> c) s, rest])"

text \<open>\<open>text.split()\<close>: maximal runs of characters that are not white space.\<close>

function split_ws :: "string \<Rightarrow> string list" where
  "split_ws s =
     (let t = dropWhile is_space s in
      if t = [] then []
      else takeWhile (\<lambda>c. \<not> is_space c) t # split_ws (dropWhile (\<lambda>c. \<not> is_space c) t))"
  by pat_completeness auto
termination
proof (relation "measure length")
  fix s :: string and t
  assume t: "t = dropWhile is_space s" and ne: "t \<noteq> []"
  then have "\<not> is_space (hd t)"
    by (metis hd_dropWhile)
  with ne have "length (dropWhile (\<lambda>c. \<not> is_space c) t) < length t"
    by (cases t) (auto intro: le_imp_less_Suc length_dropWhile_le)
  also have "length t \<le> length s"
    using t by (simp add: length_dropWhile_le)
  finally show "(dropWhile (\<lambda>c. \<not> is_space c) t, s) \<in> measure length"
    by simp
qed simp

declare split_ws.simps [simp del]

subsection \<open>Decimal integers\<close>

definition digit :: "nat \<Rightarrow> char" where
  "digit n = char_of (48 + n)"

definition is_digit :: "char \<Rightarrow> bool" where
  "is_digit c = (48 \<le> code c \<and> code c \<le> 57)"

fun dec_nat :: "nat \<Rightarrow> string" where
  "dec_nat n = (if n < 10 then [digit n] else dec_nat (n div 10) @ [digit (n mod 10)])"

declare dec_nat.simps [simp del]

definition dec_int :: "int \<Rightarrow> string" where
  "dec_int i = (if i < 0 then CHR 0x2D # dec_nat (nat (- i)) else dec_nat (nat i))"

definition digits_val :: "string \<Rightarrow> nat" where
  "digits_val s = foldl (\<lambda>a c. 10 * a + (code c - 48)) 0 s"

text \<open>
  \<open>int(text)\<close> for base ten: surrounding white space, an optional sign, digits with
  single underscores between them; anything else raises \<open>ValueError\<close> (\<open>None\<close>).
\<close>

fun digit_groups :: "string \<Rightarrow> string option" where
  "digit_groups [] = None"
| "digit_groups [c] = (if is_digit c then Some [c] else None)"
| "digit_groups (c # d # s) =
     (if \<not> is_digit c then None
      else if d = CHR 0x5F then map_option ((#) c) (digit_groups s)
      else map_option ((#) c) (digit_groups (d # s)))"

definition py_int :: "string \<Rightarrow> int option" where
  "py_int s =
     (case strip s of
        [] \<Rightarrow> None
      | c # t \<Rightarrow>
          if c = CHR 0x2D then map_option (\<lambda>ds. - int (digits_val ds)) (digit_groups t)
          else if c = CHR 0x2B then map_option (\<lambda>ds. int (digits_val ds)) (digit_groups t)
          else map_option (\<lambda>ds. int (digits_val ds)) (digit_groups (c # t)))"

lemma code_digit: "n < 10 \<Longrightarrow> code (digit n) = 48 + n"
  by (simp add: code_def digit_def)

lemma is_digit_digit: "n < 10 \<Longrightarrow> is_digit (digit n)"
  by (simp add: is_digit_def code_digit)

lemma dec_nat_digits: "list_all is_digit (dec_nat n)"
proof (induction n rule: dec_nat.induct)
  case (1 n)
  then show ?case
    by (subst dec_nat.simps) (simp add: is_digit_digit)
qed

lemma dec_nat_nonempty: "dec_nat n \<noteq> []"
  by (subst dec_nat.simps) simp

lemma digits_val_dec_nat: "digits_val (dec_nat n) = n"
proof (induction n rule: dec_nat.induct)
  case (1 n)
  show ?case
  proof (cases "n < 10")
    case True
    then show ?thesis
      by (subst dec_nat.simps) (simp add: digits_val_def code_digit)
  next
    case False
    then have "digits_val (dec_nat n) =
        10 * digits_val (dec_nat (n div 10)) + (code (digit (n mod 10)) - 48)"
      by (subst dec_nat.simps) (simp add: digits_val_def)
    also have "\<dots> = 10 * (n div 10) + n mod 10"
      using 1 False by (simp add: code_digit)
    finally show ?thesis by simp
  qed
qed

lemma dec_nat_inj: "dec_nat n = dec_nat m \<longleftrightarrow> n = m"
  by (metis digits_val_dec_nat)

text \<open>A decimal followed by something that is not a digit determines both.\<close>

definition no_digit_head :: "string \<Rightarrow> bool" where
  "no_digit_head s = (case s of [] \<Rightarrow> True | c # _ \<Rightarrow> \<not> is_digit c)"

lemma takeWhile_digits:
  "list_all is_digit ds \<Longrightarrow> no_digit_head s \<Longrightarrow> takeWhile is_digit (ds @ s) = ds"
  by (induction ds) (auto simp: no_digit_head_def split: list.splits)

lemma digits_append_inj:
  assumes "list_all is_digit ds" "list_all is_digit es" "no_digit_head s" "no_digit_head t"
    and eq: "ds @ s = es @ t"
  shows "ds = es \<and> s = t"
proof -
  from assms have "ds = es"
    by (metis takeWhile_digits)
  with eq show ?thesis by simp
qed

lemma dec_int_append_inj:
  assumes "no_digit_head s" "no_digit_head t" "dec_int i @ s = dec_int j @ t"
  shows "i = j \<and> s = t"
proof -
  have hd_digit: "dec_nat n = c # cs \<Longrightarrow> c \<noteq> CHR 0x2D" for n c cs
    using dec_nat_digits [of n] by (auto simp: is_digit_def code_def)
  have "(i < 0) = (j < 0)"
  proof -
    obtain a as b bs where ab: "dec_nat (nat i) = a # as" "dec_nat (nat j) = b # bs"
      by (metis dec_nat_nonempty neq_Nil_conv)
    with assms(3) hd_digit show ?thesis
      by (auto simp: dec_int_def split: if_splits)
  qed
  then have "dec_nat (nat \<bar>i\<bar>) @ s = dec_nat (nat \<bar>j\<bar>) @ t"
    using assms(3) by (auto simp: dec_int_def split: if_splits)
  then have "dec_nat (nat \<bar>i\<bar>) = dec_nat (nat \<bar>j\<bar>) \<and> s = t"
    using assms(1,2) by (intro digits_append_inj dec_nat_digits)
  then have "nat \<bar>i\<bar> = nat \<bar>j\<bar>" "s = t"
    by (auto simp: dec_nat_inj)
  with \<open>(i < 0) = (j < 0)\<close> show ?thesis
    by auto
qed

end
