(* ===== verification/Json.thy ===== *)
theory Json
  imports PyStr
begin

text \<open>
  JSON values and \<open>json.dumps(value, sort_keys=True, separators=(",", ":"))\<close>, the
  text that \<open>_stable_hash\<close> of \<open>trusted_change.py\<close> hashes. The text determines the
  value up to the order of the keys of its objects (\<open>dumps_inj\<close>): two plans with
  different content never have the same canonical text.

  Floats do not occur in the values the sources build for a plan and are left out.
  \<open>ensure_ascii\<close> keeps its default, so a character outside the printable ASCII range
  is escaped.
\<close>

datatype json =
    JNull
  | JBool bool
  | JInt int
  | JStr string
  | JList "json list"
  | JObj "(string \<times> json) list"

subsection \<open>Strings\<close>

definition hexd :: "nat \<Rightarrow> char" where
  "hexd n = char_of (if n < 10 then 48 + n else 87 + n)"

definition hexv :: "char \<Rightarrow> nat" where
  "hexv c = (if code c < 58 then code c - 48 else code c - 87)"

lemma hexv_hexd: "n < 16 \<Longrightarrow> hexv (hexd n) = n"
  by (simp add: hexv_def hexd_def code_def)

definition esc :: "char \<Rightarrow> string" where
  "esc c =
     (if c = CHR 0x22 \<or> c = CHR 0x5C then [CHR 0x5C, c]
      else if c = CHR 0x08 then [CHR 0x5C, CHR ''b'']
      else if c = CHR 0x0C then [CHR 0x5C, CHR ''f'']
      else if c = CHR 0x0A then [CHR 0x5C, CHR ''n'']
      else if c = CHR 0x0D then [CHR 0x5C, CHR ''r'']
      else if c = CHR 0x09 then [CHR 0x5C, CHR ''t'']
      else if 32 \<le> code c \<and> code c \<le> 126 then [c]
      else [CHR 0x5C, CHR ''u'', CHR ''0'', CHR ''0'',
            hexd (code c div 16), hexd (code c mod 16)])"

definition quote :: "string \<Rightarrow> string" where
  "quote s = CHR 0x22 # concat (map esc s) @ [CHR 0x22]"

text \<open>Reading one escaped character back, for the injectivity of \<open>quote\<close>.\<close>

definition unesc :: "string \<Rightarrow> char \<times> string" where
  "unesc s =
     (case s of
        c # d # t \<Rightarrow>
          if c \<noteq> CHR 0x5C then (c, d # t)
          else if d = CHR ''b'' then (CHR 0x08, t)
          else if d = CHR ''f'' then (CHR 0x0C, t)
          else if d = CHR ''n'' then (CHR 0x0A, t)
          else if d = CHR ''r'' then (CHR 0x0D, t)
          else if d = CHR ''t'' then (CHR 0x09, t)
          else if d = CHR ''u''
            then (char_of (16 * hexv (t ! 2) + hexv (t ! 3)), drop 4 t)
          else (d, t)
      | [c] \<Rightarrow> (c, [])
      | [] \<Rightarrow> (CHR 0x00, []))"

lemma unesc_plain: "c \<noteq> CHR 0x5C \<Longrightarrow> unesc (c # t) = (c, t)"
  by (cases t) (simp_all add: unesc_def)

lemma unesc_hex:
  "unesc (CHR 0x5C # CHR ''u'' # CHR ''0'' # CHR ''0'' # a # b # t)
     = (char_of (16 * hexv a + hexv b), t)"
  by (simp add: unesc_def numeral_2_eq_2 numeral_3_eq_3)

lemma unesc_esc: "unesc (esc c @ t) = (c, t)"
proof (cases "c \<in> {CHR 0x22, CHR 0x5C, CHR 0x08, CHR 0x0C, CHR 0x0A, CHR 0x0D, CHR 0x09}")
  case True
  then show ?thesis
    by (elim insertE emptyE) (simp_all add: esc_def unesc_def)
next
  case False
  have "code c div 16 < 16"
    using code_less_256 [of c] by simp
  then have hex: "char_of (16 * hexv (hexd (code c div 16)) + hexv (hexd (code c mod 16))) = c"
    by (simp add: hexv_hexd)
  show ?thesis
  proof (cases "32 \<le> code c \<and> code c \<le> 126")
    case True
    with False show ?thesis
      by (simp add: esc_def unesc_plain)
  next
    case outside: False
    with False have "esc c = [CHR 0x5C, CHR ''u'', CHR ''0'', CHR ''0'',
        hexd (code c div 16), hexd (code c mod 16)]"
      by (simp add: esc_def)
    then show ?thesis
      by (simp only: append_Cons append_Nil unesc_hex hex)
  qed
qed

lemma esc_not_quote: "\<exists>d ds. esc c = d # ds \<and> d \<noteq> CHR 0x22"
  by (auto simp: esc_def)

lemma escaped_append_inj:
  "concat (map esc s) @ CHR 0x22 # u = concat (map esc t) @ CHR 0x22 # v \<Longrightarrow> s = t \<and> u = v"
proof (induction s arbitrary: t)
  case Nil
  then show ?case
    using esc_not_quote by (cases t) (auto, metis append_Cons list.inject)
next
  case (Cons c s)
  show ?case
  proof (cases t)
    case Nil
    with Cons.prems show ?thesis
      using esc_not_quote [of c] by auto
  next
    case (Cons d t')
    with Cons.prems have
      "esc c @ (concat (map esc s) @ CHR 0x22 # u) = esc d @ (concat (map esc t') @ CHR 0x22 # v)"
      by simp
    then have "c = d" "concat (map esc s) @ CHR 0x22 # u = concat (map esc t') @ CHR 0x22 # v"
      by (metis unesc_esc prod.inject)+
    with Cons.IH Cons show ?thesis
      by blast
  qed
qed

lemma quote_append_inj: "quote s @ u = quote t @ v \<Longrightarrow> s = t \<and> u = v"
  using escaped_append_inj [of s u t v] by (simp add: quote_def)

subsection \<open>Values\<close>

text \<open>\<open>sort_keys=True\<close>: every object is written with its keys in order.\<close>

primrec canon :: "json \<Rightarrow> json" where
  "canon JNull = JNull"
| "canon (JBool b) = JBool b"
| "canon (JInt i) = JInt i"
| "canon (JStr s) = JStr s"
| "canon (JList js) = JList (map canon js)"
| "canon (JObj kvs) = JObj (sort_key fst (map (map_prod (\<lambda>k. k) canon) kvs))"

definition member_text :: "string \<times> string \<Rightarrow> string" where
  "member_text kt = quote (fst kt) @ CHR '':'' # snd kt"

primrec text_of :: "json \<Rightarrow> string" where
  "text_of JNull = ''null''"
| "text_of (JBool b) = (if b then ''true'' else ''false'')"
| "text_of (JInt i) = dec_int i"
| "text_of (JStr s) = quote s"
| "text_of (JList js) = CHR ''['' # join_str '','' (map text_of js) @ '']''"
| "text_of (JObj kvs) =
     CHR ''{'' # join_str '','' (map member_text (map (map_prod (\<lambda>k. k) text_of) kvs)) @ ''}''"

definition dumps :: "json \<Rightarrow> string" where
  "dumps j = text_of (canon j)"

subsection \<open>The text determines the canonical value\<close>

text \<open>What can follow a value inside a JSON text: a comma, a closing bracket, the end.\<close>

definition stop :: "string \<Rightarrow> bool" where
  "stop s = (case s of [] \<Rightarrow> True | c # _ \<Rightarrow> c \<in> {CHR '','', CHR '']'', CHR ''}''})"

lemma stop_simps [simp]:
  "stop []" "stop (CHR '','' # s)" "stop (CHR '']'' # s)" "stop (CHR ''}'' # s)"
  by (simp_all add: stop_def)

lemma stop_no_digit: "stop s \<Longrightarrow> no_digit_head s"
  by (auto simp: stop_def no_digit_head_def is_digit_def code_def split: list.splits)

definition head_class :: "char \<Rightarrow> nat" where
  "head_class c =
     (if c = CHR ''n'' then 0 else if c = CHR ''t'' \<or> c = CHR ''f'' then 1
      else if c = CHR 0x22 then 3 else if c = CHR ''['' then 4
      else if c = CHR ''{'' then 5 else if c = CHR 0x2D \<or> is_digit c then 2 else 6)"

primrec json_class :: "json \<Rightarrow> nat" where
  "json_class JNull = 0"
| "json_class (JBool b) = 1"
| "json_class (JInt i) = 2"
| "json_class (JStr s) = 3"
| "json_class (JList js) = 4"
| "json_class (JObj kvs) = 5"

lemma head_class_digit: "is_digit c \<Longrightarrow> head_class c = 2"
  by (auto simp: head_class_def is_digit_def code_def)

lemma dec_int_head: "\<exists>c s. dec_int i = c # s \<and> head_class c = 2"
proof -
  obtain c s where cs: "dec_nat (nat \<bar>i\<bar>) = c # s"
    by (metis dec_nat_nonempty neq_Nil_conv)
  then have "is_digit c"
    using dec_nat_digits [of "nat \<bar>i\<bar>"] by simp
  then show ?thesis
    using cs by (auto simp: dec_int_def head_class_digit) (simp add: head_class_def)
qed

lemma text_of_head: "\<exists>c s. text_of j = c # s \<and> head_class c = json_class j"
proof (cases j)
  case (JInt i)
  then show ?thesis
    using dec_int_head [of i] by simp
qed (simp_all add: quote_def head_class_def)

lemma json_class_le: "json_class j \<le> 5"
  by (cases j) simp_all

lemma text_of_not_close: "text_of j @ s \<noteq> CHR '']'' # t"
proof -
  obtain c r where cr: "text_of j = c # r" "head_class c = json_class j"
    using text_of_head by blast
  have "head_class (CHR '']'') = 6"
    by (simp add: head_class_def is_digit_def code_def)
  then have "c \<noteq> CHR '']''"
    using cr(2) json_class_le [of j] by auto
  with cr(1) show ?thesis by simp
qed

lemma text_of_class:
  assumes "text_of a @ s = text_of b @ t"
  shows "json_class a = json_class b"
  using assms text_of_head [of a] text_of_head [of b] by auto

text \<open>
  A separated sequence inside brackets: if each element's text is determined by what it
  starts, so is the sequence. \<open>R\<close> is the closing bracket.
\<close>

lemma join_inj:
  assumes el: "\<And>x y u v. x \<in> set xs \<Longrightarrow> stop u \<Longrightarrow> stop v \<Longrightarrow> f x @ u = f y @ v \<Longrightarrow> x = y \<and> u = v"
    and ne: "\<And>x u v. f x @ u \<noteq> R # v"
    and R: "R = CHR '']'' \<or> R = CHR ''}''"
    and eq: "join_str '','' (map f xs) @ R # s = join_str '','' (map f ys) @ R # t"
  shows "xs = ys \<and> s = t"
  using el eq
proof (induction xs arbitrary: ys)
  case Nil
  then show ?case
    using ne by (cases ys rule: remdups_adj.cases) (auto simp: eq_commute)
next
  case (Cons x xs)
  obtain y ys' where ys: "ys = y # ys'"
    using Cons.prems(2) ne by (cases ys; cases xs) auto
  let ?tail = "\<lambda>zs r. (if zs = [] then R # r else CHR '','' # join_str '','' (map f zs) @ R # r)"
  have split: "join_str '','' (map f (z # zs)) @ R # r = f z @ ?tail zs r" for z zs r
    by (cases zs) auto
  have st: "stop (?tail zs r)" for zs r
    using R by auto
  have "x = y" "?tail xs s = ?tail ys' t"
    using Cons.prems(1) [of x "?tail xs s" "?tail ys' t" y] Cons.prems(2) st
    unfolding ys split by auto
  moreover from this(2) have "xs = [] \<longleftrightarrow> ys' = []"
    using R by (auto split: if_splits)
  ultimately have "xs = ys' \<and> s = t"
    using Cons.IH [of ys'] Cons.prems(1) by (auto split: if_splits)
  with \<open>x = y\<close> ys show ?case
    by simp
qed

lemma quote_not_close: "quote s @ u \<noteq> CHR ''}'' # v"
  by (simp add: quote_def)

lemma text_of_append_inj:
  "stop s \<Longrightarrow> stop t \<Longrightarrow> text_of a @ s = text_of b @ t \<Longrightarrow> a = b \<and> s = t"
proof (induction a arbitrary: b s t)
  case JNull
  from text_of_class [OF JNull.prems(3)] have "b = JNull"
    by (cases b) auto
  with JNull show ?case by simp
next
  case (JBool p)
  from text_of_class [OF JBool.prems(3)] obtain q where "b = JBool q"
    by (cases b) auto
  with JBool show ?case by (cases p; cases q) simp_all
next
  case (JInt i)
  from text_of_class [OF JInt.prems(3)] obtain j where "b = JInt j"
    by (cases b) auto
  with JInt show ?case
    using dec_int_append_inj [of s t i j] by (auto dest: stop_no_digit)
next
  case (JStr x)
  from text_of_class [OF JStr.prems(3)] obtain y where "b = JStr y"
    by (cases b) auto
  with JStr.prems(3) show ?case
    using quote_append_inj [of x s y t] by simp
next
  case (JList xs)
  from text_of_class [OF JList.prems(3)] obtain ys where b: "b = JList ys"
    by (cases b) auto
  have "xs = ys \<and> s = t"
  proof (rule join_inj [where f = text_of and R = "CHR '']''"])
    show "join_str '','' (map text_of xs) @ CHR '']'' # s = join_str '','' (map text_of ys) @ CHR '']'' # t"
      using JList.prems(3) b by simp
  qed (use JList.IH text_of_not_close in auto)
  with b show ?case by simp
next
  case (JObj xs)
  from text_of_class [OF JObj.prems(3)] obtain ys where b: "b = JObj ys"
    by (cases b) auto
  let ?f = "\<lambda>kv. quote (fst kv) @ CHR '':'' # text_of (snd kv)"
  have f: "map member_text (map (map_prod (\<lambda>k. k) text_of) zs) = map ?f zs" for zs
    by (simp add: member_text_def split_beta)
  have "xs = ys \<and> s = t"
  proof (rule join_inj [where f = ?f and R = "CHR ''}''"])
    fix x y u v
    assume x: "x \<in> set xs" and st: "stop u" "stop v" and eq: "?f x @ u = ?f y @ v"
    then have fst: "fst x = fst y" and "text_of (snd x) @ u = text_of (snd y) @ v"
      using quote_append_inj [of "fst x" _ "fst y"] by auto
    then have "snd x = snd y \<and> u = v"
      using JObj.IH [of x "snd x" u v "snd y"] x st by (cases x) (auto simp: snds.simps)
    with fst show "x = y \<and> u = v"
      by (simp add: prod_eq_iff)
  next
    show "join_str '','' (map ?f xs) @ CHR ''}'' # s = join_str '','' (map ?f ys) @ CHR ''}'' # t"
      using JObj.prems(3) unfolding b text_of.simps f by simp
  qed (use quote_not_close in auto)
  with b show ?case by simp
qed

lemma dumps_inj: "dumps a = dumps b \<Longrightarrow> canon a = canon b"
  using text_of_append_inj [of "[]" "[]" "canon a" "canon b"] by (simp add: dumps_def)

end
