(* ===== verification/Models.thy ===== *)
theory Models
  imports Complex_Main Json
begin

text \<open>
  The data model of \<open>models.py\<close>, class by class in the source's order. An enumeration is a
  datatype, a class is a record whose fields are the class's with a prefix of their own
  (\<open>r_\<close> for \<open>Remediation\<close>, \<open>j_\<close> for \<open>DurableJob\<close>, \<open>c_\<close> for
  \<open>PatchCampaign\<close>, \<open>hp_\<close> for \<open>CampaignHostPlan\<close>, \<open>h_\<close> for \<open>Host\<close>, ...), a
  subclass is a record extension. Fields the source declares as \<open>str\<close> stay strings even
  where only a few values occur: nothing in the source prevents others. A float is a
  \<open>real\<close>. The constraints pydantic checks when it builds a value (\<open>ge\<close>, \<open>le\<close>,
  \<open>pattern\<close>) are the \<open>_valid\<close> predicates.

  A \<open>datetime\<close> is naive (no time zone, as SQLite returns it) or aware; the number counts
  microseconds since the epoch, of the wall clock for a naive value and of UTC for an
  aware one.
\<close>

datatype datetime = Naive int | Aware int

type_synonym details = "(string, json) dict"

subsection \<open>Enumerations\<close>

datatype severity =
    SevInfo
  | SevLow
  | SevMedium
  | SevHigh
  | SevCritical

fun severity_text :: "severity \<Rightarrow> string" where
  "severity_text SevInfo = ''info''"
| "severity_text SevLow = ''low''"
| "severity_text SevMedium = ''medium''"
| "severity_text SevHigh = ''high''"
| "severity_text SevCritical = ''critical''"

lemma severity_text_inj: "severity_text a = severity_text b \<longleftrightarrow> a = b"
  by (cases a; cases b) simp_all

datatype agent_name =
    Orchestrator
  | LogAnalyst
  | LinuxStateAnalyst

fun agent_name_text :: "agent_name \<Rightarrow> string" where
  "agent_name_text Orchestrator = ''orchestrator''"
| "agent_name_text LogAnalyst = ''log_analyst''"
| "agent_name_text LinuxStateAnalyst = ''linux_state_analyst''"

datatype model_tier =
    Capable
  | Economy
  | Deterministic

fun model_tier_text :: "model_tier \<Rightarrow> string" where
  "model_tier_text Capable = ''capable''"
| "model_tier_text Economy = ''economy''"
| "model_tier_text Deterministic = ''deterministic''"

lemma agent_name_text_inj: "agent_name_text a = agent_name_text b \<longleftrightarrow> a = b"
  by (cases a; cases b) simp_all

lemma model_tier_text_inj: "model_tier_text a = model_tier_text b \<longleftrightarrow> a = b"
  by (cases a; cases b) simp_all

datatype user_role =
    RoleAdmin
  | RoleOperator
  | RoleAuditor

datatype campaign_status =
    CDraft
  | CProposing
  | CAwaitingApproval
  | CReady
  | CRunning
  | CPartiallySucceeded
  | CSucceeded
  | CFailed
  | CCancelling
  | CCanceled

datatype campaign_host_state =
    HSelected
  | HProposalQueued
  | HProposalRunning
  | HAwaitingApproval
  | HAwaitingRebootApproval
  | HApproved
  | HScheduled
  | HQueued
  | HRunning
  | HSucceeded
  | HFailed
  | HRejected
  | HBlocked
  | HCanceled
  | HNoAction
  | HPlanChanged

datatype credential_type =
    SshPrivateKey
  | ProxmoxToken
  | AwsAccessKey
  | AwsRole
  | VmwareSecret
  | LibvirtSsh

datatype snapshot_platform =
    PlatformNone
  | Proxmox
  | Aws
  | Vmware
  | Libvirt

datatype rollback_snapshot_state =
    SnapCreating
  | SnapCreated
  | SnapDeleteScheduled
  | SnapDeleted
  | SnapRollbackStarted
  | SnapRolledBack
  | SnapRollbackFailed
  | SnapDeleteFailed

subsection \<open>Agents\<close>

record agent_identity =
  ai_name :: agent_name
  ai_responsibility :: string
  ai_model_tier :: model_tier
  ai_provider :: string
  ai_model :: string
  ai_selection_reason :: string
  ai_contract_version :: int
  ai_contract_hash :: string

record agent_message =
  am_id :: string
  am_scan_id :: string
  am_from_agent :: agent_name
  am_to_agent :: agent_name
  am_round :: int
  am_response :: string
  am_claim_ids :: "string list"
  am_reasoning :: string
  am_citations :: "string list"
  am_created_at :: datetime

record agent_run =
  ar_id :: string
  ar_scan_id :: string
  ar_agent :: agent_identity
  ar_status :: string
  ar_input_hash :: string
  ar_output :: details
  ar_prompt_tokens :: int
  ar_completion_tokens :: int
  ar_latency_ms :: int
  ar_cache_hit :: bool
  ar_fallback_reason :: "string option"
  ar_externally_processed :: bool
  ar_created_at :: datetime

subsection \<open>Hosts\<close>

record maintenance_window =
  mw_timezone :: string
  mw_weekdays :: "int list"
  mw_start_time :: string
  mw_duration_minutes :: int

definition maintenance_window_valid :: "maintenance_window \<Rightarrow> bool" where
  "maintenance_window_valid w \<longleftrightarrow> 15 \<le> mw_duration_minutes w \<and> mw_duration_minutes w \<le> 1440"

record patch_policy =
  pp_update_mode :: string
  pp_execution_timing :: string
  pp_maintenance_window :: "maintenance_window option"
  pp_max_batch_size :: int
  pp_canary_count :: int
  pp_reboot_policy :: string

definition patch_policy_valid :: "patch_policy \<Rightarrow> bool" where
  "patch_policy_valid p \<longleftrightarrow>
     pp_update_mode p \<in> {''orchestrator_decides'', ''all'', ''security''} \<and>
     pp_execution_timing p \<in> {''immediate'', ''maintenance_window''} \<and>
     pred_option maintenance_window_valid (pp_maintenance_window p) \<and>
     1 \<le> pp_max_batch_size p \<and> pp_max_batch_size p \<le> 100 \<and>
     1 \<le> pp_canary_count p \<and> pp_canary_count p \<le> 20 \<and>
     pp_reboot_policy p \<in> {''if_required'', ''never''}"

record host_input =
  h_name :: string
  h_address :: string
  h_port :: int
  h_username :: string
  h_distro_family :: string
  h_environment :: string
  h_tags :: "string list"
  h_criticality :: string
  h_availability_class :: string
  h_credential_id :: "string option"
  h_ssh_host_key_fingerprint :: "string option"
  h_snapshot_platform :: snapshot_platform
  h_snapshot_credential_id :: "string option"
  h_snapshot_target_id :: "string option"
  h_snapshot_provider_metadata :: details
  h_critical_service_name :: "string option"
  h_health_check_url :: "string option"
  h_snapshot_retention_days :: int
  h_patch_policy :: patch_policy

definition host_input_valid :: "'a host_input_scheme \<Rightarrow> bool" where
  "host_input_valid h \<longleftrightarrow>
     1 \<le> h_port h \<and> h_port h \<le> 65535 \<and> h_distro_family h = ''debian'' \<and>
     h_criticality h \<in> {''low'', ''normal'', ''high''} \<and>
     h_availability_class h \<in> {''standard'', ''high_availability''} \<and>
     1 \<le> h_snapshot_retention_days h \<and> h_snapshot_retention_days h \<le> 365 \<and>
     patch_policy_valid (h_patch_policy h)"

record host = host_input +
  h_id :: string
  h_connection_status :: string
  h_created_at :: datetime
  h_updated_at :: datetime

record host_schedule_input =
  hs_enabled :: bool
  hs_timezone :: string
  hs_cron_expression :: string
  hs_overlap_policy :: string

record host_schedule = host_schedule_input +
  hs_id :: string
  hs_host_id :: string
  hs_previous_run_at :: "datetime option"
  hs_next_run_at :: "datetime option"
  hs_created_at :: datetime
  hs_updated_at :: datetime

record ssh_credential =
  cr_id :: string
  cr_name :: string
  cr_credential_type :: credential_type
  cr_fingerprint :: string
  cr_metadata :: details
  cr_created_at :: datetime
  cr_last_used_at :: "datetime option"

record connection_test_result =
  ct_success :: bool
  ct_ssh_reachable :: bool
  ct_sudo_available :: bool
  ct_os_supported :: bool
  ct_ansible_compatible :: bool
  ct_host_key_fingerprint :: "string option"
  ct_checks :: "(string, string) dict"

subsection \<open>Evidence\<close>

record evidence_state =
  es_status :: string
  es_original_bytes :: int
  es_retained_bytes :: int
  es_truncated :: bool
  es_reason :: "string option"

record package_update =
  pu_name :: string
  pu_current_version :: "string option"
  pu_candidate_version :: string
  pu_security_update :: bool
  pu_reboot_hint :: bool

record package_summary =
  ps_pending_security_updates :: int
  ps_pending_package_updates :: int
  ps_reboot_required_now :: bool
  ps_held_packages :: "string list"
  ps_updates :: "package_update list"

record service_summary =
  ss_failed_units :: "string list"
  ss_restarting_units :: "string list"
  ss_degraded :: bool

record system_summary =
  sy_uptime_hours :: real
  sy_load_average :: "real list"
  sy_disk_usage_percent :: real
  sy_inode_usage_percent :: real
  sy_memory_usage_percent :: real
  sy_kernel_version :: string
  sy_boot_id :: string

record network_summary =
  nw_interfaces :: "string list"
  nw_default_routes :: "string list"
  nw_dns_servers :: "string list"
  nw_listening_ports :: "string list"

record host_logs =
  lg_journal :: string
  lg_kernel :: string
  lg_auth :: string
  lg_apt_history :: string
  lg_reboot_history :: string

record host_snapshot =
  sn_id :: string
  sn_host_id :: string
  sn_collected_at :: datetime
  sn_commands :: "(string, string) dict"
  sn_evidence_states :: "(string, evidence_state) dict"
  sn_package_summary :: package_summary
  sn_service_summary :: service_summary
  sn_system_summary :: system_summary
  sn_network_summary :: network_summary
  sn_logs :: host_logs
  sn_snapshot_hash :: string

record evidence =
  ev_source :: string
  ev_excerpt :: string
  ev_citation :: string

record recommended_action =
  ra_action_type :: string
  ra_title :: string
  ra_rationale :: string

record finding =
  f_id :: string
  f_host_id :: string
  f_scan_id :: "string option"
  f_source_agent :: agent_name
  f_category :: string
  f_severity :: severity
  f_summary :: string
  f_explanation :: string
  f_evidence :: "evidence list"
  f_recommended_action :: "recommended_action option"
  f_requires_approval :: bool
  f_confidence :: real
  f_status :: string
  f_verifier_status :: string
  f_verifier_reason :: "string option"
  f_created_at :: datetime

record agent_report =
  rp_agent :: agent_identity
  rp_overview :: string
  rp_findings :: "finding list"

subsection \<open>Plans\<close>

record reboot_assessment =
  rb_status :: string
  rb_rationale :: string
  rb_evidence :: "evidence list"
  rb_estimated_downtime_minutes :: int
  rb_approved_if_required :: bool

record rollout_policy =
  ro_strategy :: string
  ro_batch_size :: int
  ro_canary_count :: int
  ro_rationale :: string

definition rollout_policy_valid :: "rollout_policy \<Rightarrow> bool" where
  "rollout_policy_valid p \<longleftrightarrow>
     ro_strategy p \<in> {''one_at_a_time'', ''canary_then_batches''} \<and>
     1 \<le> ro_batch_size p \<and> 1 \<le> ro_canary_count p"

record failure_policy =
  fp_stop_remaining_hosts :: bool
  fp_notify_operator :: bool
  fp_attempt_predefined_recovery :: bool
  fp_recovery_actions :: "string list"

record ai_decision =
  ad_update_scope :: string
  ad_risk_level :: severity
  ad_explanation :: string
  ad_status :: string
  ad_supporting_citations :: "string list"
  ad_unresolved_conflicts :: "string list"
  ad_agent_assignments :: "agent_identity list"

subsection \<open>Logs and execution results\<close>

record structured_log_event =
  l_id :: string
  l_schema_version :: string
  l_timestamp :: datetime
  l_duration_ms :: int
  l_host_id :: "string option"
  l_job_id :: "string option"
  l_scan_id :: "string option"
  l_remediation_id :: "string option"
  l_agent_run_id :: "string option"
  l_playbook_id :: "string option"
  l_phase_id :: "string option"
  l_task_id :: "string option"
  l_event_type :: string
  l_evidence_category :: string
  l_severity :: severity
  l_status :: string
  l_changed :: bool
  l_return_code :: "int option"
  l_retry_count :: int
  l_failure_classification :: "string option"
  l_command_description :: "string option"
  l_before_value :: json
  l_after_value :: json
  l_stdout :: string
  l_stderr :: string
  l_raw_output :: string
  l_source :: string
  l_truncated :: bool
  l_original_bytes :: int
  l_redacted :: bool
  l_simulated :: bool
  l_externally_processed :: bool
  l_reboot_relevance :: string
  l_remediation_relevance :: string
  l_correlation_ids :: "(string, string) dict"

record execution_phase =
  ph_name :: string
  ph_state :: string
  ph_summary :: string
  ph_output :: string
  ph_changed :: bool

record execution_result =
  er_success :: bool
  er_summary :: string
  er_changed :: bool
  er_reboot_performed :: bool
  er_phases :: "execution_phase list"
  er_events :: "structured_log_event list"
  er_failure_actions_taken :: "string list"

record snapshot_operation_result =
  so_success :: bool
  so_external_snapshot_id :: "string option"
  so_summary :: string
  so_events :: "structured_log_event list"

record snapshot_health_result =
  sh_healthy :: bool
  sh_summary :: string
  sh_checks :: "(string, string) dict"
  sh_events :: "structured_log_event list"

record rollback_snapshot =
  rs_id :: string
  rs_host_id :: string
  rs_remediation_id :: string
  rs_provider :: snapshot_platform
  rs_external_snapshot_id :: "string option"
  rs_state :: rollback_snapshot_state
  rs_delete_after :: "datetime option"
  rs_created_at :: datetime
  rs_updated_at :: datetime
  rs_failure_summary :: "string option"
  rs_health_check_result :: "(string, string) dict"

subsection \<open>Remediations, scans, campaigns, jobs\<close>

record remediation =
  r_id :: string
  r_host_id :: string
  r_scan_id :: "string option"
  r_title :: string
  r_action_type :: string
  r_update_scope :: string
  r_risk_level :: severity
  r_ai_decision :: ai_decision
  r_reboot_assessment :: reboot_assessment
  r_rollout_policy :: rollout_policy
  r_failure_policy :: failure_policy
  r_execution_timing :: string
  r_maintenance_window :: "maintenance_window option"
  r_approval_scope :: string
  r_approval_state :: string
  r_reboot_approval_state :: string
  r_execution_state :: string
  r_plan_version :: int
  r_plan_hash :: string
  r_approved_by :: "string option"
  r_approved_at :: "datetime option"
  r_approved_plan_version :: "int option"
  r_approved_plan_hash :: "string option"
  r_reboot_approved_by :: "string option"
  r_reboot_approved_at :: "datetime option"
  r_reboot_approved_plan_version :: "int option"
  r_reboot_approved_plan_hash :: "string option"
  r_result :: "execution_result option"
  r_pre_change_protection :: details
  r_created_at :: datetime
  r_updated_at :: datetime

record scan_request =
  sq_host_id :: string
  sq_trigger :: string
  sq_idempotency_key :: "string option"

record scan_job =
  s_id :: string
  s_host_id :: string
  s_durable_job_id :: "string option"
  s_snapshot_id :: "string option"
  s_trigger :: string
  s_status :: string
  s_finding_ids :: "string list"
  s_remediation_ids :: "string list"
  s_agent_run_ids :: "string list"
  s_agent_reports :: "agent_report list"
  s_campaign_id :: "string option"
  s_error :: "string option"
  s_created_at :: datetime
  s_updated_at :: datetime

record campaign_request =
  cq_name :: string
  cq_host_ids :: "string list"

record campaign_host_plan =
  hp_id :: string
  hp_campaign_id :: string
  hp_host_id :: string
  hp_hostname :: string
  hp_state :: campaign_host_state
  hp_scan_id :: "string option"
  hp_remediation_id :: "string option"
  hp_plan_version :: "int option"
  hp_plan_hash :: "string option"
  hp_approval_state :: string
  hp_reboot_approval_state :: string
  hp_approved_plan_version :: "int option"
  hp_approved_plan_hash :: "string option"
  hp_approved_by :: "string option"
  hp_approved_at :: "datetime option"
  hp_reboot_approved_by :: "string option"
  hp_reboot_approved_at :: "datetime option"
  hp_reboot_approved_plan_version :: "int option"
  hp_reboot_approved_plan_hash :: "string option"
  hp_job_id :: "string option"
  hp_failure_summary :: "string option"
  hp_created_at :: datetime
  hp_updated_at :: datetime

record patch_campaign =
  c_id :: string
  c_name :: string
  c_host_ids :: "string list"
  c_remediation_ids :: "string list"
  c_hosts :: "campaign_host_plan list"
  c_status :: campaign_status
  c_batch_size :: int
  c_current_batch :: int
  c_total_batches :: int
  c_failure_summary :: "string option"
  c_canceled_by :: "string option"
  c_canceled_at :: "datetime option"
  c_created_at :: datetime
  c_updated_at :: datetime

record job_failure =
  jf_failed_at :: datetime
  jf_attempt :: int
  jf_category :: string
  jf_message :: string
  jf_retryable :: bool

record durable_job =
  j_id :: string
  j_job_type :: string
  j_status :: string
  j_host_id :: "string option"
  j_scan_id :: "string option"
  j_remediation_id :: "string option"
  j_campaign_id :: "string option"
  j_approved_plan_version :: "int option"
  j_approved_plan_hash :: "string option"
  j_approval_scope :: "string option"
  j_idempotency_key :: string
  j_progress_percent :: int
  j_current_phase :: "string option"
  j_attempts :: int
  j_max_attempts :: int
  j_lease_owner :: "string option"
  j_lease_expires_at :: "datetime option"
  j_heartbeat_at :: "datetime option"
  j_last_failure :: "job_failure option"
  j_error :: "string option"
  j_result :: details
  j_created_at :: datetime
  j_started_at :: "datetime option"
  j_completed_at :: "datetime option"
  j_updated_at :: datetime

record alert =
  al_id :: string
  al_severity :: severity
  al_title :: string
  al_message :: string
  al_host_id :: "string option"
  al_job_id :: "string option"
  al_acknowledged :: bool
  al_acknowledged_at :: "datetime option"
  al_created_at :: datetime

record audit_event =
  au_id :: string
  au_actor :: string
  au_action :: string
  au_target_type :: string
  au_target_id :: "string option"
  au_details :: details
  au_created_at :: datetime

record user =
  u_id :: string
  u_username :: string
  u_role :: user_role
  u_created_at :: datetime

record approval_request =
  aq_plan_version :: int
  aq_plan_hash :: string
  aq_hostname_confirmation :: string

end
