(* ===== verification/GateCore.thy ===== *)
theory GateCore
  imports Models
begin

text \<open>
  The vocabulary of \<open>trusted_change.py\<close>: gate codes and reasons, decisions, the content
  a plan's hash covers, and the private checks the gate is built from (catalogue,
  evidence, approval, maintenance window).

  SHA-256 is the parameter \<open>H\<close>, a function from the canonical text to its hex digest;
  the time zone database is the parameter \<open>tz\<close>.
\<close>

subsection \<open>Codes, reasons and decisions\<close>

datatype gate_code =
    ALLOWED
  | PLAN_NOT_PENDING
  | PLAN_NOT_APPROVED
  | PLAN_CONTENT_CHANGED
  | PLAN_VERSION_CHANGED
  | PLAN_HASH_CHANGED
  | PLAN_BINDING_CHANGED
  | PLAN_METADATA_INCOMPLETE
  | HOST_BINDING_INVALID
  | HOSTNAME_MISMATCH
  | EVIDENCE_INCOMPLETE
  | ACTION_NOT_CATALOGED
  | UPDATE_SCOPE_NOT_CATALOGED
  | APPROVAL_SCOPE_INVALID
  | APPROVAL_METADATA_INCOMPLETE
  | REBOOT_NOT_REQUIRED
  | REBOOT_APPROVAL_MISSING
  | REBOOT_APPROVAL_INCOMPLETE
  | REBOOT_POLICY_DENIED
  | HOST_STATE_DRIFT
  | ACTIVE_ROLLBACK_FAILURE
  | DUPLICATE_EXECUTION
  | MAINTENANCE_WINDOW_CLOSED
  | CAMPAIGN_STATE_INVALID
  | CAMPAIGN_BATCH_IN_PROGRESS
  | CAMPAIGN_PLAN_CHANGED
  | CAMPAIGN_NO_APPROVED_HOSTS
  | SNAPSHOT_CONFIGURATION_INCOMPLETE
  | SNAPSHOT_CREATE_FAILED
  | HEALTH_CHECK_FAILED
  | ROLLBACK_REQUIRED
  | ROLLBACK_SUCCEEDED
  | ROLLBACK_FAILED
  | EXECUTION_FAILED
  | EXECUTION_CHANGED_FAILED
  | STALE_EXECUTION_UNCERTAIN

text \<open>The dictionary \<open>_REASONS\<close>; only \<open>ALLOWED\<close> has no entry.\<close>

fun reasons :: "gate_code \<Rightarrow> string option" where
  "reasons ALLOWED = None"
| "reasons PLAN_NOT_PENDING = Some ''Only pending remediations can be approved''"
| "reasons PLAN_NOT_APPROVED = Some ''Execution blocked because the remediation is not approved''"
| "reasons PLAN_CONTENT_CHANGED = Some ''Remediation content changed from the approved plan''"
| "reasons PLAN_VERSION_CHANGED = Some ''Remediation plan version changed after approval''"
| "reasons PLAN_HASH_CHANGED = Some ''Remediation plan hash changed after approval''"
| "reasons PLAN_BINDING_CHANGED = Some ''Remediation plan approval no longer matches the current plan''"
| "reasons PLAN_METADATA_INCOMPLETE = Some ''Remediation plan metadata is incomplete''"
| "reasons HOST_BINDING_INVALID = Some ''Remediation host binding is invalid''"
| "reasons HOSTNAME_MISMATCH = Some ''Typed hostname confirmation does not match''"
| "reasons EVIDENCE_INCOMPLETE = Some ''Approved remediation evidence is incomplete''"
| "reasons ACTION_NOT_CATALOGED = Some ''Execution blocked because the remediation action type is not cataloged''"
| "reasons UPDATE_SCOPE_NOT_CATALOGED = Some ''Execution blocked because the remediation update scope is not cataloged''"
| "reasons APPROVAL_SCOPE_INVALID = Some ''Execution blocked because the approval scope is invalid''"
| "reasons APPROVAL_METADATA_INCOMPLETE = Some ''Remediation approval metadata is incomplete''"
| "reasons REBOOT_NOT_REQUIRED = Some ''This remediation does not require reboot approval''"
| "reasons REBOOT_APPROVAL_MISSING = Some ''Remediation execution requires separate reboot approval''"
| "reasons REBOOT_APPROVAL_INCOMPLETE = Some ''Remediation reboot approval metadata is incomplete''"
| "reasons REBOOT_POLICY_DENIED = Some ''Host policy forbids reboot risk that cannot be excluded''"
| "reasons HOST_STATE_DRIFT = Some ''Host package, service, or reboot state changed after approval''"
| "reasons ACTIVE_ROLLBACK_FAILURE = Some ''Host has an unresolved rollback failure alert and cannot execute remediations''"
| "reasons DUPLICATE_EXECUTION = Some ''This exact remediation plan already has an execution job''"
| "reasons MAINTENANCE_WINDOW_CLOSED = Some ''Remediation is waiting for its maintenance window''"
| "reasons CAMPAIGN_STATE_INVALID = Some ''Campaign cannot execute in its current state''"
| "reasons CAMPAIGN_BATCH_IN_PROGRESS = Some ''Campaign current batch must finish before another batch can start''"
| "reasons CAMPAIGN_PLAN_CHANGED = Some ''The campaign host plan changed and must be reviewed again''"
| "reasons CAMPAIGN_NO_APPROVED_HOSTS = Some ''Campaign has no approved host plans ready to execute''"
| "reasons SNAPSHOT_CONFIGURATION_INCOMPLETE = Some ''Required snapshot protection is incompletely configured''"
| "reasons SNAPSHOT_CREATE_FAILED = Some ''Snapshot creation failed before package changes''"
| "reasons HEALTH_CHECK_FAILED = Some ''Post-change health checks failed''"
| "reasons ROLLBACK_REQUIRED = Some ''Post-change health checks failed and rollback is required''"
| "reasons ROLLBACK_SUCCEEDED = Some ''Post-reboot health checks failed; snapshot rollback completed and human intervention is required.''"
| "reasons ROLLBACK_FAILED = Some ''Post-reboot health checks failed and snapshot rollback failed; human intervention is required.''"
| "reasons EXECUTION_FAILED = Some ''Remediation execution failed''"
| "reasons EXECUTION_CHANGED_FAILED = Some ''Remediation failed after changing host state''"
| "reasons STALE_EXECUTION_UNCERTAIN = Some ''Worker lease expired after mutation may have started; automatic retry is blocked''"

definition reason_text :: "gate_code \<Rightarrow> string" where
  "reason_text c = (case reasons c of Some t \<Rightarrow> t | None \<Rightarrow> [])"

lemma reasons_total: "c \<noteq> ALLOWED \<Longrightarrow> \<exists>t. reasons c = Some t \<and> t \<noteq> []"
  by (cases c) simp_all

record gate_decision =
  gd_allowed :: bool
  gd_code :: gate_code
  gd_message :: string
  gd_category :: string
  gd_retryable :: bool

definition allow :: gate_decision where
  "allow = \<lparr>gd_allowed = True, gd_code = ALLOWED, gd_message = [],
            gd_category = ''safety_validation'', gd_retryable = False\<rparr>"

text \<open>
  \<open>GateDecision.deny(code, message=None, category="safety_validation", retryable=False)\<close>;
  an empty message falls back to the reason, as \<open>message or _REASONS[code]\<close> does. The
  source never denies with \<open>ALLOWED\<close>, so the lookup never raises (\<open>reasons_total\<close>).
\<close>

definition deny :: "gate_code \<Rightarrow> string option \<Rightarrow> string \<Rightarrow> bool \<Rightarrow> gate_decision" where
  "deny c message category retryable =
     \<lparr>gd_allowed = False, gd_code = c,
      gd_message = (if truthy message then or_empty message else reason_text c),
      gd_category = category, gd_retryable = retryable\<rparr>"

abbreviation deny_safety :: "gate_code \<Rightarrow> gate_decision" where
  "deny_safety c \<equiv> deny c None ''safety_validation'' False"

abbreviation deny_approval :: "gate_code \<Rightarrow> gate_decision" where
  "deny_approval c \<equiv> deny c None ''approval_validation'' False"

lemma allow_simps [simp]:
  "gd_allowed allow" "gd_code allow = ALLOWED" "gd_message allow = []"
  by (simp_all add: allow_def)

lemma deny_simps [simp]:
  "\<not> gd_allowed (deny c m k b)" "gd_code (deny c m k b) = c"
  "gd_category (deny c m k b) = k" "gd_retryable (deny c m k b) = b"
  by (simp_all add: deny_def)

lemma deny_neq_allow [simp]: "deny c m k b \<noteq> allow" "allow \<noteq> deny c m k b"
  by (simp_all add: deny_def allow_def)

lemma deny_message_nonempty: "c \<noteq> ALLOWED \<Longrightarrow> gd_message (deny c m k b) \<noteq> []"
  using reasons_total [of c] by (auto simp: deny_def truthy_or_empty reason_text_def)

text \<open>Exceptions of the sources; \<open>GateDenied\<close> is a \<open>ValueError\<close> there.\<close>

datatype exn =
    ValueError string
  | GateDenied gate_decision
  | RuntimeError string
  | NonRetryableJobError string string  \<comment> \<open>message, category\<close>
  | JobLeaseLost
  | ZoneInfoNotFoundError string
  | IntegrityError string
  | ProviderError string
  | OtherError string

subsection \<open>The plan's content and its hash\<close>

definition evidence_json :: "evidence \<Rightarrow> json" where
  "evidence_json e = JObj
     [(''source'', JStr (ev_source e)), (''excerpt'', JStr (ev_excerpt e)),
      (''citation'', JStr (ev_citation e))]"

definition agent_identity_json :: "agent_identity \<Rightarrow> json" where
  "agent_identity_json a = JObj
     [(''name'', JStr (agent_name_text (ai_name a))),
      (''responsibility'', JStr (ai_responsibility a)),
      (''model_tier'', JStr (model_tier_text (ai_model_tier a))),
      (''provider'', JStr (ai_provider a)), (''model'', JStr (ai_model a)),
      (''selection_reason'', JStr (ai_selection_reason a)),
      (''contract_version'', JInt (ai_contract_version a)),
      (''contract_hash'', JStr (ai_contract_hash a))]"

definition ai_decision_json :: "ai_decision \<Rightarrow> json" where
  "ai_decision_json d = JObj
     [(''update_scope'', JStr (ad_update_scope d)),
      (''risk_level'', JStr (severity_text (ad_risk_level d))),
      (''explanation'', JStr (ad_explanation d)), (''status'', JStr (ad_status d)),
      (''supporting_citations'', JList (map JStr (ad_supporting_citations d))),
      (''unresolved_conflicts'', JList (map JStr (ad_unresolved_conflicts d))),
      (''agent_assignments'', JList (map agent_identity_json (ad_agent_assignments d)))]"

text \<open>The reboot assessment without \<open>approved_if_required\<close>, which \<open>_plan_payload\<close> pops.\<close>

definition reboot_json :: "reboot_assessment \<Rightarrow> json" where
  "reboot_json b = JObj
     [(''status'', JStr (rb_status b)), (''rationale'', JStr (rb_rationale b)),
      (''evidence'', JList (map evidence_json (rb_evidence b))),
      (''estimated_downtime_minutes'', JInt (rb_estimated_downtime_minutes b))]"

definition rollout_policy_json :: "rollout_policy \<Rightarrow> json" where
  "rollout_policy_json p = JObj
     [(''strategy'', JStr (ro_strategy p)), (''batch_size'', JInt (ro_batch_size p)),
      (''canary_count'', JInt (ro_canary_count p)), (''rationale'', JStr (ro_rationale p))]"

definition failure_policy_json :: "failure_policy \<Rightarrow> json" where
  "failure_policy_json p = JObj
     [(''stop_remaining_hosts'', JBool (fp_stop_remaining_hosts p)),
      (''notify_operator'', JBool (fp_notify_operator p)),
      (''attempt_predefined_recovery'', JBool (fp_attempt_predefined_recovery p)),
      (''recovery_actions'', JList (map JStr (fp_recovery_actions p)))]"

definition maintenance_window_json :: "maintenance_window \<Rightarrow> json" where
  "maintenance_window_json w = JObj
     [(''timezone'', JStr (mw_timezone w)), (''weekdays'', JList (map JInt (mw_weekdays w))),
      (''start_time'', JStr (mw_start_time w)),
      (''duration_minutes'', JInt (mw_duration_minutes w))]"

fun opt_json :: "('a \<Rightarrow> json) \<Rightarrow> 'a option \<Rightarrow> json" where
  "opt_json f None = JNull"
| "opt_json f (Some x) = f x"

definition plan_payload :: "remediation \<Rightarrow> json" where
  "plan_payload r = JObj
     [(''plan_version'', JInt (r_plan_version r)),
      (''host_id'', JStr (r_host_id r)),
      (''scan_id'', opt_json JStr (r_scan_id r)),
      (''action_type'', JStr (r_action_type r)),
      (''update_scope'', JStr (r_update_scope r)),
      (''risk_level'', JStr (severity_text (r_risk_level r))),
      (''decision'', ai_decision_json (r_ai_decision r)),
      (''reboot'', reboot_json (r_reboot_assessment r)),
      (''rollout'', rollout_policy_json (r_rollout_policy r)),
      (''failure_policy'', failure_policy_json (r_failure_policy r)),
      (''timing'', JStr (r_execution_timing r)),
      (''maintenance_window'', opt_json maintenance_window_json (r_maintenance_window r)),
      (''approval_scope'', JStr (r_approval_scope r)),
      (''pre_change_protection'', JObj (r_pre_change_protection r))]"

definition stable_hash :: "(string \<Rightarrow> string) \<Rightarrow> json \<Rightarrow> string" where
  "stable_hash H v = H (dumps v)"

definition plan_hash :: "(string \<Rightarrow> string) \<Rightarrow> remediation \<Rightarrow> string" where
  "plan_hash H r = stable_hash H (plan_payload r)"

subsection \<open>Catalogue, evidence and approval\<close>

definition supported_action_types :: "string list" where
  "supported_action_types = [''package_upgrade'']"

definition supported_update_scopes :: "string list" where
  "supported_update_scopes = [''security'', ''all'']"

definition reboot_risk :: "remediation \<Rightarrow> bool" where
  "reboot_risk r \<longleftrightarrow> rb_status (r_reboot_assessment r) \<noteq> ''not_expected''"

definition expected_job_scope :: "remediation \<Rightarrow> string" where
  "expected_job_scope r =
     (if reboot_risk r then ''patch_and_reboot_if_required'' else ''patch_only'')"

definition catalog_decision :: "remediation \<Rightarrow> gate_decision" where
  "catalog_decision r =
     (if r_approval_scope r \<noteq> ''patch_only'' then deny_approval APPROVAL_SCOPE_INVALID
      else if r_action_type r \<notin> set supported_action_types
        then deny_approval ACTION_NOT_CATALOGED
      else if r_update_scope r \<notin> set supported_update_scopes
        then deny_approval UPDATE_SCOPE_NOT_CATALOGED
      else allow)"

definition evidence_decision :: "remediation \<Rightarrow> gate_decision" where
  "evidence_decision r =
     (if \<not> truthy (r_scan_id r) \<or> ad_status (r_ai_decision r) \<noteq> ''plan_ready''
         \<or> ad_supporting_citations (r_ai_decision r) = []
      then deny_approval EVIDENCE_INCOMPLETE else allow)"

definition approval_decision ::
  "(string \<Rightarrow> string) \<Rightarrow> remediation \<Rightarrow> host \<Rightarrow> gate_decision" where
  "approval_decision H r h =
     (let catalog = catalog_decision r; evidence = evidence_decision r in
      if r_host_id r \<noteq> h_id h then deny_approval HOST_BINDING_INVALID
      else if \<not> gd_allowed catalog then catalog
      else if \<not> gd_allowed evidence then evidence
      else if r_plan_hash r = [] \<or> r_plan_version r < 1
        then deny_approval PLAN_METADATA_INCOMPLETE
      else if r_plan_hash r \<noteq> plan_hash H r then deny_approval PLAN_CONTENT_CHANGED
      else if r_approval_state r \<noteq> ''approved'' then deny_approval PLAN_NOT_APPROVED
      else if \<not> truthy (r_approved_by r) \<or> r_approved_at r = None
        then deny_approval APPROVAL_METADATA_INCOMPLETE
      else if r_approved_plan_version r \<noteq> Some (r_plan_version r)
            \<or> r_approved_plan_hash r \<noteq> Some (r_plan_hash r)
        then deny_approval PLAN_BINDING_CHANGED
      else if reboot_risk r then
        (if r_reboot_approval_state r \<noteq> ''approved'' then deny_approval REBOOT_APPROVAL_MISSING
         else if \<not> truthy (r_reboot_approved_by r) \<or> r_reboot_approved_at r = None
              \<or> r_reboot_approved_plan_version r \<noteq> Some (r_plan_version r)
              \<or> r_reboot_approved_plan_hash r \<noteq> Some (r_plan_hash r)
              \<or> \<not> rb_approved_if_required (r_reboot_assessment r)
           then deny_approval REBOOT_APPROVAL_INCOMPLETE
         else if pp_reboot_policy (h_patch_policy h) = ''never''
           then deny_safety REBOOT_POLICY_DENIED
         else allow)
      else allow)"

subsection \<open>The maintenance window\<close>

text \<open>
  Time zones: which keys \<open>ZoneInfo\<close> knows, the offset from UTC at an instant, the offset
  a wall-clock time resolves to (\<open>fold = 0\<close>), and the offset the system's own zone
  gives a naive wall-clock time. All in microseconds.
\<close>

record tzdata =
  tz_known :: "string \<Rightarrow> bool"
  tz_offset :: "string \<Rightarrow> int \<Rightarrow> int"
  tz_wall_offset :: "string \<Rightarrow> int \<Rightarrow> int"
  tz_system :: "int \<Rightarrow> int"

definition usec_per_minute :: int where "usec_per_minute = 60000000"
definition usec_per_day :: int where "usec_per_day = 86400000000"

fun instant_of :: "tzdata \<Rightarrow> datetime \<Rightarrow> int" where
  "instant_of tz (Aware t) = t"
| "instant_of tz (Naive t) = t - tz_system tz t"

text \<open>\<open>date.weekday()\<close> of a wall-clock time: Monday is 0, and 1970-01-01 was a Thursday.\<close>

definition weekday :: "int \<Rightarrow> int" where
  "weekday wall = (wall div usec_per_day + 3) mod 7"

definition day_start :: "int \<Rightarrow> int" where
  "day_start wall = (wall div usec_per_day) * usec_per_day"

text \<open>
  \<open>[int(part) for part in start_time.split(":", 1)]\<close> unpacked into two and passed to
  \<open>time(hour, minute)\<close>: \<open>None\<close> where one of the steps raises \<open>ValueError\<close>.
\<close>

definition parse_start :: "string \<Rightarrow> (int \<times> int) option" where
  "parse_start s =
     (case split_once (CHR '':'') s of
        [a, b] \<Rightarrow>
          (case (py_int a, py_int b) of
             (Some hh, Some mm) \<Rightarrow>
               if 0 \<le> hh \<and> hh \<le> 23 \<and> 0 \<le> mm \<and> mm \<le> 59 then Some (hh, mm) else None
           | _ \<Rightarrow> None)
      | _ \<Rightarrow> None)"

definition maintenance_window_is_open ::
  "tzdata \<Rightarrow> remediation \<Rightarrow> datetime \<Rightarrow> exn + bool" where
  "maintenance_window_is_open tz r current =
     (if r_execution_timing r = ''immediate'' then Inr True
      else case r_maintenance_window r of
        None \<Rightarrow> Inr False
      | Some w \<Rightarrow>
          if \<not> tz_known tz (mw_timezone w) then Inl (ZoneInfoNotFoundError (mw_timezone w))
          else
            let now = instant_of tz current;
                local = now + tz_offset tz (mw_timezone w) now
            in if weekday local \<notin> set (mw_weekdays w) then Inr False
               else case parse_start (mw_start_time w) of
                 None \<Rightarrow> Inl (ValueError ''start_time'')
               | Some (hh, mm) \<Rightarrow>
                   let wall = day_start local + (60 * hh + mm) * usec_per_minute;
                       start = wall - tz_wall_offset tz (mw_timezone w) wall
                   in Inr (start \<le> now \<and> now < start + mw_duration_minutes w * usec_per_minute))"

definition campaign_terminal :: "patch_campaign \<Rightarrow> bool" where
  "campaign_terminal c \<longleftrightarrow> c_status c \<in> {CCancelling, CCanceled, CSucceeded, CFailed}"

subsection \<open>What the hash determines\<close>

text \<open>Canonically equal objects with the same distinct keys have equal members.\<close>

lemma canon_obj_sameD:
  assumes eq: "canon (JObj xs) = canon (JObj ys)"
    and keys: "map fst xs = map fst ys" and wf: "dict_wf xs"
  shows "map (canon \<circ> snd) xs = map (canon \<circ> snd) ys"
proof -
  let ?c = "\<lambda>zs. map (map_prod (\<lambda>k. k) canon) zs"
  from eq have "sort_key fst (?c xs) = sort_key fst (?c ys)"
    by simp
  then have "set (sort_key fst (?c xs)) = set (sort_key fst (?c ys))"
    by (rule arg_cong)
  then have sets: "set (?c xs) = set (?c ys)"
    by (simp only: set_sort)
  have fsts: "map fst (?c zs) = map fst zs" for zs :: "(string \<times> json) list"
    by (simp add: comp_def)
  have "map_of (?c xs) = map_of (?c ys)"
    using sets wf keys by (intro map_of_inject_set [THEN iffD2]) (simp_all only: fsts)
  then have *: "map (\<lambda>k. map_of (?c xs) k) (map fst xs) = map (\<lambda>k. map_of (?c ys) k) (map fst ys)"
    using keys by simp
  have get: "map (\<lambda>k. map_of (?c zs) k) (map fst zs) = map (Some \<circ> canon \<circ> snd) zs"
    if "dict_wf zs" for zs
    using that by (auto simp: comp_def map_prod_def map_of_map split_beta)
  have "map (Some \<circ> canon \<circ> snd) xs = map (Some \<circ> canon \<circ> snd) ys"
    using get [of xs] get [of ys] * wf keys by (simp only:)
  then have "map Some (map (canon \<circ> snd) xs) = map Some (map (canon \<circ> snd) ys)"
    by (simp only: map_map comp_assoc)
  then show ?thesis
    by (metis inj_map_eq_map inj_Some)
qed

text \<open>Each member's JSON determines it; a Python enum's value determines the enum.\<close>

named_theorems json_inj \<open>JSON objects determine the records they come from\<close>

lemma evidence_json_inj [json_inj]:
  "canon (evidence_json a) = canon (evidence_json b) \<Longrightarrow> a = b"
  unfolding evidence_json_def by (drule canon_obj_sameD) (auto intro: evidence.equality)

lemma agent_identity_json_inj [json_inj]:
  "canon (agent_identity_json a) = canon (agent_identity_json b) \<Longrightarrow> a = b"
  unfolding agent_identity_json_def
  by (drule canon_obj_sameD)
    (auto simp: agent_name_text_inj model_tier_text_inj intro: agent_identity.equality)

lemma map_evidence_inj:
  "map (canon \<circ> evidence_json) xs = map (canon \<circ> evidence_json) ys \<longleftrightarrow> xs = ys"
  by (rule inj_map_eq_map) (auto simp: inj_def dest: evidence_json_inj)

lemma map_agent_identity_inj:
  "map (canon \<circ> agent_identity_json) xs = map (canon \<circ> agent_identity_json) ys \<longleftrightarrow> xs = ys"
  by (rule inj_map_eq_map) (auto simp: inj_def dest: agent_identity_json_inj)

lemma map_JStr_inj: "map (canon \<circ> JStr) xs = map (canon \<circ> JStr) ys \<longleftrightarrow> xs = ys"
  by (rule inj_map_eq_map) (simp add: inj_def)

lemma map_JInt_inj: "map (canon \<circ> JInt) xs = map (canon \<circ> JInt) ys \<longleftrightarrow> xs = ys"
  by (rule inj_map_eq_map) (simp add: inj_def)

lemma ai_decision_json_inj [json_inj]:
  "canon (ai_decision_json a) = canon (ai_decision_json b) \<Longrightarrow> a = b"
  unfolding ai_decision_json_def
  by (drule canon_obj_sameD)
    (auto simp: map_JStr_inj map_agent_identity_inj severity_text_inj
      intro: ai_decision.equality)

lemma rollout_policy_json_inj [json_inj]:
  "canon (rollout_policy_json a) = canon (rollout_policy_json b) \<Longrightarrow> a = b"
  unfolding rollout_policy_json_def
  by (drule canon_obj_sameD) (auto intro: rollout_policy.equality)

lemma failure_policy_json_inj [json_inj]:
  "canon (failure_policy_json a) = canon (failure_policy_json b) \<Longrightarrow> a = b"
  unfolding failure_policy_json_def
  by (drule canon_obj_sameD) (auto simp: map_JStr_inj intro: failure_policy.equality)

lemma maintenance_window_json_inj [json_inj]:
  "canon (maintenance_window_json a) = canon (maintenance_window_json b) \<Longrightarrow> a = b"
  unfolding maintenance_window_json_def
  by (drule canon_obj_sameD) (auto simp: map_JInt_inj intro: maintenance_window.equality)

lemma reboot_json_eq:
  "canon (reboot_json a) = canon (reboot_json b) \<longleftrightarrow>
     b = a\<lparr>rb_approved_if_required := rb_approved_if_required b\<rparr>"
proof
  assume "canon (reboot_json a) = canon (reboot_json b)"
  then show "b = a\<lparr>rb_approved_if_required := rb_approved_if_required b\<rparr>"
    unfolding reboot_json_def
    by (elim canon_obj_sameD [elim_format])
      (auto simp: map_evidence_inj intro: reboot_assessment.equality)
next
  assume *: "b = a\<lparr>rb_approved_if_required := rb_approved_if_required b\<rparr>"
  show "canon (reboot_json a) = canon (reboot_json b)"
    by (subst *) (simp add: reboot_json_def)
qed

text \<open>
  Two remediations carry the same plan: every field the payload covers agrees, the flag
  \<open>approved_if_required\<close> is ignored, and \<open>pre_change_protection\<close>, a free-form dictionary,
  is compared up to the order of its keys.
\<close>

definition same_plan :: "remediation \<Rightarrow> remediation \<Rightarrow> bool" where
  "same_plan a b \<longleftrightarrow>
     r_plan_version a = r_plan_version b \<and> r_host_id a = r_host_id b \<and>
     r_scan_id a = r_scan_id b \<and> r_action_type a = r_action_type b \<and>
     r_update_scope a = r_update_scope b \<and> r_risk_level a = r_risk_level b \<and>
     r_ai_decision a = r_ai_decision b \<and>
     (r_reboot_assessment a)\<lparr>rb_approved_if_required := False\<rparr> =
       (r_reboot_assessment b)\<lparr>rb_approved_if_required := False\<rparr> \<and>
     r_rollout_policy a = r_rollout_policy b \<and> r_failure_policy a = r_failure_policy b \<and>
     r_execution_timing a = r_execution_timing b \<and>
     r_maintenance_window a = r_maintenance_window b \<and>
     r_approval_scope a = r_approval_scope b \<and>
     canon (JObj (r_pre_change_protection a)) = canon (JObj (r_pre_change_protection b))"

lemma reboot_json_eq_reset:
  "canon (reboot_json a) = canon (reboot_json b) \<longleftrightarrow>
     a\<lparr>rb_approved_if_required := False\<rparr> = b\<lparr>rb_approved_if_required := False\<rparr>"
  unfolding reboot_json_eq by (cases a; cases b) auto

lemma opt_JStr_inj: "canon (opt_json JStr a) = canon (opt_json JStr b) \<longleftrightarrow> a = b"
  by (cases a; cases b) auto

lemma opt_window_inj:
  "canon (opt_json maintenance_window_json a) = canon (opt_json maintenance_window_json b) \<longleftrightarrow>
     a = b"
proof (cases a; cases b)
  fix v w
  assume ab: "a = Some v" "b = Some w"
  then show ?thesis
    using maintenance_window_json_inj [of v w] by auto
qed (simp_all add: maintenance_window_json_def)

lemma canon_plan_payload:
  "canon (plan_payload a) = canon (plan_payload b) \<longleftrightarrow> same_plan a b" (is "?l = ?r")
proof
  assume ?l
  then show ?r
    unfolding plan_payload_def same_plan_def
    by (elim canon_obj_sameD [elim_format])
      (auto simp del: canon.simps(6) opt_json.simps simp: opt_JStr_inj opt_window_inj
        reboot_json_eq_reset severity_text_inj dest: json_inj)
next
  assume ?r
  then have "reboot_json (r_reboot_assessment a) = reboot_json (r_reboot_assessment b)"
    by (cases "r_reboot_assessment a"; cases "r_reboot_assessment b")
      (auto simp: same_plan_def reboot_json_def)
  with \<open>?r\<close> show ?l
    by (simp add: same_plan_def plan_payload_def)
qed

end
