(* ===== verification/GateApproval.thy ===== *)
theory GateApproval
  imports GateCore
begin

text \<open>
  \<open>TrustedChangeGate\<close>, first half: plan reconciliation, the two approvals, the snapshot
  requirement and the execution gates that read them. A gate that returns an updated copy
  of the remediation returns it here in a record beside its decision.
\<close>

subsection \<open>Operations\<close>

record remediation_transition =
  rt_decision :: gate_decision
  rt_remediation :: remediation

record plan_reconciliation =
  pr_decision :: gate_decision
  pr_changed :: bool
  pr_content_changed :: bool
  pr_previous_plan_version :: int
  pr_previous_plan_hash :: string
  pr_remediation :: remediation

record snapshot_decision =
  sd_decision :: gate_decision
  sd_required :: bool

definition job_approval_scope :: "remediation \<Rightarrow> string" where
  "job_approval_scope r = expected_job_scope r"

text \<open>The fields both \<open>reconcile_plan\<close> and \<open>approve_plan\<close> reset for the reboot approval.\<close>

definition clear_reboot_approval :: "remediation \<Rightarrow> remediation" where
  "clear_reboot_approval r = r
     \<lparr>r_reboot_approval_state := (if reboot_risk r then ''pending'' else ''not_required''),
      r_reboot_approved_by := None, r_reboot_approved_at := None,
      r_reboot_approved_plan_version := None, r_reboot_approved_plan_hash := None,
      r_reboot_assessment := (r_reboot_assessment r)\<lparr>rb_approved_if_required := False\<rparr>\<rparr>"

definition content_drifted :: "(string \<Rightarrow> string) \<Rightarrow> remediation \<Rightarrow> bool" where
  "content_drifted H r \<longleftrightarrow> r_plan_hash r \<noteq> plan_hash H r"

definition approval_binding_drifted :: "remediation \<Rightarrow> bool" where
  "approval_binding_drifted r \<longleftrightarrow>
     r_approval_state r = ''approved'' \<and>
     (r_approved_plan_version r \<noteq> Some (r_plan_version r) \<or>
      r_approved_plan_hash r \<noteq> Some (r_plan_hash r))"

definition bump_plan :: "(string \<Rightarrow> string) \<Rightarrow> remediation \<Rightarrow> remediation" where
  "bump_plan H r =
     (let u = r\<lparr>r_plan_version := r_plan_version r + 1\<rparr> in u\<lparr>r_plan_hash := plan_hash H u\<rparr>)"

definition revoke_approval :: "remediation \<Rightarrow> datetime \<Rightarrow> remediation" where
  "revoke_approval r current =
     (let u = clear_reboot_approval
                (r\<lparr>r_approval_state := ''pending'', r_approved_by := None, r_approved_at := None,
                   r_approved_plan_version := None, r_approved_plan_hash := None\<rparr>);
          v = (if r_execution_state u \<notin> {''running'', ''succeeded'', ''failed''}
               then u\<lparr>r_execution_state := ''blocked''\<rparr> else u)
      in v\<lparr>r_updated_at := current\<rparr>)"

definition reconcile_plan ::
  "(string \<Rightarrow> string) \<Rightarrow> remediation \<Rightarrow> datetime \<Rightarrow> plan_reconciliation" where
  "reconcile_plan H r current =
     (let content_changed = content_drifted H r in
      if \<not> content_changed \<and> \<not> approval_binding_drifted r then
        \<lparr>pr_decision = allow, pr_changed = False, pr_content_changed = False,
         pr_previous_plan_version = r_plan_version r, pr_previous_plan_hash = r_plan_hash r,
         pr_remediation = r\<rparr>
      else
        \<lparr>pr_decision =
           (if content_changed
            then deny PLAN_CONTENT_CHANGED
                   (Some ''Remediation approved plan content changed after approval'')
                   ''approval_validation'' False
            else deny PLAN_BINDING_CHANGED (reasons PLAN_BINDING_CHANGED)
                   ''approval_validation'' False),
         pr_changed = True, pr_content_changed = content_changed,
         pr_previous_plan_version = r_plan_version r, pr_previous_plan_hash = r_plan_hash r,
         pr_remediation = revoke_approval (if content_changed then bump_plan H r else r) current\<rparr>)"

abbreviation must_review_again :: "string option" where
  "must_review_again \<equiv> Some ''The remediation plan changed and must be reviewed again''"

definition validate_approval_request ::
  "(string \<Rightarrow> string) \<Rightarrow> host \<Rightarrow> remediation \<Rightarrow> approval_request \<Rightarrow> gate_decision" where
  "validate_approval_request H h r q =
     (if r_host_id r \<noteq> h_id h then deny_approval HOST_BINDING_INVALID
      else if aq_hostname_confirmation q \<noteq> h_name h then deny_approval HOSTNAME_MISMATCH
      else if aq_plan_version q \<noteq> r_plan_version r
        then deny PLAN_VERSION_CHANGED must_review_again ''approval_validation'' False
      else if aq_plan_hash q \<noteq> r_plan_hash r
        then deny PLAN_HASH_CHANGED must_review_again ''approval_validation'' False
      else if r_plan_hash r \<noteq> plan_hash H r
        then deny PLAN_CONTENT_CHANGED must_review_again ''approval_validation'' False
      else allow)"

definition approve_plan ::
  "(string \<Rightarrow> string) \<Rightarrow> remediation \<Rightarrow> host \<Rightarrow> approval_request \<Rightarrow> string \<Rightarrow> datetime \<Rightarrow>
   remediation_transition" where
  "approve_plan H r h q actor current =
     (if r_approval_state r \<noteq> ''pending''
        then \<lparr>rt_decision = deny_approval PLAN_NOT_PENDING, rt_remediation = r\<rparr>
      else let request_decision = validate_approval_request H h r q in
      if \<not> gd_allowed request_decision
        then \<lparr>rt_decision = request_decision, rt_remediation = r\<rparr>
      else if \<not> gd_allowed (catalog_decision r)
        then \<lparr>rt_decision = catalog_decision r, rt_remediation = r\<rparr>
      else if \<not> gd_allowed (evidence_decision r)
        then \<lparr>rt_decision = evidence_decision r, rt_remediation = r\<rparr>
      else
        \<lparr>rt_decision = allow,
         rt_remediation = (clear_reboot_approval
           (r\<lparr>r_approval_state := ''approved'', r_approved_by := Some actor,
              r_approved_at := Some current, r_approved_plan_version := Some (r_plan_version r),
              r_approved_plan_hash := Some (r_plan_hash r)\<rparr>))\<lparr>r_updated_at := current\<rparr>\<rparr>)"

definition approve_reboot ::
  "(string \<Rightarrow> string) \<Rightarrow> remediation \<Rightarrow> host \<Rightarrow> approval_request \<Rightarrow> string \<Rightarrow> datetime \<Rightarrow>
   remediation_transition" where
  "approve_reboot H r h q actor current =
     (if r_approval_state r \<noteq> ''approved'' then
        \<lparr>rt_decision = deny PLAN_NOT_APPROVED
           (Some ''The remediation plan must be approved before reboot approval'')
           ''approval_validation'' False,
         rt_remediation = r\<rparr>
      else let request_decision = validate_approval_request H h r q in
      if \<not> gd_allowed request_decision
        then \<lparr>rt_decision = request_decision, rt_remediation = r\<rparr>
      else if \<not> reboot_risk r
        then \<lparr>rt_decision = deny_approval REBOOT_NOT_REQUIRED, rt_remediation = r\<rparr>
      else if pp_reboot_policy (h_patch_policy h) = ''never'' then
        \<lparr>rt_decision = deny_safety REBOOT_POLICY_DENIED,
         rt_remediation = r\<lparr>r_reboot_approval_state := ''blocked'',
           r_execution_state := ''blocked'', r_updated_at := current\<rparr>\<rparr>
      else
        \<lparr>rt_decision = allow,
         rt_remediation = r\<lparr>r_reboot_approval_state := ''approved'',
           r_reboot_approved_by := Some actor, r_reboot_approved_at := Some current,
           r_reboot_approved_plan_version := Some (r_plan_version r),
           r_reboot_approved_plan_hash := Some (r_plan_hash r),
           r_reboot_assessment := (r_reboot_assessment r)\<lparr>rb_approved_if_required := True\<rparr>,
           r_updated_at := current\<rparr>\<rparr>)"

text \<open>Python's truth value of a decoded JSON value.\<close>

fun json_truthy :: "json \<Rightarrow> bool" where
  "json_truthy JNull = False"
| "json_truthy (JBool b) = b"
| "json_truthy (JInt i) = (i \<noteq> 0)"
| "json_truthy (JStr s) = (s \<noteq> [])"
| "json_truthy (JList js) = (js \<noteq> [])"
| "json_truthy (JObj kvs) = (kvs \<noteq> [])"

definition snapshot_requirement :: "host \<Rightarrow> remediation \<Rightarrow> snapshot_decision" where
  "snapshot_requirement h r =
     (let protection = r_pre_change_protection r;
          planned = ((case dict_get protection ''supported'' of
                        None \<Rightarrow> False | Some v \<Rightarrow> json_truthy v)
                     \<or> dict_get protection ''status'' = Some (JStr ''configured''));
          configured = (h_snapshot_platform h \<noteq> PlatformNone)
      in
      if planned \<and> \<not> configured
        then \<lparr>sd_decision = deny_safety SNAPSHOT_CONFIGURATION_INCOMPLETE, sd_required = True\<rparr>
      else if \<not> reboot_risk r \<or> \<not> (planned \<or> configured)
        then \<lparr>sd_decision = allow, sd_required = False\<rparr>
      else if \<not> truthy (h_snapshot_credential_id h)
            \<or> \<not> (truthy (h_snapshot_target_id h) \<or> h_snapshot_provider_metadata h \<noteq> [])
        then \<lparr>sd_decision = deny_safety SNAPSHOT_CONFIGURATION_INCOMPLETE, sd_required = True\<rparr>
      else \<lparr>sd_decision = allow, sd_required = True\<rparr>)"

definition job_binding_decision ::
  "remediation \<Rightarrow> host \<Rightarrow> durable_job \<Rightarrow> gate_decision" where
  "job_binding_decision r h j =
     (if j_remediation_id j \<noteq> Some (r_id r) \<or> j_host_id j \<noteq> Some (h_id h)
         \<or> j_scan_id j \<noteq> r_scan_id r
        then deny_approval HOST_BINDING_INVALID
      else if j_approval_scope j \<noteq> Some (expected_job_scope r)
        then deny APPROVAL_SCOPE_INVALID (Some ''Durable job approval scope is invalid'')
               ''approval_validation'' False
      else if j_approved_plan_version j \<noteq> Some (r_plan_version r)
        then deny_approval PLAN_VERSION_CHANGED
      else if j_approved_plan_hash j \<noteq> Some (r_plan_hash r)
        then deny_approval PLAN_HASH_CHANGED
      else if r_approved_plan_version r \<noteq> j_approved_plan_version j
        then deny PLAN_BINDING_CHANGED
               (Some ''Approved remediation plan version binding changed'')
               ''approval_validation'' False
      else if r_approved_plan_hash r \<noteq> j_approved_plan_hash j
        then deny PLAN_BINDING_CHANGED
               (Some ''Approved remediation plan hash binding changed'')
               ''approval_validation'' False
      else allow)"

definition execution_eligibility ::
  "(string \<Rightarrow> string) \<Rightarrow> remediation \<Rightarrow> host \<Rightarrow> durable_job option \<Rightarrow> bool \<Rightarrow> gate_decision" where
  "execution_eligibility H r h job active_rollback_failure =
     (if active_rollback_failure then deny_safety ACTIVE_ROLLBACK_FAILURE
      else if \<not> gd_allowed (approval_decision H r h) then approval_decision H r h
      else if \<not> gd_allowed (sd_decision (snapshot_requirement h r))
        then sd_decision (snapshot_requirement h r)
      else case job of None \<Rightarrow> allow | Some j \<Rightarrow> job_binding_decision r h j)"

definition reboot_execution_eligibility ::
  "(string \<Rightarrow> string) \<Rightarrow> remediation \<Rightarrow> host \<Rightarrow> bool \<Rightarrow> gate_decision" where
  "reboot_execution_eligibility H r h reboot_required =
     (if \<not> reboot_required then allow else approval_decision H r h)"

definition duplicate_execution :: "durable_job \<Rightarrow> string option \<Rightarrow> gate_decision" where
  "duplicate_execution existing campaign_id =
     (if j_campaign_id existing \<noteq> campaign_id then deny_approval DUPLICATE_EXECUTION else allow)"

subsection \<open>What the operations leave alone\<close>

lemma same_plan_refl: "same_plan r r"
  by (simp add: same_plan_def)

lemma same_plan_sym: "same_plan a b \<Longrightarrow> same_plan b a"
  by (simp add: same_plan_def)

lemma same_plan_trans: "same_plan a b \<Longrightarrow> same_plan b c \<Longrightarrow> same_plan a c"
  by (simp add: same_plan_def)

lemma plan_hash_same: "same_plan a b \<Longrightarrow> plan_hash H a = plan_hash H b"
  unfolding canon_plan_payload [symmetric] plan_hash_def stable_hash_def dumps_def by simp

text \<open>An equal hash means an equal plan unless the digest collides on these two texts.\<close>

lemma plan_hash_eqD:
  assumes "inj_on H {dumps (plan_payload a), dumps (plan_payload b)}"
    and "plan_hash H a = plan_hash H b"
  shows "same_plan a b"
  using assms unfolding plan_hash_def stable_hash_def canon_plan_payload [symmetric]
  by (intro dumps_inj) (auto dest: inj_onD)

lemma plan_hash_approval_fields [gate_simps]:
  "plan_hash H (r\<lparr>r_approval_state := a\<rparr>) = plan_hash H r"
  "plan_hash H (r\<lparr>r_approved_by := b\<rparr>) = plan_hash H r"
  "plan_hash H (r\<lparr>r_approved_at := c\<rparr>) = plan_hash H r"
  "plan_hash H (r\<lparr>r_approved_plan_version := d\<rparr>) = plan_hash H r"
  "plan_hash H (r\<lparr>r_approved_plan_hash := e\<rparr>) = plan_hash H r"
  "plan_hash H (r\<lparr>r_reboot_approval_state := f\<rparr>) = plan_hash H r"
  "plan_hash H (r\<lparr>r_reboot_approved_by := g\<rparr>) = plan_hash H r"
  "plan_hash H (r\<lparr>r_reboot_approved_at := i\<rparr>) = plan_hash H r"
  "plan_hash H (r\<lparr>r_reboot_approved_plan_version := j\<rparr>) = plan_hash H r"
  "plan_hash H (r\<lparr>r_reboot_approved_plan_hash := k\<rparr>) = plan_hash H r"
  "plan_hash H (r\<lparr>r_execution_state := l\<rparr>) = plan_hash H r"
  "plan_hash H (r\<lparr>r_updated_at := m\<rparr>) = plan_hash H r"
  "plan_hash H (r\<lparr>r_plan_hash := n\<rparr>) = plan_hash H r"
  "plan_hash H (r\<lparr>r_result := p\<rparr>) = plan_hash H r"
  by (simp_all add: plan_hash_def plan_payload_def)

lemma plan_hash_reboot_flag [gate_simps]:
  "plan_hash H (r\<lparr>r_reboot_assessment := (r_reboot_assessment r)\<lparr>rb_approved_if_required := b\<rparr>\<rparr>)
     = plan_hash H r"
  by (simp add: plan_hash_def plan_payload_def reboot_json_def)

lemma plan_hash_clear_reboot [gate_simps]:
  "plan_hash H (clear_reboot_approval r) = plan_hash H r"
  by (rule plan_hash_same) (simp add: clear_reboot_approval_def same_plan_def)

lemma plan_hash_revoke [gate_simps]: "plan_hash H (revoke_approval r t) = plan_hash H r"
  by (rule plan_hash_same)
    (simp add: revoke_approval_def clear_reboot_approval_def same_plan_def Let_def)

lemma clear_reboot_approval_fields [gate_simps]:
  "r_approval_state (clear_reboot_approval r) = r_approval_state r"
  "r_approved_by (clear_reboot_approval r) = r_approved_by r"
  "r_approved_at (clear_reboot_approval r) = r_approved_at r"
  "r_approved_plan_version (clear_reboot_approval r) = r_approved_plan_version r"
  "r_approved_plan_hash (clear_reboot_approval r) = r_approved_plan_hash r"
  "r_plan_version (clear_reboot_approval r) = r_plan_version r"
  "r_plan_hash (clear_reboot_approval r) = r_plan_hash r"
  "r_execution_state (clear_reboot_approval r) = r_execution_state r"
  "r_host_id (clear_reboot_approval r) = r_host_id r"
  "r_reboot_approved_by (clear_reboot_approval r) = None"
  "reboot_risk (clear_reboot_approval r) = reboot_risk r"
  by (simp_all add: clear_reboot_approval_def reboot_risk_def)

lemma revoke_approval_fields [gate_simps]:
  "r_approval_state (revoke_approval r t) = ''pending''"
  "r_approved_by (revoke_approval r t) = None"
  "r_approved_at (revoke_approval r t) = None"
  "r_approved_plan_version (revoke_approval r t) = None"
  "r_approved_plan_hash (revoke_approval r t) = None"
  "r_reboot_approved_by (revoke_approval r t) = None"
  "r_plan_version (revoke_approval r t) = r_plan_version r"
  "r_plan_hash (revoke_approval r t) = r_plan_hash r"
  "r_execution_state (revoke_approval r t) =
     (if r_execution_state r \<in> {''running'', ''succeeded'', ''failed''}
      then r_execution_state r else ''blocked'')"
  by (simp_all add: revoke_approval_def Let_def clear_reboot_approval_fields)

lemma bump_plan_fields [gate_simps]:
  "r_plan_version (bump_plan H r) = r_plan_version r + 1"
  "r_plan_hash (bump_plan H r) = plan_hash H (bump_plan H r)"
  "r_execution_state (bump_plan H r) = r_execution_state r"
  by (simp_all add: bump_plan_def Let_def gate_simps)

subsection \<open>The approval decision as one condition\<close>

definition cataloged :: "remediation \<Rightarrow> bool" where
  "cataloged r \<longleftrightarrow> r_approval_scope r = ''patch_only'' \<and> r_action_type r = ''package_upgrade'' \<and>
     r_update_scope r \<in> {''security'', ''all''}"

definition evidenced :: "remediation \<Rightarrow> bool" where
  "evidenced r \<longleftrightarrow> truthy (r_scan_id r) \<and> ad_status (r_ai_decision r) = ''plan_ready'' \<and>
     ad_supporting_citations (r_ai_decision r) \<noteq> []"

definition plan_approved :: "(string \<Rightarrow> string) \<Rightarrow> remediation \<Rightarrow> bool" where
  "plan_approved H r \<longleftrightarrow>
     r_plan_hash r \<noteq> [] \<and> 1 \<le> r_plan_version r \<and> r_plan_hash r = plan_hash H r \<and>
     r_approval_state r = ''approved'' \<and> truthy (r_approved_by r) \<and> r_approved_at r \<noteq> None \<and>
     r_approved_plan_version r = Some (r_plan_version r) \<and>
     r_approved_plan_hash r = Some (r_plan_hash r)"

definition reboot_approved :: "remediation \<Rightarrow> host \<Rightarrow> bool" where
  "reboot_approved r h \<longleftrightarrow>
     r_reboot_approval_state r = ''approved'' \<and> truthy (r_reboot_approved_by r) \<and>
     r_reboot_approved_at r \<noteq> None \<and>
     r_reboot_approved_plan_version r = Some (r_plan_version r) \<and>
     r_reboot_approved_plan_hash r = Some (r_plan_hash r) \<and>
     rb_approved_if_required (r_reboot_assessment r) \<and>
     pp_reboot_policy (h_patch_policy h) \<noteq> ''never''"

definition job_bound :: "remediation \<Rightarrow> host \<Rightarrow> durable_job \<Rightarrow> bool" where
  "job_bound r h j \<longleftrightarrow>
     j_remediation_id j = Some (r_id r) \<and> j_host_id j = Some (h_id h) \<and>
     j_scan_id j = r_scan_id r \<and> j_approval_scope j = Some (job_approval_scope r) \<and>
     j_approved_plan_version j = Some (r_plan_version r) \<and>
     j_approved_plan_hash j = Some (r_plan_hash r) \<and>
     r_approved_plan_version r = j_approved_plan_version j \<and>
     r_approved_plan_hash r = j_approved_plan_hash j"

lemma catalog_decision_iff: "gd_allowed (catalog_decision r) \<longleftrightarrow> cataloged r"
  by (simp add: catalog_decision_def cataloged_def supported_action_types_def
      supported_update_scopes_def)

lemma evidence_decision_iff: "gd_allowed (evidence_decision r) \<longleftrightarrow> evidenced r"
  by (simp add: evidence_decision_def evidenced_def)

lemma approval_decision_iff:
  "gd_allowed (approval_decision H r h) \<longleftrightarrow>
     r_host_id r = h_id h \<and> cataloged r \<and> evidenced r \<and> plan_approved H r \<and>
     (reboot_risk r \<longrightarrow> reboot_approved r h)"
  unfolding approval_decision_def Let_def catalog_decision_iff evidence_decision_iff
  by (auto simp: plan_approved_def reboot_approved_def catalog_decision_iff
      evidence_decision_iff split: if_splits)

lemma job_binding_decision_iff: "gd_allowed (job_binding_decision r h j) \<longleftrightarrow> job_bound r h j"
  by (auto simp: job_binding_decision_def job_bound_def job_approval_scope_def)

lemma validate_approval_request_iff:
  "gd_allowed (validate_approval_request H h r q) \<longleftrightarrow>
     r_host_id r = h_id h \<and> aq_hostname_confirmation q = h_name h \<and>
     aq_plan_version q = r_plan_version r \<and> aq_plan_hash q = r_plan_hash r \<and>
     r_plan_hash r = plan_hash H r"
  by (simp add: validate_approval_request_def)

lemmas gate_iffs = catalog_decision_iff evidence_decision_iff approval_decision_iff
  job_binding_decision_iff validate_approval_request_iff

lemma catalog_fields [gate_simps]:
  "cataloged (clear_reboot_approval r) = cataloged r"
  "evidenced (clear_reboot_approval r) = evidenced r"
  "r_pre_change_protection (clear_reboot_approval r) = r_pre_change_protection r"
  by (simp_all add: cataloged_def evidenced_def clear_reboot_approval_def)

lemma snapshot_requirement_cong:
  "r_pre_change_protection a = r_pre_change_protection b \<Longrightarrow> reboot_risk a = reboot_risk b \<Longrightarrow>
     snapshot_requirement h a = snapshot_requirement h b"
  by (simp only: snapshot_requirement_def)

end
