(* ===== verification/Fixtures.thy ===== *)
theory Fixtures
  imports GateApproval
begin

text \<open>
  Concrete values the witnesses evaluate on: a Debian host with a snapshot provider, a plan
  that needs a reboot and one that does not, each pending and with a hash that matches its
  content, and the request an operator sends after reading the plan.
\<close>

definition sample_window :: maintenance_window where
  "sample_window = \<lparr>mw_timezone = ''UTC'', mw_weekdays = [0, 1, 2, 3, 4, 5, 6],
     mw_start_time = ''02:00'', mw_duration_minutes = 120\<rparr>"

definition sample_policy :: patch_policy where
  "sample_policy = \<lparr>pp_update_mode = ''orchestrator_decides'', pp_execution_timing = ''immediate'',
     pp_maintenance_window = None, pp_max_batch_size = 5, pp_canary_count = 1,
     pp_reboot_policy = ''if_required''\<rparr>"

definition sample_host :: host where
  "sample_host = \<lparr>h_name = ''web-1'', h_address = ''10.0.0.5'', h_port = 22,
     h_username = ''admin'', h_distro_family = ''debian'', h_environment = ''prod'', h_tags = [],
     h_criticality = ''normal'', h_availability_class = ''standard'',
     h_credential_id = Some ''cred-1'', h_ssh_host_key_fingerprint = None,
     h_snapshot_platform = Proxmox, h_snapshot_credential_id = Some ''cred-2'',
     h_snapshot_target_id = Some ''vm-100'', h_snapshot_provider_metadata = [],
     h_critical_service_name = None, h_health_check_url = None, h_snapshot_retention_days = 7,
     h_patch_policy = sample_policy, h_id = ''host-1'', h_connection_status = ''ok'',
     h_created_at = Aware 0, h_updated_at = Aware 0\<rparr>"

definition sample_plan_base :: "string \<Rightarrow> remediation" where
  "sample_plan_base reboot = \<lparr>r_id = ''rem-1'', r_host_id = ''host-1'', r_scan_id = Some ''scan-1'',
     r_title = ''Apply updates'', r_action_type = ''package_upgrade'',
     r_update_scope = ''security'', r_risk_level = SevMedium,
     r_ai_decision = \<lparr>ad_update_scope = ''security'', ad_risk_level = SevMedium,
       ad_explanation = ''pending'', ad_status = ''plan_ready'',
       ad_supporting_citations = [''commands.apt''], ad_unresolved_conflicts = [],
       ad_agent_assignments = []\<rparr>,
     r_reboot_assessment = \<lparr>rb_status = reboot, rb_rationale = ''kernel'', rb_evidence = [],
       rb_estimated_downtime_minutes = 5, rb_approved_if_required = False\<rparr>,
     r_rollout_policy = \<lparr>ro_strategy = ''one_at_a_time'', ro_batch_size = 1,
       ro_canary_count = 1, ro_rationale = []\<rparr>,
     r_failure_policy = \<lparr>fp_stop_remaining_hosts = True, fp_notify_operator = True,
       fp_attempt_predefined_recovery = True, fp_recovery_actions = []\<rparr>,
     r_execution_timing = ''immediate'', r_maintenance_window = None,
     r_approval_scope = ''patch_only'', r_approval_state = ''pending'',
     r_reboot_approval_state = ''pending'', r_execution_state = ''blocked'',
     r_plan_version = 1, r_plan_hash = [], r_approved_by = None, r_approved_at = None,
     r_approved_plan_version = None, r_approved_plan_hash = None,
     r_reboot_approved_by = None, r_reboot_approved_at = None,
     r_reboot_approved_plan_version = None, r_reboot_approved_plan_hash = None,
     r_result = None, r_pre_change_protection = [], r_created_at = Aware 0,
     r_updated_at = Aware 0\<rparr>"

definition sample_plan :: "(string \<Rightarrow> string) \<Rightarrow> string \<Rightarrow> remediation" where
  "sample_plan H reboot =
     (sample_plan_base reboot)\<lparr>r_plan_hash := plan_hash H (sample_plan_base reboot)\<rparr>"

definition sample_request :: "(string \<Rightarrow> string) \<Rightarrow> string \<Rightarrow> approval_request" where
  "sample_request H reboot = \<lparr>aq_plan_version = 1,
     aq_plan_hash = plan_hash H (sample_plan_base reboot), aq_hostname_confirmation = ''web-1''\<rparr>"

text \<open>A digest that is never empty.\<close>

definition sample_digest :: "string \<Rightarrow> string" where
  "sample_digest s = CHR ''h'' # s"

lemma sample_digest_inj: "inj_on sample_digest A"
  by (simp add: inj_on_def sample_digest_def)

lemma sample_plan_hash: "plan_hash H (sample_plan H b) = r_plan_hash (sample_plan H b)"
  by (simp add: sample_plan_def gate_simps)

lemma sample_hash_nonempty: "plan_hash sample_digest r \<noteq> []"
  by (simp add: plan_hash_def stable_hash_def sample_digest_def)

lemmas sample_defs = sample_host_def sample_policy_def sample_plan_def sample_plan_base_def
  sample_request_def

end
