(* ===== verification/GateProperties.thy ===== *)
theory GateProperties
  imports Fixtures
begin

text \<open>
  What the approval half of the gate guarantees: what a plan hash pins down, when a plan is
  eligible for execution, what reconciliation restores, and that the plan an operator
  approved is the only one that can run.
\<close>

subsection \<open>The plan hash\<close>

text \<open>Two remediations have the same plan hash exactly when every field the payload
  covers agrees (version, host, scan, action, scope, risk, the AI decision with its agents,
  the reboot assessment up to its approval flag, rollout, failure policy, timing, window,
  approval scope, protection up to key order), provided the digest does not collide on the
  two canonical texts.\<close>

theorem plan_hash_binds_content:
  assumes "inj_on H {dumps (plan_payload a), dumps (plan_payload b)}"
  shows "plan_hash H a = plan_hash H b \<longleftrightarrow> same_plan a b"
  using plan_hash_eqD [OF assms] plan_hash_same by blast

lemma plan_hash_binds_content_witness:
  "plan_hash sample_digest (sample_plan_base ''required'')
     \<noteq> plan_hash sample_digest ((sample_plan_base ''required'')\<lparr>r_update_scope := ''all''\<rparr>)"
proof -
  have "\<not> same_plan (sample_plan_base ''required'')
          ((sample_plan_base ''required'')\<lparr>r_update_scope := ''all''\<rparr>)"
    by (simp add: same_plan_def sample_plan_base_def)
  then show ?thesis
    by (simp only: plan_hash_binds_content [OF sample_digest_inj] not_False_eq_True)
qed

subsection \<open>Reconciliation\<close>

definition plan_settled :: "(string \<Rightarrow> string) \<Rightarrow> remediation \<Rightarrow> bool" where
  "plan_settled H r \<longleftrightarrow> \<not> content_drifted H r \<and> \<not> approval_binding_drifted r"

lemma reconcile_settled: "plan_settled H r \<Longrightarrow> pr_remediation (reconcile_plan H r t) = r"
  by (simp add: reconcile_plan_def plan_settled_def)

lemma reconcile_changed_iff: "pr_changed (reconcile_plan H r t) \<longleftrightarrow> \<not> plan_settled H r"
  by (simp add: reconcile_plan_def plan_settled_def Let_def)

lemma reconcile_result_settled: "plan_settled H (pr_remediation (reconcile_plan H r t))"
  by (simp add: reconcile_plan_def plan_settled_def content_drifted_def
      approval_binding_drifted_def Let_def gate_simps)

text \<open>Reconciliation settles the plan in one step: in its result the stored hash is the
  hash of the content and an approval, if any, is bound to that version and hash, so a second
  reconciliation at any later time allows it and changes nothing.\<close>

theorem reconcile_plan_idempotent:
  "let once = pr_remediation (reconcile_plan H r t); again = reconcile_plan H once t' in
     r_plan_hash once = plan_hash H once \<and> gd_allowed (pr_decision again) \<and>
     \<not> pr_changed again \<and> pr_remediation again = once"
proof -
  let ?once = "pr_remediation (reconcile_plan H r t)"
  have s: "plan_settled H ?once" by (rule reconcile_result_settled)
  then have "gd_allowed (pr_decision (reconcile_plan H ?once t'))"
    by (simp add: reconcile_plan_def plan_settled_def)
  with s show ?thesis
    by (simp add: Let_def reconcile_settled reconcile_changed_iff plan_settled_def
        content_drifted_def)
qed

text \<open>C11: Reconciling a plan whose content no longer matches its hash, or whose approval is
  bound to another version or hash, denies it, withdraws both approvals, raises the version
  exactly when the content changed, and the result is not eligible for execution for any
  host, job or alert state.\<close>

theorem reconcile_plan_revokes:
  assumes "r_plan_hash r \<noteq> plan_hash H r \<or> approval_binding_drifted r"
  shows "let p = reconcile_plan H r t; r' = pr_remediation p in
    \<not> gd_allowed (pr_decision p) \<and> r_approval_state r' = ''pending'' \<and>
    r_approved_by r' = None \<and> r_reboot_approved_by r' = None \<and>
    r_plan_version r' =
      (if r_plan_hash r \<noteq> plan_hash H r then r_plan_version r + 1 else r_plan_version r) \<and>
    (r_execution_state r' = r_execution_state r \<or> r_execution_state r' = ''blocked'') \<and>
    \<not> gd_allowed (execution_eligibility H r' h job arf)"
proof -
  have elig: "\<not> gd_allowed (execution_eligibility H (revoke_approval u t) h job arf)" for u
    by (simp add: execution_eligibility_def approval_decision_iff plan_approved_def gate_simps)
  show ?thesis
    using assms by (simp add: reconcile_plan_def Let_def content_drifted_def elig gate_simps)
qed

lemma reconcile_plan_revokes_witness:
  "\<not> gd_allowed (pr_decision (reconcile_plan sample_digest (sample_plan_base ''required'') (Aware 0)))"
  using reconcile_plan_revokes [of "sample_plan_base ''required''" sample_digest "Aware 0"]
    sample_hash_nonempty [of "sample_plan_base ''required''"]
  by (simp add: Let_def sample_plan_base_def)

subsection \<open>Eligibility\<close>

lemma eligible_iff:
  "gd_allowed (execution_eligibility H r h job arf) \<longleftrightarrow>
     \<not> arf \<and> gd_allowed (approval_decision H r h) \<and>
     gd_allowed (sd_decision (snapshot_requirement h r)) \<and> pred_option (job_bound r h) job"
  by (auto simp: execution_eligibility_def gate_iffs split: option.splits)

text \<open>Execution is allowed exactly when the host has no unresolved rollback failure, the
  plan belongs to the host, is cataloged and evidenced, carries an operator's approval of
  this very version and content, carries the reboot approval of the same version and content
  (and a host policy that permits it) when a reboot cannot be excluded, its snapshot
  protection is completely configured, and the durable job, if there is one, is bound to the
  same remediation, host, scan, scope, version and hash.\<close>

theorem execution_eligibility_iff:
  "gd_allowed (execution_eligibility H r h job arf) \<longleftrightarrow>
     \<not> arf \<and> r_host_id r = h_id h \<and> cataloged r \<and> evidenced r \<and> plan_approved H r \<and>
     (reboot_risk r \<longrightarrow> reboot_approved r h) \<and>
     gd_allowed (sd_decision (snapshot_requirement h r)) \<and>
     pred_option (job_bound r h) job"
  by (auto simp: execution_eligibility_def gate_iffs split: option.splits)

subsection \<open>From review to execution\<close>

lemma plan_update_simps:
  "reboot_risk (r\<lparr>r_approval_state := a, r_approved_by := b, r_approved_at := c,
     r_approved_plan_version := d, r_approved_plan_hash := e\<rparr>) = reboot_risk r"
  "cataloged (r\<lparr>r_approval_state := a, r_approved_by := b, r_approved_at := c,
     r_approved_plan_version := d, r_approved_plan_hash := e\<rparr>) = cataloged r"
  "evidenced (r\<lparr>r_approval_state := a, r_approved_by := b, r_approved_at := c,
     r_approved_plan_version := d, r_approved_plan_hash := e\<rparr>) = evidenced r"
  "reboot_risk (r\<lparr>r_updated_at := f\<rparr>) = reboot_risk r"
  "cataloged (r\<lparr>r_updated_at := f\<rparr>) = cataloged r"
  "evidenced (r\<lparr>r_updated_at := f\<rparr>) = evidenced r"
  by (simp_all add: reboot_risk_def cataloged_def evidenced_def)

lemma approve_plan_result:
  assumes "gd_allowed (rt_decision (approve_plan H r h q actor t))"
  shows "r_approval_state r = ''pending''"
    and "gd_allowed (validate_approval_request H h r q)" "cataloged r" "evidenced r"
    and "rt_remediation (approve_plan H r h q actor t) = (clear_reboot_approval
           (r\<lparr>r_approval_state := ''approved'', r_approved_by := Some actor,
              r_approved_at := Some t, r_approved_plan_version := Some (r_plan_version r),
              r_approved_plan_hash := Some (r_plan_hash r)\<rparr>))\<lparr>r_updated_at := t\<rparr>"
  using assms
  by (auto simp: approve_plan_def Let_def gate_iffs split: if_splits)

lemma approve_reboot_allowed:
  assumes "gd_allowed (rt_decision (approve_reboot H r h q actor t))"
  shows "r_approval_state r = ''approved''" "gd_allowed (validate_approval_request H h r q)"
    "reboot_risk r" "pp_reboot_policy (h_patch_policy h) \<noteq> ''never''"
  using assms unfolding approve_reboot_def Let_def
  by (cases "r_approval_state r = ''approved''"; cases "gd_allowed (validate_approval_request H h r q)";
      cases "reboot_risk r"; cases "pp_reboot_policy (h_patch_policy h) = ''never''"; simp)+

lemma approve_reboot_result:
  assumes "gd_allowed (rt_decision (approve_reboot H r h q actor t))"
  shows "rt_remediation (approve_reboot H r h q actor t) =
         r\<lparr>r_reboot_approval_state := ''approved'',
           r_reboot_approved_by := Some actor, r_reboot_approved_at := Some t,
           r_reboot_approved_plan_version := Some (r_plan_version r),
           r_reboot_approved_plan_hash := Some (r_plan_hash r),
           r_reboot_assessment := (r_reboot_assessment r)\<lparr>rb_approved_if_required := True\<rparr>,
           r_updated_at := t\<rparr>"
  using approve_reboot_allowed [OF assms] by (simp add: approve_reboot_def)

lemma plan_hash_reboot_approved:
  "plan_hash H (r\<lparr>r_reboot_approval_state := a, r_reboot_approved_by := b,
     r_reboot_approved_at := c, r_reboot_approved_plan_version := d,
     r_reboot_approved_plan_hash := e,
     r_reboot_assessment := (r_reboot_assessment r)\<lparr>rb_approved_if_required := f\<rparr>\<rparr>) =
   plan_hash H r"
  by (rule plan_hash_same) (simp add: same_plan_def)

lemma approve_plan_keeps_plan: "same_plan (rt_remediation (approve_plan H r h q actor t)) r"
  by (auto simp: approve_plan_def Let_def same_plan_def clear_reboot_approval_def)

lemma approve_reboot_keeps_plan: "same_plan (rt_remediation (approve_reboot H r h q actor t)) r"
  by (auto simp: approve_reboot_def Let_def same_plan_def)

text \<open>C2: What runs is what the operator reviewed. Once an approval request was accepted,
  any later version of any remediation that is eligible for execution and carries the hash
  the operator sent has exactly the plan content that was reviewed (the digest not colliding
  on the two canonical texts), whatever else happened to the record in between.\<close>

theorem eligible_plan_was_reviewed:
  assumes "gd_allowed (rt_decision (approve_plan H r h q actor t))"
    and "gd_allowed (execution_eligibility H r' h' job arf)"
    and "r_approved_plan_hash r' = Some (aq_plan_hash q)"
    and "inj_on H {dumps (plan_payload r'), dumps (plan_payload r)}"
  shows "same_plan r' r"
proof -
  from approve_plan_result(2) [OF assms(1)] have "aq_plan_hash q = plan_hash H r"
    by (simp add: gate_iffs)
  moreover from assms(2) have "r_plan_hash r' = plan_hash H r'"
      "r_approved_plan_hash r' = Some (r_plan_hash r')"
    by (auto simp: execution_eligibility_def gate_iffs plan_approved_def split: if_splits)
  ultimately show ?thesis
    using assms(3,4) by (intro plan_hash_eqD) auto
qed

lemma sample_approval_accepted:
  "gd_allowed (rt_decision (approve_plan sample_digest (sample_plan sample_digest b) sample_host
     (sample_request sample_digest b) ''op'' t))"
  by (simp add: approve_plan_def Let_def gate_iffs cataloged_def evidenced_def sample_plan_hash)
    (simp add: sample_defs gate_simps)

lemma sample_approved_eligible:
  "gd_allowed (execution_eligibility sample_digest
     (rt_remediation (approve_plan sample_digest (sample_plan sample_digest ''not_expected'')
        sample_host (sample_request sample_digest ''not_expected'') ''op'' t))
     sample_host None False)"
  unfolding approve_plan_result(5) [OF sample_approval_accepted]
  by (simp add: execution_eligibility_def approval_decision_iff plan_approved_def gate_simps
      sample_plan_hash sample_hash_nonempty)
    (simp add: sample_defs gate_simps sample_hash_nonempty cataloged_def evidenced_def
      reboot_risk_def clear_reboot_approval_def snapshot_requirement_def)

lemma sample_approved_hash:
  "r_approved_plan_hash (rt_remediation (approve_plan sample_digest (sample_plan sample_digest b)
     sample_host (sample_request sample_digest b) ''op'' t)) =
   Some (aq_plan_hash (sample_request sample_digest b))"
  unfolding approve_plan_result(5) [OF sample_approval_accepted]
  by (simp add: sample_plan_def sample_request_def gate_simps)

lemma execution_eligibility_iff_witness:
  "plan_approved sample_digest (rt_remediation (approve_plan sample_digest
     (sample_plan sample_digest ''not_expected'') sample_host
     (sample_request sample_digest ''not_expected'') ''op'' (Aware 7)))"
  using execution_eligibility_iff [of sample_digest _ sample_host None False]
    sample_approved_eligible [of "Aware 7"] by blast

lemma eligible_plan_was_reviewed_witness:
  "same_plan (rt_remediation (approve_plan sample_digest
       (sample_plan sample_digest ''not_expected'') sample_host
       (sample_request sample_digest ''not_expected'') ''op'' (Aware 7)))
     (sample_plan sample_digest ''not_expected'')"
  by (rule eligible_plan_was_reviewed
      [OF sample_approval_accepted sample_approved_eligible sample_approved_hash
        sample_digest_inj])

text \<open>C12: The two approvals suffice. A plan approved by a named operator, and for a plan
  that may reboot then approved for reboot too, is eligible for execution on its host,
  with any durable job created from it as bound to that version, hash and scope, as long as
  the snapshot protection is configured and no rollback failure is open.\<close>

theorem approvals_make_eligible:
  assumes plan: "gd_allowed (rt_decision (approve_plan H r h q actor t))"
    and named: "actor \<noteq> []" "actor' \<noteq> []" and version: "1 \<le> r_plan_version r" "r_plan_hash r \<noteq> []"
    and r1: "r1 = rt_remediation (approve_plan H r h q actor t)"
    and reboot: "if reboot_risk r
       then gd_allowed (rt_decision (approve_reboot H r1 h q' actor' t')) \<and>
            r2 = rt_remediation (approve_reboot H r1 h q' actor' t')
       else r2 = r1"
    and snap: "gd_allowed (sd_decision (snapshot_requirement h r))"
    and job: "pred_option (job_bound r2 h) job"
  shows "gd_allowed (execution_eligibility H r2 h job False)"
proof -
  note ok = approve_plan_result [OF plan]
  have r1': "plan_approved H r1" "cataloged r1" "evidenced r1" "r_host_id r1 = h_id h"
      "reboot_risk r1 = reboot_risk r" "r_pre_change_protection r1 = r_pre_change_protection r"
    using ok(2-4) named version unfolding r1 ok(5)
    by (simp_all add: plan_approved_def gate_iffs gate_simps plan_update_simps)
  then have snap1: "gd_allowed (sd_decision (snapshot_requirement h r1))"
    using snap snapshot_requirement_cong [of r1 r h] by simp
  show ?thesis
  proof (cases "reboot_risk r")
    case False
    with r1' reboot snap1 job show ?thesis
      by (simp add: eligible_iff approval_decision_iff)
  next
    case True
    with reboot have rb: "gd_allowed (rt_decision (approve_reboot H r1 h q' actor' t'))"
      and r2: "r2 = rt_remediation (approve_reboot H r1 h q' actor' t')" by auto
    from r1'(1) have "plan_approved H r2"
      unfolding r2 approve_reboot_result [OF rb]
      by (auto simp: plan_approved_def gate_simps plan_hash_reboot_approved)
    moreover have "reboot_approved r2 h" "cataloged r2" "evidenced r2" "r_host_id r2 = h_id h"
        "r_pre_change_protection r2 = r_pre_change_protection r1" "reboot_risk r2 = reboot_risk r1"
      using r1' named approve_reboot_allowed [OF rb] unfolding r2 approve_reboot_result [OF rb]
      by (simp_all add: reboot_approved_def cataloged_def evidenced_def reboot_risk_def)
    ultimately show ?thesis
      using snap1 job snapshot_requirement_cong [of r2 r1 h] by (simp add: eligible_iff approval_decision_iff)
  qed
qed

abbreviation sample_approved :: remediation where
  "sample_approved \<equiv> rt_remediation (approve_plan sample_digest
     (sample_plan sample_digest ''required'') sample_host
     (sample_request sample_digest ''required'') ''op'' (Aware 1))"

lemma sample_reboot_accepted:
  "gd_allowed (rt_decision (approve_reboot sample_digest sample_approved sample_host
     (sample_request sample_digest ''required'') ''lead'' (Aware 2)))"
  unfolding approve_plan_result(5) [OF sample_approval_accepted]
  by (simp add: approve_reboot_def gate_simps Let_def gate_iffs sample_plan_hash plan_update_simps)
    (simp add: sample_defs gate_simps reboot_risk_def)

lemma approvals_make_eligible_witness:
  "gd_allowed (execution_eligibility sample_digest
     (rt_remediation (approve_reboot sample_digest sample_approved sample_host
        (sample_request sample_digest ''required'') ''lead'' (Aware 2)))
     sample_host None False)"
proof (rule approvals_make_eligible [OF sample_approval_accepted _ _ _ _ refl])
  show "if reboot_risk (sample_plan sample_digest ''required'')
    then gd_allowed (rt_decision (approve_reboot sample_digest sample_approved sample_host
           (sample_request sample_digest ''required'') ''lead'' (Aware 2))) \<and>
         rt_remediation (approve_reboot sample_digest sample_approved sample_host
           (sample_request sample_digest ''required'') ''lead'' (Aware 2)) =
         rt_remediation (approve_reboot sample_digest sample_approved sample_host
           (sample_request sample_digest ''required'') ''lead'' (Aware 2))
    else rt_remediation (approve_reboot sample_digest sample_approved sample_host
           (sample_request sample_digest ''required'') ''lead'' (Aware 2)) = sample_approved"
    using sample_reboot_accepted by (simp add: sample_defs reboot_risk_def)
qed (simp_all add: sample_defs sample_hash_nonempty snapshot_requirement_def reboot_risk_def)

end
