(* ===== verification/GateCampaign.thy ===== *)
theory GateCampaign
  imports Fixtures
begin

text \<open>
  \<open>TrustedChangeGate\<close>, campaigns: the binding of a host plan to its remediation, the
  selection and start of a batch, and the projection that recomputes a campaign from the
  remediations and jobs of its hosts. A loop that mutates the host plans of a deep copy is
  a map over them.
\<close>

subsection \<open>Batches\<close>

record campaign_batch_decision =
  cb_decision :: gate_decision
  cb_host_ids :: "string list"
  cb_plan_changed_host_ids :: "string list"

definition campaign_plan_binding ::
  "(string \<Rightarrow> string) \<Rightarrow> campaign_host_plan \<Rightarrow> remediation \<Rightarrow> gate_decision" where
  "campaign_plan_binding H hp r =
     (if r_host_id r \<noteq> hp_host_id hp then deny_approval HOST_BINDING_INVALID
      else if hp_plan_version hp \<noteq> Some (r_plan_version r)
            \<or> hp_plan_hash hp \<noteq> Some (r_plan_hash r)
            \<or> r_plan_hash r \<noteq> plan_hash H r
        then deny_approval CAMPAIGN_PLAN_CHANGED
      else allow)"

text \<open>\<open>max(1, min(limits))\<close>: \<open>min\<close> of an empty sequence raises.\<close>

definition campaign_rollout_limit :: "host list \<Rightarrow> remediation list \<Rightarrow> exn + int" where
  "campaign_rollout_limit hosts rs =
     (let limits = map (\<lambda>h. pp_max_batch_size (h_patch_policy h)) hosts
                 @ map (\<lambda>r. ro_batch_size (r_rollout_policy r)) rs
      in if limits = [] then Inl (ValueError ''min() iterable argument is empty'')
         else Inr (clamp_min limits))"

definition stop_campaign_after_failure :: "remediation \<Rightarrow> bool" where
  "stop_campaign_after_failure r = fp_stop_remaining_hosts (r_failure_policy r)"

definition plan_of :: "(string, remediation) dict \<Rightarrow> campaign_host_plan \<Rightarrow> remediation option" where
  "plan_of rs hp =
     (if truthy (hp_remediation_id hp) then dict_get rs (or_empty (hp_remediation_id hp)) else None)"

text \<open>The plan of an approved host that is still the one it was bound to.\<close>

definition bound_plan ::
  "(string \<Rightarrow> string) \<Rightarrow> (string, remediation) dict \<Rightarrow> campaign_host_plan \<Rightarrow> remediation option" where
  "bound_plan H rs hp =
     (case plan_of rs hp of
        None \<Rightarrow> None
      | Some r \<Rightarrow> if gd_allowed (campaign_plan_binding H hp r) then Some r else None)"

text \<open>The loop over the hosts: approved hosts, changed hosts, batch limits, canary limits.\<close>

fun collect_batch ::
  "(string \<Rightarrow> string) \<Rightarrow> (string, remediation) dict \<Rightarrow> campaign_host_plan list \<Rightarrow>
   string list \<times> string list \<times> int list \<times> int list" where
  "collect_batch H rs [] = ([], [], [], [])"
| "collect_batch H rs (hp # hps) =
     (let (approved, changed, limits, canaries) = collect_batch H rs hps in
      if hp_state hp \<noteq> HApproved then (approved, changed, limits, canaries)
      else case bound_plan H rs hp of
        None \<Rightarrow> (approved, hp_host_id hp # changed, limits, canaries)
      | Some r \<Rightarrow> (hp_host_id hp # approved, changed,
                    ro_batch_size (r_rollout_policy r) # limits,
                    ro_canary_count (r_rollout_policy r) # canaries))"

definition batch_limit :: "patch_campaign \<Rightarrow> int list \<Rightarrow> int list \<Rightarrow> int" where
  "batch_limit c limits canaries =
     (let limit = clamp_min (c_batch_size c # limits) in
      if c_current_batch c = 0 \<and> canaries \<noteq> [] then min limit (clamp_min canaries) else limit)"

definition campaign_batch ::
  "(string \<Rightarrow> string) \<Rightarrow> patch_campaign \<Rightarrow> (string, remediation) dict \<Rightarrow> campaign_batch_decision" where
  "campaign_batch H c rs =
     (if campaign_terminal c then
        \<lparr>cb_decision = deny_safety CAMPAIGN_STATE_INVALID, cb_host_ids = [],
         cb_plan_changed_host_ids = []\<rparr>
      else if \<exists>hp \<in> set (c_hosts c). hp_state hp \<in> {HScheduled, HQueued, HRunning} then
        \<lparr>cb_decision = deny_safety CAMPAIGN_BATCH_IN_PROGRESS, cb_host_ids = [],
         cb_plan_changed_host_ids = []\<rparr>
      else let (approved, changed, limits, canaries) = collect_batch H rs (c_hosts c) in
        if approved = [] then
          \<lparr>cb_decision = deny_safety CAMPAIGN_NO_APPROVED_HOSTS, cb_host_ids = [],
           cb_plan_changed_host_ids = changed\<rparr>
        else
          \<lparr>cb_decision = allow,
           cb_host_ids = take (nat (batch_limit c limits canaries)) approved,
           cb_plan_changed_host_ids = changed\<rparr>)"

definition start_host ::
  "(string, durable_job) dict \<Rightarrow> datetime \<Rightarrow> campaign_host_plan \<Rightarrow> campaign_host_plan" where
  "start_host jobs current hp =
     (case dict_get jobs (hp_host_id hp) of
        None \<Rightarrow> hp
      | Some j \<Rightarrow> hp\<lparr>hp_job_id := Some (j_id j),
                     hp_state := (if j_status j = ''queued'' then HQueued else HScheduled),
                     hp_updated_at := current\<rparr>)"

definition start_campaign_batch ::
  "patch_campaign \<Rightarrow> (string, durable_job) dict \<Rightarrow> datetime \<Rightarrow> patch_campaign" where
  "start_campaign_batch c jobs current =
     c\<lparr>c_hosts := map (start_host jobs current) (c_hosts c), c_status := CRunning,
       c_current_batch := min (c_total_batches c) (c_current_batch c + 1),
       c_updated_at := current\<rparr>"

subsection \<open>Projection\<close>

text \<open>The dictionary \<open>execution_states\<close>.\<close>

definition execution_states :: "(string, campaign_host_state) dict" where
  "execution_states =
     [(''succeeded'', HSucceeded), (''failed'', HFailed), (''running'', HRunning),
      (''queued'', HQueued), (''waiting_for_window'', HScheduled), (''canceled'', HCanceled)]"

fun remediation_job_is :: "string \<Rightarrow> durable_job option \<Rightarrow> bool" where
  "remediation_job_is status None = False"
| "remediation_job_is status (Some j) = (j_job_type j = ''remediation'' \<and> j_status j = status)"

text \<open>The tail of \<open>_campaign_host_state\<close>, read off the approvals alone.\<close>

definition review_state :: "remediation \<Rightarrow> campaign_host_state" where
  "review_state r =
     (if r_approval_state r = ''rejected'' then HRejected
      else if r_approval_state r = ''manual_review'' then HBlocked
      else if r_execution_state r = ''blocked'' then HBlocked
      else if r_approval_state r \<noteq> ''approved'' then HAwaitingApproval
      else if reboot_risk r then
        (if r_reboot_approval_state r = ''approved'' then HApproved
         else if r_reboot_approval_state r \<in> {''blocked'', ''rejected''} then HBlocked
         else HAwaitingRebootApproval)
      else HApproved)"

definition campaign_host_state_of ::
  "campaign_host_plan \<Rightarrow> remediation \<Rightarrow> durable_job option \<Rightarrow> gate_decision \<Rightarrow> campaign_host_state" where
  "campaign_host_state_of hp r job binding =
     (if remediation_job_is ''running'' job then HRunning
      else if remediation_job_is ''canceled'' job then HCanceled
      else case dict_get execution_states (r_execution_state r) of
        Some st \<Rightarrow> st
      | None \<Rightarrow>
          if \<not> gd_allowed binding
             \<or> (hp_state hp = HPlanChanged \<and> r_approval_state r = ''pending'') then HPlanChanged
          else review_state r)"

definition job_of :: "(string, durable_job) dict \<Rightarrow> campaign_host_plan \<Rightarrow> durable_job option" where
  "job_of jobs hp =
     (if truthy (hp_job_id hp) then dict_get jobs (or_empty (hp_job_id hp)) else None)"

definition copy_approval :: "remediation \<Rightarrow> campaign_host_plan \<Rightarrow> campaign_host_plan" where
  "copy_approval r hp = hp
     \<lparr>hp_approval_state := r_approval_state r,
      hp_reboot_approval_state := r_reboot_approval_state r,
      hp_approved_plan_version := r_approved_plan_version r,
      hp_approved_plan_hash := r_approved_plan_hash r,
      hp_approved_by := r_approved_by r, hp_approved_at := r_approved_at r,
      hp_reboot_approved_by := r_reboot_approved_by r,
      hp_reboot_approved_at := r_reboot_approved_at r,
      hp_reboot_approved_plan_version := r_reboot_approved_plan_version r,
      hp_reboot_approved_plan_hash := r_reboot_approved_plan_hash r\<rparr>"

definition copy_failure :: "remediation \<Rightarrow> campaign_host_plan \<Rightarrow> campaign_host_plan" where
  "copy_failure r hp =
     (case r_result r of
        Some res \<Rightarrow> if \<not> er_success res then hp\<lparr>hp_failure_summary := Some (er_summary res)\<rparr> else hp
      | None \<Rightarrow> hp)"

definition project_host ::
  "(string \<Rightarrow> string) \<Rightarrow> (string, remediation) dict \<Rightarrow> (string, durable_job) dict \<Rightarrow> datetime \<Rightarrow>
   campaign_host_plan \<Rightarrow> campaign_host_plan" where
  "project_host H rs jobs current hp =
     (if \<not> truthy (hp_remediation_id hp) then hp
      else case dict_get rs (or_empty (hp_remediation_id hp)) of
        None \<Rightarrow> hp\<lparr>hp_state := HFailed,
                   hp_failure_summary := Some ''Remediation proposal no longer exists'',
                   hp_updated_at := current\<rparr>
      | Some r \<Rightarrow>
          let hp1 = copy_failure r (copy_approval r hp);
              st = campaign_host_state_of hp1 r (job_of jobs hp1) (campaign_plan_binding H hp r);
              hp2 = hp1\<lparr>hp_state := st\<rparr>;
              hp3 = (if st = HPlanChanged
                     then hp2\<lparr>hp_failure_summary := Some (reason_text CAMPAIGN_PLAN_CHANGED)\<rparr>
                     else hp2)
          in hp3\<lparr>hp_updated_at := current\<rparr>)"

definition count_states :: "campaign_host_state set \<Rightarrow> patch_campaign \<Rightarrow> int" where
  "count_states S c = int (length (filter (\<lambda>hp. hp_state hp \<in> S) (c_hosts c)))"

definition project_terminal_campaign_status :: "patch_campaign \<Rightarrow> campaign_status" where
  "project_terminal_campaign_status c =
     (let succeeded = count_states {HSucceeded} c;
          failed = count_states {HFailed, HRejected, HBlocked, HCanceled} c;
          awaiting = count_states {HAwaitingApproval, HAwaitingRebootApproval, HPlanChanged} c;
          approved = count_states {HApproved} c;
          actionable = int (length (filter (\<lambda>hp. hp_state hp \<noteq> HNoAction) (c_hosts c)))
      in if succeeded \<noteq> 0 \<and> (failed \<noteq> 0 \<or> awaiting \<noteq> 0 \<or> approved \<noteq> 0) then CPartiallySucceeded
         else if awaiting \<noteq> 0 then CAwaitingApproval
         else if approved \<noteq> 0 then CReady
         else if actionable \<noteq> 0 \<and> succeeded = actionable then CSucceeded
         else if succeeded \<noteq> 0 \<and> failed \<noteq> 0 then CPartiallySucceeded
         else if failed \<noteq> 0 then CFailed
         else if actionable = 0 then CSucceeded
         else CDraft)"

definition project_campaign_status :: "patch_campaign \<Rightarrow> patch_campaign" where
  "project_campaign_status c =
     (if c_canceled_at c \<noteq> None then
        c\<lparr>c_status := (if \<exists>hp \<in> set (c_hosts c). hp_state hp = HRunning
                       then CCancelling else CCanceled)\<rparr>
      else if c_status c = CCanceled then c
      else
        let states = hp_state ` set (c_hosts c);
            st = (if states = {HSelected} then CDraft
                  else if states \<inter> {HProposalQueued, HProposalRunning} \<noteq> {} then CProposing
                  else if states \<inter> {HScheduled, HQueued, HRunning} \<noteq> {} then CRunning
                  else project_terminal_campaign_status c);
            failures = map or_empty (filter truthy (map hp_failure_summary (c_hosts c)));
            text = take 2000 (join_str ''; '' failures)
        in c\<lparr>c_status := st, c_failure_summary := (if text = [] then None else Some text)\<rparr>)"

text \<open>\<open>math.ceil(completed_count / batch_size)\<close>; a batch size of zero raises in the source,
  but every campaign is created with the size \<open>campaign_rollout_limit\<close> returns.\<close>

definition completed_batches :: "patch_campaign \<Rightarrow> int" where
  "completed_batches c =
     (let n = count_states {HSucceeded, HFailed, HCanceled, HNoAction} c
      in if n = 0 then 0 else ceil_div n (c_batch_size c))"

definition project_campaign ::
  "(string \<Rightarrow> string) \<Rightarrow> patch_campaign \<Rightarrow> (string, remediation) dict \<Rightarrow> (string, durable_job) dict \<Rightarrow>
   datetime \<Rightarrow> patch_campaign" where
  "project_campaign H c rs jobs current =
     (let c1 = project_campaign_status (c\<lparr>c_hosts := map (project_host H rs jobs current) (c_hosts c)\<rparr>)
      in c1\<lparr>c_remediation_ids :=
              map or_empty (filter truthy (map hp_remediation_id (c_hosts c1))),
            c_current_batch :=
              min (c_total_batches c1) (max (c_current_batch c1) (completed_batches c1)),
            c_updated_at := current\<rparr>)"

subsection \<open>Which hosts a batch takes\<close>

definition batch_candidate ::
  "(string \<Rightarrow> string) \<Rightarrow> (string, remediation) dict \<Rightarrow> campaign_host_plan \<Rightarrow> bool" where
  "batch_candidate H rs hp \<longleftrightarrow> hp_state hp = HApproved \<and> bound_plan H rs hp \<noteq> None"

lemma collect_batch_eq:
  "collect_batch H rs hps =
     (map hp_host_id (filter (batch_candidate H rs) hps),
      map hp_host_id (filter (\<lambda>hp. hp_state hp = HApproved \<and> bound_plan H rs hp = None) hps),
      map (\<lambda>hp. ro_batch_size (r_rollout_policy (the (bound_plan H rs hp))))
        (filter (batch_candidate H rs) hps),
      map (\<lambda>hp. ro_canary_count (r_rollout_policy (the (bound_plan H rs hp))))
        (filter (batch_candidate H rs) hps))"
  by (induction hps) (auto simp: batch_candidate_def split: option.splits)

lemma bound_plan_SomeD:
  assumes "bound_plan H rs hp = Some r"
  shows "r_host_id r = hp_host_id hp" "hp_plan_version hp = Some (r_plan_version r)"
    "hp_plan_hash hp = Some (r_plan_hash r)" "r_plan_hash r = plan_hash H r"
  using assms
  by (auto simp: bound_plan_def campaign_plan_binding_def split: option.splits if_splits)

lemma batch_limit_pos: "1 \<le> batch_limit c ls cs"
  by (simp add: batch_limit_def Let_def clamp_min_pos)

lemma clamp_min_le_max: "l \<in> set ls \<Longrightarrow> clamp_min ls \<le> max 1 l"
  unfolding clamp_min_def by (intro max.mono Min_le) simp_all

lemma batch_limit_le: "l \<in> set (c_batch_size c # ls) \<Longrightarrow> batch_limit c ls cs \<le> max 1 l"
  using clamp_min_le_max [of l "c_batch_size c # ls"]
  unfolding batch_limit_def Let_def by (auto simp del: list.set simp: min_le_iff_disj)

lemma batch_limit_canary:
  "c_current_batch c = 0 \<Longrightarrow> n \<in> set cs \<Longrightarrow> batch_limit c ls cs \<le> max 1 n"
  using clamp_min_le_max [of n cs] by (auto simp: batch_limit_def Let_def min_le_iff_disj)

text \<open>A batch is started exactly when the campaign is not terminal, none of its hosts is
  scheduled, queued or running, and at least one approved host still has the plan it was
  bound to. No other campaign gets a host.\<close>

theorem campaign_batch_starts_iff:
  "(gd_allowed (cb_decision (campaign_batch H c rs)) \<longleftrightarrow>
      \<not> campaign_terminal c \<and>
      (\<forall>hp \<in> set (c_hosts c). hp_state hp \<notin> {HScheduled, HQueued, HRunning}) \<and>
      (\<exists>hp \<in> set (c_hosts c). batch_candidate H rs hp)) \<and>
   (gd_allowed (cb_decision (campaign_batch H c rs)) \<longleftrightarrow> cb_host_ids (campaign_batch H c rs) \<noteq> [])"
proof -
  have "nat (batch_limit c ls cs) \<noteq> 0" for ls cs
    using batch_limit_pos [of c ls cs] by simp
  then show ?thesis
    by (auto simp: campaign_batch_def collect_batch_eq filter_empty_conv)
qed

definition sample_host_plan :: "campaign_host_state \<Rightarrow> campaign_host_plan" where
  "sample_host_plan st = \<lparr>hp_id = ''hp-1'', hp_campaign_id = ''camp-1'', hp_host_id = ''host-1'',
     hp_hostname = ''web-1'', hp_state = st, hp_scan_id = Some ''scan-1'',
     hp_remediation_id = Some ''rem-1'', hp_plan_version = Some 1,
     hp_plan_hash = Some (plan_hash sample_digest (sample_plan_base ''required'')),
     hp_approval_state = ''approved'', hp_reboot_approval_state = ''approved'',
     hp_approved_plan_version = None, hp_approved_plan_hash = None, hp_approved_by = None,
     hp_approved_at = None, hp_reboot_approved_by = None, hp_reboot_approved_at = None,
     hp_reboot_approved_plan_version = None, hp_reboot_approved_plan_hash = None,
     hp_job_id = None, hp_failure_summary = None, hp_created_at = Aware 0, hp_updated_at = Aware 0\<rparr>"

definition sample_campaign :: "campaign_host_state \<Rightarrow> patch_campaign" where
  "sample_campaign st = \<lparr>c_id = ''camp-1'', c_name = ''monthly'', c_host_ids = [''host-1''],
     c_remediation_ids = [''rem-1''], c_hosts = [sample_host_plan st], c_status = CReady,
     c_batch_size = 2, c_current_batch = 0, c_total_batches = 1, c_failure_summary = None,
     c_canceled_by = None, c_canceled_at = None, c_created_at = Aware 0, c_updated_at = Aware 0\<rparr>"

lemma sample_bound_plan:
  "bound_plan sample_digest [(''rem-1'', sample_plan sample_digest ''required'')]
     (sample_host_plan st) = Some (sample_plan sample_digest ''required'')"
  by (simp add: bound_plan_def plan_of_def campaign_plan_binding_def sample_host_plan_def
      sample_plan_hash) (simp add: sample_plan_def sample_plan_base_def)

lemma campaign_batch_starts_iff_witness:
  "gd_allowed (cb_decision (campaign_batch sample_digest (sample_campaign HApproved)
     [(''rem-1'', sample_plan sample_digest ''required'')]))"
proof -
  have "batch_candidate sample_digest [(''rem-1'', sample_plan sample_digest ''required'')]
      (sample_host_plan HApproved)"
    by (simp add: batch_candidate_def sample_bound_plan) (simp add: sample_host_plan_def)
  then show ?thesis
    using campaign_batch_starts_iff [of sample_digest "sample_campaign HApproved"
        "[(''rem-1'', sample_plan sample_digest ''required'')]"]
    by (simp add: sample_campaign_def campaign_terminal_def) (simp add: sample_host_plan_def)
qed

lemma batch_candidate_bound:
  assumes "hp \<in> set (filter (batch_candidate H rs) hosts)"
  shows "\<exists>r. hp \<in> set hosts \<and> hp_state hp = HApproved \<and> plan_of rs hp = Some r \<and>
    r_host_id r = hp_host_id hp \<and> hp_plan_version hp = Some (r_plan_version r) \<and>
    hp_plan_hash hp = Some (plan_hash H r)"
proof -
  from assms obtain r where r: "hp_state hp = HApproved" "hp \<in> set hosts" "bound_plan H rs hp = Some r"
    by (auto simp: batch_candidate_def)
  then have "plan_of rs hp = Some r"
    by (auto simp: bound_plan_def split: option.splits if_splits)
  with r bound_plan_SomeD [OF r(3)] show ?thesis
    by auto
qed

text \<open>C10: A started batch takes hosts in campaign order and takes only approved hosts whose
  remediation belongs to the host and still has the version, hash and content the host was
  bound to; it never exceeds the campaign's batch size, nor the rollout batch size of any
  candidate's plan, nor, for the first batch, any candidate's canary count (each at least
  one).\<close>

theorem campaign_batch_bounds:
  assumes started: "gd_allowed (cb_decision (campaign_batch H c rs))"
    and ids: "ids = cb_host_ids (campaign_batch H c rs)"
  shows "prefix ids (map hp_host_id (filter (batch_candidate H rs) (c_hosts c))) \<and>
    (\<forall>id \<in> set ids. \<exists>hp r. hp \<in> set (c_hosts c) \<and> hp_host_id hp = id \<and>
       hp_state hp = HApproved \<and> plan_of rs hp = Some r \<and> r_host_id r = id \<and>
       hp_plan_version hp = Some (r_plan_version r) \<and> hp_plan_hash hp = Some (plan_hash H r)) \<and>
    int (length ids) \<le> max 1 (c_batch_size c) \<and>
    (\<forall>hp \<in> set (c_hosts c). \<forall>r. hp_state hp = HApproved \<and> bound_plan H rs hp = Some r \<longrightarrow>
       int (length ids) \<le> max 1 (ro_batch_size (r_rollout_policy r)) \<and>
       (c_current_batch c = 0 \<longrightarrow> int (length ids) \<le> max 1 (ro_canary_count (r_rollout_policy r))))"
proof -
  define cand where "cand = filter (batch_candidate H rs) (c_hosts c)"
  define plan where "plan hp = the (bound_plan H rs hp)" for hp
  define ls where "ls = map (\<lambda>hp. ro_batch_size (r_rollout_policy (plan hp))) cand"
  define cs where "cs = map (\<lambda>hp. ro_canary_count (r_rollout_policy (plan hp))) cand"
  have eq: "ids = take (nat (batch_limit c ls cs)) (map hp_host_id cand)"
    using started unfolding ids campaign_batch_def
    by (auto simp: collect_batch_eq cand_def ls_def cs_def plan_def split: if_splits)
  then have pre: "prefix ids (map hp_host_id cand)"
    by (simp add: take_is_prefix)
  have len: "int (length ids) \<le> batch_limit c ls cs"
    using eq batch_limit_pos [of c ls cs] by simp
  have "\<exists>hp r. hp \<in> set (c_hosts c) \<and> hp_host_id hp = id \<and>
       hp_state hp = HApproved \<and> plan_of rs hp = Some r \<and> r_host_id r = id \<and>
       hp_plan_version hp = Some (r_plan_version r) \<and> hp_plan_hash hp = Some (plan_hash H r)"
    if "id \<in> set ids" for id
  proof -
    from that pre obtain hp where "hp \<in> set cand" "hp_host_id hp = id"
      using set_mono_prefix [OF pre] by fastforce
    then show ?thesis
      using batch_candidate_bound unfolding cand_def by blast
  qed
  moreover have "int (length ids) \<le> max 1 (ro_batch_size (r_rollout_policy r)) \<and>
       (c_current_batch c = 0 \<longrightarrow> int (length ids) \<le> max 1 (ro_canary_count (r_rollout_policy r)))"
    if "hp \<in> set (c_hosts c)" "hp_state hp = HApproved" "bound_plan H rs hp = Some r" for hp r
  proof -
    from that have "hp \<in> set cand" "plan hp = r"
      by (auto simp: cand_def batch_candidate_def plan_def)
    then have "ro_batch_size (r_rollout_policy r) \<in> set ls"
      "ro_canary_count (r_rollout_policy r) \<in> set cs"
      by (auto simp: ls_def cs_def)
    then show ?thesis
      using len batch_limit_le [of "ro_batch_size (r_rollout_policy r)" c ls cs]
        batch_limit_canary [of c "ro_canary_count (r_rollout_policy r)" cs ls] by auto
  qed
  moreover have "int (length ids) \<le> max 1 (c_batch_size c)"
    using len batch_limit_le [of "c_batch_size c" c ls cs] by simp
  ultimately show ?thesis
    using pre unfolding cand_def by blast
qed

lemma sample_batch_started:
  "gd_allowed (cb_decision (campaign_batch sample_digest (sample_campaign HApproved)
     [(''rem-1'', sample_plan sample_digest ''required'')]))"
  by (simp add: campaign_batch_def sample_campaign_def campaign_terminal_def sample_bound_plan
      split: prod.splits) (simp add: sample_host_plan_def)

lemma campaign_batch_bounds_witness:
  "prefix (cb_host_ids (campaign_batch sample_digest (sample_campaign HApproved)
      [(''rem-1'', sample_plan sample_digest ''required'')])) [''host-1'']"
  using campaign_batch_bounds [OF sample_batch_started refl]
  by (simp add: sample_campaign_def batch_candidate_def sample_bound_plan)
    (simp add: sample_host_plan_def)

subsection \<open>Projection\<close>

lemma project_host_fields [gate_simps]:
  "hp_host_id (project_host H rs jobs t hp) = hp_host_id hp"
  "hp_remediation_id (project_host H rs jobs t hp) = hp_remediation_id hp"
  "hp_job_id (project_host H rs jobs t hp) = hp_job_id hp"
  "hp_plan_version (project_host H rs jobs t hp) = hp_plan_version hp"
  "hp_plan_hash (project_host H rs jobs t hp) = hp_plan_hash hp"
  by (simp_all add: project_host_def Let_def copy_failure_def copy_approval_def
      split: option.split)

lemma copy_fields [gate_simps]:
  "hp_state (copy_failure r (copy_approval r hp)) = hp_state hp"
  "hp_job_id (copy_failure r (copy_approval r hp)) = hp_job_id hp"
  by (simp_all add: copy_failure_def copy_approval_def split: option.split)

lemma host_state_cong:
  "hp_state a = hp_state b \<Longrightarrow>
     campaign_host_state_of a r job bd = campaign_host_state_of b r job bd"
  by (simp only: campaign_host_state_of_def)

lemma review_state_neq: "review_state r \<noteq> HPlanChanged"
  by (simp add: review_state_def)

text \<open>Recomputing a computed state changes nothing: \<open>PLAN_CHANGED\<close> is the only state the
  computation reads back, and it reproduces it.\<close>

lemma host_state_again:
  assumes "hp_state hp' = campaign_host_state_of hp r job b"
  shows "campaign_host_state_of hp' r job b = campaign_host_state_of hp r job b"
  using assms review_state_neq [of r]
  by (cases "dict_get execution_states (r_execution_state r)")
    (simp_all add: campaign_host_state_of_def split: if_split_asm)

lemma project_host_state:
  "truthy (hp_remediation_id hp) \<Longrightarrow> dict_get rs (or_empty (hp_remediation_id hp)) = Some r \<Longrightarrow>
   hp_state (project_host H rs jobs t hp) =
     campaign_host_state_of hp r (job_of jobs hp) (campaign_plan_binding H hp r)"
  using host_state_cong [of "copy_failure r (copy_approval r hp)" hp r]
  by (simp add: project_host_def Let_def job_of_def gate_simps)

text \<open>The update of a host whose remediation exists, in one step.\<close>

definition failure_after ::
  "campaign_host_state \<Rightarrow> remediation \<Rightarrow> string option \<Rightarrow> string option" where
  "failure_after st r old =
     (if st = HPlanChanged then Some (reason_text CAMPAIGN_PLAN_CHANGED)
      else case r_result r of
        Some res \<Rightarrow> if \<not> er_success res then Some (er_summary res) else old
      | None \<Rightarrow> old)"

lemma failure_after_again [simp]: "failure_after st r (failure_after st r x) = failure_after st r x"
  by (auto simp: failure_after_def split: option.split)

lemma project_host_found:
  assumes "truthy (hp_remediation_id hp)" "dict_get rs (or_empty (hp_remediation_id hp)) = Some r"
    and st: "st = campaign_host_state_of hp r (job_of jobs hp) (campaign_plan_binding H hp r)"
  shows "project_host H rs jobs t hp =
    (copy_approval r hp)\<lparr>hp_state := st,
      hp_failure_summary := failure_after st r (hp_failure_summary hp), hp_updated_at := t\<rparr>"
proof -
  have st': "campaign_host_state_of (copy_failure r (copy_approval r hp)) r
      (job_of jobs (copy_failure r (copy_approval r hp))) (campaign_plan_binding H hp r) = st"
    unfolding st using host_state_cong [of "copy_failure r (copy_approval r hp)" hp r]
    by (simp add: job_of_def gate_simps)
  show ?thesis
    using assms(1,2) unfolding project_host_def
    by (simp only: option.case st' Let_def not_True_eq_False if_False)
      (simp add: copy_failure_def copy_approval_def failure_after_def split: option.split)
qed

lemma project_host_idem:
  "project_host H rs jobs t (project_host H rs jobs t hp) = project_host H rs jobs t hp"
proof (cases "truthy (hp_remediation_id hp) \<and>
    dict_get rs (or_empty (hp_remediation_id hp)) \<noteq> None")
  case False
  then show ?thesis
    by (simp add: project_host_def split: if_splits)
next
  case True
  then obtain r where ok: "truthy (hp_remediation_id hp)"
      "dict_get rs (or_empty (hp_remediation_id hp)) = Some r" by auto
  define st where "st = campaign_host_state_of hp r (job_of jobs hp) (campaign_plan_binding H hp r)"
  note once = project_host_found [OF ok st_def, of t]
  let ?hp' = "project_host H rs jobs t hp"
  have ok': "truthy (hp_remediation_id ?hp')"
      "dict_get rs (or_empty (hp_remediation_id ?hp')) = Some r"
    using ok by (simp_all add: gate_simps)
  have same: "job_of jobs ?hp' = job_of jobs hp"
      "campaign_plan_binding H ?hp' r = campaign_plan_binding H hp r"
    by (simp_all add: job_of_def campaign_plan_binding_def gate_simps)
  have "hp_state ?hp' = st"
    by (simp add: once)
  then have "st = campaign_host_state_of ?hp' r (job_of jobs ?hp') (campaign_plan_binding H ?hp' r)"
    unfolding same using host_state_again [of ?hp' hp r "job_of jobs hp"] by (simp add: st_def)
  from project_host_found [OF ok' this, of t] show ?thesis
    by (simp add: once copy_approval_def)
qed

lemma project_status_idem:
  "project_campaign_status (project_campaign_status c) = project_campaign_status c"
proof -
  let ?states = "hp_state ` set (c_hosts c)"
  define st where "st = (if ?states = {HSelected} then CDraft
    else if ?states \<inter> {HProposalQueued, HProposalRunning} \<noteq> {} then CProposing
    else if ?states \<inter> {HScheduled, HQueued, HRunning} \<noteq> {} then CRunning
    else project_terminal_campaign_status c)"
  define failure where "failure =
    (let text = take 2000 (join_str ''; '' (map or_empty (filter truthy (map hp_failure_summary (c_hosts c)))))
     in if text = [] then None else Some text)"
  define canceled where "canceled = (if \<exists>hp \<in> set (c_hosts c). hp_state hp = HRunning then CCancelling else CCanceled)"
  have st: "st \<noteq> CCanceled"
    by (simp add: st_def project_terminal_campaign_status_def Let_def)
  have count: "count_states S (c\<lparr>c_status := x, c_failure_summary := y\<rparr>) = count_states S c" for S x y
    by (simp add: count_states_def)
  have trm: "project_terminal_campaign_status (c\<lparr>c_status := x, c_failure_summary := y\<rparr>) =
      project_terminal_campaign_status c" for x y
    by (simp add: project_terminal_campaign_status_def count Let_def)
  have again: "project_campaign_status (c\<lparr>c_status := x, c_failure_summary := y\<rparr>) =
      (if c_canceled_at c \<noteq> None then c\<lparr>c_status := canceled, c_failure_summary := y\<rparr>
       else if x = CCanceled then c\<lparr>c_status := x, c_failure_summary := y\<rparr>
       else c\<lparr>c_status := st, c_failure_summary := failure\<rparr>)" for x y
    unfolding project_campaign_status_def Let_def st_def failure_def canceled_def by (simp add: trm)
  have "c = c\<lparr>c_status := c_status c, c_failure_summary := c_failure_summary c\<rparr>"
    by simp
  then obtain x y where once: "project_campaign_status c = c\<lparr>c_status := x, c_failure_summary := y\<rparr>"
    and xy: "c_canceled_at c \<noteq> None \<and> x = canceled \<or>
      c_canceled_at c = None \<and> (x = CCanceled \<or> x = st \<and> y = failure)"
    using again [where x = "c_status c" and y = "c_failure_summary c"] by metis
  show ?thesis
    unfolding once again using xy st by auto
qed

lemma project_status_frame [gate_simps]:
  "c_hosts (project_campaign_status c) = c_hosts c"
  "c_total_batches (project_campaign_status c) = c_total_batches c"
  "c_current_batch (project_campaign_status c) = c_current_batch c"
  "c_batch_size (project_campaign_status c) = c_batch_size c"
  "c_canceled_at (project_campaign_status c) = c_canceled_at c"
  by (simp_all add: project_campaign_status_def Let_def)

lemma completed_batches_cong:
  "c_hosts a = c_hosts b \<Longrightarrow> c_batch_size a = c_batch_size b \<Longrightarrow>
     completed_batches a = completed_batches b"
  by (simp add: completed_batches_def count_states_def)

lemma project_status_update:
  "project_campaign_status (c\<lparr>c_remediation_ids := a, c_current_batch := b, c_updated_at := d\<rparr>) =
     (project_campaign_status c)\<lparr>c_remediation_ids := a, c_current_batch := b, c_updated_at := d\<rparr>"
proof -
  have "project_terminal_campaign_status
      (c\<lparr>c_remediation_ids := a, c_current_batch := b, c_updated_at := d\<rparr>) =
    project_terminal_campaign_status c"
    by (simp add: project_terminal_campaign_status_def count_states_def)
  then show ?thesis
    by (simp add: project_campaign_status_def Let_def)
qed

lemma map_host_idem:
  "map (project_host H rs jobs t) (map (project_host H rs jobs t) hps) =
     map (project_host H rs jobs t) hps"
  by (simp add: project_host_idem)

text \<open>Projection is idempotent: projecting a projected campaign again at the same time with
  the same remediations and jobs changes no host plan, not the status, not the batch counter
  and not the failure summary, so reading a campaign twice shows the same campaign.\<close>

theorem project_campaign_idempotent:
  "project_campaign H (project_campaign H c rs jobs t) rs jobs t = project_campaign H c rs jobs t"
proof -
  define d where "d = project_campaign_status (c\<lparr>c_hosts := map (project_host H rs jobs t) (c_hosts c)\<rparr>)"
  define ids where "ids = map or_empty (filter truthy (map hp_remediation_id (c_hosts d)))"
  define n where "n = min (c_total_batches d) (max (c_current_batch d) (completed_batches d))"
  have once: "project_campaign H c rs jobs t =
      d\<lparr>c_remediation_ids := ids, c_current_batch := n, c_updated_at := t\<rparr>" (is "_ = ?e")
    by (simp add: project_campaign_def Let_def d_def ids_def n_def)
  have hosts: "c_hosts d = map (project_host H rs jobs t) (c_hosts c)"
    by (simp add: d_def gate_simps)
  have "?e\<lparr>c_hosts := map (project_host H rs jobs t) (c_hosts ?e)\<rparr> = ?e"
    by (simp add: hosts project_host_idem)
  moreover have "project_campaign_status ?e = ?e"
    unfolding project_status_update by (simp add: d_def project_status_idem)
  moreover have "completed_batches ?e = completed_batches d"
    by (rule completed_batches_cong) simp_all
  ultimately show ?thesis
    unfolding once by (simp only: project_campaign_def Let_def) (simp add: ids_def n_def)
qed

lemma count_states_0: "count_states S c = 0 \<longleftrightarrow> (\<forall>hp \<in> set (c_hosts c). hp_state hp \<notin> S)"
  by (simp add: count_states_def filter_empty_conv)

lemma length_filter_split:
  "(\<And>x. P x \<Longrightarrow> Q x) \<Longrightarrow>
     length (filter Q xs) = length (filter P xs) + length (filter (\<lambda>x. Q x \<and> \<not> P x) xs)"
  by (induction xs) auto

lemma all_actionable_succeeded:
  "count_states {HSucceeded} c = int (length (filter (\<lambda>hp. hp_state hp \<noteq> HNoAction) (c_hosts c))) \<longleftrightarrow>
     (\<forall>hp \<in> set (c_hosts c). hp_state hp \<in> {HSucceeded, HNoAction})"
  using length_filter_split [of "\<lambda>hp. hp_state hp = HSucceeded" "\<lambda>hp. hp_state hp \<noteq> HNoAction"
      "c_hosts c"]
  by (auto simp: count_states_def filter_empty_conv)

lemma terminal_status_eq:
  assumes "su = (\<exists>hp \<in> set (c_hosts c). hp_state hp \<in> {HSucceeded})"
    and "fa = (\<exists>hp \<in> set (c_hosts c). hp_state hp \<in> {HFailed, HRejected, HBlocked, HCanceled})"
    and "aw = (\<exists>hp \<in> set (c_hosts c).
                 hp_state hp \<in> {HAwaitingApproval, HAwaitingRebootApproval, HPlanChanged})"
    and "ap = (\<exists>hp \<in> set (c_hosts c). hp_state hp \<in> {HApproved})"
    and "idle = (\<forall>hp \<in> set (c_hosts c). hp_state hp = HNoAction)"
    and "ok = (\<forall>hp \<in> set (c_hosts c). hp_state hp \<in> {HSucceeded, HNoAction})"
  shows "project_terminal_campaign_status c =
    (if su \<and> (fa \<or> aw \<or> ap) then CPartiallySucceeded else if aw then CAwaitingApproval
     else if ap then CReady else if \<not> idle \<and> ok then CSucceeded
     else if su \<and> fa then CPartiallySucceeded else if fa then CFailed
     else if idle then CSucceeded else CDraft)"
proof -
  have pos: "count_states S c \<noteq> 0 \<longleftrightarrow> (\<exists>hp \<in> set (c_hosts c). hp_state hp \<in> S)" for S
    using count_states_0 [of S c] by blast
  have act: "int (length (filter (\<lambda>hp. hp_state hp \<noteq> HNoAction) (c_hosts c))) = 0 \<longleftrightarrow> idle"
    by (simp add: filter_empty_conv assms(5))
  show ?thesis
    unfolding project_terminal_campaign_status_def Let_def all_actionable_succeeded pos act
      assms(1-4,6) [symmetric] by (rule refl)
qed

lemma terminal_status_iffs:
  "project_terminal_campaign_status c = CSucceeded \<longleftrightarrow>
     (\<forall>hp \<in> set (c_hosts c). hp_state hp \<in> {HSucceeded, HNoAction})"
  "project_terminal_campaign_status c = CFailed \<Longrightarrow>
     (\<exists>hp \<in> set (c_hosts c). hp_state hp \<in> {HFailed, HRejected, HBlocked, HCanceled}) \<and>
     (\<forall>hp \<in> set (c_hosts c). hp_state hp \<notin> {HSucceeded, HApproved, HAwaitingApproval,
        HAwaitingRebootApproval, HPlanChanged})"
proof -
  note eq = terminal_status_eq [OF refl refl refl refl refl refl, of c]
  let ?st = "\<lambda>S. \<exists>hp \<in> set (c_hosts c). hp_state hp \<in> S"
  have ok: "(\<forall>hp \<in> set (c_hosts c). hp_state hp \<in> {HSucceeded, HNoAction}) \<Longrightarrow>
      \<not> ?st {HFailed, HRejected, HBlocked, HCanceled} \<and>
      \<not> ?st {HAwaitingApproval, HAwaitingRebootApproval, HPlanChanged} \<and> \<not> ?st {HApproved}"
    by fastforce
  have idle: "\<forall>hp \<in> set (c_hosts c). hp_state hp = HNoAction \<Longrightarrow>
      \<forall>hp \<in> set (c_hosts c). hp_state hp \<in> {HSucceeded, HNoAction}"
    by simp
  show "project_terminal_campaign_status c = CSucceeded \<longleftrightarrow>
     (\<forall>hp \<in> set (c_hosts c). hp_state hp \<in> {HSucceeded, HNoAction})"
    unfolding eq using ok idle by (simp only: split: if_split) blast
  show "project_terminal_campaign_status c = CFailed \<Longrightarrow>
     ?st {HFailed, HRejected, HBlocked, HCanceled} \<and>
     (\<forall>hp \<in> set (c_hosts c). hp_state hp \<notin> {HSucceeded, HApproved, HAwaitingApproval,
        HAwaitingRebootApproval, HPlanChanged})"
    unfolding eq by (simp only: campaign_status.distinct simp_thms split: if_split_asm) blast
qed

lemma project_campaign_hosts [gate_simps]:
  "c_hosts (project_campaign H c rs jobs t) = map (project_host H rs jobs t) (c_hosts c)"
  "c_status (project_campaign H c rs jobs t) =
     c_status (project_campaign_status (c\<lparr>c_hosts := map (project_host H rs jobs t) (c_hosts c)\<rparr>))"
  by (simp_all add: project_campaign_def Let_def gate_simps)

lemma project_status_cases:
  "c_canceled_at c = None \<Longrightarrow> c_status c \<noteq> CCanceled \<Longrightarrow>
   c_status (project_campaign_status c) =
     (if hp_state ` set (c_hosts c) = {HSelected} then CDraft
      else if hp_state ` set (c_hosts c) \<inter> {HProposalQueued, HProposalRunning} \<noteq> {} then CProposing
      else if hp_state ` set (c_hosts c) \<inter> {HScheduled, HQueued, HRunning} \<noteq> {} then CRunning
      else project_terminal_campaign_status c)"
  by (simp add: project_campaign_status_def Let_def)

lemma if_chain_eq:
  "x \<noteq> v \<Longrightarrow> y \<noteq> v \<Longrightarrow> z \<noteq> v \<Longrightarrow>
   (if A then x else if B then y else if C then z else w) = v \<longleftrightarrow> \<not> A \<and> \<not> B \<and> \<not> C \<and> w = v"
  by simp

lemma conj_absorb: "(P \<Longrightarrow> A \<and> B \<and> C) \<Longrightarrow> (A \<and> B \<and> C \<and> P) = P"
  by iprover

lemma project_status_iffs:
  assumes "c_canceled_at c = None" "c_status c \<noteq> CCanceled"
  shows "c_status (project_campaign_status c) = CSucceeded \<longleftrightarrow>
      (\<forall>hp \<in> set (c_hosts c). hp_state hp \<in> {HSucceeded, HNoAction})"
    and "c_status (project_campaign_status c) = CFailed \<Longrightarrow>
      project_terminal_campaign_status c = CFailed \<and>
      hp_state ` set (c_hosts c) \<inter> {HScheduled, HQueued, HRunning} = {}"
proof -
  have *: "c_status (project_campaign_status c) = st \<longleftrightarrow>
     \<not> hp_state ` set (c_hosts c) = {HSelected} \<and>
     \<not> hp_state ` set (c_hosts c) \<inter> {HProposalQueued, HProposalRunning} \<noteq> {} \<and>
     \<not> hp_state ` set (c_hosts c) \<inter> {HScheduled, HQueued, HRunning} \<noteq> {} \<and>
     project_terminal_campaign_status c = st" if "st \<in> {CSucceeded, CFailed}" for st
    unfolding project_status_cases [OF assms] by (rule if_chain_eq) (use that in auto)
  have none: "\<not> hp_state ` set (c_hosts c) = {HSelected} \<and>
     \<not> hp_state ` set (c_hosts c) \<inter> {HProposalQueued, HProposalRunning} \<noteq> {} \<and>
     \<not> hp_state ` set (c_hosts c) \<inter> {HScheduled, HQueued, HRunning} \<noteq> {}"
    if "\<forall>hp \<in> set (c_hosts c). hp_state hp \<in> {HSucceeded, HNoAction}"
  proof -
    have sub: "hp_state ` set (c_hosts c) \<subseteq> {HSucceeded, HNoAction}"
      using that by blast
    have "X \<noteq> {HSelected}" "X \<inter> {HProposalQueued, HProposalRunning} = {}"
        "X \<inter> {HScheduled, HQueued, HRunning} = {}" if "X \<subseteq> {HSucceeded, HNoAction}" for X
      using that by auto
    from this [OF sub] show ?thesis by (simp only: simp_thms not_True_eq_False)
  qed
  show "c_status (project_campaign_status c) = CSucceeded \<longleftrightarrow>
      (\<forall>hp \<in> set (c_hosts c). hp_state hp \<in> {HSucceeded, HNoAction})"
    unfolding * [OF insertI1] terminal_status_iffs(1) by (rule conj_absorb, rule none)
  show "c_status (project_campaign_status c) = CFailed \<Longrightarrow>
      project_terminal_campaign_status c = CFailed \<and>
      hp_state ` set (c_hosts c) \<inter> {HScheduled, HQueued, HRunning} = {}"
    by (drule * [OF insertI2, OF insertI1, THEN iffD1]) simp
qed

text \<open>What a projected status means. A campaign that was not canceled has succeeded exactly
  when every host succeeded or needed nothing; it has failed only when some host failed, was
  rejected, blocked or canceled and no host has succeeded, is approved, awaits approval, is
  queued, scheduled or running; a canceled campaign keeps canceling exactly while a host runs.\<close>

theorem project_campaign_status_meaning:
  assumes p: "p = project_campaign H c rs jobs t"
  shows "(c_canceled_at c = None \<and> c_status c \<noteq> CCanceled \<longrightarrow>
      (c_status p = CSucceeded \<longleftrightarrow> (\<forall>hp \<in> set (c_hosts p). hp_state hp \<in> {HSucceeded, HNoAction})) \<and>
      (c_status p = CFailed \<longrightarrow>
        (\<exists>hp \<in> set (c_hosts p). hp_state hp \<in> {HFailed, HRejected, HBlocked, HCanceled}) \<and>
        (\<forall>hp \<in> set (c_hosts p). hp_state hp \<notin> {HSucceeded, HApproved, HAwaitingApproval,
           HAwaitingRebootApproval, HPlanChanged, HScheduled, HQueued, HRunning}))) \<and>
    (c_canceled_at c \<noteq> None \<longrightarrow>
      c_status p = (if \<exists>hp \<in> set (c_hosts p). hp_state hp = HRunning then CCancelling else CCanceled))"
proof -
  define d where "d = c\<lparr>c_hosts := map (project_host H rs jobs t) (c_hosts c)\<rparr>"
  have d: "c_hosts p = c_hosts d" "c_status p = c_status (project_campaign_status d)"
      "c_canceled_at d = c_canceled_at c" "c_status d = c_status c"
    by (simp_all add: p gate_simps d_def)
  have canceled: "c_status (project_campaign_status d) =
      (if \<exists>hp \<in> set (c_hosts d). hp_state hp = HRunning then CCancelling else CCanceled)"
    if "c_canceled_at c \<noteq> None"
    using that by (simp add: project_campaign_status_def d)
  have "c_status p = CSucceeded \<longleftrightarrow> (\<forall>hp \<in> set (c_hosts d). hp_state hp \<in> {HSucceeded, HNoAction})"
    if "c_canceled_at c = None" "c_status c \<noteq> CCanceled"
    using that by (simp add: d project_status_iffs)
  moreover have "(\<exists>hp \<in> set (c_hosts d). hp_state hp \<in> {HFailed, HRejected, HBlocked, HCanceled}) \<and>
        (\<forall>hp \<in> set (c_hosts d). hp_state hp \<notin> {HSucceeded, HApproved, HAwaitingApproval,
           HAwaitingRebootApproval, HPlanChanged, HScheduled, HQueued, HRunning})"
    if "c_canceled_at c = None" "c_status c \<noteq> CCanceled" "c_status p = CFailed"
  proof -
    from that have "project_terminal_campaign_status d = CFailed"
      and none: "hp_state ` set (c_hosts d) \<inter> {HScheduled, HQueued, HRunning} = {}"
      using project_status_iffs(2) [of d] by (simp_all add: d)
    from terminal_status_iffs(2) [OF this(1)] none show ?thesis by blast
  qed
  ultimately show ?thesis
    using canceled unfolding d by blast
qed

lemma project_campaign_status_meaning_witness:
  "c_status (project_campaign sample_digest ((sample_campaign HApproved)\<lparr>c_canceled_at := Some (Aware 2)\<rparr>)
     [] [] (Aware 3)) = CCanceled"
  using project_campaign_status_meaning [OF refl, where H = sample_digest and rs = "[]" and jobs = "[]"
      and c = "(sample_campaign HApproved)\<lparr>c_canceled_at := Some (Aware 2)\<rparr>" and t = "Aware 3"]
  by (simp add: gate_simps sample_campaign_def sample_host_plan_def project_host_def)

text \<open>The batch counter of a campaign never exceeds the number of batches and, while it does
  not, never goes back, neither when a batch starts nor when the campaign is projected.\<close>

theorem campaign_batch_counter:
  assumes "c' = project_campaign H c rs jobs t \<or> c' = start_campaign_batch c jobs t"
  shows "c_current_batch c' \<le> c_total_batches c' \<and> c_total_batches c' = c_total_batches c \<and>
    (c_current_batch c \<le> c_total_batches c \<longrightarrow> c_current_batch c \<le> c_current_batch c')"
  using assms
  by (auto simp: project_campaign_def start_campaign_batch_def Let_def gate_simps)

lemma campaign_batch_counter_witness:
  "c_current_batch (start_campaign_batch (sample_campaign HApproved) [] (Aware 0)) \<le> 1"
  using campaign_batch_counter [OF disjI2 [OF refl], of "sample_campaign HApproved" "[]" "Aware 0"]
  by (simp add: sample_campaign_def)

lemma execution_states_not_approved:
  "dict_get execution_states s = Some st \<Longrightarrow> st \<noteq> HApproved"
  by (auto simp: execution_states_def split: if_splits)

lemma host_state_approved:
  assumes "campaign_host_state_of hp r job bd = HApproved"
  shows "gd_allowed bd" "r_approval_state r = ''approved''"
    "reboot_risk r \<longrightarrow> r_reboot_approval_state r = ''approved''" "r_execution_state r \<noteq> ''blocked''"
proof -
  from assms have "gd_allowed bd \<and> review_state r = HApproved"
    using execution_states_not_approved
    by (auto simp: campaign_host_state_of_def split: if_split_asm option.split_asm)
  then show "gd_allowed bd" "r_approval_state r = ''approved''"
    "reboot_risk r \<longrightarrow> r_reboot_approval_state r = ''approved''" "r_execution_state r \<noteq> ''blocked''"
    by (auto simp: review_state_def split: if_split_asm)
qed

lemma project_host_missing:
  "truthy (hp_remediation_id hp) \<Longrightarrow> dict_get rs (or_empty (hp_remediation_id hp)) = None \<Longrightarrow>
     hp_state (project_host H rs jobs t hp) = HFailed"
  by (simp add: project_host_def)

text \<open>A host shown as approved after a projection has a remediation that belongs to it, is
  approved, is approved for reboot if it may reboot, is not blocked, and whose version, hash
  and content are the ones the host plan was bound to.\<close>

theorem projected_approved_is_bound:
  assumes "hp \<in> set (c_hosts (project_campaign H c rs jobs t))"
    and "hp_state hp = HApproved" and "truthy (hp_remediation_id hp)"
  shows "\<exists>r. dict_get rs (or_empty (hp_remediation_id hp)) = Some r \<and> r_host_id r = hp_host_id hp \<and>
    hp_plan_version hp = Some (r_plan_version r) \<and> hp_plan_hash hp = Some (plan_hash H r) \<and>
    r_approval_state r = ''approved'' \<and> (reboot_risk r \<longrightarrow> r_reboot_approval_state r = ''approved'') \<and>
    r_execution_state r \<noteq> ''blocked''"
proof -
  from assms(1) obtain hp0 where hp0: "hp = project_host H rs jobs t hp0"
    by (auto simp: gate_simps)
  then have rid: "hp_remediation_id hp0 = hp_remediation_id hp"
    by (simp add: gate_simps)
  show ?thesis
  proof (cases "dict_get rs (or_empty (hp_remediation_id hp0))")
    case None
    with project_host_missing [of hp0 rs H jobs t] assms(2,3) rid show ?thesis
      by (simp add: hp0)
  next
    case (Some r)
    from project_host_state [OF _ Some, of H jobs t] assms(2,3) rid
    have "campaign_host_state_of hp0 r (job_of jobs hp0) (campaign_plan_binding H hp0 r) = HApproved"
      by (simp add: hp0)
    note ok = host_state_approved [OF this]
    from ok(1) have "r_host_id r = hp_host_id hp" "hp_plan_version hp = Some (r_plan_version r)"
        "hp_plan_hash hp = Some (plan_hash H r)"
      by (auto simp: campaign_plan_binding_def hp0 gate_simps split: if_splits)
    with ok Some rid show ?thesis by auto
  qed
qed

abbreviation sample_reviewed :: remediation where
  "sample_reviewed \<equiv> (sample_plan sample_digest ''required'')
     \<lparr>r_approval_state := ''approved'', r_reboot_approval_state := ''approved'',
      r_execution_state := ''not_started''\<rparr>"

lemma sample_reviewed_approved:
  "project_host sample_digest [(''rem-1'', sample_reviewed)] [] (Aware 1) (sample_host_plan HApproved)
     \<in> set (c_hosts (project_campaign sample_digest (sample_campaign HApproved)
         [(''rem-1'', sample_reviewed)] [] (Aware 1)))"
  "hp_state (project_host sample_digest [(''rem-1'', sample_reviewed)] [] (Aware 1)
     (sample_host_plan HApproved)) = HApproved"
proof -
  show "project_host sample_digest [(''rem-1'', sample_reviewed)] [] (Aware 1) (sample_host_plan HApproved)
     \<in> set (c_hosts (project_campaign sample_digest (sample_campaign HApproved)
         [(''rem-1'', sample_reviewed)] [] (Aware 1)))"
    by (simp add: gate_simps sample_campaign_def)
  have "gd_allowed (campaign_plan_binding sample_digest (sample_host_plan HApproved) sample_reviewed)"
    by (simp add: campaign_plan_binding_def gate_simps sample_plan_hash)
      (simp add: sample_host_plan_def sample_plan_def sample_plan_base_def)
  moreover have "review_state sample_reviewed = HApproved"
    by (simp add: review_state_def)
  ultimately have "campaign_host_state_of (sample_host_plan HApproved) sample_reviewed None
      (campaign_plan_binding sample_digest (sample_host_plan HApproved) sample_reviewed) = HApproved"
    by (simp add: campaign_host_state_of_def execution_states_def)
  then show "hp_state (project_host sample_digest [(''rem-1'', sample_reviewed)] [] (Aware 1)
     (sample_host_plan HApproved)) = HApproved"
    by (subst project_host_state [where r = sample_reviewed])
      (simp_all add: sample_host_plan_def job_of_def)
qed

lemma projected_approved_is_bound_witness:
  "hp_plan_hash (project_host sample_digest [(''rem-1'', sample_reviewed)] [] (Aware 1)
     (sample_host_plan HApproved)) = Some (plan_hash sample_digest sample_reviewed)"
  using projected_approved_is_bound [OF sample_reviewed_approved(1) sample_reviewed_approved(2)]
  by (auto simp: gate_simps sample_host_plan_def)

end
