(* ===== verification/JobStore.thy ===== *)
theory JobStore
  imports Fixtures
begin

text \<open>
  Durable jobs. First the transitions of a single job that both repositories share
  (\<open>lease_is_expired\<close>, \<open>terminalize_exhausted_job\<close>, and the bodies of claim, heartbeat,
  recovery, cancellation and leased save), then the interface the services rely on as the
  locale \<open>job_repository\<close> with what follows from its laws alone, then the in-memory
  repository (\<open>InMemoryRepository\<close> in \<open>repository.py\<close>), which is shown to provide it.
  The SQL repository is in the theory \<open>SqlJobStore\<close>.
\<close>

subsection \<open>Time and leases\<close>

text \<open>\<open>normalized_datetime\<close> reads a naive value as UTC; comparisons use the instant.\<close>

fun normalized_datetime :: "datetime \<Rightarrow> int" where
  "normalized_datetime (Naive t) = t"
| "normalized_datetime (Aware t) = t"

definition later_datetime :: "datetime option \<Rightarrow> datetime option \<Rightarrow> datetime option" where
  "later_datetime a b =
     (case (a, b) of
        (None, _) \<Rightarrow> b
      | (_, None) \<Rightarrow> a
      | (Some x, Some y) \<Rightarrow> if normalized_datetime y \<le> normalized_datetime x then a else b)"

definition lease_is_expired :: "datetime option \<Rightarrow> datetime \<Rightarrow> bool" where
  "lease_is_expired lease current =
     (case lease of None \<Rightarrow> True | Some e \<Rightarrow> normalized_datetime e \<le> normalized_datetime current)"

definition lease_expiration_failure :: "durable_job \<Rightarrow> datetime \<Rightarrow> job_failure" where
  "lease_expiration_failure j failed_at =
     \<lparr>jf_failed_at = failed_at, jf_attempt = j_attempts j, jf_category = ''worker_lease_expired'',
      jf_message = ''Worker lease expired before the job completed'',
      jf_retryable = (j_attempts j < j_max_attempts j)\<rparr>"

definition terminalize_exhausted_job :: "durable_job \<Rightarrow> datetime \<Rightarrow> durable_job" where
  "terminalize_exhausted_job j failed_at =
     (let message = (case j_last_failure j of
                       Some f \<Rightarrow> jf_message f
                     | None \<Rightarrow> ''Job retry attempts were exhausted'')
      in j\<lparr>j_status := ''failed'', j_error := Some (take 2000 message),
           j_current_phase := Some ''failed'', j_completed_at := Some failed_at,
           j_lease_owner := None, j_lease_expires_at := None, j_updated_at := failed_at,
           j_last_failure := map_option (\<lambda>f. f\<lparr>jf_retryable := False\<rparr>) (j_last_failure j)\<rparr>)"

definition expired_running :: "durable_job \<Rightarrow> datetime \<Rightarrow> bool" where
  "expired_running j t \<longleftrightarrow> j_status j = ''running'' \<and> lease_is_expired (j_lease_expires_at j) t"

subsection \<open>Transitions of one job\<close>

text \<open>Claiming: the job handed to the worker, if any, and the job stored.\<close>

definition start_claim :: "durable_job \<Rightarrow> string \<Rightarrow> datetime \<Rightarrow> datetime \<Rightarrow> durable_job" where
  "start_claim j lease_owner started_at lease_expires_at =
     (let j1 = (if expired_running j started_at
                then j\<lparr>j_last_failure := Some (lease_expiration_failure j started_at)\<rparr> else j)
      in j1\<lparr>j_status := ''running'',
            j_started_at := (if j_started_at j = None then Some started_at else j_started_at j),
            j_attempts := j_attempts j + 1, j_lease_owner := Some lease_owner,
            j_lease_expires_at := Some lease_expires_at, j_heartbeat_at := Some started_at,
            j_completed_at := None, j_error := None, j_updated_at := started_at\<rparr>)"

definition claim_outcome ::
  "durable_job \<Rightarrow> string \<Rightarrow> datetime \<Rightarrow> datetime \<Rightarrow> durable_job option \<times> durable_job" where
  "claim_outcome j lease_owner started_at lease_expires_at =
     (if j_status j \<noteq> ''queued'' \<and> \<not> expired_running j started_at then (None, j)
      else if j_max_attempts j \<le> j_attempts j then (None, terminalize_exhausted_job j started_at)
      else let j' = start_claim j lease_owner started_at lease_expires_at in (Some j', j'))"

definition holds_lease :: "durable_job \<Rightarrow> string \<Rightarrow> datetime \<Rightarrow> bool" where
  "holds_lease j owner t \<longleftrightarrow> j_status j = ''running'' \<and> j_lease_owner j = Some owner \<and>
     \<not> lease_is_expired (j_lease_expires_at j) t"

definition beat :: "durable_job \<Rightarrow> datetime \<Rightarrow> datetime \<Rightarrow> durable_job" where
  "beat j heartbeat_at lease_expires_at =
     j\<lparr>j_heartbeat_at := Some heartbeat_at, j_lease_expires_at := Some lease_expires_at,
       j_updated_at := heartbeat_at\<rparr>"

definition recover_job :: "durable_job \<Rightarrow> datetime \<Rightarrow> durable_job" where
  "recover_job j recovered_at =
     (let j1 = j\<lparr>j_last_failure := Some (lease_expiration_failure j recovered_at),
                 j_lease_owner := None, j_lease_expires_at := None, j_updated_at := recovered_at,
                 j_result := dict_set ''recovered_from_phase''
                   (case j_current_phase j of None \<Rightarrow> JNull | Some p \<Rightarrow> JStr p) (j_result j)\<rparr>
      in if j_max_attempts j1 \<le> j_attempts j1 then terminalize_exhausted_job j1 recovered_at
         else j1\<lparr>j_status := ''queued'', j_current_phase := Some ''retry_scheduled''\<rparr>)"

definition cancel_outcome ::
  "durable_job \<Rightarrow> datetime \<Rightarrow> string list \<Rightarrow> string \<Rightarrow> durable_job" where
  "cancel_outcome j canceled_at allowed_statuses phase =
     (if j_status j \<in> set allowed_statuses
      then j\<lparr>j_status := ''canceled'', j_current_phase := Some phase,
             j_completed_at := Some canceled_at, j_updated_at := canceled_at,
             j_lease_owner := None, j_lease_expires_at := None\<rparr>
      else j)"

text \<open>What a leased save writes over the current job: heartbeat and lease never go back.\<close>

definition merge_lease :: "durable_job \<Rightarrow> durable_job \<Rightarrow> durable_job" where
  "merge_lease job current =
     (if j_status job = ''running''
      then job\<lparr>j_heartbeat_at := later_datetime (j_heartbeat_at job) (j_heartbeat_at current),
               j_lease_expires_at :=
                 later_datetime (j_lease_expires_at job) (j_lease_expires_at current)\<rparr>
      else job)"

text \<open>The job a save stores, or \<open>None\<close> when the lease check rejects it.\<close>

definition save_outcome ::
  "durable_job option \<Rightarrow> durable_job \<Rightarrow> string option \<Rightarrow> durable_job option" where
  "save_outcome current job lease_owner =
     (case lease_owner of
        None \<Rightarrow> Some job
      | Some owner \<Rightarrow>
          (case current of
             None \<Rightarrow> None
           | Some c \<Rightarrow> if holds_lease c owner (j_updated_at job) then Some (merge_lease job c) else None))"

subsection \<open>Facts about the transitions\<close>

lemma transition_ids [store_simps]:
  "j_id (terminalize_exhausted_job j t) = j_id j"
  "j_id (start_claim j ow t e) = j_id j"
  "j_id (snd (claim_outcome j ow t e)) = j_id j"
  "j_id (beat j t e) = j_id j"
  "j_id (recover_job j t) = j_id j"
  "j_id (cancel_outcome j t st p) = j_id j"
  "j_id (merge_lease j c) = j_id j"
  by (simp_all add: terminalize_exhausted_job_def start_claim_def claim_outcome_def beat_def
      recover_job_def cancel_outcome_def merge_lease_def Let_def)

lemma transition_attempts [store_simps]:
  "j_attempts (terminalize_exhausted_job j t) = j_attempts j"
  "j_max_attempts (terminalize_exhausted_job j t) = j_max_attempts j"
  "j_attempts (start_claim j ow t e) = j_attempts j + 1"
  "j_max_attempts (start_claim j ow t e) = j_max_attempts j"
  "j_attempts (beat j t e) = j_attempts j" "j_max_attempts (beat j t e) = j_max_attempts j"
  "j_attempts (recover_job j t) = j_attempts j" "j_max_attempts (recover_job j t) = j_max_attempts j"
  "j_attempts (cancel_outcome j t st p) = j_attempts j"
  "j_max_attempts (cancel_outcome j t st p) = j_max_attempts j"
  "j_attempts (merge_lease j c) = j_attempts j" "j_max_attempts (merge_lease j c) = j_max_attempts j"
  by (simp_all add: terminalize_exhausted_job_def start_claim_def beat_def
      recover_job_def cancel_outcome_def merge_lease_def Let_def)

lemma transition_status [store_simps]:
  "j_status (terminalize_exhausted_job j t) = ''failed''"
  "j_status (start_claim j ow t e) = ''running''"
  "j_lease_owner (start_claim j ow t e) = Some ow"
  "j_lease_expires_at (start_claim j ow t e) = Some e"
  "j_result (start_claim j ow t e) = j_result j"
  "j_current_phase (start_claim j ow t e) = j_current_phase j"
  by (simp_all add: terminalize_exhausted_job_def start_claim_def Let_def)

lemma recover_job_status [store_simps]:
  "j_status (recover_job j t) = (if j_attempts j < j_max_attempts j then ''queued'' else ''failed'')"
  "j_lease_owner (recover_job j t) = None"
  by (simp_all add: recover_job_def terminalize_exhausted_job_def Let_def)

lemma claim_Some_iff:
  "fst (claim_outcome j ow t e) = Some j' \<longleftrightarrow>
     (j_status j = ''queued'' \<or> expired_running j t) \<and> j_attempts j < j_max_attempts j \<and>
     j' = start_claim j ow t e \<and> snd (claim_outcome j ow t e) = j'"
  by (auto simp: claim_outcome_def Let_def)

text \<open>A job whose lease is valid at \<open>t\<close> is out of everyone else's reach at \<open>t\<close>.\<close>

lemma lease_valid_cases:
  assumes "j_status j = ''running''" "\<not> lease_is_expired (j_lease_expires_at j) t"
  shows "claim_outcome j ow t e = (None, j)" "\<not> expired_running j t"
  using assms by (simp_all add: claim_outcome_def expired_running_def)

definition terminal_status :: "string \<Rightarrow> bool" where
  "terminal_status s \<longleftrightarrow> s \<in> {''completed'', ''failed'', ''canceled''}"

lemma terminal_untouched:
  assumes "terminal_status (j_status j)"
  shows "claim_outcome j ow t e = (None, j)" "\<not> expired_running j t" "\<not> holds_lease j ow t"
    "cancel_outcome j t [''queued'', ''scheduled''] p = j"
  using assms
  by (auto simp: terminal_status_def claim_outcome_def expired_running_def holds_lease_def
      cancel_outcome_def)

subsection \<open>The repository interface\<close>

text \<open>Operations on the jobs as data, so that traces of them can be quantified over.\<close>

datatype job_op =
    OpSave durable_job "string option"
  | OpClaim string string datetime datetime
  | OpHeartbeat string string datetime datetime
  | OpRecover datetime
  | OpCancel string datetime

definition job_step ::
  "(durable_job \<Rightarrow> string option \<Rightarrow> 's \<Rightarrow> (exn + durable_job option) \<times> 's) \<Rightarrow>
   (string \<Rightarrow> string \<Rightarrow> datetime \<Rightarrow> datetime \<Rightarrow> 's \<Rightarrow> durable_job option \<times> 's) \<Rightarrow>
   (string \<Rightarrow> string \<Rightarrow> datetime \<Rightarrow> datetime \<Rightarrow> 's \<Rightarrow> durable_job option \<times> 's) \<Rightarrow>
   (datetime \<Rightarrow> 's \<Rightarrow> (durable_job list \<times> durable_job list) \<times> 's) \<Rightarrow>
   (string \<Rightarrow> datetime \<Rightarrow> string list \<Rightarrow> string \<Rightarrow> 's \<Rightarrow> durable_job option \<times> 's) \<Rightarrow>
   job_op \<Rightarrow> 's \<Rightarrow> 's" where
  "job_step save claim heartbeat recover cancel op s =
     (case op of
        OpSave j ow \<Rightarrow> snd (save j ow s)
      | OpClaim i ow t e \<Rightarrow> snd (claim i ow t e s)
      | OpHeartbeat i ow t e \<Rightarrow> snd (heartbeat i ow t e s)
      | OpRecover t \<Rightarrow> snd (recover t s)
      | OpCancel i t \<Rightarrow> snd (cancel i t [''queued'', ''scheduled''] ''canceled'' s))"

text \<open>The successful claims of one job in a trace.\<close>

fun claims_of ::
  "(job_op \<Rightarrow> 's \<Rightarrow> 's) \<Rightarrow>
   (string \<Rightarrow> string \<Rightarrow> datetime \<Rightarrow> datetime \<Rightarrow> 's \<Rightarrow> durable_job option \<times> 's) \<Rightarrow>
   string \<Rightarrow> job_op list \<Rightarrow> 's \<Rightarrow> nat" where
  "claims_of step claim i [] s = 0"
| "claims_of step claim i (op # ops) s =
     (case op of
        OpClaim i' ow t e \<Rightarrow> (if i' = i \<and> fst (claim i' ow t e s) \<noteq> None then 1 else 0)
      | _ \<Rightarrow> 0) + claims_of step claim i ops (step op s)"

text \<open>An operation someone other than the holder of a lease on \<open>i\<close> performs before it expires.\<close>

fun outsider :: "string \<Rightarrow> string \<Rightarrow> datetime \<Rightarrow> job_op \<Rightarrow> bool" where
  "outsider i owner e (OpSave j ow) = (j_id j = i \<longrightarrow> ow \<noteq> None \<and> ow \<noteq> Some owner)"
| "outsider i owner e (OpClaim i' ow t e') =
     (i' = i \<longrightarrow> normalized_datetime t < normalized_datetime e)"
| "outsider i owner e (OpHeartbeat i' ow t e') = (i' = i \<longrightarrow> ow \<noteq> owner)"
| "outsider i owner e (OpRecover t) = (normalized_datetime t < normalized_datetime e)"
| "outsider i owner e (OpCancel i' t) = True"

text \<open>An operation that is not a save without lease on \<open>i\<close>.\<close>

fun leased_on :: "string \<Rightarrow> job_op \<Rightarrow> bool" where
  "leased_on i (OpSave j ow) = (j_id j = i \<longrightarrow> ow \<noteq> None)"
| "leased_on i _ = True"

text \<open>Saves of job \<open>i\<close> keep the counters: no attempt is forgotten, the limit is the same.\<close>

fun keeps_count :: "string \<Rightarrow> int \<Rightarrow> job_op \<Rightarrow> durable_job option \<Rightarrow> bool" where
  "keeps_count i m (OpSave j ow) cur =
     (j_id j = i \<longrightarrow> j_max_attempts j = m \<and>
        (case cur of None \<Rightarrow> 0 \<le> j_attempts j | Some c \<Rightarrow> j_attempts c \<le> j_attempts j))"
| "keeps_count i m _ cur = True"

fun counted ::
  "(job_op \<Rightarrow> 's \<Rightarrow> 's) \<Rightarrow> ('s \<Rightarrow> string \<Rightarrow> durable_job option) \<Rightarrow> string \<Rightarrow> int \<Rightarrow>
   job_op list \<Rightarrow> 's \<Rightarrow> bool" where
  "counted step get i m [] s = True"
| "counted step get i m (op # ops) s =
     (keeps_count i m op (get s i) \<and> counted step get i m ops (step op s))"

text \<open>The attempts a job has left under the limit \<open>m\<close>.\<close>

definition room :: "int \<Rightarrow> durable_job option \<Rightarrow> int" where
  "room m cur = (case cur of None \<Rightarrow> max 0 m | Some j \<Rightarrow> max 0 (m - j_attempts j))"

locale job_repository =
  fixes inv :: "'s \<Rightarrow> bool"
    and get :: "'s \<Rightarrow> string \<Rightarrow> durable_job option"
    and fits :: "'s \<Rightarrow> durable_job \<Rightarrow> bool"
    and save :: "durable_job \<Rightarrow> string option \<Rightarrow> 's \<Rightarrow> (exn + durable_job option) \<times> 's"
    and claim :: "string \<Rightarrow> string \<Rightarrow> datetime \<Rightarrow> datetime \<Rightarrow> 's \<Rightarrow> durable_job option \<times> 's"
    and heartbeat :: "string \<Rightarrow> string \<Rightarrow> datetime \<Rightarrow> datetime \<Rightarrow> 's \<Rightarrow> durable_job option \<times> 's"
    and recover :: "datetime \<Rightarrow> 's \<Rightarrow> (durable_job list \<times> durable_job list) \<times> 's"
    and cancel :: "string \<Rightarrow> datetime \<Rightarrow> string list \<Rightarrow> string \<Rightarrow> 's \<Rightarrow> durable_job option \<times> 's"
  assumes get_id: "inv s \<Longrightarrow> get s i = Some j \<Longrightarrow> j_id j = i"
    and save_rejected: "inv s \<Longrightarrow> save_outcome (get s (j_id j)) j lo = None \<Longrightarrow> save j lo s = (Inr None, s)"
    and save_unfit: "inv s \<Longrightarrow> save_outcome (get s (j_id j)) j lo = Some j' \<Longrightarrow> \<not> fits s j \<Longrightarrow>
          \<exists>e. save j lo s = (Inl e, s)"
    and save_stored: "inv s \<Longrightarrow> save_outcome (get s (j_id j)) j lo = Some j' \<Longrightarrow> fits s j \<Longrightarrow>
          \<exists>s'. save j lo s = (Inr (Some j'), s') \<and> inv s' \<and> get s' = (get s)(j_id j \<mapsto> j')"
    and claim_none: "inv s \<Longrightarrow> get s i = None \<Longrightarrow> claim i ow t e s = (None, s)"
    and claim_some: "inv s \<Longrightarrow> get s i = Some j \<Longrightarrow>
          \<exists>s'. claim i ow t e s = (fst (claim_outcome j ow t e), s') \<and> inv s' \<and>
               get s' = (get s)(i \<mapsto> snd (claim_outcome j ow t e))"
    and heartbeat_none: "inv s \<Longrightarrow> \<not> pred_option (\<lambda>j. holds_lease j ow t) (get s i) \<or> get s i = None \<Longrightarrow>
          heartbeat i ow t e s = (None, s)"
    and heartbeat_some: "inv s \<Longrightarrow> get s i = Some j \<Longrightarrow> holds_lease j ow t \<Longrightarrow>
          \<exists>s'. heartbeat i ow t e s = (Some (beat j t e), s') \<and> inv s' \<and>
               get s' = (get s)(i \<mapsto> beat j t e)"
    and recover_lists: "inv s \<Longrightarrow> recover t s = ((rs, es), s') \<Longrightarrow> inv s' \<and>
          distinct (map j_id (rs @ es)) \<and>
          (\<forall>i. get s' i = map_option (\<lambda>j. if expired_running j t then recover_job j t else j) (get s i)) \<and>
          set (rs @ es) = {recover_job j t | i j. get s i = Some j \<and> expired_running j t} \<and>
          (\<forall>j \<in> set rs. j_status j = ''queued'') \<and> (\<forall>j \<in> set es. j_status j = ''failed'')"
    and cancel_none: "inv s \<Longrightarrow> get s i = None \<Longrightarrow> cancel i t st p s = (None, s)"
    and cancel_some: "inv s \<Longrightarrow> get s i = Some j \<Longrightarrow>
          \<exists>s'. cancel i t st p s = (Some (cancel_outcome j t st p), s') \<and> inv s' \<and>
               get s' = (get s)(i \<mapsto> cancel_outcome j t st p)"
begin

abbreviation step :: "job_op \<Rightarrow> 's \<Rightarrow> 's" where
  "step \<equiv> job_step save claim heartbeat recover cancel"

text \<open>What one operation does to one job.\<close>

fun effect :: "'s \<Rightarrow> string \<Rightarrow> job_op \<Rightarrow> durable_job option \<Rightarrow> durable_job option" where
  "effect s i (OpSave job ow) cur =
     (if j_id job = i \<and> fits s job
      then (case save_outcome cur job ow of Some j' \<Rightarrow> Some j' | None \<Rightarrow> cur) else cur)"
| "effect s i (OpClaim i' ow t e) cur =
     (if i' = i then map_option (\<lambda>j. snd (claim_outcome j ow t e)) cur else cur)"
| "effect s i (OpHeartbeat i' ow t e) cur =
     (if i' = i then map_option (\<lambda>j. if holds_lease j ow t then beat j t e else j) cur else cur)"
| "effect s i (OpRecover t) cur =
     map_option (\<lambda>j. if expired_running j t then recover_job j t else j) cur"
| "effect s i (OpCancel i' t) cur =
     (if i' = i then map_option (\<lambda>j. cancel_outcome j t [''queued'', ''scheduled''] ''canceled'') cur
      else cur)"

lemma step_effect:
  assumes "inv s"
  shows "inv (step op s) \<and> get (step op s) i = effect s i op (get s i)"
proof (cases op)
  case (OpSave job ow)
  show ?thesis
  proof (cases "save_outcome (get s (j_id job)) job ow")
    case None
    with save_rejected [OF assms None] show ?thesis
      using assms by (auto simp: job_step_def OpSave)
  next
    case (Some j')
    show ?thesis
    proof (cases "fits s job")
      case True
      with save_stored [OF assms Some] Some show ?thesis
        by (auto simp: job_step_def OpSave)
    next
      case False
      with save_unfit [OF assms Some] assms show ?thesis
        by (auto simp: job_step_def OpSave)
    qed
  qed
next
  case (OpClaim i' ow t e)
  show ?thesis
  proof (cases "get s i'")
    case None
    with claim_none [OF assms None] assms show ?thesis
      by (auto simp: job_step_def OpClaim)
  next
    case (Some j)
    with claim_some [OF assms Some, of ow t e] show ?thesis
      by (auto simp: job_step_def OpClaim)
  qed
next
  case (OpHeartbeat i' ow t e)
  show ?thesis
  proof (cases "\<exists>j. get s i' = Some j \<and> holds_lease j ow t")
    case True
    then show ?thesis
      using heartbeat_some [OF assms, of i' _ ow t e] by (fastforce simp: job_step_def OpHeartbeat)
  next
    case False
    then have "heartbeat i' ow t e s = (None, s)"
      by (intro heartbeat_none [OF assms]) (auto simp: option.pred_set)
    with False assms show ?thesis
      by (cases "get s i'") (auto simp: job_step_def OpHeartbeat)
  qed
next
  case (OpRecover t)
  obtain rs es s' where "recover t s = ((rs, es), s')"
    by (metis surj_pair)
  with recover_lists [OF assms this] show ?thesis
    by (simp add: job_step_def OpRecover)
next
  case (OpCancel i' t)
  show ?thesis
  proof (cases "get s i'")
    case None
    with cancel_none [OF assms None] assms show ?thesis
      by (auto simp: job_step_def OpCancel)
  next
    case (Some j)
    with cancel_some [OF assms Some, of t "[''queued'', ''scheduled'']" "''canceled''"]
    show ?thesis
      by (auto simp: job_step_def OpCancel)
  qed
qed

lemma step_inv [simp]: "inv s \<Longrightarrow> inv (step op s)"
  using step_effect by blast

lemma run_inv: "inv s \<Longrightarrow> inv (fold step ops s)"
  by (induction ops arbitrary: s) simp_all

lemma run_constant:
  assumes "inv s" "get s i = Some j"
    and stay: "\<And>op s'. op \<in> set ops \<Longrightarrow> effect s' i op (Some j) = Some j"
  shows "get (fold step ops s) i = Some j"
  using assms
proof (induction ops arbitrary: s)
  case (Cons op ops)
  then have "get (step op s) i = Some j"
    using step_effect [OF Cons.prems(1), of op i] by simp
  with Cons show ?case by simp
qed simp

lemma lease_exclusive:
  assumes "inv s" "get s i = Some j" "j_status j = ''running''" "j_lease_owner j = Some owner"
    and lease: "j_lease_expires_at j = Some e" and out: "\<forall>op \<in> set ops. outsider i owner e op"
  shows "get (fold step ops s) i = Some j"
proof (rule run_constant [OF assms(1,2)])
  fix op s' assume "op \<in> set ops"
  with out have o: "outsider i owner e op" by blast
  have valid: "\<not> lease_is_expired (j_lease_expires_at j) t"
    if "normalized_datetime t < normalized_datetime e" for t
    using that by (simp add: lease_is_expired_def lease)
  show "effect s' i op (Some j) = Some j"
    using o valid assms(3,4)
    by (cases op) (auto simp: save_outcome_def holds_lease_def lease_valid_cases cancel_outcome_def
        expired_running_def claim_outcome_def split: option.splits)
qed

lemma terminal_forever:
  assumes "inv s" "get s i = Some j" "terminal_status (j_status j)"
    and ops: "\<forall>op \<in> set ops. leased_on i op"
  shows "get (fold step ops s) i = Some j"
proof (rule run_constant [OF assms(1,2)])
  fix op s' assume "op \<in> set ops"
  with ops have "leased_on i op" by blast
  then show "effect s' i op (Some j) = Some j"
    using terminal_untouched [OF assms(3)]
    by (cases op) (auto simp: save_outcome_def split: option.splits)
qed

text \<open>No trace claims a job more often than its limit allows.\<close>

lemma room_effect:
  assumes "keeps_count i m op cur" "pred_option (\<lambda>j. j_max_attempts j = m) cur" "0 \<le> room m cur"
  shows "room m (effect s i op cur) \<le> room m cur"
    "pred_option (\<lambda>j. j_max_attempts j = m) (effect s i op cur)"
  using assms
  by (cases op; cases cur;
      force simp: room_def store_simps save_outcome_def claim_outcome_def Let_def
        split: option.splits)+

lemma room_claim:
  assumes "inv s" "pred_option (\<lambda>j. j_max_attempts j = m) (get s i)"
    and "fst (claim i ow t e s) \<noteq> None"
  shows "room m (get (step (OpClaim i ow t e) s) i) + 1 \<le> room m (get s i)"
proof -
  obtain j where j: "get s i = Some j"
    using assms(1,3) claim_none by (cases "get s i") auto
  from claim_some [OF assms(1) j, of ow t e] assms(3)
  have "fst (claim_outcome j ow t e) \<noteq> None" by auto
  then obtain j' where "fst (claim_outcome j ow t e) = Some j'" by auto
  then have "j_attempts j < j_max_attempts j" "snd (claim_outcome j ow t e) = start_claim j ow t e"
    unfolding claim_Some_iff by auto
  moreover have "get (step (OpClaim i ow t e) s) i = Some (snd (claim_outcome j ow t e))"
    using step_effect [OF assms(1), of "OpClaim i ow t e" i] by (simp add: j)
  ultimately show ?thesis
    using assms(2) by (simp add: room_def j store_simps)
qed

lemma claims_bounded:
  assumes "inv s" "counted step get i m ops s" "pred_option (\<lambda>j. j_max_attempts j = m) (get s i)"
  shows "int (claims_of step claim i ops s) \<le> room m (get s i)"
  using assms
proof (induction ops arbitrary: s)
  case Nil
  then show ?case by (simp add: room_def split: option.split)
next
  case (Cons op ops)
  have pos: "0 \<le> room m cur" for cur by (simp add: room_def split: option.split)
  have eff: "get (step op s) i = effect s i op (get s i)" "inv (step op s)"
    using step_effect [OF Cons.prems(1)] by auto
  from Cons.prems have k: "keeps_count i m op (get s i)" and c: "counted step get i m ops (step op s)" by auto
  note re = room_effect [OF k Cons.prems(3) pos, of s]
  have IH: "int (claims_of step claim i ops (step op s)) \<le> room m (get (step op s) i)"
    using Cons.IH [OF eff(2) c] re(2) by (simp add: eff(1))
  show ?case
  proof (cases "\<exists>ow t e. op = OpClaim i ow t e \<and> fst (claim i ow t e s) \<noteq> None")
    case True
    then obtain ow t e where op: "op = OpClaim i ow t e" "fst (claim i ow t e s) \<noteq> None" by blast
    from room_claim [OF Cons.prems(1,3) op(2)] IH show ?thesis
      by (simp add: op)
  next
    case False
    then have "claims_of step claim i (op # ops) s = claims_of step claim i ops (step op s)"
      by (cases op) auto
    with IH re(1) show ?thesis by (simp add: eff(1))
  qed
qed

text \<open>Recovery leaves no running job with an expired lease, and reports each job it touched.\<close>

lemma recover_clears:
  assumes "inv s" "recover t s = ((rs, es), s')"
  shows "get s' i = Some j \<Longrightarrow> \<not> expired_running j t"
    and "j \<in> set rs \<Longrightarrow> get s' (j_id j) = Some j \<and> j_status j = ''queued'' \<and>
      (\<exists>j0. get s (j_id j) = Some j0 \<and> expired_running j0 t \<and> j_attempts j0 < j_max_attempts j0)"
    and "j \<in> set es \<Longrightarrow> get s' (j_id j) = Some j \<and> j_status j = ''failed'' \<and>
      (\<exists>j0. get s (j_id j) = Some j0 \<and> expired_running j0 t \<and> j_max_attempts j0 \<le> j_attempts j0)"
proof -
  note r = recover_lists [OF assms]
  show "get s' i = Some j \<Longrightarrow> \<not> expired_running j t"
  proof -
    assume j: "get s' i = Some j"
    have "\<not> expired_running (recover_job j0 t) t" for j0
      by (simp add: expired_running_def store_simps)
    moreover obtain j0 where "j = (if expired_running j0 t then recover_job j0 t else j0)"
      using j r by auto
    ultimately show ?thesis by simp
  qed
  have *: "\<exists>j0. get s (j_id j) = Some j0 \<and> expired_running j0 t \<and> j = recover_job j0 t \<and>
      get s' (j_id j) = Some j" if "j \<in> set (rs @ es)"
  proof -
    from that r obtain i j0 where j0: "get s i = Some j0" "expired_running j0 t" "j = recover_job j0 t"
      by blast
    then have "i = j_id j"
      using get_id [OF assms(1) j0(1)] by (simp add: store_simps)
    with j0 r show ?thesis by auto
  qed
  have st_rs: "\<forall>j \<in> set rs. j_status j = ''queued''"
    using r by (elim conjE)
  have st_es: "\<forall>j \<in> set es. j_status j = ''failed''"
    using r by (elim conjE)
  have st: "j_status (recover_job j0 t) = ''queued'' \<longleftrightarrow> j_attempts j0 < j_max_attempts j0"
    "j_status (recover_job j0 t) = ''failed'' \<longleftrightarrow> j_max_attempts j0 \<le> j_attempts j0" for j0
    by (auto simp: store_simps)
  show "j \<in> set rs \<Longrightarrow> get s' (j_id j) = Some j \<and> j_status j = ''queued'' \<and>
      (\<exists>j0. get s (j_id j) = Some j0 \<and> expired_running j0 t \<and> j_attempts j0 < j_max_attempts j0)"
  proof -
    assume "j \<in> set rs"
    then have "j \<in> set (rs @ es)" "j_status j = ''queued''"
      using st_rs by auto
    with * [OF this(1)] st(1) show ?thesis by metis
  qed
  show "j \<in> set es \<Longrightarrow> get s' (j_id j) = Some j \<and> j_status j = ''failed'' \<and>
      (\<exists>j0. get s (j_id j) = Some j0 \<and> expired_running j0 t \<and> j_max_attempts j0 \<le> j_attempts j0)"
  proof -
    assume "j \<in> set es"
    then have "j \<in> set (rs @ es)" "j_status j = ''failed''"
      using st_es by auto
    with * [OF this(1)] st(2) show ?thesis by metis
  qed
qed

end

subsection \<open>The in-memory repository\<close>

type_synonym mem_jobs = "(string, durable_job) dict"

definition mem_inv :: "mem_jobs \<Rightarrow> bool" where
  "mem_inv s \<longleftrightarrow> dict_wf s \<and> (\<forall>(k, j) \<in> set s. j_id j = k)"

definition mem_get :: "mem_jobs \<Rightarrow> string \<Rightarrow> durable_job option" where
  "mem_get s i = dict_get s i"

definition mem_save ::
  "durable_job \<Rightarrow> string option \<Rightarrow> mem_jobs \<Rightarrow> (exn + durable_job option) \<times> mem_jobs" where
  "mem_save job lease_owner s =
     (let current = dict_get s (j_id job) in
      case save_outcome current job lease_owner of
        None \<Rightarrow> (Inr None, s)
      | Some job' \<Rightarrow> (Inr (Some job'), dict_set (j_id job) job' s))"

definition mem_claim ::
  "string \<Rightarrow> string \<Rightarrow> datetime \<Rightarrow> datetime \<Rightarrow> mem_jobs \<Rightarrow> durable_job option \<times> mem_jobs" where
  "mem_claim job_id lease_owner started_at lease_expires_at s =
     (case dict_get s job_id of
        None \<Rightarrow> (None, s)
      | Some stored \<Rightarrow>
          let expired = expired_running stored started_at in
          if j_status stored \<noteq> ''queued'' \<and> \<not> expired then (None, s)
          else if j_max_attempts stored \<le> j_attempts stored then
            (None, dict_set (j_id stored) (terminalize_exhausted_job stored started_at) s)
          else
            let job = start_claim stored lease_owner started_at lease_expires_at
            in (Some job, dict_set (j_id job) job s))"

definition mem_heartbeat ::
  "string \<Rightarrow> string \<Rightarrow> datetime \<Rightarrow> datetime \<Rightarrow> mem_jobs \<Rightarrow> durable_job option \<times> mem_jobs" where
  "mem_heartbeat job_id lease_owner heartbeat_at lease_expires_at s =
     (case dict_get s job_id of
        None \<Rightarrow> (None, s)
      | Some stored \<Rightarrow>
          if \<not> holds_lease stored lease_owner heartbeat_at then (None, s)
          else let job = beat stored heartbeat_at lease_expires_at
               in (Some job, dict_set (j_id job) job s))"

text \<open>The loop over \<open>list(self.jobs.values())\<close>, which updates the dictionary as it goes.\<close>

fun mem_recover_loop ::
  "datetime \<Rightarrow> durable_job list \<Rightarrow> mem_jobs \<Rightarrow> (durable_job list \<times> durable_job list) \<times> mem_jobs" where
  "mem_recover_loop t [] s = (([], []), s)"
| "mem_recover_loop t (stored # rest) s =
     (if \<not> expired_running stored t then mem_recover_loop t rest s
      else
        let job = recover_job stored t;
            ((recovered, exhausted), s') = mem_recover_loop t rest (dict_set (j_id job) job s)
        in if j_max_attempts stored \<le> j_attempts stored then ((recovered, job # exhausted), s')
           else ((job # recovered, exhausted), s'))"

definition mem_recover ::
  "datetime \<Rightarrow> mem_jobs \<Rightarrow> (durable_job list \<times> durable_job list) \<times> mem_jobs" where
  "mem_recover recovered_at s = mem_recover_loop recovered_at (dict_values s) s"

definition mem_cancel ::
  "string \<Rightarrow> datetime \<Rightarrow> string list \<Rightarrow> string \<Rightarrow> mem_jobs \<Rightarrow> durable_job option \<times> mem_jobs" where
  "mem_cancel job_id canceled_at allowed_statuses phase s =
     (case dict_get s job_id of
        None \<Rightarrow> (None, s)
      | Some stored \<Rightarrow>
          if j_status stored \<in> set allowed_statuses then
            let job = cancel_outcome stored canceled_at allowed_statuses phase
            in (Some job, dict_set (j_id job) job s)
          else (Some stored, s))"

definition mem_get_by_idempotency :: "mem_jobs \<Rightarrow> string \<Rightarrow> durable_job option" where
  "mem_get_by_idempotency s key = List.find (\<lambda>j. j_idempotency_key j = key) (dict_values s)"

definition mem_host_has_active_scan :: "mem_jobs \<Rightarrow> string \<Rightarrow> bool" where
  "mem_host_has_active_scan s host_id \<longleftrightarrow>
     (\<exists>j \<in> set (dict_values s). j_host_id j = Some host_id \<and> j_job_type j = ''scan'' \<and>
        j_status j \<in> {''queued'', ''running''})"

lemma mem_inv_get: "mem_inv s \<Longrightarrow> dict_get s i = Some j \<Longrightarrow> j_id j = i"
  by (auto simp: mem_inv_def dest: map_of_SomeD)

lemma set_dict_set: "set (dict_set k v d) \<subseteq> insert (k, v) (set d)"
  by (induction d) auto

lemma mem_inv_set: "mem_inv s \<Longrightarrow> j_id j = i \<Longrightarrow> mem_inv (dict_set i j s)"
  using set_dict_set [of i j s] by (fastforce simp: mem_inv_def)

lemma mem_get_set: "mem_get (dict_set i j s) = (mem_get s)(i \<mapsto> j)"
  by (auto simp: mem_get_def fun_eq_iff)

lemma mem_get_same: "mem_get s i = Some j \<Longrightarrow> (mem_get s)(i \<mapsto> j) = mem_get s"
  by (auto simp: fun_eq_iff)

lemma mem_recover_loop_eq:
  "mem_recover_loop t js s =
     ((map (\<lambda>j. recover_job j t) (filter (\<lambda>j. expired_running j t \<and> j_attempts j < j_max_attempts j) js),
       map (\<lambda>j. recover_job j t) (filter (\<lambda>j. expired_running j t \<and> j_max_attempts j \<le> j_attempts j) js)),
      fold (\<lambda>j. dict_set (j_id j) (recover_job j t)) (filter (\<lambda>j. expired_running j t) js) s)"
  by (induction js arbitrary: s) (auto simp: Let_def store_simps split: prod.split)

lemma dict_get_fold_set:
  assumes "distinct (map j_id js)"
  shows "dict_get (fold (\<lambda>j. dict_set (j_id j) (f j)) js s) i =
    (case map_of (map (\<lambda>j. (j_id j, f j)) js) i of Some v \<Rightarrow> Some v | None \<Rightarrow> dict_get s i)"
  using assms
proof (induction js arbitrary: s)
  case (Cons j js)
  then have "map_of (map (\<lambda>j. (j_id j, f j)) js) (j_id j) = None"
    by (auto simp: map_of_eq_None_iff)
  with Cons show ?case by (auto split: option.split)
qed simp

lemma map_of_by_id:
  assumes "dict_wf s" "\<forall>(k, j) \<in> set s. j_id j = k"
  shows "map_of (map (\<lambda>j. (j_id j, f j)) (filter P (dict_values s))) i =
    (case dict_get s i of Some j \<Rightarrow> if P j then Some (f j) else None | None \<Rightarrow> None)"
  using assms
proof (induction s)
  case (Cons x s)
  then have "map_of s (fst x) = None"
    by (simp add: map_of_eq_None_iff)
  with Cons show ?case
    by (auto split: option.split)
qed simp

lemma mem_values_ids: "mem_inv s \<Longrightarrow> map j_id (dict_values s) = map fst s"
  by (auto simp: mem_inv_def)

lemma mem_inv_fold:
  "mem_inv s \<Longrightarrow> \<forall>j. j_id (f j) = j_id j \<Longrightarrow> mem_inv (fold (\<lambda>j. dict_set (j_id j) (f j)) js s)"
  by (induction js arbitrary: s) (simp_all add: mem_inv_set)

lemma distinct_id_filter: "distinct (map j_id js) \<Longrightarrow> distinct (map j_id (filter P js))"
  by (rule distinct_map_filter)

lemma mem_recover_correct:
  assumes "mem_inv s" "mem_recover t s = ((rs, es), s')"
  shows "mem_inv s'" "distinct (map j_id (rs @ es))"
    "mem_get s' i = map_option (\<lambda>j. if expired_running j t then recover_job j t else j) (mem_get s i)"
    "set (rs @ es) = {recover_job j t | i j. mem_get s i = Some j \<and> expired_running j t}"
    "\<forall>j \<in> set rs. j_status j = ''queued''" "\<forall>j \<in> set es. j_status j = ''failed''"
proof -
  let ?js = "filter (\<lambda>j. expired_running j t) (dict_values s)"
  have eqs: "rs = map (\<lambda>j. recover_job j t)
        (filter (\<lambda>j. expired_running j t \<and> j_attempts j < j_max_attempts j) (dict_values s))"
      "es = map (\<lambda>j. recover_job j t)
        (filter (\<lambda>j. expired_running j t \<and> j_max_attempts j \<le> j_attempts j) (dict_values s))"
      "s' = fold (\<lambda>j. dict_set (j_id j) (recover_job j t)) ?js s"
    using assms(2) by (simp_all add: mem_recover_def mem_recover_loop_eq)
  have dist: "distinct (map j_id (dict_values s))"
    unfolding mem_values_ids [OF assms(1)] using assms(1) by (simp add: mem_inv_def)
  show "mem_inv s'"
    unfolding eqs(3) by (rule mem_inv_fold) (simp_all add: assms(1) store_simps)
  show "distinct (map j_id (rs @ es))"
  proof -
    have "distinct (map j_id rs)" "distinct (map j_id es)"
      using dist unfolding eqs by (simp_all add: comp_def store_simps distinct_map_filter)
    moreover have "j_id a \<noteq> j_id b" if "a \<in> set rs" "b \<in> set es" for a b
    proof
      assume same: "j_id a = j_id b"
      from that obtain x y where x: "x \<in> set (dict_values s)" "a = recover_job x t"
          "j_attempts x < j_max_attempts x" and y: "y \<in> set (dict_values s)" "b = recover_job y t"
          "j_max_attempts y \<le> j_attempts y"
        unfolding eqs by auto
      with same have "j_id x = j_id y" by (simp add: store_simps)
      moreover have "inj_on j_id (set (dict_values s))"
        using dist unfolding distinct_map by blast
      ultimately have "x = y" using x(1) y(1) by (meson inj_onD)
      with x(3) y(3) show False by simp
    qed
    ultimately show ?thesis by auto
  qed
  show "mem_get s' i = map_option (\<lambda>j. if expired_running j t then recover_job j t else j) (mem_get s i)"
    using assms(1) unfolding eqs(3) mem_get_def
    by (subst dict_get_fold_set [OF distinct_map_filter [OF dist]], subst map_of_by_id)
      (auto simp: mem_inv_def split: option.split)
  show "set (rs @ es) = {recover_job j t | i j. mem_get s i = Some j \<and> expired_running j t}"
  proof -
    have "set (rs @ es) = (\<lambda>j. recover_job j t) ` {j \<in> set (dict_values s). expired_running j t}"
    proof -
      have split: "{j \<in> V. expired_running j t} =
          {j \<in> V. expired_running j t \<and> j_attempts j < j_max_attempts j} \<union>
          {j \<in> V. expired_running j t \<and> j_max_attempts j \<le> j_attempts j}" for V
        by auto
      show ?thesis
        unfolding eqs set_append set_map set_filter split image_Un by (rule refl)
    qed
    moreover have "j \<in> set (dict_values s) \<longleftrightarrow> (\<exists>i. mem_get s i = Some j)" for j
      using assms(1) dict_values_iff [of s] unfolding mem_get_def mem_inv_def by blast
    ultimately show ?thesis by blast
  qed
  show "\<forall>j \<in> set rs. j_status j = ''queued''" "\<forall>j \<in> set es. j_status j = ''failed''"
    unfolding eqs by (auto simp: store_simps)
qed

interpretation mem: job_repository mem_inv mem_get "\<lambda>_ _. True" mem_save mem_claim mem_heartbeat
    mem_recover mem_cancel
proof (unfold_locales, goal_cases)
  case (1 s i j)
  then show ?case by (simp add: mem_get_def mem_inv_get)
next
  case (2 s j lo)
  then show ?case by (simp add: mem_save_def mem_get_def)
next
  case (4 s j lo j')
  then have "j_id j' = j_id j"
    by (auto simp: save_outcome_def store_simps split: option.splits if_splits)
  with 4 show ?case by (simp add: mem_save_def mem_get_def mem_inv_set flip: mem_get_set)
next
  case (5 s i ow t e)
  then show ?case by (simp add: mem_claim_def mem_get_def)
next
  case (6 s i j ow t e)
  then have "j_id j = i" by (simp add: mem_get_def mem_inv_get)
  with 6 show ?case
    by (auto simp: mem_claim_def mem_get_def claim_outcome_def Let_def mem_inv_set store_simps)
next
  case (7 s ow t i e)
  then show ?case by (auto simp: mem_heartbeat_def mem_get_def split: option.split)
next
  case (8 s i j ow t e)
  then have "j_id j = i" by (simp add: mem_get_def mem_inv_get)
  with 8 show ?case
    by (auto simp: mem_heartbeat_def mem_get_def Let_def mem_inv_set store_simps)
next
  case (9 s t rs es s')
  then show ?case using mem_recover_correct [OF 9] by blast
next
  case (10 s i t st p)
  then show ?case by (simp add: mem_cancel_def mem_get_def)
next
  case (11 s i j t st p)
  then have "j_id j = i" by (simp add: mem_get_def mem_inv_get)
  with 11 show ?case
    by (auto simp: mem_cancel_def mem_get_def Let_def mem_inv_set store_simps cancel_outcome_def)
qed simp_all

end
