(* ===== verification/SqlJobStore.thy ===== *)
theory SqlJobStore
  imports JobStore
begin

text \<open>
  The SQL repository's jobs (\<open>SqlRepository\<close> in \<open>repository.py\<close>): a row holds the columns
  the queries filter on beside the whole job as JSON, and \<open>_job_from_row\<close> lays the columns
  over the JSON. Each operation runs in one transaction on the selected row; the model
  executes transactions one after another. \<open>job_abs\<close> maps a table to the jobs it stands
  for, and every operation is shown to be the in-memory repository's operation under it, so
  the table provides the interface \<open>job_repository\<close> too. Storing a job as JSON and reading
  it back is taken to give the same job (pydantic's \<open>model_dump\<close> and \<open>model_validate\<close>).
\<close>

record job_row =
  jr_id :: string
  jr_job_type :: string
  jr_status :: string
  jr_host_id :: "string option"
  jr_idempotency_key :: string
  jr_lease_owner :: "string option"
  jr_lease_expires_at :: "datetime option"
  jr_heartbeat_at :: "datetime option"
  jr_attempts :: int
  jr_last_failure :: "job_failure option"
  jr_payload :: durable_job
  jr_created_at :: datetime
  jr_updated_at :: datetime

type_synonym job_table = "(string, job_row) dict"

definition job_from_row :: "job_row \<Rightarrow> durable_job" where
  "job_from_row row = (jr_payload row)
     \<lparr>j_id := jr_id row, j_job_type := jr_job_type row, j_status := jr_status row,
      j_host_id := jr_host_id row, j_idempotency_key := jr_idempotency_key row,
      j_lease_owner := jr_lease_owner row, j_lease_expires_at := jr_lease_expires_at row,
      j_heartbeat_at := jr_heartbeat_at row, j_attempts := jr_attempts row,
      j_last_failure := jr_last_failure row, j_created_at := jr_created_at row,
      j_updated_at := jr_updated_at row\<rparr>"

definition job_values :: "durable_job \<Rightarrow> job_row" where
  "job_values j =
     \<lparr>jr_id = j_id j, jr_job_type = j_job_type j, jr_status = j_status j, jr_host_id = j_host_id j,
      jr_idempotency_key = j_idempotency_key j, jr_lease_owner = j_lease_owner j,
      jr_lease_expires_at = j_lease_expires_at j, jr_heartbeat_at = j_heartbeat_at j,
      jr_attempts = j_attempts j, jr_last_failure = j_last_failure j, jr_payload = j,
      jr_created_at = j_created_at j, jr_updated_at = j_updated_at j\<rparr>"

lemma job_from_row_values [simp]: "job_from_row (job_values j) = j"
  by (simp add: job_from_row_def job_values_def)

lemma job_from_row_columns [simp]:
  "j_id (job_from_row row) = jr_id row" "j_status (job_from_row row) = jr_status row"
  "j_lease_owner (job_from_row row) = jr_lease_owner row"
  "j_lease_expires_at (job_from_row row) = jr_lease_expires_at row"
  "j_heartbeat_at (job_from_row row) = jr_heartbeat_at row"
  "j_attempts (job_from_row row) = jr_attempts row"
  "j_idempotency_key (job_from_row row) = jr_idempotency_key row"
  "j_host_id (job_from_row row) = jr_host_id row"
  "j_job_type (job_from_row row) = jr_job_type row"
  by (simp_all add: job_from_row_def)

subsection \<open>Operations\<close>

text \<open>Writing a job: update the row of that id or insert one.\<close>

definition write_row :: "durable_job \<Rightarrow> job_table \<Rightarrow> job_table" where
  "write_row j s = dict_set (j_id j) (job_values j) s"

text \<open>The unique column \<open>idempotency_key\<close>: no other row has the job's key.\<close>

definition key_free :: "job_table \<Rightarrow> durable_job \<Rightarrow> bool" where
  "key_free s j \<longleftrightarrow> (\<forall>row \<in> set (dict_values s).
     jr_id row \<noteq> j_id j \<longrightarrow> jr_idempotency_key row \<noteq> j_idempotency_key j)"

definition sql_save ::
  "durable_job \<Rightarrow> string option \<Rightarrow> job_table \<Rightarrow> (exn + durable_job option) \<times> job_table" where
  "sql_save job lease_owner s =
     (let row = dict_get s (j_id job);
          rejected = (case lease_owner of None \<Rightarrow> False
            | Some owner \<Rightarrow>
                (case row of None \<Rightarrow> True
                 | Some r \<Rightarrow> jr_lease_owner r \<noteq> Some owner \<or> jr_status r \<noteq> ''running''
                     \<or> lease_is_expired (jr_lease_expires_at r) (j_updated_at job)));
          job' = (case (lease_owner, row) of
            (Some owner, Some r) \<Rightarrow>
              (if j_status job = ''running''
               then job\<lparr>j_heartbeat_at := later_datetime (j_heartbeat_at job) (jr_heartbeat_at r),
                        j_lease_expires_at :=
                          later_datetime (j_lease_expires_at job) (jr_lease_expires_at r)\<rparr>
               else job)
          | _ \<Rightarrow> job)
      in if rejected then (Inr None, s)
         else if \<not> key_free s job then (Inl (IntegrityError ''jobs.idempotency_key''), s)
         else (Inr (Some job'), write_row job' s))"

definition sql_claim ::
  "string \<Rightarrow> string \<Rightarrow> datetime \<Rightarrow> datetime \<Rightarrow> job_table \<Rightarrow> durable_job option \<times> job_table" where
  "sql_claim job_id lease_owner started_at lease_expires_at s =
     (case dict_get s job_id of
        None \<Rightarrow> (None, s)
      | Some row \<Rightarrow>
          let job = job_from_row row;
              expired = (jr_status row = ''running'' \<and>
                         lease_is_expired (jr_lease_expires_at row) started_at)
          in if jr_status row \<noteq> ''queued'' \<and> \<not> expired then (None, s)
             else if j_max_attempts job \<le> jr_attempts row then
               (None, write_row (terminalize_exhausted_job job started_at) s)
             else
               let job' = start_claim job lease_owner started_at lease_expires_at
               in (Some job', write_row job' s))"

definition sql_heartbeat ::
  "string \<Rightarrow> string \<Rightarrow> datetime \<Rightarrow> datetime \<Rightarrow> job_table \<Rightarrow> durable_job option \<times> job_table" where
  "sql_heartbeat job_id lease_owner heartbeat_at lease_expires_at s =
     (case dict_get s job_id of
        None \<Rightarrow> (None, s)
      | Some row \<Rightarrow>
          if jr_status row \<noteq> ''running'' \<or> jr_lease_owner row \<noteq> Some lease_owner
             \<or> lease_is_expired (jr_lease_expires_at row) heartbeat_at then (None, s)
          else let job = beat (job_from_row row) heartbeat_at lease_expires_at
               in (Some job, write_row job s))"

fun sql_recover_loop ::
  "datetime \<Rightarrow> job_row list \<Rightarrow> job_table \<Rightarrow> (durable_job list \<times> durable_job list) \<times> job_table" where
  "sql_recover_loop t [] s = (([], []), s)"
| "sql_recover_loop t (row # rows) s =
     (let job = recover_job (job_from_row row) t;
          ((recovered, exhausted), s') = sql_recover_loop t rows (write_row job s)
      in if j_max_attempts (job_from_row row) \<le> j_attempts (job_from_row row)
         then ((recovered, job # exhausted), s') else ((job # recovered, exhausted), s'))"

text \<open>\<open>with_for_update(skip_locked=True)\<close>: rows another transaction has locked are left out.\<close>

definition sql_recover ::
  "(string \<Rightarrow> bool) \<Rightarrow> datetime \<Rightarrow> job_table \<Rightarrow> (durable_job list \<times> durable_job list) \<times> job_table" where
  "sql_recover locked recovered_at s =
     sql_recover_loop recovered_at
       (filter (\<lambda>row. jr_status row = ''running'' \<and>
                  lease_is_expired (jr_lease_expires_at row) recovered_at \<and> \<not> locked (jr_id row))
         (dict_values s)) s"

definition sql_cancel ::
  "string \<Rightarrow> datetime \<Rightarrow> string list \<Rightarrow> string \<Rightarrow> job_table \<Rightarrow> durable_job option \<times> job_table" where
  "sql_cancel job_id canceled_at allowed_statuses phase s =
     (case dict_get s job_id of
        None \<Rightarrow> (None, s)
      | Some row \<Rightarrow>
          if jr_status row \<in> set allowed_statuses then
            let job = cancel_outcome (job_from_row row) canceled_at allowed_statuses phase
            in (Some job, write_row job s)
          else (Some (job_from_row row), s))"

definition sql_get_by_idempotency :: "job_table \<Rightarrow> string \<Rightarrow> durable_job option" where
  "sql_get_by_idempotency s key =
     map_option job_from_row (List.find (\<lambda>row. jr_idempotency_key row = key) (dict_values s))"

definition sql_host_has_active_scan :: "job_table \<Rightarrow> string \<Rightarrow> bool" where
  "sql_host_has_active_scan s host_id \<longleftrightarrow>
     length (filter (\<lambda>row. jr_host_id row = Some host_id \<and> jr_job_type row = ''scan'' \<and>
       jr_status row \<in> {''queued'', ''running''}) (dict_values s)) \<noteq> 0"

subsection \<open>The abstraction\<close>

definition job_abs :: "job_table \<Rightarrow> mem_jobs" where
  "job_abs s = map (\<lambda>(k, row). (k, job_from_row row)) s"

definition sql_inv :: "job_table \<Rightarrow> bool" where
  "sql_inv s \<longleftrightarrow> mem_inv (job_abs s)"

definition sql_get :: "job_table \<Rightarrow> string \<Rightarrow> durable_job option" where
  "sql_get s i = map_option job_from_row (dict_get s i)"

lemma job_abs_get: "dict_get (job_abs s) i = map_option job_from_row (dict_get s i)"
  by (simp add: job_abs_def dict_get_map)

lemma sql_get_abs: "sql_get s = mem_get (job_abs s)"
  by (simp add: fun_eq_iff sql_get_def mem_get_def job_abs_get)

lemma job_abs_write: "job_abs (write_row j s) = dict_set (j_id j) j (job_abs s)"
  by (simp add: job_abs_def write_row_def dict_set_map)

lemma job_abs_values: "dict_values (job_abs s) = map job_from_row (dict_values s)"
  by (simp add: job_abs_def comp_def split_beta)

lemmas job_abs_simps = job_abs_get job_abs_write job_abs_values

definition lift_abs :: "'a \<times> job_table \<Rightarrow> 'a \<times> mem_jobs" where
  "lift_abs x = (fst x, job_abs (snd x))"

lemma sql_save_abs:
  "key_free s j \<Longrightarrow> lift_abs (sql_save j lo s) = mem_save j lo (job_abs s)"
  by (cases lo; cases "dict_get s (j_id j)")
    (simp_all add: lift_abs_def sql_save_def mem_save_def save_outcome_def holds_lease_def
      merge_lease_def job_abs_simps Let_def)

lemma sql_claim_abs: "lift_abs (sql_claim i ow t e s) = mem_claim i ow t e (job_abs s)"
  by (cases "dict_get s i")
    (simp_all add: lift_abs_def sql_claim_def mem_claim_def expired_running_def job_abs_simps
      Let_def store_simps)

lemma sql_heartbeat_abs: "lift_abs (sql_heartbeat i ow t e s) = mem_heartbeat i ow t e (job_abs s)"
  by (cases "dict_get s i")
    (auto simp: lift_abs_def sql_heartbeat_def mem_heartbeat_def holds_lease_def job_abs_simps
      Let_def store_simps)

lemma sql_recover_loop_abs:
  "lift_abs (sql_recover_loop t (filter (\<lambda>row. expired_running (job_from_row row) t) rows) s) =
     mem_recover_loop t (map job_from_row rows) (job_abs s)"
proof (induction rows arbitrary: s)
  case (Cons row rows)
  let ?j = "recover_job (job_from_row row) t"
  let ?loop = "sql_recover_loop t (filter (\<lambda>row. expired_running (job_from_row row) t) rows)"
  obtain rs es s' where l: "?loop (write_row ?j s) = ((rs, es), s')"
    by (metis surj_pair)
  have "mem_recover_loop t (map job_from_row rows) (dict_set (jr_id row) ?j (job_abs s)) =
      ((rs, es), job_abs s')"
    using Cons.IH [of "write_row ?j s"] by (simp add: l lift_abs_def job_abs_write store_simps)
  then show ?case
    using Cons.IH [of s] l by (simp add: lift_abs_def store_simps Let_def)
qed (simp add: lift_abs_def)

lemma sql_recover_abs: "lift_abs (sql_recover (\<lambda>_. False) t s) = mem_recover t (job_abs s)"
  using sql_recover_loop_abs [of t "dict_values s" s]
  by (simp add: sql_recover_def mem_recover_def job_abs_values expired_running_def)

lemma sql_cancel_abs: "lift_abs (sql_cancel i t st p s) = mem_cancel i t st p (job_abs s)"
  by (cases "dict_get s i")
    (simp_all add: lift_abs_def sql_cancel_def mem_cancel_def job_abs_simps Let_def store_simps)

text \<open>The laws carry over from the in-memory repository along the abstraction.\<close>

lemma lift_absD: "lift_abs x = y \<Longrightarrow> \<exists>s'. x = (fst y, s') \<and> job_abs s' = snd y"
  by (cases x) (auto simp: lift_abs_def)

interpretation sql: job_repository sql_inv sql_get key_free sql_save sql_claim sql_heartbeat
    "sql_recover (\<lambda>_. False)" sql_cancel
proof (unfold_locales, goal_cases)
  case (1 s i j)
  then show ?case using mem.get_id unfolding sql_inv_def sql_get_abs by blast
next
  case (2 s j lo)
  then show ?case
    by (cases lo; cases "dict_get s (j_id j)")
      (auto simp: sql_save_def sql_get_def save_outcome_def holds_lease_def Let_def
        split: if_splits)
next
  case (3 s j lo j')
  then show ?case
    by (cases lo; cases "dict_get s (j_id j)")
      (auto simp: sql_save_def sql_get_def save_outcome_def holds_lease_def Let_def
        split: if_splits)
next
  case (4 s j lo j')
  then show ?case
    using mem.save_stored [of "job_abs s" j lo j'] lift_absD [OF sql_save_abs [OF 4(3), of lo]]
    by (auto simp: sql_inv_def sql_get_abs)
next
  case (5 s i ow t e)
  then show ?case by (simp add: sql_claim_def sql_get_def)
next
  case (6 s i j ow t e)
  then have "mem_inv (job_abs s)" "mem_get (job_abs s) i = Some j"
    by (simp_all add: sql_inv_def sql_get_abs)
  from mem.claim_some [OF this, of ow t e] lift_absD [OF sql_claim_abs, of i ow t e s]
  show ?case by (auto simp: sql_inv_def sql_get_abs)
next
  case (7 s ow t i e)
  then show ?case
    by (auto simp: sql_heartbeat_def sql_get_def holds_lease_def split: option.split)
next
  case (8 s i j ow t e)
  then have "mem_inv (job_abs s)" "mem_get (job_abs s) i = Some j" "holds_lease j ow t"
    by (simp_all add: sql_inv_def sql_get_abs)
  from mem.heartbeat_some [OF this, of e] lift_absD [OF sql_heartbeat_abs, of i ow t e s]
  show ?case by (auto simp: sql_inv_def sql_get_abs)
next
  case (9 s t rs es s')
  then have "mem_recover t (job_abs s) = ((rs, es), job_abs s')"
    using sql_recover_abs [of t s] by (simp add: lift_abs_def)
  with mem.recover_lists [of "job_abs s"] 9(1) show ?case
    unfolding sql_inv_def sql_get_abs by blast
next
  case (10 s i t st p)
  then show ?case by (simp add: sql_cancel_def sql_get_def)
next
  case (11 s i j t st p)
  then have "mem_inv (job_abs s)" "mem_get (job_abs s) i = Some j"
    by (simp_all add: sql_inv_def sql_get_abs)
  from mem.cancel_some [OF this, of t st p] lift_absD [OF sql_cancel_abs, of i t st p s]
  show ?case by (auto simp: sql_inv_def sql_get_abs)
qed

end
