(* ===== verification/GateExecution.thy ===== *)
theory GateExecution
  imports Fixtures
begin

text \<open>
  \<open>TrustedChangeGate\<close>, second half: timing, drift, snapshots, post-change health, rollback,
  execution outcomes and the recovery of stale jobs.
\<close>

subsection \<open>Operations\<close>

record timing_decision =
  td_decision :: gate_decision
  td_job_status :: string
  td_remediation_state :: string

datatype post_change_action = ActComplete | ActRollback

record post_change_decision =
  pc_decision :: gate_decision
  pc_action :: post_change_action
  pc_snapshot_state :: rollback_snapshot_state

record rollback_decision =
  bd_decision :: gate_decision
  bd_snapshot_state :: rollback_snapshot_state
  bd_remediation_state :: string
  bd_summary :: string

record execution_outcome_result =
  eo_decision :: gate_decision
  eo_remediation_state :: string
  eo_job_status :: string
  eo_stop_remaining_hosts :: bool

record recovery_decision =
  rd_decision :: gate_decision
  rd_remediation_state :: string
  rd_dispatch :: bool

text \<open>The time zone lookup and the start time's parser may raise.\<close>

definition timing :: "tzdata \<Rightarrow> remediation \<Rightarrow> datetime \<Rightarrow> exn + timing_decision" where
  "timing tz r current =
     (case maintenance_window_is_open tz r current of
        Inl e \<Rightarrow> Inl e
      | Inr is_open \<Rightarrow> Inr
          (if is_open
           then \<lparr>td_decision = allow, td_job_status = ''queued'', td_remediation_state = ''queued''\<rparr>
           else \<lparr>td_decision = deny MAINTENANCE_WINDOW_CLOSED None ''scheduling'' False,
                 td_job_status = ''scheduled'', td_remediation_state = ''waiting_for_window''\<rparr>))"

definition package_keys :: "host_snapshot \<Rightarrow> (string \<times> string) list" where
  "package_keys s =
     map (\<lambda>u. (pu_name u, pu_candidate_version u)) (ps_updates (sn_package_summary s))"

definition drift :: "host_snapshot option \<Rightarrow> host_snapshot option \<Rightarrow> gate_decision" where
  "drift approved current =
     (case (approved, current) of
        (Some a, Some c) \<Rightarrow>
          (if sort (package_keys a) \<noteq> sort (package_keys c)
              \<or> sort (ss_failed_units (sn_service_summary a))
                  \<noteq> sort (ss_failed_units (sn_service_summary c))
              \<or> ps_reboot_required_now (sn_package_summary a)
                  \<noteq> ps_reboot_required_now (sn_package_summary c)
           then deny_safety HOST_STATE_DRIFT else allow)
      | _ \<Rightarrow> deny EVIDENCE_INCOMPLETE (Some ''Approved scan snapshot is unavailable'')
               ''approval_validation'' False)"

definition snapshot_creation :: "bool \<Rightarrow> string \<Rightarrow> gate_decision" where
  "snapshot_creation success summary =
     (if success then allow
      else deny SNAPSHOT_CREATE_FAILED
             (Some (''Snapshot creation failed before package changes: '' @ summary))
             ''safety_validation'' False)"

definition post_change_health :: "bool \<Rightarrow> post_change_decision" where
  "post_change_health healthy =
     (if healthy
      then \<lparr>pc_decision = allow, pc_action = ActComplete, pc_snapshot_state = SnapDeleteScheduled\<rparr>
      else \<lparr>pc_decision = deny_safety ROLLBACK_REQUIRED, pc_action = ActRollback,
            pc_snapshot_state = SnapRollbackStarted\<rparr>)"

definition rollback_result :: "bool \<Rightarrow> rollback_decision" where
  "rollback_result success =
     (if success
      then \<lparr>bd_decision = deny_safety ROLLBACK_SUCCEEDED, bd_snapshot_state = SnapRolledBack,
            bd_remediation_state = ''blocked'', bd_summary = reason_text ROLLBACK_SUCCEEDED\<rparr>
      else \<lparr>bd_decision = deny_safety ROLLBACK_FAILED, bd_snapshot_state = SnapRollbackFailed,
            bd_remediation_state = ''blocked'', bd_summary = reason_text ROLLBACK_FAILED\<rparr>)"

definition failure_category :: "string \<Rightarrow> string" where
  "failure_category summary =
     (let lowered = lower summary in
      if str_in ''approv'' lowered \<or> str_in ''plan'' lowered then ''approval_validation''
      else if \<exists>marker \<in> set [''host key'', ''blocked'', ''snapshot'', ''rollback'',
                 ''health check'', ''human intervention'']. str_in marker lowered
        then ''safety_validation''
      else ''remediation_execution'')"

definition non_retryable_markers :: "string list" where
  "non_retryable_markers =
     [''approval'', ''approved'', ''plan changed'', ''host key'', ''execution blocked'',
      ''reboot scope'', ''policy forbids'', ''snapshot'', ''rollback'', ''health check'',
      ''human intervention'']"

definition failure_is_non_retryable :: "string \<Rightarrow> bool" where
  "failure_is_non_retryable summary =
     (let lowered = lower summary in
      \<exists>marker \<in> set non_retryable_markers. str_in marker lowered)"

definition execution_outcome ::
  "execution_result \<Rightarrow> rollback_snapshot_state option \<Rightarrow> execution_outcome_result" where
  "execution_outcome result snapshot_state =
     (if er_success result then
        \<lparr>eo_decision = allow, eo_remediation_state = ''succeeded'',
         eo_job_status = ''completed'', eo_stop_remaining_hosts = False\<rparr>
      else if snapshot_state \<in> {Some SnapCreated, Some SnapRollbackStarted,
                                  Some SnapRolledBack, Some SnapRollbackFailed} then
        (let c = (if snapshot_state = Some SnapRollbackFailed then ROLLBACK_FAILED
                  else if snapshot_state = Some SnapRolledBack then ROLLBACK_SUCCEEDED
                  else EXECUTION_CHANGED_FAILED)
         in \<lparr>eo_decision = deny c (Some (er_summary result)) ''safety_validation'' False,
             eo_remediation_state = ''blocked'', eo_job_status = ''failed'',
             eo_stop_remaining_hosts = True\<rparr>)
      else if er_changed result then
        \<lparr>eo_decision = deny EXECUTION_CHANGED_FAILED (Some (er_summary result))
           (failure_category (er_summary result)) False,
         eo_remediation_state = ''failed'', eo_job_status = ''failed'',
         eo_stop_remaining_hosts = True\<rparr>
      else
        (let retryable = (\<not> failure_is_non_retryable (er_summary result))
         in \<lparr>eo_decision = deny EXECUTION_FAILED (Some (er_summary result))
               (failure_category (er_summary result)) retryable,
             eo_remediation_state = (if retryable then ''queued'' else ''failed''),
             eo_job_status = (if retryable then ''queued'' else ''failed''),
             eo_stop_remaining_hosts = (\<not> retryable)\<rparr>))"

text \<open>
  \<open>str(job.result.get("recovered_from_phase") or job.current_phase or "")\<close>, compared with
  phase names only: \<open>str\<close> of a value that is not a string is never one of them, so the
  value itself is kept and compared with the name as a JSON string.
\<close>

definition recovered_phase :: "durable_job \<Rightarrow> json" where
  "recovered_phase j =
     (case dict_get (j_result j) ''recovered_from_phase'' of
        Some v \<Rightarrow> if json_truthy v then v else JStr (or_empty (j_current_phase j))
      | None \<Rightarrow> JStr (or_empty (j_current_phase j)))"

definition mutation_phases :: "string list" where
  "mutation_phases = [''snapshot_create'', ''ansible_execution'', ''post_reboot_health_check'',
     ''snapshot_rollback'']"

definition stale_recovery :: "durable_job \<Rightarrow> bool \<Rightarrow> recovery_decision" where
  "stale_recovery j exhausted =
     (if recovered_phase j \<in> JStr ` set mutation_phases then
        \<lparr>rd_decision = deny_safety STALE_EXECUTION_UNCERTAIN, rd_remediation_state = ''blocked'',
         rd_dispatch = False\<rparr>
      else if exhausted then
        \<lparr>rd_decision = deny EXECUTION_FAILED
           (Some (if truthy (j_error j) then or_empty (j_error j)
                  else ''Job retry attempts were exhausted''))
           ''worker_lease_expired'' False,
         rd_remediation_state = ''failed'', rd_dispatch = False\<rparr>
      else \<lparr>rd_decision = allow, rd_remediation_state = ''queued'', rd_dispatch = True\<rparr>)"

subsection \<open>Drift\<close>

text \<open>Drift detection compares states, not listings: a current snapshot passes exactly
  when it offers the same package candidates and failed units as multisets (the order in
  which a host lists them is irrelevant, a repeated entry is not) and the same reboot flag.\<close>

theorem drift_iff:
  "gd_allowed (drift (Some a) (Some c)) \<longleftrightarrow>
     mset (package_keys a) = mset (package_keys c) \<and>
     mset (ss_failed_units (sn_service_summary a)) = mset (ss_failed_units (sn_service_summary c)) \<and>
     ps_reboot_required_now (sn_package_summary a) = ps_reboot_required_now (sn_package_summary c)"
  by (simp add: drift_def sort_eq_iff_mset)

subsection \<open>Outcomes\<close>

text \<open>An execution is offered for retry exactly when it failed before anything changed:
  no change reported, no snapshot left behind in a created or rollback state, and no
  non-retryable marker in its summary. Every other failure ends the job and stops the
  remaining hosts, and a failure with a snapshot left behind blocks the remediation.\<close>

theorem execution_outcome_retry:
  "let o' = execution_outcome res st;
       protected = (st \<in> {Some SnapCreated, Some SnapRollbackStarted, Some SnapRolledBack,
                           Some SnapRollbackFailed})
   in (eo_job_status o' = ''queued'' \<longleftrightarrow>
         \<not> er_success res \<and> \<not> er_changed res \<and> \<not> protected \<and>
         \<not> failure_is_non_retryable (er_summary res)) \<and>
      (gd_retryable (eo_decision o') \<longleftrightarrow> eo_job_status o' = ''queued'') \<and>
      (gd_allowed (eo_decision o') \<longleftrightarrow> er_success res) \<and>
      (eo_stop_remaining_hosts o' \<longleftrightarrow> eo_job_status o' = ''failed'') \<and>
      (eo_remediation_state o' = ''blocked'' \<longleftrightarrow> \<not> er_success res \<and> protected)"
  by (auto simp: execution_outcome_def Let_def allow_def)

text \<open>A failed rollback or an unhealthy host never completes: the health verdict and the
  rollback result determine the snapshot's next state, only a healthy host has its snapshot
  scheduled for deletion, and a rollback, successful or not, blocks the remediation under a
  summary that no retry classifies as retryable.\<close>

theorem rollback_never_retried:
  "let p = post_change_health healthy; b = rollback_result ok;
       o' = execution_outcome \<lparr>er_success = False, er_summary = bd_summary b, er_changed = ch,
              er_reboot_performed = rp, er_phases = ps, er_events = es,
              er_failure_actions_taken = fa\<rparr> None
   in (pc_snapshot_state p = SnapDeleteScheduled \<longleftrightarrow> healthy) \<and>
      (pc_action p = ActComplete \<longleftrightarrow> gd_allowed (pc_decision p)) \<and>
      \<not> gd_allowed (bd_decision b) \<and> bd_remediation_state b = ''blocked'' \<and>
      (bd_snapshot_state b = SnapRollbackFailed \<longleftrightarrow> \<not> ok) \<and>
      eo_job_status o' = ''failed''"
proof -
  have "failure_is_non_retryable (bd_summary (rollback_result ok))"
    by (cases ok) (simp_all add: rollback_result_def reason_text_def failure_is_non_retryable_def,
      code_simp, code_simp)
  then show ?thesis
    by (simp add: Let_def post_change_health_def execution_outcome_def)
      (simp add: rollback_result_def)
qed

subsection \<open>The maintenance window in a zone with a fixed offset\<close>

definition fixed_zone :: "tzdata \<Rightarrow> string \<Rightarrow> int \<Rightarrow> bool" where
  "fixed_zone tz z off \<longleftrightarrow>
     tz_known tz z \<and> (\<forall>x. tz_offset tz z x = off) \<and> (\<forall>x. tz_wall_offset tz z x = off)"

definition start_of_day_usec :: "int \<times> int \<Rightarrow> int" where
  "start_of_day_usec hm = (60 * fst hm + snd hm) * usec_per_minute"

lemma day_start_split: "x = day_start x + x mod usec_per_day"
  by (simp add: day_start_def)

text \<open>In a zone with a fixed offset, a maintenance window is open exactly on its
  weekdays from its start time, inclusive, for its duration, exclusive, but never past the
  local midnight that ends the day it started on: time of day is compared with the start, so
  a duration that reaches over midnight is cut there.\<close>

theorem window_open_iff:
  assumes "r_execution_timing r \<noteq> ''immediate''" and "r_maintenance_window r = Some w"
    and zone: "fixed_zone tz (mw_timezone w) off"
    and start: "parse_start (mw_start_time w) = Some hm"
    and local: "local = instant_of tz t + off" and m: "m = local mod usec_per_day"
  shows "maintenance_window_is_open tz r t =
    Inr (weekday local \<in> set (mw_weekdays w) \<and> start_of_day_usec hm \<le> m \<and>
         m < min usec_per_day (start_of_day_usec hm + mw_duration_minutes w * usec_per_minute))"
proof -
  have "m < usec_per_day"
    by (simp add: m usec_per_day_def)
  then show ?thesis
    using assms(1,2) zone start day_start_split [of local] unfolding local [symmetric] m
    by (cases hm)
      (auto simp: maintenance_window_is_open_def fixed_zone_def start_of_day_usec_def Let_def local)
qed

definition utc :: tzdata where
  "utc = \<lparr>tz_known = (\<lambda>z. z = ''UTC''), tz_offset = (\<lambda>_ _. 0), tz_wall_offset = (\<lambda>_ _. 0),
          tz_system = (\<lambda>_. 0)\<rparr>"

definition sample_windowed :: "string \<Rightarrow> int \<Rightarrow> remediation" where
  "sample_windowed start minutes = (sample_plan_base ''required'')
     \<lparr>r_execution_timing := ''maintenance_window'',
      r_maintenance_window := Some (sample_window\<lparr>mw_start_time := start,
        mw_duration_minutes := minutes\<rparr>)\<rparr>"

lemma parse_start_late: "parse_start ''23:00'' = Some (23, 0)"
  by code_simp

lemma window_open_iff_witness:
  "maintenance_window_is_open utc (sample_windowed ''23:00'' 120) (Aware (23 * 3600000000)) = Inr True"
proof -
  have "maintenance_window_is_open utc (sample_windowed ''23:00'' 120) (Aware (23 * 3600000000)) =
    Inr (weekday (23 * 3600000000) \<in> set (mw_weekdays (sample_window\<lparr>mw_start_time := ''23:00'',
           mw_duration_minutes := 120\<rparr>)) \<and>
         start_of_day_usec (23, 0) \<le> 23 * 3600000000 mod usec_per_day \<and>
         23 * 3600000000 mod usec_per_day < min usec_per_day (start_of_day_usec (23, 0) +
           mw_duration_minutes (sample_window\<lparr>mw_start_time := ''23:00'',
             mw_duration_minutes := 120\<rparr>) * usec_per_minute))"
    by (rule window_open_iff [where off = 0])
      (simp_all add: sample_windowed_def fixed_zone_def utc_def sample_window_def parse_start_late)
  then show ?thesis
    by (simp add: weekday_def usec_per_day_def start_of_day_usec_def usec_per_minute_def
        sample_window_def)
qed

text \<open>The window of two hours from 23:00 on every day of the week, which the model accepts
  as valid, is open at 23:30 and closed at 00:30, one and a half hours after it opened.\<close>

theorem window_over_midnight_is_cut:
  "maintenance_window_valid (sample_window\<lparr>mw_start_time := ''23:00'', mw_duration_minutes := 120\<rparr>) \<and>
   (\<forall>day::int.
     maintenance_window_is_open utc (sample_windowed ''23:00'' 120)
       (Aware (day * usec_per_day + 1410 * usec_per_minute)) = Inr True \<and>
     maintenance_window_is_open utc (sample_windowed ''23:00'' 120)
       (Aware (day * usec_per_day + 1470 * usec_per_minute)) = Inr False)"
proof -
  have wd: "weekday x \<in> {0, 1, 2, 3, 4, 5, 6}" for x
    unfolding weekday_def using pos_mod_bound [of 7 "x div usec_per_day + 3"]
      pos_mod_sign [of 7 "x div usec_per_day + 3"] by auto
  have ds: "day_start (day * usec_per_day + 1410 * usec_per_minute) = day * usec_per_day"
    "day_start (day * usec_per_day + 1470 * usec_per_minute) = (day + 1) * usec_per_day" for day
    by (simp_all add: day_start_def usec_per_day_def usec_per_minute_def)
  show ?thesis
    using wd
    by (simp add: maintenance_window_is_open_def sample_windowed_def sample_window_def utc_def
        parse_start_late Let_def maintenance_window_valid_def ds)
      (simp add: usec_per_day_def usec_per_minute_def)
qed

end
