(* ===== verification/JobProperties.thy ===== *)
theory JobProperties
  imports SqlJobStore GateExecution
begin

text \<open>
  What the two job repositories guarantee, drawn from the interface \<open>job_repository\<close> for
  both interpretations: refinement, mutual exclusion by leases, bounded attempts, final
  states, recovery, and what recovery and claiming leave for the gate to decide on.
\<close>

definition mem_step :: "job_op \<Rightarrow> mem_jobs \<Rightarrow> mem_jobs" where
  "mem_step = job_step mem_save mem_claim mem_heartbeat mem_recover mem_cancel"

definition sql_step :: "job_op \<Rightarrow> job_table \<Rightarrow> job_table" where
  "sql_step = job_step sql_save sql_claim sql_heartbeat (sql_recover (\<lambda>_. False)) sql_cancel"

subsection \<open>Example values\<close>

definition sample_job :: "string \<Rightarrow> durable_job" where
  "sample_job status = \<lparr>j_id = ''job-1'', j_job_type = ''remediation'', j_status = status,
     j_host_id = Some ''host-1'', j_scan_id = Some ''scan-1'', j_remediation_id = Some ''rem-1'',
     j_campaign_id = None, j_approved_plan_version = Some 1, j_approved_plan_hash = Some ''h'',
     j_approval_scope = Some ''patch_only'', j_idempotency_key = ''key-1'', j_progress_percent = 0,
     j_current_phase = None, j_attempts = 0, j_max_attempts = 3, j_lease_owner = None,
     j_lease_expires_at = None, j_heartbeat_at = None, j_last_failure = None, j_error = None,
     j_result = [], j_created_at = Aware 0, j_started_at = None, j_completed_at = None,
     j_updated_at = Aware 0\<rparr>"

definition sample_running :: durable_job where
  "sample_running = start_claim (sample_job ''queued'') ''w1'' (Aware 10) (Aware 100)"

definition table_of :: "durable_job \<Rightarrow> job_table" where
  "table_of j = [(j_id j, job_values j)]"

lemma table_of_inv: "sql_inv (table_of j)" "sql_get (table_of j) (j_id j) = Some j"
  "mem_inv [(j_id j, j)]" "mem_get [(j_id j, j)] (j_id j) = Some j"
  by (simp_all add: sql_inv_def table_of_def job_abs_def mem_inv_def sql_get_def mem_get_def)

lemma sample_running_fields:
  "j_id sample_running = ''job-1''" "j_status sample_running = ''running''"
  "j_lease_owner sample_running = Some ''w1''" "j_lease_expires_at sample_running = Some (Aware 100)"
  "j_attempts sample_running = 1" "j_max_attempts sample_running = 3"
  by (simp_all add: sample_running_def store_simps) (simp_all add: sample_job_def)

subsection \<open>The SQL repository refines the in-memory one\<close>

text \<open>C13: Every operation on the SQL job table returns what the in-memory repository returns on
  the jobs the table stands for and leaves a table that stands for the in-memory result; a
  save that would repeat another job's idempotency key is the one exception, and then the
  table is unchanged.\<close>

theorem sql_refines_memory:
  "(key_free s j \<longrightarrow> lift_abs (sql_save j lo s) = mem_save j lo (job_abs s)) \<and>
   (\<not> key_free s j \<longrightarrow> snd (sql_save j lo s) = s) \<and>
   lift_abs (sql_claim i ow t e s) = mem_claim i ow t e (job_abs s) \<and>
   lift_abs (sql_heartbeat i ow t e s) = mem_heartbeat i ow t e (job_abs s) \<and>
   lift_abs (sql_recover (\<lambda>_. False) t s) = mem_recover t (job_abs s) \<and>
   lift_abs (sql_cancel i t st p s) = mem_cancel i t st p (job_abs s) \<and>
   sql_get_by_idempotency s key = mem_get_by_idempotency (job_abs s) key \<and>
   sql_host_has_active_scan s h = mem_host_has_active_scan (job_abs s) h"
proof -
  have "snd (sql_save j lo s) = s" if "\<not> key_free s j"
    using that by (simp add: sql_save_def Let_def)
  moreover have "sql_get_by_idempotency s key = mem_get_by_idempotency (job_abs s) key"
    unfolding sql_get_by_idempotency_def mem_get_by_idempotency_def job_abs_values find_map
    by (simp add: comp_def)
  moreover have "sql_host_has_active_scan s h = mem_host_has_active_scan (job_abs s) h"
    by (auto simp: sql_host_has_active_scan_def mem_host_has_active_scan_def job_abs_values
        filter_empty_conv)
  ultimately show ?thesis
    using sql_save_abs sql_claim_abs sql_heartbeat_abs sql_recover_abs sql_cancel_abs by blast
qed

lemma sql_refines_memory_witness:
  "snd (sql_save ((sample_job ''queued'')\<lparr>j_id := ''job-2''\<rparr>) None (table_of sample_running)) =
     table_of sample_running"
proof -
  have "\<not> key_free (table_of sample_running) ((sample_job ''queued'')\<lparr>j_id := ''job-2''\<rparr>)"
    by (simp add: key_free_def table_of_def job_values_def sample_running_def start_claim_def Let_def
        store_simps) (simp add: sample_job_def)
  then show ?thesis
    using sql_refines_memory [of "table_of sample_running"
        "(sample_job ''queued'')\<lparr>j_id := ''job-2''\<rparr>" None] by blast
qed

subsection \<open>Leases\<close>

text \<open>In the repositories: while a job runs under an unexpired lease, no sequence of claims by
  any worker, heartbeats and leased saves of other workers, recoveries and cancellations before the
  lease's expiry, and of anything on other jobs, changes the job, in either repository. Saves of the
  job without a lease are not among them; \<open>JobSafety\<close> shows that no operation of the service
  makes one that reaches the job.\<close>

theorem lease_in_repository:
  assumes "sql_get s i = Some j" "sql_inv s"
    and "j_status j = ''running''" "j_lease_owner j = Some owner" "j_lease_expires_at j = Some e"
    and "\<forall>op \<in> set ops. outsider i owner e op"
  shows "sql_get (fold sql_step ops s) i = Some j \<and>
    mem_get (fold mem_step ops (job_abs s)) i = Some j"
  using sql.lease_exclusive [of s i j owner e ops] mem.lease_exclusive [of "job_abs s" i j owner e ops]
    assms unfolding sql_step_def mem_step_def sql_inv_def sql_get_abs by blast

lemma lease_in_repository_witness:
  "sql_get (fold sql_step [OpClaim ''job-1'' ''w2'' (Aware 50) (Aware 200), OpRecover (Aware 60),
       OpCancel ''job-1'' (Aware 70)] (table_of sample_running)) ''job-1'' = Some sample_running"
  by (rule lease_in_repository [where owner = "''w1''" and e = "Aware 100", THEN conjunct1])
    (use table_of_inv [of sample_running] in \<open>simp_all add: sample_running_fields\<close>)

text \<open>The limit of what a lease guarantees: a save without a lease is stored whatever lease another
  worker holds, and the job can then be claimed a second time. \<open>process_remediation\<close> makes such a
  save, to put a queued job on hold outside its maintenance window, with the record it read some
  steps before; when another worker claims the job in between, this is what happens.\<close>

theorem unleased_save_takes_the_lease:
  assumes "sql_inv s" "sql_get s i = Some j" "holds_lease j owner t"
    and "j_id stale = i" "j_status stale = ''queued''" "j_attempts stale < j_max_attempts stale"
    and "key_free s stale"
  shows "fst (sql_heartbeat i owner t e (sql_step (OpSave stale None) s)) = None \<and>
    (\<exists>j'. fst (sql_claim i other t e (sql_step (OpSave stale None) s)) = Some j' \<and>
       j_lease_owner j' = Some other)"
proof -
  from sql.save_stored [OF assms(1), of stale None stale] assms(4,7)
  have inv: "sql_inv (sql_step (OpSave stale None) s)"
    and get: "sql_get (sql_step (OpSave stale None) s) i = Some stale"
    by (auto simp: save_outcome_def sql_step_def job_step_def)
  have "sql_heartbeat i owner t e (sql_step (OpSave stale None) s) = (None, sql_step (OpSave stale None) s)"
    using get assms(5) by (intro sql.heartbeat_none [OF inv]) (simp add: holds_lease_def)
  moreover have "claim_outcome stale other t e =
      (Some (start_claim stale other t e), start_claim stale other t e)"
    using assms(5,6) by (simp add: claim_outcome_def Let_def)
  ultimately show ?thesis
    using sql.claim_some [OF inv get, of other t e] by (auto simp: store_simps)
qed

lemma unleased_save_takes_the_lease_witness:
  "\<exists>j'. fst (sql_claim ''job-1'' ''w2'' (Aware 50) (Aware 90)
     (sql_step (OpSave (sample_job ''queued'') None) (table_of sample_running))) = Some j'"
proof -
  have "key_free (table_of sample_running) (sample_job ''queued'')"
    by (simp add: key_free_def table_of_def job_values_def sample_running_def start_claim_def Let_def
        store_simps)
  moreover have "j_id (sample_job ''queued'') = ''job-1''" "j_status (sample_job ''queued'') = ''queued''"
    "j_attempts (sample_job ''queued'') < j_max_attempts (sample_job ''queued'')"
    by (simp_all add: sample_job_def)
  moreover have "holds_lease sample_running ''w1'' (Aware 50)"
    by (simp add: holds_lease_def sample_running_fields lease_is_expired_def)
  ultimately show ?thesis
    using unleased_save_takes_the_lease [of "table_of sample_running" "''job-1''" sample_running "''w1''" "Aware 50"
        "sample_job ''queued''" "Aware 90" "''w2''"] table_of_inv [of sample_running]
    by (auto simp: sample_running_fields)
qed

text \<open>C14: Attempts are bounded. In any sequence of operations whose saves do not lower a job's
  attempt counter or change its limit, the successful claims of a job never exceed the
  attempts it has left, however leases expire, jobs are recovered or retries are queued.\<close>

theorem claims_bounded_by_attempts:
  assumes "sql_inv s" and "counted sql_step sql_get i m ops s"
    and "pred_option (\<lambda>j. j_max_attempts j = m) (sql_get s i)"
  shows "int (claims_of sql_step sql_claim i ops s) \<le> room m (sql_get s i)"
  using sql.claims_bounded [of s i m ops] assms unfolding sql_step_def by blast

lemma claims_bounded_by_attempts_witness:
  "int (claims_of sql_step sql_claim ''job-1''
     [OpRecover (Aware 100), OpClaim ''job-1'' ''w2'' (Aware 150) (Aware 200), OpRecover (Aware 300),
      OpClaim ''job-1'' ''w3'' (Aware 350) (Aware 400), OpRecover (Aware 500),
      OpClaim ''job-1'' ''w4'' (Aware 550) (Aware 600)] (table_of sample_running)) \<le> 2"
proof -
  note inv = table_of_inv [of sample_running, unfolded sample_running_fields]
  show ?thesis
    using claims_bounded_by_attempts [OF inv(1), of "''job-1''" 3
        "[OpRecover (Aware 100), OpClaim ''job-1'' ''w2'' (Aware 150) (Aware 200),
          OpRecover (Aware 300), OpClaim ''job-1'' ''w3'' (Aware 350) (Aware 400),
          OpRecover (Aware 500), OpClaim ''job-1'' ''w4'' (Aware 550) (Aware 600)]"]
    by (simp add: inv(2) room_def sample_running_fields)
qed

text \<open>In the repository a completed, failed or canceled job is changed by no claim, heartbeat,
  recovery, cancellation or leased save, in any order and at any time.\<close>

theorem terminal_in_repository:
  assumes "sql_inv s" "sql_get s i = Some j" "terminal_status (j_status j)"
    and "\<forall>op \<in> set ops. leased_on i op"
  shows "sql_get (fold sql_step ops s) i = Some j"
  using sql.terminal_forever [OF assms] unfolding sql_step_def .

lemma terminal_in_repository_witness:
  "sql_get (fold sql_step [OpClaim ''job-1'' ''w2'' (Aware 50) (Aware 200), OpRecover (Aware 60)]
     (table_of (sample_job ''failed''))) ''job-1'' = Some (sample_job ''failed'')"
  by (rule terminal_in_repository)
    (use table_of_inv [of "sample_job ''failed''"] in
      \<open>simp_all add: sample_job_def terminal_status_def\<close>)

text \<open>Recovery is complete and exact: after it no job runs under an expired lease; the jobs it
  reports as recovered are stored as queued and had attempts left, those it reports as
  exhausted are stored as failed and had none, each was running under an expired lease
  before, and every job that was is reported exactly once.\<close>

theorem recovery_complete:
  assumes "sql_inv s" and "sql_recover (\<lambda>_. False) t s = ((recovered, exhausted), s')"
  shows "(\<forall>i j. sql_get s' i = Some j \<longrightarrow> \<not> expired_running j t) \<and>
    (\<forall>j \<in> set recovered. sql_get s' (j_id j) = Some j \<and> j_status j = ''queued'') \<and>
    (\<forall>j \<in> set exhausted. sql_get s' (j_id j) = Some j \<and> j_status j = ''failed'' \<and>
       j_max_attempts j \<le> j_attempts j) \<and>
    distinct (map j_id (recovered @ exhausted)) \<and>
    j_id ` set (recovered @ exhausted) =
      {i. \<exists>j. sql_get s i = Some j \<and> expired_running j t}"
proof -
  note r = sql.recover_lists [OF assms] and c = sql.recover_clears [OF assms]
  have lists: "set (recovered @ exhausted) =
      {recover_job j t | i j. sql_get s i = Some j \<and> expired_running j t}"
    using r by (elim conjE)
  have "j_max_attempts j \<le> j_attempts j" if "j \<in> set exhausted" for j
  proof -
    from that lists obtain i j0 where j0: "j = recover_job j0 t" by auto
    from c(3) [OF that] have "j_status j = ''failed''" by blast
    then show ?thesis
      unfolding j0 by (simp add: store_simps split: if_splits)
  qed
  moreover have "j_id ` set (recovered @ exhausted) =
      {i. \<exists>j. sql_get s i = Some j \<and> expired_running j t}"
  proof -
    have id: "j_id (recover_job j t) = i" if "sql_get s i = Some j" for i j
      using sql.get_id [OF assms(1) that] by (simp add: store_simps)
    have "i \<in> j_id ` {recover_job j t | i j. sql_get s i = Some j \<and> expired_running j t} \<longleftrightarrow>
        (\<exists>j. sql_get s i = Some j \<and> expired_running j t)" for i
      using id by force
    then show ?thesis unfolding lists by blast
  qed
  ultimately show ?thesis
    using r c by (elim conjE) (intro conjI allI ballI impI, blast+)
qed

lemma recovery_complete_witness:
  "\<exists>j. sql_get (snd (sql_recover (\<lambda>_. False) (Aware 100) (table_of sample_running))) ''job-1'' = Some j \<and>
     \<not> expired_running j (Aware 100)"
proof -
  let ?out = "sql_recover (\<lambda>_. False) (Aware 100) (table_of sample_running)"
  have inv: "sql_inv (table_of sample_running)" and
      get: "sql_get (table_of sample_running) ''job-1'' = Some sample_running"
    using table_of_inv [of sample_running] by (simp_all add: sample_running_fields)
  obtain rs es s' where out: "?out = ((rs, es), s')" by (metis surj_pair)
  have "sql_get s' ''job-1'' = Some (recover_job sample_running (Aware 100))"
    using sql.recover_lists [OF inv out] get
    by (simp add: expired_running_def sample_running_fields lease_is_expired_def)
  with recovery_complete [OF inv out] show ?thesis
    unfolding out by auto
qed

subsection \<open>What the gate decides about stale jobs\<close>

lemma recovered_phase_of_recovered:
  assumes "j_current_phase j = Some p" "p \<noteq> []"
  shows "recovered_phase (recover_job j t) = JStr p"
proof -
  have "j_result (recover_job j t) = dict_set ''recovered_from_phase'' (JStr p) (j_result j)"
    by (simp add: recover_job_def terminalize_exhausted_job_def Let_def assms)
  then show ?thesis
    by (simp add: recovered_phase_def assms)
qed

lemma recovered_phase_claim [simp]: "recovered_phase (start_claim j ow t e) = recovered_phase j"
  by (simp add: recovered_phase_def store_simps split: option.split)

text \<open>A job that recovery takes back while it was changing the host is never dispatched
  again: the phase it was in survives recovery and any later claim, and for the four
  mutation phases the gate answers with a block that allows no retry. From any other phase it
  is dispatched exactly while attempts are left.\<close>

theorem recovered_mutation_blocked:
  assumes "j_current_phase j = Some p" "p \<noteq> []"
  shows "(rd_dispatch (stale_recovery (recover_job j t) exhausted) \<longleftrightarrow>
            p \<notin> set mutation_phases \<and> \<not> exhausted) \<and>
    (rd_dispatch (stale_recovery (start_claim (recover_job j t) ow t' e) exhausted) \<longleftrightarrow>
            p \<notin> set mutation_phases \<and> \<not> exhausted) \<and>
    (p \<in> set mutation_phases \<longrightarrow>
       rd_remediation_state (stale_recovery (recover_job j t) exhausted) = ''blocked'')"
  using recovered_phase_of_recovered [OF assms, of t] by (auto simp: stale_recovery_def)

lemma recovered_mutation_blocked_witness:
  "\<not> rd_dispatch (stale_recovery
     (recover_job (sample_running\<lparr>j_current_phase := Some ''ansible_execution''\<rparr>) (Aware 100)) False)"
  using recovered_mutation_blocked [of "sample_running\<lparr>j_current_phase := Some ''ansible_execution''\<rparr>"
      "''ansible_execution''"] by (simp add: mutation_phases_def)

text \<open>C15: The record of an earlier recovery outlives it. A job that was once recovered from a
  harmless phase, then ran into its mutation phase, and whose lease then expired, is handed
  to the next worker that claims it, and the gate dispatches it again: the phase it reads is
  the one of the first recovery, not the one the job was in.\<close>

theorem stale_record_redispatches:
  assumes "dict_get (j_result j) ''recovered_from_phase'' = Some (JStr p)"
    and "p \<noteq> []" "p \<notin> set mutation_phases"
    and "expired_running j t" "j_attempts j < j_max_attempts j"
    and "j_current_phase j = Some ''ansible_execution''"
  shows "\<exists>j'. fst (claim_outcome j ow t e) = Some j' \<and>
    map_option jf_category (j_last_failure j') = Some ''worker_lease_expired'' \<and>
    j_current_phase j' = Some ''ansible_execution'' \<and> rd_dispatch (stale_recovery j' False)"
proof (intro exI conjI)
  show "fst (claim_outcome j ow t e) = Some (start_claim j ow t e)"
    using assms(4,5) by (simp add: claim_Some_iff claim_outcome_def Let_def)
  show "map_option jf_category (j_last_failure (start_claim j ow t e)) = Some ''worker_lease_expired''"
    using assms(4) by (simp add: start_claim_def lease_expiration_failure_def Let_def)
  show "j_current_phase (start_claim j ow t e) = Some ''ansible_execution''"
    using assms(6) by (simp add: store_simps)
  show "rd_dispatch (stale_recovery (start_claim j ow t e) False)"
    using assms(1-3) by (auto simp: stale_recovery_def recovered_phase_def store_simps)
qed

lemma stale_record_redispatches_witness:
  "\<exists>j'. fst (claim_outcome
      ((start_claim (recover_job (sample_running\<lparr>j_current_phase := Some ''state_drift_check''\<rparr>)
          (Aware 100)) ''w2'' (Aware 150) (Aware 200))
        \<lparr>j_current_phase := Some ''ansible_execution''\<rparr>) ''w3'' (Aware 250) (Aware 300)) = Some j' \<and>
    map_option jf_category (j_last_failure j') = Some ''worker_lease_expired'' \<and>
    j_current_phase j' = Some ''ansible_execution'' \<and> rd_dispatch (stale_recovery j' False)"
proof (rule stale_record_redispatches [where p = "''state_drift_check''"])
  show "dict_get (j_result ((start_claim (recover_job (sample_running
          \<lparr>j_current_phase := Some ''state_drift_check''\<rparr>) (Aware 100)) ''w2'' (Aware 150) (Aware 200))
        \<lparr>j_current_phase := Some ''ansible_execution''\<rparr>)) ''recovered_from_phase'' =
      Some (JStr ''state_drift_check'')"
    by (simp add: store_simps) (simp add: recover_job_def terminalize_exhausted_job_def Let_def)
qed (simp_all add: mutation_phases_def expired_running_def store_simps lease_is_expired_def
    sample_running_fields)

end
