(* ===== verification/Repository.thy ===== *)
theory Repository
  imports SqlJobStore
begin

text \<open>
  The tables behind the services (\<open>repository.py\<close>), as the SQL repository keeps them: a
  dictionary per table in insertion order, from the primary key to the stored value. Jobs are
  kept as the in-memory dictionary the job table stands for (theory \<open>SqlJobStore\<close>). A query
  without \<open>ORDER BY\<close> returns rows in insertion order.

  A campaign is stored twice: as a payload and as one row per host plan, and it is read back
  with the host rows, sorted by hostname, in place of the payload's hosts.
\<close>

record session_row =
  se_id :: string
  se_user_id :: string
  se_csrf_hash :: string
  se_expires_at :: datetime
  se_created_at :: datetime

type_synonym bytes = string

record store =
  t_hosts :: "(string, host) dict"
  t_credentials :: "(string, ssh_credential \<times> bytes \<times> bytes) dict"
  t_schedules :: "(string, host_schedule) dict"
  t_snapshots :: "(string, host_snapshot) dict"
  t_rollbacks :: "(string, rollback_snapshot) dict"
  t_scans :: "(string, scan_job) dict"
  t_agent_runs :: "(string, agent_run) dict"
  t_agent_messages :: "(string, agent_message) dict"
  t_findings :: "(string, finding) dict"
  t_remediations :: "(string, remediation) dict"
  t_campaigns :: "(string, patch_campaign) dict"
  t_campaign_hosts :: "(string, string \<times> campaign_host_plan) dict"
  t_jobs :: mem_jobs
  t_logs :: "(string, structured_log_event) dict"
  t_alerts :: "(string, alert) dict"
  t_audits :: "(string, audit_event) dict"
  t_users :: "(string, user \<times> string) dict"
  t_sessions :: "(string, session_row) dict"

subsection \<open>Hosts, credentials, schedules\<close>

definition save_host :: "host \<Rightarrow> store \<Rightarrow> store" where
  "save_host h s = s\<lparr>t_hosts := dict_set (h_id h) h (t_hosts s)\<rparr>"

definition get_host :: "store \<Rightarrow> string \<Rightarrow> host option" where
  "get_host s i = dict_get (t_hosts s) i"

definition list_hosts :: "store \<Rightarrow> host list" where
  "list_hosts s = dict_values (t_hosts s)"

definition delete_host :: "string \<Rightarrow> store \<Rightarrow> store" where
  "delete_host i s = s\<lparr>t_hosts := dict_pop i (t_hosts s)\<rparr>"

definition save_credential :: "ssh_credential \<Rightarrow> bytes \<Rightarrow> bytes \<Rightarrow> store \<Rightarrow> store" where
  "save_credential c key nonce s =
     s\<lparr>t_credentials := dict_set (cr_id c) (c, key, nonce) (t_credentials s)\<rparr>"

definition list_credentials :: "store \<Rightarrow> ssh_credential list" where
  "list_credentials s = map fst (dict_values (t_credentials s))"

definition get_credential_record :: "store \<Rightarrow> string \<Rightarrow> (ssh_credential \<times> bytes \<times> bytes) option" where
  "get_credential_record s i = dict_get (t_credentials s) i"

definition delete_credential :: "string \<Rightarrow> store \<Rightarrow> store" where
  "delete_credential i s = s\<lparr>t_credentials := dict_pop i (t_credentials s)\<rparr>"

definition save_schedule_row :: "host_schedule \<Rightarrow> store \<Rightarrow> store" where
  "save_schedule_row x s = s\<lparr>t_schedules := dict_set (hs_id x) x (t_schedules s)\<rparr>"

definition get_schedule_row :: "store \<Rightarrow> string \<Rightarrow> host_schedule option" where
  "get_schedule_row s host_id =
     List.find (\<lambda>x. hs_host_id x = host_id) (dict_values (t_schedules s))"

definition list_schedules :: "store \<Rightarrow> host_schedule list" where
  "list_schedules s = dict_values (t_schedules s)"

definition delete_schedule :: "string \<Rightarrow> store \<Rightarrow> store" where
  "delete_schedule host_id s =
     s\<lparr>t_schedules := filter (\<lambda>(_, x). hs_host_id x \<noteq> host_id) (t_schedules s)\<rparr>"

definition list_due_schedules :: "store \<Rightarrow> datetime \<Rightarrow> host_schedule list" where
  "list_due_schedules s now =
     filter (\<lambda>x. hs_enabled x \<and>
        (case hs_next_run_at x of None \<Rightarrow> False
         | Some t \<Rightarrow> normalized_datetime t \<le> normalized_datetime now)) (dict_values (t_schedules s))"

subsection \<open>Snapshots, scans, agents, findings\<close>

definition save_snapshot :: "host_snapshot \<Rightarrow> store \<Rightarrow> store" where
  "save_snapshot x s = s\<lparr>t_snapshots := dict_set (sn_id x) x (t_snapshots s)\<rparr>"

definition get_snapshot :: "store \<Rightarrow> string \<Rightarrow> host_snapshot option" where
  "get_snapshot s i = dict_get (t_snapshots s) i"

definition save_rollback_snapshot :: "rollback_snapshot \<Rightarrow> store \<Rightarrow> store" where
  "save_rollback_snapshot x s = s\<lparr>t_rollbacks := dict_set (rs_id x) x (t_rollbacks s)\<rparr>"

definition get_rollback_snapshot :: "store \<Rightarrow> string \<Rightarrow> rollback_snapshot option" where
  "get_rollback_snapshot s i = dict_get (t_rollbacks s) i"

definition list_rollback_snapshots ::
  "store \<Rightarrow> string option \<Rightarrow> string option \<Rightarrow> rollback_snapshot list" where
  "list_rollback_snapshots s host_id remediation_id =
     filter (\<lambda>x. (truthy host_id \<longrightarrow> Some (rs_host_id x) = host_id) \<and>
                 (truthy remediation_id \<longrightarrow> Some (rs_remediation_id x) = remediation_id))
       (dict_values (t_rollbacks s))"

definition save_scan :: "scan_job \<Rightarrow> store \<Rightarrow> store" where
  "save_scan x s = s\<lparr>t_scans := dict_set (s_id x) x (t_scans s)\<rparr>"

definition get_scan :: "store \<Rightarrow> string \<Rightarrow> scan_job option" where
  "get_scan s i = dict_get (t_scans s) i"

definition list_scans :: "store \<Rightarrow> string option \<Rightarrow> scan_job list" where
  "list_scans s host_id =
     filter (\<lambda>x. truthy host_id \<longrightarrow> Some (s_host_id x) = host_id) (dict_values (t_scans s))"

definition save_agent_runs :: "agent_run list \<Rightarrow> store \<Rightarrow> store" where
  "save_agent_runs xs s =
     s\<lparr>t_agent_runs := fold (\<lambda>x. dict_set (ar_id x) x) xs (t_agent_runs s)\<rparr>"

definition list_agent_runs :: "store \<Rightarrow> string option \<Rightarrow> agent_run list" where
  "list_agent_runs s scan_id =
     filter (\<lambda>x. truthy scan_id \<longrightarrow> Some (ar_scan_id x) = scan_id) (dict_values (t_agent_runs s))"

definition save_agent_messages :: "agent_message list \<Rightarrow> store \<Rightarrow> store" where
  "save_agent_messages xs s =
     s\<lparr>t_agent_messages := fold (\<lambda>x. dict_set (am_id x) x) xs (t_agent_messages s)\<rparr>"

definition list_agent_messages :: "store \<Rightarrow> string \<Rightarrow> agent_message list" where
  "list_agent_messages s scan_id =
     filter (\<lambda>x. am_scan_id x = scan_id) (dict_values (t_agent_messages s))"

definition save_findings :: "finding list \<Rightarrow> store \<Rightarrow> store" where
  "save_findings xs s = s\<lparr>t_findings := fold (\<lambda>x. dict_set (f_id x) x) xs (t_findings s)\<rparr>"

definition list_findings :: "store \<Rightarrow> string option \<Rightarrow> finding list" where
  "list_findings s host_id =
     filter (\<lambda>x. truthy host_id \<longrightarrow> Some (f_host_id x) = host_id) (dict_values (t_findings s))"

subsection \<open>Remediations and campaigns\<close>

definition save_remediation :: "remediation \<Rightarrow> store \<Rightarrow> store" where
  "save_remediation r s = s\<lparr>t_remediations := dict_set (r_id r) r (t_remediations s)\<rparr>"

definition list_remediations :: "store \<Rightarrow> remediation list" where
  "list_remediations s = dict_values (t_remediations s)"

definition get_remediation :: "store \<Rightarrow> string \<Rightarrow> remediation option" where
  "get_remediation s i = dict_get (t_remediations s) i"

definition save_campaign :: "patch_campaign \<Rightarrow> store \<Rightarrow> store" where
  "save_campaign c s =
     s\<lparr>t_campaigns := dict_set (c_id c) c (t_campaigns s),
       t_campaign_hosts :=
         fold (\<lambda>hp. dict_set (hp_id hp) (c_id c, hp)) (c_hosts c) (t_campaign_hosts s)\<rparr>"

definition campaign_rows :: "store \<Rightarrow> string \<Rightarrow> campaign_host_plan list" where
  "campaign_rows s campaign_id =
     map snd (filter (\<lambda>(cid, _). cid = campaign_id) (dict_values (t_campaign_hosts s)))"

definition campaign_with_hosts :: "store \<Rightarrow> patch_campaign \<Rightarrow> patch_campaign" where
  "campaign_with_hosts s c =
     (let rows = campaign_rows s (c_id c)
      in if rows = [] then c else c\<lparr>c_hosts := sort_key hp_hostname rows\<rparr>)"

definition list_campaigns :: "store \<Rightarrow> patch_campaign list" where
  "list_campaigns s = map (campaign_with_hosts s) (dict_values (t_campaigns s))"

definition get_campaign :: "store \<Rightarrow> string \<Rightarrow> patch_campaign option" where
  "get_campaign s i = map_option (campaign_with_hosts s) (dict_get (t_campaigns s) i)"

subsection \<open>Logs, alerts, audits\<close>

definition save_log_events :: "structured_log_event list \<Rightarrow> store \<Rightarrow> store" where
  "save_log_events xs s = s\<lparr>t_logs := fold (\<lambda>x. dict_set (l_id x) x) xs (t_logs s)\<rparr>"

definition get_log_event :: "store \<Rightarrow> string \<Rightarrow> structured_log_event option" where
  "get_log_event s i = dict_get (t_logs s) i"

text \<open>The dictionary \<open>column_map\<close>: the columns a query may filter on; other keys are ignored.\<close>

definition log_column :: "string \<Rightarrow> (structured_log_event \<Rightarrow> string option) option" where
  "log_column key = map_of
     [(''host_id'', l_host_id), (''job_id'', l_job_id), (''scan_id'', l_scan_id),
      (''remediation_id'', l_remediation_id), (''agent_run_id'', l_agent_run_id),
      (''severity'', \<lambda>x. Some (severity_text (l_severity x))), (''source'', \<lambda>x. Some (l_source x)),
      (''phase_id'', l_phase_id), (''task_id'', l_task_id)] key"

definition log_matches :: "(string \<times> string option) list \<Rightarrow> structured_log_event \<Rightarrow> bool" where
  "log_matches filters x \<longleftrightarrow>
     (\<forall>(key, value) \<in> set filters. case (value, log_column key) of
        (Some v, Some col) \<Rightarrow> col x = Some v | _ \<Rightarrow> True)"

definition list_log_events ::
  "store \<Rightarrow> (string \<times> string option) list \<Rightarrow> nat \<Rightarrow> nat \<Rightarrow> structured_log_event list \<times> nat" where
  "list_log_events s filters page page_size =
     (let items = filter (log_matches filters) (dict_values (t_logs s));
          ordered = sorted_desc (\<lambda>x. normalized_datetime (l_timestamp x)) items
      in (take page_size (drop ((page - 1) * page_size) ordered), length items))"

definition purge_logs_before :: "datetime \<Rightarrow> store \<Rightarrow> nat \<times> store" where
  "purge_logs_before cutoff s =
     (let old = (\<lambda>(k, x). normalized_datetime (l_timestamp x) < normalized_datetime cutoff)
      in (length (filter old (t_logs s)), s\<lparr>t_logs := filter (\<lambda>e. \<not> old e) (t_logs s)\<rparr>))"

definition save_alert :: "alert \<Rightarrow> store \<Rightarrow> store" where
  "save_alert x s = s\<lparr>t_alerts := dict_set (al_id x) x (t_alerts s)\<rparr>"

definition list_alerts :: "store \<Rightarrow> alert list" where
  "list_alerts s = dict_values (t_alerts s)"

definition get_alert :: "store \<Rightarrow> string \<Rightarrow> alert option" where
  "get_alert s i = dict_get (t_alerts s) i"

definition save_audit :: "audit_event \<Rightarrow> store \<Rightarrow> store" where
  "save_audit x s = s\<lparr>t_audits := dict_set (au_id x) x (t_audits s)\<rparr>"

definition list_audits :: "store \<Rightarrow> audit_event list" where
  "list_audits s = dict_values (t_audits s)"

subsection \<open>Users and sessions\<close>

definition save_user :: "user \<Rightarrow> string \<Rightarrow> store \<Rightarrow> store" where
  "save_user u password_hash s =
     s\<lparr>t_users := dict_set (u_id u) (u, password_hash) (t_users s)\<rparr>"

definition get_user_by_username :: "store \<Rightarrow> string \<Rightarrow> (user \<times> string) option" where
  "get_user_by_username s name =
     List.find (\<lambda>(u, _). u_username u = name) (dict_values (t_users s))"

definition get_user :: "store \<Rightarrow> string \<Rightarrow> user option" where
  "get_user s i = map_option fst (dict_get (t_users s) i)"

text \<open>\<open>session.add\<close> of a token hash that is already there violates the unique column.\<close>

definition save_session :: "string \<Rightarrow> session_row \<Rightarrow> store \<Rightarrow> (exn + unit) \<times> store" where
  "save_session token_hash row s =
     (if dict_get (t_sessions s) token_hash \<noteq> None
      then (Inl (IntegrityError ''sessions.token_hash''), s)
      else (Inr (), s\<lparr>t_sessions := dict_set token_hash row (t_sessions s)\<rparr>))"

definition get_session :: "store \<Rightarrow> string \<Rightarrow> session_row option" where
  "get_session s token_hash = dict_get (t_sessions s) token_hash"

definition delete_session :: "string \<Rightarrow> store \<Rightarrow> store" where
  "delete_session token_hash s = s\<lparr>t_sessions := dict_pop token_hash (t_sessions s)\<rparr>"

end
