(* ===== verification/PyTime.thy ===== *)
theory PyTime
  imports Models
begin

text \<open>
  Formatting of dates the way the sources use Python's \<open>datetime\<close>: \<open>isoformat()\<close> and
  \<open>strftime("%Y%m%d%H%M")\<close> of a naive value or of one in UTC, over the proleptic Gregorian
  calendar (days are counted from 1970-01-01).
\<close>

text \<open>Year, month and day of a day number, by eras of 400 years starting on 1 March.\<close>

definition civil_from_days :: "int \<Rightarrow> int \<times> int \<times> int" where
  "civil_from_days days =
     (let z = days + 719468;
          era = z div 146097;
          doe = z mod 146097;
          yoe = (doe - doe div 1460 + doe div 36524 - doe div 146096) div 365;
          doy = doe - (365 * yoe + yoe div 4 - yoe div 100);
          mp = (5 * doy + 2) div 153;
          d = doy - (153 * mp + 2) div 5 + 1;
          m = (if mp < 10 then mp + 3 else mp - 9);
          y = yoe + era * 400
      in (if m \<le> 2 then y + 1 else y, m, d))"

fun pad_left :: "nat \<Rightarrow> string \<Rightarrow> string" where
  "pad_left n s = replicate (n - length s) (CHR ''0'') @ s"

definition pad :: "nat \<Rightarrow> int \<Rightarrow> string" where
  "pad n i = pad_left n (dec_int i)"

definition iso_wall :: "int \<Rightarrow> string" where
  "iso_wall t =
     (let (y, m, d) = civil_from_days (t div 86400000000);
          us = t mod 86400000000;
          sec = us div 1000000; frac = us mod 1000000
      in pad 4 y @ ''-'' @ pad 2 m @ ''-'' @ pad 2 d @ ''T'' @
         pad 2 (sec div 3600) @ '':'' @ pad 2 ((sec div 60) mod 60) @ '':'' @ pad 2 (sec mod 60) @
         (if frac = 0 then '''' else ''.'' @ pad 6 frac))"

fun isoformat :: "datetime \<Rightarrow> string" where
  "isoformat (Naive t) = iso_wall t"
| "isoformat (Aware t) = iso_wall t @ ''+00:00''"

definition stamp_wall :: "int \<Rightarrow> string" where
  "stamp_wall t =
     (let (y, m, d) = civil_from_days (t div 86400000000); us = t mod 86400000000
      in pad 4 y @ pad 2 m @ pad 2 d @ pad 2 (us div 3600000000) @
         pad 2 ((us div 60000000) mod 60))"

fun minute_stamp :: "datetime \<Rightarrow> string" where
  "minute_stamp (Naive t) = stamp_wall t"
| "minute_stamp (Aware t) = stamp_wall t"

lemma isoformat_example:
  "isoformat (Aware 951782400000000) = ''2000-02-29T00:00:00+00:00''"
  "minute_stamp (Aware 951782460000000) = ''200002290001''"
  by code_simp+

lemma civil_examples:
  "civil_from_days 0 = (1970, 1, 1)" "civil_from_days 11016 = (2000, 2, 29)"
  "civil_from_days (- 1) = (1969, 12, 31)" "civil_from_days 20454 = (2026, 1, 1)"
  by code_simp+

text \<open>\<open>str.title()\<close>: a letter is a capital exactly when no letter precedes it (ASCII letters).\<close>

definition is_letter :: "char \<Rightarrow> bool" where
  "is_letter c = ((65 \<le> code c \<and> code c \<le> 90) \<or> (97 \<le> code c \<and> code c \<le> 122))"

definition upper_char :: "char \<Rightarrow> char" where
  "upper_char c = (if 97 \<le> code c \<and> code c \<le> 122 then char_of (code c - 32) else c)"

fun title_from :: "bool \<Rightarrow> string \<Rightarrow> string" where
  "title_from after [] = []"
| "title_from after (c # s) =
     (if is_letter c then (if after then lower [c] else [upper_char c]) else [c])
       @ title_from (is_letter c) s"

definition py_title :: "string \<Rightarrow> string" where
  "py_title s = title_from False s"

lemma py_title_example: "py_title ''snapshot_delete'' = ''Snapshot_Delete''"
  by code_simp

end
