(* ===== verification/ServiceBase.thy ===== *)
theory ServiceBase
  imports Repository GateExecution GateCampaign PyTime
begin

text \<open>
  The vocabulary of \<open>service.py\<close>: computations, the world they run in, the surroundings they
  depend on, and the small helpers every service operation uses.

  A computation maps a world to a result or an exception and the world it leaves behind: what
  was stored before an exception was raised stays stored, except inside a transaction. The
  outermost transaction of the SQL repository restores the store when an exception leaves
  it; an inner one joins it (\<open>SqlRepository.transaction\<close>).

  What the service awaits (collection, analysis, ansible, snapshot providers) is part of the
  environment: any computation at all, which may also change the world, so everything other
  workers do while this one waits is covered, and which may raise, so a failed call and the
  cancellation by a lost heartbeat (\<open>_run_with_heartbeat\<close>) are too.
\<close>

subsection \<open>Computations\<close>

record world =
  w_store :: store
  w_tx :: bool        \<comment> \<open>a transaction is open\<close>
  w_tick :: nat       \<comment> \<open>readings of the clock so far\<close>
  w_uuid :: nat       \<comment> \<open>identifiers drawn so far\<close>
  w_job :: durable_job \<comment> \<open>the job object the worker mutates; its exception handlers read it\<close>
  w_scan :: scan_job  \<comment> \<open>likewise the scan object\<close>
  w_limiter :: "(string, nat \<times> int) dict"
                      \<comment> \<open>login attempts per key and the end of their window, in microseconds\<close>

type_synonym 'a comp = "world \<Rightarrow> (exn + 'a) \<times> world"

definition returnM :: "'a \<Rightarrow> 'a comp" where
  "returnM x w = (Inr x, w)"

definition raiseM :: "exn \<Rightarrow> 'a comp" where
  "raiseM e w = (Inl e, w)"

definition bindM :: "'a comp \<Rightarrow> ('a \<Rightarrow> 'b comp) \<Rightarrow> 'b comp" where
  "bindM m f w = (case m w of (Inl e, w') \<Rightarrow> (Inl e, w') | (Inr x, w') \<Rightarrow> f x w')"

definition seqM :: "'a comp \<Rightarrow> 'b comp \<Rightarrow> 'b comp" where
  "seqM m n = bindM m (\<lambda>_. n)"

definition tryM :: "'a comp \<Rightarrow> (exn \<Rightarrow> 'a comp) \<Rightarrow> 'a comp" where
  "tryM m h w = (case m w of (Inl e, w') \<Rightarrow> h e w' | (Inr x, w') \<Rightarrow> (Inr x, w'))"

definition whenM :: "bool \<Rightarrow> unit comp \<Rightarrow> unit comp" where
  "whenM b m = (if b then m else returnM ())"

definition transactionM :: "'a comp \<Rightarrow> 'a comp" where
  "transactionM m w =
     (if w_tx w then m w
      else case m (w\<lparr>w_tx := True\<rparr>) of
        (Inr x, w') \<Rightarrow> (Inr x, w'\<lparr>w_tx := False\<rparr>)
      | (Inl e, w') \<Rightarrow> (Inl e, w'\<lparr>w_store := w_store w, w_tx := False\<rparr>))"

text \<open>\<open>for x in xs: body(x)\<close> with an accumulator.\<close>

fun foldM :: "('b \<Rightarrow> 'a \<Rightarrow> 'b comp) \<Rightarrow> 'b \<Rightarrow> 'a list \<Rightarrow> 'b comp" where
  "foldM f b [] = returnM b"
| "foldM f b (x # xs) = bindM (f b x) (\<lambda>b'. foldM f b' xs)"

definition readM :: "(store \<Rightarrow> 'a) \<Rightarrow> 'a comp" where
  "readM f w = (Inr (f (w_store w)), w)"

definition writeM :: "(store \<Rightarrow> store) \<Rightarrow> unit comp" where
  "writeM f w = (Inr (), w\<lparr>w_store := f (w_store w)\<rparr>)"

text \<open>An operation on the job table.\<close>

definition jobsM :: "(mem_jobs \<Rightarrow> 'a \<times> mem_jobs) \<Rightarrow> 'a comp" where
  "jobsM f w = (let (x, jobs) = f (t_jobs (w_store w))
                in (Inr x, w\<lparr>w_store := (w_store w)\<lparr>t_jobs := jobs\<rparr>\<rparr>))"

text \<open>
  Awaiting something outside: it may do anything to the store, but it has no access to the
  worker's own job and scan objects and leaves no transaction open.
\<close>

definition externalM :: "'a comp \<Rightarrow> 'a comp" where
  "externalM m w = (let (r, w') = m w in (r, w'\<lparr>w_job := w_job w, w_scan := w_scan w, w_tx := w_tx w\<rparr>))"

definition job_object :: "durable_job comp" where
  "job_object w = (Inr (w_job w), w)"

definition set_job :: "durable_job \<Rightarrow> unit comp" where
  "set_job j w = (Inr (), w\<lparr>w_job := j\<rparr>)"

definition mutate_job :: "(durable_job \<Rightarrow> durable_job) \<Rightarrow> unit comp" where
  "mutate_job f = bindM job_object (\<lambda>j. set_job (f j))"

definition scan_object :: "scan_job comp" where
  "scan_object w = (Inr (w_scan w), w)"

definition set_scan :: "scan_job \<Rightarrow> unit comp" where
  "set_scan x w = (Inr (), w\<lparr>w_scan := x\<rparr>)"

definition mutate_scan :: "(scan_job \<Rightarrow> scan_job) \<Rightarrow> unit comp" where
  "mutate_scan f = bindM scan_object (\<lambda>x. set_scan (f x))"

definition liftE :: "exn + 'a \<Rightarrow> 'a comp" where
  "liftE r w = (r, w)"

subsection \<open>The surroundings\<close>

record collected_evidence =
  ce_snapshot :: host_snapshot
  ce_events :: "structured_log_event list"

record workflow_result =
  wr_findings :: "finding list"
  wr_runs :: "agent_run list"
  wr_messages :: "agent_message list"
  wr_remediation :: "remediation option"
  wr_reports :: "agent_report list"
  wr_rejected_claims :: "string list"

record env =
  e_H :: "string \<Rightarrow> string"
  e_tz :: tzdata
  e_clock :: "nat \<Rightarrow> datetime"
  e_uuid :: "nat \<Rightarrow> string"
  e_redact :: "string \<Rightarrow> host option \<Rightarrow> string"
  e_sanitize_audit :: "details \<Rightarrow> details"
  e_croniter :: "string \<Rightarrow> string \<Rightarrow> datetime \<Rightarrow> exn + datetime"
  e_sanitize_log :: "structured_log_event \<Rightarrow> host \<Rightarrow> structured_log_event"
  e_repr :: "json \<Rightarrow> string"
  e_lease_seconds :: int
  e_log_retention_days :: int
  e_test_connection :: "host \<Rightarrow> connection_test_result comp"
  e_collect :: "host \<Rightarrow> string \<Rightarrow> string \<Rightarrow> collected_evidence comp"
  e_workflow :: "string \<Rightarrow> host \<Rightarrow> host_snapshot \<Rightarrow> workflow_result comp"
  e_execute :: "host \<Rightarrow> remediation \<Rightarrow> string \<Rightarrow> execution_result comp"
  e_create_snapshot :: "host \<Rightarrow> remediation \<Rightarrow> rollback_snapshot \<Rightarrow> string \<Rightarrow>
                        snapshot_operation_result comp"
  e_health_checks :: "host \<Rightarrow> remediation \<Rightarrow> rollback_snapshot \<Rightarrow> string \<Rightarrow> snapshot_health_result comp"
  e_rollback_snapshot :: "host \<Rightarrow> remediation \<Rightarrow> rollback_snapshot \<Rightarrow> string \<Rightarrow>
                          snapshot_operation_result comp"
  e_delete_snapshot :: "host \<Rightarrow> rollback_snapshot \<Rightarrow> string \<Rightarrow> snapshot_operation_result comp"

definition utc_now :: "env \<Rightarrow> datetime comp" where
  "utc_now E w = (Inr (e_clock E (w_tick w)), w\<lparr>w_tick := w_tick w + 1\<rparr>)"

definition new_id :: "env \<Rightarrow> string \<Rightarrow> string comp" where
  "new_id E pre w = (Inr (pre @ ''-'' @ e_uuid E (w_uuid w)), w\<lparr>w_uuid := w_uuid w + 1\<rparr>)"

fun add_seconds :: "datetime \<Rightarrow> int \<Rightarrow> datetime" where
  "add_seconds (Naive t) s = Naive (t + s * 1000000)"
| "add_seconds (Aware t) s = Aware (t + s * 1000000)"

definition add_days :: "datetime \<Rightarrow> int \<Rightarrow> datetime" where
  "add_days t d = add_seconds t (d * 86400)"

subsection \<open>Helpers\<close>

fun snapshot_platform_text :: "snapshot_platform \<Rightarrow> string" where
  "snapshot_platform_text PlatformNone = ''none''"
| "snapshot_platform_text Proxmox = ''proxmox''"
| "snapshot_platform_text Aws = ''aws''"
| "snapshot_platform_text Vmware = ''vmware''"
| "snapshot_platform_text Libvirt = ''libvirt''"

text \<open>The truth of an optional value read from a JSON dictionary.\<close>

definition found_truthy :: "json option \<Rightarrow> bool" where
  "found_truthy v \<longleftrightarrow> (case v of None \<Rightarrow> False | Some j \<Rightarrow> json_truthy j)"

definition host_of :: "string \<Rightarrow> host comp" where
  "host_of host_id = bindM (readM (\<lambda>s. get_host s host_id))
     (\<lambda>h. case h of None \<Rightarrow> raiseM (ValueError ''Host not found'') | Some h \<Rightarrow> returnM h)"

definition scan_of :: "string option \<Rightarrow> scan_job comp" where
  "scan_of scan_id = bindM (readM (\<lambda>s. get_scan s (or_empty scan_id)))
     (\<lambda>x. case x of None \<Rightarrow> raiseM (ValueError ''Scan not found'') | Some x \<Rightarrow> returnM x)"

definition stored_job :: "string \<Rightarrow> durable_job comp" where
  "stored_job job_id = bindM (readM (\<lambda>s. mem_get (t_jobs s) job_id))
     (\<lambda>x. case x of None \<Rightarrow> raiseM (ValueError ''Job not found'') | Some x \<Rightarrow> returnM x)"

text \<open>\<open>_remediation\<close> and \<open>_remediation_for_update\<close> read the same row; the latter locks it.\<close>

definition remediation_of :: "string option \<Rightarrow> remediation comp" where
  "remediation_of remediation_id =
     bindM (readM (\<lambda>s. get_remediation s (or_empty remediation_id)))
       (\<lambda>x. case x of None \<Rightarrow> raiseM (ValueError ''Remediation not found'') | Some x \<Rightarrow> returnM x)"

definition campaign_of :: "string \<Rightarrow> patch_campaign comp" where
  "campaign_of campaign_id = bindM (readM (\<lambda>s. get_campaign s campaign_id))
     (\<lambda>x. case x of None \<Rightarrow> raiseM (ValueError ''Campaign not found'') | Some x \<Rightarrow> returnM x)"

definition redact :: "env \<Rightarrow> string \<Rightarrow> string option \<Rightarrow> string comp" where
  "redact E value host_id =
     readM (\<lambda>s. e_redact E value (if truthy host_id then get_host s (or_empty host_id) else None))"

definition audit ::
  "env \<Rightarrow> string \<Rightarrow> string \<Rightarrow> string \<Rightarrow> string option \<Rightarrow> details \<Rightarrow> unit comp" where
  "audit E actor action target_type target_id ds =
     bindM (new_id E ''audit'') (\<lambda>i.
     bindM (utc_now E) (\<lambda>now.
     writeM (save_audit \<lparr>au_id = i, au_actor = actor, au_action = action,
       au_target_type = target_type, au_target_id = target_id,
       au_details = e_sanitize_audit E ds, au_created_at = now\<rparr>)))"

definition create_alert ::
  "env \<Rightarrow> severity \<Rightarrow> string \<Rightarrow> string \<Rightarrow> string option \<Rightarrow> string option \<Rightarrow> unit comp" where
  "create_alert E sev title message host_id job_id =
     bindM (redact E message host_id) (\<lambda>safe_message.
     bindM (new_id E ''alert'') (\<lambda>i.
     bindM (utc_now E) (\<lambda>now.
     writeM (save_alert \<lparr>al_id = i, al_severity = sev, al_title = title,
       al_message = take 2000 safe_message, al_host_id = host_id, al_job_id = job_id,
       al_acknowledged = False, al_acknowledged_at = None, al_created_at = now\<rparr>))))"

definition raise_gate_denial :: "gate_decision \<Rightarrow> unit comp" where
  "raise_gate_denial d = (if gd_allowed d then returnM () else raiseM (GateDenied d))"

definition host_has_active_rollback_failure :: "store \<Rightarrow> string \<Rightarrow> bool" where
  "host_has_active_rollback_failure s host_id \<longleftrightarrow>
     (\<exists>a \<in> set (list_alerts s). al_host_id a = Some host_id \<and> \<not> al_acknowledged a \<and>
        al_severity a = SevCritical \<and> str_in ''rollback'' (lower (al_title a)))"

text \<open>Saves a job; the SQL repository raises when the idempotency key is taken by another.\<close>

definition save_job :: "durable_job \<Rightarrow> string option \<Rightarrow> durable_job option comp" where
  "save_job j lease_owner =
     bindM (jobsM (\<lambda>jobs.
        if save_outcome (dict_get jobs (j_id j)) j lease_owner \<noteq> None \<and>
           (\<exists>x \<in> set (dict_values jobs). j_id x \<noteq> j_id j \<and> j_idempotency_key x = j_idempotency_key j)
        then (Inl (IntegrityError ''jobs.idempotency_key''), jobs)
        else mem_save j lease_owner jobs)) liftE"

definition assert_job_lease :: "env \<Rightarrow> string \<Rightarrow> string \<Rightarrow> unit comp" where
  "assert_job_lease E job_id lease_owner =
     bindM (utc_now E) (\<lambda>heartbeat_at.
     bindM (jobsM (mem_heartbeat job_id lease_owner heartbeat_at
                     (add_seconds heartbeat_at (e_lease_seconds E)))) (\<lambda>j.
     case j of None \<Rightarrow> raiseM JobLeaseLost | Some _ \<Rightarrow> returnM ()))"

text \<open>\<open>_save_claimed_job\<close> of the worker's job: the save moves its heartbeat and lease forward.\<close>

definition save_claimed_job :: "string \<Rightarrow> unit comp" where
  "save_claimed_job lease_owner =
     bindM job_object (\<lambda>j.
     bindM (save_job j (Some lease_owner)) (\<lambda>saved.
     case saved of None \<Rightarrow> raiseM JobLeaseLost | Some j' \<Rightarrow> set_job j'))"

definition cancel_stored_job :: "string \<Rightarrow> datetime \<Rightarrow> string list \<Rightarrow> string \<Rightarrow> durable_job option comp" where
  "cancel_stored_job job_id canceled_at allowed_statuses phase =
     jobsM (mem_cancel job_id canceled_at allowed_statuses phase)"

subsection \<open>Laws of computations\<close>

named_theorems comp_simps \<open>running computations\<close>

lemma run_simps [comp_simps]:
  "returnM x w = (Inr x, w)" "raiseM e w = (Inl e, w)" "readM f w = (Inr (f (w_store w)), w)"
  "writeM g w = (Inr (), w\<lparr>w_store := g (w_store w)\<rparr>)" "liftE r w = (r, w)"
  by (simp_all add: returnM_def raiseM_def readM_def writeM_def liftE_def)

lemma bindM_returnM [simp]: "bindM (returnM x) f = f x"
  by (simp add: fun_eq_iff bindM_def returnM_def)

lemma bindM_raiseM [simp]: "bindM (raiseM e) f = raiseM e"
  by (simp add: fun_eq_iff bindM_def raiseM_def)

lemma bindM_assoc: "bindM (bindM m f) g = bindM m (\<lambda>x. bindM (f x) g)"
  by (simp add: fun_eq_iff bindM_def split: prod.split sum.split)

lemma bindM_Inr: "m w = (Inr x, w') \<Longrightarrow> bindM m f w = f x w'"
  by (simp add: bindM_def)

lemma bindM_Inl: "m w = (Inl e, w') \<Longrightarrow> bindM m f w = (Inl e, w')"
  by (simp add: bindM_def)

lemma bindM_eq_Inr:
  "bindM m f w = (Inr y, w'') \<longleftrightarrow> (\<exists>x w'. m w = (Inr x, w') \<and> f x w' = (Inr y, w''))"
  by (auto simp: bindM_def split: prod.splits sum.splits)

lemma bindM_congI:
  assumes "m w = m' w" and "\<And>x w'. m w = (Inr x, w') \<Longrightarrow> f x w' = f' x w'"
  shows "bindM m f w = bindM m' f' w"
  using assms by (auto simp: bindM_def split: prod.split sum.split)

lemma tryM_congI: "m w = m' w \<Longrightarrow> tryM m h w = tryM m' h w"
  by (simp add: tryM_def)

end
