(* ===== verification/ServiceSync.thy ===== *)
theory ServiceSync
  imports ServiceBase
begin

text \<open>
  The parts of \<open>service.py\<close> that keep plans and campaigns current: reconciliation with the
  trusted gate, the trusted execution decision, and the synchronisation of campaigns with the
  remediations and jobs of their hosts.
\<close>

subsection \<open>Plans\<close>

definition ensure_current_remediation_plan ::
  "env \<Rightarrow> remediation \<Rightarrow> (plan_reconciliation \<times> remediation) comp" where
  "ensure_current_remediation_plan E r =
     bindM (utc_now E) (\<lambda>now.
     let reconciliation = reconcile_plan (e_H E) r now; updated = pr_remediation reconciliation in
     if \<not> pr_changed reconciliation then returnM (reconciliation, updated)
     else
       bindM (writeM (save_remediation updated)) (\<lambda>_.
       bindM (audit E ''system'' ''remediation.approval_invalidated'' ''remediation''
          (Some (r_id updated))
          [(''previous_plan_version'', JInt (pr_previous_plan_version reconciliation)),
           (''previous_plan_hash'', JStr (pr_previous_plan_hash reconciliation)),
           (''plan_version'', JInt (r_plan_version updated)),
           (''plan_hash'', JStr (r_plan_hash updated))]) (\<lambda>_.
       returnM (reconciliation, updated))))"

definition trusted_execution_decision ::
  "env \<Rightarrow> remediation \<Rightarrow> host \<Rightarrow> durable_job option \<Rightarrow> (gate_decision \<times> remediation) comp" where
  "trusted_execution_decision E r h job =
     bindM (ensure_current_remediation_plan E r) (\<lambda>(reconciliation, updated).
     if pr_changed reconciliation then returnM (pr_decision reconciliation, updated)
     else bindM (readM (\<lambda>s. host_has_active_rollback_failure s (h_id h))) (\<lambda>failure.
       returnM (execution_eligibility (e_H E) updated h job failure, updated)))"

subsection \<open>Campaigns\<close>

text \<open>The \<open>CampaignHostPlan\<close> of a host, with the class's defaults.\<close>

definition new_host_plan :: "string \<Rightarrow> string \<Rightarrow> string \<Rightarrow> string \<Rightarrow> datetime \<Rightarrow> campaign_host_plan" where
  "new_host_plan i campaign_id host_id hostname now =
     \<lparr>hp_id = i, hp_campaign_id = campaign_id, hp_host_id = host_id, hp_hostname = hostname,
      hp_state = HSelected, hp_scan_id = None, hp_remediation_id = None, hp_plan_version = None,
      hp_plan_hash = None, hp_approval_state = ''pending'', hp_reboot_approval_state = ''pending'',
      hp_approved_plan_version = None, hp_approved_plan_hash = None, hp_approved_by = None,
      hp_approved_at = None, hp_reboot_approved_by = None, hp_reboot_approved_at = None,
      hp_reboot_approved_plan_version = None, hp_reboot_approved_plan_hash = None,
      hp_job_id = None, hp_failure_summary = None, hp_created_at = now, hp_updated_at = now\<rparr>"

text \<open>Host plans for a campaign stored without any, from its remediations by host.\<close>

definition rebuild_hosts :: "env \<Rightarrow> patch_campaign \<Rightarrow> datetime \<Rightarrow> campaign_host_plan list comp" where
  "rebuild_hosts E c now =
     bindM (readM (\<lambda>s. filter (\<lambda>r. r_id r \<in> set (c_remediation_ids c)) (list_remediations s))) (\<lambda>rs.
     let by_host = fold (\<lambda>r. dict_set (r_host_id r) r) rs [] in
     foldM (\<lambda>plans host_id.
       bindM (new_id E ''campaign-host'') (\<lambda>i.
       bindM (host_of host_id) (\<lambda>h.
       let hp = (new_host_plan i (c_id c) host_id (h_name h) now)\<lparr>hp_created_at := c_created_at c\<rparr>;
           hp' = (case dict_get by_host host_id of
                    None \<Rightarrow> hp
                  | Some r \<Rightarrow> hp\<lparr>hp_remediation_id := Some (r_id r),
                                hp_plan_version := Some (r_plan_version r),
                                hp_plan_hash := Some (r_plan_hash r),
                                hp_state := HAwaitingApproval\<rparr>)
       in returnM (plans @ [hp']))))
     [] (c_host_ids c))"

text \<open>The loop of \<open>_sync_campaign\<close> that collects the current remediations and jobs.\<close>

definition collect_current ::
  "env \<Rightarrow> campaign_host_plan list \<Rightarrow>
   ((string, remediation) dict \<times> (string, durable_job) dict) comp" where
  "collect_current E hps =
     foldM (\<lambda>(rs, jobs) hp.
       bindM
         (if truthy (hp_remediation_id hp) then
            bindM (readM (\<lambda>s. get_remediation s (or_empty (hp_remediation_id hp)))) (\<lambda>found.
            case found of
              None \<Rightarrow> returnM rs
            | Some r \<Rightarrow> bindM (ensure_current_remediation_plan E r) (\<lambda>(_, r').
                         returnM (dict_set (r_id r') r' rs)))
          else returnM rs) (\<lambda>rs'.
       bindM
         (if truthy (hp_job_id hp) then
            bindM (readM (\<lambda>s. mem_get (t_jobs s) (or_empty (hp_job_id hp)))) (\<lambda>found.
            case found of None \<Rightarrow> returnM jobs | Some j \<Rightarrow> returnM (dict_set (j_id j) j jobs))
          else returnM jobs) (\<lambda>jobs'.
       returnM (rs', jobs')))) ([], []) hps"

definition sync_campaign :: "env \<Rightarrow> patch_campaign \<Rightarrow> patch_campaign comp" where
  "sync_campaign E c =
     bindM (utc_now E) (\<lambda>now.
     bindM (if c_hosts c = [] then rebuild_hosts E c now else returnM (c_hosts c)) (\<lambda>hosts.
     let c1 = c\<lparr>c_hosts := hosts\<rparr> in
     bindM (collect_current E hosts) (\<lambda>(rs, jobs).
     let projected = project_campaign (e_H E) c1 rs jobs now in
     bindM (writeM (save_campaign projected)) (\<lambda>_. returnM projected))))"

definition campaign_host :: "patch_campaign \<Rightarrow> string \<Rightarrow> campaign_host_plan comp" where
  "campaign_host c host_id =
     (case List.find (\<lambda>hp. hp_host_id hp = host_id) (c_hosts c) of
        None \<Rightarrow> raiseM (ValueError ''Host is not selected for this campaign'')
      | Some hp \<Rightarrow> returnM hp)"

text \<open>Mutating the host plan \<open>campaign_host\<close> returned changes it inside the campaign: the
  first plan of that host.\<close>

fun update_host_plan ::
  "string \<Rightarrow> (campaign_host_plan \<Rightarrow> campaign_host_plan) \<Rightarrow> campaign_host_plan list \<Rightarrow>
   campaign_host_plan list" where
  "update_host_plan host_id f [] = []"
| "update_host_plan host_id f (hp # hps) =
     (if hp_host_id hp = host_id then f hp # hps else hp # update_host_plan host_id f hps)"

definition stoppable :: "remediation \<Rightarrow> bool" where
  "stoppable r \<longleftrightarrow> r_execution_state r \<in> {''not_started'', ''queued'', ''waiting_for_window''}"

text \<open>Marks a remediation that has not started as canceled.\<close>

definition cancel_unstarted :: "remediation \<Rightarrow> datetime \<Rightarrow> unit comp" where
  "cancel_unstarted r now =
     (if stoppable r then
        writeM (save_remediation (r\<lparr>r_execution_state := ''canceled'', r_updated_at := now\<rparr>))
      else returnM ())"

text \<open>One iteration of \<open>_stop_remaining_campaign_hosts\<close>: the host plan it leaves.\<close>

definition stop_host :: "string \<Rightarrow> datetime \<Rightarrow> campaign_host_plan \<Rightarrow> campaign_host_plan comp" where
  "stop_host failed_id now hp =
     (if hp_remediation_id hp = Some failed_id then returnM hp
      else if hp_state hp \<in> {HSucceeded, HFailed, HNoAction, HRunning} then returnM hp
      else
        bindM (if truthy (hp_job_id hp)
               then cancel_stored_job (or_empty (hp_job_id hp)) now [''queued'', ''scheduled'']
                      ''canceled_after_campaign_failure''
               else returnM None) (\<lambda>job.
        if (case job of None \<Rightarrow> False | Some j \<Rightarrow> j_status j = ''running'')
        then returnM (hp\<lparr>hp_state := HRunning, hp_updated_at := now\<rparr>)
        else
          bindM (if truthy (hp_remediation_id hp)
                 then bindM (remediation_of (hp_remediation_id hp)) (\<lambda>r. cancel_unstarted r now)
                 else returnM ()) (\<lambda>_.
          returnM (hp\<lparr>hp_state := HCanceled,
                      hp_failure_summary := Some ''Canceled because another campaign host failed'',
                      hp_updated_at := now\<rparr>))))"

definition mapM :: "('a \<Rightarrow> 'b comp) \<Rightarrow> 'a list \<Rightarrow> 'b list comp" where
  "mapM f xs = foldM (\<lambda>ys x. bindM (f x) (\<lambda>y. returnM (ys @ [y]))) [] xs"

definition stop_remaining_campaign_hosts ::
  "env \<Rightarrow> patch_campaign \<Rightarrow> string \<Rightarrow> patch_campaign comp" where
  "stop_remaining_campaign_hosts E c failed_id =
     bindM (remediation_of (Some failed_id)) (\<lambda>failed.
     if \<not> stop_campaign_after_failure failed then returnM c
     else
       bindM (utc_now E) (\<lambda>now.
       bindM (mapM (stop_host failed_id now) (c_hosts c)) (\<lambda>hosts.
       let c' = c\<lparr>c_hosts := hosts, c_updated_at := now\<rparr> in
       bindM (writeM (save_campaign c')) (\<lambda>_. returnM c'))))"

definition sync_campaigns_for_remediation :: "env \<Rightarrow> string \<Rightarrow> bool \<Rightarrow> unit comp" where
  "sync_campaigns_for_remediation E remediation_id stop_remaining =
     bindM (readM list_campaigns) (\<lambda>cs.
     foldM (\<lambda>_ c.
       if Some remediation_id \<notin> hp_remediation_id ` set (c_hosts c) then returnM ()
       else
         bindM (if stop_remaining then stop_remaining_campaign_hosts E c remediation_id
                else returnM c) (\<lambda>c'.
         bindM (sync_campaign E c') (\<lambda>_. returnM ()))) () cs)"

definition validate_campaign_plan_binding ::
  "env \<Rightarrow> campaign_host_plan \<Rightarrow> remediation \<Rightarrow> unit comp" where
  "validate_campaign_plan_binding E hp r =
     bindM (ensure_current_remediation_plan E r) (\<lambda>(_, r').
     let decision = campaign_plan_binding (e_H E) hp r' in
     if gd_allowed decision then returnM ()
     else
       bindM (utc_now E) (\<lambda>_.
       bindM (campaign_of (hp_campaign_id hp)) (\<lambda>c.
       bindM (sync_campaign E c) (\<lambda>_. raise_gate_denial decision))))"

definition mark_campaign_proposal_running :: "env \<Rightarrow> string \<Rightarrow> string \<Rightarrow> unit comp" where
  "mark_campaign_proposal_running E campaign_id host_id =
     bindM (campaign_of campaign_id) (\<lambda>c.
     bindM (campaign_host c host_id) (\<lambda>_.
     bindM (utc_now E) (\<lambda>now.
     bindM (utc_now E) (\<lambda>now'.
     writeM (save_campaign (c
       \<lparr>c_hosts := update_host_plan host_id
          (\<lambda>hp. hp\<lparr>hp_state := HProposalRunning, hp_updated_at := now\<rparr>) (c_hosts c),
        c_status := CProposing, c_updated_at := now'\<rparr>))))))"

definition mark_campaign_proposal_failed ::
  "env \<Rightarrow> string \<Rightarrow> string \<Rightarrow> string \<Rightarrow> unit comp" where
  "mark_campaign_proposal_failed E campaign_id host_id error =
     bindM (campaign_of campaign_id) (\<lambda>c.
     bindM (campaign_host c host_id) (\<lambda>_.
     bindM (redact E error (Some host_id)) (\<lambda>safe.
     bindM (utc_now E) (\<lambda>now.
     bindM (utc_now E) (\<lambda>now'.
     let c' = c\<lparr>c_hosts := update_host_plan host_id
          (\<lambda>hp. hp\<lparr>hp_state := HFailed, hp_failure_summary := Some (take 2000 safe),
                   hp_updated_at := now\<rparr>) (c_hosts c),
        c_updated_at := now'\<rparr> in
     bindM (writeM (save_campaign c')) (\<lambda>_.
     bindM (sync_campaign E c') (\<lambda>_. returnM ())))))))"

text \<open>The host plan \<open>_attach_campaign_proposal\<close> writes for a proposal.\<close>

definition attach_plan :: "remediation \<Rightarrow> campaign_host_plan \<Rightarrow> campaign_host_plan" where
  "attach_plan r hp = hp
     \<lparr>hp_job_id := None, hp_failure_summary := None, hp_scan_id := r_scan_id r,
      hp_remediation_id := Some (r_id r), hp_plan_version := Some (r_plan_version r),
      hp_plan_hash := Some (r_plan_hash r), hp_approval_state := r_approval_state r,
      hp_reboot_approval_state := r_reboot_approval_state r, hp_state := HAwaitingApproval\<rparr>"

definition attach_no_action :: "campaign_host_plan \<Rightarrow> campaign_host_plan" where
  "attach_no_action hp = hp
     \<lparr>hp_job_id := None, hp_failure_summary := None, hp_state := HNoAction,
      hp_approval_state := ''not_required'', hp_reboot_approval_state := ''not_required''\<rparr>"

text \<open>\<open>int(math.ceil(n / size))\<close>; the rollout limit is never below one.\<close>

definition total_batches :: "nat \<Rightarrow> int \<Rightarrow> int" where
  "total_batches n sz = ceil_div (int n) sz"

definition attach_campaign_proposal ::
  "env \<Rightarrow> string \<Rightarrow> host \<Rightarrow> remediation option \<Rightarrow> unit comp" where
  "attach_campaign_proposal E campaign_id h proposal =
     bindM (campaign_of campaign_id) (\<lambda>c.
     bindM (campaign_host c (h_id h)) (\<lambda>_.
     bindM (utc_now E) (\<lambda>now.
     bindM (case proposal of
         Some r \<Rightarrow>
           let ids = (if r_id r \<in> set (c_remediation_ids c) then c_remediation_ids c
                      else c_remediation_ids c @ [r_id r]) in
           bindM (mapM (\<lambda>hp. host_of (hp_host_id hp)) (c_hosts c)) (\<lambda>hosts.
           bindM (readM (\<lambda>s. filter (\<lambda>x. r_id x \<in> set ids) (list_remediations s))) (\<lambda>rs.
           bindM (liftE (campaign_rollout_limit hosts rs)) (\<lambda>sz.
           returnM (c\<lparr>c_hosts := update_host_plan (h_id h)
                        (\<lambda>hp. (attach_plan r hp)\<lparr>hp_updated_at := now\<rparr>) (c_hosts c),
                      c_remediation_ids := ids, c_batch_size := sz,
                      c_total_batches := total_batches (length (c_hosts c)) sz\<rparr>))))
       | None \<Rightarrow> returnM (c\<lparr>c_hosts := update_host_plan (h_id h)
                        (\<lambda>hp. (attach_no_action hp)\<lparr>hp_updated_at := now\<rparr>) (c_hosts c)\<rparr>)) (\<lambda>c1.
     let c2 = c1\<lparr>c_updated_at := now\<rparr> in
     bindM (writeM (save_campaign c2)) (\<lambda>_.
     bindM (sync_campaign E c2) (\<lambda>_. returnM ()))))))"

end
