(* ===== verification/ServicePlans.thy ===== *)
theory ServicePlans
  imports ServiceSync
begin

text \<open>
  Reviewing and queueing plans in \<open>service.py\<close>: the two approvals, rejection, the
  preparation of an execution job, and scan jobs.
\<close>

subsection \<open>Approvals\<close>

definition plan_details :: "remediation \<Rightarrow> details" where
  "plan_details r = [(''plan_version'', JInt (r_plan_version r)), (''plan_hash'', JStr (r_plan_hash r))]"

definition approve_remediation_plan ::
  "env \<Rightarrow> string \<Rightarrow> approval_request \<Rightarrow> string \<Rightarrow> remediation comp" where
  "approve_remediation_plan E remediation_id request actor =
     bindM (remediation_of (Some remediation_id)) (\<lambda>r0.
     bindM (host_of (r_host_id r0)) (\<lambda>h.
     bindM (ensure_current_remediation_plan E r0) (\<lambda>(_, r1).
     bindM (utc_now E) (\<lambda>now.
     let transition = approve_plan (e_H E) r1 h request actor now; r = rt_remediation transition in
     bindM (raise_gate_denial (rt_decision transition)) (\<lambda>_.
     bindM (writeM (save_remediation r)) (\<lambda>_.
     bindM (audit E actor ''remediation.plan_approved'' ''remediation'' (Some (r_id r))
              (plan_details r)) (\<lambda>_.
     bindM (sync_campaigns_for_remediation E (r_id r) False) (\<lambda>_. returnM r))))))))"

definition approve_remediation_reboot ::
  "env \<Rightarrow> string \<Rightarrow> approval_request \<Rightarrow> string \<Rightarrow> remediation comp" where
  "approve_remediation_reboot E remediation_id request actor =
     bindM (remediation_of (Some remediation_id)) (\<lambda>r0.
     bindM (host_of (r_host_id r0)) (\<lambda>h.
     bindM (ensure_current_remediation_plan E r0) (\<lambda>(_, r1).
     bindM (utc_now E) (\<lambda>now.
     let transition = approve_reboot (e_H E) r1 h request actor now; r = rt_remediation transition in
     bindM (if gd_allowed (rt_decision transition) then returnM ()
            else
              bindM (remediation_of (Some remediation_id)) (\<lambda>stored.
              bindM (if r \<noteq> stored
                     then bindM (writeM (save_remediation r)) (\<lambda>_.
                          sync_campaigns_for_remediation E (r_id r) False)
                     else returnM ()) (\<lambda>_.
              raise_gate_denial (rt_decision transition)))) (\<lambda>_.
     bindM (writeM (save_remediation r)) (\<lambda>_.
     bindM (audit E actor ''remediation.reboot_approved'' ''remediation'' (Some (r_id r))
              (plan_details r)) (\<lambda>_.
     bindM (sync_campaigns_for_remediation E (r_id r) False) (\<lambda>_. returnM r))))))))"

definition reject_remediation :: "env \<Rightarrow> string \<Rightarrow> string \<Rightarrow> remediation comp" where
  "reject_remediation E remediation_id actor =
     bindM (remediation_of (Some remediation_id)) (\<lambda>r0.
     if r_approval_state r0 \<noteq> ''pending''
       then raiseM (ValueError ''Only pending remediations can be rejected'')
     else
       bindM (utc_now E) (\<lambda>now.
       let r = r0\<lparr>r_approval_state := ''rejected'', r_reboot_approval_state := ''rejected'',
                  r_reboot_assessment := (r_reboot_assessment r0)\<lparr>rb_approved_if_required := False\<rparr>,
                  r_execution_state := ''blocked'', r_updated_at := now\<rparr> in
       bindM (writeM (save_remediation r)) (\<lambda>_.
       bindM (audit E actor ''remediation.rejected'' ''remediation'' (Some remediation_id) []) (\<lambda>_.
       bindM (sync_campaigns_for_remediation E (r_id r) False) (\<lambda>_. returnM r)))))"

subsection \<open>Jobs\<close>

text \<open>A \<open>DurableJob\<close> with the class's defaults.\<close>

definition new_job ::
  "string \<Rightarrow> string \<Rightarrow> string \<Rightarrow> string \<Rightarrow> string \<Rightarrow> datetime \<Rightarrow> durable_job" where
  "new_job i job_type status host_id key now =
     \<lparr>j_id = i, j_job_type = job_type, j_status = status, j_host_id = Some host_id,
      j_scan_id = None, j_remediation_id = None, j_campaign_id = None,
      j_approved_plan_version = None, j_approved_plan_hash = None, j_approval_scope = None,
      j_idempotency_key = key, j_progress_percent = 0, j_current_phase = None, j_attempts = 0,
      j_max_attempts = 3, j_lease_owner = None, j_lease_expires_at = None, j_heartbeat_at = None,
      j_last_failure = None, j_error = None, j_result = [], j_created_at = now,
      j_started_at = None, j_completed_at = None, j_updated_at = now\<rparr>"

definition remediation_key :: "remediation \<Rightarrow> string" where
  "remediation_key r = ''remediation:'' @ r_id r @ '':'' @ r_plan_hash r"

definition remediation_job ::
  "string \<Rightarrow> string \<Rightarrow> host \<Rightarrow> remediation \<Rightarrow> string option \<Rightarrow> datetime \<Rightarrow> durable_job" where
  "remediation_job i status h r campaign_id now =
     (new_job i ''remediation'' status (h_id h) (remediation_key r) now)
       \<lparr>j_scan_id := r_scan_id r, j_remediation_id := Some (r_id r), j_campaign_id := campaign_id,
        j_approved_plan_version := Some (r_plan_version r),
        j_approved_plan_hash := Some (r_plan_hash r),
        j_approval_scope := Some (job_approval_scope r)\<rparr>"

text \<open>
  The transaction in \<open>prepare_remediation_job\<close>: the job, the plan's id and whether the job is new.
  First the part after the plan was found eligible.
\<close>

definition queue_plan ::
  "env \<Rightarrow> host \<Rightarrow> remediation \<Rightarrow> string \<Rightarrow> string option \<Rightarrow> (durable_job \<times> string \<times> bool) comp" where
  "queue_plan E h r actor campaign_id =
     bindM (utc_now E) (\<lambda>now.
     bindM (readM (\<lambda>s. mem_get_by_idempotency (t_jobs s) (remediation_key r))) (\<lambda>existing.
     case existing of
       Some j \<Rightarrow>
         bindM (raise_gate_denial (duplicate_execution j campaign_id)) (\<lambda>_.
         returnM (j, r_id r, False))
     | None \<Rightarrow>
         bindM (liftE (timing (e_tz E) r now)) (\<lambda>td.
         bindM (new_id E ''job'') (\<lambda>i.
         let job = remediation_job i (td_job_status td) h r campaign_id now in
         bindM (writeM (save_remediation (r\<lparr>r_execution_state := td_remediation_state td\<rparr>))) (\<lambda>_.
         bindM (save_job job None) (\<lambda>_.
         bindM (audit E actor ''remediation.execution_queued'' ''remediation'' (Some (r_id r))
                  [(''job_id'', JStr (j_id job)), (''plan_hash'', JStr (r_plan_hash r))]) (\<lambda>_.
         returnM (job, r_id r, True))))))))"

definition prepare_in_transaction ::
  "env \<Rightarrow> string \<Rightarrow> string \<Rightarrow> string option \<Rightarrow> (durable_job \<times> string \<times> bool) comp" where
  "prepare_in_transaction E remediation_id actor campaign_id =
     bindM (remediation_of (Some remediation_id)) (\<lambda>r0.
     bindM (host_of (r_host_id r0)) (\<lambda>h.
     bindM (trusted_execution_decision E r0 h None) (\<lambda>(eligibility, r).
     bindM (raise_gate_denial eligibility) (\<lambda>_.
     queue_plan E h r actor campaign_id))))"

text \<open>An existing job returns at once, without synchronising campaigns.\<close>

definition prepare_remediation_job ::
  "env \<Rightarrow> string \<Rightarrow> string \<Rightarrow> string option \<Rightarrow> bool \<Rightarrow> durable_job comp" where
  "prepare_remediation_job E remediation_id actor campaign_id sync_campaigns =
     bindM (transactionM (prepare_in_transaction E remediation_id actor campaign_id))
       (\<lambda>(job, rid, fresh).
     bindM (if fresh \<and> sync_campaigns then sync_campaigns_for_remediation E rid False
            else returnM ()) (\<lambda>_. returnM job))"

definition create_scan_job ::
  "env \<Rightarrow> scan_request \<Rightarrow> string \<Rightarrow> string option \<Rightarrow> durable_job comp" where
  "create_scan_job E request actor campaign_id =
     bindM (host_of (sq_host_id request)) (\<lambda>h.
     bindM (if truthy (sq_idempotency_key request) then returnM (or_empty (sq_idempotency_key request))
            else bindM (utc_now E) (\<lambda>now. returnM
              (''scan:'' @ h_id h @ '':'' @ sq_trigger request @ '':'' @ minute_stamp now))) (\<lambda>key.
     bindM (readM (\<lambda>s. mem_get_by_idempotency (t_jobs s) key)) (\<lambda>existing.
     case existing of Some j \<Rightarrow> returnM j | None \<Rightarrow>
     bindM (readM (\<lambda>s. mem_host_has_active_scan (t_jobs s) (h_id h))) (\<lambda>active.
     if sq_trigger request = ''scheduled'' \<and> active
       then raiseM (ValueError ''A scan is already queued or running for this host'')
     else
       bindM (utc_now E) (\<lambda>now.
       bindM (new_id E ''scan'') (\<lambda>scan_id.
       bindM (new_id E ''job'') (\<lambda>job_id.
       let scan = \<lparr>s_id = scan_id, s_host_id = h_id h, s_durable_job_id = Some job_id,
                   s_snapshot_id = None, s_trigger = sq_trigger request, s_status = ''queued'',
                   s_finding_ids = [], s_remediation_ids = [], s_agent_run_ids = [],
                   s_agent_reports = [], s_campaign_id = campaign_id, s_error = None,
                   s_created_at = now, s_updated_at = now\<rparr>;
           job = (new_job job_id ''scan'' ''queued'' (h_id h) key now)
                   \<lparr>j_scan_id := Some scan_id, j_campaign_id := campaign_id\<rparr> in
       bindM (writeM (save_scan scan)) (\<lambda>_.
       bindM (save_job job None) (\<lambda>_.
       bindM (audit E actor ''scan.queued'' ''scan'' (Some scan_id)
                [(''job_id'', JStr job_id), (''trigger'', JStr (sq_trigger request))]) (\<lambda>_.
       returnM job))))))))))"

end
