(* ===== verification/ServiceJobs.thy ===== *)
theory ServiceJobs
  imports ServicePlans
begin

text \<open>
  Running a remediation job in \<open>service.py\<close>: failure and retry, rollback snapshots, the
  guarded execution of an approved plan, and the worker's entry point with its handlers.
\<close>

subsection \<open>Failure and retry\<close>

definition record_terminal_job_failure :: "env \<Rightarrow> durable_job \<Rightarrow> string option \<Rightarrow> unit comp" where
  "record_terminal_job_failure E j host_id =
     bindM (create_alert E SevCritical (py_title (j_job_type j) @ '' job failed'')
              (if truthy (j_error j) then or_empty (j_error j) else ''Job failed'')
              host_id (Some (j_id j))) (\<lambda>_.
     audit E ''system'' ''job.failed'' ''job'' (Some (j_id j))
       [(''error'', opt_json JStr (j_error j)), (''attempts'', JInt (j_attempts j)),
        (''max_attempts'', JInt (j_max_attempts j))])"

text \<open>The job \<open>fail_job\<close> stores, from the redacted error.\<close>

definition failed_job ::
  "durable_job \<Rightarrow> string \<Rightarrow> bool \<Rightarrow> string \<Rightarrow> datetime \<Rightarrow> durable_job" where
  "failed_job j safe_error retryable category now =
     (let will_retry = (retryable \<and> j_attempts j < j_max_attempts j);
          j1 = j\<lparr>j_last_failure := Some \<lparr>jf_failed_at = now, jf_attempt = j_attempts j,
                   jf_category = category, jf_message = take 2000 safe_error,
                   jf_retryable = will_retry\<rparr>,
                 j_updated_at := now, j_lease_owner := None, j_lease_expires_at := None\<rparr>
      in if will_retry
         then j1\<lparr>j_status := ''queued'', j_error := None,
                 j_current_phase := Some ''retry_scheduled'', j_completed_at := None\<rparr>
         else j1\<lparr>j_status := ''failed'', j_error := Some (take 2000 safe_error),
                 j_current_phase := Some ''failed'', j_completed_at := Some now\<rparr>)"

text \<open>Storing it: the job itself, or the stored job when the lease was lost.\<close>

definition settle_failed_job ::
  "env \<Rightarrow> durable_job \<Rightarrow> string \<Rightarrow> string option \<Rightarrow> bool \<Rightarrow> durable_job comp" where
  "settle_failed_job E job host_id lease_owner will_retry =
     bindM (save_job job lease_owner) (\<lambda>saved.
     if saved = None then stored_job (j_id job)
     else if will_retry then
       bindM (audit E ''system'' ''job.retry_scheduled'' ''job'' (Some (j_id job))
                [(''attempt'', JInt (j_attempts job)), (''max_attempts'', JInt (j_max_attempts job)),
                 (''error'', opt_json (\<lambda>f. JStr (jf_message f)) (j_last_failure job))]) (\<lambda>_.
       returnM job)
     else bindM (record_terminal_job_failure E job (Some host_id)) (\<lambda>_. returnM job))"

definition fail_job ::
  "env \<Rightarrow> durable_job \<Rightarrow> string \<Rightarrow> string \<Rightarrow> string option \<Rightarrow> bool \<Rightarrow> string \<Rightarrow> durable_job comp" where
  "fail_job E j error host_id lease_owner retryable category =
     bindM (utc_now E) (\<lambda>now.
     bindM (redact E error (Some host_id)) (\<lambda>safe_error.
     settle_failed_job E (failed_job j safe_error retryable category now) host_id lease_owner
       (retryable \<and> j_attempts j < j_max_attempts j)))"

subsection \<open>Rollback snapshots\<close>

definition create_rollback_snapshot ::
  "env \<Rightarrow> durable_job \<Rightarrow> remediation \<Rightarrow> host \<Rightarrow> rollback_snapshot comp" where
  "create_rollback_snapshot E job r h =
     bindM (utc_now E) (\<lambda>now.
     bindM (new_id E ''rollback-snapshot'') (\<lambda>i.
     let snapshot = \<lparr>rs_id = i, rs_host_id = h_id h, rs_remediation_id = r_id r,
                     rs_provider = h_snapshot_platform h, rs_external_snapshot_id = None,
                     rs_state = SnapCreating, rs_delete_after = None, rs_created_at = now,
                     rs_updated_at = now, rs_failure_summary = None, rs_health_check_result = []\<rparr> in
     bindM (writeM (save_rollback_snapshot snapshot)) (\<lambda>_.
     bindM (externalM (e_create_snapshot E h r snapshot (j_id job))) (\<lambda>result.
     bindM (writeM (save_log_events (so_events result))) (\<lambda>_.
     bindM (utc_now E) (\<lambda>now'.
     bindM (redact E (so_summary result) (Some (h_id h))) (\<lambda>safe.
     let creation = snapshot_creation (so_success result) safe;
         snapshot1 = snapshot\<lparr>rs_updated_at := now'\<rparr> in
     if \<not> gd_allowed creation then
       bindM (redact E (so_summary result) (Some (h_id h))) (\<lambda>safe'.
       bindM (writeM (save_rollback_snapshot (snapshot1\<lparr>rs_failure_summary := Some safe'\<rparr>))) (\<lambda>_.
       raiseM (NonRetryableJobError (gd_message creation) (gd_category creation))))
     else
       let snapshot2 = snapshot1\<lparr>rs_external_snapshot_id := so_external_snapshot_id result,
                                 rs_state := SnapCreated\<rparr> in
       bindM (writeM (save_rollback_snapshot snapshot2)) (\<lambda>_.
       bindM (audit E ''system'' ''snapshot.created'' ''rollback_snapshot'' (Some i)
                [(''host_id'', JStr (h_id h)), (''remediation_id'', JStr (r_id r)),
                 (''provider'', JStr (snapshot_platform_text (h_snapshot_platform h)))]) (\<lambda>_.
       returnM snapshot2)))))))))"

definition schedule_snapshot_delete_job ::
  "env \<Rightarrow> rollback_snapshot \<Rightarrow> host \<Rightarrow> durable_job comp" where
  "schedule_snapshot_delete_job E snapshot h =
     (let key = ''snapshot-delete:'' @ rs_id snapshot in
      bindM (readM (\<lambda>s. mem_get_by_idempotency (t_jobs s) key)) (\<lambda>existing.
      case existing of Some j \<Rightarrow> returnM j | None \<Rightarrow>
      bindM (utc_now E) (\<lambda>now.
      bindM (new_id E ''job'') (\<lambda>i.
      let due = opt_json (\<lambda>t. JStr (isoformat t)) (rs_delete_after snapshot);
          job = (new_job i ''snapshot_delete'' ''scheduled'' (h_id h) key now)
                  \<lparr>j_remediation_id := Some (rs_remediation_id snapshot),
                   j_current_phase := Some ''waiting_for_retention'',
                   j_result := [(''rollback_snapshot_id'', JStr (rs_id snapshot)),
                                (''delete_after'', due)]\<rparr> in
      bindM (save_job job None) (\<lambda>_.
      bindM (audit E ''system'' ''snapshot.delete_scheduled'' ''rollback_snapshot''
               (Some (rs_id snapshot)) [(''job_id'', JStr i), (''delete_after'', due)]) (\<lambda>_.
      returnM job))))))"

text \<open>Entering a phase: the job object is mutated and saved under the lease.\<close>

definition enter_phase :: "env \<Rightarrow> string \<Rightarrow> int \<Rightarrow> string \<Rightarrow> unit comp" where
  "enter_phase E name progress lease_owner =
     bindM (utc_now E) (\<lambda>now.
     bindM (mutate_job (\<lambda>j. j\<lparr>j_current_phase := Some name, j_progress_percent := progress,
                              j_updated_at := now\<rparr>)) (\<lambda>_.
     save_claimed_job lease_owner))"

definition phase :: "string \<Rightarrow> bool \<Rightarrow> string \<Rightarrow> execution_phase" where
  "phase name ok summary = \<lparr>ph_name = name, ph_state = (if ok then ''succeeded'' else ''failed''),
     ph_summary = summary, ph_output = '''', ph_changed = False\<rparr>"

text \<open>
  After a successful execution under a snapshot: the result and the snapshot as they now are
  (the caller shares the mutated objects).
\<close>

definition finish_snapshot_protected_execution ::
  "env \<Rightarrow> remediation \<Rightarrow> host \<Rightarrow> rollback_snapshot \<Rightarrow> execution_result \<Rightarrow> string \<Rightarrow>
   (execution_result \<times> rollback_snapshot) comp" where
  "finish_snapshot_protected_execution E r h snapshot0 result0 lease_owner =
     bindM (enter_phase E ''post_reboot_health_check'' 80 lease_owner) (\<lambda>_.
     bindM job_object (\<lambda>job.
     bindM (externalM (e_health_checks E h r snapshot0 (j_id job))) (\<lambda>health.
     let result1 = result0\<lparr>er_events := er_events result0 @ sh_events health,
           er_phases := er_phases result0 @
             [phase ''post_reboot_health_check'' (sh_healthy health) (sh_summary health)]\<rparr> in
     bindM (utc_now E) (\<lambda>t1.
     let decision = post_change_health (sh_healthy health);
         snapshot1 = snapshot0\<lparr>rs_health_check_result := sh_checks health, rs_updated_at := t1,
                               rs_state := pc_snapshot_state decision\<rparr> in
     if pc_action decision = ActComplete then
       bindM (utc_now E) (\<lambda>t2.
       let delete_after = add_days t2 (h_snapshot_retention_days h);
           snapshot2 = snapshot1\<lparr>rs_delete_after := Some delete_after\<rparr> in
       bindM (writeM (save_rollback_snapshot snapshot2)) (\<lambda>_.
       bindM (schedule_snapshot_delete_job E snapshot2 h) (\<lambda>delete_job.
       returnM (result1
         \<lparr>er_phases := er_phases result1 @ [phase ''snapshot_delete_scheduled'' True
             (''Snapshot deletion scheduled for '' @ isoformat delete_after @ ''.'')],
          er_summary := er_summary result1 @ '' Snapshot deletion job '' @ j_id delete_job @
             '' is scheduled.''\<rparr>, snapshot2))))
     else
       bindM (redact E (sh_summary health) (Some (h_id h))) (\<lambda>safe.
       let snapshot2 = snapshot1\<lparr>rs_failure_summary := Some safe\<rparr> in
       bindM (writeM (save_rollback_snapshot snapshot2)) (\<lambda>_.
       bindM (externalM (e_rollback_snapshot E h r snapshot2 (j_id job))) (\<lambda>rollback.
       bindM (utc_now E) (\<lambda>t2.
       bindM (redact E (so_summary rollback) (Some (h_id h))) (\<lambda>safe'.
       let rd = rollback_result (so_success rollback);
           snapshot3 = snapshot2\<lparr>rs_updated_at := t2, rs_failure_summary := Some safe',
                                 rs_state := bd_snapshot_state rd\<rparr> in
       bindM (writeM (save_rollback_snapshot snapshot3)) (\<lambda>_.
       bindM (create_alert E SevCritical
           (if so_success rollback then ''Snapshot rollback completed''
            else ''Snapshot rollback failed'')
           (if so_success rollback
            then ''Post-reboot health checks failed. Snapshot rollback completed and human intervention is required.''
            else ''Post-reboot health checks failed and snapshot rollback failed. Block further execution until human intervention is complete.'')
           (Some (h_id h)) (Some (j_id job))) (\<lambda>_.
       returnM (result1
         \<lparr>er_events := er_events result1 @ so_events rollback,
          er_phases := er_phases result1 @
             [phase ''snapshot_rollback'' (so_success rollback) (so_summary rollback)],
          er_success := False, er_summary := bd_summary rd,
          er_failure_actions_taken := er_failure_actions_taken result1 @
             [''snapshot rollback attempted'', ''operator alert recorded'',
              ''human intervention required'']\<rparr>, snapshot3))))))))))))"

subsection \<open>Executing a remediation\<close>

text \<open>The check before each consequential step: the plan and host as they now are stored, the
  trusted decision for this job, and on a denial a blocked remediation and an exception.\<close>

definition guard_execution :: "env \<Rightarrow> (remediation \<times> host) comp" where
  "guard_execution E =
     bindM job_object (\<lambda>job.
     bindM (remediation_of (j_remediation_id job)) (\<lambda>r0.
     bindM (host_of (r_host_id r0)) (\<lambda>h.
     bindM (trusted_execution_decision E r0 h (Some job)) (\<lambda>(eligibility, r).
     if gd_allowed eligibility then returnM (r, h)
     else
       bindM (utc_now E) (\<lambda>now.
       bindM (writeM (save_remediation (r\<lparr>r_execution_state := ''blocked'', r_updated_at := now\<rparr>)))
         (\<lambda>_. raiseM (NonRetryableJobError (gd_message eligibility) (gd_category eligibility))))))))"

definition require_allowed :: "gate_decision \<Rightarrow> unit comp" where
  "require_allowed d =
     (if gd_allowed d then returnM () else raiseM (NonRetryableJobError (gd_message d) (gd_category d)))"

text \<open>The drift check: fresh evidence is collected, stored and compared with the approved scan.\<close>

definition check_drift :: "env \<Rightarrow> remediation \<Rightarrow> host \<Rightarrow> string \<Rightarrow> unit comp" where
  "check_drift E r h lease_owner =
     bindM (scan_of (r_scan_id r)) (\<lambda>scan.
     bindM (readM (\<lambda>s. get_snapshot s (or_empty (s_snapshot_id scan)))) (\<lambda>original.
     bindM (if original = None then require_allowed (drift None None) else returnM ()) (\<lambda>_.
     bindM job_object (\<lambda>job.
     bindM (externalM (e_collect E h (j_id job) (or_empty (r_scan_id r)))) (\<lambda>current.
     bindM (assert_job_lease E (j_id job) lease_owner) (\<lambda>_.
     bindM (writeM (save_snapshot (ce_snapshot current))) (\<lambda>_.
     bindM (writeM (save_log_events (ce_events current))) (\<lambda>_.
     require_allowed (drift original (Some (ce_snapshot current)))))))))))"

text \<open>The snapshot, if the plan and host require one.\<close>

definition protect_host ::
  "env \<Rightarrow> remediation \<Rightarrow> host \<Rightarrow> string \<Rightarrow> rollback_snapshot option comp" where
  "protect_host E r h lease_owner =
     (let requirement = snapshot_requirement h r in
      bindM (require_allowed (sd_decision requirement)) (\<lambda>_.
      if \<not> sd_required requirement then returnM None
      else
        bindM (enter_phase E ''snapshot_create'' 25 lease_owner) (\<lambda>_.
        bindM job_object (\<lambda>job.
        bindM (assert_job_lease E (j_id job) lease_owner) (\<lambda>_.
        bindM (create_rollback_snapshot E job r h) (\<lambda>snapshot.
        bindM (assert_job_lease E (j_id job) lease_owner) (\<lambda>_. returnM (Some snapshot))))))))"

text \<open>The execution itself, guarded once more, and the checks after it.\<close>

definition execute_guarded ::
  "env \<Rightarrow> rollback_snapshot option \<Rightarrow> string \<Rightarrow>
   (remediation \<times> execution_result \<times> rollback_snapshot option) comp" where
  "execute_guarded E snapshot lease_owner =
     bindM (guard_execution E) (\<lambda>(r, h).
     bindM (enter_phase E ''ansible_execution'' 30 lease_owner) (\<lambda>_.
     bindM job_object (\<lambda>job.
     bindM (assert_job_lease E (j_id job) lease_owner) (\<lambda>_.
     bindM (externalM (e_execute E h r (j_id job))) (\<lambda>result.
     bindM (assert_job_lease E (j_id job) lease_owner) (\<lambda>_.
     case snapshot of
       None \<Rightarrow> returnM (r, result, None)
     | Some sn \<Rightarrow>
         if er_success result then
           bindM (finish_snapshot_protected_execution E r h sn result lease_owner)
             (\<lambda>(result', sn').
           bindM (assert_job_lease E (j_id job) lease_owner) (\<lambda>_. returnM (r, result', Some sn')))
         else returnM (r, result, Some sn)))))))"

text \<open>Recording the outcome: retry and failure leave as exceptions, success completes the job.\<close>

definition record_outcome ::
  "env \<Rightarrow> remediation \<Rightarrow> execution_result \<Rightarrow> rollback_snapshot option \<Rightarrow> string \<Rightarrow> durable_job comp" where
  "record_outcome E r0 result snapshot lease_owner =
     bindM (writeM (save_log_events (er_events result))) (\<lambda>_.
     let outcome = execution_outcome result (map_option rs_state snapshot) in
     bindM (utc_now E) (\<lambda>now.
     let r = r0\<lparr>r_result := Some result, r_execution_state := eo_remediation_state outcome,
                r_updated_at := now\<rparr> in
     bindM (writeM (save_remediation r)) (\<lambda>_.
     if \<not> er_success result then
       (if \<not> gd_retryable (eo_decision outcome)
        then raiseM (NonRetryableJobError (gd_message (eo_decision outcome))
                       (gd_category (eo_decision outcome)))
        else raiseM (RuntimeError (gd_message (eo_decision outcome))))
     else
       bindM (utc_now E) (\<lambda>completed.
       bindM (utc_now E) (\<lambda>updated.
       bindM (mutate_job (\<lambda>j. j\<lparr>j_status := ''completed'', j_current_phase := Some ''completed'',
           j_progress_percent := 100,
           j_result := [(''remediation_id'', JStr (r_id r)), (''success'', JBool True)],
           j_completed_at := Some completed, j_updated_at := updated, j_lease_owner := None,
           j_lease_expires_at := None\<rparr>)) (\<lambda>_.
       bindM (save_claimed_job lease_owner) (\<lambda>_.
       bindM job_object (\<lambda>job.
       bindM (audit E (if truthy (r_approved_by r) then or_empty (r_approved_by r) else ''operator'')
                ''remediation.completed'' ''remediation'' (Some (r_id r))
                [(''job_id'', JStr (j_id job)),
                 (''reboot_performed'', JBool (er_reboot_performed result))]) (\<lambda>_.
       bindM (sync_campaigns_for_remediation E (r_id r) False) (\<lambda>_. returnM job))))))))))"

definition process_claimed_remediation ::
  "env \<Rightarrow> remediation \<Rightarrow> host \<Rightarrow> string \<Rightarrow> durable_job comp" where
  "process_claimed_remediation E r0 h0 lease_owner =
     bindM (utc_now E) (\<lambda>t0.
     bindM (mutate_job (\<lambda>j. j\<lparr>j_current_phase := Some ''state_drift_check'',
              j_progress_percent := 10, j_updated_at := t0\<rparr>)) (\<lambda>_.
     bindM (utc_now E) (\<lambda>t1.
     let r1 = r0\<lparr>r_execution_state := ''running'', r_updated_at := t1\<rparr> in
     bindM (save_claimed_job lease_owner) (\<lambda>_.
     bindM (writeM (save_remediation r1)) (\<lambda>_.
     bindM (sync_campaigns_for_remediation E (r_id r1) False) (\<lambda>_.
     bindM (check_drift E r1 h0 lease_owner) (\<lambda>_.
     bindM (guard_execution E) (\<lambda>(r2, h2).
     bindM (protect_host E r2 h2 lease_owner) (\<lambda>snapshot.
     bindM (execute_guarded E snapshot lease_owner) (\<lambda>(r3, result, snapshot').
     record_outcome E r3 result snapshot' lease_owner))))))))))"


subsection \<open>The worker's entry point\<close>

text \<open>\<open>str(error)\<close>, \<open>getattr(error, "category", default)\<close> and the retry rule of the handlers.\<close>

fun exn_message :: "exn \<Rightarrow> string" where
  "exn_message (ValueError m) = m"
| "exn_message (GateDenied d) = gd_message d"
| "exn_message (RuntimeError m) = m"
| "exn_message (NonRetryableJobError m c) = m"
| "exn_message JobLeaseLost = ''Job lease ownership was lost''"
| "exn_message (ZoneInfoNotFoundError m) = m"
| "exn_message (IntegrityError m) = m"
| "exn_message (ProviderError m) = m"
| "exn_message (OtherError m) = m"

fun exn_category :: "exn \<Rightarrow> string \<Rightarrow> string" where
  "exn_category (NonRetryableJobError m c) fallback = c"
| "exn_category _ fallback = fallback"

fun exn_retryable :: "exn \<Rightarrow> bool" where
  "exn_retryable (NonRetryableJobError m c) = False"
| "exn_retryable _ = True"

definition set_execution_state :: "env \<Rightarrow> remediation \<Rightarrow> string \<Rightarrow> unit comp" where
  "set_execution_state E r state =
     bindM (utc_now E) (\<lambda>now.
     writeM (save_remediation (r\<lparr>r_execution_state := state, r_updated_at := now\<rparr>)))"

definition claim_stored_job :: "env \<Rightarrow> string \<Rightarrow> string \<Rightarrow> durable_job option comp" where
  "claim_stored_job E job_id owner =
     bindM (utc_now E) (\<lambda>claimed_at.
     jobsM (mem_claim job_id owner claimed_at (add_seconds claimed_at (e_lease_seconds E))))"

text \<open>The handler of the worker's exceptions: the job is failed or put back, then the plan.\<close>

definition handle_remediation_error ::
  "env \<Rightarrow> string \<Rightarrow> host \<Rightarrow> string \<Rightarrow> string \<Rightarrow> exn \<Rightarrow> durable_job comp" where
  "handle_remediation_error E remediation_id h job_id owner e =
     (if e = JobLeaseLost then stored_job job_id
      else
        let category = exn_category e ''remediation_execution'' in
        bindM (redact E (exn_message e) (Some (h_id h))) (\<lambda>error_text.
        bindM job_object (\<lambda>job.
        bindM (fail_job E job error_text (h_id h) (Some owner) (exn_retryable e) category)
          (\<lambda>failed.
        bindM (remediation_of (Some remediation_id)) (\<lambda>r.
        bindM (set_execution_state E r
                 (if j_status failed = ''queued'' then ''queued''
                  else if category \<in> {''approval_validation'', ''safety_validation''}
                  then ''blocked'' else ''failed'')) (\<lambda>_.
        bindM (sync_campaigns_for_remediation E (r_id r) (j_status failed = ''failed'')) (\<lambda>_.
        returnM failed)))))))"

text \<open>A queued job of a canceled campaign.\<close>

definition cancel_for_campaign :: "env \<Rightarrow> durable_job \<Rightarrow> remediation \<Rightarrow> durable_job comp" where
  "cancel_for_campaign E existing r =
     bindM (utc_now E) (\<lambda>now.
     bindM (cancel_stored_job (j_id existing) now [''queued''] ''canceled'') (\<lambda>canceled.
     bindM (case canceled of
              Some j \<Rightarrow>
                if j_status j = ''canceled'' then
                  bindM (set_execution_state E r ''canceled'') (\<lambda>_.
                  sync_campaigns_for_remediation E (r_id r) False)
                else returnM ()
            | None \<Rightarrow> returnM ()) (\<lambda>_.
     case canceled of Some j \<Rightarrow> returnM j | None \<Rightarrow> stored_job (j_id existing))))"

text \<open>After the claim: recovery from a stale lease, the trusted decision, the execution.\<close>

definition run_claimed_remediation :: "env \<Rightarrow> durable_job \<Rightarrow> string \<Rightarrow> durable_job comp" where
  "run_claimed_remediation E job owner =
     bindM (remediation_of (j_remediation_id job)) (\<lambda>r0.
     bindM (host_of (r_host_id r0)) (\<lambda>h.
     let recovery = stale_recovery job False in
     if (case j_last_failure job of None \<Rightarrow> False
         | Some f \<Rightarrow> jf_category f = ''worker_lease_expired'') \<and> \<not> rd_dispatch recovery
     then
       bindM (set_execution_state E r0 (rd_remediation_state recovery)) (\<lambda>_.
       bindM (fail_job E job (gd_message (rd_decision recovery)) (h_id h) (Some owner) False
                (gd_category (rd_decision recovery))) (\<lambda>failed.
       bindM (sync_campaigns_for_remediation E (r_id r0) True) (\<lambda>_. returnM failed)))
     else
       bindM (trusted_execution_decision E r0 h (Some job)) (\<lambda>(eligibility, r).
       if \<not> gd_allowed eligibility then
         bindM (set_execution_state E r ''blocked'') (\<lambda>_.
         bindM (fail_job E job (gd_message eligibility) (h_id h) (Some owner) False
                  (gd_category eligibility)) (\<lambda>failed.
         bindM (sync_campaigns_for_remediation E (r_id r) False) (\<lambda>_. returnM failed)))
       else
         bindM (set_job job) (\<lambda>_.
         tryM (process_claimed_remediation E r h owner)
              (handle_remediation_error E (r_id r) h (j_id job) owner)))))"

definition process_remediation :: "env \<Rightarrow> string \<Rightarrow> string option \<Rightarrow> durable_job comp" where
  "process_remediation E job_id worker_id =
     bindM (stored_job job_id) (\<lambda>existing.
     bindM (remediation_of (j_remediation_id existing)) (\<lambda>r.
     bindM (host_of (r_host_id r)) (\<lambda>_.
     bindM (if j_status existing = ''queued'' \<and> truthy (j_campaign_id existing)
            then bindM (campaign_of (or_empty (j_campaign_id existing)))
                   (\<lambda>c. returnM (c_status c = CCanceled))
            else returnM False) (\<lambda>campaign_canceled.
     if campaign_canceled then cancel_for_campaign E existing r
     else
       bindM (utc_now E) (\<lambda>now.
       bindM (liftE (timing (e_tz E) r now)) (\<lambda>td.
       if j_status existing = ''queued'' \<and> \<not> gd_allowed (td_decision td) then
         bindM (utc_now E) (\<lambda>now'.
         let waiting = existing\<lparr>j_status := ''scheduled'',
               j_current_phase := Some ''waiting_for_maintenance_window'', j_updated_at := now'\<rparr> in
         bindM (save_job waiting None) (\<lambda>_.
         bindM (sync_campaigns_for_remediation E (r_id r) False) (\<lambda>_. returnM waiting)))
       else
         bindM (if truthy worker_id then returnM (or_empty worker_id)
                else new_id E ''worker'') (\<lambda>owner.
         bindM (claim_stored_job E job_id owner) (\<lambda>claimed.
         case claimed of
           None \<Rightarrow> stored_job job_id
         | Some job \<Rightarrow> run_claimed_remediation E job owner))))))))"

end
