(* ===== verification/ServiceUpkeep.thy ===== *)
theory ServiceUpkeep
  imports ServiceJobs
begin

text \<open>
  The periodic work of \<open>service.py\<close>: releasing scheduled jobs, deleting rollback snapshots
  whose retention is over, and recovering jobs whose worker's lease has expired.
\<close>

subsection \<open>Releasing scheduled jobs\<close>

definition release_remediation_job ::
  "env \<Rightarrow> datetime \<Rightarrow> durable_job list \<Rightarrow> durable_job \<Rightarrow> durable_job list comp" where
  "release_remediation_job E current released job =
     (if j_job_type job \<noteq> ''remediation'' \<or> j_status job \<noteq> ''scheduled'' then returnM released
      else
        bindM (if truthy (j_campaign_id job)
               then bindM (campaign_of (or_empty (j_campaign_id job)))
                      (\<lambda>c. returnM (c_status c = CCanceled))
               else returnM False) (\<lambda>campaign_canceled.
        if campaign_canceled then
          bindM (save_job (job\<lparr>j_status := ''canceled'', j_current_phase := Some ''canceled'',
                   j_completed_at := Some current, j_updated_at := current\<rparr>) None) (\<lambda>_.
          returnM released)
        else
          bindM (remediation_of (j_remediation_id job)) (\<lambda>r0.
          bindM (host_of (r_host_id r0)) (\<lambda>h.
          bindM (trusted_execution_decision E r0 h (Some job)) (\<lambda>(eligibility, r).
          if \<not> gd_allowed eligibility then
            bindM (writeM (save_remediation
                     (r\<lparr>r_execution_state := ''blocked'', r_updated_at := current\<rparr>))) (\<lambda>_.
            bindM (fail_job E job (gd_message eligibility) (r_host_id r) None False
                     (gd_category eligibility)) (\<lambda>_.
            bindM (sync_campaigns_for_remediation E (r_id r) False) (\<lambda>_. returnM released)))
          else
            bindM (liftE (timing (e_tz E) r current)) (\<lambda>td.
            if gd_allowed (td_decision td) then
              let queued = job\<lparr>j_status := ''queued'', j_current_phase := None,
                               j_updated_at := current\<rparr> in
              bindM (save_job queued None) (\<lambda>_.
              bindM (sync_campaigns_for_remediation E (r_id r) False) (\<lambda>_.
              returnM (released @ [queued])))
            else returnM released))))))"

definition release_scheduled_remediation_jobs ::
  "env \<Rightarrow> datetime option \<Rightarrow> durable_job list comp" where
  "release_scheduled_remediation_jobs E now =
     bindM (case now of Some t \<Rightarrow> returnM t | None \<Rightarrow> utc_now E) (\<lambda>current.
     bindM (readM (\<lambda>s. dict_values (t_jobs s))) (\<lambda>jobs.
     foldM (release_remediation_job E current) [] jobs))"

text \<open>\<open>str(job.result.get("rollback_snapshot_id") or "")\<close>.\<close>

definition snapshot_id_of :: "env \<Rightarrow> durable_job \<Rightarrow> string" where
  "snapshot_id_of E j =
     (let v = dict_get (j_result j) ''rollback_snapshot_id''
      in if \<not> found_truthy v then []
         else case the v of JStr t \<Rightarrow> t | x \<Rightarrow> e_repr E x)"

definition release_snapshot_job ::
  "env \<Rightarrow> datetime \<Rightarrow> durable_job list \<Rightarrow> durable_job \<Rightarrow> durable_job list comp" where
  "release_snapshot_job E current released job =
     (if j_job_type job \<noteq> ''snapshot_delete'' \<or> j_status job \<noteq> ''scheduled'' then returnM released
      else
        bindM (readM (\<lambda>s. get_rollback_snapshot s (snapshot_id_of E job))) (\<lambda>found.
        case found of
          None \<Rightarrow> returnM released
        | Some snapshot \<Rightarrow>
            (case rs_delete_after snapshot of
               None \<Rightarrow> returnM released
             | Some due \<Rightarrow>
                 if normalized_datetime due \<le> normalized_datetime current then
                   let queued = job\<lparr>j_status := ''queued'', j_current_phase := None,
                                    j_updated_at := current\<rparr> in
                   bindM (save_job queued None) (\<lambda>_. returnM (released @ [queued]))
                 else returnM released)))"

definition release_scheduled_snapshot_delete_jobs ::
  "env \<Rightarrow> datetime option \<Rightarrow> durable_job list comp" where
  "release_scheduled_snapshot_delete_jobs E now =
     bindM (case now of Some t \<Rightarrow> returnM t | None \<Rightarrow> utc_now E) (\<lambda>current.
     bindM (readM (\<lambda>s. dict_values (t_jobs s))) (\<lambda>jobs.
     foldM (release_snapshot_job E current) [] jobs))"


subsection \<open>Deleting snapshots\<close>

definition process_claimed_snapshot_delete ::
  "env \<Rightarrow> rollback_snapshot \<Rightarrow> host \<Rightarrow> string \<Rightarrow> durable_job comp" where
  "process_claimed_snapshot_delete E snapshot0 h lease_owner =
     bindM (enter_phase E ''snapshot_delete'' 50 lease_owner) (\<lambda>_.
     bindM job_object (\<lambda>job.
     bindM (externalM (e_delete_snapshot E h snapshot0 (j_id job))) (\<lambda>result.
     bindM (writeM (save_log_events (so_events result))) (\<lambda>_.
     bindM (utc_now E) (\<lambda>now.
     let snapshot1 = snapshot0\<lparr>rs_updated_at := now\<rparr> in
     if \<not> so_success result then
       bindM (redact E (so_summary result) (Some (h_id h))) (\<lambda>safe.
       bindM (writeM (save_rollback_snapshot
                (snapshot1\<lparr>rs_state := SnapDeleteFailed, rs_failure_summary := Some safe\<rparr>))) (\<lambda>_.
       bindM (create_alert E SevHigh ''Snapshot delete failed'' (so_summary result)
                (Some (h_id h)) (Some (j_id job))) (\<lambda>_.
       raiseM (NonRetryableJobError (so_summary result) ''snapshot_delete''))))
     else
       let snapshot2 = snapshot1\<lparr>rs_state := SnapDeleted, rs_failure_summary := None\<rparr> in
       bindM (writeM (save_rollback_snapshot snapshot2)) (\<lambda>_.
       bindM (utc_now E) (\<lambda>completed.
       bindM (utc_now E) (\<lambda>updated.
       bindM (mutate_job (\<lambda>j. j\<lparr>j_status := ''completed'', j_current_phase := Some ''completed'',
           j_progress_percent := 100,
           j_result := dict_set ''rollback_snapshot_id'' (JStr (rs_id snapshot2))
             (dict_set ''success'' (JBool True) (j_result j)),
           j_completed_at := Some completed, j_updated_at := updated, j_lease_owner := None,
           j_lease_expires_at := None\<rparr>)) (\<lambda>_.
       bindM (save_claimed_job lease_owner) (\<lambda>_.
       bindM (audit E ''system'' ''snapshot.deleted'' ''rollback_snapshot''
                (Some (rs_id snapshot2)) [(''job_id'', JStr (j_id job))]) (\<lambda>_.
       job_object)))))))))))"

text \<open>
  The handler of its exceptions. The snapshot object it marks was mutated by the worker, but
  every field the worker may have changed is set again here.
\<close>

definition handle_snapshot_error ::
  "env \<Rightarrow> rollback_snapshot \<Rightarrow> host \<Rightarrow> string \<Rightarrow> string \<Rightarrow> exn \<Rightarrow> durable_job comp" where
  "handle_snapshot_error E snapshot h job_id owner e =
     (if e = JobLeaseLost then stored_job job_id
      else
        bindM (redact E (exn_message e) (Some (h_id h))) (\<lambda>error_text.
        bindM job_object (\<lambda>job.
        bindM (fail_job E job error_text (h_id h) (Some owner) False
                 (exn_category e ''snapshot_delete'')) (\<lambda>failed.
        bindM (utc_now E) (\<lambda>now.
        bindM (writeM (save_rollback_snapshot
                 (snapshot\<lparr>rs_state := SnapDeleteFailed,
                           rs_failure_summary := Some (take 2000 error_text),
                           rs_updated_at := now\<rparr>))) (\<lambda>_. returnM failed))))))"

definition process_snapshot_delete :: "env \<Rightarrow> string \<Rightarrow> string option \<Rightarrow> durable_job comp" where
  "process_snapshot_delete E job_id worker_id =
     bindM (if truthy worker_id then returnM (or_empty worker_id) else new_id E ''worker'') (\<lambda>owner.
     bindM (claim_stored_job E job_id owner) (\<lambda>claimed.
     case claimed of
       None \<Rightarrow> stored_job job_id
     | Some job \<Rightarrow>
         bindM (readM (\<lambda>s. get_rollback_snapshot s (snapshot_id_of E job))) (\<lambda>found.
         case found of
           None \<Rightarrow> fail_job E job ''Rollback snapshot record not found'' (or_empty (j_host_id job))
                     (Some owner) False ''snapshot_delete''
         | Some snapshot \<Rightarrow>
             bindM (host_of (rs_host_id snapshot)) (\<lambda>h.
             bindM (set_job job) (\<lambda>_.
             tryM (process_claimed_snapshot_delete E snapshot h owner)
                  (handle_snapshot_error E snapshot h (j_id job) owner))))))"

subsection \<open>Recovering expired jobs\<close>

text \<open>The part of the recovery loop that depends on the job type: whether the job is dispatched.\<close>

definition recover_by_type :: "env \<Rightarrow> datetime \<Rightarrow> durable_job \<Rightarrow> bool comp" where
  "recover_by_type E current job =
     (if j_job_type job = ''scan'' then
        bindM (readM (\<lambda>s. get_scan s (or_empty (j_scan_id job)))) (\<lambda>found.
        case found of
          None \<Rightarrow> returnM True
        | Some scan \<Rightarrow>
            bindM (writeM (save_scan (scan\<lparr>s_status := ''queued'',
              s_error := map_option jf_message (j_last_failure job),
              s_updated_at := current\<rparr>))) (\<lambda>_. returnM True))
      else if j_job_type job = ''remediation'' then
        bindM (readM (\<lambda>s. get_remediation s (or_empty (j_remediation_id job)))) (\<lambda>found.
        case found of
          None \<Rightarrow> returnM True
        | Some r \<Rightarrow>
            let recovery = stale_recovery job False in
            bindM (writeM (save_remediation (r\<lparr>r_execution_state := rd_remediation_state recovery,
                     r_updated_at := current\<rparr>))) (\<lambda>_.
            if \<not> rd_dispatch recovery then
              bindM (fail_job E job (gd_message (rd_decision recovery)) (r_host_id r) None False
                       (gd_category (rd_decision recovery))) (\<lambda>_.
              bindM (sync_campaigns_for_remediation E (r_id r) True) (\<lambda>_. returnM False))
            else returnM True))
      else if j_job_type job = ''snapshot_delete'' then
        bindM (readM (\<lambda>s. get_rollback_snapshot s (snapshot_id_of E job))) (\<lambda>found.
        case found of
          None \<Rightarrow> returnM True
        | Some snapshot \<Rightarrow>
            bindM (whenM (rs_state snapshot = SnapDeleteFailed)
              (writeM (save_rollback_snapshot
                 (snapshot\<lparr>rs_state := SnapDeleteScheduled, rs_updated_at := current\<rparr>)))) (\<lambda>_.
            returnM True))
      else returnM True)"

definition recover_one :: "env \<Rightarrow> datetime \<Rightarrow> durable_job list \<Rightarrow> durable_job \<Rightarrow> durable_job list comp" where
  "recover_one E current dispatchable job =
     bindM (recover_by_type E current job) (\<lambda>dispatch.
     if dispatch then
       bindM (audit E ''scheduler'' ''job.lease_recovered'' ''job'' (Some (j_id job))
                [(''attempt'', JInt (j_attempts job))]) (\<lambda>_. returnM (dispatchable @ [job]))
     else returnM dispatchable)"

definition exhaust_one :: "env \<Rightarrow> datetime \<Rightarrow> durable_job \<Rightarrow> unit comp" where
  "exhaust_one E current job =
     bindM
       (if j_job_type job = ''scan'' then
          bindM (readM (\<lambda>s. get_scan s (or_empty (j_scan_id job)))) (\<lambda>found.
          case found of
            None \<Rightarrow> returnM ()
          | Some scan \<Rightarrow> writeM (save_scan (scan\<lparr>s_status := ''failed'', s_error := j_error job,
                           s_updated_at := current\<rparr>)))
        else if j_job_type job = ''remediation'' then
          bindM (readM (\<lambda>s. get_remediation s (or_empty (j_remediation_id job)))) (\<lambda>found.
          case found of
            None \<Rightarrow> returnM ()
          | Some r \<Rightarrow> writeM (save_remediation
              (r\<lparr>r_execution_state := rd_remediation_state (stale_recovery job True),
                 r_updated_at := current\<rparr>)))
        else if j_job_type job = ''snapshot_delete'' then
          bindM (readM (\<lambda>s. get_rollback_snapshot s (snapshot_id_of E job))) (\<lambda>found.
          case found of
            None \<Rightarrow> returnM ()
          | Some snapshot \<Rightarrow> writeM (save_rollback_snapshot (snapshot\<lparr>rs_state := SnapDeleteFailed,
                               rs_failure_summary := j_error job, rs_updated_at := current\<rparr>)))
        else returnM ())
       (\<lambda>_. record_terminal_job_failure E job (j_host_id job))"

definition recover_expired_jobs :: "env \<Rightarrow> datetime option \<Rightarrow> durable_job list comp" where
  "recover_expired_jobs E now =
     bindM (case now of Some t \<Rightarrow> returnM t | None \<Rightarrow> utc_now E) (\<lambda>current.
     bindM (jobsM (mem_recover current)) (\<lambda>(recovered, exhausted).
     bindM (foldM (recover_one E current) [] recovered) (\<lambda>dispatchable.
     bindM (foldM (\<lambda>_. exhaust_one E current) () exhausted) (\<lambda>_. returnM dispatchable))))"

end
