(* ===== verification/ServiceFrames.thy ===== *)
theory ServiceFrames
  imports ServiceUpkeep
begin

text \<open>
  Laws the properties of the services share. The first group says which helpers do not
  depend on the executor or on the snapshot provider; the second says what the worker's
  steps leave alone between a successful guard and the call that follows it.
\<close>

named_theorems env_simps \<open>helpers that do not use a component of the environment\<close>

subsection \<open>Independence of the executor\<close>

lemma env_fields [env_simps]:
  "e_H (E\<lparr>e_execute := x\<rparr>) = e_H E"
  "e_tz (E\<lparr>e_execute := x\<rparr>) = e_tz E"
  "e_clock (E\<lparr>e_execute := x\<rparr>) = e_clock E"
  "e_lease_seconds (E\<lparr>e_execute := x\<rparr>) = e_lease_seconds E"
  "e_collect (E\<lparr>e_execute := x\<rparr>) = e_collect E"
  "e_sanitize_audit (E\<lparr>e_execute := x\<rparr>) = e_sanitize_audit E"
  "e_health_checks (E\<lparr>e_execute := x\<rparr>) = e_health_checks E"
  "e_rollback_snapshot (E\<lparr>e_execute := x\<rparr>) = e_rollback_snapshot E"
  "e_create_snapshot (E\<lparr>e_execute := x\<rparr>) = e_create_snapshot E"
  "e_H (E\<lparr>e_create_snapshot := y\<rparr>) = e_H E"
  "e_tz (E\<lparr>e_create_snapshot := y\<rparr>) = e_tz E"
  "e_clock (E\<lparr>e_create_snapshot := y\<rparr>) = e_clock E"
  "e_lease_seconds (E\<lparr>e_create_snapshot := y\<rparr>) = e_lease_seconds E"
  "e_collect (E\<lparr>e_create_snapshot := y\<rparr>) = e_collect E"
  "e_sanitize_audit (E\<lparr>e_create_snapshot := y\<rparr>) = e_sanitize_audit E"
  "e_health_checks (E\<lparr>e_create_snapshot := y\<rparr>) = e_health_checks E"
  "e_rollback_snapshot (E\<lparr>e_create_snapshot := y\<rparr>) = e_rollback_snapshot E"
  by simp_all

lemma env_basic [env_simps]:
  "utc_now (E\<lparr>e_execute := x\<rparr>) = utc_now E" "new_id (E\<lparr>e_execute := x\<rparr>) = new_id E"
  "redact (E\<lparr>e_execute := x\<rparr>) = redact E"
  "utc_now (E\<lparr>e_create_snapshot := y\<rparr>) = utc_now E" "new_id (E\<lparr>e_create_snapshot := y\<rparr>) = new_id E"
  "redact (E\<lparr>e_create_snapshot := y\<rparr>) = redact E"
  by (simp_all add: fun_eq_iff utc_now_def new_id_def redact_def)

lemma env_records [env_simps]:
  "audit (E\<lparr>e_execute := x\<rparr>) = audit E" "create_alert (E\<lparr>e_execute := x\<rparr>) = create_alert E"
  "assert_job_lease (E\<lparr>e_execute := x\<rparr>) = assert_job_lease E"
  "audit (E\<lparr>e_create_snapshot := y\<rparr>) = audit E"
  "create_alert (E\<lparr>e_create_snapshot := y\<rparr>) = create_alert E"
  "assert_job_lease (E\<lparr>e_create_snapshot := y\<rparr>) = assert_job_lease E"
  by (unfold audit_def create_alert_def assert_job_lease_def env_simps, ((rule refl)+)?)

lemma env_plans [env_simps]:
  "ensure_current_remediation_plan (E\<lparr>e_execute := x\<rparr>) = ensure_current_remediation_plan E"
  "ensure_current_remediation_plan (E\<lparr>e_create_snapshot := y\<rparr>) = ensure_current_remediation_plan E"
  by (unfold ensure_current_remediation_plan_def env_simps, ((rule refl)+)?)

lemma env_decision [env_simps]:
  "trusted_execution_decision (E\<lparr>e_execute := x\<rparr>) = trusted_execution_decision E"
  "trusted_execution_decision (E\<lparr>e_create_snapshot := y\<rparr>) = trusted_execution_decision E"
  by (unfold trusted_execution_decision_def env_simps, ((rule refl)+)?)

lemma env_collect [env_simps]:
  "rebuild_hosts (E\<lparr>e_execute := x\<rparr>) = rebuild_hosts E"
  "collect_current (E\<lparr>e_execute := x\<rparr>) = collect_current E"
  "rebuild_hosts (E\<lparr>e_create_snapshot := y\<rparr>) = rebuild_hosts E"
  "collect_current (E\<lparr>e_create_snapshot := y\<rparr>) = collect_current E"
  by (unfold rebuild_hosts_def collect_current_def env_simps, ((rule refl)+)?)

lemma env_sync [env_simps]:
  "sync_campaign (E\<lparr>e_execute := x\<rparr>) = sync_campaign E"
  "stop_remaining_campaign_hosts (E\<lparr>e_execute := x\<rparr>) = stop_remaining_campaign_hosts E"
  "sync_campaign (E\<lparr>e_create_snapshot := y\<rparr>) = sync_campaign E"
  "stop_remaining_campaign_hosts (E\<lparr>e_create_snapshot := y\<rparr>) = stop_remaining_campaign_hosts E"
  by (unfold sync_campaign_def stop_remaining_campaign_hosts_def env_simps, ((rule refl)+)?)

lemma env_syncs [env_simps]:
  "sync_campaigns_for_remediation (E\<lparr>e_execute := x\<rparr>) = sync_campaigns_for_remediation E"
  "sync_campaigns_for_remediation (E\<lparr>e_create_snapshot := y\<rparr>) = sync_campaigns_for_remediation E"
  by (unfold sync_campaigns_for_remediation_def env_simps, ((rule refl)+)?)

lemma env_jobs [env_simps]:
  "fail_job (E\<lparr>e_execute := x\<rparr>) = fail_job E"
  "enter_phase (E\<lparr>e_execute := x\<rparr>) = enter_phase E"
  "claim_stored_job (E\<lparr>e_execute := x\<rparr>) = claim_stored_job E"
  "set_execution_state (E\<lparr>e_execute := x\<rparr>) = set_execution_state E"
  "guard_execution (E\<lparr>e_execute := x\<rparr>) = guard_execution E"
  "enter_phase (E\<lparr>e_create_snapshot := y\<rparr>) = enter_phase E"
  "guard_execution (E\<lparr>e_create_snapshot := y\<rparr>) = guard_execution E"
  by (unfold fail_job_def settle_failed_job_def record_terminal_job_failure_def enter_phase_def claim_stored_job_def set_execution_state_def guard_execution_def env_simps, ((rule refl)+)?)

lemma env_steps [env_simps]:
  "check_drift (E\<lparr>e_execute := x\<rparr>) = check_drift E"
  "create_rollback_snapshot (E\<lparr>e_execute := x\<rparr>) = create_rollback_snapshot E"
  "schedule_snapshot_delete_job (E\<lparr>e_execute := x\<rparr>) = schedule_snapshot_delete_job E"
  "record_outcome (E\<lparr>e_execute := x\<rparr>) = record_outcome E"
  "cancel_for_campaign (E\<lparr>e_execute := x\<rparr>) = cancel_for_campaign E"
  "handle_remediation_error (E\<lparr>e_execute := x\<rparr>) = handle_remediation_error E"
  "check_drift (E\<lparr>e_create_snapshot := y\<rparr>) = check_drift E"
  by (unfold check_drift_def create_rollback_snapshot_def schedule_snapshot_delete_job_def record_outcome_def cancel_for_campaign_def handle_remediation_error_def env_simps, ((rule refl)+)?)

lemma env_snapshots [env_simps]:
  "protect_host (E\<lparr>e_execute := x\<rparr>) = protect_host E"
  "finish_snapshot_protected_execution (E\<lparr>e_execute := x\<rparr>) = finish_snapshot_protected_execution E"
  by (unfold protect_host_def finish_snapshot_protected_execution_def env_simps, ((rule refl)+)?)

subsection \<open>What the worker's steps leave alone\<close>

definition only_jobs :: "world \<Rightarrow> world \<Rightarrow> bool" where
  "only_jobs w w' \<longleftrightarrow> w_store w' = (w_store w)\<lparr>t_jobs := t_jobs (w_store w')\<rparr>"

text \<open>The parts of a job the trusted gate looks at.\<close>

definition same_binding :: "durable_job \<Rightarrow> durable_job \<Rightarrow> bool" where
  "same_binding a b \<longleftrightarrow>
     j_id a = j_id b \<and> j_remediation_id a = j_remediation_id b \<and> j_host_id a = j_host_id b \<and>
     j_scan_id a = j_scan_id b \<and> j_approval_scope a = j_approval_scope b \<and>
     j_approved_plan_version a = j_approved_plan_version b \<and>
     j_approved_plan_hash a = j_approved_plan_hash b"

lemma same_binding_refl [simp]: "same_binding j j"
  by (simp add: same_binding_def)

lemma same_binding_trans: "same_binding a b \<Longrightarrow> same_binding b c \<Longrightarrow> same_binding a c"
  by (simp add: same_binding_def)

lemma only_jobs_refl [simp]: "only_jobs w w"
  by (simp add: only_jobs_def)

lemma only_jobsI: "w_store w' = (w_store w)\<lparr>t_jobs := js\<rparr> \<Longrightarrow> only_jobs w w'"
  by (simp add: only_jobs_def)

lemma only_jobsE:
  assumes "only_jobs w w'"
  obtains js where "w_store w' = (w_store w)\<lparr>t_jobs := js\<rparr>"
  using assms unfolding only_jobs_def by blast

lemma only_jobs_trans: "only_jobs a b \<Longrightarrow> only_jobs b c \<Longrightarrow> only_jobs a c"
  by (auto elim!: only_jobsE intro: only_jobsI)

lemma only_jobs_reads:
  assumes "only_jobs w w'"
  shows "get_remediation (w_store w') i = get_remediation (w_store w) i"
    "get_host (w_store w') i = get_host (w_store w) i"
    "host_has_active_rollback_failure (w_store w') i = host_has_active_rollback_failure (w_store w) i"
    "get_snapshot (w_store w') i = get_snapshot (w_store w) i"
    "get_scan (w_store w') i = get_scan (w_store w) i"
  using assms by (auto elim!: only_jobsE simp: get_remediation_def get_host_def get_snapshot_def
      get_scan_def host_has_active_rollback_failure_def list_alerts_def)

lemma utc_now_run [comp_simps]: "utc_now E w = (Inr (e_clock E (w_tick w)), w\<lparr>w_tick := w_tick w + 1\<rparr>)"
  by (simp add: utc_now_def)

lemma externalM_eq_Inr:
  "externalM m w = (Inr x, w') \<longleftrightarrow>
     (\<exists>w1. m w = (Inr x, w1) \<and> w' = w1\<lparr>w_job := w_job w, w_scan := w_scan w, w_tx := w_tx w\<rparr>)"
  by (auto simp: externalM_def split: prod.splits)

lemma save_outcome_binding:
  "save_outcome cur j lo = Some j' \<Longrightarrow> same_binding j' j"
  by (auto simp: save_outcome_def merge_lease_def same_binding_def split: option.splits if_splits)

lemma job_binding_same:
  "same_binding j j' \<Longrightarrow> job_binding_decision r h j = job_binding_decision r h j'"
  by (simp add: same_binding_def job_binding_decision_def)

lemma eligibility_same:
  "same_binding j j' \<Longrightarrow>
     execution_eligibility H r h (Some j) f = execution_eligibility H r h (Some j') f"
  by (simp add: execution_eligibility_def job_binding_same)

lemma save_job_frame:
  assumes "save_job j lo w = (Inr (Some j'), w')"
  shows "only_jobs w w' \<and> w_job w' = w_job w \<and> same_binding j' j"
  using assms
  by (auto simp: save_job_def bindM_def jobsM_def mem_save_def comp_simps Let_def
      split: if_splits option.splits prod.splits sum.splits
      intro!: only_jobsI dest: save_outcome_binding)

lemma save_claimed_frame:
  assumes "save_claimed_job ow w = (Inr u, w')"
  shows "only_jobs w w' \<and> same_binding (w_job w') (w_job w)"
proof -
  obtain j' w1 where s: "save_job (w_job w) (Some ow) w = (Inr (Some j'), w1)"
    and w': "w' = w1\<lparr>w_job := j'\<rparr>"
    using assms
    by (auto simp: save_claimed_job_def bindM_eq_Inr job_object_def set_job_def comp_simps
        split: option.splits)
  from save_job_frame [OF s] show ?thesis
    by (auto simp: w' elim!: only_jobsE intro: only_jobsI)
qed

lemma enter_phase_frame:
  assumes "enter_phase E name p ow w = (Inr u, w')"
  shows "only_jobs w w' \<and> same_binding (w_job w') (w_job w)"
proof -
  let ?j = "(w_job w)\<lparr>j_current_phase := Some name, j_progress_percent := p,
                      j_updated_at := e_clock E (w_tick w)\<rparr>"
  have "save_claimed_job ow (w\<lparr>w_tick := w_tick w + 1, w_job := ?j\<rparr>) = (Inr u, w')"
    using assms by (simp add: enter_phase_def bindM_def comp_simps mutate_job_def job_object_def
        set_job_def)
  from save_claimed_frame [OF this] show ?thesis
    by (auto simp: same_binding_def elim!: only_jobsE intro: only_jobsI)
qed

text \<open>After the lease was confirmed, the stored job is running and owned by this worker.\<close>

definition leased_to :: "string \<Rightarrow> string \<Rightarrow> world \<Rightarrow> bool" where
  "leased_to owner i w \<longleftrightarrow>
     (\<exists>j. mem_get (t_jobs (w_store w)) i = Some j \<and> j_status j = ''running'' \<and>
          j_lease_owner j = Some owner)"

lemma assert_job_lease_frame:
  assumes "assert_job_lease E i ow w = (Inr u, w')"
  shows "only_jobs w w' \<and> w_job w' = w_job w \<and> leased_to ow i w'"
  using assms
  by (auto simp: assert_job_lease_def bindM_def jobsM_def mem_heartbeat_def comp_simps Let_def
      leased_to_def mem_get_def holds_lease_def beat_def
      split: if_splits option.splits prod.splits sum.splits intro!: only_jobsI)

text \<open>What a guard that lets the worker pass has established.\<close>

definition guarded :: "env \<Rightarrow> remediation \<Rightarrow> host \<Rightarrow> world \<Rightarrow> bool" where
  "guarded E r h w \<longleftrightarrow>
     get_remediation (w_store w) (or_empty (j_remediation_id (w_job w))) = Some r \<and>
     get_host (w_store w) (r_host_id r) = Some h \<and>
     \<not> host_has_active_rollback_failure (w_store w) (h_id h) \<and>
     gd_allowed (execution_eligibility (e_H E) r h (Some (w_job w)) False)"

lemma trusted_decision_allowed:
  assumes "trusted_execution_decision E r h job w = (Inr (d, r'), w')" "gd_allowed d"
  shows "r' = r \<and> w' = w\<lparr>w_tick := w_tick w + 1\<rparr> \<and>
    d = execution_eligibility (e_H E) r h job (host_has_active_rollback_failure (w_store w) (h_id h))"
  using assms
  by (auto simp: trusted_execution_decision_def ensure_current_remediation_plan_def bindM_def
      comp_simps Let_def reconcile_plan_def audit_def new_id_def gate_simps
      split: if_splits prod.splits sum.splits)

lemma eligibility_failure [simp]: "\<not> gd_allowed (execution_eligibility H r h job True)"
  by (simp add: execution_eligibility_def gate_simps)

lemma guard_execution_frame:
  assumes "guard_execution E w = (Inr (r, h), w')"
  shows "w_store w' = w_store w \<and> w_job w' = w_job w \<and> guarded E r h w'"
proof -
  obtain r0 d r1 w1 where
    r0: "get_remediation (w_store w) (or_empty (j_remediation_id (w_job w))) = Some r0"
    and h: "get_host (w_store w) (r_host_id r0) = Some h"
    and d: "trusted_execution_decision E r0 h (Some (w_job w)) w = (Inr (d, r1), w1)" "gd_allowed d"
    and out: "r = r1" "w' = w1"
    using assms
    by (auto simp: guard_execution_def bindM_eq_Inr job_object_def remediation_of_def host_of_def
        comp_simps split: option.splits if_splits)
  from trusted_decision_allowed [OF d] d(2) r0 h show ?thesis
    by (cases "host_has_active_rollback_failure (w_store w) (h_id h)") (auto simp: out guarded_def)
qed

lemma guarded_frame:
  assumes "guarded E r h w" "only_jobs w w'" "same_binding (w_job w') (w_job w)"
  shows "guarded E r h w'"
  using assms eligibility_same [OF assms(3)]
  by (simp add: guarded_def only_jobs_reads) (simp add: same_binding_def)

subsection \<open>Properties of the store that computations keep\<close>

text \<open>\<open>preserves P m\<close>: running \<open>m\<close> keeps \<open>P\<close> of the store, also when it raises.\<close>

definition preserves :: "(store \<Rightarrow> bool) \<Rightarrow> 'a comp \<Rightarrow> bool" where
  "preserves P m \<longleftrightarrow> (\<forall>w. P (w_store w) \<longrightarrow> P (w_store (snd (m w))))"

named_theorems preserves_intros \<open>rules for what computations keep\<close>

lemma preservesD: "preserves P m \<Longrightarrow> m w = (r, w') \<Longrightarrow> P (w_store w) \<Longrightarrow> P (w_store w')"
  by (metis preserves_def snd_conv)

lemma preserves_basic [preserves_intros, simp]:
  "preserves P (returnM x)" "preserves P (raiseM e)" "preserves P (readM f)" "preserves P (liftE r)"
  "preserves P (utc_now E)" "preserves P (new_id E pre)" "preserves P job_object"
  "preserves P (set_job j)" "preserves P (redact E v h)" "preserves P scan_object"
  "preserves P (set_scan sc)"
  by (simp_all add: preserves_def comp_simps new_id_def job_object_def set_job_def redact_def
      scan_object_def set_scan_def)

lemma preserves_bind [preserves_intros]:
  "preserves P m \<Longrightarrow> (\<And>x. preserves P (f x)) \<Longrightarrow> preserves P (bindM m f)"
  unfolding preserves_def bindM_def by (fastforce split: prod.split sum.split)

lemma preserves_try [preserves_intros]:
  "preserves P m \<Longrightarrow> (\<And>e. preserves P (h e)) \<Longrightarrow> preserves P (tryM m h)"
  unfolding preserves_def tryM_def by (fastforce split: prod.split sum.split)

lemma preserves_fold [preserves_intros]:
  "(\<And>b x. preserves P (f b x)) \<Longrightarrow> preserves P (foldM f b xs)"
  by (induction xs arbitrary: b) (simp_all add: preserves_bind)

lemma preserves_branch [preserves_intros]:
  "(b \<Longrightarrow> preserves P m) \<Longrightarrow> (\<not> b \<Longrightarrow> preserves P n) \<Longrightarrow> preserves P (if b then m else n)"
  "preserves P k \<Longrightarrow> (\<And>x. preserves P (g x)) \<Longrightarrow> preserves P (case z of None \<Rightarrow> k | Some x \<Rightarrow> g x)"
  "(\<And>a c. preserves P (q a c)) \<Longrightarrow> preserves P (case pr of (a, c) \<Rightarrow> q a c)"
  "(\<And>a c. preserves P (q' a c y)) \<Longrightarrow> preserves P ((case pr' of (a, c) \<Rightarrow> q' a c) y)"
  "preserves P u \<Longrightarrow> preserves P (whenM d u)"
  by (simp_all add: whenM_def split: option.split prod.split)

lemma preserves_write [preserves_intros]:
  "(\<And>s. P s \<Longrightarrow> P (f s)) \<Longrightarrow> preserves P (writeM f)"
  by (simp add: preserves_def comp_simps)

lemma preserves_jobs [preserves_intros]:
  "(\<And>s. P s \<Longrightarrow> P (s\<lparr>t_jobs := snd (f (t_jobs s))\<rparr>)) \<Longrightarrow> preserves P (jobsM f)"
  by (simp add: preserves_def jobsM_def split_beta)

lemma preserves_transaction [preserves_intros]:
  "preserves P m \<Longrightarrow> preserves P (transactionM m)"
proof -
  assume m: "preserves P m"
  have "P (w_store (snd (transactionM m w)))" if "P (w_store w)" for w
  proof (cases "m (w\<lparr>w_tx := True\<rparr>)")
    case (Pair r w')
    with preservesD [OF m Pair] m that show ?thesis
      by (cases r) (auto simp: transactionM_def preserves_def)
  qed
  then show ?thesis
    by (simp add: preserves_def)
qed

lemma preserves_external [preserves_intros]:
  "preserves P m \<Longrightarrow> preserves P (externalM m)"
  unfolding preserves_def externalM_def by (fastforce split: prod.split)

lemma preserves_lookup [preserves_intros, simp]:
  "preserves P (host_of i)" "preserves P (scan_of j)" "preserves P (stored_job i)"
  "preserves P (remediation_of j)" "preserves P (campaign_of i)" "preserves P (raise_gate_denial d)"
  unfolding host_of_def scan_of_def stored_job_def remediation_of_def campaign_of_def
    raise_gate_denial_def
  by (intro preserves_intros)+

text \<open>Two computations that differ only after a step compare, and fail, under what it keeps.\<close>

lemma bindM_keepI:
  assumes "preserves P m" "P (w_store w)" "\<And>x w'. P (w_store w') \<Longrightarrow> f x w' = g x w'"
  shows "bindM m f w = bindM m g w"
  by (rule bindM_congI [OF refl]) (use assms preservesD in blast)

lemma bindM_fails:
  assumes "preserves P m" "P (w_store w)" "\<And>x w'. P (w_store w') \<Longrightarrow> \<exists>e. fst (f x w') = Inl e"
  shows "\<exists>e. fst (bindM m f w) = Inl e"
  using assms preservesD [OF assms(1)] by (fastforce simp: bindM_def split: prod.split sum.split)

lemma bindM_fails_first: "\<exists>e. fst (m w) = Inl e \<Longrightarrow> \<exists>e. fst (bindM m f w) = Inl e"
  by (auto simp: bindM_def split: prod.split)

text \<open>A property no bookkeeping table can break is kept by everything that only does bookkeeping.\<close>

locale kept_by_bookkeeping =
  fixes P :: "store \<Rightarrow> bool"
  assumes kept_remediation: "P s \<Longrightarrow> P (save_remediation r s)"
    and kept_audit: "P s \<Longrightarrow> P (save_audit a s)"
    and kept_campaign: "P s \<Longrightarrow> P (save_campaign c s)"
    and kept_jobs: "P s \<Longrightarrow> P (s\<lparr>t_jobs := js\<rparr>)"
begin

lemmas kept = kept_remediation kept_audit kept_campaign kept_jobs

lemma audit_kept: "preserves P (audit E actor action tt ti ds)"
  unfolding audit_def by (intro preserves_intros kept)

lemma ensure_kept: "preserves P (ensure_current_remediation_plan E r)"
  unfolding ensure_current_remediation_plan_def Let_def by (intro preserves_intros kept audit_kept)

lemma decision_kept: "preserves P (trusted_execution_decision E r h job)"
  unfolding trusted_execution_decision_def by (intro preserves_intros ensure_kept)

lemma sync_campaign_kept: "preserves P (sync_campaign E c)"
  unfolding sync_campaign_def rebuild_hosts_def collect_current_def Let_def
  by (intro preserves_intros kept ensure_kept)

lemma stop_remaining_kept: "preserves P (stop_remaining_campaign_hosts E c i)"
  unfolding stop_remaining_campaign_hosts_def mapM_def stop_host_def cancel_stored_job_def
    cancel_unstarted_def Let_def
  by (intro preserves_intros kept)

lemma sync_campaigns_kept: "preserves P (sync_campaigns_for_remediation E i b)"
  unfolding sync_campaigns_for_remediation_def
  by (intro preserves_intros sync_campaign_kept stop_remaining_kept)

lemma save_job_kept: "preserves P (save_job j lo)"
  unfolding save_job_def by (intro preserves_intros kept)

lemma save_claimed_kept: "preserves P (save_claimed_job ow)"
  unfolding save_claimed_job_def by (intro preserves_intros save_job_kept)

lemma guard_kept: "preserves P (guard_execution E)"
  unfolding guard_execution_def by (intro preserves_intros kept decision_kept)

end

text \<open>Jobs that fail and recover also write alerts, scans and snapshots.\<close>

locale kept_by_records = kept_by_bookkeeping +
  assumes kept_alert: "P s \<Longrightarrow> P (save_alert a s)"
    and kept_scan: "P s \<Longrightarrow> P (save_scan x s)"
    and kept_rollback: "P s \<Longrightarrow> P (save_rollback_snapshot y s)"
begin

lemma alert_kept: "preserves P (create_alert E sev title msg hid jid)"
  unfolding create_alert_def by (intro preserves_intros kept_alert)

lemma terminal_kept: "preserves P (record_terminal_job_failure E j hid)"
  unfolding record_terminal_job_failure_def by (intro preserves_intros alert_kept audit_kept)

lemma fail_job_kept: "preserves P (fail_job E j err hid lo retryable category)"
  unfolding fail_job_def settle_failed_job_def
  by (intro preserves_intros save_job_kept audit_kept terminal_kept)

lemma recover_by_type_kept: "preserves P (recover_by_type E t j)"
  unfolding recover_by_type_def Let_def
  by (intro preserves_intros kept kept_scan kept_rollback fail_job_kept sync_campaigns_kept)

lemma recover_one_kept: "preserves P (recover_one E t js j)"
  unfolding recover_one_def by (intro preserves_intros recover_by_type_kept audit_kept)

lemma exhaust_one_kept: "preserves P (exhaust_one E t j)"
  unfolding exhaust_one_def
  by (intro preserves_intros kept kept_scan kept_rollback terminal_kept)

lemma release_one_kept: "preserves P (release_remediation_job E t js j)"
  unfolding release_remediation_job_def Let_def
  by (intro preserves_intros kept save_job_kept decision_kept fail_job_kept sync_campaigns_kept)

end

text \<open>Plans are stored for good.\<close>

interpretation plan_stored: kept_by_records "\<lambda>s. get_remediation s i \<noteq> None" for i
  by unfold_locales
    (auto simp: get_remediation_def save_remediation_def save_audit_def save_campaign_def
      save_alert_def save_scan_def save_rollback_snapshot_def)

text \<open>A loop keeps what each iteration keeps.\<close>

lemma foldM_invariant:
  assumes "foldM f b xs w = (Inr b', w')" "I b w"
    and "\<And>b x w b' w'. x \<in> set xs \<Longrightarrow> I b w \<Longrightarrow> f b x w = (Inr b', w') \<Longrightarrow> I b' w'"
  shows "I b' w'"
  using assms
proof (induction xs arbitrary: b w)
  case Nil
  then show ?case by (simp add: comp_simps)
next
  case (Cons x xs)
  from Cons.prems(1) obtain b1 w1 where "f b x w = (Inr b1, w1)" "foldM f b1 xs w1 = (Inr b', w')"
    by (auto simp: bindM_eq_Inr)
  with Cons show ?case
    by (meson list.set_intros)
qed

text \<open>The evidence tables, in particular.\<close>

interpretation evidence: kept_by_bookkeeping "\<lambda>s. t_scans s = a \<and> t_snapshots s = b" for a b
  by unfold_locales
    (simp_all add: save_remediation_def save_audit_def save_campaign_def)

subsection \<open>Preparing a job\<close>

lemma transactionM_Inr:
  assumes "transactionM m w = (Inr x, w')"
  obtains w0 w1 where "w_store w0 = w_store w" "w_tick w0 = w_tick w" "m w0 = (Inr x, w1)"
    "w_store w' = w_store w1"
proof (cases "w_tx w")
  case True
  with assms that [of w w'] show ?thesis by (simp add: transactionM_def)
next
  case False
  with assms that [of "w\<lparr>w_tx := True\<rparr>"] show ?thesis
    by (auto simp: transactionM_def split: prod.splits sum.splits)
qed

lemma new_id_Inr: "new_id E pre w = (Inr i, w') \<Longrightarrow> w_store w' = w_store w"
  by (auto simp: new_id_def)

lemma utc_now_Inr: "utc_now E w = (Inr t, w') \<Longrightarrow> w_store w' = w_store w"
  by (auto simp: utc_now_def)

lemma redact_Inr: "redact E v h w = (Inr t, w') \<Longrightarrow> w_store w' = w_store w"
  by (auto simp: redact_def comp_simps)

lemma audit_Inr:
  assumes "audit E actor action tt ti ds w = (Inr u, w')"
  shows "\<exists>a. w_store w' = save_audit a (w_store w)"
  using assms by (auto simp: audit_def bindM_def new_id_def comp_simps)

lemma save_job_Inr:
  assumes "save_job j lo w = (Inr out, w')"
  shows "out = save_outcome (mem_get (t_jobs (w_store w)) (j_id j)) j lo \<and>
    w_store w' = (case out of None \<Rightarrow> w_store w
       | Some j' \<Rightarrow> (w_store w)\<lparr>t_jobs := dict_set (j_id j) j' (t_jobs (w_store w))\<rparr>)"
  using assms by (auto simp: save_job_def bindM_def jobsM_def mem_save_def mem_get_def
      comp_simps Let_def split: if_splits option.splits)

lemma save_outcome_stopped:
  "save_outcome cur j lo = Some j' \<Longrightarrow> j_status j \<noteq> ''running'' \<Longrightarrow> j' = j"
  by (auto simp: save_outcome_def merge_lease_def split: option.splits if_splits)

lemma create_alert_Inr:
  assumes "create_alert E sev title msg hid jid w = (Inr u, w')"
  shows "\<exists>a. al_severity a = sev \<and> al_job_id a = jid \<and> al_host_id a = hid \<and> \<not> al_acknowledged a \<and>
    al_title a = title \<and> w_store w' = save_alert a (w_store w)"
  using assms
  by (intro exI [of _ "\<lparr>al_id = ''alert'' @ ''-'' @ e_uuid E (w_uuid w), al_severity = sev,
        al_title = title, al_message = take 2000 (e_redact E msg
          (if truthy hid then get_host (w_store w) (or_empty hid) else None)),
        al_host_id = hid, al_job_id = jid, al_acknowledged = False, al_acknowledged_at = None,
        al_created_at = e_clock E (w_tick w)\<rparr>"])
    (auto simp: create_alert_def bindM_def new_id_def redact_def comp_simps)

lemma alert_listed: "a \<in> set (list_alerts (save_alert a s))"
  using map_of_SomeD [of "dict_set (al_id a) a (t_alerts s)" "al_id a" a]
  by (force simp: list_alerts_def save_alert_def)

lemma save_new_job_Inr:
  assumes "save_job j None w = (Inr u, w')"
  shows "w_store w' = (w_store w)\<lparr>t_jobs := dict_set (j_id j) j (t_jobs (w_store w))\<rparr>"
  using assms by (auto simp: save_job_def bindM_def jobsM_def mem_save_def save_outcome_def
      comp_simps Let_def split: if_splits)

definition queued_store :: "store \<Rightarrow> remediation \<Rightarrow> durable_job \<Rightarrow> audit_event \<Rightarrow> store" where
  "queued_store s r j a =
     save_audit a ((save_remediation r s)\<lparr>t_jobs := dict_set (j_id j) j (t_jobs s)\<rparr>)"

lemma queue_plan_Inr:
  assumes "queue_plan E h r actor cid w = (Inr (j, k, fresh), w')"
  shows "k = r_id r"
    "\<not> fresh \<Longrightarrow> mem_get_by_idempotency (t_jobs (w_store w)) (remediation_key r) = Some j \<and>
       j_campaign_id j = cid \<and> w_store w' = w_store w"
    "fresh \<Longrightarrow> mem_get_by_idempotency (t_jobs (w_store w)) (remediation_key r) = None \<and>
       (\<exists>n now td a. j = remediation_job n (td_job_status td) h r cid now \<and>
          timing (e_tz E) r now = Inr td \<and>
          w_store w' = queued_store (w_store w)
            (r\<lparr>r_execution_state := td_remediation_state td\<rparr>) j a)"
proof (goal_cases)
  case 1
  show ?case using assms
    by (auto simp: queue_plan_def bindM_eq_Inr comp_simps Let_def split: option.splits)
next
  case 2
  with assms show ?case
    by (auto simp: queue_plan_def bindM_eq_Inr comp_simps Let_def raise_gate_denial_def
        duplicate_execution_def gate_simps split: option.splits if_splits)
next
  case 3
  with assms show ?case
    by (auto simp: queue_plan_def bindM_eq_Inr comp_simps Let_def save_remediation_def
        queued_store_def split: option.splits dest!: audit_Inr save_new_job_Inr new_id_Inr) blast
qed

text \<open>What a successful run of the transaction says about the store it started from.\<close>

lemma prepare_in_transaction_Inr:
  assumes "prepare_in_transaction E i actor cid w = (Inr out, w')"
  obtains r h w1 where "get_remediation (w_store w) i = Some r"
    "get_host (w_store w) (r_host_id r) = Some h"
    "\<not> host_has_active_rollback_failure (w_store w) (h_id h)"
    "gd_allowed (execution_eligibility (e_H E) r h None False)"
    "w_store w1 = w_store w" "queue_plan E h r actor cid w1 = (Inr out, w')"
proof -
  obtain r h d r1 w1 where r: "get_remediation (w_store w) i = Some r"
    and h: "get_host (w_store w) (r_host_id r) = Some h"
    and d: "trusted_execution_decision E r h None w = (Inr (d, r1), w1)" "gd_allowed d"
    and q: "queue_plan E h r1 actor cid w1 = (Inr out, w')"
    using assms
    by (auto simp: prepare_in_transaction_def bindM_eq_Inr remediation_of_def host_of_def comp_simps
        raise_gate_denial_def split: option.splits if_splits)
  note t = trusted_decision_allowed [OF d]
  from t d(2) have f: "\<not> host_has_active_rollback_failure (w_store w) (h_id h)"
    by (cases "host_has_active_rollback_failure (w_store w) (h_id h)") auto
  show thesis
    by (rule that [OF r h f, of w1]) (use t d(2) f q in auto)
qed

end
