(* ===== verification/ServiceScans.thy ===== *)
theory ServiceScans
  imports ServiceJobs
begin

text \<open>
  Scans in \<open>service.py\<close>: processing a claimed scan job (evidence collection and the analysis
  workflow are the environment's), the events recorded for the agents, and the handler of the
  worker's exceptions.
\<close>

subsection \<open>Events of the agents\<close>

text \<open>A \<open>StructuredLogEvent\<close> with the class's defaults.\<close>

definition new_event ::
  "string \<Rightarrow> datetime \<Rightarrow> host \<Rightarrow> string \<Rightarrow> string \<Rightarrow> string \<Rightarrow> string \<Rightarrow> string \<Rightarrow> string \<Rightarrow> string \<Rightarrow>
   (string, string) dict \<Rightarrow> structured_log_event" where
  "new_event i time h job_id scan_id event_type category status out src ids =
     \<lparr>l_id = i, l_schema_version = ''1.0'', l_timestamp = time, l_duration_ms = 0,
      l_host_id = Some (h_id h), l_job_id = Some job_id, l_scan_id = Some scan_id,
      l_remediation_id = None, l_agent_run_id = None, l_playbook_id = None, l_phase_id = None,
      l_task_id = None, l_event_type = event_type, l_evidence_category = category,
      l_severity = SevInfo, l_status = status, l_changed = False, l_return_code = None,
      l_retry_count = 0, l_failure_classification = None, l_command_description = None,
      l_before_value = JNull, l_after_value = JNull, l_stdout = out, l_stderr = '''',
      l_raw_output = '''', l_source = src, l_truncated = False, l_original_bytes = 0,
      l_redacted = False, l_simulated = False, l_externally_processed = False,
      l_reboot_relevance = ''none'', l_remediation_relevance = ''analysis'',
      l_correlation_ids = ids\<rparr>"

definition run_event ::
  "env \<Rightarrow> host \<Rightarrow> string \<Rightarrow> string \<Rightarrow> agent_run \<Rightarrow> structured_log_event comp" where
  "run_event E h job_id scan_id run =
     bindM (new_id E ''log'') (\<lambda>i.
     returnM (e_sanitize_log E
       ((new_event i (ar_created_at run) h job_id scan_id ''agent_run'' ''ai_analysis''
           (ar_status run) (take 65536 (e_repr E (JObj (ar_output run))))
           (''agent:'' @ agent_name_text (ai_name (ar_agent run)))
           [(''scan_id'', scan_id), (''agent_run_id'', ar_id run)])
          \<lparr>l_duration_ms := ar_latency_ms run, l_agent_run_id := Some (ar_id run),
           l_externally_processed := ar_externally_processed run\<rparr>) h))"

definition message_event ::
  "env \<Rightarrow> host \<Rightarrow> string \<Rightarrow> string \<Rightarrow> agent_message \<Rightarrow> structured_log_event comp" where
  "message_event E h job_id scan_id msg =
     bindM (new_id E ''log'') (\<lambda>i.
     returnM (e_sanitize_log E
       (new_event i (am_created_at msg) h job_id scan_id ''agent_message'' ''agent_conversation''
          (am_response msg) (am_reasoning msg)
          (agent_name_text (am_from_agent msg) @ ''->'' @ agent_name_text (am_to_agent msg))
          [(''scan_id'', scan_id), (''message_id'', am_id msg)]) h))"

definition agent_events ::
  "env \<Rightarrow> host \<Rightarrow> string \<Rightarrow> string \<Rightarrow> agent_run list \<Rightarrow> agent_message list \<Rightarrow>
   structured_log_event list comp" where
  "agent_events E h job_id scan_id runs messages =
     bindM (mapM (run_event E h job_id scan_id) runs) (\<lambda>xs.
     bindM (mapM (message_event E h job_id scan_id) messages) (\<lambda>ys. returnM (xs @ ys)))"

subsection \<open>Processing a scan\<close>

definition alert_on_findings :: "env \<Rightarrow> scan_job \<Rightarrow> host \<Rightarrow> string \<Rightarrow> finding list \<Rightarrow> unit comp" where
  "alert_on_findings E scan h job_id findings =
     (if s_trigger scan = ''scheduled'' then
        foldM (\<lambda>_ f.
          if f_severity f \<in> {SevHigh, SevCritical} then
            create_alert E (f_severity f)
              (''Scheduled scan found '' @ severity_text (f_severity f) @ '' risk'')
              (f_summary f) (Some (h_id h)) (Some job_id)
          else returnM ()) () findings
      else returnM ())"

text \<open>Storing what the workflow returned; the ids of the proposed plans.\<close>

definition store_workflow_result ::
  "env \<Rightarrow> host \<Rightarrow> string \<Rightarrow> string \<Rightarrow> finding list \<Rightarrow> workflow_result \<Rightarrow> string list comp" where
  "store_workflow_result E h job_id scan_id findings result =
     bindM (writeM (save_agent_runs (wr_runs result))) (\<lambda>_.
     bindM (writeM (save_agent_messages (wr_messages result))) (\<lambda>_.
     bindM (writeM (save_findings findings)) (\<lambda>_.
     bindM (agent_events E h job_id scan_id (wr_runs result) (wr_messages result)) (\<lambda>events.
     bindM (writeM (save_log_events events)) (\<lambda>_.
     case wr_remediation result of
       None \<Rightarrow> returnM []
     | Some r \<Rightarrow> bindM (writeM (save_remediation r)) (\<lambda>_. returnM [r_id r]))))))"

definition complete_scan_job ::
  "env \<Rightarrow> string \<Rightarrow> finding list \<Rightarrow> string list \<Rightarrow> string list \<Rightarrow> string \<Rightarrow> unit comp" where
  "complete_scan_job E scan_id findings remediation_ids rejected lease_owner =
     bindM (utc_now E) (\<lambda>completed.
     bindM (utc_now E) (\<lambda>updated.
     bindM (mutate_job (\<lambda>j. j\<lparr>j_status := ''completed'', j_current_phase := Some ''completed'',
         j_progress_percent := 100,
         j_result := [(''scan_id'', JStr scan_id), (''finding_count'', JInt (int (length findings))),
                      (''remediation_ids'', JList (map JStr remediation_ids)),
                      (''rejected_claims'', JList (map JStr rejected))],
         j_completed_at := Some completed, j_updated_at := updated, j_lease_owner := None,
         j_lease_expires_at := None\<rparr>)) (\<lambda>_.
     save_claimed_job lease_owner)))"

text \<open>The job and scan enter their running states.\<close>

definition start_scan :: "env \<Rightarrow> host \<Rightarrow> string \<Rightarrow> unit comp" where
  "start_scan E h lease_owner =
     bindM (utc_now E) (\<lambda>t0.
     bindM (mutate_job (\<lambda>j. j\<lparr>j_current_phase := Some ''collecting_evidence'',
              j_progress_percent := 10, j_updated_at := t0\<rparr>)) (\<lambda>_.
     bindM (utc_now E) (\<lambda>t1.
     bindM (mutate_scan (\<lambda>x. x\<lparr>s_status := ''running'', s_updated_at := t1\<rparr>)) (\<lambda>_.
     bindM (save_claimed_job lease_owner) (\<lambda>_.
     bindM scan_object (\<lambda>scan.
     bindM (writeM (save_scan scan)) (\<lambda>_.
     whenM (truthy (s_campaign_id scan))
       (mark_campaign_proposal_running E (or_empty (s_campaign_id scan)) (h_id h)))))))))"

definition process_claimed_scan :: "env \<Rightarrow> host \<Rightarrow> string \<Rightarrow> durable_job comp" where
  "process_claimed_scan E h lease_owner =
     bindM job_object (\<lambda>job0.
     bindM scan_object (\<lambda>scan0.
     let job_id = j_id job0; scan_id = s_id scan0 in
     bindM (start_scan E h lease_owner) (\<lambda>_.
     bindM (externalM (e_collect E h job_id scan_id)) (\<lambda>collected.
     bindM (assert_job_lease E job_id lease_owner) (\<lambda>_.
     bindM (writeM (save_snapshot (ce_snapshot collected))) (\<lambda>_.
     bindM (writeM (save_log_events (ce_events collected))) (\<lambda>_.
     bindM (mutate_scan (\<lambda>x. x\<lparr>s_snapshot_id := Some (sn_id (ce_snapshot collected))\<rparr>)) (\<lambda>_.
     bindM (enter_phase E ''multi_agent_analysis'' 35 lease_owner) (\<lambda>_.
     bindM (externalM (e_workflow E scan_id h (ce_snapshot collected))) (\<lambda>result.
     bindM (assert_job_lease E job_id lease_owner) (\<lambda>_.
     let findings = map (\<lambda>f. f\<lparr>f_scan_id := Some scan_id\<rparr>) (wr_findings result) in
     bindM (store_workflow_result E h job_id scan_id findings result) (\<lambda>remediation_ids.
     bindM (mutate_scan (\<lambda>x. x\<lparr>s_status := ''completed'', s_finding_ids := map f_id findings,
              s_remediation_ids := remediation_ids, s_agent_run_ids := map ar_id (wr_runs result),
              s_agent_reports := wr_reports result, s_error := None\<rparr>)) (\<lambda>_.
     bindM (utc_now E) (\<lambda>now.
     bindM (mutate_scan (\<lambda>x. x\<lparr>s_updated_at := now\<rparr>)) (\<lambda>_.
     bindM scan_object (\<lambda>scan.
     bindM (writeM (save_scan scan)) (\<lambda>_.
     bindM (complete_scan_job E scan_id findings remediation_ids (wr_rejected_claims result)
              lease_owner) (\<lambda>_.
     bindM (whenM (truthy (s_campaign_id scan))
              (attach_campaign_proposal E (or_empty (s_campaign_id scan)) h
                 (wr_remediation result))) (\<lambda>_.
     bindM (alert_on_findings E scan h job_id findings) (\<lambda>_.
     bindM (audit E (if s_trigger scan = ''scheduled'' then ''scheduler'' else ''operator'')
              ''scan.completed'' ''scan'' (Some scan_id) [(''job_id'', JStr job_id)]) (\<lambda>_.
     job_object)))))))))))))))))))))"

definition handle_scan_error :: "env \<Rightarrow> host \<Rightarrow> string \<Rightarrow> string \<Rightarrow> exn \<Rightarrow> durable_job comp" where
  "handle_scan_error E h job_id owner e =
     (if e = JobLeaseLost then stored_job job_id
      else
        bindM (redact E (exn_message e) (Some (h_id h))) (\<lambda>error_text.
        bindM job_object (\<lambda>job.
        bindM (fail_job E job error_text (h_id h) (Some owner) (exn_retryable e)
                 (exn_category e ''scan_execution'')) (\<lambda>failed.
        bindM (utc_now E) (\<lambda>now.
        bindM (mutate_scan (\<lambda>x. x\<lparr>s_status := (if j_status failed = ''queued'' then ''queued''
                                                else ''failed''),
                 s_error := Some (take 2000 error_text), s_updated_at := now\<rparr>)) (\<lambda>_.
        bindM scan_object (\<lambda>scan.
        bindM (writeM (save_scan scan)) (\<lambda>_.
        bindM (whenM (truthy (s_campaign_id scan) \<and> j_status failed = ''failed'')
                 (mark_campaign_proposal_failed E (or_empty (s_campaign_id scan)) (h_id h)
                    error_text)) (\<lambda>_. returnM failed)))))))))"

definition process_scan :: "env \<Rightarrow> string \<Rightarrow> string option \<Rightarrow> durable_job comp" where
  "process_scan E job_id worker_id =
     bindM (if truthy worker_id then returnM (or_empty worker_id) else new_id E ''worker'') (\<lambda>owner.
     bindM (claim_stored_job E job_id owner) (\<lambda>claimed.
     case claimed of
       None \<Rightarrow> stored_job job_id
     | Some job \<Rightarrow>
         bindM (scan_of (j_scan_id job)) (\<lambda>scan.
         bindM (host_of (s_host_id scan)) (\<lambda>h.
         bindM (set_job job) (\<lambda>_.
         bindM (set_scan scan) (\<lambda>_.
         tryM (process_claimed_scan E h owner)
              (handle_scan_error E h (j_id job) owner)))))))"

end
