(* ===== verification/PyText.thy ===== *)
theory PyText
  imports PyStr
begin

text \<open>
  More of Python's \<open>str\<close> for the components that read the output of programs:
  \<open>splitlines\<close>, \<open>partition\<close>, \<open>replace\<close>, \<open>find\<close>, \<open>rfind\<close>, and the parts of a path.
\<close>

definition is_line_end :: "char \<Rightarrow> bool" where
  "is_line_end c \<longleftrightarrow> code c \<in> {10, 11, 12, 13, 28, 29, 30, 133}"

text \<open>The first argument collects the current line; \<open>\\r\\n\<close> ends one line, not two.\<close>

function lines_from :: "string \<Rightarrow> string \<Rightarrow> string list" where
  "lines_from acc [] = (if acc = [] then [] else [acc])"
| "lines_from acc (c # s) =
     (if is_line_end c
      then acc # lines_from [] (if c = CHR 0x0D \<and> starts_with s [CHR 0x0A] then tl s else s)
      else lines_from (acc @ [c]) s)"
  by pat_completeness auto
termination
  by (relation "measure (\<lambda>(_, s). length s)") auto

definition splitlines :: "string \<Rightarrow> string list" where
  "splitlines s = lines_from [] s"

definition is_blank :: "string \<Rightarrow> bool" where
  "is_blank s \<longleftrightarrow> strip s = []"

lemma is_blank_iff: "is_blank s \<longleftrightarrow> (\<forall>c \<in> set s. is_space c)"
proof (cases "dropWhile is_space s")
  case (Cons c t)
  then have "\<not> is_space c"
    by (metis hd_dropWhile list.discI list.sel(1))
  moreover have "c \<in> set s"
    using Cons by (metis list.set_intros(1) set_dropWhileD)
  ultimately show ?thesis
    using Cons by (auto simp: is_blank_def strip_def)
qed (auto simp: is_blank_def strip_def dest: set_dropWhileD)

text \<open>\<open>bytes.strip()\<close> removes ASCII white space only; here: whether anything is left.\<close>

definition blank_bytes :: "string \<Rightarrow> bool" where
  "blank_bytes b \<longleftrightarrow> (\<forall>c \<in> set b. code c \<in> {9, 10, 11, 12, 13, 32})"

text \<open>\<open>text.partition(c)\<close>.\<close>

definition partition_at :: "char \<Rightarrow> string \<Rightarrow> string \<times> string \<times> string" where
  "partition_at c s =
     (case dropWhile (\<lambda>x. x \<noteq> c) s of
        [] \<Rightarrow> (s, [], [])
      | _ # rest \<Rightarrow> (takeWhile (\<lambda>x. x \<noteq> c) s, [c], rest))"

text \<open>\<open>text.replace(old, new)\<close> for a non-empty \<open>old\<close>.\<close>

function replace_all :: "string \<Rightarrow> string \<Rightarrow> string \<Rightarrow> string" where
  "replace_all old new s =
     (if s = [] then []
      else if old \<noteq> [] \<and> starts_with s old then new @ replace_all old new (drop (length old) s)
      else hd s # replace_all old new (tl s))"
  by pat_completeness auto
termination
  by (relation "measure (\<lambda>(_, _, s). length s)") auto

declare replace_all.simps [simp del]

text \<open>\<open>find\<close> and \<open>rfind\<close> of one character; \<open>-1\<close> when it does not occur.\<close>

definition find_char :: "char \<Rightarrow> string \<Rightarrow> int" where
  "find_char c s = (if c \<in> set s then int (length (takeWhile (\<lambda>x. x \<noteq> c) s)) else - 1)"

definition rfind_char :: "char \<Rightarrow> string \<Rightarrow> int" where
  "rfind_char c s =
     (if c \<in> set s then int (length s) - 1 - int (length (takeWhile (\<lambda>x. x \<noteq> c) (rev s))) else - 1)"

text \<open>\<open>Path(text).name\<close> and \<open>Path(text).stem\<close>.\<close>

definition path_name :: "string \<Rightarrow> string" where
  "path_name s = rev (takeWhile (\<lambda>x. x \<noteq> CHR 0x2F) (rev s))"

definition path_stem :: "string \<Rightarrow> string" where
  "path_stem s =
     (let n = path_name s; i = rfind_char (CHR ''.'') n
      in if 0 < i \<and> i < int (length n) - 1 then take (nat i) n else n)"

text \<open>\<open>text or None\<close>.\<close>

definition or_none :: "string \<Rightarrow> string option" where
  "or_none s = (if s = [] then None else Some s)"

lemma text_examples:
  "splitlines ''a'' = [''a'']"
  "splitlines (''a'' @ [CHR 0x0D, CHR 0x0A] @ ''b'' @ [CHR 0x0A]) = [''a'', ''b'']"
  "partition_at (CHR ''='') ''k=v=w'' = (''k'', ''='', ''v=w'')"
  "replace_all ''ab'' ''x'' ''abcab'' = ''xcx''"
  "rfind_char (CHR ''a'') ''banan'' = 3"
  "path_stem ''dir/pre-patch-check.yml'' = ''pre-patch-check''"
  by code_simp+

end
