(* ===== verification/Credentials.thy ===== *)
theory Credentials
  imports ServiceBase PyText
begin

text \<open>
  \<open>CredentialService\<close> (\<open>credentials.py\<close>): secrets are stored encrypted, with the id of
  their credential as associated data. The AEAD cipher (\<open>AESGCM\<close>) and the random nonces
  are parameters. What a context manager hands to its body is the decrypted content; writing
  it to a temporary file and wiping that file is not modelled.
\<close>

record cipher =
  k_encrypt :: "bytes \<Rightarrow> bytes \<Rightarrow> bytes \<Rightarrow> bytes"        \<comment> \<open>nonce, data, associated data\<close>
  k_decrypt :: "bytes \<Rightarrow> bytes \<Rightarrow> bytes \<Rightarrow> exn + bytes"  \<comment> \<open>raises on a wrong tag\<close>
  k_nonce :: "nat \<Rightarrow> bytes"

text \<open>What the library documents: decryption under the same nonce and data inverts encryption.\<close>

definition aead_correct :: "cipher \<Rightarrow> bool" where
  "aead_correct K \<longleftrightarrow> (\<forall>n m a. k_decrypt K n (k_encrypt K n m a) a = Inr m)"

definition credential_service_init :: "bytes \<Rightarrow> exn + unit" where
  "credential_service_init encryption_key =
     (if length encryption_key \<noteq> 32
      then Inl (ValueError ''Credential encryption key must be 32 bytes'') else Inr ())"

definition urandom :: "cipher \<Rightarrow> bytes comp" where
  "urandom K w = (Inr (k_nonce K (w_uuid w)), w\<lparr>w_uuid := w_uuid w + 1\<rparr>)"

fun credential_type_text :: "credential_type \<Rightarrow> string" where
  "credential_type_text SshPrivateKey = ''ssh_private_key''"
| "credential_type_text ProxmoxToken = ''proxmox_token''"
| "credential_type_text AwsAccessKey = ''aws_access_key''"
| "credential_type_text AwsRole = ''aws_role''"
| "credential_type_text VmwareSecret = ''vmware_secret''"
| "credential_type_text LibvirtSsh = ''libvirt_ssh''"

definition max_secret_bytes :: nat where
  "max_secret_bytes = 1024 * 1024"

definition validate_private_key :: "bytes \<Rightarrow> exn + unit" where
  "validate_private_key content =
     (if \<not> sublist ''PRIVATE KEY'' content
      then Inl (ValueError ''Uploaded file does not look like a private SSH key'')
      else if length content > max_secret_bytes
      then Inl (ValueError ''SSH private key file is too large'')
      else Inr ())"

definition validate_secret :: "credential_type \<Rightarrow> bytes \<Rightarrow> details \<Rightarrow> exn + unit" where
  "validate_secret ct secret metadata =
     (if ct = SshPrivateKey then validate_private_key secret
      else if ct = AwsRole then
        (if \<not> found_truthy (dict_get metadata ''roleArn'') \<and> \<not> found_truthy (dict_get metadata ''role_arn'')
         then Inl (ValueError ''AWS role credentials require roleArn metadata'') else Inr ())
      else if blank_bytes secret
      then Inl (ValueError (credential_type_text ct @ '' credentials require a secret''))
      else Inr ())"

definition fingerprint_source :: "credential_type \<Rightarrow> bytes \<Rightarrow> details \<Rightarrow> bytes" where
  "fingerprint_source ct secret metadata =
     (if ct \<noteq> SshPrivateKey \<or> metadata \<noteq> [] then secret @ dumps (JObj metadata) else secret)"

definition save_secret ::
  "env \<Rightarrow> cipher \<Rightarrow> string \<Rightarrow> credential_type \<Rightarrow> bytes \<Rightarrow> details \<Rightarrow> ssh_credential comp" where
  "save_secret E K name ct secret metadata =
     bindM (liftE (validate_secret ct secret metadata)) (\<lambda>_.
     if length secret > max_secret_bytes then raiseM (ValueError ''Credential secret is too large'')
     else
       bindM (new_id E ''credential'') (\<lambda>credential_id.
       bindM (urandom K) (\<lambda>nonce.
       let encrypted = k_encrypt K nonce secret credential_id in
       bindM (utc_now E) (\<lambda>now.
       let credential = \<lparr>cr_id = credential_id, cr_name = name, cr_credential_type = ct,
             cr_fingerprint = take 24 (e_H E (fingerprint_source ct secret metadata)),
             cr_metadata = metadata, cr_created_at = now, cr_last_used_at = None\<rparr> in
       bindM (writeM (save_credential credential encrypted nonce)) (\<lambda>_. returnM credential)))))"

definition save_private_key :: "env \<Rightarrow> cipher \<Rightarrow> string \<Rightarrow> bytes \<Rightarrow> ssh_credential comp" where
  "save_private_key E K name content = save_secret E K name SshPrivateKey content []"

definition attached_hosts :: "store \<Rightarrow> string \<Rightarrow> host list" where
  "attached_hosts s credential_id =
     filter (\<lambda>h. h_credential_id h = Some credential_id \<or>
                 h_snapshot_credential_id h = Some credential_id) (list_hosts s)"

definition remove_credential :: "string \<Rightarrow> unit comp" where
  "remove_credential credential_id =
     bindM (readM (\<lambda>s. attached_hosts s credential_id)) (\<lambda>attached.
     if attached \<noteq> [] then
       raiseM (ValueError (''Credential is still assigned to host(s): '' @
         join_str '', '' (sort (map h_name attached)) @
         ''. Remove it from those hosts before deleting the credential.''))
     else writeM (delete_credential credential_id))"

definition decrypt_secret ::
  "cipher \<Rightarrow> string \<Rightarrow> credential_type option \<Rightarrow> bytes comp" where
  "decrypt_secret K credential_id expected_type =
     bindM (readM (\<lambda>s. get_credential_record s credential_id)) (\<lambda>found.
     case found of
       None \<Rightarrow> raiseM (ValueError ''Credential not found'')
     | Some (credential, encrypted, nonce) \<Rightarrow>
         (case expected_type of
            Some t \<Rightarrow>
              if cr_credential_type credential \<noteq> t
              then raiseM (ValueError (''Credential '' @ credential_id @ '' is not a '' @
                             credential_type_text t @ '' credential''))
              else liftE (k_decrypt K nonce encrypted credential_id)
          | None \<Rightarrow> liftE (k_decrypt K nonce encrypted credential_id)))"

definition decrypt_private_key :: "cipher \<Rightarrow> string \<Rightarrow> bytes comp" where
  "decrypt_private_key K credential_id = decrypt_secret K credential_id (Some SshPrivateKey)"

definition temporary_key :: "cipher \<Rightarrow> string option \<Rightarrow> bytes comp" where
  "temporary_key K credential_id =
     (if \<not> truthy credential_id then raiseM (ValueError ''Host has no SSH credential'')
      else decrypt_private_key K (or_empty credential_id))"

definition temporary_secret :: "cipher \<Rightarrow> string option \<Rightarrow> bytes comp" where
  "temporary_secret K credential_id =
     (if \<not> truthy credential_id then raiseM (ValueError ''Snapshot credential is not configured'')
      else decrypt_secret K (or_empty credential_id) None)"

subsection \<open>What the service stores\<close>

text \<open>What a successful save leaves behind: one encrypted row under a new id.\<close>

lemma save_secret_Inr:
  assumes "save_secret E K name ct secret metadata w = (Inr c, w')"
  shows "\<exists>n. w_store w' = save_credential c (k_encrypt K n secret (cr_id c)) n (w_store w)"
    and "cr_credential_type c = ct" "cr_name c = name" "cr_metadata c = metadata"
    and "validate_secret ct secret metadata = Inr ()" "length secret \<le> max_secret_bytes"
  using assms
  by (auto simp: save_secret_def bindM_eq_Inr comp_simps Let_def urandom_def new_id_def utc_now_def
      split: if_splits)

lemma get_saved_credential [store_simps]:
  "get_credential_record (save_credential c k n s) i =
     (if i = cr_id c then Some (c, k, n) else get_credential_record s i)"
  "get_credential_record (delete_credential j s) i =
     (if i = j then None else get_credential_record s i)"
  by (simp_all add: get_credential_record_def save_credential_def delete_credential_def)

lemma decrypt_saved:
  assumes "aead_correct K" "get_credential_record (w_store w) i = Some (c, k_encrypt K n m i, n)"
  shows "decrypt_secret K i t w =
     (if t \<in> {None, Some (cr_credential_type c)} then (Inr m, w)
      else (Inl (ValueError (''Credential '' @ i @ '' is not a '' @ credential_type_text (the t) @
                   '' credential'')), w))"
  using assms
  by (auto simp: decrypt_secret_def bindM_def comp_simps aead_correct_def split: option.split)

end
