(* ===== verification/ServiceHosts.thy ===== *)
theory ServiceHosts
  imports ServicePlans Credentials
begin

text \<open>
  Hosts, schedules and alerts in \<open>service.py\<close>: what a host must provide before rollback
  protection is accepted, the schedules and the scan jobs that are due, alerts and the
  retention of logs. The cron library and the connection test are the environment's.
\<close>

subsection \<open>Hosts\<close>

text \<open>\<open>SNAPSHOT_CREDENTIAL_TYPES\<close>, each set listed in the order of its texts.\<close>

fun snapshot_credential_types :: "snapshot_platform \<Rightarrow> credential_type list" where
  "snapshot_credential_types PlatformNone = []"
| "snapshot_credential_types Proxmox = [ProxmoxToken]"
| "snapshot_credential_types Aws = [AwsAccessKey, AwsRole]"
| "snapshot_credential_types Vmware = [VmwareSecret]"
| "snapshot_credential_types Libvirt = [LibvirtSsh]"

text \<open>\<open>_validate_host_input\<close>: the error, if any.\<close>

definition host_input_error :: "store \<Rightarrow> 'a host_input_scheme \<Rightarrow> exn option" where
  "host_input_error s h =
     (let platform = h_snapshot_platform h in
      if platform = PlatformNone then None
      else if \<not> truthy (h_snapshot_credential_id h) then
        Some (ValueError ''Snapshot credential is required when rollback protection is configured'')
      else if \<not> truthy (h_snapshot_target_id h) \<and> h_snapshot_provider_metadata h = [] then
        Some (ValueError ''Snapshot target ID or provider metadata is required when rollback protection is configured'')
      else
        (case get_credential_record s (or_empty (h_snapshot_credential_id h)) of
           None \<Rightarrow> Some (ValueError ''Snapshot credential not found'')
         | Some (credential, _, _) \<Rightarrow>
             let allowed = snapshot_credential_types platform;
                 kind = cr_credential_type credential in
             if kind \<notin> set allowed then
               Some (ValueError (''Snapshot credential type must match '' @ snapshot_platform_text platform @
                 ''. Allowed type(s): '' @ join_str '', '' (map credential_type_text allowed)))
             else if platform = Aws \<and> kind = AwsRole \<and>
                     \<not> (found_truthy (dict_get (cr_metadata credential) ''roleArn'') \<or>
                        found_truthy (dict_get (cr_metadata credential) ''role_arn'')) then
               Some (ValueError ''AWS role credentials require roleArn metadata'')
             else None))"

definition validate_host_input :: "'a host_input_scheme \<Rightarrow> unit comp" where
  "validate_host_input h = bindM (readM (\<lambda>s. host_input_error s h))
     (\<lambda>e. case e of Some e \<Rightarrow> raiseM e | None \<Rightarrow> returnM ())"

subsection \<open>Schedules\<close>

definition next_cron_run :: "env \<Rightarrow> string \<Rightarrow> string \<Rightarrow> datetime \<Rightarrow> exn + datetime" where
  "next_cron_run E expression timezone_name after =
     (if length (split_ws expression) \<noteq> 5
        then Inl (ValueError ''Cron expression must have exactly five fields'')
      else if \<not> tz_known (e_tz E) timezone_name then Inl (ZoneInfoNotFoundError timezone_name)
      else e_croniter E expression timezone_name after)"

definition default_schedule :: host_schedule_input where
  "default_schedule = \<lparr>hs_enabled = False, hs_timezone = ''UTC'',
     hs_cron_expression = ''0 3 * * *'', hs_overlap_policy = ''skip_if_running''\<rparr>"

definition save_schedule ::
  "env \<Rightarrow> string \<Rightarrow> host_schedule_input \<Rightarrow> string \<Rightarrow> host_schedule comp" where
  "save_schedule E host_id input actor =
     bindM (host_of host_id) (\<lambda>_.
     bindM (utc_now E) (\<lambda>now.
     bindM (readM (\<lambda>s. get_schedule_row s host_id)) (\<lambda>existing.
     bindM (if hs_enabled input
            then bindM (liftE (next_cron_run E (hs_cron_expression input) (hs_timezone input) now))
                   (\<lambda>t. returnM (Some t))
            else returnM None) (\<lambda>next_run.
     bindM (case existing of Some x \<Rightarrow> returnM (hs_id x) | None \<Rightarrow> new_id E ''schedule'') (\<lambda>i.
     let schedule = host_schedule_input.extend input (host_schedule.fields i host_id
           (case existing of Some x \<Rightarrow> hs_previous_run_at x | None \<Rightarrow> None) next_run
           (case existing of Some x \<Rightarrow> hs_created_at x | None \<Rightarrow> now) now) in
     bindM (writeM (save_schedule_row schedule)) (\<lambda>_.
     bindM (audit E actor ''schedule.updated'' ''host'' (Some host_id)
              [(''enabled'', JBool (hs_enabled schedule)),
               (''cron'', JStr (hs_cron_expression schedule))]) (\<lambda>_.
     returnM schedule)))))))"

definition get_schedule :: "string \<Rightarrow> host_schedule comp" where
  "get_schedule host_id = bindM (readM (\<lambda>s. get_schedule_row s host_id))
     (\<lambda>x. case x of None \<Rightarrow> raiseM (ValueError ''Host schedule not found'') | Some x \<Rightarrow> returnM x)"

definition create_host :: "env \<Rightarrow> host_input \<Rightarrow> string \<Rightarrow> host comp" where
  "create_host E input actor =
     bindM (validate_host_input input) (\<lambda>_.
     bindM (utc_now E) (\<lambda>now.
     bindM (new_id E ''host'') (\<lambda>i.
     let h = host_input.extend input (host.fields i ''untested'' now now) in
     bindM (writeM (save_host h)) (\<lambda>_.
     bindM (save_schedule E i default_schedule actor) (\<lambda>_.
     bindM (audit E actor ''host.created'' ''host'' (Some i) []) (\<lambda>_. returnM h))))))"

definition update_host :: "env \<Rightarrow> string \<Rightarrow> host_input \<Rightarrow> string \<Rightarrow> host comp" where
  "update_host E host_id input actor =
     bindM (host_of host_id) (\<lambda>current.
     bindM (validate_host_input input) (\<lambda>_.
     bindM (utc_now E) (\<lambda>now.
     let h = host_input.extend input
               (host.fields (h_id current) (h_connection_status current) (h_created_at current) now) in
     bindM (writeM (save_host h)) (\<lambda>_.
     bindM (audit E actor ''host.updated'' ''host'' (Some host_id) []) (\<lambda>_. returnM h)))))"

definition remove_host :: "env \<Rightarrow> string \<Rightarrow> string \<Rightarrow> unit comp" where
  "remove_host E host_id actor =
     bindM (host_of host_id) (\<lambda>_.
     bindM (writeM (delete_schedule host_id)) (\<lambda>_.
     bindM (writeM (delete_host host_id)) (\<lambda>_.
     audit E actor ''host.deleted'' ''host'' (Some host_id) [])))"

definition test_connection ::
  "env \<Rightarrow> string \<Rightarrow> string option \<Rightarrow> string \<Rightarrow> connection_test_result comp" where
  "test_connection E host_id confirm_fingerprint actor =
     bindM (host_of host_id) (\<lambda>h.
     bindM (externalM (e_test_connection E h)) (\<lambda>result.
     bindM
       (if truthy (ct_host_key_fingerprint result) \<and> truthy confirm_fingerprint \<and>
           confirm_fingerprint = ct_host_key_fingerprint result
        then bindM (utc_now E) (\<lambda>now.
             bindM (writeM (save_host (h\<lparr>h_ssh_host_key_fingerprint := ct_host_key_fingerprint result,
               h_connection_status := (if ct_success result then ''ready'' else ''failed''),
               h_updated_at := now\<rparr>))) (\<lambda>_. returnM result))
        else if ct_success result \<and> \<not> truthy (h_ssh_host_key_fingerprint h)
        then returnM (result\<lparr>ct_success := False,
               ct_checks := dict_set ''host_key_confirmation'' ''required'' (ct_checks result)\<rparr>)
        else returnM result) (\<lambda>result'.
     bindM (audit E actor ''host.connection_tested'' ''host'' (Some host_id)
              [(''success'', JBool (ct_success result')),
               (''fingerprint_confirmed'', JBool (truthy confirm_fingerprint))]) (\<lambda>_.
     returnM result'))))"

subsection \<open>Scan jobs that are due\<close>

definition reschedule :: "env \<Rightarrow> datetime \<Rightarrow> host_schedule \<Rightarrow> unit comp" where
  "reschedule E current x =
     bindM (liftE (next_cron_run E (hs_cron_expression x) (hs_timezone x) current)) (\<lambda>next.
     writeM (save_schedule_row (x\<lparr>hs_previous_run_at := Some current, hs_next_run_at := Some next,
                                  hs_updated_at := current\<rparr>)))"

definition scheduled_key :: "host_schedule \<Rightarrow> datetime \<Rightarrow> string" where
  "scheduled_key x due = ''scheduled:'' @ hs_id x @ '':'' @ isoformat due"

text \<open>\<open>try: body finally: clean\<close>.\<close>

definition finallyM :: "'a comp \<Rightarrow> unit comp \<Rightarrow> 'a comp" where
  "finallyM m n = bindM (tryM m (\<lambda>e. bindM n (\<lambda>_. raiseM e))) (\<lambda>x. bindM n (\<lambda>_. returnM x))"

text \<open>One due schedule: the jobs so far, and the new one unless a scan is already active.\<close>

definition due_scan ::
  "env \<Rightarrow> datetime \<Rightarrow> durable_job list \<Rightarrow> host_schedule \<Rightarrow> durable_job list comp" where
  "due_scan E current jobs x =
     bindM (readM (\<lambda>s. mem_host_has_active_scan (t_jobs s) (hs_host_id x))) (\<lambda>active.
     if hs_overlap_policy x = ''skip_if_running'' \<and> active then
       bindM (reschedule E current x) (\<lambda>_.
       bindM (audit E ''scheduler'' ''schedule.skipped_overlap'' ''host'' (Some (hs_host_id x)) [])
         (\<lambda>_. returnM jobs))
     else
       bindM (finallyM
         (case hs_next_run_at x of
            None \<Rightarrow> raiseM (OtherError ''AttributeError'')
          | Some due \<Rightarrow> create_scan_job E \<lparr>sq_host_id = hs_host_id x, sq_trigger = ''scheduled'',
              sq_idempotency_key = Some (scheduled_key x due)\<rparr> ''scheduler'' None)
         (reschedule E current x)) (\<lambda>job. returnM (jobs @ [job])))"

definition create_due_scan_jobs :: "env \<Rightarrow> datetime option \<Rightarrow> durable_job list comp" where
  "create_due_scan_jobs E now =
     bindM (case now of Some t \<Rightarrow> returnM t | None \<Rightarrow> utc_now E) (\<lambda>current.
     bindM (readM (\<lambda>s. list_due_schedules s current)) (\<lambda>due.
     foldM (due_scan E current) [] due))"

subsection \<open>Alerts, findings and logs\<close>

definition acknowledge_alert :: "env \<Rightarrow> string \<Rightarrow> string \<Rightarrow> alert comp" where
  "acknowledge_alert E alert_id actor =
     bindM (readM (\<lambda>s. get_alert s alert_id)) (\<lambda>found.
     case found of
       None \<Rightarrow> raiseM (ValueError ''Alert not found'')
     | Some a \<Rightarrow>
         bindM (utc_now E) (\<lambda>now.
         let a' = a\<lparr>al_acknowledged := True, al_acknowledged_at := Some now\<rparr> in
         bindM (writeM (save_alert a')) (\<lambda>_.
         bindM (audit E actor ''alert.acknowledged'' ''alert'' (Some alert_id) []) (\<lambda>_.
         returnM a'))))"

text \<open>\<open>max(xs, key=f)\<close> of a nonempty list: the first of the largest.\<close>

fun first_max :: "('a \<Rightarrow> int) \<Rightarrow> 'a \<Rightarrow> 'a list \<Rightarrow> 'a" where
  "first_max f best [] = best"
| "first_max f best (x # xs) = first_max f (if f best < f x then x else best) xs"

definition current_findings :: "store \<Rightarrow> string option \<Rightarrow> finding list" where
  "current_findings s host_id =
     (if \<not> truthy host_id then list_findings s None
      else case filter (\<lambda>x. s_status x = ''completed'') (list_scans s host_id) of
        [] \<Rightarrow> []
      | x # xs \<Rightarrow>
          let latest = first_max (\<lambda>x. normalized_datetime (s_created_at x)) x xs
          in filter (\<lambda>f. f_id f \<in> set (s_finding_ids latest)) (list_findings s host_id))"

definition purge_expired_logs :: "env \<Rightarrow> nat comp" where
  "purge_expired_logs E =
     bindM (utc_now E) (\<lambda>now.
     bindM (\<lambda>w. let (n, s) = purge_logs_before (add_days now (- e_log_retention_days E)) (w_store w)
                in (Inr n, w\<lparr>w_store := s\<rparr>)) (\<lambda>count.
     bindM (audit E ''scheduler'' ''logs.retention_purge'' ''log_event'' None
              [(''deleted'', JInt (int count)),
               (''retention_days'', JInt (e_log_retention_days E))]) (\<lambda>_.
     returnM count)))"

end
