(* ===== verification/ServiceCampaigns.thy ===== *)
theory ServiceCampaigns
  imports ServicePlans
begin

text \<open>
  Campaigns in \<open>service.py\<close>: creation, proposals, review of one host, execution of a batch
  and cancellation.
\<close>

definition campaign_closed :: "patch_campaign \<Rightarrow> bool" where
  "campaign_closed c \<longleftrightarrow> c_status c \<in> {CCancelling, CCanceled, CSucceeded, CFailed}"

definition create_campaign :: "env \<Rightarrow> campaign_request \<Rightarrow> string \<Rightarrow> patch_campaign comp" where
  "create_campaign E request actor =
     (let host_ids = rev (remdups (rev (cq_host_ids request))) in
      if length host_ids \<noteq> length (cq_host_ids request)
        then raiseM (ValueError ''Campaign host selection contains duplicates'')
      else
        bindM (mapM host_of host_ids) (\<lambda>hosts.
        bindM (liftE (campaign_rollout_limit hosts [])) (\<lambda>batch.
        bindM (utc_now E) (\<lambda>now.
        bindM (new_id E ''campaign'') (\<lambda>campaign_id.
        bindM (mapM (\<lambda>h. bindM (new_id E ''campaign-host'') (\<lambda>i.
                 returnM (new_host_plan i campaign_id (h_id h) (h_name h) now))) hosts) (\<lambda>plans.
        let c = \<lparr>c_id = campaign_id, c_name = cq_name request, c_host_ids = host_ids,
                 c_remediation_ids = [], c_hosts = plans, c_status = CDraft, c_batch_size = batch,
                 c_current_batch = 0, c_total_batches = total_batches (length hosts) batch,
                 c_failure_summary = None, c_canceled_by = None, c_canceled_at = None,
                 c_created_at = now, c_updated_at = now\<rparr> in
        bindM (writeM (save_campaign c)) (\<lambda>_.
        bindM (audit E actor ''campaign.created'' ''campaign'' (Some campaign_id)
                 [(''host_ids'', JList (map JStr host_ids))]) (\<lambda>_. returnM c))))))))"

definition get_campaign_synced :: "env \<Rightarrow> string \<Rightarrow> patch_campaign comp" where
  "get_campaign_synced E campaign_id = bindM (campaign_of campaign_id) (sync_campaign E)"

text \<open>One iteration of \<open>queue_campaign_proposals\<close>: the host plan and the job, if one was queued.\<close>

definition queue_proposal ::
  "env \<Rightarrow> string \<Rightarrow> string \<Rightarrow> datetime \<Rightarrow> campaign_host_plan \<Rightarrow>
   (campaign_host_plan \<times> durable_job option) comp" where
  "queue_proposal E campaign_id actor now hp =
     (if truthy (hp_remediation_id hp) \<and> hp_state hp \<noteq> HPlanChanged then returnM (hp, None)
      else if hp_state hp \<in> {HProposalQueued, HProposalRunning} then returnM (hp, None)
      else
        bindM (new_id E ''request'') (\<lambda>rq.
        bindM (create_scan_job E
            \<lparr>sq_host_id = hp_host_id hp, sq_trigger = ''campaign'',
             sq_idempotency_key = Some (''campaign-scan:'' @ campaign_id @ '':'' @ hp_host_id hp
                                        @ '':'' @ rq)\<rparr> actor (Some campaign_id)) (\<lambda>job.
        returnM (hp\<lparr>hp_state := HProposalQueued, hp_scan_id := j_scan_id job,
                    hp_failure_summary := None, hp_job_id := Some (j_id job),
                    hp_updated_at := now\<rparr>, Some job))))"

definition queue_campaign_proposals ::
  "env \<Rightarrow> string \<Rightarrow> string \<Rightarrow> (patch_campaign \<times> durable_job list) comp" where
  "queue_campaign_proposals E campaign_id actor =
     bindM (get_campaign_synced E campaign_id) (\<lambda>c.
     if campaign_closed c
       then raiseM (ValueError ''Campaign cannot create proposals in its current state'')
     else
       bindM (utc_now E) (\<lambda>now.
       bindM (mapM (queue_proposal E (c_id c) actor now) (c_hosts c)) (\<lambda>outs.
       let jobs = concat (map (\<lambda>(_, j). case j of None \<Rightarrow> [] | Some j \<Rightarrow> [j]) outs) in
       if jobs = [] then raiseM (ValueError ''Campaign has no hosts awaiting proposals'')
       else
         let c' = c\<lparr>c_hosts := map fst outs, c_status := CProposing, c_updated_at := now\<rparr> in
         bindM (writeM (save_campaign c')) (\<lambda>_.
         bindM (audit E actor ''campaign.proposals_queued'' ''campaign'' (Some (c_id c))
                  [(''job_ids'', JList (map (\<lambda>j. JStr (j_id j)) jobs))]) (\<lambda>_.
         returnM (c', jobs))))))"

text \<open>The host plan of an open campaign that has a proposal: the common start of the reviews.\<close>

definition reviewable_host ::
  "env \<Rightarrow> string \<Rightarrow> string \<Rightarrow> string \<Rightarrow> (patch_campaign \<times> campaign_host_plan) comp" where
  "reviewable_host E campaign_id host_id verb =
     bindM (get_campaign_synced E campaign_id) (\<lambda>c.
     if campaign_closed c
       then raiseM (ValueError (''Campaign cannot '' @ verb @ '' hosts in its current state''))
     else
       bindM (campaign_host c host_id) (\<lambda>hp.
       if \<not> truthy (hp_remediation_id hp)
         then raiseM (ValueError ''Campaign host has no remediation proposal'')
       else returnM (c, hp)))"

text \<open>The common end: the campaign as it now is, and the audit entry.\<close>

definition reviewed_host ::
  "env \<Rightarrow> string \<Rightarrow> string \<Rightarrow> string \<Rightarrow> string \<Rightarrow> campaign_host_plan \<Rightarrow> patch_campaign comp" where
  "reviewed_host E campaign_id host_id actor action hp =
     bindM (get_campaign_synced E campaign_id) (\<lambda>c.
     bindM (audit E actor action ''campaign'' (Some (c_id c))
              [(''host_id'', JStr host_id),
               (''remediation_id'', JStr (or_empty (hp_remediation_id hp)))]) (\<lambda>_. returnM c))"

definition approve_campaign_host ::
  "env \<Rightarrow> string \<Rightarrow> string \<Rightarrow> approval_request \<Rightarrow> string \<Rightarrow> patch_campaign comp" where
  "approve_campaign_host E campaign_id host_id request actor =
     bindM (reviewable_host E campaign_id host_id ''approve'') (\<lambda>(_, hp).
     bindM (remediation_of (hp_remediation_id hp)) (\<lambda>r.
     bindM (validate_campaign_plan_binding E hp r) (\<lambda>_.
     bindM (approve_remediation_plan E (or_empty (hp_remediation_id hp)) request actor) (\<lambda>_.
     reviewed_host E campaign_id host_id actor ''campaign.host_plan_approved'' hp))))"

definition approve_campaign_host_reboot ::
  "env \<Rightarrow> string \<Rightarrow> string \<Rightarrow> approval_request \<Rightarrow> string \<Rightarrow> patch_campaign comp" where
  "approve_campaign_host_reboot E campaign_id host_id request actor =
     bindM (reviewable_host E campaign_id host_id ''approve'') (\<lambda>(_, hp).
     bindM (remediation_of (hp_remediation_id hp)) (\<lambda>r.
     bindM (validate_campaign_plan_binding E hp r) (\<lambda>_.
     bindM (approve_remediation_reboot E (or_empty (hp_remediation_id hp)) request actor) (\<lambda>_.
     reviewed_host E campaign_id host_id actor ''campaign.host_reboot_approved'' hp))))"

definition reject_campaign_host ::
  "env \<Rightarrow> string \<Rightarrow> string \<Rightarrow> string \<Rightarrow> patch_campaign comp" where
  "reject_campaign_host E campaign_id host_id actor =
     bindM (reviewable_host E campaign_id host_id ''reject'') (\<lambda>(_, hp).
     bindM (reject_remediation E (or_empty (hp_remediation_id hp)) actor) (\<lambda>_.
     reviewed_host E campaign_id host_id actor ''campaign.host_rejected'' hp))"

subsection \<open>Executing a batch\<close>

definition mark_plan_changed ::
  "env \<Rightarrow> patch_campaign \<Rightarrow> string \<Rightarrow> patch_campaign comp" where
  "mark_plan_changed E c host_id =
     bindM (campaign_host c host_id) (\<lambda>_.
     bindM (utc_now E) (\<lambda>now.
     returnM (c\<lparr>c_hosts := update_host_plan host_id
       (\<lambda>hp. hp\<lparr>hp_state := HPlanChanged,
                hp_failure_summary := Some (gd_message (deny_safety CAMPAIGN_PLAN_CHANGED)),
                hp_updated_at := now\<rparr>) (c_hosts c)\<rparr>)))"

text \<open>One iteration of the loop that prepares the jobs of the selected hosts; a gate denial is
  caught and marks the host plan, any other exception leaves the operation.\<close>

definition prepare_host ::
  "env \<Rightarrow> string \<Rightarrow> string \<Rightarrow> string set \<Rightarrow> campaign_host_plan \<Rightarrow>
   (campaign_host_plan \<times> durable_job option) comp" where
  "prepare_host E campaign_id actor selected hp =
     (if hp_host_id hp \<notin> selected \<or> \<not> truthy (hp_remediation_id hp) then returnM (hp, None)
      else
        bindM (remediation_of (hp_remediation_id hp)) (\<lambda>r.
        tryM
          (bindM (validate_campaign_plan_binding E hp r) (\<lambda>_.
           bindM (prepare_remediation_job E (or_empty (hp_remediation_id hp)) actor
                    (Some campaign_id) False) (\<lambda>job. returnM (hp, Some job))))
          (\<lambda>e. case e of
             GateDenied d \<Rightarrow>
               bindM (redact E (gd_message d) (Some (hp_host_id hp))) (\<lambda>safe.
               bindM (utc_now E) (\<lambda>now.
               returnM (hp\<lparr>hp_state := (if gd_category d = ''approval_validation''
                                        then HPlanChanged else HBlocked),
                           hp_failure_summary := Some safe, hp_updated_at := now\<rparr>, None)))
           | _ \<Rightarrow> raiseM e)))"

definition jobs_by_host :: "durable_job list \<Rightarrow> (string, durable_job) dict" where
  "jobs_by_host jobs =
     fold (\<lambda>j. dict_set (or_empty (j_host_id j)) j) (filter (\<lambda>j. truthy (j_host_id j)) jobs) []"

definition prepare_campaign_execution ::
  "env \<Rightarrow> string \<Rightarrow> string \<Rightarrow> (patch_campaign \<times> durable_job list) comp" where
  "prepare_campaign_execution E campaign_id actor =
     transactionM
       (bindM (get_campaign_synced E campaign_id) (\<lambda>c.
        bindM (foldM (\<lambda>rs hp.
                 if truthy (hp_remediation_id hp)
                 then bindM (remediation_of (hp_remediation_id hp)) (\<lambda>r.
                      returnM (dict_set (or_empty (hp_remediation_id hp)) r rs))
                 else returnM rs) [] (c_hosts c)) (\<lambda>rs.
        let batch = campaign_batch (e_H E) c rs in
        bindM (foldM (mark_plan_changed E) c (cb_plan_changed_host_ids batch)) (\<lambda>c1.
        bindM (raise_gate_denial (cb_decision batch)) (\<lambda>_.
        bindM (mapM (prepare_host E (c_id c1) actor (set (cb_host_ids batch))) (c_hosts c1)) (\<lambda>outs.
        let c2 = c1\<lparr>c_hosts := map fst outs\<rparr>;
            jobs = concat (map (\<lambda>(_, j). case j of None \<Rightarrow> [] | Some j \<Rightarrow> [j]) outs) in
        bindM (if jobs = [] then
                 bindM (sync_campaign E c2) (\<lambda>_.
                 bindM (writeM (save_campaign c2)) (\<lambda>_.
                 raise_gate_denial (deny_safety CAMPAIGN_NO_APPROVED_HOSTS)))
               else returnM ()) (\<lambda>_.
        bindM (utc_now E) (\<lambda>now.
        let c3 = start_campaign_batch c2 (jobs_by_host jobs) now in
        bindM (writeM (save_campaign c3)) (\<lambda>_.
        bindM (audit E actor ''campaign.execution_queued'' ''campaign'' (Some (c_id c3))
                 [(''job_ids'', JList (map (\<lambda>j. JStr (j_id j)) jobs))]) (\<lambda>_.
        returnM (c3, jobs)))))))))))"

subsection \<open>Cancellation\<close>

definition campaign_completed :: "patch_campaign \<Rightarrow> bool" where
  "campaign_completed c \<longleftrightarrow>
     c_status c \<in> {CSucceeded, CFailed, CCanceled} \<or>
     (c_status c = CPartiallySucceeded \<and>
      (\<forall>hp \<in> set (c_hosts c).
         hp_state hp \<in> {HSucceeded, HFailed, HCanceled, HRejected, HBlocked, HNoAction}))"

text \<open>One iteration of \<open>cancel_campaign\<close>: the host plan and whether its job is still running.\<close>

definition cancel_host :: "datetime \<Rightarrow> campaign_host_plan \<Rightarrow> (campaign_host_plan \<times> bool) comp" where
  "cancel_host now hp =
     (if hp_state hp \<in> {HSucceeded, HFailed, HNoAction} then returnM (hp, False)
      else
        bindM (if truthy (hp_job_id hp)
               then cancel_stored_job (or_empty (hp_job_id hp)) now [''queued'', ''scheduled'']
                      ''canceled''
               else returnM None) (\<lambda>job.
        let status = map_option j_status job in
        if status = Some ''running''
          then returnM (hp\<lparr>hp_state := HRunning, hp_updated_at := now\<rparr>, True)
        else if status \<noteq> None \<and> status \<notin> Some ` {''canceled'', ''queued'', ''scheduled''}
          then returnM (hp\<lparr>hp_updated_at := now\<rparr>, False)
        else
          bindM (if truthy (hp_remediation_id hp)
                 then bindM (remediation_of (hp_remediation_id hp)) (\<lambda>r. cancel_unstarted r now)
                 else returnM ()) (\<lambda>_.
          returnM (hp\<lparr>hp_state := HCanceled, hp_updated_at := now\<rparr>, False))))"

definition cancel_campaign :: "env \<Rightarrow> string \<Rightarrow> string \<Rightarrow> patch_campaign comp" where
  "cancel_campaign E campaign_id actor =
     transactionM
       (bindM (get_campaign_synced E campaign_id) (\<lambda>c.
        if campaign_completed c
          then raiseM (ValueError ''Completed campaigns cannot be canceled'')
        else
          bindM (utc_now E) (\<lambda>now.
          bindM (mapM (cancel_host now) (c_hosts c)) (\<lambda>outs.
          let c' = c\<lparr>c_hosts := map fst outs,
                     c_status := (if \<exists>(_, running) \<in> set outs. running
                                  then CCancelling else CCanceled),
                     c_canceled_by := Some actor, c_canceled_at := Some now,
                     c_updated_at := now\<rparr> in
          bindM (writeM (save_campaign c')) (\<lambda>_.
          bindM (audit E actor ''campaign.canceled'' ''campaign'' (Some (c_id c')) []) (\<lambda>_.
          returnM c'))))))"

end
