(* ===== verification/ServiceFixtures.thy ===== *)
theory ServiceFixtures
  imports ServiceScans ServiceHosts ServiceUpkeep ServiceCampaigns JobProperties
begin

text \<open>
  A concrete surrounding and store for the witnesses: a clock that ticks every second,
  identifiers counted up, collected evidence that never changes, an executor and a snapshot
  provider that succeed, and a store holding one host, its completed scan, and a plan.
\<close>

named_theorems sample_runs \<open>the sample values as the operations read them\<close>

definition flat_digest :: "string \<Rightarrow> string" where
  "flat_digest s = ''h''"

definition sample_evidence :: "string list \<Rightarrow> host_snapshot" where
  "sample_evidence failed = \<lparr>sn_id = ''snap-1'', sn_host_id = ''host-1'', sn_collected_at = Aware 0,
     sn_commands = [], sn_evidence_states = [],
     sn_package_summary = \<lparr>ps_pending_security_updates = 0, ps_pending_package_updates = 0,
       ps_reboot_required_now = False, ps_held_packages = [], ps_updates = []\<rparr>,
     sn_service_summary = \<lparr>ss_failed_units = failed, ss_restarting_units = [], ss_degraded = False\<rparr>,
     sn_system_summary = \<lparr>sy_uptime_hours = 0, sy_load_average = [], sy_disk_usage_percent = 0,
       sy_inode_usage_percent = 0, sy_memory_usage_percent = 0, sy_kernel_version = ''6.1'',
       sy_boot_id = ''b''\<rparr>,
     sn_network_summary = \<lparr>nw_interfaces = [], nw_default_routes = [], nw_dns_servers = [],
       nw_listening_ports = []\<rparr>,
     sn_logs = \<lparr>lg_journal = '''', lg_kernel = '''', lg_auth = '''',
       lg_apt_history = '''', lg_reboot_history = ''''\<rparr>, sn_snapshot_hash = ''''\<rparr>"

definition sample_execution :: execution_result where
  "sample_execution = \<lparr>er_success = True, er_summary = ''done'', er_changed = True,
     er_reboot_performed = False, er_phases = [], er_events = [], er_failure_actions_taken = []\<rparr>"

definition sample_snapshot_result :: snapshot_operation_result where
  "sample_snapshot_result = \<lparr>so_success = True, so_external_snapshot_id = Some ''ext-1'',
     so_summary = ''ok'', so_events = []\<rparr>"

definition sample_env :: "string list \<Rightarrow> env" where
  "sample_env failed = \<lparr>e_H = flat_digest, e_tz = utc, e_clock = (\<lambda>n. Aware (int n * 1000000)),
     e_uuid = dec_nat, e_redact = (\<lambda>s _. s), e_sanitize_audit = (\<lambda>ds. ds),
     e_croniter = (\<lambda>_ _ t. Inr t), e_sanitize_log = (\<lambda>x _. x), e_repr = (\<lambda>_. ''''),
     e_lease_seconds = 60, e_log_retention_days = 30,
     e_test_connection = (\<lambda>_. raiseM (OtherError ''offline'')),
     e_collect = (\<lambda>_ _ _. returnM \<lparr>ce_snapshot = sample_evidence failed, ce_events = []\<rparr>),
     e_workflow = (\<lambda>_ _ _. returnM \<lparr>wr_findings = [], wr_runs = [], wr_messages = [],
       wr_remediation = None, wr_reports = [], wr_rejected_claims = []\<rparr>),
     e_execute = (\<lambda>_ _ _. returnM sample_execution),
     e_create_snapshot = (\<lambda>_ _ _ _. returnM sample_snapshot_result),
     e_health_checks = (\<lambda>_ _ _ _. returnM \<lparr>sh_healthy = True, sh_summary = ''ok'', sh_checks = [],
       sh_events = []\<rparr>),
     e_rollback_snapshot = (\<lambda>_ _ _ _. returnM sample_snapshot_result),
     e_delete_snapshot = (\<lambda>_ _ _. returnM sample_snapshot_result)\<rparr>"

definition sample_scan :: scan_job where
  "sample_scan = \<lparr>s_id = ''scan-1'', s_host_id = ''host-1'', s_durable_job_id = None,
     s_snapshot_id = Some ''snap-1'', s_trigger = ''manual'', s_status = ''completed'',
     s_finding_ids = [], s_remediation_ids = [''rem-1''], s_agent_run_ids = [],
     s_agent_reports = [], s_campaign_id = None, s_error = None, s_created_at = Aware 0,
     s_updated_at = Aware 0\<rparr>"

definition sample_store :: "remediation \<Rightarrow> mem_jobs \<Rightarrow> store" where
  "sample_store r jobs = \<lparr>t_hosts = [(''host-1'', sample_host)], t_credentials = [],
     t_schedules = [], t_snapshots = [(''snap-1'', sample_evidence [])], t_rollbacks = [],
     t_scans = [(''scan-1'', sample_scan)], t_agent_runs = [], t_agent_messages = [],
     t_findings = [], t_remediations = [(r_id r, r)], t_campaigns = [], t_campaign_hosts = [],
     t_jobs = jobs, t_logs = [], t_alerts = [], t_audits = [], t_users = [], t_sessions = []\<rparr>"

definition sample_world :: "remediation \<Rightarrow> mem_jobs \<Rightarrow> world" where
  "sample_world r jobs = \<lparr>w_store = sample_store r jobs, w_tx = False, w_tick = 1, w_uuid = 1,
     w_job = sample_job ''queued'', w_scan = sample_scan, w_limiter = []\<rparr>"

text \<open>The plan as an operator approved it.\<close>

definition approved_plan :: remediation where
  "approved_plan = (sample_plan_base ''not_expected'')
     \<lparr>r_plan_hash := ''h'', r_approval_state := ''approved'', r_execution_state := ''not_started'',
      r_approved_by := Some ''alice'', r_approved_at := Some (Aware 1),
      r_approved_plan_version := Some 1, r_approved_plan_hash := Some ''h''\<rparr>"

definition queued_job :: durable_job where
  "queued_job = remediation_job ''job-1'' ''queued'' sample_host approved_plan None (Aware 0)"

definition queued_world :: world where
  "queued_world = sample_world (approved_plan\<lparr>r_execution_state := ''queued''\<rparr>)
     [(''job-1'', queued_job)]"

lemma sample_reads [sample_runs]:
  "w_store (sample_world r js) = sample_store r js" "t_jobs (sample_store r js) = js"
  "\<not> w_tx (sample_world r js)"
  "get_host (sample_store r js) ''host-1'' = Some sample_host"
  "get_remediation (sample_store r js) (r_id r) = Some r" "e_H (sample_env fs) = flat_digest"
  "r_id approved_plan = ''rem-1''" "r_host_id approved_plan = ''host-1''"
  "list_alerts (sample_store r js) = []" "mem_get_by_idempotency [] key = None"
  by (simp_all add: sample_world_def sample_store_def get_host_def get_remediation_def
      sample_env_def approved_plan_def sample_plan_base_def list_alerts_def
      mem_get_by_idempotency_def)

lemma sample_get [sample_runs]:
  "get_remediation (sample_store approved_plan js) ''rem-1'' = Some approved_plan"
  using sample_reads(5) [of approved_plan js] by (simp add: sample_reads)

lemma sample_env_fields [sample_runs]:
  "e_clock (sample_env fs) n = Aware (int n * 1000000)" "e_tz (sample_env fs) = utc"
  "e_uuid (sample_env fs) = dec_nat" "e_sanitize_audit (sample_env fs) ds = ds"
  "e_redact (sample_env fs) v h = v" "e_lease_seconds (sample_env fs) = 60"
  by (simp_all add: sample_env_def)

lemma plan_hash_flat: "plan_hash flat_digest r = ''h''"
  by (simp add: plan_hash_def stable_hash_def flat_digest_def)

lemma approved_settled [sample_runs]:
  "reconcile_plan flat_digest approved_plan t =
     \<lparr>pr_decision = allow, pr_changed = False, pr_content_changed = False,
      pr_previous_plan_version = 1, pr_previous_plan_hash = ''h'', pr_remediation = approved_plan\<rparr>"
  by (simp add: reconcile_plan_def content_drifted_def approval_binding_drifted_def plan_hash_flat)
    (simp add: approved_plan_def sample_plan_base_def)

lemma approved_eligible [sample_runs]:
  "execution_eligibility flat_digest approved_plan sample_host None False = allow"
  by (simp add: execution_eligibility_def approval_decision_def plan_hash_flat catalog_decision_def
      evidence_decision_def approved_plan_def sample_plan_base_def sample_host_def reboot_risk_def
      snapshot_requirement_def allow_def deny_def Let_def
      supported_action_types_def supported_update_scopes_def)

lemma approved_timing [sample_runs]:
  "timing utc approved_plan t =
     Inr \<lparr>td_decision = allow, td_job_status = ''queued'', td_remediation_state = ''queued''\<rparr>"
  by (simp add: timing_def maintenance_window_is_open_def approved_plan_def sample_plan_base_def)

text \<open>What evaluates a run on these values, step by step.\<close>

lemmas run_defs = bindM_def comp_simps transactionM_def tryM_def remediation_of_def host_of_def
  trusted_execution_decision_def ensure_current_remediation_plan_def utc_now_def
  host_has_active_rollback_failure_def raise_gate_denial_def new_id_def save_job_def jobsM_def
  mem_save_def save_outcome_def audit_def save_remediation_def

text \<open>A run that returned left a result and a world.\<close>

definition returned :: "(exn + 'a) \<times> world \<Rightarrow> bool" where
  "returned r \<longleftrightarrow> \<not> isl (fst r)"

lemma returnedE:
  assumes "returned r"
  obtains x w' where "r = (Inr x, w')"
  using assms by (cases r; cases "fst r") (auto simp: returned_def)

definition prepared :: "(exn + durable_job) \<times> world" where
  "prepared = prepare_remediation_job (sample_env []) ''rem-1'' ''bob'' None False
     (sample_world approved_plan [])"

lemma sample_prepared: "returned prepared"
  by (simp add: prepared_def returned_def prepare_remediation_job_def prepare_in_transaction_def
      queue_plan_def sample_runs run_defs allow_def Let_def)

end
