(* ===== verification/JobSafety.thy ===== *)
theory JobSafety
  imports ServiceFrames ServiceFixtures
begin

text \<open>
  What the operations of the service as a whole may do to one durable job. The repository lets
  anyone store a job without a lease, and \<open>service.py\<close> does so in several places: when it creates
  jobs, puts a queued job on hold, releases scheduled jobs, and fails jobs that recovery or the gate
  rejects. The locale \<open>kept_by_service\<close> collects what the job table must allow for these operations
  to keep a property of it, whatever else they do; its interpretation says when a single stored job
  is out of their reach. From it: finished jobs stay as they are, and a job under a valid lease is
  left alone by all other workers and users.

  Each operation runs to its end except where it awaits something; there the environment may do
  anything that keeps the property. The window between a read and the save without a lease that
  follows it is therefore not covered: \<open>JobProperties.unleased_save_takes_the_lease\<close> shows what
  a save does that comes too late.
\<close>

subsection \<open>The environment and what is read\<close>

definition harmless :: "env \<Rightarrow> (store \<Rightarrow> bool) \<Rightarrow> bool" where
  "harmless E P \<longleftrightarrow>
     (\<forall>h. preserves P (e_test_connection E h)) \<and>
     (\<forall>h i sc. preserves P (e_collect E h i sc)) \<and>
     (\<forall>sc h sn. preserves P (e_workflow E sc h sn)) \<and>
     (\<forall>h r i. preserves P (e_execute E h r i)) \<and>
     (\<forall>h r x i. preserves P (e_create_snapshot E h r x i)) \<and>
     (\<forall>h r x i. preserves P (e_health_checks E h r x i)) \<and>
     (\<forall>h r x i. preserves P (e_rollback_snapshot E h r x i)) \<and>
     (\<forall>h x i. preserves P (e_delete_snapshot E h x i))"

text \<open>What the results of a computation satisfy while \<open>P\<close> holds of the store.\<close>

definition yields :: "(store \<Rightarrow> bool) \<Rightarrow> 'a comp \<Rightarrow> ('a \<Rightarrow> bool) \<Rightarrow> bool" where
  "yields P m Q \<longleftrightarrow> (\<forall>w x w'. P (w_store w) \<longrightarrow> m w = (Inr x, w') \<longrightarrow> Q x)"

lemma preserves_bind_yields:
  assumes "preserves P m" "yields P m Q" "\<And>x. Q x \<Longrightarrow> preserves P (f x)"
  shows "preserves P (bindM m f)"
proof -
  have "P (w_store (snd (bindM m f w)))" if "P (w_store w)" for w
  proof (cases "m w")
    case (Pair r w')
    then have "P (w_store w')"
      using preservesD [OF assms(1)] that by blast
    moreover have "Q x" if "r = Inr x" for x
      using assms(2) Pair that \<open>P (w_store w)\<close> unfolding yields_def by blast
    ultimately show ?thesis
      using Pair assms(3) by (cases r) (auto simp: bindM_def preserves_def)
  qed
  then show ?thesis
    by (simp add: preserves_def)
qed

lemma preserves_fold_members:
  "(\<And>b x. x \<in> set xs \<Longrightarrow> preserves P (f b x)) \<Longrightarrow> preserves P (foldM f b xs)"
  by (induction xs arbitrary: b) (simp_all add: preserves_bind)

lemma stored_is_value: "mem_get s i = Some j \<Longrightarrow> j \<in> set (dict_values s)"
  unfolding mem_get_def by (force dest: map_of_SomeD)

text \<open>
  A property \<open>J\<close> of the job table that no operation breaks: \<open>free\<close> are the ids of the jobs that may
  be saved without a lease, \<open>foreign\<close> the workers considered, and \<open>before\<close> the times at which they
  act.
\<close>

locale kept_by_service =
  fixes E :: env
    and J :: "mem_jobs \<Rightarrow> bool"
    and free :: "string \<Rightarrow> bool"
    and foreign :: "string \<Rightarrow> bool"
    and before :: "datetime \<Rightarrow> bool"
  assumes kept_save: "J s \<Longrightarrow> free (j_id j) \<Longrightarrow> J (snd (mem_save j None s))"
    and kept_leased_save: "J s \<Longrightarrow> foreign ow \<Longrightarrow> J (snd (mem_save j (Some ow) s))"
    and kept_claim: "J s \<Longrightarrow> before t \<Longrightarrow> J (snd (mem_claim i ow t e s))"
    and kept_heartbeat: "J s \<Longrightarrow> foreign ow \<Longrightarrow> J (snd (mem_heartbeat i ow t e s))"
    and kept_cancel: "J s \<Longrightarrow> set st \<subseteq> {''queued'', ''scheduled''} \<Longrightarrow> J (snd (mem_cancel i t st p s))"
    and kept_recover: "J s \<Longrightarrow> before t \<Longrightarrow> J (snd (mem_recover t s))"
    and recovered_free: "J s \<Longrightarrow> before t \<Longrightarrow> j \<in> set (fst (fst (mem_recover t s))) \<Longrightarrow> free (j_id j)"
    and waiting_free: "J s \<Longrightarrow> j \<in> set (dict_values s) \<Longrightarrow> j_status j \<in> {''queued'', ''scheduled''} \<Longrightarrow>
          free (j_id j)"
    and fresh_free: "free (''job'' @ ''-'' @ e_uuid E n)"
    and foreign_worker: "foreign (''worker'' @ ''-'' @ e_uuid E n)"
    and clock_before: "before (e_clock E n)"
    and environment: "harmless E (\<lambda>s. J (t_jobs s))"
begin

abbreviation P :: "store \<Rightarrow> bool" where
  "P \<equiv> \<lambda>s. J (t_jobs s)"

lemma saves_keep_jobs [simp]:
  "t_jobs (save_remediation r s) = t_jobs s" "t_jobs (save_audit a s) = t_jobs s"
  "t_jobs (save_campaign c s) = t_jobs s" "t_jobs (save_alert l s) = t_jobs s"
  "t_jobs (save_scan x s) = t_jobs s" "t_jobs (save_rollback_snapshot y s) = t_jobs s"
  "t_jobs (save_snapshot sn s) = t_jobs s" "t_jobs (save_log_events es s) = t_jobs s"
  "t_jobs (save_agent_runs rs s) = t_jobs s" "t_jobs (save_agent_messages ms s) = t_jobs s"
  "t_jobs (save_findings fs s) = t_jobs s" "t_jobs (save_host h s) = t_jobs s"
  "t_jobs (delete_host i s) = t_jobs s" "t_jobs (save_schedule_row d s) = t_jobs s"
  "t_jobs (delete_schedule i s) = t_jobs s" "t_jobs (snd (purge_logs_before t s)) = t_jobs s"
  by (simp_all add: save_remediation_def save_audit_def save_campaign_def save_alert_def save_scan_def
      save_rollback_snapshot_def save_snapshot_def save_log_events_def save_agent_runs_def
      save_agent_messages_def save_findings_def save_host_def delete_host_def save_schedule_row_def
      delete_schedule_def purge_logs_before_def Let_def)

lemma write_kept: "(\<And>s. t_jobs (f s) = t_jobs s) \<Longrightarrow> preserves P (writeM f)"
  by (simp add: preserves_write)

lemmas write_rules = saves_keep_jobs [THEN write_kept]

subsection \<open>Helpers\<close>

lemma leased_save_kept: "foreign ow \<Longrightarrow> preserves P (save_job j (Some ow))"
  unfolding save_job_def by (intro preserves_intros) (simp add: kept_leased_save)

lemma unleased_save_kept: "free (j_id j) \<Longrightarrow> preserves P (save_job j None)"
  unfolding save_job_def by (intro preserves_intros) (simp add: kept_save)

lemma claimed_save_kept: "foreign ow \<Longrightarrow> preserves P (save_claimed_job ow)"
  unfolding save_claimed_job_def by (intro preserves_intros leased_save_kept)

lemma asserted_lease_kept: "foreign ow \<Longrightarrow> preserves P (assert_job_lease E i ow)"
  unfolding assert_job_lease_def by (intro preserves_intros) (simp add: kept_heartbeat)

lemma claim_kept: "preserves P (claim_stored_job E i ow)"
proof -
  have "J (t_jobs (w_store (snd (claim_stored_job E i ow w))))" if "J (t_jobs (w_store w))" for w
    using kept_claim [OF that clock_before]
    by (simp add: claim_stored_job_def bindM_def comp_simps jobsM_def split_beta)
  then show ?thesis
    by (simp add: preserves_def)
qed

lemma cancel_kept: "set st \<subseteq> {''queued'', ''scheduled''} \<Longrightarrow> preserves P (cancel_stored_job i t st p)"
  unfolding cancel_stored_job_def by (intro preserves_intros) (simp add: kept_cancel)

lemma mutate_kept: "preserves P (mutate_job g)" "preserves P (mutate_scan k)"
  unfolding mutate_job_def mutate_scan_def by (intro preserves_intros)+

lemma external_kept:
  "preserves P (externalM (e_test_connection E h))" "preserves P (externalM (e_collect E h i sc))"
  "preserves P (externalM (e_workflow E sc h sn))" "preserves P (externalM (e_execute E h r i))"
  "preserves P (externalM (e_create_snapshot E h r x i))"
  "preserves P (externalM (e_health_checks E h r x i))"
  "preserves P (externalM (e_rollback_snapshot E h r x i))"
  "preserves P (externalM (e_delete_snapshot E h x i))"
  by (intro preserves_intros; use environment in \<open>simp add: harmless_def\<close>)+

lemma audit_kept: "preserves P (audit E actor action tt ti ds)"
  unfolding audit_def by (intro preserves_intros write_rules)

lemma alert_kept: "preserves P (create_alert E sev title msg hid jid)"
  unfolding create_alert_def by (intro preserves_intros write_rules)

lemma ensure_kept: "preserves P (ensure_current_remediation_plan E r)"
  unfolding ensure_current_remediation_plan_def Let_def by (intro preserves_intros write_rules audit_kept)

lemma decision_kept: "preserves P (trusted_execution_decision E r h job)"
  unfolding trusted_execution_decision_def by (intro preserves_intros ensure_kept)

lemma sync_campaign_kept: "preserves P (sync_campaign E c)"
  unfolding sync_campaign_def rebuild_hosts_def collect_current_def Let_def
  by (intro preserves_intros write_rules ensure_kept)

lemma stop_remaining_kept: "preserves P (stop_remaining_campaign_hosts E c i)"
  unfolding stop_remaining_campaign_hosts_def mapM_def stop_host_def cancel_unstarted_def Let_def
  by (intro preserves_intros write_rules cancel_kept) simp_all

lemma sync_campaigns_kept: "preserves P (sync_campaigns_for_remediation E i b)"
  unfolding sync_campaigns_for_remediation_def
  by (intro preserves_intros sync_campaign_kept stop_remaining_kept)

lemma terminal_kept: "preserves P (record_terminal_job_failure E j hid)"
  unfolding record_terminal_job_failure_def by (intro preserves_intros alert_kept audit_kept)

lemma settle_kept: "preserves P (save_job j lo) \<Longrightarrow> preserves P (settle_failed_job E j hid lo b)"
  unfolding settle_failed_job_def by (intro preserves_intros audit_kept terminal_kept)

lemma failed_job_id: "j_id (failed_job j msg b cat t) = j_id j"
  by (simp add: failed_job_def Let_def)

lemma fail_job_kept:
  "foreign ow \<Longrightarrow> preserves P (fail_job E j err hid (Some ow) b cat)"
  "free (j_id j) \<Longrightarrow> preserves P (fail_job E j err hid None b cat)"
  unfolding fail_job_def
  by (intro preserves_intros settle_kept leased_save_kept unleased_save_kept; simp add: failed_job_id)+

lemma state_kept: "preserves P (set_execution_state E r st)"
  unfolding set_execution_state_def by (intro preserves_intros write_rules)

lemma enter_kept: "foreign ow \<Longrightarrow> preserves P (enter_phase E name p ow)"
  unfolding enter_phase_def by (intro preserves_intros mutate_kept claimed_save_kept)

lemma guard_kept: "preserves P (guard_execution E)"
  unfolding guard_execution_def by (intro preserves_intros write_rules decision_kept)

lemma require_kept: "preserves P (require_allowed d)"
  unfolding require_allowed_def by (intro preserves_intros)

lemmas helper_rules = preserves_intros write_rules audit_kept alert_kept ensure_kept decision_kept
  sync_campaign_kept sync_campaigns_kept terminal_kept fail_job_kept state_kept enter_kept guard_kept
  require_kept mutate_kept claimed_save_kept asserted_lease_kept claim_kept external_kept

lemma new_job_id_yields: "yields P (new_id E ''job'') free"
  using fresh_free by (auto simp: yields_def new_id_def)

lemma new_worker_yields: "yields P (new_id E ''worker'') foreign"
  using foreign_worker by (auto simp: yields_def new_id_def)

lemma owner_yields:
  assumes "truthy worker \<Longrightarrow> foreign (or_empty worker)"
  shows "yields P (if truthy worker then returnM (or_empty worker) else new_id E ''worker'') foreign"
  using assms new_worker_yields by (auto simp: yields_def comp_simps)

lemma waiting_yields:
  "yields P (stored_job i) (\<lambda>j. j_status j \<in> {''queued'', ''scheduled''} \<longrightarrow> free (j_id j))"
  using waiting_free stored_is_value
  by (fastforce simp: yields_def stored_job_def bindM_eq_Inr comp_simps split: option.splits)

lemma listed_yields:
  "yields P (readM (\<lambda>s. dict_values (t_jobs s)))
     (\<lambda>js. \<forall>j \<in> set js. j_status j \<in> {''queued'', ''scheduled''} \<longrightarrow> free (j_id j))"
  using waiting_free by (auto simp: yields_def comp_simps)

subsection \<open>Workers\<close>

lemma create_snapshot_kept: "preserves P (create_rollback_snapshot E job r h)"
  unfolding create_rollback_snapshot_def Let_def by (intro helper_rules)

lemma schedule_delete_kept: "preserves P (schedule_snapshot_delete_job E x h)"
  unfolding schedule_snapshot_delete_job_def Let_def
  by (intro helper_rules preserves_bind_yields [OF _ new_job_id_yields] unleased_save_kept)
    (simp_all add: new_job_def)

lemma finish_kept:
  assumes "foreign ow"
  shows "preserves P (finish_snapshot_protected_execution E r h x res ow)"
  unfolding finish_snapshot_protected_execution_def Let_def
  by (intro helper_rules assms schedule_delete_kept)

lemma drift_kept: "foreign ow \<Longrightarrow> preserves P (check_drift E r h ow)"
  unfolding check_drift_def by (intro helper_rules)

lemma protect_kept: "foreign ow \<Longrightarrow> preserves P (protect_host E r h ow)"
  unfolding protect_host_def Let_def by (intro helper_rules create_snapshot_kept)

lemma execute_kept: "foreign ow \<Longrightarrow> preserves P (execute_guarded E x ow)"
  unfolding execute_guarded_def by (intro helper_rules finish_kept)

lemma outcome_kept: "foreign ow \<Longrightarrow> preserves P (record_outcome E r res x ow)"
  unfolding record_outcome_def Let_def by (intro helper_rules)

lemma claimed_remediation_kept: "foreign ow \<Longrightarrow> preserves P (process_claimed_remediation E r h ow)"
  unfolding process_claimed_remediation_def Let_def
  by (intro helper_rules drift_kept protect_kept execute_kept outcome_kept)

lemma remediation_error_kept: "foreign ow \<Longrightarrow> preserves P (handle_remediation_error E i h k ow e)"
  unfolding handle_remediation_error_def Let_def by (intro helper_rules)

lemma campaign_cancel_kept: "preserves P (cancel_for_campaign E j r)"
  unfolding cancel_for_campaign_def by (intro helper_rules cancel_kept) simp

lemma run_claimed_kept: "foreign ow \<Longrightarrow> preserves P (run_claimed_remediation E j ow)"
  unfolding run_claimed_remediation_def Let_def
  by (intro helper_rules claimed_remediation_kept remediation_error_kept)

lemma process_remediation_kept:
  assumes "truthy worker \<Longrightarrow> foreign (or_empty worker)"
  shows "preserves P (process_remediation E i worker)"
  unfolding process_remediation_def Let_def
  by (intro preserves_bind_yields [OF _ waiting_yields] preserves_bind_yields [OF _ owner_yields]
      helper_rules unleased_save_kept campaign_cancel_kept run_claimed_kept assms) simp_all

lemma claimed_delete_kept: "foreign ow \<Longrightarrow> preserves P (process_claimed_snapshot_delete E x h ow)"
  unfolding process_claimed_snapshot_delete_def Let_def by (intro helper_rules)

lemma delete_error_kept: "foreign ow \<Longrightarrow> preserves P (handle_snapshot_error E x h i ow e)"
  unfolding handle_snapshot_error_def Let_def by (intro helper_rules)

lemma process_delete_kept:
  assumes "truthy worker \<Longrightarrow> foreign (or_empty worker)"
  shows "preserves P (process_snapshot_delete E i worker)"
  unfolding process_snapshot_delete_def
  by (intro preserves_bind_yields [OF _ owner_yields] helper_rules claimed_delete_kept delete_error_kept assms)

lemma mark_kept:
  "preserves P (mark_campaign_proposal_running E c h)" "preserves P (mark_campaign_proposal_failed E c h e)"
  "preserves P (attach_campaign_proposal E c x pr)" "preserves P (campaign_host cc h)"
  unfolding mark_campaign_proposal_running_def mark_campaign_proposal_failed_def
    attach_campaign_proposal_def campaign_host_def mapM_def Let_def
  by (intro helper_rules)+

lemma start_scan_kept: "foreign ow \<Longrightarrow> preserves P (start_scan E h ow)"
  unfolding start_scan_def by (intro helper_rules mark_kept)

lemma scan_parts_kept:
  "preserves P (alert_on_findings E sc h i fs)" "preserves P (store_workflow_result E h i si fs res)"
  "foreign ow \<Longrightarrow> preserves P (complete_scan_job E si fs rs rej ow)"
  unfolding alert_on_findings_def store_workflow_result_def complete_scan_job_def agent_events_def
    run_event_def message_event_def new_event_def mapM_def Let_def
  by (intro helper_rules)+

lemma claimed_scan_kept: "foreign ow \<Longrightarrow> preserves P (process_claimed_scan E h ow)"
  unfolding process_claimed_scan_def Let_def
  by (intro helper_rules start_scan_kept scan_parts_kept mark_kept)

lemma scan_error_kept: "foreign ow \<Longrightarrow> preserves P (handle_scan_error E h i ow e)"
  unfolding handle_scan_error_def Let_def by (intro helper_rules mark_kept)

lemma process_scan_kept:
  assumes "truthy worker \<Longrightarrow> foreign (or_empty worker)"
  shows "preserves P (process_scan E i worker)"
  unfolding process_scan_def
  by (intro preserves_bind_yields [OF _ owner_yields] helper_rules claimed_scan_kept scan_error_kept assms)

subsection \<open>Upkeep\<close>

lemma release_job_kept:
  assumes "j_status j \<in> {''queued'', ''scheduled''} \<longrightarrow> free (j_id j)"
  shows "preserves P (release_remediation_job E t js j)" "preserves P (release_snapshot_job E t js j)"
  unfolding release_remediation_job_def release_snapshot_job_def Let_def
  by (intro helper_rules unleased_save_kept; use assms in simp)+

lemma release_kept:
  "preserves P (release_scheduled_remediation_jobs E now)"
  "preserves P (release_scheduled_snapshot_delete_jobs E now)"
  unfolding release_scheduled_remediation_jobs_def release_scheduled_snapshot_delete_jobs_def
  by (intro preserves_bind_yields [OF _ listed_yields] preserves_fold_members release_job_kept helper_rules;
      blast)+

lemma recover_by_type_kept: "free (j_id j) \<Longrightarrow> preserves P (recover_by_type E t j)"
  unfolding recover_by_type_def Let_def by (intro helper_rules)

lemma recover_one_kept: "free (j_id j) \<Longrightarrow> preserves P (recover_one E t js j)"
  unfolding recover_one_def by (intro helper_rules recover_by_type_kept)

lemma exhaust_one_kept: "preserves P (exhaust_one E t j)"
  unfolding exhaust_one_def by (intro helper_rules)

lemma time_yields:
  assumes "\<And>t. now = Some t \<Longrightarrow> before t"
  shows "yields P (case now of Some t \<Rightarrow> returnM t | None \<Rightarrow> utc_now E) before"
  using assms clock_before by (auto simp: yields_def comp_simps split: option.split)

lemma recover_table_kept:
  assumes "before t"
  shows "preserves P (jobsM (mem_recover t))"
    "yields P (jobsM (mem_recover t)) (\<lambda>(rs, es). \<forall>j \<in> set rs. free (j_id j))"
proof -
  show "preserves P (jobsM (mem_recover t))"
    by (intro preserves_intros) (use kept_recover assms in simp)
  show "yields P (jobsM (mem_recover t)) (\<lambda>(rs, es). \<forall>j \<in> set rs. free (j_id j))"
    using recovered_free [OF _ assms] by (fastforce simp: yields_def jobsM_def split: prod.splits)
qed

lemma recover_kept:
  assumes "\<And>t. now = Some t \<Longrightarrow> before t"
  shows "preserves P (recover_expired_jobs E now)"
  unfolding recover_expired_jobs_def
proof (rule preserves_bind_yields [OF _ time_yields])
  fix t assume "before t"
  show "preserves P (bindM (jobsM (mem_recover t)) (\<lambda>(recovered, exhausted).
      bindM (foldM (recover_one E t) [] recovered) (\<lambda>dispatchable.
      bindM (foldM (\<lambda>_. exhaust_one E t) () exhausted) (\<lambda>_. returnM dispatchable))))"
    by (rule preserves_bind_yields [OF recover_table_kept [OF \<open>before t\<close>]])
      (auto intro!: preserves_bind preserves_fold_members recover_one_kept exhaust_one_kept)
qed (use assms in \<open>auto intro: preserves_intros\<close>)

subsection \<open>Plans, scans and hosts\<close>

lemma queue_plan_kept: "preserves P (queue_plan E h r actor cid)"
  unfolding queue_plan_def Let_def
  by (intro preserves_bind_yields [OF _ new_job_id_yields] helper_rules unleased_save_kept)
    (simp add: remediation_job_def new_job_def)

lemma prepare_kept: "preserves P (prepare_remediation_job E i actor cid b)"
  unfolding prepare_remediation_job_def prepare_in_transaction_def
  by (intro helper_rules queue_plan_kept)

lemma create_scan_kept: "preserves P (create_scan_job E request actor cid)"
  unfolding create_scan_job_def Let_def
  by (intro preserves_bind_yields [OF _ new_job_id_yields] helper_rules unleased_save_kept)
    (simp_all add: new_job_def)

lemma review_kept:
  "preserves P (approve_remediation_plan E i request actor)"
  "preserves P (approve_remediation_reboot E i request actor)"
  "preserves P (reject_remediation E i actor)"
  unfolding approve_remediation_plan_def approve_remediation_reboot_def reject_remediation_def Let_def
  by (intro helper_rules)+

lemma reschedule_kept: "preserves P (reschedule E t x)"
  unfolding reschedule_def by (intro helper_rules)

lemma due_scan_kept: "preserves P (due_scan E t js x)"
  unfolding due_scan_def finallyM_def by (intro helper_rules reschedule_kept create_scan_kept)

lemma due_scans_kept: "preserves P (create_due_scan_jobs E now)"
  unfolding create_due_scan_jobs_def by (intro helper_rules due_scan_kept)

lemma validate_host_kept: "preserves P (validate_host_input input)"
  unfolding validate_host_input_def by (intro helper_rules)

lemma schedule_kept: "preserves P (save_schedule E i d actor)"
  unfolding save_schedule_def Let_def by (intro helper_rules)

lemma host_kept:
  "preserves P (create_host E input actor)" "preserves P (update_host E i input actor)"
  "preserves P (remove_host E i actor)" "preserves P (test_connection E i confirm actor)"
  unfolding create_host_def update_host_def remove_host_def test_connection_def Let_def
  by (intro helper_rules validate_host_kept schedule_kept)+

lemma acknowledge_kept: "preserves P (acknowledge_alert E i actor)"
  unfolding acknowledge_alert_def Let_def by (intro helper_rules)

lemma purge_kept: "preserves P (purge_expired_logs E)"
proof -
  have "preserves P (\<lambda>w. let (n, s) = purge_logs_before t (w_store w) in (Inr n, w\<lparr>w_store := s\<rparr>))" for t
    using saves_keep_jobs(16) by (simp add: preserves_def split_beta)
  then show ?thesis
    unfolding purge_expired_logs_def by (intro helper_rules)
qed

subsection \<open>Campaigns\<close>

lemma synced_kept: "preserves P (get_campaign_synced E c)"
  unfolding get_campaign_synced_def by (intro helper_rules)

lemma binding_kept: "preserves P (validate_campaign_plan_binding E hp r)"
  unfolding validate_campaign_plan_binding_def Let_def by (intro helper_rules)

lemma create_campaign_kept: "preserves P (create_campaign E request actor)"
  unfolding create_campaign_def mapM_def Let_def by (intro helper_rules)

lemma proposals_kept: "preserves P (queue_campaign_proposals E c actor)"
  unfolding queue_campaign_proposals_def queue_proposal_def mapM_def Let_def
  by (intro helper_rules synced_kept create_scan_kept)

lemma campaign_review_kept:
  "preserves P (approve_campaign_host E c h request actor)"
  "preserves P (approve_campaign_host_reboot E c h request actor)"
  "preserves P (reject_campaign_host E c h actor)"
  unfolding approve_campaign_host_def approve_campaign_host_reboot_def reject_campaign_host_def
    reviewable_host_def reviewed_host_def
  by (intro helper_rules synced_kept binding_kept review_kept mark_kept)+

lemma prepare_host_kept: "preserves P (prepare_host E c actor sel hp)"
proof -
  have handler: "preserves P (case e of
      GateDenied d \<Rightarrow> bindM (redact E (gd_message d) (Some (hp_host_id hp))) (\<lambda>safe.
        bindM (utc_now E) (\<lambda>now.
        returnM (hp\<lparr>hp_state := (if gd_category d = ''approval_validation'' then HPlanChanged else HBlocked),
                    hp_failure_summary := Some safe, hp_updated_at := now\<rparr>, None)))
    | _ \<Rightarrow> raiseM e)" for e :: exn
    by (cases e) (simp_all add: preserves_bind)
  show ?thesis
    unfolding prepare_host_def by (intro helper_rules binding_kept prepare_kept handler)
qed

lemma execute_campaign_kept: "preserves P (prepare_campaign_execution E c actor)"
  unfolding prepare_campaign_execution_def mark_plan_changed_def mapM_def Let_def
  by (intro helper_rules synced_kept prepare_host_kept mark_kept)

lemma cancel_campaign_kept: "preserves P (cancel_campaign E c actor)"
  unfolding cancel_campaign_def cancel_host_def cancel_unstarted_def mapM_def Let_def
  by (intro helper_rules synced_kept cancel_kept) simp_all

end

section \<open>The operations of the service\<close>

text \<open>Every operation of \<open>service.py\<close> that changes the store, as data, and what it does.\<close>

datatype service_call =
    CallCreateHost host_input string
  | CallUpdateHost string host_input string
  | CallDeleteHost string string
  | CallTestConnection string "string option" string
  | CallSaveSchedule string host_schedule_input string
  | CallCreateScanJob scan_request string "string option"
  | CallCreateDueScanJobs "datetime option"
  | CallProcessScan string "string option"
  | CallApprovePlan string approval_request string
  | CallApproveReboot string approval_request string
  | CallRejectPlan string string
  | CallPrepareJob string string "string option" bool
  | CallProcessRemediation string "string option"
  | CallProcessSnapshotDelete string "string option"
  | CallReleaseRemediationJobs "datetime option"
  | CallReleaseSnapshotDeletes "datetime option"
  | CallRecoverJobs "datetime option"
  | CallCreateCampaign campaign_request string
  | CallGetCampaign string
  | CallQueueProposals string string
  | CallApproveCampaignHost string string approval_request string
  | CallApproveCampaignReboot string string approval_request string
  | CallRejectCampaignHost string string string
  | CallExecuteCampaign string string
  | CallCancelCampaign string string
  | CallAcknowledgeAlert string string
  | CallPurgeLogs

definition discarding :: "'a comp \<Rightarrow> unit comp" where
  "discarding m = bindM m (\<lambda>_. returnM ())"

fun run_call :: "env \<Rightarrow> service_call \<Rightarrow> unit comp" where
  "run_call E (CallCreateHost input actor) = discarding (create_host E input actor)"
| "run_call E (CallUpdateHost i input actor) = discarding (update_host E i input actor)"
| "run_call E (CallDeleteHost i actor) = remove_host E i actor"
| "run_call E (CallTestConnection i confirm actor) = discarding (test_connection E i confirm actor)"
| "run_call E (CallSaveSchedule i d actor) = discarding (save_schedule E i d actor)"
| "run_call E (CallCreateScanJob request actor cid) = discarding (create_scan_job E request actor cid)"
| "run_call E (CallCreateDueScanJobs now) = discarding (create_due_scan_jobs E now)"
| "run_call E (CallProcessScan i worker) = discarding (process_scan E i worker)"
| "run_call E (CallApprovePlan i request actor) = discarding (approve_remediation_plan E i request actor)"
| "run_call E (CallApproveReboot i request actor) = discarding (approve_remediation_reboot E i request actor)"
| "run_call E (CallRejectPlan i actor) = discarding (reject_remediation E i actor)"
| "run_call E (CallPrepareJob i actor cid sync) = discarding (prepare_remediation_job E i actor cid sync)"
| "run_call E (CallProcessRemediation i worker) = discarding (process_remediation E i worker)"
| "run_call E (CallProcessSnapshotDelete i worker) = discarding (process_snapshot_delete E i worker)"
| "run_call E (CallReleaseRemediationJobs now) = discarding (release_scheduled_remediation_jobs E now)"
| "run_call E (CallReleaseSnapshotDeletes now) = discarding (release_scheduled_snapshot_delete_jobs E now)"
| "run_call E (CallRecoverJobs now) = discarding (recover_expired_jobs E now)"
| "run_call E (CallCreateCampaign request actor) = discarding (create_campaign E request actor)"
| "run_call E (CallGetCampaign c) = discarding (get_campaign_synced E c)"
| "run_call E (CallQueueProposals c actor) = discarding (queue_campaign_proposals E c actor)"
| "run_call E (CallApproveCampaignHost c h request actor) = discarding (approve_campaign_host E c h request actor)"
| "run_call E (CallApproveCampaignReboot c h request actor) =
     discarding (approve_campaign_host_reboot E c h request actor)"
| "run_call E (CallRejectCampaignHost c h actor) = discarding (reject_campaign_host E c h actor)"
| "run_call E (CallExecuteCampaign c actor) = discarding (prepare_campaign_execution E c actor)"
| "run_call E (CallCancelCampaign c actor) = discarding (cancel_campaign E c actor)"
| "run_call E (CallAcknowledgeAlert i actor) = discarding (acknowledge_alert E i actor)"
| "run_call E CallPurgeLogs = discarding (purge_expired_logs E)"

text \<open>One after the other; what a call stored before it raised stays stored.\<close>

definition run_calls :: "env \<Rightarrow> service_call list \<Rightarrow> world \<Rightarrow> world" where
  "run_calls E calls w = fold (\<lambda>c w. snd (run_call E c w)) calls w"

text \<open>The named worker of a call, if it names one, and the time it is given, if it is given one.\<close>

fun call_within :: "(string \<Rightarrow> bool) \<Rightarrow> (datetime \<Rightarrow> bool) \<Rightarrow> service_call \<Rightarrow> bool" where
  "call_within foreign before (CallProcessScan i worker) = (truthy worker \<longrightarrow> foreign (or_empty worker))"
| "call_within foreign before (CallProcessRemediation i worker) = (truthy worker \<longrightarrow> foreign (or_empty worker))"
| "call_within foreign before (CallProcessSnapshotDelete i worker) =
     (truthy worker \<longrightarrow> foreign (or_empty worker))"
| "call_within foreign before (CallRecoverJobs now) = pred_option before now"
| "call_within foreign before _ = True"

context kept_by_service
begin

lemma discarding_kept: "preserves P m \<Longrightarrow> preserves P (discarding m)"
  unfolding discarding_def by (intro preserves_intros)

lemma call_kept: "call_within foreign before c \<Longrightarrow> preserves P (run_call E c)"
  by (cases c)
    (auto simp: option.pred_set intro!: discarding_kept host_kept schedule_kept create_scan_kept
      due_scans_kept process_scan_kept review_kept prepare_kept process_remediation_kept
      process_delete_kept release_kept recover_kept create_campaign_kept synced_kept proposals_kept
      campaign_review_kept execute_campaign_kept cancel_campaign_kept acknowledge_kept purge_kept)

lemma calls_kept:
  assumes "\<forall>c \<in> set calls. call_within foreign before c" "J (t_jobs (w_store w))"
  shows "J (t_jobs (w_store (run_calls E calls w)))"
  using assms
proof (induction calls arbitrary: w)
  case (Cons c calls)
  then have "J (t_jobs (w_store (snd (run_call E c w))))"
    using call_kept [of c] by (simp add: preserves_def)
  with Cons show ?case
    by (simp add: run_calls_def)
qed (simp add: run_calls_def)

end

section \<open>A job out of reach\<close>

definition stored_as :: "string \<Rightarrow> durable_job \<Rightarrow> mem_jobs \<Rightarrow> bool" where
  "stored_as i j s \<longleftrightarrow> mem_inv s \<and> mem_get s i = Some j"

text \<open>When the operations of foreign workers at the times considered cannot change the job.\<close>

definition out_of_reach ::
  "env \<Rightarrow> (string \<Rightarrow> bool) \<Rightarrow> (datetime \<Rightarrow> bool) \<Rightarrow> string \<Rightarrow> durable_job \<Rightarrow> bool" where
  "out_of_reach E foreign before i j \<longleftrightarrow>
     j_status j \<notin> {''queued'', ''scheduled''} \<and>
     (\<forall>ow t. foreign ow \<longrightarrow> \<not> holds_lease j ow t) \<and> (\<forall>t. before t \<longrightarrow> \<not> expired_running j t) \<and>
     (\<forall>n. before (e_clock E n) \<and> foreign (''worker'' @ ''-'' @ e_uuid E n) \<and>
          ''job'' @ ''-'' @ e_uuid E n \<noteq> i) \<and>
     harmless E (\<lambda>s. stored_as i j (t_jobs s))"

lemma stored_as_update:
  assumes "stored_as i j s" "mem_inv s'" "mem_get s' = (mem_get s)(k \<mapsto> x)" "k = i \<Longrightarrow> x = j"
  shows "stored_as i j s'"
  using assms by (auto simp: stored_as_def)

lemma reach_save:
  assumes "stored_as i j s" "j_id x \<noteq> i"
  shows "stored_as i j (snd (mem_save x None s))"
  using mem.save_stored [of s x None x] assms by (auto simp: save_outcome_def stored_as_def)

lemma reach_leased_save:
  assumes "stored_as i j s" "\<And>t. \<not> holds_lease j ow t"
  shows "stored_as i j (snd (mem_save x (Some ow) s))"
proof (cases "save_outcome (mem_get s (j_id x)) x (Some ow)")
  case None
  with assms(1) mem.save_rejected [of s x "Some ow"] show ?thesis
    by (simp add: stored_as_def)
next
  case (Some x')
  with assms have "j_id x \<noteq> i"
    by (auto simp: stored_as_def save_outcome_def split: if_splits)
  with Some assms(1) mem.save_stored [of s x "Some ow" x'] show ?thesis
    by (auto simp: stored_as_def)
qed

lemma reach_claim:
  assumes "stored_as i j s" "j_status j \<noteq> ''queued''" "\<not> expired_running j t"
  shows "stored_as i j (snd (mem_claim k ow t e s))"
proof (cases "mem_get s k")
  case None
  with assms(1) mem.claim_none [of s k ow t e] show ?thesis
    by (simp add: stored_as_def)
next
  case (Some c)
  have "c = j \<Longrightarrow> claim_outcome c ow t e = (None, j)"
    using assms(2,3) by (simp add: claim_outcome_def)
  with Some assms(1) mem.claim_some [of s k c ow t e] show ?thesis
    by (auto simp: stored_as_def)
qed

lemma reach_heartbeat:
  assumes "stored_as i j s" "\<And>t. \<not> holds_lease j ow t"
  shows "stored_as i j (snd (mem_heartbeat k ow t e s))"
proof (cases "\<exists>c. mem_get s k = Some c \<and> holds_lease c ow t")
  case True
  then obtain c where c: "mem_get s k = Some c" "holds_lease c ow t"
    by blast
  with assms have "k \<noteq> i"
    by (auto simp: stored_as_def)
  with c assms(1) mem.heartbeat_some [of s k c ow t e] show ?thesis
    by (auto simp: stored_as_def)
next
  case False
  then have "mem_heartbeat k ow t e s = (None, s)"
    using assms(1) by (intro mem.heartbeat_none) (auto simp: stored_as_def option.pred_set)
  with assms(1) show ?thesis by simp
qed

lemma reach_cancel:
  assumes "stored_as i j s" "j_status j \<notin> set st"
  shows "stored_as i j (snd (mem_cancel k t st p s))"
proof (cases "mem_get s k")
  case None
  with assms(1) mem.cancel_none [of s k t st p] show ?thesis
    by (simp add: stored_as_def)
next
  case (Some c)
  have "c = j \<Longrightarrow> cancel_outcome c t st p = j"
    using assms(2) by (simp add: cancel_outcome_def)
  with Some assms(1) mem.cancel_some [of s k c t st p] show ?thesis
    by (auto simp: stored_as_def)
qed

lemma reach_recover:
  assumes "stored_as i j s" "\<not> expired_running j t"
  shows "stored_as i j (snd (mem_recover t s))"
    "x \<in> set (fst (fst (mem_recover t s))) \<Longrightarrow> j_id x \<noteq> i"
proof -
  obtain rs es s' where run: "mem_recover t s = ((rs, es), s')"
    by (metis surj_pair)
  have inv: "mem_inv s" and stored: "mem_get s i = Some j"
    using assms(1) by (auto simp: stored_as_def)
  note laws = mem.recover_lists [OF inv run]
  then show "stored_as i j (snd (mem_recover t s))"
    using stored assms(2) by (simp add: run stored_as_def)
  assume "x \<in> set (fst (fst (mem_recover t s)))"
  then have "x \<in> set (rs @ es)"
    by (simp add: run)
  with laws have "x \<in> {recover_job c t | k c. mem_get s k = Some c \<and> expired_running c t}"
    by blast
  then obtain k c where c: "x = recover_job c t" "mem_get s k = Some c" "expired_running c t"
    by blast
  then have "j_id x = k"
    using mem.get_id [OF inv c(2)] by (simp add: store_simps)
  with c stored assms(2) show "j_id x \<noteq> i"
    by auto
qed

lemma reach_waiting:
  assumes "stored_as i j s" "x \<in> set (dict_values s)" "j_status x \<noteq> j_status j"
  shows "j_id x \<noteq> i"
proof -
  have inv: "mem_inv s" and stored: "mem_get s i = Some j"
    using assms(1) by (auto simp: stored_as_def)
  then have "dict_wf s"
    by (simp add: mem_inv_def)
  then obtain k where k: "dict_get s k = Some x"
    using dict_values_iff [of s x] assms(2) by blast
  then have "j_id x = k"
    by (rule mem_inv_get [OF inv])
  with k stored assms(3) show ?thesis
    by (auto simp: mem_get_def)
qed

text \<open>The operations of the service keep a job that is out of reach.\<close>

interpretation reach: kept_by_service E
    "\<lambda>s. out_of_reach E F B i j \<longrightarrow> stored_as i j s" "\<lambda>k. out_of_reach E F B i j \<longrightarrow> k \<noteq> i"
    "\<lambda>ow. out_of_reach E F B i j \<longrightarrow> F ow" "\<lambda>t. out_of_reach E F B i j \<longrightarrow> B t"
  for E F B i j
proof (unfold_locales, goal_cases)
  case (1 s x)
  then show ?case by (auto intro: reach_save)
next
  case (2 s ow x)
  then show ?case by (auto simp: out_of_reach_def intro: reach_leased_save)
next
  case (3 s t k ow e)
  then show ?case by (auto simp: out_of_reach_def intro: reach_claim)
next
  case (4 s ow k t e)
  then show ?case by (auto simp: out_of_reach_def intro: reach_heartbeat)
next
  case (5 s st k t p)
  then show ?case by (intro impI reach_cancel) (auto simp: out_of_reach_def)
next
  case (6 s t)
  then show ?case by (auto simp: out_of_reach_def intro: reach_recover)
next
  case (7 s t x)
  show ?case
  proof
    assume "out_of_reach E F B i j"
    with 7 show "j_id x \<noteq> i"
      by (intro reach_recover(2) [of i j s t x]) (auto simp: out_of_reach_def)
  qed
next
  case (8 s x)
  show ?case
  proof
    assume "out_of_reach E F B i j"
    with 8 show "j_id x \<noteq> i"
      by (intro reach_waiting [of i j s x]) (auto simp: out_of_reach_def)
  qed
next
  case (12)
  show ?case
    by (cases "out_of_reach E F B i j") (simp_all add: out_of_reach_def harmless_def preserves_def)
qed (auto simp: out_of_reach_def)

subsection \<open>Finished jobs\<close>

text \<open>C16: Completed, failed and canceled jobs are final. Whatever operations of the service are
  called, in any order, with any arguments and at any times (their claims, recoveries, releases,
  cancellations and saves with and without a lease included), a job stored with one of these states
  stays exactly as it is. Assumed is that no new job gets its id, and that what the service awaits,
  which stands for everyone else, leaves it alone too.\<close>

theorem terminal_jobs_are_final:
  assumes "mem_inv (t_jobs (w_store w))" and "mem_get (t_jobs (w_store w)) i = Some j"
    and "j_status j \<in> {''completed'', ''failed'', ''canceled''}"
    and "\<And>n. ''job-'' @ e_uuid E n \<noteq> i"
    and "harmless E (\<lambda>s. mem_inv (t_jobs s) \<and> mem_get (t_jobs s) i = Some j)"
  shows "mem_get (t_jobs (w_store (run_calls E calls w))) i = Some j"
proof -
  have reach: "out_of_reach E (\<lambda>_. True) (\<lambda>_. True) i j"
    using assms(3-5) by (auto simp: out_of_reach_def holds_lease_def expired_running_def stored_as_def)
  have "call_within foreign before c" if "\<And>x. foreign x" "\<And>t. before t" for foreign before c
    using that by (cases c) (simp_all add: option.pred_set)
  then have "stored_as i j (t_jobs (w_store (run_calls E calls w)))"
    using reach.calls_kept [of calls E "\<lambda>_. True" "\<lambda>_. True" i j w] assms(1,2) reach
    by (simp add: stored_as_def)
  then show ?thesis
    by (simp add: stored_as_def)
qed

subsection \<open>Leased jobs\<close>

text \<open>C3: A lease excludes everyone else. While a job runs under a lease, no sequence of operations
  of the service by other workers and by users before the lease's expiry changes it in any way, and
  so no second worker gets it: neither processing, recovery, release and cancellation nor the saves
  without a lease the service makes on its way. The workers named by the calls and the names drawn
  for unnamed ones are others than the owner, the clock and the times given to recovery are before
  the expiry, no new job gets the job's id, and what the service awaits leaves the job alone too. A
  bare save without a lease on a record read before the claim is outside this: no operation makes
  one in one step, but it would go through.\<close>

theorem lease_excludes_others:
  assumes "mem_inv (t_jobs (w_store w))" and "mem_get (t_jobs (w_store w)) i = Some j"
    and "j_status j = ''running''" "j_lease_owner j = Some owner" "j_lease_expires_at j = Some e"
    and "\<forall>c \<in> set calls. call_within (\<lambda>worker. worker \<noteq> owner)
           (\<lambda>t. normalized_datetime t < normalized_datetime e) c"
    and "\<And>n. normalized_datetime (e_clock E n) < normalized_datetime e"
    and "\<And>n. ''worker-'' @ e_uuid E n \<noteq> owner" "\<And>n. ''job-'' @ e_uuid E n \<noteq> i"
    and "harmless E (\<lambda>s. mem_inv (t_jobs s) \<and> mem_get (t_jobs s) i = Some j)"
  shows "mem_get (t_jobs (w_store (run_calls E calls w))) i = Some j"
proof -
  let ?F = "\<lambda>worker. worker \<noteq> owner" and ?B = "\<lambda>t. normalized_datetime t < normalized_datetime e"
  have reach: "out_of_reach E ?F ?B i j"
    using assms(3-5,7-10)
    by (auto simp: out_of_reach_def holds_lease_def expired_running_def lease_is_expired_def stored_as_def)
  with assms(6) have "\<forall>c \<in> set calls. call_within (\<lambda>ow. out_of_reach E ?F ?B i j \<longrightarrow> ?F ow)
      (\<lambda>t. out_of_reach E ?F ?B i j \<longrightarrow> ?B t) c"
    by simp
  then have "stored_as i j (t_jobs (w_store (run_calls E calls w)))"
    using reach.calls_kept [of calls E ?F ?B i j w] assms(1,2) reach by (simp add: stored_as_def)
  then show ?thesis
    by (simp add: stored_as_def)
qed

subsection \<open>Examples\<close>

text \<open>A finished job and a running one, and calls that try to work on them.\<close>

definition old_job :: "durable_job \<Rightarrow> durable_job" where
  "old_job j = j\<lparr>j_id := ''old''\<rparr>"

abbreviation attempts_on_old :: "service_call list" where
  "attempts_on_old \<equiv>
     [CallProcessRemediation ''old'' (Some ''w2''), CallProcessScan ''old'' None,
      CallRecoverJobs (Some (Aware 5)), CallReleaseRemediationJobs None, CallReleaseSnapshotDeletes None]"

lemma old_job_stored:
  "mem_inv [(''old'', old_job j)]" "mem_get [(''old'', old_job j)] ''old'' = Some (old_job j)"
  by (simp_all add: mem_inv_def mem_get_def old_job_def)

lemma sample_env_harmless:
  "harmless (sample_env fs) Q" "harmless ((sample_env fs)\<lparr>e_clock := c\<rparr>) Q"
  by (simp_all add: harmless_def sample_env_def)

theorem terminal_jobs_are_final_witness:
  "mem_get (t_jobs (w_store (run_calls (sample_env []) attempts_on_old
     (sample_world approved_plan [(''old'', old_job (sample_job ''failed''))])))) ''old'' =
   Some (old_job (sample_job ''failed''))"
proof (rule terminal_jobs_are_final)
  show "j_status (old_job (sample_job ''failed'')) \<in> {''completed'', ''failed'', ''canceled''}"
    by (simp add: old_job_def sample_job_def)
qed (simp_all add: sample_reads old_job_stored sample_env_harmless)

theorem lease_excludes_others_witness:
  "mem_get (t_jobs (w_store (run_calls ((sample_env [])\<lparr>e_clock := (\<lambda>_. Aware 20)\<rparr>) attempts_on_old
     (sample_world approved_plan [(''old'', old_job sample_running)])))) ''old'' =
   Some (old_job sample_running)"
proof (rule lease_excludes_others [where owner = "''w1''" and e = "Aware 100"])
  show "j_status (old_job sample_running) = ''running''" "j_lease_owner (old_job sample_running) = Some ''w1''"
    "j_lease_expires_at (old_job sample_running) = Some (Aware 100)"
    by (simp_all add: old_job_def sample_running_fields)
qed (simp_all add: sample_reads old_job_stored sample_env_harmless)

end
