(* ===== verification/ServiceProperties.thy ===== *)
theory ServiceProperties
  imports ServiceFrames ServiceFixtures GateProperties
begin

text \<open>
  What the services promise, over the whole operations of the previous theories.
\<close>

subsection \<open>The executor\<close>

text \<open>The calls of the executor the trusted gate permits, in the world of the call.\<close>

definition may_execute :: "env \<Rightarrow> string \<Rightarrow> host \<Rightarrow> remediation \<Rightarrow> string \<Rightarrow> world \<Rightarrow> bool" where
  "may_execute E owner h r i w \<longleftrightarrow>
     j_id (w_job w) = i \<and> guarded E r h w \<and> leased_to owner i w"

definition agree_on_permitted ::
  "env \<Rightarrow> string \<Rightarrow> (host \<Rightarrow> remediation \<Rightarrow> string \<Rightarrow> execution_result comp) \<Rightarrow> bool" where
  "agree_on_permitted E owner x \<longleftrightarrow>
     (\<forall>h r i w. may_execute E owner h r i w \<longrightarrow> x h r i w = e_execute E h r i w)"

lemma execute_guarded_agree:
  assumes "agree_on_permitted E ow x"
  shows "execute_guarded (E\<lparr>e_execute := x\<rparr>) sn ow w = execute_guarded E sn ow w"
proof -
  have call: "externalM (x h r (j_id j)) w4 = externalM (e_execute E h r (j_id j)) w4"
    if "guard_execution E w = (Inr (r, h), w1)"
      "enter_phase E ''ansible_execution'' 30 ow w1 = (Inr u, w2)"
      "job_object w2 = (Inr j, w3)" "assert_job_lease E (j_id j) ow w3 = (Inr v, w4)"
    for r h w1 u w2 j w3 v w4
  proof -
    note g = guard_execution_frame [OF that(1)] and p = enter_phase_frame [OF that(2)]
      and a = assert_job_lease_frame [OF that(4)]
    from that(3) have j: "j = w_job w2" "w3 = w2" by (auto simp: job_object_def)
    from p have "guarded E r h w2" by (intro guarded_frame [OF g [THEN conjunct2, THEN conjunct2]]) auto
    then have "guarded E r h w4" by (rule guarded_frame) (use a j in auto)
    with a j have "may_execute E ow h r (j_id j) w4"
      by (simp add: may_execute_def)
    with assms have "x h r (j_id j) w4 = e_execute E h r (j_id j) w4"
      unfolding agree_on_permitted_def by blast
    then show ?thesis
      by (simp add: externalM_def)
  qed
  show ?thesis
    unfolding execute_guarded_def env_simps
    by (auto intro!: bindM_congI call split: prod.splits)
qed

lemma process_claimed_agree:
  assumes "agree_on_permitted E ow x"
  shows "process_claimed_remediation (E\<lparr>e_execute := x\<rparr>) r h ow = process_claimed_remediation E r h ow"
proof -
  have "execute_guarded (E\<lparr>e_execute := x\<rparr>) sn ow = execute_guarded E sn ow" for sn
    using execute_guarded_agree [OF assms] by blast
  then show ?thesis
    unfolding process_claimed_remediation_def env_simps by simp
qed

lemma run_claimed_agree:
  assumes "agree_on_permitted E ow x"
  shows "run_claimed_remediation (E\<lparr>e_execute := x\<rparr>) job ow = run_claimed_remediation E job ow"
  unfolding run_claimed_remediation_def env_simps process_claimed_agree [OF assms] by (rule refl)

text \<open>C1: The executor is called only for a plan that may be executed. Replacing it by any
  other that agrees on the permitted calls changes nothing a worker does with a job: not its
  result, not the store, not an exception. A permitted call is one where, at that moment, the
  worker's job is running under its own lease, the plan passed is the stored plan of the job,
  the host passed is the stored host of the plan, the host has no unacknowledged rollback
  failure, and the gate allows the plan, host and job together.\<close>

theorem executor_called_only_when_permitted:
  assumes "agree_on_permitted E owner x" and "owner \<noteq> []"
  shows "process_remediation (E\<lparr>e_execute := x\<rparr>) job_id (Some owner) w =
         process_remediation E job_id (Some owner) w"
proof -
  have own: "(if truthy (Some owner) then returnM (or_empty (Some owner)) else m) = returnM owner"
    for m :: "string comp"
    using assms(2) by simp
  show ?thesis
    unfolding process_remediation_def env_simps own bindM_returnM run_claimed_agree [OF assms(1)]
    by (rule refl)
qed

text \<open>An executor that refuses every call the gate does not permit.\<close>

definition refusing_executor ::
  "env \<Rightarrow> string \<Rightarrow> host \<Rightarrow> remediation \<Rightarrow> string \<Rightarrow> execution_result comp" where
  "refusing_executor E owner h r i w =
     (if may_execute E owner h r i w then e_execute E h r i w
      else (Inl (OtherError ''not permitted''), w))"

lemma executor_called_only_when_permitted_witness:
  "process_remediation ((sample_env [])\<lparr>e_execute := refusing_executor (sample_env []) ''w1''\<rparr>)
     ''job-1'' (Some ''w1'') queued_world =
   process_remediation (sample_env []) ''job-1'' (Some ''w1'') queued_world"
  by (rule executor_called_only_when_permitted)
    (simp_all add: agree_on_permitted_def refusing_executor_def)

subsection \<open>Drift\<close>

text \<open>Collected evidence always differs from the snapshot \<open>a\<close>.\<close>

definition always_drifted :: "env \<Rightarrow> host_snapshot \<Rightarrow> bool" where
  "always_drifted E a \<longleftrightarrow>
     (\<forall>h i j w ce w'. e_collect E h i j w = (Inr ce, w') \<longrightarrow>
        \<not> gd_allowed (drift (Some a) (Some (ce_snapshot ce))))"

lemma always_driftedD:
  "e_collect E h i j w = (Inr ce, w') \<Longrightarrow> always_drifted E a \<Longrightarrow>
     \<not> gd_allowed (drift (Some a) (Some (ce_snapshot ce)))"
  unfolding always_drifted_def by blast

lemma check_drift_fails:
  assumes "get_scan (w_store w) (or_empty (r_scan_id r)) = Some scan"
    and "get_snapshot (w_store w) (or_empty (s_snapshot_id scan)) = Some a"
    and "always_drifted E a"
  shows "\<exists>e. fst (check_drift E r h ow w) = Inl e"
proof (rule ccontr)
  assume "\<not> ?thesis"
  then obtain u w' where "check_drift E r h ow w = (Inr u, w')"
    by (metis prod.collapse sum.exhaust_sel)
  with assms show False
    by (auto simp: check_drift_def bindM_eq_Inr comp_simps scan_of_def externalM_eq_Inr
        require_allowed_def split: option.splits if_splits dest!: always_driftedD)
qed

text \<open>When the drift check of a remediation cannot succeed while the evidence tables stay as they
  are, the remediation stops there.\<close>

lemma stopped_at_drift:
  assumes "\<And>s t w'. t_scans (w_store w') = t_scans (w_store w) \<Longrightarrow> t_snapshots (w_store w') = t_snapshots (w_store w) \<Longrightarrow>
      \<exists>e. fst (check_drift E (r\<lparr>r_execution_state := s, r_updated_at := t\<rparr>) h ow w') = Inl e"
  shows "process_claimed_remediation (E\<lparr>e_execute := x, e_create_snapshot := y\<rparr>) r h ow w =
         process_claimed_remediation E r h ow w \<and>
         (\<exists>e. fst (process_claimed_remediation E r h ow w) = Inl e)"
proof -
  define P where "P s \<longleftrightarrow> t_scans s = t_scans (w_store w) \<and> t_snapshots s = t_snapshots (w_store w)"
    for s :: store
  have P: "P (w_store w)" by (simp add: P_def)
  have keep: "preserves P (save_claimed_job ow)" "preserves P (mutate_job f)"
    "preserves P (writeM (save_remediation q))" "preserves P (sync_campaigns_for_remediation E i b)"
    for f q i b
    unfolding P_def mutate_job_def
    by (intro preserves_intros evidence.save_claimed_kept evidence.sync_campaigns_kept
        evidence.kept; simp)+
  have stop: "\<exists>e. fst (check_drift E (r\<lparr>r_execution_state := s, r_updated_at := t\<rparr>) h ow w') = Inl e"
    if "P (w_store w')" for s t w'
    using that by (intro assms) (simp_all add: P_def)
  have same: "bindM (check_drift E (r\<lparr>r_execution_state := s, r_updated_at := t\<rparr>) h ow) f w' =
      bindM (check_drift E (r\<lparr>r_execution_state := s, r_updated_at := t\<rparr>) h ow) g w'"
    if "P (w_store w')" for f g s t w'
    using stop [OF that, where s = s and t = t] by (auto simp: bindM_def split: prod.split)
  have "process_claimed_remediation (E\<lparr>e_execute := x, e_create_snapshot := y\<rparr>) r h ow w =
      process_claimed_remediation E r h ow w"
    unfolding process_claimed_remediation_def env_simps Let_def
    by (rule bindM_keepI [of P] keep same P preserves_basic | assumption)+
  moreover have "\<exists>e. fst (process_claimed_remediation E r h ow w) = Inl e"
    unfolding process_claimed_remediation_def Let_def
    by (rule bindM_fails_first stop bindM_fails [of P] keep P preserves_basic | assumption)+
  ultimately show ?thesis by blast
qed

text \<open>C4: A host that changed after its plan was approved is left alone. If whatever is collected
  differs from the snapshot of the plan's scan, the worker stops with an exception, and what
  it does depends neither on the executor nor on the provider's snapshot creation: neither is
  called.\<close>

theorem drifted_host_is_left_alone:
  assumes "get_scan (w_store w) (or_empty (r_scan_id r)) = Some scan"
    and "get_snapshot (w_store w) (or_empty (s_snapshot_id scan)) = Some a"
    and "always_drifted E a"
  shows "process_claimed_remediation (E\<lparr>e_execute := x, e_create_snapshot := y\<rparr>) r h ow w =
         process_claimed_remediation E r h ow w \<and>
         (\<exists>e. fst (process_claimed_remediation E r h ow w) = Inl e)"
  by (rule stopped_at_drift, rule check_drift_fails)
    (use assms in \<open>simp_all add: get_scan_def get_snapshot_def\<close>)

lemma drifted_host_is_left_alone_witness:
  "\<exists>e. fst (process_claimed_remediation (sample_env [''ssh'']) approved_plan sample_host ''w1''
     queued_world) = Inl e"
proof -
  have "always_drifted (sample_env [''ssh'']) (sample_evidence [])"
    by (auto simp: always_drifted_def sample_env_def comp_simps sample_evidence_def drift_def
        gate_simps)
  from drifted_host_is_left_alone [OF _ _ this, of queued_world approved_plan sample_scan]
  show ?thesis
    by (simp add: queued_world_def sample_world_def sample_store_def get_scan_def get_snapshot_def
        approved_plan_def sample_plan_base_def sample_scan_def)
qed

subsection \<open>Preparing a job\<close>

lemma new_job_bound:
  assumes "gd_allowed (execution_eligibility H r h None f)"
  shows "gd_allowed (execution_eligibility H r h (Some (remediation_job n st h r cid t)) f)"
  using assms
  by (auto simp: eligible_iff gate_iffs job_bound_def remediation_job_def new_job_def plan_approved_def)

text \<open>C5: A job an operator obtains for a plan is a job of this very plan. If the operation returns
  a job, the stored plan and its host were eligible for execution at that moment, the job
  carries the key of the plan's id and hash and belongs to the campaign asked for; and unless
  a job with that key already existed, the gate allows the plan, host and new job together,
  no attempt has been made, and the job waits exactly when the plan's maintenance window is
  closed.\<close>

theorem prepared_job_is_bound:
  assumes "prepare_remediation_job E i actor cid sync w = (Inr j, w')"
  shows "\<exists>r h. get_remediation (w_store w) i = Some r \<and> get_host (w_store w) (r_host_id r) = Some h \<and>
    \<not> host_has_active_rollback_failure (w_store w) (h_id h) \<and>
    gd_allowed (execution_eligibility (e_H E) r h None False) \<and>
    (mem_get_by_idempotency (t_jobs (w_store w)) (remediation_key r) = Some j \<and> j_campaign_id j = cid \<or>
     mem_get_by_idempotency (t_jobs (w_store w)) (remediation_key r) = None \<and>
       j_idempotency_key j = remediation_key r \<and> j_campaign_id j = cid \<and> j_attempts j = 0 \<and>
       gd_allowed (execution_eligibility (e_H E) r h (Some j) False) \<and>
       (\<exists>now is_open. maintenance_window_is_open (e_tz E) r now = Inr is_open \<and>
          j_status j = (if is_open then ''queued'' else ''scheduled'')))"
proof -
  obtain k fresh w1 where t: "transactionM (prepare_in_transaction E i actor cid) w = (Inr (j, k, fresh), w1)"
    using assms by (auto simp: prepare_remediation_job_def bindM_eq_Inr comp_simps)
  obtain w0 w2 where w0: "w_store w0 = w_store w"
    and p: "prepare_in_transaction E i actor cid w0 = (Inr (j, k, fresh), w2)"
    using transactionM_Inr [OF t] by metis
  obtain r h w3 where r: "get_remediation (w_store w) i = Some r" "get_host (w_store w) (r_host_id r) = Some h"
      "\<not> host_has_active_rollback_failure (w_store w) (h_id h)"
    and e: "gd_allowed (execution_eligibility (e_H E) r h None False)"
    and q: "w_store w3 = w_store w" "queue_plan E h r actor cid w3 = (Inr (j, k, fresh), w2)"
    using prepare_in_transaction_Inr [OF p] unfolding w0 by metis
  note out = queue_plan_Inr [OF q(2)]
  show ?thesis
  proof (cases fresh)
    case False
    with out r e q(1) show ?thesis by auto
  next
    case True
    then obtain n now td where j: "j = remediation_job n (td_job_status td) h r cid now"
      and td: "timing (e_tz E) r now = Inr td"
      and none: "mem_get_by_idempotency (t_jobs (w_store w)) (remediation_key r) = None"
      using out(3) q(1) by auto
    obtain b where b: "maintenance_window_is_open (e_tz E) r now = Inr b"
      and s: "td_job_status td = (if b then ''queued'' else ''scheduled'')"
      using td by (auto simp: timing_def split: sum.splits if_splits)
    have "j_idempotency_key j = remediation_key r" "j_campaign_id j = cid" "j_attempts j = 0"
      "j_status j = td_job_status td"
      by (simp_all add: j remediation_job_def new_job_def)
    with new_job_bound [OF e] r e none b s show ?thesis
      unfolding j by (intro exI conjI disjI2) auto
  qed
qed

lemma prepared_job_is_bound_witness:
  "\<exists>j. fst prepared = Inr j \<and> (\<exists>r. get_remediation (sample_store approved_plan []) ''rem-1'' = Some r \<and>
     gd_allowed (execution_eligibility flat_digest r sample_host None False) \<and>
     j_idempotency_key j = remediation_key r)"
proof -
  obtain j w' where p: "prepared = (Inr j, w')"
    using sample_prepared by (rule returnedE)
  then have "fst prepared = Inr j" by (metis fst_conv)
  with prepared_job_is_bound [OF p [unfolded prepared_def]] show ?thesis
    by (intro exI [of _ j]) (auto simp: sample_runs)
qed

text \<open>The store after a plan was queued, as the next request sees it.\<close>

lemma queued_store_reads:
  "get_remediation (queued_store s r j a) i =
     (if i = r_id r then Some r else get_remediation s i)"
  "get_host (queued_store s r j a) i = get_host s i"
  "host_has_active_rollback_failure (queued_store s r j a) i = host_has_active_rollback_failure s i"
  "t_jobs (queued_store s r j a) = dict_set (j_id j) j (t_jobs s)"
  by (simp_all add: queued_store_def save_audit_def save_remediation_def get_remediation_def
      get_host_def host_has_active_rollback_failure_def list_alerts_def)

lemma find_set_new:
  assumes "List.find P (dict_values d) = None" "P v"
  shows "List.find P (dict_values (dict_set k v d)) = Some v"
  using assms by (induction d) (auto split: if_splits)

lemma eligibility_execution_state:
  "gd_allowed (execution_eligibility H (r\<lparr>r_execution_state := st\<rparr>) h None f) \<longleftrightarrow>
   gd_allowed (execution_eligibility H r h None f)"
proof -
  let ?r = "r\<lparr>r_execution_state := st\<rparr>"
  have "snapshot_requirement h ?r = snapshot_requirement h r"
    by (rule snapshot_requirement_cong) (simp_all add: reboot_risk_def)
  then show ?thesis
    by (simp add: eligible_iff approval_decision_iff cataloged_def evidenced_def plan_approved_def
        reboot_approved_def reboot_risk_def plan_hash_approval_fields)
qed

text \<open>What a transaction that finds an eligible plan with a job does.\<close>

lemma prepare_again:
  assumes "get_remediation (w_store w) i = Some r" "get_host (w_store w) (r_host_id r) = Some h"
    and "\<not> host_has_active_rollback_failure (w_store w) (h_id h)"
    and "gd_allowed (execution_eligibility (e_H E) r h None False)"
    and "mem_get_by_idempotency (t_jobs (w_store w)) (remediation_key r) = Some j" "j_campaign_id j = cid"
  shows "prepare_in_transaction E i actor cid w = (Inr (j, r_id r, False), w\<lparr>w_tick := w_tick w + 2\<rparr>)"
proof -
  have "plan_settled (e_H E) r"
    using assms(4) by (auto simp: eligible_iff gate_iffs plan_approved_def plan_settled_def
        content_drifted_def approval_binding_drifted_def)
  then have d: "trusted_execution_decision E r h None w' =
      (Inr (execution_eligibility (e_H E) r h None
              (host_has_active_rollback_failure (w_store w') (h_id h)), r), w'\<lparr>w_tick := w_tick w' + 1\<rparr>)" for w'
    using reconcile_changed_iff [of "e_H E" r] reconcile_settled [of "e_H E" r]
    by (simp add: trusted_execution_decision_def ensure_current_remediation_plan_def bindM_def
        comp_simps Let_def)
  show ?thesis
    using assms
    by (simp add: prepare_in_transaction_def queue_plan_def bindM_def comp_simps remediation_of_def
        host_of_def d raise_gate_denial_def duplicate_execution_def allow_def)
qed

text \<open>Preparing a plan's job twice queues it once. When the operation returned a job, running
  it again for the same plan and campaign returns the same job and changes nothing in the
  store, provided the plan is stored under its own id.\<close>

theorem prepare_is_idempotent:
  assumes "prepare_remediation_job E i actor cid False w = (Inr j, w')"
    and "\<And>r. get_remediation (w_store w) i = Some r \<Longrightarrow> r_id r = i"
  shows "\<exists>w''. prepare_remediation_job E i actor' cid False w' = (Inr j, w'') \<and>
           w_store w'' = w_store w'"
proof -
  obtain k fresh where t: "transactionM (prepare_in_transaction E i actor cid) w = (Inr (j, k, fresh), w')"
    using assms(1) by (auto simp: prepare_remediation_job_def bindM_eq_Inr comp_simps)
  obtain w0 w2 where w0: "w_store w0 = w_store w" and w2: "w_store w' = w_store w2"
    and p: "prepare_in_transaction E i actor cid w0 = (Inr (j, k, fresh), w2)"
    using transactionM_Inr [OF t] by metis
  obtain r h w3 where r: "get_remediation (w_store w) i = Some r" "get_host (w_store w) (r_host_id r) = Some h"
      "\<not> host_has_active_rollback_failure (w_store w) (h_id h)"
    and e: "gd_allowed (execution_eligibility (e_H E) r h None False)"
    and q: "w_store w3 = w_store w" "queue_plan E h r actor cid w3 = (Inr (j, k, fresh), w2)"
    using prepare_in_transaction_Inr [OF p] unfolding w0 by metis
  note out = queue_plan_Inr [OF q(2), unfolded q(1)]
  have "\<exists>r'. get_remediation (w_store w') i = Some r' \<and> get_host (w_store w') (r_host_id r') = Some h \<and>
      \<not> host_has_active_rollback_failure (w_store w') (h_id h) \<and>
      gd_allowed (execution_eligibility (e_H E) r' h None False) \<and>
      mem_get_by_idempotency (t_jobs (w_store w')) (remediation_key r') = Some j \<and> j_campaign_id j = cid"
  proof (cases fresh)
    case False
    with out(2) r e show ?thesis by (auto simp: w2)
  next
    case True
    then obtain n now a and td :: timing_decision where j: "j = remediation_job n (td_job_status td) h r cid now"
      and none: "mem_get_by_idempotency (t_jobs (w_store w)) (remediation_key r) = None"
      and s: "w_store w2 = queued_store (w_store w)
                (r\<lparr>r_execution_state := td_remediation_state td\<rparr>) j a"
      using out(3) [OF True] by blast
    let ?r = "r\<lparr>r_execution_state := td_remediation_state td\<rparr>"
    have key: "remediation_key ?r = remediation_key r" "j_idempotency_key j = remediation_key r"
      "j_campaign_id j = cid"
      by (simp_all add: remediation_key_def j remediation_job_def new_job_def)
    have "gd_allowed (execution_eligibility (e_H E) ?r h None False)"
      using e by (simp add: eligibility_execution_state)
    moreover have "r_id r = i" by (rule assms(2)) (rule r)
    moreover have "mem_get_by_idempotency (dict_set (j_id j) j (t_jobs (w_store w))) (remediation_key r) = Some j"
      using none key unfolding mem_get_by_idempotency_def by (intro find_set_new) auto
    ultimately show ?thesis
      using r e key by (intro exI [of _ ?r]) (simp add: w2 s queued_store_reads)
  qed
  then obtain r' where r': "get_remediation (w_store w') i = Some r'" "get_host (w_store w') (r_host_id r') = Some h"
      "\<not> host_has_active_rollback_failure (w_store w') (h_id h)"
      "gd_allowed (execution_eligibility (e_H E) r' h None False)"
      "mem_get_by_idempotency (t_jobs (w_store w')) (remediation_key r') = Some j" "j_campaign_id j = cid"
    by blast
  show ?thesis
    by (simp add: prepare_remediation_job_def transactionM_def bindM_def comp_simps
        prepare_again [of "w'\<lparr>w_tx := True\<rparr>", simplified, OF r'] prepare_again [OF r'])
qed

lemma prepare_is_idempotent_witness:
  "\<exists>j. fst prepared = Inr j \<and>
     fst (prepare_remediation_job (sample_env []) ''rem-1'' ''eve'' None False (snd prepared)) = Inr j"
proof -
  obtain j w' where p: "prepared = (Inr j, w')"
    using sample_prepared by (rule returnedE)
  have "r_id r = ''rem-1''" if "get_remediation (w_store (sample_world approved_plan [])) ''rem-1'' = Some r" for r
    using that by (auto simp: sample_runs)
  from prepare_is_idempotent [OF p [unfolded prepared_def] this, of "''eve''"] show ?thesis
    unfolding p by auto
qed

subsection \<open>A denial inside the transaction\<close>

text \<open>C9: An invalidation found while preparing a job is not kept. If the stored plan's content or
  approval binding has drifted, the trusted decision on its own revokes the approval and
  stores the revoked plan; but \<open>prepare_remediation_job\<close> makes it inside a transaction and then
  raises the denial, so the SQL repository restores the store: the operator is denied, while
  the stored plan is still the approved one and no audit entry is left.\<close>

theorem prepare_discards_invalidation:
  assumes "\<not> w_tx w" and "get_remediation (w_store w) i = Some r"
    and "get_host (w_store w) (r_host_id r) = Some h" and "\<not> plan_settled (e_H E) r"
  shows "(\<exists>d w'. prepare_remediation_job E i actor cid sync w = (Inl (GateDenied d), w') \<and>
            w_store w' = w_store w) \<and>
         (\<exists>d r' w'. trusted_execution_decision E r h None w = (Inr (d, r'), w') \<and> \<not> gd_allowed d \<and>
            r_approval_state r' = ''pending'' \<and> get_remediation (w_store w') (r_id r) = Some r')"
proof -
  have changed: "pr_changed (reconcile_plan (e_H E) r t)" for t
    using assms(4) by (simp add: reconcile_changed_iff)
  have id: "r_id (revoke_approval x t) = r_id x" "r_id (bump_plan H x) = r_id x" for x t H
    by (simp_all add: revoke_approval_def bump_plan_def clear_reboot_approval_def Let_def)
  have plan: "r_approval_state (pr_remediation (reconcile_plan (e_H E) r t)) = ''pending'' \<and>
      r_id (pr_remediation (reconcile_plan (e_H E) r t)) = r_id r \<and>
      \<not> gd_allowed (pr_decision (reconcile_plan (e_H E) r t))" for t
    using assms(4) by (auto simp: reconcile_plan_def plan_settled_def Let_def gate_simps id)
  have d: "\<exists>d r' w2. trusted_execution_decision E r h None w1 = (Inr (d, r'), w2) \<and> \<not> gd_allowed d \<and>
      r_approval_state r' = ''pending'' \<and> get_remediation (w_store w2) (r_id r) = Some r'" for w1
    using changed plan
    by (simp add: trusted_execution_decision_def ensure_current_remediation_plan_def bindM_def
        comp_simps Let_def audit_def new_id_def save_audit_def save_remediation_def
        get_remediation_def)
  then obtain d1 r1 w1 where 1: "trusted_execution_decision E r h None (w\<lparr>w_tx := True\<rparr>) = (Inr (d1, r1), w1)"
    "\<not> gd_allowed d1" by blast
  then have "prepare_in_transaction E i actor cid (w\<lparr>w_tx := True\<rparr>) = (Inl (GateDenied d1), w1)"
    using assms(2,3) by (simp add: prepare_in_transaction_def remediation_of_def host_of_def
        bindM_def comp_simps raise_gate_denial_def)
  with assms(1) have "prepare_remediation_job E i actor cid sync w =
      (Inl (GateDenied d1), w1\<lparr>w_store := w_store w, w_tx := False\<rparr>)"
    by (simp add: prepare_remediation_job_def transactionM_def bindM_def)
  with d [of w] show ?thesis by (simp; blast?)
qed

text \<open>The approved plan under a hash its content no longer has.\<close>

definition tampered_plan :: remediation where
  "tampered_plan = approved_plan\<lparr>r_plan_hash := ''stale'', r_approved_plan_hash := Some ''stale''\<rparr>"

lemma prepare_discards_invalidation_witness:
  "\<exists>d w'. prepare_remediation_job (sample_env []) ''rem-1'' ''bob'' None True
     (sample_world tampered_plan []) = (Inl (GateDenied d), w') \<and>
     get_remediation (w_store w') ''rem-1'' = Some tampered_plan"
proof -
  have id: "r_id tampered_plan = ''rem-1''" "r_host_id tampered_plan = ''host-1''"
    by (simp_all add: tampered_plan_def sample_runs)
  have "\<not> plan_settled flat_digest tampered_plan"
    by (simp add: plan_settled_def content_drifted_def plan_hash_flat)
      (simp add: tampered_plan_def approved_plan_def)
  then show ?thesis
    using prepare_discards_invalidation [of "sample_world tampered_plan []" "''rem-1''" tampered_plan
        sample_host "sample_env []" "''bob''" None True]
      sample_reads(5) [of tampered_plan "[]"]
    by (auto simp: sample_reads(1-4,6) id)
qed

subsection \<open>Failing a job\<close>

text \<open>What \<open>fail_job\<close> leaves of a job whose save was accepted.\<close>

definition failed_or_retried :: "durable_job \<Rightarrow> bool \<Rightarrow> string \<Rightarrow> durable_job \<Rightarrow> bool" where
  "failed_or_retried j retryable category j' \<longleftrightarrow>
     j_id j' = j_id j \<and> j_attempts j' = j_attempts j \<and> j_max_attempts j' = j_max_attempts j \<and>
     j_lease_owner j' = None \<and> j_lease_expires_at j' = None \<and>
     map_option jf_category (j_last_failure j') = Some category \<and>
     (if retryable \<and> j_attempts j < j_max_attempts j
      then j_status j' = ''queued'' \<and> j_error j' = None \<and> j_completed_at j' = None
      else j_status j' = ''failed'' \<and> j_error j' \<noteq> None \<and> j_completed_at j' \<noteq> None)"

lemma failed_job_shape: "failed_or_retried j retryable category (failed_job j e retryable category t)"
  by (simp add: failed_or_retried_def failed_job_def Let_def)

text \<open>Settling a failed job either finds the lease lost or stores the job, with an alert when it has
  failed for good.\<close>

lemma settled_failed_job:
  assumes settle: "settle_failed_job E fj hid lo retry w1 = (Inr j', w')"
    and stopped: "j_status fj \<noteq> ''running''"
  shows "(w_store w' = w_store w1 \<and> mem_get (t_jobs (w_store w1)) (j_id fj) = Some j') \<or>
    (j' = fj \<and> mem_get (t_jobs (w_store w')) (j_id fj) = Some fj \<and>
     (\<not> retry \<longrightarrow> (\<exists>a \<in> set (list_alerts (w_store w')). al_severity a = SevCritical \<and>
        al_job_id a = Some (j_id fj) \<and> \<not> al_acknowledged a)))"
proof -
  obtain out w2 where save: "save_job fj lo w1 = (Inr out, w2)"
    and rest: "(if out = None then stored_job (j_id fj)
      else if retry then bindM (audit E ''system'' ''job.retry_scheduled'' ''job'' (Some (j_id fj))
                [(''attempt'', JInt (j_attempts fj)), (''max_attempts'', JInt (j_max_attempts fj)),
                 (''error'', opt_json (\<lambda>f. JStr (jf_message f)) (j_last_failure fj))]) (\<lambda>_. returnM fj)
      else bindM (record_terminal_job_failure E fj (Some hid)) (\<lambda>_. returnM fj)) w2 = (Inr j', w')"
    using settle unfolding settle_failed_job_def bindM_eq_Inr by blast
  note saved = save_job_Inr [OF save]
  show ?thesis
  proof (cases out)
    case None
    with saved rest show ?thesis
      by (auto simp: stored_job_def bindM_eq_Inr comp_simps split: option.splits)
  next
    case (Some j1)
    with saved save_outcome_stopped [OF _ stopped] have "j1 = fj" by metis
    with saved Some have w2: "w_store w2 = (w_store w1)\<lparr>t_jobs := dict_set (j_id fj) fj (t_jobs (w_store w1))\<rparr>"
      by simp
    show ?thesis
    proof (cases retry)
      case True
      with rest Some w2 show ?thesis
        by (auto simp: bindM_eq_Inr comp_simps mem_get_def save_audit_def dest!: audit_Inr)
    next
      case False
      with rest Some obtain a b where "j' = fj" and a: "al_severity a = SevCritical"
        "al_job_id a = Some (j_id fj)" "\<not> al_acknowledged a"
        and w': "w_store w' = save_audit b (save_alert a (w_store w2))"
        by (auto simp: bindM_eq_Inr comp_simps record_terminal_job_failure_def
            dest!: audit_Inr create_alert_Inr)
      moreover have "a \<in> set (list_alerts (w_store w'))"
        using alert_listed [of a "w_store w2"] by (simp add: w' list_alerts_def save_audit_def)
      ultimately show ?thesis
        using w2 by (auto simp: mem_get_def save_audit_def save_alert_def)
    qed
  qed
qed

text \<open>C7: A failed attempt is retried exactly while attempts are left. When \<open>fail_job\<close> returns,
  either the lease was lost, and then the store is unchanged and the stored job is returned;
  or the returned job is the stored one, it is off its lease with the failure recorded, it is
  queued again exactly when the failure is retryable and fewer attempts than allowed were
  made, and otherwise it has failed for good and an unacknowledged critical alert names it.\<close>

theorem fail_job_outcome:
  assumes "fail_job E j err hid lo retryable category w = (Inr j', w')"
  shows "(w_store w' = w_store w \<and> mem_get (t_jobs (w_store w)) (j_id j) = Some j') \<or>
    (mem_get (t_jobs (w_store w')) (j_id j) = Some j' \<and> failed_or_retried j retryable category j' \<and>
     (j_status j' = ''failed'' \<longrightarrow>
        (\<exists>a \<in> set (list_alerts (w_store w')). al_severity a = SevCritical \<and>
           al_job_id a = Some (j_id j) \<and> \<not> al_acknowledged a)))"
proof -
  let ?retry = "retryable \<and> j_attempts j < j_max_attempts j"
  obtain now safe w1 where w1: "w_store w1 = w_store w"
    and settle: "settle_failed_job E (failed_job j safe retryable category now) hid lo ?retry w1 = (Inr j', w')"
    using assms unfolding fail_job_def bindM_eq_Inr by (metis utc_now_Inr redact_Inr)
  let ?j = "failed_job j safe retryable category now"
  note shape = failed_job_shape [of j retryable category safe now]
  then have "j_id ?j = j_id j" "j_status ?j \<noteq> ''running''" "?retry \<longrightarrow> j_status ?j \<noteq> ''failed''"
    by (auto simp: failed_or_retried_def split: if_splits)
  with settled_failed_job [OF settle] shape w1 show ?thesis
    by auto
qed

lemma fail_job_outcome_witness:
  "\<exists>j w'. fail_job (sample_env []) queued_job ''boom'' ''host-1'' None True ''x''
     (sample_world approved_plan []) = (Inr j, w') \<and> j_status j = ''queued''"
proof -
  have "returned (fail_job (sample_env []) queued_job ''boom'' ''host-1'' None True ''x''
      (sample_world approved_plan []))"
    by (simp add: returned_def fail_job_def settle_failed_job_def failed_job_def queued_job_def
        remediation_job_def new_job_def redact_def sample_runs run_defs Let_def)
  then obtain j w' where f: "fail_job (sample_env []) queued_job ''boom'' ''host-1'' None True ''x''
      (sample_world approved_plan []) = (Inr j, w')"
    by (rule returnedE)
  have "j_attempts queued_job < j_max_attempts queued_job"
    by (simp add: queued_job_def remediation_job_def new_job_def)
  with fail_job_outcome [OF f] f show ?thesis
    by (auto simp: sample_runs mem_get_def failed_or_retried_def)
qed

subsection \<open>Recovery and release\<close>

text \<open>The plan of a job has not been started on its host, as far as the job's record tells.\<close>

definition not_mutated :: "store \<Rightarrow> durable_job \<Rightarrow> bool" where
  "not_mutated s j \<longleftrightarrow>
     (j_job_type j = ''remediation'' \<and> get_remediation s (or_empty (j_remediation_id j)) \<noteq> None \<longrightarrow>
        recovered_phase j \<notin> JStr ` set mutation_phases)"

lemma recovered_not_mutated:
  assumes run: "foldM (recover_one E t) [] rs w = (Inr js, w')"
    and plans: "\<forall>i. get_remediation s i \<noteq> None \<longrightarrow> get_remediation (w_store w) i \<noteq> None"
  shows "set js \<subseteq> set rs \<and> (\<forall>j \<in> set js. not_mutated s j)"
proof -
  let ?I = "\<lambda>js v. (\<forall>i. get_remediation s i \<noteq> None \<longrightarrow> get_remediation (w_store v) i \<noteq> None) \<and>
    set js \<subseteq> set rs \<and> (\<forall>j \<in> set js. not_mutated s j)"
  have "?I js w'"
  proof (rule foldM_invariant [OF run, where I = ?I])
    show "?I [] w"
      using plans by simp
  next
    fix b x v b' v'
    assume x: "x \<in> set rs" and I: "?I b v" and step: "recover_one E t b x v = (Inr b', v')"
    have "\<forall>i. get_remediation s i \<noteq> None \<longrightarrow> get_remediation (w_store v') i \<noteq> None"
      using I preservesD [OF plan_stored.recover_one_kept step] by blast
    moreover have "b' = b \<or> b' = b @ [x] \<and> not_mutated s x"
      using step I by (auto simp: recover_one_def recover_by_type_def bindM_eq_Inr comp_simps Let_def
          stale_recovery_def allow_def not_mutated_def split: if_splits option.splits)
    ultimately show "?I b' v'"
      using I x by auto
  qed
  then show ?thesis
    by blast
qed

text \<open>C6: Recovery hands back only jobs it is safe to run again. Every job \<open>recover_expired_jobs\<close>
  returns for dispatch was running under a lease that had expired, and is now queued with the
  failure recorded and attempts left; and if it is the job of a stored plan, its record does
  not place it in a phase that may have changed the host.\<close>

theorem recovery_dispatches_safely:
  assumes run: "recover_expired_jobs E (Some t) w = (Inr js, w')"
    and inv: "mem_inv (t_jobs (w_store w))"
  shows "\<forall>j \<in> set js. (\<exists>j0. mem_get (t_jobs (w_store w)) (j_id j0) = Some j0 \<and>
      expired_running j0 t \<and> j = recover_job j0 t \<and> j_attempts j < j_max_attempts j \<and> j_status j = ''queued'') \<and>
    (j_job_type j = ''remediation'' \<and>
     get_remediation (w_store w) (or_empty (j_remediation_id j)) \<noteq> None \<longrightarrow>
       recovered_phase j \<notin> JStr ` set mutation_phases)"
proof -
  obtain rs es jobs' w1 where rec: "mem_recover t (t_jobs (w_store w)) = ((rs, es), jobs')"
    and fold: "foldM (recover_one E t) [] rs (w\<lparr>w_store := (w_store w)\<lparr>t_jobs := jobs'\<rparr>\<rparr>) = (Inr js, w1)"
    using run by (auto simp: recover_expired_jobs_def bindM_eq_Inr jobsM_def comp_simps
        split: prod.splits)
  note laws = mem.recover_lists [OF inv rec]
  have "set js \<subseteq> set rs \<and> (\<forall>j \<in> set js. not_mutated (w_store w) j)"
    by (rule recovered_not_mutated [OF fold]) (simp add: get_remediation_def)
  moreover have "\<exists>j0. mem_get (t_jobs (w_store w)) (j_id j0) = Some j0 \<and> expired_running j0 t \<and>
      j = recover_job j0 t \<and> j_attempts j < j_max_attempts j \<and> j_status j = ''queued''" if "j \<in> set rs" for j
  proof -
    have "set (rs @ es) = {recover_job j t | i j. mem_get (t_jobs (w_store w)) i = Some j \<and> expired_running j t}"
      using laws by blast
    moreover have "j \<in> set (rs @ es)" using that by simp
    ultimately obtain i j0 where "mem_get (t_jobs (w_store w)) i = Some j0" "expired_running j0 t"
      "j = recover_job j0 t"
      by blast
    moreover from this have "j_id j0 = i" by (intro mem.get_id [OF inv])
    moreover have "j_status j = ''queued''" using that laws by blast
    ultimately show ?thesis
      by (intro exI [of _ j0]) (auto simp: store_simps split: if_splits)
  qed
  ultimately show ?thesis
    unfolding not_mutated_def by blast
qed

text \<open>A worker died while it was collecting evidence for the sample plan.\<close>

definition expired_job :: durable_job where
  "expired_job = queued_job\<lparr>j_status := ''running'', j_attempts := 1, j_lease_owner := Some ''w0'',
     j_lease_expires_at := Some (Aware 10), j_current_phase := Some ''state_drift_check''\<rparr>"

definition recovered_run :: "(exn + durable_job list) \<times> world" where
  "recovered_run = recover_expired_jobs (sample_env []) (Some (Aware 20))
     (sample_world approved_plan [(''job-1'', expired_job)])"

lemma sample_recovered:
  "case fst recovered_run of Inl e \<Rightarrow> False | Inr js \<Rightarrow> length js = 1 \<and>
     list_all (\<lambda>j. j_job_type j = ''remediation'' \<and> j_remediation_id j = Some ''rem-1'') js"
  by code_simp

lemma recovery_dispatches_safely_witness:
  "\<exists>js. fst recovered_run = Inr js \<and> length js = 1 \<and>
     (\<forall>j \<in> set js. recovered_phase j \<notin> JStr ` set mutation_phases)"
proof -
  obtain js where f: "fst recovered_run = Inr js" and js: "length js = 1"
    "\<forall>j \<in> set js. j_job_type j = ''remediation'' \<and> j_remediation_id j = Some ''rem-1''"
    using sample_recovered by (cases "fst recovered_run") (auto simp: list_all_iff)
  then have r: "recovered_run = (Inr js, snd recovered_run)"
    by (metis prod.collapse)
  have "mem_inv [(''job-1'', expired_job)]"
    by (simp add: mem_inv_def expired_job_def queued_job_def remediation_job_def new_job_def)
  with recovery_dispatches_safely [OF r [unfolded recovered_run_def]] js f show ?thesis
    by (auto simp: sample_runs)
qed

text \<open>A loop that appends: where an element of its result was appended.\<close>

lemma foldM_appended:
  assumes "foldM f b xs w = (Inr b', w')" "y \<in> set b'" "y \<notin> set b"
    and step: "\<And>b x w b' w'. f b x w = (Inr b', w') \<Longrightarrow> b' = b \<or> (\<exists>q. b' = b @ [q] \<and> R x q w)"
  shows "\<exists>earlier x later c v. xs = earlier @ x # later \<and> foldM f b earlier w = (Inr c, v) \<and> R x y v"
  using assms(1-3)
proof (induction xs arbitrary: b w)
  case Nil
  then show ?case by (simp add: comp_simps)
next
  case (Cons x xs)
  from Cons.prems(1) obtain b1 w1 where first: "f b x w = (Inr b1, w1)" and rest: "foldM f b1 xs w1 = (Inr b', w')"
    by (auto simp: bindM_eq_Inr)
  show ?case
  proof (cases "y \<in> set b1")
    case True
    with step [OF first] Cons.prems(3) have "R x y w"
      by auto
    moreover have "x # xs = [] @ x # xs" "foldM f b [] w = (Inr b, w)"
      by (simp_all add: comp_simps)
    ultimately show ?thesis
      by blast
  next
    case False
    from Cons.IH [OF rest Cons.prems(2) this] obtain earlier z later c v where
      "xs = earlier @ z # later" "foldM f b1 earlier w1 = (Inr c, v)" "R z y v"
      by blast
    with first show ?thesis
      by (intro exI [of _ "x # earlier"] exI [of _ z] exI [of _ later] exI [of _ c] exI [of _ v])
        (simp add: bindM_def)
  qed
qed

text \<open>What must hold where a job is queued: in the world \<open>v\<close> its plan and that plan's host are
  stored, no rollback of that host has failed, and the gate allows the job for exactly that plan
  and host, whose maintenance window is open.\<close>

definition may_be_released :: "env \<Rightarrow> datetime \<Rightarrow> durable_job \<Rightarrow> durable_job \<Rightarrow> world \<Rightarrow> bool" where
  "may_be_released E t j0 j v \<longleftrightarrow>
     j_job_type j0 = ''remediation'' \<and> j_status j0 = ''scheduled'' \<and>
     j = j0\<lparr>j_status := ''queued'', j_current_phase := None, j_updated_at := t\<rparr> \<and>
     (\<exists>r h. get_remediation (w_store v) (or_empty (j_remediation_id j0)) = Some r \<and>
        get_host (w_store v) (r_host_id r) = Some h \<and>
        \<not> host_has_active_rollback_failure (w_store v) (h_id h) \<and>
        gd_allowed (execution_eligibility (e_H E) r h (Some j0) False) \<and>
        maintenance_window_is_open (e_tz E) r t = Inr True)"

lemma release_step:
  assumes step: "release_remediation_job E t b x v = (Inr b', v')"
  shows "b' = b \<or> (\<exists>q. b' = b @ [q] \<and> may_be_released E t x q v)"
proof (cases "b' = b")
  case False
  let ?q = "x\<lparr>j_status := ''queued'', j_current_phase := None, j_updated_at := t\<rparr>"
  obtain r0 h d r w1 td where
    s: "j_job_type x = ''remediation''" "j_status x = ''scheduled''" and
    r0: "get_remediation (w_store v) (or_empty (j_remediation_id x)) = Some r0" and
    h: "get_host (w_store v) (r_host_id r0) = Some h" and
    d: "trusted_execution_decision E r0 h (Some x) v = (Inr (d, r), w1)" "gd_allowed d" and
    td: "timing (e_tz E) r t = Inr td" "gd_allowed (td_decision td)" and b': "b' = b @ [?q]"
    using step False
    by (auto simp: release_remediation_job_def bindM_eq_Inr comp_simps remediation_of_def host_of_def
        campaign_of_def Let_def split: if_splits option.splits)
  note t = trusted_decision_allowed [OF d]
  have e: "gd_allowed (execution_eligibility (e_H E) r0 h (Some x) False)"
    and f: "\<not> host_has_active_rollback_failure (w_store v) (h_id h)"
    using t d(2) by (cases "host_has_active_rollback_failure (w_store v) (h_id h)", auto)+
  have "maintenance_window_is_open (e_tz E) r0 t = Inr True"
    using td t by (auto simp: timing_def split: sum.splits if_splits)
  with b' s r0 h e f show ?thesis
    unfolding may_be_released_def by blast
qed simp

text \<open>C8: A released job may run now. Every job \<open>release_scheduled_remediation_jobs\<close> queues was a
  scheduled remediation job of the table it started from and is changed in nothing but its status,
  phase and time stamp. When its turn came, after the jobs before it in the table had been handled,
  the plan stored under the job's remediation id and the host stored for that plan were such that the
  gate allowed the job for this very plan and host, no rollback of the host had failed, and the
  plan's maintenance window was open at the given time.\<close>

theorem released_jobs_may_run:
  assumes "release_scheduled_remediation_jobs E (Some t) w = (Inr js, w')" and "j \<in> set js"
  shows "\<exists>earlier j0 later done v.
    dict_values (t_jobs (w_store w)) = earlier @ j0 # later \<and>
    foldM (release_remediation_job E t) [] earlier w = (Inr done, v) \<and>
    may_be_released E t j0 j v"
proof -
  have "foldM (release_remediation_job E t) [] (dict_values (t_jobs (w_store w))) w = (Inr js, w')"
    using assms(1) by (simp add: release_scheduled_remediation_jobs_def bindM_def comp_simps)
  from foldM_appended [OF this assms(2), where R = "may_be_released E t"] release_step show ?thesis
    by fastforce
qed

definition released_run :: "(exn + durable_job list) \<times> world" where
  "released_run = release_scheduled_remediation_jobs (sample_env []) (Some (Aware 20))
     (sample_world approved_plan [(''job-1'', queued_job\<lparr>j_status := ''scheduled''\<rparr>)])"

lemma sample_released: "case fst released_run of Inl e \<Rightarrow> False | Inr js \<Rightarrow> length js = 1"
  by code_simp

lemma released_jobs_may_run_witness:
  "\<exists>j. fst released_run = Inr [j] \<and> j_status j = ''queued'' \<and>
     gd_allowed (execution_eligibility flat_digest approved_plan sample_host
       (Some (queued_job\<lparr>j_status := ''scheduled''\<rparr>)) False)"
proof -
  obtain js where f: "fst released_run = Inr js" and js: "length js = 1"
    using sample_released by (cases "fst released_run") auto
  then obtain j where j: "js = [j]"
    by (auto simp: length_Suc_conv)
  from f have r: "released_run = (Inr js, snd released_run)"
    by (metis prod.collapse)
  let ?w = "sample_world approved_plan [(''job-1'', queued_job\<lparr>j_status := ''scheduled''\<rparr>)]"
  have "dict_values (t_jobs (w_store ?w)) = [queued_job\<lparr>j_status := ''scheduled''\<rparr>]"
    by (simp add: sample_runs)
  moreover obtain earlier j0 later b v where "dict_values (t_jobs (w_store ?w)) = earlier @ j0 # later"
    and run: "foldM (release_remediation_job (sample_env []) (Aware 20)) [] earlier ?w = (Inr b, v)"
    and may: "may_be_released (sample_env []) (Aware 20) j0 j v"
    using released_jobs_may_run [OF r [unfolded released_run_def], of j] j by auto
  ultimately have "j0 = queued_job\<lparr>j_status := ''scheduled''\<rparr>" "earlier = []"
    by (auto simp: append_eq_Cons_conv)
  with run may have "may_be_released (sample_env []) (Aware 20) (queued_job\<lparr>j_status := ''scheduled''\<rparr>) j ?w"
    by (simp add: comp_simps)
  then show ?thesis
    using f j by (auto simp: may_be_released_def sample_runs queued_job_def remediation_job_def new_job_def)
qed

end
