(* ===== verification/Processes.thy ===== *)
theory Processes
  imports ServiceSync PyText
begin

text \<open>
  What the collector, the executor and the snapshot provider share: running a program, the
  key of a host (\<open>ssh_utils.py\<close>), log events with the defaults of their class, and reading
  back the events an ansible run left behind.

  A program is a parameter: from its command line (and the variables set for it) to its
  return code and decoded output, or an exception. Temporary files are a path each; their
  permissions, contents and removal are not modelled.
\<close>

record process_output =
  po_returncode :: int
  po_stdout :: string
  po_stderr :: string

record playbook_run =
  pb_arguments :: "string list"
  pb_variables :: "(string \<times> string) list"

record processes =
  x_keyscan :: "string list \<Rightarrow> process_output comp"
  x_keygen :: "string list \<Rightarrow> string \<Rightarrow> process_output comp"
  x_ssh :: "string list \<Rightarrow> process_output comp"
  x_playbook :: "playbook_run \<Rightarrow> (process_output \<times> string) comp"
    \<comment> \<open>with the text of the event file its callback plugin wrote\<close>
  x_parse_event :: "string \<Rightarrow> structured_log_event option"  \<comment> \<open>\<open>model_validate_json\<close>\<close>
  x_path :: "nat \<Rightarrow> string"                                  \<comment> \<open>the paths \<open>mkstemp\<close> returns\<close>
  x_playbook_dir :: string
  x_callback_dir :: string

definition temp_path :: "processes \<Rightarrow> string comp" where
  "temp_path X w = (Inr (x_path X (w_uuid w)), w\<lparr>w_uuid := w_uuid w + 1\<rparr>)"

subsection \<open>Log events\<close>

text \<open>A \<open>StructuredLogEvent\<close> with the class's defaults.\<close>

definition log_event ::
  "string \<Rightarrow> datetime \<Rightarrow> host \<Rightarrow> string \<Rightarrow> string \<Rightarrow> string \<Rightarrow> structured_log_event" where
  "log_event i time h event_type category status =
     \<lparr>l_id = i, l_schema_version = ''1.0'', l_timestamp = time, l_duration_ms = 0,
      l_host_id = Some (h_id h), l_job_id = None, l_scan_id = None,
      l_remediation_id = None, l_agent_run_id = None, l_playbook_id = None, l_phase_id = None,
      l_task_id = None, l_event_type = event_type, l_evidence_category = category,
      l_severity = SevInfo, l_status = status, l_changed = False, l_return_code = None,
      l_retry_count = 0, l_failure_classification = None, l_command_description = None,
      l_before_value = JNull, l_after_value = JNull, l_stdout = [], l_stderr = [],
      l_raw_output = [], l_source = [], l_truncated = False, l_original_bytes = 0,
      l_redacted = False, l_simulated = False, l_externally_processed = False,
      l_reboot_relevance = ''none'', l_remediation_relevance = ''informational'',
      l_correlation_ids = []\<rparr>"

text \<open>A fresh id and time for an event of a host.\<close>

definition fresh_event ::
  "env \<Rightarrow> host \<Rightarrow> string \<Rightarrow> string \<Rightarrow> string \<Rightarrow> structured_log_event comp" where
  "fresh_event E h event_type category status =
     bindM (new_id E ''log'') (\<lambda>i.
     bindM (utc_now E) (\<lambda>now. returnM (log_event i now h event_type category status)))"

text \<open>The lines of an event file that parse; a line that does not is skipped.\<close>

definition parse_callback_events ::
  "env \<Rightarrow> processes \<Rightarrow> string \<Rightarrow> host \<Rightarrow> structured_log_event list" where
  "parse_callback_events E X content h =
     map (\<lambda>e. e_sanitize_log E e h) (List.map_filter (x_parse_event X) (splitlines content))"

text \<open>The streams of a process as one text: those that are not empty, stripped, one per line.\<close>

definition combined_output :: "process_output \<Rightarrow> string" where
  "combined_output p =
     join_str [CHR 0x0A] (map strip (filter (\<lambda>v. v \<noteq> []) [po_stdout p, po_stderr p]))"

subsection \<open>Host keys\<close>

definition scan_host_key :: "processes \<Rightarrow> string \<Rightarrow> int \<Rightarrow> (string \<times> string) comp" where
  "scan_host_key X address port =
     bindM (externalM (x_keyscan X [''ssh-keyscan'', ''-p'', dec_int port, ''-T'', ''10'', address]))
       (\<lambda>scan.
     if po_returncode scan \<noteq> 0 \<or> blank_bytes (po_stdout scan)
     then raiseM (RuntimeError (''Unable to read SSH host key: '' @ strip (po_stderr scan)))
     else case List.find (\<lambda>l. \<not> is_blank l) (splitlines (po_stdout scan)) of
       None \<Rightarrow> raiseM (RuntimeError ''coroutine raised StopIteration'')
     | Some first_line \<Rightarrow>
         bindM (externalM (x_keygen X [''ssh-keygen'', ''-lf'', ''-'', ''-E'', ''sha256'']
                             (first_line @ [CHR 0x0A]))) (\<lambda>fingerprint.
         if po_returncode fingerprint \<noteq> 0
         then raiseM (RuntimeError
                (''Unable to calculate SSH host fingerprint: '' @ strip (po_stderr fingerprint)))
         else case split_ws (po_stdout fingerprint) of
           _ # second # _ \<Rightarrow> returnM (first_line, second)
         | _ \<Rightarrow> raiseM (RuntimeError ''SSH host fingerprint output is malformed'')))"

text \<open>
  The key of a host is scanned again before every connection: the line for \<open>known_hosts\<close>,
  and whether the fingerprint is still the confirmed one.
\<close>

definition confirmed_key :: "processes \<Rightarrow> host \<Rightarrow> (string \<times> bool) comp" where
  "confirmed_key X h =
     bindM (scan_host_key X (h_address h) (h_port h)) (\<lambda>(known_line, fingerprint).
     returnM (known_line, Some fingerprint = h_ssh_host_key_fingerprint h))"

end
