(* ===== verification/Executor.thy ===== *)
theory Executor
  imports Processes Credentials
begin

text \<open>
  The executors of an approved plan (\<open>executor.py\<close>). The objects \<open>host\<close> and
  \<open>remediation\<close> are those of the caller and are never read again from the repository.
\<close>

definition approval_guard :: "(string \<Rightarrow> string) \<Rightarrow> host \<Rightarrow> remediation \<Rightarrow> string" where
  "approval_guard H h r =
     (let d = execution_eligibility H r h None False in if gd_allowed d then [] else gd_message d)"

definition failure_result :: "string \<Rightarrow> execution_result" where
  "failure_result summary =
     \<lparr>er_success = False, er_summary = summary, er_changed = False, er_reboot_performed = False,
      er_phases = [], er_events = [], er_failure_actions_taken = [''operator alert recorded'']\<rparr>"

definition ended :: "bool \<Rightarrow> string" where
  "ended success = (if success then ''succeeded'' else ''failed'')"

subsection \<open>The simulation\<close>

definition simulated_reboot :: "remediation \<Rightarrow> bool" where
  "simulated_reboot r \<longleftrightarrow> rb_status (r_reboot_assessment r) \<in> {''required'', ''required_after_patch''}"

definition simulated_phases :: "remediation \<Rightarrow> execution_phase list" where
  "simulated_phases r =
     (let phase = (\<lambda>name summary changed. \<lparr>ph_name = name, ph_state = ''succeeded'',
             ph_summary = summary, ph_output = [], ph_changed = changed\<rparr>)
      in [phase ''pre_patch_check'' ''Disk, package manager, and service baseline checks passed.'' False,
          phase ''package_upgrade''
            (py_title (r_update_scope r) @ '' package updates were simulated.'') True,
          phase ''reboot_required_check'' ''Post-patch reboot check completed.'' False] @
         (if simulated_reboot r
          then [phase ''reboot'' ''Approved reboot was simulated and connectivity returned.'' True]
          else []) @
         [phase ''post_patch_validation'' ''Package and service validation passed.'' False])"

definition simulated_event ::
  "env \<Rightarrow> host \<Rightarrow> remediation \<Rightarrow> string \<Rightarrow> execution_phase \<Rightarrow> structured_log_event comp" where
  "simulated_event E h r job_id ph =
     bindM (fresh_event E h ''ansible_task'' ''remediation'' (ph_state ph)) (\<lambda>e.
     returnM (e\<lparr>l_job_id := or_none job_id, l_scan_id := r_scan_id r,
       l_remediation_id := Some (r_id r), l_playbook_id := Some ''simulation'',
       l_phase_id := Some (ph_name ph), l_task_id := Some (''simulation.'' @ ph_name ph),
       l_changed := ph_changed ph, l_source := ''simulated-ansible'', l_simulated := True,
       l_reboot_relevance := (if ph_name ph = ''reboot'' then ''required'' else ''none''),
       l_remediation_relevance := ''execution'',
       l_correlation_ids := [(''job_id'', job_id), (''remediation_id'', r_id r)]\<rparr>))"

definition simulated_execute ::
  "env \<Rightarrow> host \<Rightarrow> remediation \<Rightarrow> string \<Rightarrow> execution_result comp" where
  "simulated_execute E h r job_id =
     (let guard_error = approval_guard (e_H E) h r in
      if guard_error \<noteq> [] then returnM (failure_result guard_error)
      else
        bindM (mapM (simulated_event E h r job_id) (simulated_phases r)) (\<lambda>events.
        returnM \<lparr>er_success = True, er_summary = ''Simulation completed. No host was changed.'',
          er_changed = True, er_reboot_performed = simulated_reboot r,
          er_phases = simulated_phases r, er_events = events, er_failure_actions_taken = []\<rparr>))"

subsection \<open>Running a playbook\<close>

definition playbook_catalog :: "(string, string) dict" where
  "playbook_catalog =
     [(''preflight'', ''pre-patch-check.yml''), (''security'', ''security-upgrade.yml''),
      (''all'', ''full-upgrade.yml''), (''reboot_check'', ''reboot-required-check.yml''),
      (''reboot'', ''reboot.yml''), (''validate'', ''post-patch-validation.yml''),
      (''recovery'', ''recovery-diagnostics.yml'')]"

text \<open>What stays the same over one execution.\<close>

record execution =
  xn_host :: host
  xn_plan :: remediation
  xn_job_id :: string
  xn_key_path :: string
  xn_known_hosts :: string

definition playbook_command :: "processes \<Rightarrow> execution \<Rightarrow> string \<Rightarrow> string \<Rightarrow> string \<Rightarrow> playbook_run" where
  "playbook_command X n phase_id playbook event_path =
     (let h = xn_host n; r = xn_plan n in
      \<lparr>pb_arguments =
         [''ansible-playbook'', ''-i'', h_address h @ '','', x_playbook_dir X @ ''/'' @ playbook,
          ''-u'', h_username h, ''--private-key'', xn_key_path n,
          ''-e'', ''ansible_port='' @ dec_int (h_port h),
          ''-e'', ''ansible_ssh_common_args=-o StrictHostKeyChecking=yes '' @
                ''-o UserKnownHostsFile='' @ xn_known_hosts n],
       pb_variables =
         [(''ANSIBLE_CALLBACK_PLUGINS'', x_callback_dir X),
          (''ANSIBLE_CALLBACKS_ENABLED'', ''ai_jsonl''),
          (''AI_SYSADM_EVENT_FILE'', event_path),
          (''AI_SYSADM_JOB_ID'', xn_job_id n),
          (''AI_SYSADM_HOST_ID'', h_id h),
          (''AI_SYSADM_SCAN_ID'', or_empty (r_scan_id r)),
          (''AI_SYSADM_REMEDIATION_ID'', r_id r),
          (''AI_SYSADM_PHASE_ID'', phase_id),
          (''AI_SYSADM_PLAYBOOK_ID'', path_stem playbook)]\<rparr>)"

text \<open>The event recorded when the callback plugin left none.\<close>

definition process_event ::
  "env \<Rightarrow> execution \<Rightarrow> string \<Rightarrow> string \<Rightarrow> process_output \<Rightarrow> structured_log_event comp" where
  "process_event E n phase_id playbook p =
     bindM (fresh_event E (xn_host n) ''ansible_process'' ''remediation''
              (ended (po_returncode p = 0))) (\<lambda>e.
     returnM (e_sanitize_log E
       (e\<lparr>l_job_id := or_none (xn_job_id n), l_scan_id := r_scan_id (xn_plan n),
          l_remediation_id := Some (r_id (xn_plan n)), l_playbook_id := Some (path_stem playbook),
          l_phase_id := Some phase_id,
          l_severity := (if po_returncode p = 0 then SevInfo else SevHigh),
          l_return_code := Some (po_returncode p), l_stdout := take 65536 (po_stdout p),
          l_stderr := take 65536 (po_stderr p), l_raw_output := take 131072 (combined_output p),
          l_source := ''ansible-playbook'', l_remediation_relevance := ''execution''\<rparr>)
       (xn_host n)))"

definition run_playbook ::
  "env \<Rightarrow> processes \<Rightarrow> execution \<Rightarrow> string \<Rightarrow> string \<Rightarrow>
   (bool \<times> string \<times> structured_log_event list) comp" where
  "run_playbook E X n phase_id playbook =
     bindM (temp_path X) (\<lambda>event_path.
     bindM (externalM (x_playbook X (playbook_command X n phase_id playbook event_path)))
       (\<lambda>(p, content).
     let safe_output = e_redact E (take 131072 (combined_output p)) (Some (xn_host n));
         events = parse_callback_events E X content (xn_host n) in
     bindM (if events = []
            then bindM (process_event E n phase_id playbook p) (\<lambda>e. returnM [e])
            else returnM events) (\<lambda>events'.
     returnM (po_returncode p = 0, safe_output, events'))))"

subsection \<open>The execution\<close>

record progress =
  px_phases :: "execution_phase list"
  px_events :: "structured_log_event list"
  px_changed :: bool

definition no_progress :: progress where
  "no_progress = \<lparr>px_phases = [], px_events = [], px_changed = False\<rparr>"

text \<open>\<open>_failure\<close>: recovery diagnostics, then the failed result.\<close>

definition failed_execution ::
  "env \<Rightarrow> processes \<Rightarrow> execution \<Rightarrow> progress \<Rightarrow> string \<Rightarrow> execution_result comp" where
  "failed_execution E X n p failed_phase =
     bindM (run_playbook E X n ''predefined_recovery'' ''recovery-diagnostics.yml'')
       (\<lambda>(success, output, recovery_events).
     returnM \<lparr>er_success = False,
       er_summary = ''Execution stopped after '' @ failed_phase @ '' failed.'',
       er_changed = px_changed p, er_reboot_performed = False,
       er_phases = px_phases p @ [\<lparr>ph_name = ''predefined_recovery'', ph_state = ended success,
         ph_summary = ''Recovery diagnostics were collected.'', ph_output = output,
         ph_changed = False\<rparr>],
       er_events = px_events p @ recovery_events,
       er_failure_actions_taken = [''remaining campaign hosts stopped'',
         ''operator alert recorded'', ''predefined recovery diagnostics attempted'']\<rparr>)"

text \<open>The phases up to the reboot check, each from the catalogue; a result ends the execution.\<close>

fun run_phases ::
  "env \<Rightarrow> processes \<Rightarrow> execution \<Rightarrow> (string \<times> string) list \<Rightarrow> progress \<Rightarrow>
   (execution_result + progress) comp" where
  "run_phases E X n [] p = returnM (Inr p)"
| "run_phases E X n ((phase_name, catalog_key) # rest) p =
     (let guard = execution_eligibility (e_H E) (xn_plan n) (xn_host n) None False in
      if phase_name = ''package_upgrade'' \<and> \<not> gd_allowed guard then
        returnM (Inl \<lparr>er_success = False, er_summary = gd_message guard, er_changed = False,
          er_reboot_performed = False, er_phases = px_phases p, er_events = px_events p,
          er_failure_actions_taken = [''operator alert recorded'']\<rparr>)
      else case dict_get playbook_catalog catalog_key of
        None \<Rightarrow> raiseM (OtherError ([CHR 0x27] @ catalog_key @ [CHR 0x27]))
      | Some playbook \<Rightarrow>
          bindM (run_playbook E X n phase_name playbook) (\<lambda>(success, output, phase_events).
          let phase_changed = list_ex l_changed phase_events;
              p' = \<lparr>px_phases = px_phases p @ [\<lparr>ph_name = phase_name, ph_state = ended success,
                      ph_summary = phase_name @ (if success then '' passed.'' else '' failed.''),
                      ph_output = output, ph_changed = phase_changed\<rparr>],
                    px_events = px_events p @ phase_events,
                    px_changed = (px_changed p \<or> phase_changed)\<rparr> in
          if success then run_phases E X n rest p'
          else bindM (failed_execution E X n p' phase_name) (\<lambda>res. returnM (Inl res))))"

definition patch_phases :: "remediation \<Rightarrow> (string \<times> string) list" where
  "patch_phases r = [(''pre_patch_check'', ''preflight''), (''package_upgrade'', r_update_scope r),
                     (''reboot_required_check'', ''reboot_check'')]"

definition reboot_needed :: "remediation \<Rightarrow> progress \<Rightarrow> bool" where
  "reboot_needed r p \<longleftrightarrow>
     list_ex (\<lambda>e. str_in ''reboot_required=true'' (lower (l_stdout e))) (px_events p) \<or>
     rb_status (r_reboot_assessment r) = ''required''"

text \<open>The reboot, when one is needed: whether it was performed.\<close>

definition reboot_stage ::
  "env \<Rightarrow> processes \<Rightarrow> execution \<Rightarrow> progress \<Rightarrow> (execution_result + bool \<times> progress) comp" where
  "reboot_stage E X n p =
     (if \<not> reboot_needed (xn_plan n) p then returnM (Inr (False, p))
      else if \<not> gd_allowed (reboot_execution_eligibility (e_H E) (xn_plan n) (xn_host n) True)
      then bindM (failed_execution E X n p ''reboot_approval_guard'') (\<lambda>res. returnM (Inl res))
      else
        bindM (run_playbook E X n ''reboot'' ''reboot.yml'') (\<lambda>(success, output, phase_events).
        let p' = \<lparr>px_phases = px_phases p @ [\<lparr>ph_name = ''reboot'', ph_state = ended success,
                    ph_summary = (if success then ''Approved reboot completed.''
                                  else ''Approved reboot failed.''),
                    ph_output = output, ph_changed = success\<rparr>],
                  px_events = px_events p @ phase_events, px_changed = True\<rparr> in
        if success then returnM (Inr (True, p'))
        else bindM (failed_execution E X n p' ''reboot'') (\<lambda>res. returnM (Inl res))))"

definition validation_stage ::
  "env \<Rightarrow> processes \<Rightarrow> execution \<Rightarrow> bool \<Rightarrow> progress \<Rightarrow> execution_result comp" where
  "validation_stage E X n reboot_performed p =
     bindM (run_playbook E X n ''post_patch_validation'' ''post-patch-validation.yml'')
       (\<lambda>(success, output, phase_events).
     let p' = \<lparr>px_phases = px_phases p @ [\<lparr>ph_name = ''post_patch_validation'',
                 ph_state = ended success,
                 ph_summary = (if success then ''Post-patch validation passed.''
                               else ''Post-patch validation failed.''),
                 ph_output = output, ph_changed = False\<rparr>],
               px_events = px_events p @ phase_events, px_changed = px_changed p\<rparr> in
     if success then
       returnM \<lparr>er_success = True,
         er_summary = ''Ansible patch workflow completed and validation passed.'',
         er_changed = px_changed p', er_reboot_performed = reboot_performed,
         er_phases = px_phases p', er_events = px_events p', er_failure_actions_taken = []\<rparr>
     else failed_execution E X n p' ''post_patch_validation'')"

definition run_workflow :: "env \<Rightarrow> processes \<Rightarrow> execution \<Rightarrow> execution_result comp" where
  "run_workflow E X n =
     bindM (run_phases E X n (patch_phases (xn_plan n)) no_progress) (\<lambda>out.
     case out of
       Inl res \<Rightarrow> returnM res
     | Inr p \<Rightarrow>
         bindM (reboot_stage E X n p) (\<lambda>out.
         case out of
           Inl res \<Rightarrow> returnM res
         | Inr (rebooted, p') \<Rightarrow> validation_stage E X n rebooted p'))"

definition ansible_execute ::
  "env \<Rightarrow> cipher \<Rightarrow> processes \<Rightarrow> host \<Rightarrow> remediation \<Rightarrow> string \<Rightarrow> execution_result comp" where
  "ansible_execute E K X h r job_id =
     (let guard_error = approval_guard (e_H E) h r in
      if guard_error \<noteq> [] then returnM (failure_result guard_error)
      else if \<not> truthy (h_ssh_host_key_fingerprint h)
      then returnM (failure_result ''SSH host key has not been confirmed'')
      else
        bindM (confirmed_key X h) (\<lambda>(known_line, same_key).
        if \<not> same_key then returnM (failure_result ''SSH host key changed; execution blocked'')
        else
          bindM (temporary_key K (h_credential_id h)) (\<lambda>_.
          bindM (temp_path X) (\<lambda>key_path.
          bindM (temp_path X) (\<lambda>known_hosts.
          run_workflow E X \<lparr>xn_host = h, xn_plan = r, xn_job_id = job_id,
            xn_key_path = key_path, xn_known_hosts = known_hosts\<rparr>)))))"

end
