(* ===== verification/ExecutorProperties.thy ===== *)
theory ExecutorProperties
  imports Executor ServiceFrames ServiceFixtures
begin

text \<open>
  What an executor promises its caller, that both executors of \<open>executor.py\<close> keep it, and
  what the remediation worker may rely on when it is given one that does.
\<close>

subsection \<open>The contract\<close>

definition may_run :: "(string \<Rightarrow> string) \<Rightarrow> host \<Rightarrow> remediation \<Rightarrow> bool" where
  "may_run H h r \<longleftrightarrow> gd_allowed (execution_eligibility H r h None False)"

definition workflow_names :: "bool \<Rightarrow> string list" where
  "workflow_names rebooted =
     [''pre_patch_check'', ''package_upgrade'', ''reboot_required_check''] @
     (if rebooted then [''reboot''] else []) @ [''post_patch_validation'']"

definition all_succeeded :: "execution_phase list \<Rightarrow> bool" where
  "all_succeeded phs \<longleftrightarrow> (\<forall>ph \<in> set phs. ph_state ph = ''succeeded'')"

text \<open>Every phase of the workflow ran, in order, and succeeded.\<close>

definition completed_run :: "execution_result \<Rightarrow> bool" where
  "completed_run res \<longleftrightarrow> er_success res \<and> all_succeeded (er_phases res) \<and>
     map ph_name (er_phases res) = workflow_names (er_reboot_performed res)"

text \<open>Nothing ran at all.\<close>

definition refused_run :: "execution_result \<Rightarrow> bool" where
  "refused_run res \<longleftrightarrow> \<not> er_success res \<and> \<not> er_changed res \<and> \<not> er_reboot_performed res \<and>
     er_phases res = []"

text \<open>
  The phases ran in order up to one that failed or was not permitted; after it only the
  recovery diagnostics ran.
\<close>

definition stopped_run :: "execution_result \<Rightarrow> bool" where
  "stopped_run res \<longleftrightarrow> \<not> er_success res \<and> \<not> er_reboot_performed res \<and>
     (\<exists>ok bad recovery rebooted. er_phases res = ok @ bad @ [recovery] \<and>
        ph_name recovery = ''predefined_recovery'' \<and> all_succeeded ok \<and> length bad \<le> 1 \<and>
        (\<forall>ph \<in> set bad. ph_state ph = ''failed'') \<and>
        prefix (map ph_name (ok @ bad)) (workflow_names rebooted))"

definition execution_contract :: "(string \<Rightarrow> string) \<Rightarrow> host \<Rightarrow> remediation \<Rightarrow> execution_result \<Rightarrow> bool" where
  "execution_contract H h r res \<longleftrightarrow>
     (if may_run H h r then completed_run res \<or> refused_run res \<or> stopped_run res
      else refused_run res)"

locale plan_executor =
  fixes H :: "string \<Rightarrow> string"
    and execute :: "host \<Rightarrow> remediation \<Rightarrow> string \<Rightarrow> execution_result comp"
  assumes meets_contract: "execute h r i w = (Inr res, w') \<Longrightarrow> execution_contract H h r res"
begin

lemma success_completes:
  "execute h r i w = (Inr res, w') \<Longrightarrow> er_success res \<Longrightarrow> may_run H h r \<and> completed_run res"
  using meets_contract [of h r i w res w']
  by (auto simp: execution_contract_def refused_run_def stopped_run_def split: if_splits)

lemma denied_changes_nothing:
  "execute h r i w = (Inr res, w') \<Longrightarrow> \<not> may_run H h r \<Longrightarrow> refused_run res"
  using meets_contract by (simp add: execution_contract_def)

lemma reboot_reported_only_on_success:
  "execute h r i w = (Inr res, w') \<Longrightarrow> er_reboot_performed res \<Longrightarrow>
     er_success res \<and> ''reboot'' \<in> ph_name ` set (er_phases res)"
  using meets_contract [of h r i w res w']
  by (auto simp: execution_contract_def refused_run_def stopped_run_def completed_run_def
      workflow_names_def split: if_splits simp flip: set_map)

end

subsection \<open>The simulation keeps it\<close>

text \<open>A denial always carries a message, so an empty guard error means permission.\<close>

definition speaks :: "gate_decision \<Rightarrow> bool" where
  "speaks d \<longleftrightarrow> gd_allowed d \<or> gd_message d \<noteq> []"

lemma speaks_intros [intro, simp]: "speaks allow" "c \<noteq> ALLOWED \<Longrightarrow> speaks (deny c m k b)"
  by (simp_all add: speaks_def deny_message_nonempty)

lemma speaks_decisions:
  "speaks (catalog_decision r)" "speaks (evidence_decision r)"
  "speaks (sd_decision (snapshot_requirement h r))"
  by (simp_all add: catalog_decision_def evidence_decision_def snapshot_requirement_def Let_def)

lemma speaks_approval: "speaks (approval_decision H r h)"
  using speaks_decisions(1,2) [of r] by (simp add: approval_decision_def Let_def)

lemma speaks_eligibility: "speaks (execution_eligibility H r h None False)"
  using speaks_approval speaks_decisions(3) by (simp add: execution_eligibility_def)

lemma approval_guard_iff: "approval_guard H h r = [] \<longleftrightarrow> may_run H h r"
  using speaks_eligibility [of H r h] by (auto simp: approval_guard_def may_run_def speaks_def Let_def)

lemma refused_failure_result [simp]: "refused_run (failure_result m)"
  by (simp add: refused_run_def failure_result_def)

lemma simulated_names:
  "map ph_name (simulated_phases r) = workflow_names (simulated_reboot r)"
  "all_succeeded (simulated_phases r)"
  by (simp_all add: simulated_phases_def workflow_names_def all_succeeded_def Let_def)

interpretation simulation: plan_executor "e_H E" "simulated_execute E" for E
proof
  fix h r i w res w'
  assume "simulated_execute E h r i w = (Inr res, w')"
  then show "execution_contract (e_H E) h r res"
    by (auto simp: simulated_execute_def Let_def approval_guard_iff bindM_eq_Inr comp_simps
        execution_contract_def completed_run_def simulated_names split: if_splits)
qed

subsection \<open>Ansible keeps it\<close>

lemma failed_execution_Inr:
  assumes "failed_execution E X n p f w = (Inr res, w')"
  shows "\<exists>recovery. ph_name recovery = ''predefined_recovery'' \<and>
     er_phases res = px_phases p @ [recovery] \<and> er_changed res = px_changed p \<and>
     \<not> er_success res \<and> \<not> er_reboot_performed res"
  using assms by (auto simp: failed_execution_def bindM_eq_Inr comp_simps split: prod.splits)

text \<open>A stage that ran the phases \<open>names\<close> after those already done.\<close>

definition ran :: "progress \<Rightarrow> string list \<Rightarrow> progress \<Rightarrow> bool" where
  "ran p names p' \<longleftrightarrow>
     (\<exists>new. px_phases p' = px_phases p @ new \<and> map ph_name new = names \<and> all_succeeded new)"

definition stopped_in :: "progress \<Rightarrow> string list \<Rightarrow> execution_result \<Rightarrow> bool" where
  "stopped_in p names res \<longleftrightarrow> \<not> er_success res \<and> \<not> er_reboot_performed res \<and>
     (\<exists>ok bad recovery. er_phases res = px_phases p @ ok @ bad @ [recovery] \<and>
        ph_name recovery = ''predefined_recovery'' \<and> all_succeeded ok \<and> length bad \<le> 1 \<and>
        (\<forall>ph \<in> set bad. ph_state ph = ''failed'') \<and> prefix (map ph_name (ok @ bad)) names)"

lemma ran_trans: "ran p ns p' \<Longrightarrow> ran p' ms p'' \<Longrightarrow> ran p (ns @ ms) p''"
  unfolding ran_def all_succeeded_def by force

lemma ran_refl: "ran p [] p"
  by (simp add: ran_def all_succeeded_def)

lemma stopped_in_later:
  assumes "ran p ns p'" "stopped_in p' ms res"
  shows "stopped_in p (ns @ ms) res"
proof -
  obtain new where new: "px_phases p' = px_phases p @ new" "map ph_name new = ns" "all_succeeded new"
    using assms(1) by (auto simp: ran_def)
  obtain ok bad recovery where "er_phases res = px_phases p' @ ok @ bad @ [recovery]"
    "ph_name recovery = ''predefined_recovery''" "all_succeeded ok" "length bad \<le> 1"
    "\<forall>ph \<in> set bad. ph_state ph = ''failed''" "prefix (map ph_name (ok @ bad)) ms"
    using assms(2) by (auto simp: stopped_in_def)
  with new show ?thesis
    using assms(2) unfolding stopped_in_def
    by (intro conjI exI [of _ "new @ ok"] exI [of _ bad] exI [of _ recovery])
      (auto simp: all_succeeded_def)
qed

lemma stopped_in_mono: "stopped_in p ns res \<Longrightarrow> prefix ns ms \<Longrightarrow> stopped_in p ms res"
  unfolding stopped_in_def by (meson prefix_order.trans)

text \<open>One failed phase followed by the recovery.\<close>

lemma stopped_in_failed:
  assumes "failed_execution E X n p' f w = (Inr res, w')"
    and "px_phases p' = px_phases p @ [ph]" "ph_state ph = ''failed''"
  shows "stopped_in p [ph_name ph] res"
proof -
  from failed_execution_Inr [OF assms(1)] obtain recovery where
    "ph_name recovery = ''predefined_recovery''" "er_phases res = px_phases p' @ [recovery]"
    "\<not> er_success res" "\<not> er_reboot_performed res" by auto
  with assms(2,3) show ?thesis
    unfolding stopped_in_def
    by (intro conjI exI [of _ "[]"] exI [of _ "[ph]"] exI [of _ recovery])
      (simp_all add: all_succeeded_def)
qed

lemma run_phases_ran:
  assumes "run_phases E X n ps p w = (Inr out, w')" and "may_run (e_H E) (xn_host n) (xn_plan n)"
  shows "case out of Inr p' \<Rightarrow> ran p (map fst ps) p' | Inl res \<Rightarrow> stopped_in p (map fst ps) res"
  using assms(1)
proof (induction ps arbitrary: p w)
  case Nil
  then show ?case by (auto simp: comp_simps ran_refl)
next
  case (Cons a ps)
  obtain name key where a: "a = (name, key)" by (cases a)
  obtain playbook success outp evs w1 where pb: "dict_get playbook_catalog key = Some playbook"
    and r: "run_playbook E X n name playbook w = (Inr (success, outp, evs), w1)"
    using Cons.prems assms(2) unfolding a may_run_def
    by (auto simp: bindM_eq_Inr comp_simps Let_def split: option.splits)
  define ph where "ph = \<lparr>ph_name = name, ph_state = ended success,
    ph_summary = name @ (if success then '' passed.'' else '' failed.''), ph_output = outp,
    ph_changed = list_ex l_changed evs\<rparr>"
  define p1 where "p1 = \<lparr>px_phases = px_phases p @ [ph], px_events = px_events p @ evs,
    px_changed = (px_changed p \<or> list_ex l_changed evs)\<rparr>"
  have rest: "(if success then run_phases E X n ps p1
      else bindM (failed_execution E X n p1 name) (\<lambda>res. returnM (Inl res))) w1 = (Inr out, w')"
    using Cons.prems assms(2) pb r unfolding a may_run_def p1_def ph_def
    by (simp add: bindM_def Let_def)
  have p1: "px_phases p1 = px_phases p @ [ph]" by (simp add: p1_def)
  show ?case
  proof (cases success)
    case True
    then have "ran p [name] p1" by (simp add: ran_def p1_def ph_def ended_def all_succeeded_def)
    moreover from rest True have "run_phases E X n ps p1 w1 = (Inr out, w')" by simp
    note Cons.IH [OF this]
    ultimately show ?thesis
      using ran_trans [of p "[name]"] stopped_in_later [of p "[name]"]
      by (auto simp: a split: sum.splits)
  next
    case False
    with rest obtain res where "failed_execution E X n p1 name w1 = (Inr res, w')" "out = Inl res"
      by (auto simp: bindM_eq_Inr comp_simps)
    with stopped_in_failed [OF this(1) p1] False show ?thesis
      by (auto simp: ph_def ended_def a intro: stopped_in_mono)
  qed
qed

lemma reboot_stage_ran:
  assumes st: "reboot_stage E X n p w = (Inr out, w')"
  shows "case out of Inr (b, p') \<Rightarrow> ran p (if b then [''reboot''] else []) p' \<and>
                       (b \<longrightarrow> reboot_needed (xn_plan n) p)
     | Inl res \<Rightarrow> stopped_in p [''reboot''] res"
proof (cases "reboot_needed (xn_plan n) p")
  case False
  with st show ?thesis by (auto simp: reboot_stage_def comp_simps ran_refl)
next
  case needed: True
  show ?thesis
  proof (cases "gd_allowed (reboot_execution_eligibility (e_H E) (xn_plan n) (xn_host n) True)")
    case False
    with st needed obtain res where f: "failed_execution E X n p ''reboot_approval_guard'' w = (Inr res, w')"
      and out: "out = Inl res"
      by (auto simp: reboot_stage_def bindM_eq_Inr comp_simps)
    from failed_execution_Inr [OF f] obtain recovery where
      "ph_name recovery = ''predefined_recovery''" "er_phases res = px_phases p @ [recovery]"
      "\<not> er_success res" "\<not> er_reboot_performed res" by auto
    then have "stopped_in p [''reboot''] res"
      unfolding stopped_in_def
      by (intro conjI exI [of _ "[]"] exI [of _ recovery]) (simp_all add: all_succeeded_def)
    with out show ?thesis by simp
  next
    case True
    with st needed obtain success outp evs w1 where
      r: "run_playbook E X n ''reboot'' ''reboot.yml'' w = (Inr (success, outp, evs), w1)"
      by (auto simp: reboot_stage_def bindM_eq_Inr)
    define ph where "ph = \<lparr>ph_name = ''reboot'', ph_state = ended success,
      ph_summary = (if success then ''Approved reboot completed.'' else ''Approved reboot failed.''),
      ph_output = outp, ph_changed = success\<rparr>"
    define p1 where "p1 = \<lparr>px_phases = px_phases p @ [ph], px_events = px_events p @ evs,
      px_changed = True\<rparr>"
    have rest: "(if success then returnM (Inr (True, p1))
        else bindM (failed_execution E X n p1 ''reboot'') (\<lambda>res. returnM (Inl res))) w1 = (Inr out, w')"
      using st needed True r unfolding p1_def ph_def
      by (simp add: reboot_stage_def bindM_def Let_def)
    have p1: "px_phases p1 = px_phases p @ [ph]" by (simp add: p1_def)
    show ?thesis
    proof (cases success)
      case True
      with rest p1 needed show ?thesis
        by (auto simp: comp_simps ran_def all_succeeded_def ended_def ph_def)
    next
      case False
      with rest obtain res where "failed_execution E X n p1 ''reboot'' w1 = (Inr res, w')" "out = Inl res"
        by (auto simp: bindM_eq_Inr comp_simps)
      with stopped_in_failed [OF this(1) p1] False show ?thesis by (simp add: ph_def ended_def)
    qed
  qed
qed

lemma validation_stage_ran:
  assumes "validation_stage E X n b p w = (Inr res, w')"
  shows "(er_success res \<and> er_reboot_performed res = b \<and>
          (\<exists>ph. er_phases res = px_phases p @ [ph] \<and> ph_name ph = ''post_patch_validation'' \<and>
             ph_state ph = ''succeeded'')) \<or>
         stopped_in p [''post_patch_validation''] res"
proof -
  obtain success outp evs w1 where
    r: "run_playbook E X n ''post_patch_validation'' ''post-patch-validation.yml'' w =
        (Inr (success, outp, evs), w1)"
    using assms by (auto simp: validation_stage_def bindM_eq_Inr)
  show ?thesis
  proof (cases success)
    case True
    with assms r show ?thesis
      by (auto simp: validation_stage_def bindM_def comp_simps Let_def ended_def)
  next
    case False
    define ph where "ph = \<lparr>ph_name = ''post_patch_validation'', ph_state = ''failed'',
      ph_summary = ''Post-patch validation failed.'', ph_output = outp, ph_changed = False\<rparr>"
    have "failed_execution E X n \<lparr>px_phases = px_phases p @ [ph], px_events = px_events p @ evs,
        px_changed = px_changed p\<rparr> ''post_patch_validation'' w1 = (Inr res, w')"
      using assms r False by (simp add: validation_stage_def bindM_def Let_def ended_def ph_def)
    from stopped_in_failed [OF this, of p ph] show ?thesis by (simp add: ph_def)
  qed
qed

lemma stopped_in_stopped_run:
  "stopped_in no_progress names res \<Longrightarrow> prefix names (workflow_names b) \<Longrightarrow> stopped_run res"
  unfolding stopped_in_def stopped_run_def no_progress_def
  by simp (meson prefix_order.trans)

lemma run_workflow_Inr:
  assumes st: "run_workflow E X n w = (Inr res, w')" and "may_run (e_H E) (xn_host n) (xn_plan n)"
  shows "completed_run res \<or> stopped_run res"
proof -
  let ?ns = "map fst (patch_phases (xn_plan n))"
  have ns: "prefix ?ns (workflow_names b)"
    "prefix (?ns @ [''reboot'']) (workflow_names True)"
    "?ns @ (if b then [''reboot''] else []) @ [''post_patch_validation''] = workflow_names b" for b
    by (simp_all add: patch_phases_def workflow_names_def)
  obtain out w1 where r: "run_phases E X n (patch_phases (xn_plan n)) no_progress w = (Inr out, w1)"
    and st1: "(case out of Inl res \<Rightarrow> returnM res
         | Inr p \<Rightarrow> bindM (reboot_stage E X n p) (\<lambda>out. case out of Inl res \<Rightarrow> returnM res
             | Inr (b, p') \<Rightarrow> validation_stage E X n b p')) w1 = (Inr res, w')"
    using st by (auto simp: run_workflow_def bindM_eq_Inr)
  note r1 = run_phases_ran [OF r assms(2)]
  show ?thesis
  proof (cases out)
    case (Inl res0)
    with r1 st1 ns(1) show ?thesis
      by (auto simp: comp_simps dest: stopped_in_stopped_run)
  next
    case (Inr p)
    with r1 have p: "ran no_progress ?ns p" by simp
    obtain out2 w2 where r2: "reboot_stage E X n p w1 = (Inr out2, w2)"
      and st2: "(case out2 of Inl res \<Rightarrow> returnM res
             | Inr (b, p') \<Rightarrow> validation_stage E X n b p') w2 = (Inr res, w')"
      using st1 Inr by (auto simp: bindM_eq_Inr)
    show ?thesis
    proof (cases out2)
      case (Inl res0)
      with reboot_stage_ran [OF r2] st2 have "stopped_in p [''reboot''] res"
        by (simp add: comp_simps)
      with stopped_in_later [OF p this] ns(2) show ?thesis
        by (auto dest: stopped_in_stopped_run)
    next
      case (Inr bp)
      obtain b p2 where bp: "bp = (b, p2)" by (cases bp)
      with Inr st2 have v: "validation_stage E X n b p2 w2 = (Inr res, w')" by simp
      have p2: "ran no_progress (?ns @ (if b then [''reboot''] else [])) p2"
        using reboot_stage_ran [OF r2] Inr bp by (intro ran_trans [OF p]) auto
      from validation_stage_ran [OF v] show ?thesis
      proof
        assume "stopped_in p2 [''post_patch_validation''] res"
        from stopped_in_later [OF p2 this] show ?thesis
          using ns(3) [of b] by (auto dest: stopped_in_stopped_run [where b = b])
      next
        assume "er_success res \<and> er_reboot_performed res = b \<and>
          (\<exists>ph. er_phases res = px_phases p2 @ [ph] \<and> ph_name ph = ''post_patch_validation'' \<and>
             ph_state ph = ''succeeded'')"
        with p2 have "completed_run res"
          using ns(3) [of b] by (auto simp: ran_def completed_run_def all_succeeded_def no_progress_def)
        then show ?thesis ..
      qed
    qed
  qed
qed

interpretation ansible: plan_executor "e_H E" "ansible_execute E K X" for E K X
proof
  fix h r i w res w'
  assume run: "ansible_execute E K X h r i w = (Inr res, w')"
  show "execution_contract (e_H E) h r res"
  proof (cases "may_run (e_H E) h r")
    case False
    with run show ?thesis
      by (auto simp: ansible_execute_def Let_def approval_guard_iff comp_simps execution_contract_def)
  next
    case True
    have "refused_run res \<or> (\<exists>n v. xn_host n = h \<and> xn_plan n = r \<and> run_workflow E X n v = (Inr res, w'))"
      using run True
      by (auto simp: ansible_execute_def Let_def approval_guard_iff comp_simps bindM_eq_Inr
          split: if_splits)
    with True show ?thesis
      by (auto simp: execution_contract_def dest: run_workflow_Inr)
  qed
qed


subsection \<open>What the worker may rely on\<close>

text \<open>An execution the worker counts as a success ran the whole workflow.\<close>

lemma execute_guarded_success:
  assumes run: "execute_guarded E sn ow w = (Inr (r, res, sn'), w')" and "er_success res"
  shows "\<exists>h v res0 v'. e_execute E h r (j_id (w_job v)) v = (Inr res0, v') \<and> er_success res0 \<and>
     guarded E r h v \<and> leased_to ow (j_id (w_job v)) v"
proof -
  obtain h w1 u w2 a w4 res0 w5 where g: "guard_execution E w = (Inr (r, h), w1)"
    and p: "enter_phase E ''ansible_execution'' 30 ow w1 = (Inr u, w2)"
    and a: "assert_job_lease E (j_id (w_job w2)) ow w2 = (Inr a, w4)"
    and x: "externalM (e_execute E h r (j_id (w_job w2))) w4 = (Inr res0, w5)"
    and ok: "er_success res0"
    using run assms(2)
    by (auto simp: execute_guarded_def bindM_eq_Inr job_object_def comp_simps
        split: option.splits if_splits prod.splits)
  note gf = guard_execution_frame [OF g] and pf = enter_phase_frame [OF p]
    and af = assert_job_lease_frame [OF a]
  from pf have "guarded E r h w2"
    by (intro guarded_frame [OF gf [THEN conjunct2, THEN conjunct2]]) auto
  then have "guarded E r h w4"
    by (rule guarded_frame) (use af in auto)
  moreover have "j_id (w_job w2) = j_id (w_job w4)" using af by simp
  moreover obtain v' where "e_execute E h r (j_id (w_job w2)) w4 = (Inr res0, v')"
    using x by (auto simp: externalM_eq_Inr)
  ultimately show ?thesis
    using af ok by (metis (no_types, lifting))
qed


subsection \<open>Sample runs\<close>

text \<open>Programs that succeed; the reboot check finds that the host wants a reboot.\<close>

definition exit_ok :: "string \<Rightarrow> process_output" where
  "exit_ok out = \<lparr>po_returncode = 0, po_stdout = out, po_stderr = []\<rparr>"

definition sample_processes :: "string \<Rightarrow> processes" where
  "sample_processes check = \<lparr>x_keyscan = (\<lambda>_. returnM (exit_ok ''10.0.0.5 ssh-ed25519 AAAA'')),
     x_keygen = (\<lambda>_ _. returnM (exit_ok ''256 SHA256:abc web-1'')),
     x_ssh = (\<lambda>_. returnM (exit_ok [])),
     x_playbook = (\<lambda>run. returnM (exit_ok
       (if pb_arguments run ! 3 = ''playbooks/reboot-required-check.yml'' then check else ''ok''), [])),
     x_parse_event = (\<lambda>_. None), x_path = dec_nat, x_playbook_dir = ''playbooks'',
     x_callback_dir = ''callbacks''\<rparr>"

definition sample_cipher :: cipher where
  "sample_cipher = \<lparr>k_encrypt = (\<lambda>n m a. m), k_decrypt = (\<lambda>n c a. Inr c), k_nonce = dec_nat\<rparr>"

definition sample_credential :: ssh_credential where
  "sample_credential = \<lparr>cr_id = ''cred-1'', cr_name = ''key'', cr_credential_type = SshPrivateKey,
     cr_fingerprint = ''f'', cr_metadata = [], cr_created_at = Aware 0, cr_last_used_at = None\<rparr>"

definition key_world :: "mem_jobs \<Rightarrow> world" where
  "key_world jobs = (sample_world approved_plan jobs)
     \<lparr>w_store := (sample_store approved_plan jobs)
        \<lparr>t_credentials := [(''cred-1'', sample_credential, ''PRIVATE KEY'', ''n'')]\<rparr>\<rparr>"

text \<open>A host that was confirmed, and one whose policy forbids reboots.\<close>

definition confirmed_host :: host where
  "confirmed_host = sample_host\<lparr>h_ssh_host_key_fingerprint := Some ''SHA256:abc''\<rparr>"

definition never_reboot :: host where
  "never_reboot = confirmed_host\<lparr>h_patch_policy := sample_policy\<lparr>pp_reboot_policy := ''never''\<rparr>\<rparr>"

definition sample_ansible :: "string \<Rightarrow> host \<Rightarrow> (exn + execution_result) \<times> world" where
  "sample_ansible check h =
     ansible_execute (sample_env []) sample_cipher (sample_processes check) h approved_plan ''job-1''
       (key_world [])"

text \<open>Every playbook of the sample succeeds and records one event with its output.\<close>

lemma sample_playbook:
  "\<exists>outp e w'. run_playbook (sample_env fs) (sample_processes c) n ph pb w = (Inr (True, outp, [e]), w') \<and>
     l_stdout e = take 65536 (if pb = ''reboot-required-check.yml'' then c else ''ok'') \<and>
     \<not> l_changed e"
  by (simp add: run_playbook_def temp_path_def externalM_def playbook_command_def bindM_def comp_simps
      sample_processes_def exit_ok_def parse_callback_events_def splitlines_def process_event_def
      fresh_event_def new_id_def log_event_def sample_env_def Let_def)

lemma sample_workflow:
  assumes "may_run flat_digest h approved_plan" "xn_host n = h" "xn_plan n = approved_plan"
    and reboot: "reboots = str_in ''reboot_required=true'' (lower (take 65536 c))"
  shows "\<exists>res w'. run_workflow (sample_env []) (sample_processes c) n w = (Inr res, w') \<and>
    er_success res \<and> er_reboot_performed res = reboots"
proof -
  let ?run = "run_playbook (sample_env []) (sample_processes c) n"
  have plan: "patch_phases approved_plan = [(''pre_patch_check'', ''preflight''),
      (''package_upgrade'', ''security''), (''reboot_required_check'', ''reboot_check'')]"
    "rb_status (r_reboot_assessment approved_plan) = ''not_expected''"
    by (simp_all add: patch_phases_def approved_plan_def sample_plan_base_def)
  obtain o1 e1 w1 where 1: "?run ''pre_patch_check'' ''pre-patch-check.yml'' w = (Inr (True, o1, [e1]), w1)"
    "l_stdout e1 = ''ok''"
    using sample_playbook [of "[]" c n "''pre_patch_check''" "''pre-patch-check.yml''" w] by auto
  obtain o2 e2 w2 where 2: "?run ''package_upgrade'' ''security-upgrade.yml'' w1 = (Inr (True, o2, [e2]), w2)"
    "l_stdout e2 = ''ok''"
    using sample_playbook [of "[]" c n "''package_upgrade''" "''security-upgrade.yml''" w1] by auto
  obtain o3 e3 w3 where 3: "?run ''reboot_required_check'' ''reboot-required-check.yml'' w2 =
      (Inr (True, o3, [e3]), w3)" "l_stdout e3 = take 65536 c"
    using sample_playbook [of "[]" c n "''reboot_required_check''" "''reboot-required-check.yml''" w2]
    by auto
  obtain o4 e4 w4 where 4: "?run ''reboot'' ''reboot.yml'' w3 = (Inr (True, o4, [e4]), w4)"
    using sample_playbook [of "[]" c n "''reboot''" "''reboot.yml''" w3] by blast
  obtain o5 e5 w5 o6 e6 w6 where
    5: "?run ''post_patch_validation'' ''post-patch-validation.yml'' w3 = (Inr (True, o5, [e5]), w5)" and
    6: "?run ''post_patch_validation'' ''post-patch-validation.yml'' w4 = (Inr (True, o6, [e6]), w6)"
    using sample_playbook by metis
  have small: "lower ''ok'' = ''ok''" "\<not> str_in ''reboot_required=true'' ''ok''"
    by code_simp+
  have elig: "gd_allowed (execution_eligibility flat_digest approved_plan h None False)"
    "gd_allowed (reboot_execution_eligibility flat_digest approved_plan h True)"
    using assms(1)
    by (auto simp: may_run_def execution_eligibility_def reboot_execution_eligibility_def split: if_splits)
  show ?thesis
    using assms(2,3) elig 1 2 3 4 5 6 small plan reboot
    by (cases reboots)
      (simp_all add: run_workflow_def bindM_def comp_simps playbook_catalog_def no_progress_def
        reboot_stage_def validation_stage_def reboot_needed_def sample_runs Let_def)
qed

lemma sample_key_scan:
  "confirmed_key (sample_processes c) confirmed_host w = (Inr (''10.0.0.5 ssh-ed25519 AAAA'', True), w)"
  "confirmed_key (sample_processes c) never_reboot w = (Inr (''10.0.0.5 ssh-ed25519 AAAA'', True), w)"
proof -
  have "List.find (\<lambda>l. \<not> is_blank l) (splitlines ''10.0.0.5 ssh-ed25519 AAAA'') = Some ''10.0.0.5 ssh-ed25519 AAAA''"
    "split_ws ''256 SHA256:abc web-1'' = [''256'', ''SHA256:abc'', ''web-1'']"
    "\<not> blank_bytes ''10.0.0.5 ssh-ed25519 AAAA''"
    by code_simp+
  then show
    "confirmed_key (sample_processes c) confirmed_host w = (Inr (''10.0.0.5 ssh-ed25519 AAAA'', True), w)"
    "confirmed_key (sample_processes c) never_reboot w = (Inr (''10.0.0.5 ssh-ed25519 AAAA'', True), w)"
    by (simp_all add: confirmed_key_def scan_host_key_def sample_processes_def exit_ok_def bindM_def
        comp_simps externalM_def confirmed_host_def never_reboot_def)
qed

text \<open>Without a reboot risk, a host's reboot policy and snapshot credential do not matter.\<close>

lemma may_run_same:
  assumes "\<not> reboot_risk r" "h_id h = h_id h'" "h_snapshot_platform h = h_snapshot_platform h'"
  shows "may_run H h r = may_run H h' r"
proof -
  have "approval_decision H r h = approval_decision H r h'"
    unfolding approval_decision_def assms(2) using assms(1) by (simp cong: if_cong)
  moreover have "snapshot_requirement h r = snapshot_requirement h' r"
    unfolding snapshot_requirement_def assms(3) using assms(1) by (simp cong: if_cong)
  ultimately show ?thesis by (simp add: may_run_def execution_eligibility_def)
qed

lemma approved_no_reboot: "\<not> reboot_risk approved_plan"
  by (simp add: reboot_risk_def approved_plan_def sample_plan_base_def)

lemma sample_hosts:
  "h_id confirmed_host = h_id sample_host" "h_id never_reboot = h_id sample_host"
  "h_snapshot_platform confirmed_host = h_snapshot_platform sample_host"
  "h_snapshot_platform never_reboot = h_snapshot_platform sample_host"
  "h_credential_id confirmed_host = Some ''cred-1''" "h_credential_id never_reboot = Some ''cred-1''"
  "h_ssh_host_key_fingerprint confirmed_host = Some ''SHA256:abc''"
  "h_ssh_host_key_fingerprint never_reboot = Some ''SHA256:abc''"
  by (simp_all add: confirmed_host_def never_reboot_def sample_host_def)

lemma sample_may_run:
  assumes "h \<in> {sample_host, confirmed_host, never_reboot}"
  shows "may_run flat_digest h approved_plan"
proof -
  have "may_run flat_digest sample_host approved_plan"
    by (simp add: may_run_def approved_eligible)
  then show ?thesis
    using assms approved_no_reboot may_run_same [of approved_plan h sample_host] sample_hosts by auto
qed

lemma sample_ansible_run:
  assumes "h \<in> {confirmed_host, never_reboot}"
  shows "\<exists>res w'. sample_ansible c h = (Inr res, w') \<and> er_success res \<and>
     er_reboot_performed res = str_in ''reboot_required=true'' (lower (take 65536 c))"
proof -
  have same: "h_credential_id h = Some ''cred-1''" "truthy (h_ssh_host_key_fingerprint h)"
    using assms sample_hosts by auto
  have may: "may_run flat_digest h approved_plan"
    using assms by (intro sample_may_run) auto
  have key: "temporary_key sample_cipher (Some ''cred-1'') w = (Inr ''PRIVATE KEY'', w)"
    if "w_store w = w_store (key_world [])" for w
    using that
    by (simp add: temporary_key_def decrypt_private_key_def decrypt_secret_def bindM_def comp_simps
        get_credential_record_def key_world_def sample_credential_def sample_cipher_def)
  have scan: "\<exists>l. confirmed_key (sample_processes c) h w = (Inr (l, True), w)" for w
    using assms sample_key_scan by auto
  let ?n = "\<lparr>xn_host = h, xn_plan = approved_plan, xn_job_id = ''job-1'',
    xn_key_path = dec_nat (w_uuid (key_world [])),
    xn_known_hosts = dec_nat (w_uuid (key_world []) + 1)\<rparr>"
  obtain l where "confirmed_key (sample_processes c) h (key_world []) = (Inr (l, True), key_world [])"
    using scan by blast
  moreover have "approval_guard flat_digest h approved_plan = []"
    using may by (simp add: approval_guard_iff)
  moreover have "x_path (sample_processes c) = dec_nat"
    by (simp add: sample_processes_def)
  ultimately have "sample_ansible c h = run_workflow (sample_env []) (sample_processes c) ?n
      ((key_world [])\<lparr>w_uuid := w_uuid (key_world []) + 2\<rparr>)"
    using same key [of "key_world []"]
    by (simp add: sample_ansible_def ansible_execute_def sample_reads bindM_def temp_path_def)
  with sample_workflow [OF may _ _ refl, of ?n c] show ?thesis
    by simp
qed

subsection \<open>A sample job under its lease\<close>

definition leased_job :: durable_job where
  "leased_job = queued_job\<lparr>j_status := ''running'', j_lease_owner := Some ''w1'',
     j_lease_expires_at := Some (Aware 100000000)\<rparr>"

definition leased_world :: world where
  "leased_world = (sample_world approved_plan [(''job-1'', leased_job)])\<lparr>w_job := leased_job\<rparr>"

definition simulating_env :: env where
  "simulating_env = (sample_env [])\<lparr>e_execute := simulated_execute (sample_env [])\<rparr>"

lemma leased_fields:
  "j_remediation_id leased_job = Some ''rem-1''" "j_id leased_job = ''job-1''"
  "j_status leased_job = ''running''" "j_lease_owner leased_job = Some ''w1''"
  by (simp_all add: leased_job_def queued_job_def remediation_job_def new_job_def approved_plan_def
      sample_plan_base_def)

lemma leased_reads:
  "w_store leased_world = sample_store approved_plan [(''job-1'', leased_job)]"
  "w_job leased_world = leased_job" "\<not> w_tx leased_world"
  by (simp_all add: leased_world_def sample_reads)

lemma leased_eligible:
  "execution_eligibility flat_digest approved_plan sample_host (Some leased_job) False = allow"
proof -
  have "job_binding_decision approved_plan sample_host leased_job = allow"
    by (simp add: job_binding_decision_def leased_job_def queued_job_def remediation_job_def new_job_def
        approved_plan_def sample_plan_base_def sample_host_def expected_job_scope_def job_approval_scope_def reboot_risk_def)
  then show ?thesis
    using approved_eligible by (auto simp: execution_eligibility_def split: if_splits)
qed

lemma leased_guard: "guard_execution (sample_env []) leased_world = (Inr (approved_plan, sample_host), leased_world\<lparr>w_tick := w_tick leased_world + 1\<rparr>)"
  by (simp add: guard_execution_def run_defs job_object_def leased_reads leased_fields sample_runs leased_eligible)

lemma simulated_run:
  "\<exists>res w1. simulated_execute (sample_env []) sample_host approved_plan i w = (Inr res, w1) \<and> er_success res \<and> w_store w1 = w_store w \<and>
     w_tick w1 = w_tick w + 4"
proof -
  have "approval_guard flat_digest sample_host approved_plan = []"
    using sample_may_run [of sample_host] by (simp add: approval_guard_iff)
  then show ?thesis
  by (simp add: simulated_execute_def sample_runs bindM_def comp_simps mapM_def simulated_phases_def simulated_reboot_def
     simulated_event_def fresh_event_def new_id_def Let_def approved_plan_def sample_plan_base_def)
qed


text \<open>The sample job in the store and in the worker's hands, with its lease good until \<open>t\<close>.\<close>

definition leased_until :: "int \<Rightarrow> world \<Rightarrow> bool" where
  "leased_until t w \<longleftrightarrow> (\<exists>j. w_store w = sample_store approved_plan [(''job-1'', j)] \<and> j_id j = ''job-1'' \<and>
     j_status j = ''running'' \<and> j_lease_owner j = Some ''w1'' \<and> j_lease_expires_at j = Some (Aware t)) \<and>
     j_id (w_job w) = ''job-1''"

lemma leased_step:
  assumes "k < 50"
  shows "\<exists>w2. enter_phase (sample_env []) ''ansible_execution'' 30 ''w1'' (leased_world\<lparr>w_tick := k\<rparr>) = (Inr (), w2) \<and>
     w_tick w2 \<le> k + 2 \<and> leased_until 100000000 w2"
proof -
  have "j_lease_expires_at leased_job = Some (Aware 100000000)"
    by (simp add: leased_job_def)
  with assms show ?thesis
  by (simp add: enter_phase_def mutate_job_def save_claimed_job_def run_defs job_object_def set_job_def leased_reads leased_fields sample_runs merge_lease_def Let_def sample_store_def mem_get_def holds_lease_def later_datetime_def lease_is_expired_def leased_until_def)
qed

lemma lease_kept:
  assumes "leased_until t w" "int (w_tick w) * 1000000 < t"
  shows "\<exists>w2. assert_job_lease (sample_env []) ''job-1'' ''w1'' w = (Inr (), w2) \<and> w_tick w2 = w_tick w + 1 \<and>
    leased_until (int (w_tick w) * 1000000 + 60000000) w2"
  using assms
  by (auto simp: leased_until_def assert_job_lease_def run_defs sample_runs mem_heartbeat_def sample_store_def holds_lease_def beat_def later_datetime_def lease_is_expired_def Let_def)


lemma leased_external:
  "leased_until t w \<Longrightarrow> w_store w' = w_store w \<Longrightarrow> leased_until t (w'\<lparr>w_job := w_job w, w_scan := sc, w_tx := b\<rparr>)"
  by (simp add: leased_until_def)

lemma simulating_env_helpers:
  "guard_execution simulating_env = guard_execution (sample_env [])"
  "enter_phase simulating_env = enter_phase (sample_env [])"
  "assert_job_lease simulating_env = assert_job_lease (sample_env [])"
  "e_execute simulating_env = simulated_execute (sample_env [])" "e_H simulating_env = flat_digest"
  unfolding simulating_env_def env_simps by (simp_all add: sample_runs)

lemma sample_guarded:
  "\<exists>r res w'. execute_guarded simulating_env None ''w1'' leased_world = (Inr (r, res, None), w') \<and> er_success res"
proof -
  obtain w2 where 2: "enter_phase (sample_env []) ''ansible_execution'' 30 ''w1'' (leased_world\<lparr>w_tick := 2\<rparr>) = (Inr (), w2)"
    "w_tick w2 \<le> 4" "leased_until 100000000 w2"
    using leased_step [of 2] by auto
  obtain w3 where 3: "assert_job_lease (sample_env []) ''job-1'' ''w1'' w2 = (Inr (), w3)" "w_tick w3 = w_tick w2 + 1"
    "leased_until (int (w_tick w2) * 1000000 + 60000000) w3"
    using lease_kept [OF 2(3)] 2(2) by auto
  obtain res w4 where 4: "simulated_execute (sample_env []) sample_host approved_plan ''job-1'' w3 = (Inr res, w4)"
    "er_success res" "w_store w4 = w_store w3" "w_tick w4 = w_tick w3 + 4"
    using simulated_run by blast
  let ?w5 = "w4\<lparr>w_job := w_job w3, w_scan := w_scan w3, w_tx := w_tx w3\<rparr>"
  obtain w6 where 5: "assert_job_lease (sample_env []) ''job-1'' ''w1'' ?w5 = (Inr (), w6)"
    using lease_kept [OF leased_external [OF 3(3) 4(3)], of "w_tx w3" "w_scan w3"] 3(2) 4(4) by auto
  have "w_tick leased_world = 1"
    by (simp add: leased_world_def sample_world_def)
  then have "guard_execution (sample_env []) leased_world = (Inr (approved_plan, sample_host), leased_world\<lparr>w_tick := 2\<rparr>)"
    using leased_guard by simp
  moreover have "j_id (w_job w2) = ''job-1''" using 2(3) by (simp add: leased_until_def)
  ultimately show ?thesis
    using 2(1) 3(1) 4(1,2) 5
    by (simp add: execute_guarded_def simulating_env_helpers bindM_def job_object_def externalM_def comp_simps)
qed

subsection \<open>Properties\<close>

text \<open>C17: Both executors keep the executor's contract. Whatever the programs they start do,
  a result of \<open>SimulatedExecutor\<close> or \<open>AnsibleExecutor\<close> for a plan and host the gate does not
  allow reports no phase and no change; otherwise it is a success whose phases are exactly the
  workflow in order, each succeeded, with a reboot phase exactly when a reboot is reported, or
  a refusal, or a failure whose phases stop at the one that failed, followed by the recovery
  diagnostics alone, and that reports no reboot.\<close>

theorem executors_meet_contract:
  assumes "simulated_execute E h r i w = (Inr res, w') \<or> ansible_execute E K X h r i w = (Inr res, w')"
  shows "execution_contract (e_H E) h r res"
  using assms simulation.meets_contract ansible.meets_contract by blast

lemma executors_meet_contract_witness:
  "\<exists>res w'. sample_ansible ''ok'' confirmed_host = (Inr res, w') \<and> er_success res \<and>
     execution_contract flat_digest confirmed_host approved_plan res"
proof -
  obtain res w' where r: "sample_ansible ''ok'' confirmed_host = (Inr res, w')" "er_success res"
    using sample_ansible_run [of confirmed_host "''ok''"] by auto
  with executors_meet_contract [OF disjI2 [OF r(1) [unfolded sample_ansible_def]]] show ?thesis
    by (auto simp: sample_runs)
qed

lemma playbook_independent:
  "x_keyscan (X\<lparr>x_playbook := pb\<rparr>) = x_keyscan X" "x_keygen (X\<lparr>x_playbook := pb\<rparr>) = x_keygen X"
  by simp_all

lemma confirmed_key_playbook: "confirmed_key (X\<lparr>x_playbook := pb\<rparr>) h = confirmed_key X h"
  unfolding confirmed_key_def scan_host_key_def playbook_independent by (rule refl)

text \<open>C18: Nothing is run on a host that is not the confirmed one. When the gate denies the
  plan, the host's key was never confirmed, or its key is not the confirmed one any more, the
  ansible executor returns a refusal, and what a playbook would have done has no influence:
  no playbook is started.\<close>

theorem unconfirmed_host_untouched:
  assumes "\<not> may_run (e_H E) h r \<or> \<not> truthy (h_ssh_host_key_fingerprint h) \<or>
     confirmed_key X h w = (Inr (line, False), w1)"
  shows "\<exists>message v. ansible_execute E K X h r i w = (Inr (failure_result message), v) \<and>
     ansible_execute E K (X\<lparr>x_playbook := pb\<rparr>) h r i w = (Inr (failure_result message), v)"
  using assms
  by (auto simp: ansible_execute_def Let_def approval_guard_iff comp_simps bindM_def
      confirmed_key_playbook)

text \<open>A host whose key changed since it was confirmed.\<close>

definition changed_host :: host where
  "changed_host = sample_host\<lparr>h_ssh_host_key_fingerprint := Some ''SHA256:old''\<rparr>"

lemma changed_key: "\<exists>line v. confirmed_key (sample_processes c) changed_host w = (Inr (line, False), v)"
proof -
  obtain line where "confirmed_key (sample_processes c) confirmed_host w = (Inr (line, True), w)"
    using sample_key_scan by blast
  then show ?thesis
    by (auto simp: confirmed_key_def bindM_eq_Inr comp_simps changed_host_def confirmed_host_def)
qed

lemma unconfirmed_host_untouched_witness:
  "\<exists>message v. ansible_execute (sample_env []) sample_cipher (sample_processes ''ok'') changed_host
     approved_plan ''job-1'' (key_world []) = (Inr (failure_result message), v)"
proof -
  obtain line v where "confirmed_key (sample_processes ''ok'') changed_host (key_world []) = (Inr (line, False), v)"
    using changed_key by blast
  with unconfirmed_host_untouched [of "sample_env []" changed_host approved_plan] show ?thesis
    by metis
qed

text \<open>C20: A reboot needs no reboot approval. When the gate allows a plan that expects no
  reboot and the reboot check of the host asks for one, the ansible executor runs the reboot
  playbook, whatever the plan's reboot approval and the host's reboot policy say: the guard
  \<open>reboot_execution_eligibility\<close> repeats the decision that was already made for the plan.\<close>

theorem reboot_without_reboot_approval:
  assumes "may_run (e_H E) (xn_host n) (xn_plan n)" and "reboot_needed (xn_plan n) p"
    and "run_playbook E X n ''reboot'' ''reboot.yml'' w = (Inr (True, out, evs), w')"
  shows "\<exists>p'. reboot_stage E X n p w = (Inr (Inr (True, p')), w')"
proof -
  have "gd_allowed (reboot_execution_eligibility (e_H E) (xn_plan n) (xn_host n) True)"
    using assms(1)
    by (auto simp: may_run_def execution_eligibility_def reboot_execution_eligibility_def split: if_splits)
  with assms(2,3) show ?thesis
    by (simp add: reboot_stage_def bindM_def comp_simps Let_def)
qed

definition reboot_event :: structured_log_event where
  "reboot_event = (log_event ''e1'' (Aware 0) never_reboot ''ansible_task'' ''remediation'' ''succeeded'')
     \<lparr>l_stdout := ''reboot_required=true''\<rparr>"

lemma never_reboot_fields:
  "pp_reboot_policy (h_patch_policy never_reboot) = ''never''"
  "r_reboot_approval_state approved_plan = ''pending''"
  by (simp_all add: never_reboot_def approved_plan_def sample_plan_base_def)

lemma reboot_without_reboot_approval_witness:
  "\<exists>n p w w' p'. reboot_stage (sample_env []) (sample_processes ''ok'') n p w = (Inr (Inr (True, p')), w') \<and>
     pp_reboot_policy (h_patch_policy (xn_host n)) = ''never'' \<and>
     r_reboot_approval_state (xn_plan n) = ''pending''"
proof -
  let ?n = "\<lparr>xn_host = never_reboot, xn_plan = approved_plan, xn_job_id = ''job-1'',
    xn_key_path = ''k'', xn_known_hosts = ''kh''\<rparr>"
  let ?p = "\<lparr>px_phases = [], px_events = [reboot_event], px_changed = True\<rparr>"
  have "str_in ''reboot_required=true'' (lower ''reboot_required=true'')"
    by code_simp
  then have needed: "reboot_needed (xn_plan ?n) ?p"
    by (simp add: reboot_needed_def reboot_event_def)
  obtain outp e w' where run: "run_playbook (sample_env []) (sample_processes ''ok'') ?n ''reboot''
      ''reboot.yml'' (key_world []) = (Inr (True, outp, [e]), w')"
    using sample_playbook by blast
  have "may_run (e_H (sample_env [])) (xn_host ?n) (xn_plan ?n)"
    using sample_may_run [of never_reboot] by (simp add: sample_runs)
  from reboot_without_reboot_approval [OF this needed run] show ?thesis
    using never_reboot_fields by (metis execution.select_convs(1,2))
qed

text \<open>C19: A success the worker counts is a completed workflow. With an executor that keeps the
  contract, \<open>execute_guarded\<close> reports a successful execution only when the executor was called
  under the worker's lease for the stored plan and host of its job, with the gate allowing
  them, and ran every phase of the workflow to success.\<close>

theorem guarded_success_is_complete:
  assumes "plan_executor (e_H E) (e_execute E)"
    and "execute_guarded E sn owner w = (Inr (r, res, sn'), w')" "er_success res"
  shows "\<exists>h v res0 v'. guarded E r h v \<and> leased_to owner (j_id (w_job v)) v \<and>
     e_execute E h r (j_id (w_job v)) v = (Inr res0, v') \<and> may_run (e_H E) h r \<and> completed_run res0"
  using execute_guarded_success [OF assms(2,3)] plan_executor.success_completes [OF assms(1)] by blast

lemma guarded_success_is_complete_witness:
  "\<exists>r res w'. execute_guarded simulating_env None ''w1'' leased_world = (Inr (r, res, None), w') \<and>
     (\<exists>h. may_run flat_digest h r)"
proof -
  obtain r res w' where run: "execute_guarded simulating_env None ''w1'' leased_world = (Inr (r, res, None), w')"
    and ok: "er_success res"
    using sample_guarded by blast
  have "plan_executor (e_H simulating_env) (e_execute simulating_env)"
    using simulation.plan_executor_axioms [of "sample_env []"]
    by (simp add: simulating_env_helpers sample_runs)
  from guarded_success_is_complete [OF this run ok] run show ?thesis
    by (auto simp: simulating_env_helpers)
qed

end
