(* ===== verification/Security.thy ===== *)
theory Security
  imports ServiceBase
begin

text \<open>
  Login, sessions and authorization (\<open>security.py\<close>, \<open>authorization.py\<close>). The password
  hasher (\<open>argon2\<close>), the token generator (\<open>secrets\<close>) and the Redis client of the rate
  limiter are parameters; the limiter's own dictionary is the field \<open>w_limiter\<close> of the
  world. A point in time is in microseconds.
\<close>

record redis_client =
  rc_incr :: "string \<Rightarrow> nat comp"
  rc_expire :: "string \<Rightarrow> int \<Rightarrow> unit comp"
  rc_delete :: "string \<Rightarrow> unit comp"

record auth_env =
  au_session_ttl_hours :: int
  au_maximum_attempts :: nat
  au_window_seconds :: int
  au_redis :: "redis_client option"
  au_verify :: "string \<Rightarrow> string \<Rightarrow> exn + bool"  \<comment> \<open>hash, password; \<open>False\<close> is a mismatch\<close>
  au_password_hash :: "string \<Rightarrow> string"
  au_token :: "nat \<Rightarrow> string"

definition default_maximum_attempts :: nat where "default_maximum_attempts = 8"

definition default_window_seconds :: int where "default_window_seconds = 300"

subsection \<open>The rate limiter\<close>

type_synonym limiter = "(string, nat \<times> int) dict"

text \<open>One attempt at a time: whether it is allowed, and the dictionary after it.\<close>

definition allow_memory ::
  "nat \<Rightarrow> int \<Rightarrow> int \<Rightarrow> string \<Rightarrow> limiter \<Rightarrow> bool \<times> limiter" where
  "allow_memory maximum window now key memory =
     (let (count, expires) = (case dict_get memory key of Some e \<Rightarrow> e | None \<Rightarrow> (0, now + window));
          (count', expires') = (if now \<ge> expires then (0, now + window) else (count, expires))
      in (count' + 1 \<le> maximum, dict_set key (count' + 1, expires') memory))"

definition window_micros :: "auth_env \<Rightarrow> int" where
  "window_micros A = au_window_seconds A * 1000000"

definition allow_in_memory :: "env \<Rightarrow> auth_env \<Rightarrow> string \<Rightarrow> bool comp" where
  "allow_in_memory E A key =
     bindM (utc_now E) (\<lambda>now w.
       let (ok, memory) = allow_memory (au_maximum_attempts A) (window_micros A)
                            (normalized_datetime now) key (w_limiter w)
       in (Inr ok, w\<lparr>w_limiter := memory\<rparr>))"

definition redis_key :: "string \<Rightarrow> string" where
  "redis_key key = ''login-attempt:'' @ key"

definition allow_attempt :: "env \<Rightarrow> auth_env \<Rightarrow> string \<Rightarrow> bool comp" where
  "allow_attempt E A key =
     (case au_redis A of
        None \<Rightarrow> allow_in_memory E A key
      | Some redis \<Rightarrow>
          tryM
            (bindM (externalM (rc_incr redis (redis_key key))) (\<lambda>count.
             bindM (whenM (count = 1)
                      (externalM (rc_expire redis (redis_key key) (au_window_seconds A)))) (\<lambda>_.
             returnM (count \<le> au_maximum_attempts A))))
            (\<lambda>_. allow_in_memory E A key))"

definition forget_attempts :: "string \<Rightarrow> unit comp" where
  "forget_attempts key w = (Inr (), w\<lparr>w_limiter := dict_pop key (w_limiter w)\<rparr>)"

definition reset_attempts :: "auth_env \<Rightarrow> string \<Rightarrow> unit comp" where
  "reset_attempts A key =
     bindM (case au_redis A of
              None \<Rightarrow> returnM ()
            | Some redis \<Rightarrow> tryM (externalM (rc_delete redis (redis_key key))) (\<lambda>_. returnM ()))
       (\<lambda>_. forget_attempts key)"

subsection \<open>Sessions\<close>

definition token_hash :: "env \<Rightarrow> string \<Rightarrow> string" where
  "token_hash E value = e_H E value"

definition token_urlsafe :: "auth_env \<Rightarrow> string comp" where
  "token_urlsafe A w = (Inr (au_token A (w_uuid w)), w\<lparr>w_uuid := w_uuid w + 1\<rparr>)"

definition ensure_admin :: "env \<Rightarrow> auth_env \<Rightarrow> string \<Rightarrow> string \<Rightarrow> user comp" where
  "ensure_admin E A username password =
     bindM (readM (\<lambda>s. get_user_by_username s username)) (\<lambda>existing.
     case existing of
       Some (u, password_hash) \<Rightarrow>
         if u_role u \<noteq> RoleAdmin then
           (let u' = u\<lparr>u_role := RoleAdmin\<rparr> in
            bindM (writeM (save_user u' password_hash)) (\<lambda>_. returnM u'))
         else returnM u
     | None \<Rightarrow>
         bindM (new_id E ''user'') (\<lambda>i.
         bindM (utc_now E) (\<lambda>now.
         let u = \<lparr>u_id = i, u_username = username, u_role = RoleAdmin, u_created_at = now\<rparr> in
         bindM (writeM (save_user u (au_password_hash A password))) (\<lambda>_. returnM u))))"

definition save_session_row :: "string \<Rightarrow> session_row \<Rightarrow> unit comp" where
  "save_session_row h row w =
     (let (r, s) = save_session h row (w_store w) in (r, w\<lparr>w_store := s\<rparr>))"

record login_response =
  lr_user :: user
  lr_csrf_token :: string

definition invalid_login :: exn where
  "invalid_login = ValueError ''Invalid username or password''"

text \<open>The session a login opens.\<close>

definition open_session :: "env \<Rightarrow> auth_env \<Rightarrow> user \<Rightarrow> (login_response \<times> string) comp" where
  "open_session E A u =
     bindM (token_urlsafe A) (\<lambda>session_token.
     bindM (token_urlsafe A) (\<lambda>csrf_token.
     bindM (utc_now E) (\<lambda>now.
     bindM (new_id E ''session'') (\<lambda>i.
     bindM (save_session_row (token_hash E session_token)
              \<lparr>se_id = i, se_user_id = u_id u, se_csrf_hash = token_hash E csrf_token,
               se_expires_at = add_seconds now (au_session_ttl_hours A * 3600),
               se_created_at = now\<rparr>) (\<lambda>_.
     returnM (\<lparr>lr_user = u, lr_csrf_token = csrf_token\<rparr>, session_token))))))"

definition login ::
  "env \<Rightarrow> auth_env \<Rightarrow> string \<Rightarrow> string \<Rightarrow> string \<Rightarrow> (login_response \<times> string) comp" where
  "login E A username password rate_limit_key =
     bindM (allow_attempt E A rate_limit_key) (\<lambda>ok.
     if \<not> ok then raiseM (ValueError ''Too many login attempts. Try again later.'')
     else
       bindM (readM (\<lambda>s. get_user_by_username s username)) (\<lambda>record.
       case record of
         None \<Rightarrow> raiseM invalid_login
       | Some (u, password_hash) \<Rightarrow>
           bindM (liftE (au_verify A password_hash password)) (\<lambda>matches.
           if \<not> matches then raiseM invalid_login
           else bindM (reset_attempts A rate_limit_key) (\<lambda>_. open_session E A u))))"

definition active_session :: "env \<Rightarrow> string option \<Rightarrow> session_row option comp" where
  "active_session E session_token =
     (if \<not> truthy session_token then returnM None
      else
        let token = token_hash E (or_empty session_token) in
        bindM (readM (\<lambda>s. get_session s token)) (\<lambda>record.
        case record of
          None \<Rightarrow> returnM None
        | Some row \<Rightarrow>
            bindM (utc_now E) (\<lambda>now.
            if normalized_datetime (se_expires_at row) \<le> normalized_datetime now
            then bindM (writeM (delete_session token)) (\<lambda>_. returnM None)
            else returnM (Some row))))"

definition authenticate :: "env \<Rightarrow> string option \<Rightarrow> user option comp" where
  "authenticate E session_token =
     bindM (active_session E session_token) (\<lambda>record.
     case record of
       None \<Rightarrow> returnM None
     | Some row \<Rightarrow>
         bindM (readM (\<lambda>s. get_user s (se_user_id row))) (\<lambda>u.
         case u of
           Some u \<Rightarrow> returnM (Some u)
         | None \<Rightarrow>
             bindM (writeM (delete_session (token_hash E (or_empty session_token)))) (\<lambda>_.
             returnM None)))"

definition verify_csrf :: "env \<Rightarrow> string option \<Rightarrow> string option \<Rightarrow> bool comp" where
  "verify_csrf E session_token csrf_token =
     (if \<not> truthy session_token \<or> \<not> truthy csrf_token then returnM False
      else
        bindM (active_session E session_token) (\<lambda>record.
        returnM (case record of
                   None \<Rightarrow> False
                 | Some row \<Rightarrow> se_csrf_hash row = token_hash E (or_empty csrf_token))))"

definition logout :: "env \<Rightarrow> string option \<Rightarrow> unit comp" where
  "logout E session_token =
     (if truthy session_token
      then writeM (delete_session (token_hash E (or_empty session_token))) else returnM ())"

subsection \<open>Authorization\<close>

datatype protected_action =
    VIEW_SESSION
  | VIEW_CREDENTIALS
  | MANAGE_CREDENTIALS
  | VIEW_HOSTS
  | MANAGE_HOSTS
  | TEST_HOST_CONNECTIONS
  | VIEW_SCANS
  | RUN_SCANS
  | VIEW_FINDINGS
  | VIEW_REMEDIATIONS
  | MANAGE_REMEDIATIONS
  | VIEW_JOBS
  | VIEW_SCHEDULES
  | MANAGE_SCHEDULES
  | VIEW_AGENT_ACTIVITY
  | VIEW_LOGS
  | VIEW_ALERTS
  | ACKNOWLEDGE_ALERTS
  | VIEW_AUDIT
  | VIEW_CAMPAIGNS
  | MANAGE_CAMPAIGNS
  | LOGOUT

type_synonym policy = "(protected_action, user_role list) dict"

definition authorized :: "policy \<Rightarrow> user \<Rightarrow> protected_action \<Rightarrow> bool" where
  "authorized allowed_roles u action \<longleftrightarrow>
     u_role u \<in> set (case dict_get allowed_roles action of Some roles \<Rightarrow> roles | None \<Rightarrow> [])"

definition protected_actions :: "protected_action list" where
  "protected_actions =
     [VIEW_SESSION, VIEW_CREDENTIALS, MANAGE_CREDENTIALS, VIEW_HOSTS, MANAGE_HOSTS,
      TEST_HOST_CONNECTIONS, VIEW_SCANS, RUN_SCANS, VIEW_FINDINGS, VIEW_REMEDIATIONS,
      MANAGE_REMEDIATIONS, VIEW_JOBS, VIEW_SCHEDULES, MANAGE_SCHEDULES, VIEW_AGENT_ACTIVITY,
      VIEW_LOGS, VIEW_ALERTS, ACKNOWLEDGE_ALERTS, VIEW_AUDIT, VIEW_CAMPAIGNS,
      MANAGE_CAMPAIGNS, LOGOUT]"

definition alpha_policy :: policy where
  "alpha_policy = map (\<lambda>action. (action, [RoleAdmin])) protected_actions"

lemma alpha_policy_admin: "authorized alpha_policy u action \<longleftrightarrow> u_role u = RoleAdmin"
  by (cases action) (auto simp: authorized_def alpha_policy_def protected_actions_def)

end
