(* ===== verification/AccessProperties.thy ===== *)
theory AccessProperties
  imports Security Credentials ServiceFrames ServiceFixtures
begin

text \<open>
  What sessions, the login rate limiter and the credential store promise.
\<close>

subsection \<open>The rate limiter\<close>

text \<open>A sequence of attempts with the limiter's dictionary: which were allowed.\<close>

fun limiter_run :: "nat \<Rightarrow> int \<Rightarrow> limiter \<Rightarrow> (string \<times> int) list \<Rightarrow> (string \<times> int \<times> bool) list" where
  "limiter_run maximum window memory [] = []"
| "limiter_run maximum window memory ((key, now) # rest) =
     (let (ok, memory') = allow_memory maximum window now key memory
      in (key, now, ok) # limiter_run maximum window memory' rest)"

definition allowed_in :: "string \<Rightarrow> int \<Rightarrow> int \<Rightarrow> (string \<times> int \<times> bool) list \<Rightarrow> nat" where
  "allowed_in key a b outcomes =
     length (filter (\<lambda>(k, t, ok). k = key \<and> a \<le> t \<and> t < b \<and> ok) outcomes)"

lemma allowed_in_simps [simp]:
  "allowed_in key a b [] = 0"
  "allowed_in key a b ((k, t, ok) # xs) =
     (if k = key \<and> a \<le> t \<and> t < b \<and> ok then 1 else 0) + allowed_in key a b xs"
  by (simp_all add: allowed_in_def)

text \<open>
  How many more attempts with times in a span from \<open>a\<close> to \<open>a + window\<close> can be allowed, for
  the entry of the key and the time of the last attempt.
\<close>

fun budget :: "nat \<Rightarrow> int \<Rightarrow> int \<Rightarrow> (nat \<times> int) option \<Rightarrow> int \<Rightarrow> nat" where
  "budget maximum window a entry now =
     (if now < a then 2 * maximum
      else case entry of
        None \<Rightarrow> 2 * maximum
      | Some (used, expires) \<Rightarrow>
          if a + window \<le> expires then maximum - used else (maximum - used) + maximum)"

lemma allow_memory_entry:
  "allow_memory maximum window now key memory = (ok, memory') \<Longrightarrow>
   (let (count, expires) = (case dict_get memory key of Some e \<Rightarrow> e | None \<Rightarrow> (0, now + window));
        (c, e) = (if expires \<le> now then (0, now + window) else (count, expires))
    in ok = (c + 1 \<le> maximum) \<and> dict_get memory' key = Some (c + 1, e) \<and>
       (\<forall>k. k \<noteq> key \<longrightarrow> dict_get memory' k = dict_get memory k))"
  by (auto simp: allow_memory_def Let_def split: prod.splits if_splits)

lemma budget_step:
  assumes "allow_memory maximum window t key memory = (ok, memory')" "now \<le> t" "0 < window"
  shows "(if a \<le> t \<and> t < a + window \<and> ok then 1 else 0) +
      (if t < a + window then budget maximum window a (dict_get memory' key) t else 0)
    \<le> budget maximum window a (dict_get memory key) now"
  using allow_memory_entry [OF assms(1)] assms(2,3)
  by (cases "dict_get memory key") (auto simp: Let_def split: if_splits)

lemma limiter_late:
  assumes "sorted (map snd xs)" "\<forall>x \<in> set xs. b \<le> snd x"
  shows "allowed_in key a b (limiter_run maximum window memory xs) = 0"
  using assms
  by (induction maximum window memory xs rule: limiter_run.induct)
    (auto split: prod.splits)

lemma limiter_budget:
  assumes "sorted (map snd xs)" "\<forall>x \<in> set xs. now \<le> snd x" "0 < window"
  shows "allowed_in key a (a + window) (limiter_run maximum window memory xs)
    \<le> budget maximum window a (dict_get memory key) now"
  using assms
proof (induction maximum window memory xs arbitrary: now rule: limiter_run.induct)
  case (1 maximum window memory)
  then show ?case by simp
next
  case (2 maximum window memory k t rest)
  obtain ok memory' where m: "allow_memory maximum window t k memory = (ok, memory')"
    by (metis surj_pair)
  show ?case
  proof (cases "k = key")
    case True
    show ?thesis
    proof (cases "t < a + window")
      case in_span: True
      have "allowed_in key a (a + window) (limiter_run maximum window memory' rest)
          \<le> budget maximum window a (dict_get memory' key) t"
        using 2 m by auto
      moreover have "(if a \<le> t \<and> t < a + window \<and> ok then 1 else 0) +
          budget maximum window a (dict_get memory' key) t \<le> budget maximum window a (dict_get memory key) now"
        using budget_step [OF m [unfolded True], of now a] 2 in_span by (simp del: budget.simps)
      ultimately show ?thesis
        using True m by (simp del: budget.simps)
    next
      case False
      with 2 have "allowed_in key a (a + window) (limiter_run maximum window memory' rest) = 0"
        by (intro limiter_late) fastforce+
      with False m show ?thesis by (simp del: budget.simps)
    qed
  next
    case False
    have "dict_get memory' key = dict_get memory key"
      using allow_memory_entry [OF m] False by (auto simp: Let_def split: prod.splits)
    moreover have "allowed_in key a (a + window) (limiter_run maximum window memory' rest)
        \<le> budget maximum window a (dict_get memory' key) now"
      using 2 m by auto
    ultimately show ?thesis
      using False m by (simp del: budget.simps)
  qed
qed

text \<open>C23: Guessing is slowed down. Whatever the order of keys and however often other keys are
  tried, in any span as long as the limiter's window at most twice the maximum of the attempts
  with one key are allowed, provided the clock does not go back and no attempt succeeds in
  between (a success forgets the key).\<close>

theorem limiter_bounds_attempts:
  assumes "sorted (map snd attempts)" "0 < window"
  shows "allowed_in key a (a + window) (limiter_run maximum window memory attempts) \<le> 2 * maximum"
proof (cases attempts)
  case Nil
  then show ?thesis by simp
next
  case (Cons x xs)
  have "budget maximum window a (dict_get memory key) now \<le> 2 * maximum" for now
    by (auto split: option.split)
  moreover have "\<forall>y \<in> set attempts. min (snd x) a - 1 \<le> snd y"
    using assms(1) Cons by auto
  ultimately show ?thesis
    using limiter_budget [OF assms(1) _ assms(2), of "min (snd x) a - 1" key a maximum memory]
    by (meson order_trans)
qed

text \<open>Ten attempts a second apart: eight pass.\<close>

lemma limiter_bounds_attempts_witness:
  "allowed_in ''k'' 0 300 (limiter_run 8 300 [] (map (\<lambda>i. (''k'', int i)) [0..<10])) \<le> 16 \<and>
   allowed_in ''k'' 0 300 (limiter_run 8 300 [] (map (\<lambda>i. (''k'', int i)) [0..<10])) = 8"
proof
  show "allowed_in ''k'' 0 300 (limiter_run 8 300 [] (map (\<lambda>i. (''k'', int i)) [0..<10])) \<le> 16"
    using limiter_bounds_attempts [of "map (\<lambda>i. (''k'', int i)) [0..<10]" 300 "''k''" 0 8 "[]"]
    by (simp add: upt_conv_Cons del: limiter_run.simps)
qed code_simp

subsection \<open>Sessions\<close>

text \<open>The table of users is keyed by their id.\<close>

definition users_keyed :: "store \<Rightarrow> bool" where
  "users_keyed s \<longleftrightarrow> dict_wf (t_users s) \<and> (\<forall>(k, u, p) \<in> set (t_users s). k = u_id u)"

lemma user_by_name:
  assumes "users_keyed s" "get_user_by_username s name = Some (u, p)"
  shows "get_user s (u_id u) = Some u" "u_username u = name"
proof -
  from find_Some_set [OF assms(2) [unfolded get_user_by_username_def]]
  obtain k where "(k, u, p) \<in> set (t_users s)" and name: "u_username u = name" by auto
  with assms(1) have "(u_id u, u, p) \<in> set (t_users s)" "dict_wf (t_users s)"
    by (auto simp: users_keyed_def)
  then show "get_user s (u_id u) = Some u"
    by (simp add: get_user_def map_of_eq_Some_iff)
  show "u_username u = name" by (fact name)
qed

text \<open>A rate limiter that does not touch the store: none at all in Redis, or a client that does not.\<close>

definition limiter_only :: "auth_env \<Rightarrow> bool" where
  "limiter_only A \<longleftrightarrow> (case au_redis A of None \<Rightarrow> True | Some redis \<Rightarrow>
     (\<forall>key n w. w_store (snd (rc_incr redis key w)) = w_store w \<and>
        w_store (snd (rc_expire redis key n w)) = w_store w \<and>
        w_store (snd (rc_delete redis key w)) = w_store w))"

lemma allow_in_memory_store: "w_store (snd (allow_in_memory E A key w)) = w_store w"
  by (simp add: allow_in_memory_def bindM_def comp_simps Let_def split: prod.split)

lemma preserves_eq: "(\<And>w. w_store (snd (m w)) = w_store w) \<Longrightarrow> preserves (\<lambda>s. s = s0) m"
  by (simp add: preserves_def)

lemma limiter_keeps_store:
  assumes "limiter_only A"
  shows "preserves (\<lambda>s. s = s0) (allow_attempt E A key)" "preserves (\<lambda>s. s = s0) (reset_attempts A key)"
proof -
  have mem: "preserves (\<lambda>s. s = s0) (allow_in_memory E A key)" "preserves (\<lambda>s. s = s0) (forget_attempts key)"
    by (simp_all add: preserves_eq allow_in_memory_store forget_attempts_def)
  have redis: "preserves (\<lambda>s. s = s0) (rc_incr r k)" "preserves (\<lambda>s. s = s0) (rc_expire r k n)"
    "preserves (\<lambda>s. s = s0) (rc_delete r k)" if "au_redis A = Some r" for r k n
    using assms that by (auto simp: limiter_only_def intro: preserves_eq)
  show "preserves (\<lambda>s. s = s0) (allow_attempt E A key)"
    using mem redis unfolding allow_attempt_def whenM_def
    by (auto intro!: preserves_intros split: option.split)
  show "preserves (\<lambda>s. s = s0) (reset_attempts A key)"
    using mem redis unfolding reset_attempts_def
    by (auto intro!: preserves_intros split: option.split)
qed

text \<open>What a login did.\<close>

lemma login_Inr:
  assumes run: "login E A name password key w = (Inr (resp, token), w')" and "limiter_only A"
  obtains u hash row now s where "get_user_by_username (w_store w) name = Some (u, hash)"
    "au_verify A hash password = Inr True" "lr_user resp = u"
    "row = \<lparr>se_id = s, se_user_id = u_id u, se_csrf_hash = token_hash E (lr_csrf_token resp),
       se_expires_at = add_seconds now (au_session_ttl_hours A * 3600), se_created_at = now\<rparr>"
    "now \<in> range (e_clock E)"
    "w_store w' = (w_store w)\<lparr>t_sessions := dict_set (token_hash E token) row (t_sessions (w_store w))\<rparr>"
proof -
  obtain w1 u hash w2 where allow: "allow_attempt E A key w = (Inr True, w1)"
    and user: "get_user_by_username (w_store w1) name = Some (u, hash)"
    and pw: "au_verify A hash password = Inr True"
    and reset: "reset_attempts A key w1 = (Inr (), w2)"
    and open_it: "open_session E A u w2 = (Inr (resp, token), w')"
    using run
    by (auto simp: login_def bindM_eq_Inr comp_simps split: if_splits option.splits)
  have w1: "w_store w1 = w_store w" and w2: "w_store w2 = w_store w"
    using preservesD [OF limiter_keeps_store(1) [OF assms(2)] allow, of "w_store w"]
      preservesD [OF limiter_keeps_store(2) [OF assms(2)] reset, of "w_store w1"] by simp_all
  show thesis
    using open_it user pw w1 w2
    by (intro that)
      (auto simp: open_session_def bindM_eq_Inr comp_simps token_urlsafe_def new_id_def
        save_session_row_def save_session_def split: if_splits)
qed

text \<open>A session in the store, and what the operations make of its token.\<close>

lemma active_session_live:
  assumes "get_session (w_store w) (token_hash E tok) = Some row" "tok \<noteq> []"
    and "normalized_datetime (e_clock E (w_tick w)) < normalized_datetime (se_expires_at row)"
  shows "active_session E (Some tok) w = (Inr (Some row), w\<lparr>w_tick := w_tick w + 1\<rparr>)"
  using assms by (simp add: active_session_def bindM_def comp_simps Let_def)

lemma active_session_Inr:
  assumes "active_session E tok w = (Inr out, w')"
  shows "case out of
      Some row \<Rightarrow> truthy tok \<and> get_session (w_store w) (token_hash E (or_empty tok)) = Some row \<and>
        normalized_datetime (e_clock E (w_tick w)) < normalized_datetime (se_expires_at row) \<and>
        w' = w\<lparr>w_tick := w_tick w + 1\<rparr>
    | None \<Rightarrow> w_store w' = w_store w \<or>
        w_store w' = delete_session (token_hash E (or_empty tok)) (w_store w)"
  using assms
  by (auto simp: active_session_def bindM_def comp_simps Let_def split: if_splits option.splits)

text \<open>C21: A login opens a session that works until it expires or is closed. After a successful
  login the password was the user's; and in any state with the store it left, before the
  session expires, its token authenticates that user and its CSRF token is accepted; after it
  expires or after a logout the token authenticates nobody.\<close>

theorem login_session_roundtrip:
  assumes run: "login E A name password key w = (Inr (resp, token), w')"
    and "limiter_only A" "users_keyed (w_store w)" "token \<noteq> []" "lr_csrf_token resp \<noteq> []"
  shows "\<exists>hash opened. get_user_by_username (w_store w) name = Some (lr_user resp, hash) \<and>
    au_verify A hash password = Inr True \<and> opened \<in> range (e_clock E) \<and>
    (\<forall>v. w_store v = w_store w' \<longrightarrow>
       (if normalized_datetime (e_clock E (w_tick v)) <
           normalized_datetime (add_seconds opened (au_session_ttl_hours A * 3600))
        then fst (authenticate E (Some token) v) = Inr (Some (lr_user resp)) \<and>
             fst (verify_csrf E (Some token) (Some (lr_csrf_token resp)) v) = Inr True
        else fst (authenticate E (Some token) v) = Inr None) \<and>
       fst (bindM (logout E (Some token)) (\<lambda>_. authenticate E (Some token)) v) = Inr None)"
proof -
  obtain u hash row opened s where user: "get_user_by_username (w_store w) name = Some (u, hash)"
    and pw: "au_verify A hash password = Inr True" and u: "lr_user resp = u"
    and row: "row = \<lparr>se_id = s, se_user_id = u_id u, se_csrf_hash = token_hash E (lr_csrf_token resp),
       se_expires_at = add_seconds opened (au_session_ttl_hours A * 3600), se_created_at = opened\<rparr>"
    and opened: "opened \<in> range (e_clock E)"
    and w': "w_store w' = (w_store w)\<lparr>t_sessions :=
       dict_set (token_hash E token) row (t_sessions (w_store w))\<rparr>"
    using login_Inr [OF run assms(2)] by metis
  have stored: "get_session (w_store w') (token_hash E token) = Some row"
    "get_user (w_store w') (u_id u) = Some u"
    using user_by_name(1) [OF assms(3) user] by (simp_all add: w' get_session_def get_user_def)
  have live: "fst (authenticate E (Some token) v) = Inr (Some u) \<and>
      fst (verify_csrf E (Some token) (Some (lr_csrf_token resp)) v) = Inr True"
    if "w_store v = w_store w'" "normalized_datetime (e_clock E (w_tick v)) <
        normalized_datetime (add_seconds opened (au_session_ttl_hours A * 3600))" for v
  proof -
    have "active_session E (Some token) v = (Inr (Some row), v\<lparr>w_tick := w_tick v + 1\<rparr>)"
      using that stored assms(4) by (intro active_session_live) (simp_all add: row)
    then show ?thesis
      using stored that assms(4,5)
      by (simp add: authenticate_def verify_csrf_def bindM_def comp_simps row)
  qed
  have over: "fst (authenticate E (Some token) v) = Inr None"
    if "w_store v = w_store w'" "\<not> normalized_datetime (e_clock E (w_tick v)) <
        normalized_datetime (add_seconds opened (au_session_ttl_hours A * 3600))" for v
    using that stored assms(4)
    by (simp add: authenticate_def active_session_def bindM_def comp_simps Let_def row)
  have closed: "fst (bindM (logout E (Some token)) (\<lambda>_. authenticate E (Some token)) v) = Inr None" for v
    using assms(4)
    by (simp add: logout_def authenticate_def active_session_def bindM_def comp_simps Let_def
        get_session_def delete_session_def)
  show ?thesis
    using user u pw opened live over closed by (intro exI [of _ hash] exI [of _ opened]) auto
qed

text \<open>Bob logs in.\<close>

definition sample_auth :: auth_env where
  "sample_auth = \<lparr>au_session_ttl_hours = 12, au_maximum_attempts = default_maximum_attempts,
     au_window_seconds = default_window_seconds, au_redis = None,
     au_verify = (\<lambda>hash pw. Inr (hash = pw)), au_password_hash = (\<lambda>pw. pw),
     au_token = (\<lambda>n. CHR ''t'' # dec_nat n)\<rparr>"

definition bob :: user where
  "bob = \<lparr>u_id = ''user-1'', u_username = ''bob'', u_role = RoleAdmin, u_created_at = Aware 0\<rparr>"

definition bobs_world :: world where
  "bobs_world = (sample_world approved_plan [])
     \<lparr>w_store := (sample_store approved_plan [])\<lparr>t_users := [(''user-1'', bob, ''secret'')]\<rparr>\<rparr>"

lemma sample_login:
  "\<exists>w'. login ((sample_env [])\<lparr>e_H := \<lambda>s. s\<rparr>) sample_auth ''bob'' ''secret'' ''k'' bobs_world =
     (Inr (\<lparr>lr_user = bob, lr_csrf_token = ''t2''\<rparr>, ''t1''), w')"
proof -
  have "dec_nat (Suc 0) = ''1''" "dec_nat (Suc (Suc 0)) = ''2''" by code_simp+
  then show ?thesis
    by (simp add: login_def allow_attempt_def allow_in_memory_def allow_memory_def sample_auth_def
        bobs_world_def bob_def sample_world_def sample_store_def get_user_by_username_def
        reset_attempts_def forget_attempts_def open_session_def token_urlsafe_def bindM_def comp_simps
        sample_env_def new_id_def save_session_row_def save_session_def token_hash_def
        default_maximum_attempts_def window_micros_def default_window_seconds_def Let_def)
qed

lemma login_session_roundtrip_witness:
  "\<exists>w'. login ((sample_env [])\<lparr>e_H := \<lambda>s. s\<rparr>) sample_auth ''bob'' ''secret'' ''k'' bobs_world =
     (Inr (\<lparr>lr_user = bob, lr_csrf_token = ''t2''\<rparr>, ''t1''), w') \<and>
     fst (bindM (logout ((sample_env [])\<lparr>e_H := \<lambda>s. s\<rparr>) (Some ''t1''))
       (\<lambda>_. authenticate ((sample_env [])\<lparr>e_H := \<lambda>s. s\<rparr>) (Some ''t1'')) w') = Inr None"
proof -
  obtain w' where run: "login ((sample_env [])\<lparr>e_H := \<lambda>s. s\<rparr>) sample_auth ''bob'' ''secret'' ''k'' bobs_world =
     (Inr (\<lparr>lr_user = bob, lr_csrf_token = ''t2''\<rparr>, ''t1''), w')"
    using sample_login by blast
  have "limiter_only sample_auth" "users_keyed (w_store bobs_world)"
    by (simp_all add: limiter_only_def sample_auth_def users_keyed_def bobs_world_def bob_def)
  from login_session_roundtrip [OF run this] run show ?thesis
    by auto
qed

subsection \<open>Credentials\<close>

text \<open>C22: A stored secret comes back, and only as what it is. With a cipher whose decryption
  inverts its encryption, a secret that \<open>save_secret\<close> accepted is decrypted unchanged in every
  state that still holds its row, when it is asked for without a type or as its own type, and
  every other type is refused; and what was accepted passed the checks of its type and is at
  most one mebibyte.\<close>

theorem credential_roundtrip:
  assumes "save_secret E K name ct secret metadata w = (Inr c, w')" and "aead_correct K"
    and "get_credential_record (w_store v) (cr_id c) = get_credential_record (w_store w') (cr_id c)"
  shows "decrypt_secret K (cr_id c) t v =
      (if t \<in> {None, Some ct} then (Inr secret, v)
       else (Inl (ValueError (''Credential '' @ cr_id c @ '' is not a '' @
               credential_type_text (the t) @ '' credential'')), v)) \<and>
    validate_secret ct secret metadata = Inr () \<and> length secret \<le> 1048576"
proof -
  from save_secret_Inr [OF assms(1)] obtain n where
    "get_credential_record (w_store w') (cr_id c) = Some (c, k_encrypt K n secret (cr_id c), n)"
    by (auto simp: store_simps)
  from decrypt_saved [OF assms(2), of v "cr_id c" c n secret t] this assms(3)
  have "decrypt_secret K (cr_id c) t v =
      (if t \<in> {None, Some ct} then (Inr secret, v)
       else (Inl (ValueError (''Credential '' @ cr_id c @ '' is not a '' @
               credential_type_text (the t) @ '' credential'')), v))"
    using save_secret_Inr(2) [OF assms(1)] by simp
  moreover have "validate_secret ct secret metadata = Inr () \<and> length secret \<le> 1048576"
    using save_secret_Inr(5,6) [OF assms(1)] by (simp add: max_secret_bytes_def)
  ultimately show ?thesis
    by blast
qed

text \<open>A cipher that prepends its nonce and the associated data.\<close>

definition tagging_cipher :: cipher where
  "tagging_cipher = \<lparr>k_encrypt = (\<lambda>n m a. n @ a @ m),
     k_decrypt = (\<lambda>n c a. if prefix (n @ a) c then Inr (drop (length n + length a) c)
                          else Inl (OtherError ''InvalidTag'')), k_nonce = dec_nat\<rparr>"

lemma sample_save:
  "\<exists>c w'. save_secret (sample_env []) tagging_cipher ''key'' ProxmoxToken ''s3cret'' [] (sample_world approved_plan []) =
     (Inr c, w')"
proof -
  have "\<not> blank_bytes ''s3cret''" by code_simp
  then show ?thesis
    by (simp add: save_secret_def validate_secret_def max_secret_bytes_def urandom_def new_id_def
        bindM_def comp_simps Let_def)
qed

lemma credential_roundtrip_witness:
  "\<exists>(c :: ssh_credential) w'. decrypt_secret tagging_cipher (cr_id c) (Some ProxmoxToken) w' = (Inr ''s3cret'', w')"
proof -
  obtain c w' where run: "save_secret (sample_env []) tagging_cipher ''key'' ProxmoxToken ''s3cret'' []
     (sample_world approved_plan []) = (Inr c, w')"
    using sample_save by blast
  have "aead_correct tagging_cipher"
    by (simp add: aead_correct_def tagging_cipher_def)
  from credential_roundtrip [OF run this refl, of "Some ProxmoxToken"] have
    "decrypt_secret tagging_cipher (cr_id c) (Some ProxmoxToken) w' = (Inr ''s3cret'', w')"
    by simp
  then show ?thesis
    by (intro exI)
qed

end
