(* ===== verification/Verifier.thy ===== *)
theory Verifier
  imports Models
begin

text \<open>
  The deterministic verifier of the specialists' findings (\<open>verifier.py\<close>): which evidence a
  finding may cite, and which findings are rejected, with the reasons in order. Findings are
  marked by replacing them; the source mutates the shared objects.
\<close>

definition allowed_actions :: "string list" where
  "allowed_actions = [''package_upgrade'', ''manual_review'']"

definition fixed_citations :: "string list" where
  "fixed_citations =
     [''serviceSummary.failedUnits'', ''services.failed_units'', ''logs.journal'', ''logs.kernel'',
      ''logs.auth'', ''logs.aptHistory'', ''logs.apt_history'', ''logs.rebootHistory'',
      ''systemSummary.diskUsagePercent'', ''systemSummary.inodeUsagePercent'',
      ''systemSummary.memoryUsagePercent'', ''systemSummary.kernelVersion'',
      ''system.reboot_marker'', ''packageSummary'', ''packages.updates'']"

definition evidence_registry :: "host_snapshot \<Rightarrow> string list" where
  "evidence_registry snapshot =
     fixed_citations @ map (\<lambda>(k, _). ''commands.'' @ k) (sn_commands snapshot) @
     map (\<lambda>(k, _). ''evidenceStates.'' @ k) (sn_evidence_states snapshot)"

definition contested_claims :: "agent_message list \<Rightarrow> string list" where
  "contested_claims messages =
     concat (map am_claim_ids
       (filter (\<lambda>m. am_response m \<in> {''challenge'', ''request_evidence''}) messages))"

definition citations_of :: "finding \<Rightarrow> string list" where
  "citations_of f = map ev_citation (f_evidence f)"

text \<open>Why a finding is rejected.\<close>

definition rejection_reasons :: "string list \<Rightarrow> string list \<Rightarrow> finding \<Rightarrow> string list" where
  "rejection_reasons allowed conflicts f =
     (let invalid = filter (\<lambda>c. c \<notin> set allowed) (remdups (citations_of f)) in
      (if f_severity f \<noteq> SevInfo \<and> citations_of f = []
       then [''finding has no evidence citations''] else []) @
      (if invalid \<noteq> [] then [''unknown citations: '' @ join_str '', '' (sort invalid)] else []) @
      (case f_recommended_action f of
         Some a \<Rightarrow> if ra_action_type a \<notin> set allowed_actions
                    then [''action is not in the remediation catalog''] else []
       | None \<Rightarrow> []) @
      (if f_id f \<in> set conflicts
       then [''peer review left the claim challenged or missing evidence''] else []) @
      (if f_confidence f < 3 / 4 \<and> f_recommended_action f \<noteq> None
       then [''confidence is below executable-plan threshold''] else []))"

fun verify_loop ::
  "string list \<Rightarrow> string list \<Rightarrow> finding list \<Rightarrow> finding list \<times> string list" where
  "verify_loop allowed conflicts [] = ([], [])"
| "verify_loop allowed conflicts (f # fs) =
     (let reasons = rejection_reasons allowed conflicts f;
          (verified, rejected) = verify_loop allowed conflicts fs
      in if reasons \<noteq> []
         then (verified, (f_id f @ '': '' @ join_str ''; '' reasons) # rejected)
         else (f\<lparr>f_verifier_status := ''verified''\<rparr> # verified, rejected))"

definition verify_findings ::
  "host_snapshot \<Rightarrow> finding list \<Rightarrow> agent_message list \<Rightarrow> finding list \<times> string list" where
  "verify_findings snapshot findings messages =
     verify_loop (evidence_registry snapshot) (contested_claims messages) findings"

subsection \<open>What is verified\<close>

text \<open>A finding the evidence supports and no peer contests.\<close>

definition supported :: "host_snapshot \<Rightarrow> agent_message list \<Rightarrow> finding \<Rightarrow> bool" where
  "supported snapshot messages f \<longleftrightarrow>
     (f_severity f = SevInfo \<or> f_evidence f \<noteq> []) \<and>
     (\<forall>e \<in> set (f_evidence f). ev_citation e \<in> set (evidence_registry snapshot)) \<and>
     (\<forall>m \<in> set messages. f_id f \<in> set (am_claim_ids m) \<longrightarrow>
        am_response m \<noteq> ''challenge'' \<and> am_response m \<noteq> ''request_evidence'') \<and>
     (case f_recommended_action f of None \<Rightarrow> True
      | Some a \<Rightarrow> ra_action_type a \<in> {''package_upgrade'', ''manual_review''} \<and> 3 / 4 \<le> f_confidence f)"

lemma no_reasons_iff:
  "rejection_reasons (evidence_registry s) (contested_claims ms) f = [] \<longleftrightarrow> supported s ms f"
proof -
  have "f_id f \<notin> set (contested_claims ms) \<longleftrightarrow> (\<forall>m \<in> set ms. f_id f \<in> set (am_claim_ids m) \<longrightarrow>
      am_response m \<noteq> ''challenge'' \<and> am_response m \<noteq> ''request_evidence'')"
    by (auto simp: contested_claims_def)
  moreover have "filter (\<lambda>c. c \<notin> set (evidence_registry s)) (remdups (citations_of f)) = [] \<longleftrightarrow>
      (\<forall>e \<in> set (f_evidence f). ev_citation e \<in> set (evidence_registry s))"
    by (auto simp: citations_of_def filter_empty_conv)
  ultimately show ?thesis
    by (auto simp: rejection_reasons_def supported_def allowed_actions_def Let_def citations_of_def
        not_less split: option.split)
qed

lemma verify_loop_result:
  "verify_loop allowed conflicts fs =
     (map (\<lambda>f. f\<lparr>f_verifier_status := ''verified''\<rparr>)
        (filter (\<lambda>f. rejection_reasons allowed conflicts f = []) fs),
      map (\<lambda>f. f_id f @ '': '' @ join_str ''; '' (rejection_reasons allowed conflicts f))
        (filter (\<lambda>f. rejection_reasons allowed conflicts f \<noteq> []) fs))"
  by (induction fs) (simp_all add: Let_def split_beta)

lemma verify_findings_result:
  "fst (verify_findings s fs ms) = map (\<lambda>f. f\<lparr>f_verifier_status := ''verified''\<rparr>) (filter (supported s ms) fs)"
  "snd (verify_findings s fs ms) = [] \<longleftrightarrow> (\<forall>f \<in> set fs. supported s ms f)"
  "length (snd (verify_findings s fs ms)) = length (filter (\<lambda>f. \<not> supported s ms f) fs)"
  by (simp_all add: verify_findings_def verify_loop_result no_reasons_iff filter_empty_conv)

end
