(* ===== verification/AgentBase.thy ===== *)
theory AgentBase
  imports Verifier ServiceSync PyText
begin

text \<open>
  What the agents of \<open>agents.py\<close> share: the model they are routed to, their contract, the
  cache of answers (\<open>memory.py\<close>, an interface), the prompt and its key, and the deterministic
  policy of the two specialists.

  A provider's answer is any computation with any JSON object; the cache is any pair of
  computations. \<open>model_dump\<close> of pydantic, \<open>json.loads\<close>, and the compact \<open>json.dumps\<close> of a
  payload with floats are parameters too: the prompt is text no other part of the code reads.
\<close>

subsection \<open>Providers, contracts, surroundings\<close>

record completion =
  cm_data :: details
  cm_prompt_tokens :: int
  cm_completion_tokens :: int

definition no_completion :: completion where
  "no_completion = \<lparr>cm_data = [], cm_prompt_tokens = 0, cm_completion_tokens = 0\<rparr>"

record model_provider =
  mp_name :: string
  mp_model :: string
  mp_complete :: "string \<Rightarrow> string \<Rightarrow> int \<Rightarrow> completion comp"

definition external :: "model_provider \<Rightarrow> bool" where
  "external p \<longleftrightarrow> mp_name p \<in> {''openai'', ''anthropic''}"

record routed_model =
  rm_identity :: agent_identity
  rm_provider :: "model_provider option"

definition routed_external :: "routed_model \<Rightarrow> bool" where
  "routed_external rm \<longleftrightarrow> pred_option external (rm_provider rm)"

record agent_contract =
  ac_agent :: agent_name
  ac_version :: int
  ac_model_tier :: string
  ac_max_input_tokens :: int
  ac_max_output_tokens :: int
  ac_max_conversation_rounds :: int
  ac_content :: string
  ac_content_hash :: string
  ac_path :: string

record agent_env =
  ag_get :: "string \<Rightarrow> string option comp"     \<comment> \<open>\<open>AgentMemory\<close>\<close>
  ag_put :: "string \<Rightarrow> string \<Rightarrow> unit comp"
  ag_loads :: "string \<Rightarrow> exn + json"
  ag_dumps :: "json \<Rightarrow> string"                  \<comment> \<open>sorted keys, no spaces\<close>
  ag_redact_payload :: "json \<Rightarrow> host \<Rightarrow> json"
  ag_dump_host :: "host \<Rightarrow> json"
  ag_dump_snapshot :: "host_snapshot \<Rightarrow> json"
  ag_dump_finding :: "finding \<Rightarrow> json"
  ag_dump_report :: "agent_report \<Rightarrow> details"
  ag_dump_message :: "agent_message \<Rightarrow> json"
  ag_dump_policy :: "patch_policy \<Rightarrow> json"
  ag_latency_ms :: "nat \<Rightarrow> int"
  ag_validation_error :: string                 \<comment> \<open>what pydantic says of a malformed field\<close>

subsection \<open>Python values\<close>

text \<open>\<open>str(value)\<close> of a value read from JSON.\<close>

fun py_str :: "env \<Rightarrow> json \<Rightarrow> string" where
  "py_str E (JStr s) = s"
| "py_str E j = e_repr E j"

text \<open>\<open>str(d.get(key) or dflt)\<close>.\<close>

definition text_or :: "env \<Rightarrow> details \<Rightarrow> string \<Rightarrow> string \<Rightarrow> string" where
  "text_or E d key dflt =
     (case dict_get d key of None \<Rightarrow> dflt
      | Some j \<Rightarrow> if json_truthy j then py_str E j else dflt)"

text \<open>Iterating over \<open>d.get(key, [])\<close>: a list, the characters of a string, the keys of an object.\<close>

definition iterated :: "details \<Rightarrow> string \<Rightarrow> exn + json list" where
  "iterated d key =
     (case dict_get d key of
        None \<Rightarrow> Inr []
      | Some (JList js) \<Rightarrow> Inr js
      | Some (JStr s) \<Rightarrow> Inr (map (\<lambda>c. JStr [c]) s)
      | Some (JObj kvs) \<Rightarrow> Inr (map (\<lambda>(k, _). JStr k) kvs)
      | Some _ \<Rightarrow> Inl (OtherError ''TypeError''))"

text \<open>What \<open>.get\<close> is called on must be an object.\<close>

fun as_object :: "json \<Rightarrow> exn + details" where
  "as_object (JObj d) = Inr d"
| "as_object _ = Inl (OtherError ''AttributeError'')"

text \<open>\<open>json.dumps(value)\<close> with the default separators, as the cache stores it.\<close>

primrec plain_text :: "json \<Rightarrow> string" where
  "plain_text JNull = ''null''"
| "plain_text (JBool b) = (if b then ''true'' else ''false'')"
| "plain_text (JInt i) = dec_int i"
| "plain_text (JStr s) = quote s"
| "plain_text (JList js) = ''['' @ join_str '', '' (map plain_text js) @ '']''"
| "plain_text (JObj kvs) =
     ''{'' @ join_str '', '' (map (\<lambda>kt. quote (fst kt) @ '': '' @ snd kt)
                              (map (map_prod (\<lambda>k. k) plain_text) kvs)) @ ''}''"

text \<open>\<open>text[:k]\<close>; a negative \<open>k\<close> counts from the end.\<close>

definition slice_to :: "int \<Rightarrow> string \<Rightarrow> string" where
  "slice_to k s = take (nat (if k < 0 then int (length s) + k else k)) s"

definition compact_json :: "agent_env \<Rightarrow> json \<Rightarrow> int \<Rightarrow> string" where
  "compact_json G payload max_tokens =
     (let t = ag_dumps G payload; max_chars = max_tokens * 4
      in if int (length t) \<le> max_chars then t
         else slice_to (max_chars - 64) t @ [CHR 0x22] @ ''__truncated_for_token_budget__'' @
              [CHR 0x22] @ '':true}'')"

text \<open>
  \<open>except Exception\<close>: the exception of a computation as a value. \<open>JobLeaseLost\<close> stands for
  the cancellation of the worker's task, which is no \<open>Exception\<close> and passes.
\<close>

definition attempt :: "'a comp \<Rightarrow> (exn + 'a) comp" where
  "attempt m w =
     (case m w of
        (Inr x, w') \<Rightarrow> (Inr (Inr x), w')
      | (Inl e, w') \<Rightarrow> if e = JobLeaseLost then (Inl e, w') else (Inr (Inl e), w'))"

definition safe_provider_error :: "env \<Rightarrow> exn \<Rightarrow> string" where
  "safe_provider_error E e =
     (case e of ProviderError s \<Rightarrow> take 300 (e_redact E s None)
      | _ \<Rightarrow> ''AI provider request failed; deterministic output used.'')"

definition latency_ms :: "agent_env \<Rightarrow> int comp" where
  "latency_ms G w = (Inr (ag_latency_ms G (w_tick w)), w)"

subsection \<open>Prompts\<close>

definition provider_payload :: "agent_env \<Rightarrow> routed_model \<Rightarrow> host \<Rightarrow> json \<Rightarrow> json" where
  "provider_payload G rm h payload =
     (if routed_external rm then ag_redact_payload G payload h else payload)"

definition identity_members :: "agent_contract \<Rightarrow> routed_model \<Rightarrow> string \<Rightarrow> details" where
  "identity_members c rm prompt =
     [(''contract'', JStr (ac_content_hash c)), (''provider'', JStr (ai_provider (rm_identity rm))),
      (''model'', JStr (ai_model (rm_identity rm))), (''prompt'', JStr prompt)]"

text \<open>The prompt, the hash of the input and the key of the cache.\<close>

definition prepare_prompt ::
  "env \<Rightarrow> agent_env \<Rightarrow> agent_contract \<Rightarrow> routed_model \<Rightarrow> host \<Rightarrow> json \<Rightarrow> string \<Rightarrow>
   string \<times> string \<times> string" where
  "prepare_prompt E G c rm h payload purpose =
     (let prompt = compact_json G (provider_payload G rm h payload) (ac_max_input_tokens c);
          input_hash = stable_hash (e_H E)
            (JObj ((''purpose'', JStr purpose) # identity_members c rm prompt))
      in (prompt, input_hash, ''agent-cache:'' @ input_hash))"

subsection \<open>Findings of the specialists\<close>

definition make_finding ::
  "env \<Rightarrow> host \<Rightarrow> agent_name \<Rightarrow> string \<Rightarrow> severity \<Rightarrow> string \<Rightarrow> string \<Rightarrow> evidence list \<Rightarrow>
   recommended_action option \<Rightarrow> real \<Rightarrow> finding comp" where
  "make_finding E h src category sev summary explanation evidence action confidence =
     bindM (new_id E ''finding'') (\<lambda>i.
     bindM (utc_now E) (\<lambda>now.
     returnM \<lparr>f_id = i, f_host_id = h_id h, f_scan_id = None, f_source_agent = src,
       f_category = category, f_severity = sev, f_summary = summary, f_explanation = explanation,
       f_evidence = evidence, f_recommended_action = action,
       f_requires_approval = (action \<noteq> None), f_confidence = confidence, f_status = ''open'',
       f_verifier_status = ''pending'', f_verifier_reason = None, f_created_at = now\<rparr>))"

definition cite :: "string \<Rightarrow> string \<Rightarrow> string \<Rightarrow> evidence" where
  "cite src excerpt citation = \<lparr>ev_source = src, ev_excerpt = excerpt, ev_citation = citation\<rparr>"

definition recommend :: "string \<Rightarrow> string \<Rightarrow> string \<Rightarrow> recommended_action option" where
  "recommend action_type title rationale =
     Some \<lparr>ra_action_type = action_type, ra_title = title, ra_rationale = rationale\<rparr>"

text \<open>The steps \<open>if condition: findings.append(...)\<close> of a policy.\<close>

fun collect_findings :: "(bool \<times> finding comp) list \<Rightarrow> finding list comp" where
  "collect_findings [] = returnM []"
| "collect_findings ((b, m) # rest) =
     (if b then bindM m (\<lambda>f. bindM (collect_findings rest) (\<lambda>fs. returnM (f # fs)))
      else collect_findings rest)"

definition kernel_markers :: "string list" where
  "kernel_markers = [''out of memory'', ''oom-killer'', ''i/o error'', ''filesystem error'']"

type_synonym policy_steps = "(bool \<times> finding comp) list"

definition log_policy_steps :: "env \<Rightarrow> host \<Rightarrow> host_snapshot \<Rightarrow> policy_steps" where
  "log_policy_steps E h sn =
     (let failed = ss_failed_units (sn_service_summary sn); logs = sn_logs sn in
       [(failed \<noteq> [],
         make_finding E h LogAnalyst ''service_health'' SevHigh
           (dec_nat (length failed) @ '' failed service unit(s) detected.'')
           ''Journal evidence and systemd state agree that service health requires review.''
           [cite ''systemctl --failed'' (join_str '', '' failed) ''serviceSummary.failedUnits'',
            cite ''journalctl'' (take 400 (lg_journal logs)) ''logs.journal'']
           (recommend ''manual_review'' ''Review failed services''
              ''A pre-existing failure makes post-patch validation ambiguous.'') (96 / 100)),
        (str_in ''authentication failure'' (lower (lg_auth logs)),
         make_finding E h LogAnalyst ''authentication'' SevMedium
           ''Authentication failures were found in recent SSH logs.''
           ''The redacted events should be correlated with expected operator access.''
           [cite ''SSH journal'' (take 400 (lg_auth logs)) ''logs.auth'']
           (recommend ''manual_review'' ''Review authentication events''
              ''Identity events require operator context.'') (82 / 100)),
        (lg_kernel logs \<noteq> [] \<and> list_ex (\<lambda>t. str_in t (lower (lg_kernel logs))) kernel_markers,
         make_finding E h LogAnalyst ''kernel_health'' SevCritical
           ''Critical kernel or resource events were detected.''
           ''Kernel evidence contains an OOM, I/O, or filesystem failure marker.''
           [cite ''kernel journal'' (take 400 (lg_kernel logs)) ''logs.kernel'']
           (recommend ''manual_review'' ''Review critical kernel events''
              ''Patching should not proceed until the host is stable.'') (95 / 100))])"

text \<open>\<open>"%.0f" % x\<close>: the nearest integer, the even one of two.\<close>

definition whole_percent :: "real \<Rightarrow> string" where
  "whole_percent x =
     (let n = \<lfloor>x\<rfloor>; d = x - of_int n
      in dec_int (if d < 1 / 2 \<or> d = 1 / 2 \<and> even n then n else n + 1))"

definition state_policy_steps :: "env \<Rightarrow> host \<Rightarrow> host_snapshot \<Rightarrow> policy_steps" where
  "state_policy_steps E h sn =
     (let packages = sn_package_summary sn;
          disk = sy_disk_usage_percent (sn_system_summary sn) in
       [(ps_pending_package_updates packages \<noteq> 0,
         make_finding E h LinuxStateAnalyst ''patching''
           (if ps_pending_security_updates packages \<noteq> 0 then SevHigh else SevMedium)
           (dec_int (ps_pending_package_updates packages) @
              '' package update(s) are pending, including '' @
              dec_int (ps_pending_security_updates packages) @ '' security update(s).'')
           ''The orchestrator must choose a cataloged update scope and request approval.''
           [cite ''apt list --upgradable''
              (take 600 (or_empty (dict_get (sn_commands sn) ''upgradable_packages'')))
              ''commands.upgradable_packages'']
           (recommend ''package_upgrade'' ''Create a controlled patch plan''
              ''Package changes must use a cataloged Ansible playbook.'') (98 / 100)),
        (80 \<le> disk,
         make_finding E h LinuxStateAnalyst ''capacity'' (if 95 \<le> disk then SevCritical else SevMedium)
           (''Root filesystem usage is '' @ whole_percent disk @ ''%.'')
           ''Low free space can cause package installation and metadata operations to fail.''
           [cite ''df -P /'' (whole_percent disk @ ''% used'') ''systemSummary.diskUsagePercent'']
           (recommend ''manual_review'' ''Verify free disk space''
              ''Automated cleanup is not in the action catalog.'') (99 / 100)),
        (ps_held_packages packages \<noteq> [],
         make_finding E h LinuxStateAnalyst ''patching'' SevMedium
           ''Held packages may prevent a complete patch transaction.''
           ''The held-package list must be reviewed before execution.''
           [cite ''apt-mark showhold'' (join_str '', '' (ps_held_packages packages))
              ''commands.held_packages'']
           (recommend ''manual_review'' ''Review held packages''
              ''The alpha does not automatically remove package holds.'') (99 / 100))])"

definition policy_findings :: "env \<Rightarrow> agent_name \<Rightarrow> host \<Rightarrow> host_snapshot \<Rightarrow> finding list comp" where
  "policy_findings E name =
     (\<lambda>h sn. collect_findings
        (if name = LogAnalyst then log_policy_steps E h sn else state_policy_steps E h sn))"

definition fallback_overview :: "agent_name \<Rightarrow> finding list \<Rightarrow> string" where
  "fallback_overview name fs =
     agent_name_text name @ '' produced '' @ dec_nat (length fs) @ '' evidence-backed finding(s).''"

end
