(* ===== verification/Agents.thy ===== *)
theory Agents
  imports AgentBase
begin

text \<open>
  The agents (\<open>agents.py\<close>): the two specialists with their analysis and peer review, the
  orchestrator that turns verified findings into a plan, and the workflow that runs them.
  \<open>asyncio.gather\<close> runs the state agent before the log agent here; what either waits for may
  change the world arbitrarily, so other interleavings differ in identifiers and times only.
\<close>

record specialist =
  sp_name :: agent_name
  sp_contract :: agent_contract
  sp_routed :: routed_model

subsection \<open>Analysis\<close>

definition no_provider_analysis :: string where
  "no_provider_analysis = ''No AI provider configured; deterministic specialist analysis used.''"

text \<open>The overview, the completion, whether the cache answered, and why the policy's was used.\<close>

type_synonym 'a enriched = "'a \<times> completion \<times> bool \<times> string option"

definition analysis_overview ::
  "env \<Rightarrow> agent_env \<Rightarrow> specialist \<Rightarrow> string \<Rightarrow> string \<Rightarrow> string \<Rightarrow> string enriched comp" where
  "analysis_overview E G a prompt cache_key overview =
     bindM (externalM (ag_get G cache_key)) (\<lambda>cached.
     if truthy cached then
       bindM (liftE (ag_loads G (or_empty cached))) (\<lambda>j.
       bindM (liftE (as_object j)) (\<lambda>payload.
       returnM (text_or E payload ''overview'' overview,
                no_completion\<lparr>cm_data := payload\<rparr>, True, None)))
     else case rm_provider (sp_routed a) of
       None \<Rightarrow> returnM (overview, no_completion, False, Some no_provider_analysis)
     | Some p \<Rightarrow>
         bindM (attempt (externalM (mp_complete p (ac_content (sp_contract a)) prompt
                  (ac_max_output_tokens (sp_contract a))))) (\<lambda>answer.
         let unavailable = (\<lambda>text. text @
               '' Provider enrichment was unavailable; verified policy output was retained.'') in
         case answer of
           Inl e \<Rightarrow> returnM (unavailable overview, no_completion, False, Some (safe_provider_error E e))
         | Inr c \<Rightarrow>
             let text = text_or E (cm_data c) ''overview'' overview in
             bindM (attempt (externalM (ag_put G cache_key
                      (plain_text (JObj [(''overview'', JStr text)]))))) (\<lambda>stored.
             case stored of
               Inl e \<Rightarrow> returnM (unavailable text, c, False, Some (safe_provider_error E e))
             | Inr _ \<Rightarrow> returnM (text, c, False, None))))"

text \<open>The record of a run.\<close>

definition new_run ::
  "env \<Rightarrow> agent_env \<Rightarrow> string \<Rightarrow> routed_model \<Rightarrow> string \<Rightarrow> details \<Rightarrow> completion \<Rightarrow> bool \<Rightarrow>
   string option \<Rightarrow> agent_run comp" where
  "new_run E G scan_id rm input_hash outp c cache_hit fallback_reason =
     bindM (new_id E ''agent-run'') (\<lambda>i.
     bindM (latency_ms G) (\<lambda>ms.
     bindM (utc_now E) (\<lambda>now.
     returnM \<lparr>ar_id = i, ar_scan_id = scan_id, ar_agent = rm_identity rm, ar_status = ''succeeded'',
       ar_input_hash = input_hash, ar_output = outp, ar_prompt_tokens = cm_prompt_tokens c,
       ar_completion_tokens = cm_completion_tokens c, ar_latency_ms = ms,
       ar_cache_hit = cache_hit, ar_fallback_reason = fallback_reason,
       ar_externally_processed = routed_external rm, ar_created_at = now\<rparr>)))"

definition new_message ::
  "env \<Rightarrow> string \<Rightarrow> agent_name \<Rightarrow> agent_name \<Rightarrow> string \<Rightarrow> string list \<Rightarrow> string \<Rightarrow> string list \<Rightarrow>
   agent_message comp" where
  "new_message E scan_id from_agent to_agent response claim_ids reasoning citations =
     bindM (new_id E ''agent-message'') (\<lambda>i.
     bindM (utc_now E) (\<lambda>now.
     returnM \<lparr>am_id = i, am_scan_id = scan_id, am_from_agent = from_agent, am_to_agent = to_agent,
       am_round = 1, am_response = response, am_claim_ids = claim_ids, am_reasoning = reasoning,
       am_citations = citations, am_created_at = now\<rparr>))"

definition analysis_payload ::
  "agent_env \<Rightarrow> host \<Rightarrow> host_snapshot \<Rightarrow> finding list \<Rightarrow> json" where
  "analysis_payload G h sn fs =
     JObj [(''host'', ag_dump_host G h), (''snapshot'', ag_dump_snapshot G sn),
           (''policy_findings'', JList (map (ag_dump_finding G) fs)),
           (''required_output'', JObj [(''overview'', JStr ''string'')])]"

definition analyze ::
  "env \<Rightarrow> agent_env \<Rightarrow> specialist \<Rightarrow> string \<Rightarrow> host \<Rightarrow> host_snapshot \<Rightarrow>
   (agent_report \<times> agent_run \<times> agent_message) comp" where
  "analyze E G a scan_id h sn =
     bindM (policy_findings E (sp_name a) h sn) (\<lambda>fs.
     let (prompt, input_hash, cache_key) =
           prepare_prompt E G (sp_contract a) (sp_routed a) h (analysis_payload G h sn fs) ''analysis'' in
     bindM (analysis_overview E G a prompt cache_key (fallback_overview (sp_name a) fs))
       (\<lambda>(overview, c, cache_hit, fallback_reason).
     let report = \<lparr>rp_agent = rm_identity (sp_routed a), rp_overview = overview, rp_findings = fs\<rparr> in
     bindM (new_run E G scan_id (sp_routed a) input_hash (ag_dump_report G report) c cache_hit
              fallback_reason) (\<lambda>run.
     bindM (new_message E scan_id (sp_name a) Orchestrator ''report'' (map f_id fs) overview
              (concat (map citations_of fs))) (\<lambda>msg.
     returnM (report, run, msg)))))"

subsection \<open>Peer review\<close>

definition serious :: "finding \<Rightarrow> bool" where
  "serious f \<longleftrightarrow> f_severity f \<in> {SevHigh, SevCritical}"

definition relevant_claims :: "agent_report \<Rightarrow> agent_report \<Rightarrow> finding list" where
  "relevant_claims own other =
     (if rp_findings own = [] \<or> rp_findings other = [] then []
      else filter (\<lambda>f. list_ex serious (rp_findings own) \<or> serious f \<or>
                       f_category f \<in> set (map f_category (rp_findings own))) (rp_findings other))"

record review =
  rv_response :: string
  rv_claim_ids :: "string list"
  rv_reasoning :: string
  rv_citations :: "string list"

definition review_details :: "review \<Rightarrow> details" where
  "review_details r =
     [(''response'', JStr (rv_response r)), (''claim_ids'', JList (map JStr (rv_claim_ids r))),
      (''reasoning'', JStr (rv_reasoning r)), (''citations'', JList (map JStr (rv_citations r)))]"

definition deterministic_review :: "finding list \<Rightarrow> review" where
  "deterministic_review claims =
     (let missing = map f_id (filter (\<lambda>f. f_evidence f = []) claims) in
      \<lparr>rv_response = (if missing \<noteq> [] then ''request_evidence'' else ''confirm''),
       rv_claim_ids = (if missing \<noteq> [] then missing else map f_id claims),
       rv_reasoning = (if missing \<noteq> [] then ''One or more claims have no cited evidence.''
         else ''The claims are consistent with the supplied evidence and do not contradict this specialist'' @
              [CHR 0x27] @ ''s report.''),
       rv_citations = concat (map citations_of claims)\<rparr>)"

definition review_responses :: "string list" where
  "review_responses = [''confirm'', ''challenge'', ''request_evidence'', ''not_applicable'']"

text \<open>\<open>value in {...}\<close>: a list or an object cannot be hashed.\<close>

definition in_set_of :: "json option \<Rightarrow> string list \<Rightarrow> exn + bool" where
  "in_set_of v xs =
     (case v of
        Some (JList _) \<Rightarrow> Inl (OtherError ''TypeError'')
      | Some (JObj _) \<Rightarrow> Inl (OtherError ''TypeError'')
      | Some (JStr s) \<Rightarrow> Inr (s \<in> set xs)
      | _ \<Rightarrow> Inr False)"

definition json_string :: "json option \<Rightarrow> string" where
  "json_string v = (case v of Some (JStr s) \<Rightarrow> s | _ \<Rightarrow> [])"

text \<open>The strings of the items that are allowed.\<close>

definition allowed_items :: "env \<Rightarrow> details \<Rightarrow> string \<Rightarrow> string list \<Rightarrow> exn + string list" where
  "allowed_items E d key allowed =
     (case iterated d key of Inl e \<Rightarrow> Inl e
      | Inr js \<Rightarrow> Inr (filter (\<lambda>s. s \<in> set allowed) (map (py_str E) js)))"

definition validate_review_response ::
  "env \<Rightarrow> details \<Rightarrow> finding list \<Rightarrow> review \<Rightarrow> exn + review" where
  "validate_review_response E response relevant fallback =
     (let provider_response = dict_get response ''response'' in
      case (if rv_response fallback \<noteq> ''request_evidence''
            then in_set_of provider_response review_responses else Inr False) of
        Inl e \<Rightarrow> Inl e
      | Inr accepted \<Rightarrow>
      case allowed_items E response ''claim_ids'' (map f_id relevant) of
        Inl e \<Rightarrow> Inl e
      | Inr claim_ids \<Rightarrow>
      case allowed_items E response ''citations'' (concat (map citations_of relevant)) of
        Inl e \<Rightarrow> Inl e
      | Inr citations \<Rightarrow>
        Inr \<lparr>rv_response = (if accepted then json_string provider_response else rv_response fallback),
             rv_claim_ids = (if claim_ids \<noteq> [] then claim_ids else rv_claim_ids fallback),
             rv_reasoning = take 1000 (text_or E response ''reasoning'' (rv_reasoning fallback)),
             rv_citations = citations\<rparr>)"

text \<open>
  A cached review is used as it is: a missing key raises, and so does a value pydantic does not
  accept for the message's field.
\<close>

definition string_items :: "json list \<Rightarrow> string list option" where
  "string_items js = those (map (\<lambda>j. case j of JStr s \<Rightarrow> Some s | _ \<Rightarrow> None) js)"

definition read_review :: "agent_env \<Rightarrow> json \<Rightarrow> exn + review" where
  "read_review G j =
     (case j of
        JObj d \<Rightarrow>
          (case (dict_get d ''response'', dict_get d ''claim_ids'', dict_get d ''reasoning'',
                 dict_get d ''citations'') of
             (Some response, Some claim_ids, Some reasoning, Some citations) \<Rightarrow>
               (case (response, claim_ids, reasoning, citations) of
                  (JStr a, JList bs, JStr c, JList ds) \<Rightarrow>
                    (case (string_items bs, string_items ds) of
                       (Some b, Some d) \<Rightarrow>
                         if a \<in> set review_responses \<or> a \<in> {''report'', ''synthesis''}
                         then Inr \<lparr>rv_response = a, rv_claim_ids = b, rv_reasoning = c, rv_citations = d\<rparr>
                         else Inl (ValueError (ag_validation_error G))
                     | _ \<Rightarrow> Inl (ValueError (ag_validation_error G)))
                | _ \<Rightarrow> Inl (ValueError (ag_validation_error G)))
           | _ \<Rightarrow> Inl (OtherError ''KeyError''))
      | _ \<Rightarrow> Inl (OtherError ''TypeError''))"

definition no_provider_review :: string where
  "no_provider_review = ''No AI provider configured; deterministic peer review used.''"

definition review_answer ::
  "env \<Rightarrow> agent_env \<Rightarrow> specialist \<Rightarrow> finding list \<Rightarrow> string \<Rightarrow> string \<Rightarrow> (review \<times> details) enriched comp" where
  "review_answer E G a relevant prompt cache_key =
     (let deterministic = deterministic_review relevant;
          answer = (\<lambda>r c reason. returnM ((r, review_details r), c, False, reason)) in
      bindM (externalM (ag_get G cache_key)) (\<lambda>cached.
      if truthy cached then
        bindM (liftE (ag_loads G (or_empty cached))) (\<lambda>j.
        bindM (liftE (read_review G j)) (\<lambda>r.
        bindM (liftE (as_object j)) (\<lambda>d. returnM ((r, d), no_completion, True, None))))
      else case rm_provider (sp_routed a) of
        None \<Rightarrow> answer deterministic no_completion (Some no_provider_review)
      | Some p \<Rightarrow>
          bindM (attempt (externalM (mp_complete p (ac_content (sp_contract a)) prompt
                   (min (ac_max_output_tokens (sp_contract a)) 600)))) (\<lambda>completed.
          case completed of
            Inl e \<Rightarrow> answer deterministic no_completion (Some (safe_provider_error E e))
          | Inr c \<Rightarrow>
          case validate_review_response E (cm_data c) relevant deterministic of
            Inl e \<Rightarrow> answer deterministic c (Some (safe_provider_error E e))
          | Inr r \<Rightarrow>
              bindM (attempt (externalM (ag_put G cache_key (plain_text (JObj (review_details r))))))
                (\<lambda>stored.
              case stored of
                Inl e \<Rightarrow> answer r c (Some (safe_provider_error E e))
              | Inr _ \<Rightarrow> answer r c None))))"

definition review_payload :: "agent_env \<Rightarrow> agent_report \<Rightarrow> finding list \<Rightarrow> json" where
  "review_payload G own relevant =
     JObj [(''own_findings'', JList (map (ag_dump_finding G) (rp_findings own))),
           (''claims_to_review'', JList (map (ag_dump_finding G) relevant)),
           (''required_output'', JObj
              [(''response'', JStr ''confirm|challenge|request_evidence|not_applicable''),
               (''claim_ids'', JList [JStr ''string'']), (''reasoning'', JStr ''string''),
               (''citations'', JList [JStr ''string''])])]"

definition no_relevant_claims :: string where
  "no_relevant_claims = ''The other specialist produced no claims relevant to this agent'' @
     [CHR 0x27] @ ''s evidence domain.''"

definition peer_review ::
  "env \<Rightarrow> agent_env \<Rightarrow> specialist \<Rightarrow> string \<Rightarrow> host \<Rightarrow> agent_report \<Rightarrow> agent_report \<Rightarrow>
   (agent_message \<times> agent_run option) comp" where
  "peer_review E G a scan_id h own other =
     (let relevant = relevant_claims own other; other_agent = ai_name (rp_agent other) in
      if relevant = [] then
        bindM (new_message E scan_id (sp_name a) other_agent ''not_applicable'' [] no_relevant_claims [])
          (\<lambda>msg. returnM (msg, None))
      else
        let (prompt, input_hash, cache_key) =
              prepare_prompt E G (sp_contract a) (sp_routed a) h (review_payload G own relevant)
                ''peer-review'' in
        bindM (review_answer E G a relevant prompt cache_key)
          (\<lambda>((r, data), c, cache_hit, fallback_reason).
        bindM (new_message E scan_id (sp_name a) other_agent (rv_response r) (rv_claim_ids r)
                 (rv_reasoning r) (rv_citations r)) (\<lambda>msg.
        bindM (new_run E G scan_id (sp_routed a) input_hash data c cache_hit fallback_reason) (\<lambda>run.
        returnM (msg, Some run)))))"

subsection \<open>The orchestrator's answer\<close>

record orchestration =
  oc_update_scope :: string
  oc_risk_level :: string
  oc_explanation :: string
  oc_status :: string
  oc_supporting_citations :: "string list"
  oc_unresolved_conflicts :: "string list"

definition orchestration_details :: "orchestration \<Rightarrow> details" where
  "orchestration_details r =
     [(''update_scope'', JStr (oc_update_scope r)), (''risk_level'', JStr (oc_risk_level r)),
      (''explanation'', JStr (oc_explanation r)), (''status'', JStr (oc_status r)),
      (''supporting_citations'', JList (map JStr (oc_supporting_citations r))),
      (''unresolved_conflicts'', JList (map JStr (oc_unresolved_conflicts r)))]"

definition update_scopes :: "string list" where
  "update_scopes = [''all'', ''security'', ''none'']"

definition risk_levels :: "string list" where
  "risk_levels = [''info'', ''low'', ''medium'', ''high'', ''critical'']"

definition plan_statuses :: "string list" where
  "plan_statuses = [''plan_ready'', ''insufficient_evidence'']"

text \<open>\<open>list(dict.fromkeys(xs))\<close>: the first occurrence of each.\<close>

definition unique :: "string list \<Rightarrow> string list" where
  "unique xs = rev (remdups (rev xs))"

text \<open>A field is taken from the answer when it is one of the allowed strings.\<close>

definition chosen :: "details \<Rightarrow> string \<Rightarrow> string list \<Rightarrow> string \<Rightarrow> string" where
  "chosen d key allowed dflt =
     (case dict_get d key of
        Some (JStr s) \<Rightarrow> if s \<in> set allowed then s else dflt
      | _ \<Rightarrow> dflt)"

definition validate_orchestrator_response ::
  "env \<Rightarrow> details \<Rightarrow> orchestration \<Rightarrow> string list \<Rightarrow> exn + orchestration" where
  "validate_orchestrator_response E response fallback allowed_citations =
     (let status = (if oc_status fallback \<noteq> ''insufficient_evidence''
                    then chosen response ''status'' plan_statuses (oc_status fallback)
                    else oc_status fallback) in
      case allowed_items E response ''supporting_citations'' allowed_citations of
        Inl e \<Rightarrow> Inl e
      | Inr supplied \<Rightarrow>
      case iterated response ''unresolved_conflicts'' of
        Inl e \<Rightarrow> Inl e
      | Inr js \<Rightarrow>
        let provider_conflicts = take 10 (map (\<lambda>j. take 500 (py_str E j)) js);
            conflicts = take 10 (unique (oc_unresolved_conflicts fallback @ provider_conflicts)) in
        Inr \<lparr>oc_update_scope = chosen response ''update_scope'' update_scopes (oc_update_scope fallback),
             oc_risk_level = chosen response ''risk_level'' risk_levels (oc_risk_level fallback),
             oc_explanation = take 1600 (text_or E response ''explanation'' (oc_explanation fallback)),
             oc_status = (if conflicts \<noteq> [] then ''insufficient_evidence'' else status),
             oc_supporting_citations =
               (if supplied \<noteq> [] then supplied else oc_supporting_citations fallback),
             oc_unresolved_conflicts = conflicts\<rparr>)"

definition deterministic_scope :: "host \<Rightarrow> host_snapshot \<Rightarrow> string" where
  "deterministic_scope h sn =
     (let mode = pp_update_mode (h_patch_policy h) in
      if mode \<in> {''all'', ''security''} then mode
      else if ps_pending_package_updates (sn_package_summary sn) \<noteq> 0 then ''all'' else ''none'')"

definition synthesis_fallback ::
  "host \<Rightarrow> host_snapshot \<Rightarrow> finding list \<Rightarrow> agent_message list \<Rightarrow> string list \<Rightarrow> orchestration" where
  "synthesis_fallback h sn fs peer_messages rejected_claims =
     (let scope = deterministic_scope h sn;
          conflicts = map am_reasoning
            (filter (\<lambda>m. am_response m \<in> {''challenge'', ''request_evidence''}) peer_messages) @
            rejected_claims in
      \<lparr>oc_update_scope = scope, oc_risk_level = (if fs \<noteq> [] then ''high'' else ''info''),
       oc_explanation = (if scope \<noteq> ''none''
          then ''Verified evidence supports a controlled package plan.''
          else ''No package remediation is required.''),
       oc_status = (if conflicts \<noteq> [] then ''insufficient_evidence'' else ''plan_ready''),
       oc_supporting_citations = sort (remdups (concat (map citations_of fs))),
       oc_unresolved_conflicts = conflicts\<rparr>)"

subsection \<open>The plan\<close>

definition assess_reboot :: "host_snapshot \<Rightarrow> string \<Rightarrow> reboot_assessment" where
  "assess_reboot sn update_scope =
     (let ps = sn_package_summary sn;
          selected = filter (\<lambda>u. update_scope = ''all'' \<or> pu_security_update u) (ps_updates ps);
          reboot_packages = map pu_name (filter pu_reboot_hint selected);
          (status, rationale) =
            (if ps_reboot_required_now ps
             then (''required'', ''The host already has a reboot-required marker.'')
             else if reboot_packages \<noteq> [] then (''required_after_patch'',
               ''Selected kernel or core system packages are expected to require a reboot: '' @
               join_str '', '' reboot_packages @ ''.'')
             else if selected \<noteq> [] then (''unknown'',
               ''The final reboot decision must be checked after package installation.'')
             else (''not_expected'', ''No selected package has a known reboot hint.''))
      in \<lparr>rb_status = status, rb_rationale = rationale,
          rb_evidence = [cite ''reboot marker and package classification'' rationale ''packageSummary''],
          rb_estimated_downtime_minutes = (if status \<noteq> ''not_expected'' then 5 else 0),
          rb_approved_if_required = False\<rparr>)"

fun severity_rank :: "severity \<Rightarrow> nat" where
  "severity_rank SevInfo = 0"
| "severity_rank SevLow = 1"
| "severity_rank SevMedium = 2"
| "severity_rank SevHigh = 3"
| "severity_rank SevCritical = 4"

definition enforce_risk :: "host \<Rightarrow> host_snapshot \<Rightarrow> severity \<Rightarrow> reboot_assessment \<Rightarrow> severity" where
  "enforce_risk h sn requested reboot =
     (let required =
            (if 95 \<le> sy_disk_usage_percent (sn_system_summary sn) then SevCritical
             else if h_criticality h = ''high'' \<or> h_availability_class h = ''high_availability'' \<or>
                     rb_status reboot \<in> {''required'', ''required_after_patch''} \<or>
                     ss_failed_units (sn_service_summary sn) \<noteq> []
             then SevHigh else SevMedium)
      in if severity_rank required \<le> severity_rank requested then requested else required)"

definition rollout_for :: "host \<Rightarrow> severity \<Rightarrow> rollout_policy" where
  "rollout_for h risk =
     (if h_criticality h = ''high'' \<or> h_availability_class h = ''high_availability'' \<or>
         risk \<in> {SevHigh, SevCritical}
      then \<lparr>ro_strategy = ''one_at_a_time'', ro_batch_size = 1, ro_canary_count = 1,
            ro_rationale = ''High-risk or high-availability hosts are patched and validated one at a time.''\<rparr>
      else \<lparr>ro_strategy = ''canary_then_batches'', ro_batch_size = pp_max_batch_size (h_patch_policy h),
            ro_canary_count = pp_canary_count (h_patch_policy h),
            ro_rationale = ''Start with canaries, validate, then continue in bounded batches.''\<rparr>)"

text \<open>\<open>Severity(text)\<close>.\<close>

definition severity_of :: "string \<Rightarrow> exn + severity" where
  "severity_of s =
     (case List.find (\<lambda>v. severity_text v = s) [SevInfo, SevLow, SevMedium, SevHigh, SevCritical] of
        Some v \<Rightarrow> Inr v
      | None \<Rightarrow> Inl (ValueError ([CHR 0x27] @ s @ [CHR 0x27] @ '' is not a valid Severity'')))"

definition default_failure_policy :: failure_policy where
  "default_failure_policy =
     \<lparr>fp_stop_remaining_hosts = True, fp_notify_operator = True,
      fp_attempt_predefined_recovery = True,
      fp_recovery_actions = [''collect_failed_services'', ''collect_package_manager_state'',
                             ''mark_campaign_halted'']\<rparr>"

definition planned_protection :: "host \<Rightarrow> details" where
  "planned_protection h =
     (if h_snapshot_platform h \<noteq> PlatformNone then
        [(''supported'', JBool True), (''status'', JStr ''configured''),
         (''provider'', JStr (snapshot_platform_text (h_snapshot_platform h))),
         (''retention_days'', JInt (h_snapshot_retention_days h))]
      else [(''supported'', JBool False), (''status'', JStr ''deferred'')])"

text \<open>The plan before its hash is set.\<close>

definition draft_plan ::
  "routed_model \<Rightarrow> string \<Rightarrow> host \<Rightarrow> host_snapshot \<Rightarrow> agent_report list \<Rightarrow> orchestration \<Rightarrow> severity \<Rightarrow>
   string \<Rightarrow> datetime \<Rightarrow> datetime \<Rightarrow> remediation" where
  "draft_plan rm scan_id h sn reports response requested i created updated =
     (let scope = oc_update_scope response; reboot = assess_reboot sn scope;
          risk = enforce_risk h sn requested reboot in
      \<lparr>r_id = i, r_host_id = h_id h, r_scan_id = Some scan_id,
       r_title = ''Patch '' @ h_name h @ '' with '' @ scope @ '' updates'',
       r_action_type = ''package_upgrade'', r_update_scope = scope, r_risk_level = risk,
       r_ai_decision = \<lparr>ad_update_scope = scope, ad_risk_level = risk,
         ad_explanation = oc_explanation response, ad_status = oc_status response,
         ad_supporting_citations = oc_supporting_citations response,
         ad_unresolved_conflicts = oc_unresolved_conflicts response,
         ad_agent_assignments = rm_identity rm # map rp_agent reports\<rparr>,
       r_reboot_assessment = reboot, r_rollout_policy = rollout_for h risk,
       r_failure_policy = default_failure_policy,
       r_execution_timing = pp_execution_timing (h_patch_policy h),
       r_maintenance_window = pp_maintenance_window (h_patch_policy h),
       r_approval_scope = ''patch_only'', r_approval_state = ''pending'',
       r_reboot_approval_state = ''pending'', r_execution_state = ''not_started'',
       r_plan_version = 1, r_plan_hash = [], r_approved_by = None, r_approved_at = None,
       r_approved_plan_version = None, r_approved_plan_hash = None,
       r_reboot_approved_by = None, r_reboot_approved_at = None,
       r_reboot_approved_plan_version = None, r_reboot_approved_plan_hash = None,
       r_result = None, r_pre_change_protection = planned_protection h,
       r_created_at = created, r_updated_at = updated\<rparr>)"

definition build_remediation ::
  "env \<Rightarrow> routed_model \<Rightarrow> string \<Rightarrow> host \<Rightarrow> host_snapshot \<Rightarrow> agent_report list \<Rightarrow> orchestration \<Rightarrow>
   remediation option comp" where
  "build_remediation E rm scan_id h sn reports response =
     (if oc_status response \<noteq> ''plan_ready'' \<or> oc_update_scope response = ''none'' \<or>
         ps_pending_package_updates (sn_package_summary sn) = 0
      then returnM None
      else
        bindM (liftE (severity_of (oc_risk_level response))) (\<lambda>requested.
        bindM (new_id E ''remediation'') (\<lambda>i.
        bindM (utc_now E) (\<lambda>created.
        bindM (utc_now E) (\<lambda>updated.
        let r = draft_plan rm scan_id h sn reports response requested i created updated in
        returnM (Some (r\<lparr>r_plan_hash := plan_hash (e_H E) r\<rparr>)))))))"

subsection \<open>Synthesis\<close>

definition no_provider_synthesis :: string where
  "no_provider_synthesis = ''No AI provider configured; deterministic synthesis used.''"

definition synthesis_answer ::
  "env \<Rightarrow> agent_env \<Rightarrow> agent_contract \<Rightarrow> routed_model \<Rightarrow> orchestration \<Rightarrow> string list \<Rightarrow> string \<Rightarrow>
   string \<Rightarrow> orchestration enriched comp" where
  "synthesis_answer E G ac rm fallback citations prompt cache_key =
     bindM (externalM (ag_get G cache_key)) (\<lambda>cached.
     if truthy cached then
       bindM (liftE (ag_loads G (or_empty cached))) (\<lambda>j.
       bindM (liftE (as_object j)) (\<lambda>payload.
       bindM (liftE (validate_orchestrator_response E payload fallback citations)) (\<lambda>r.
       returnM (r, no_completion, True, None))))
     else case rm_provider rm of
       None \<Rightarrow> returnM (fallback, no_completion, False, Some no_provider_synthesis)
     | Some p \<Rightarrow>
         bindM (attempt (externalM (mp_complete p (ac_content ac) prompt (ac_max_output_tokens ac))))
           (\<lambda>completed.
         case completed of
           Inl e \<Rightarrow> returnM (fallback, no_completion, False, Some (safe_provider_error E e))
         | Inr c \<Rightarrow>
         case validate_orchestrator_response E (cm_data c) fallback citations of
           Inl e \<Rightarrow> returnM (fallback, c, False, Some (safe_provider_error E e))
         | Inr r \<Rightarrow>
             bindM (attempt (externalM (ag_put G cache_key (plain_text (JObj (orchestration_details r))))))
               (\<lambda>stored.
             returnM (r, c, False,
               case stored of Inl e \<Rightarrow> Some (safe_provider_error E e) | Inr _ \<Rightarrow> None))))"

definition synthesis_payload ::
  "agent_env \<Rightarrow> host \<Rightarrow> agent_report list \<Rightarrow> agent_message list \<Rightarrow> json" where
  "synthesis_payload G h reports peer_messages =
     JObj [(''host_policy'', ag_dump_policy G (h_patch_policy h)),
           (''host_criticality'', JStr (h_criticality h)),
           (''availability_class'', JStr (h_availability_class h)),
           (''verified_reports'', JList (map (\<lambda>r. JObj (ag_dump_report G r)) reports)),
           (''peer_review_messages'', JList (map (ag_dump_message G) peer_messages)),
           (''policy_constraints'', JObj
              [(''allowed_scopes'', JList (map JStr update_scopes)),
               (''human_approval_required'', JBool True),
               (''arbitrary_commands_forbidden'', JBool True)])]"

text \<open>The host's policy overrides the scope that was chosen.\<close>

definition impose_policy :: "host \<Rightarrow> orchestration \<Rightarrow> orchestration" where
  "impose_policy h r =
     (let mode = pp_update_mode (h_patch_policy h) in
      if mode \<in> {''all'', ''security''} then r\<lparr>oc_update_scope := mode\<rparr> else r)"

definition synthesize ::
  "env \<Rightarrow> agent_env \<Rightarrow> agent_contract \<Rightarrow> routed_model \<Rightarrow> string \<Rightarrow> host \<Rightarrow> host_snapshot \<Rightarrow>
   agent_report list \<Rightarrow> agent_message list \<Rightarrow> string list \<Rightarrow>
   (remediation option \<times> agent_run \<times> agent_message) comp" where
  "synthesize E G ac rm scan_id h sn reports peer_messages rejected_claims =
     (let fs = concat (map rp_findings reports);
          fallback = synthesis_fallback h sn fs peer_messages rejected_claims;
          prompt = compact_json G (provider_payload G rm h (synthesis_payload G h reports peer_messages))
                     (ac_max_input_tokens ac);
          input_hash = stable_hash (e_H E) (JObj (identity_members ac rm prompt)) in
      bindM (synthesis_answer E G ac rm fallback (oc_supporting_citations fallback) prompt
               (''agent-cache:'' @ input_hash)) (\<lambda>(answer, c, cache_hit, fallback_reason).
      let response = impose_policy h answer in
      bindM (new_run E G scan_id rm input_hash (orchestration_details response) c cache_hit
               fallback_reason) (\<lambda>run.
      bindM (new_message E scan_id Orchestrator Orchestrator ''synthesis'' (map f_id fs)
               (oc_explanation response) (oc_supporting_citations response)) (\<lambda>msg.
      bindM (build_remediation E rm scan_id h sn reports response) (\<lambda>remediation.
      returnM (remediation, run, msg))))))"

subsection \<open>The workflow\<close>

record workflow =
  wf_state :: specialist
  wf_log :: specialist
  wf_contract :: agent_contract
  wf_routed :: routed_model

definition run_agents ::
  "env \<Rightarrow> agent_env \<Rightarrow> workflow \<Rightarrow> string \<Rightarrow> host \<Rightarrow> host_snapshot \<Rightarrow> workflow_result comp" where
  "run_agents E G W scan_id h sn =
     bindM (analyze E G (wf_state W) scan_id h sn) (\<lambda>(state_report, state_run, state_message).
     bindM (analyze E G (wf_log W) scan_id h sn) (\<lambda>(log_report, log_run, log_message).
     bindM (peer_review E G (wf_state W) scan_id h state_report log_report) (\<lambda>(m1, run1).
     bindM (peer_review E G (wf_log W) scan_id h log_report state_report) (\<lambda>(m2, run2).
     let (verified, rejected) =
           verify_findings sn (rp_findings state_report @ rp_findings log_report) [m1, m2];
         state_report' = state_report\<lparr>rp_findings :=
           filter (\<lambda>f. f_source_agent f = LinuxStateAnalyst) verified\<rparr>;
         log_report' = log_report\<lparr>rp_findings :=
           filter (\<lambda>f. f_source_agent f = LogAnalyst) verified\<rparr> in
     bindM (synthesize E G (wf_contract W) (wf_routed W) scan_id h sn [state_report', log_report']
              [m1, m2] rejected) (\<lambda>(remediation, orchestrator_run, synthesis_message).
     returnM \<lparr>wr_findings = verified,
       wr_runs = [state_run, log_run] @ List.map_filter (\<lambda>r. r) [run1, run2] @ [orchestrator_run],
       wr_messages = [state_message, log_message, m1, m2, synthesis_message],
       wr_remediation = remediation, wr_reports = [state_report', log_report'],
       wr_rejected_claims = rejected\<rparr>)))))"

end
