(* ===== verification/Config.thy ===== *)
theory Config
  imports Security Credentials Processes
begin

text \<open>
  The settings (\<open>config.py\<close>) and what \<open>runtime.py\<close> builds from them: which settings are
  refused, the key and the password that are used, and which implementations are chosen.

  Files (an existing path's content), \<open>urlparse(...).hostname\<close> and base64 are parameters.
\<close>

text \<open>\<open>text.split(c)\<close>.\<close>

fun split_char :: "char \<Rightarrow> string \<Rightarrow> string list" where
  "split_char c [] = [[]]"
| "split_char c (x # s) =
     (if x = c then [] # split_char c s
      else case split_char c s of [] \<Rightarrow> [[x]] | p # ps \<Rightarrow> (x # p) # ps)"

record settings =
  st_app_environment :: string
  st_app_base_url :: string
  st_cookie_secure :: bool
  st_allow_insecure_localhost_alpha_cookies :: bool
  st_session_ttl_hours :: int
  st_admin_username :: string
  st_admin_password :: "string option"
  st_admin_password_file :: "string option"
  st_encryption_key :: "string option"
  st_encryption_key_file :: "string option"
  st_database_url :: "string option"
  st_redis_url :: "string option"
  st_celery_task_always_eager :: bool
  st_operational_health_ttl_seconds :: int
  st_collector_mode :: string
  st_execution_mode :: string
  st_data_dir :: string
  st_ai_provider_order :: string
  st_ai_orchestrator_provider :: string
  st_ai_specialist_provider :: string
  st_openai_api_key :: "string option"
  st_openai_base_url :: string
  st_openai_strong_model :: "string option"
  st_openai_economy_model :: "string option"
  st_anthropic_api_key :: "string option"
  st_anthropic_base_url :: string
  st_anthropic_strong_model :: "string option"
  st_anthropic_economy_model :: "string option"
  st_ollama_base_url :: string
  st_ollama_strong_model :: "string option"
  st_ollama_economy_model :: "string option"

record config_env =
  cf_file :: "string \<Rightarrow> string option"            \<comment> \<open>the content of an existing file\<close>
  cf_url_hostname :: "string \<Rightarrow> string option"
  cf_b64decode :: "string \<Rightarrow> bytes option"
  cf_default_key :: bytes                        \<comment> \<open>\<open>sha256(b"development-only-encryption-key")\<close>\<close>

definition provider_order :: "settings \<Rightarrow> string list" where
  "provider_order S = filter (\<lambda>s. s \<noteq> []) (map strip (split_char (CHR '','') (st_ai_provider_order S)))"

definition read_secret :: "config_env \<Rightarrow> string option \<Rightarrow> string option \<Rightarrow> string option" where
  "read_secret C value path =
     (case Option.bind path (cf_file C) of Some content \<Rightarrow> Some (strip content) | None \<Rightarrow> value)"

definition resolved_admin_password :: "config_env \<Rightarrow> settings \<Rightarrow> string option" where
  "resolved_admin_password C S = read_secret C (st_admin_password S) (st_admin_password_file S)"

definition resolved_encryption_key :: "config_env \<Rightarrow> settings \<Rightarrow> exn + bytes option" where
  "resolved_encryption_key C S =
     (let value = read_secret C (st_encryption_key S) (st_encryption_key_file S) in
      if \<not> truthy value then Inr None
      else case cf_b64decode C (or_empty value) of
        None \<Rightarrow> Inl (ValueError ''ENCRYPTION_KEY must be URL-safe base64'')
      | Some decoded \<Rightarrow>
          if length decoded \<noteq> 32
          then Inl (ValueError ''ENCRYPTION_KEY must decode to exactly 32 bytes'')
          else Inr (Some decoded))"

definition strip_brackets :: "string \<Rightarrow> string" where
  "strip_brackets s =
     (let b = (\<lambda>c. c = CHR ''['' \<or> c = CHR '']'') in rev (dropWhile b (rev (dropWhile b s))))"

definition localhost_cookie_exception :: "config_env \<Rightarrow> settings \<Rightarrow> bool" where
  "localhost_cookie_exception C S \<longleftrightarrow>
     st_allow_insecure_localhost_alpha_cookies S \<and>
     lower (strip_brackets (or_empty (cf_url_hostname C (st_app_base_url S))))
       \<in> {''localhost'', ''127.0.0.1'', ''::1''}"

definition effective_cookie_secure :: "config_env \<Rightarrow> settings \<Rightarrow> bool" where
  "effective_cookie_secure C S =
     (if st_cookie_secure S then True
      else if st_app_environment S = ''alpha'' \<and> localhost_cookie_exception C S then False
      else False)"

definition validate_runtime_requirements :: "config_env \<Rightarrow> settings \<Rightarrow> exn + unit" where
  "validate_runtime_requirements C S =
     (let starts = (\<lambda>url ps. list_ex (\<lambda>p. starts_with (or_empty url) p) ps) in
      if st_app_environment S \<noteq> ''alpha'' then Inr ()
      else if \<not> truthy (st_database_url S) \<or>
              \<not> starts (st_database_url S) [''postgresql://'', ''postgresql+psycopg://'']
      then Inl (RuntimeError ''Alpha mode requires a PostgreSQL DATABASE_URL'')
      else if \<not> truthy (st_redis_url S) \<or> \<not> starts (st_redis_url S) [''redis://'', ''rediss://'']
      then Inl (RuntimeError ''Alpha mode requires a Redis REDIS_URL'')
      else if \<not> effective_cookie_secure C S \<and> \<not> localhost_cookie_exception C S
      then Inl (RuntimeError (''Alpha mode requires COOKIE_SECURE=true unless APP_BASE_URL points '' @
             ''to localhost, 127.0.0.1, or ::1 and '' @
             ''ALLOW_INSECURE_LOCALHOST_ALPHA_COOKIES is enabled''))
      else Inr ())"

subsection \<open>The runtime\<close>

datatype database = Database string bool | DevelopmentFile string
  \<comment> \<open>a URL and whether the schema is created, or a SQLite file in the data directory\<close>

definition build_repository :: "settings \<Rightarrow> exn + database" where
  "build_repository S =
     (if truthy (st_database_url S)
      then Inr (Database (or_empty (st_database_url S))
                  (st_app_environment S \<in> {''development'', ''test''}))
      else if st_app_environment S = ''alpha''
      then Inl (RuntimeError ''Alpha mode requires a PostgreSQL DATABASE_URL'')
      else Inr (DevelopmentFile (''sqlite:///'' @ st_data_dir S @ ''/development.db'')))"

record runtime =
  rt_database :: database
  rt_redis :: bool           \<comment> \<open>whether the limiter and the agents' memory use redis\<close>
  rt_encryption_key :: bytes
  rt_ssh_collector :: bool   \<comment> \<open>otherwise the demonstration data\<close>
  rt_ansible :: bool         \<comment> \<open>otherwise the simulations\<close>
  rt_admin :: user

definition runtime_key :: "config_env \<Rightarrow> settings \<Rightarrow> exn + bytes" where
  "runtime_key C S =
     (case resolved_encryption_key C S of
        Inl e \<Rightarrow> Inl e
      | Inr (Some key) \<Rightarrow> Inr key
      | Inr None \<Rightarrow>
          if st_app_environment S = ''alpha''
          then Inl (RuntimeError ''Alpha mode requires ENCRYPTION_KEY or ENCRYPTION_KEY_FILE'')
          else Inr (cf_default_key C))"

definition runtime_password :: "config_env \<Rightarrow> settings \<Rightarrow> exn + string" where
  "runtime_password C S =
     (let password = resolved_admin_password C S in
      if truthy password then Inr (or_empty password)
      else if st_app_environment S = ''alpha''
      then Inl (RuntimeError ''Alpha mode requires ADMIN_PASSWORD or ADMIN_PASSWORD_FILE'')
      else Inr ''admin'')"

definition build_runtime :: "env \<Rightarrow> auth_env \<Rightarrow> config_env \<Rightarrow> settings \<Rightarrow> runtime comp" where
  "build_runtime E A C S =
     bindM (liftE (validate_runtime_requirements C S)) (\<lambda>_.
     bindM (liftE (build_repository S)) (\<lambda>db.
     bindM (liftE (runtime_key C S)) (\<lambda>key.
     bindM (liftE (credential_service_init key)) (\<lambda>_.
     bindM (liftE (runtime_password C S)) (\<lambda>password.
     bindM (ensure_admin E A (st_admin_username S) password) (\<lambda>admin.
     returnM \<lparr>rt_database = db, rt_redis = truthy (st_redis_url S), rt_encryption_key = key,
       rt_ssh_collector = (st_collector_mode S = ''ssh''),
       rt_ansible = (st_execution_mode S = ''ansible''), rt_admin = admin\<rparr>))))))"

subsection \<open>What alpha mode guarantees\<close>

lemma bind_liftE_Inr: "bindM (liftE r) f w = (Inr y, w') \<longleftrightarrow> (\<exists>x. r = Inr x \<and> f x w = (Inr y, w'))"
  by (cases r) (auto simp: bindM_def liftE_def)

lemma alpha_requirements:
  assumes "validate_runtime_requirements C S = Inr ()" and "st_app_environment S = ''alpha''"
  shows "\<exists>db. st_database_url S = Some db \<and> (starts_with db ''postgresql://'' \<or> starts_with db ''postgresql+psycopg://'')"
    and "\<exists>url. st_redis_url S = Some url \<and> (starts_with url ''redis://'' \<or> starts_with url ''rediss://'')"
    and "effective_cookie_secure C S \<or> localhost_cookie_exception C S"
proof -
  show "\<exists>db. st_database_url S = Some db \<and> (starts_with db ''postgresql://'' \<or> starts_with db ''postgresql+psycopg://'')"
    using assms by (cases "st_database_url S") (auto simp: validate_runtime_requirements_def Let_def split: if_splits)
  show "\<exists>url. st_redis_url S = Some url \<and> (starts_with url ''redis://'' \<or> starts_with url ''rediss://'')"
    using assms by (cases "st_redis_url S") (auto simp: validate_runtime_requirements_def Let_def split: if_splits)
  show "effective_cookie_secure C S \<or> localhost_cookie_exception C S"
    using assms by (auto simp: validate_runtime_requirements_def Let_def split: if_splits)
qed

end
