(* ===== verification/Routing.thy ===== *)
theory Routing
  imports Agents Config
begin

text \<open>
  How the agents get their contract and their model: the contract files (\<open>contracts.py\<close>), the
  routing of an agent to a provider and the reading of a provider's answer (\<open>providers.py\<close>),
  and the construction of the workflow (\<open>MultiAgentWorkflow.__init__\<close>).

  The HTTP exchange with a provider is a parameter from the request to the JSON of the answer.
\<close>

subsection \<open>Contracts\<close>

text \<open>The lines after the first, up to the closing one.\<close>

fun front_matter :: "string list \<Rightarrow> (string, string) dict \<Rightarrow> exn + (string, string) dict" where
  "front_matter [] metadata = Inl (RuntimeError ''Agent contract front matter is not closed'')"
| "front_matter (line # rest) metadata =
     (if strip line = ''---'' then Inr metadata
      else if CHR '':'' \<notin> set line then front_matter rest metadata
      else let (key, _, value) = partition_at (CHR '':'') line
           in front_matter rest (dict_set (strip key) (strip value) metadata))"

definition parse_front_matter :: "string \<Rightarrow> exn + (string, string) dict" where
  "parse_front_matter content =
     (case splitlines content of
        [] \<Rightarrow> Inl (RuntimeError ''Agent contract requires YAML-style front matter'')
      | first # rest \<Rightarrow>
          if strip first \<noteq> ''---''
          then Inl (RuntimeError ''Agent contract requires YAML-style front matter'')
          else front_matter rest [])"

text \<open>\<open>int(metadata.get(key, default))\<close>.\<close>

definition int_field :: "(string, string) dict \<Rightarrow> string \<Rightarrow> string \<Rightarrow> exn + int" where
  "int_field metadata key dflt =
     (let text = (case dict_get metadata key of Some s \<Rightarrow> s | None \<Rightarrow> dflt) in
      case py_int text of
        Some i \<Rightarrow> Inr i
      | None \<Rightarrow> Inl (ValueError (''invalid literal for int() with base 10: '' @ [CHR 0x27] @ text @
                  [CHR 0x27])))"

fun contract_filename :: "agent_name \<Rightarrow> string" where
  "contract_filename Orchestrator = ''orchestrator.md''"
| "contract_filename LinuxStateAnalyst = ''linux-state.md''"
| "contract_filename LogAnalyst = ''log-analysis.md''"

definition load_contract ::
  "env \<Rightarrow> config_env \<Rightarrow> string \<Rightarrow> agent_name \<Rightarrow> exn + agent_contract" where
  "load_contract E C folder agent =
     (let path = folder @ ''/'' @ contract_filename agent in
      case cf_file C path of
        None \<Rightarrow> Inl (RuntimeError (''Agent contract is missing: '' @ path))
      | Some content \<Rightarrow>
      case parse_front_matter content of Inl e \<Rightarrow> Inl e | Inr metadata \<Rightarrow>
      if dict_get metadata ''id'' \<noteq> Some (agent_name_text agent)
      then Inl (RuntimeError (''Agent contract id does not match '' @ agent_name_text agent))
      else case int_field metadata ''max_conversation_rounds'' ''0'' of Inl e \<Rightarrow> Inl e | Inr rounds \<Rightarrow>
      if 1 < rounds
      then Inl (RuntimeError ''Alpha agent contracts may allow at most one review round'')
      else case int_field metadata ''version'' ''1'' of Inl e \<Rightarrow> Inl e | Inr version \<Rightarrow>
      case int_field metadata ''max_input_tokens'' ''7000'' of Inl e \<Rightarrow> Inl e | Inr input_tokens \<Rightarrow>
      case int_field metadata ''max_output_tokens'' ''1200'' of Inl e \<Rightarrow> Inl e | Inr output_tokens \<Rightarrow>
      Inr \<lparr>ac_agent = agent, ac_version = version,
           ac_model_tier = (case dict_get metadata ''model_tier'' of Some s \<Rightarrow> s | None \<Rightarrow> ''economy''),
           ac_max_input_tokens = input_tokens, ac_max_output_tokens = output_tokens,
           ac_max_conversation_rounds = rounds, ac_content = content,
           ac_content_hash = e_H E content, ac_path = path\<rparr>)"

subsection \<open>Providers\<close>

text \<open>The text between the first opening and the last closing brace.\<close>

definition strip_fence :: "string \<Rightarrow> string" where
  "strip_fence t =
     (if starts_with t [CHR 0x60, CHR 0x60, CHR 0x60] then
        (let b = (\<lambda>c. c = CHR 0x60); u = rev (dropWhile b (rev (dropWhile b t)))
         in if starts_with u ''json'' then strip (drop 4 u) else u)
      else t)"

definition parse_json :: "agent_env \<Rightarrow> string \<Rightarrow> exn + json" where
  "parse_json G text =
     (let cleaned = strip_fence (strip text);
          start = find_char (CHR 0x7B) cleaned; stop = rfind_char (CHR 0x7D) cleaned
      in if start < 0 \<or> stop < start
         then Inl (ProviderError ''Provider did not return a JSON object'')
         else ag_loads G (drop (nat start) (take (nat stop + 1) cleaned)))"

text \<open>
  One POST: the request, and what the service makes of it. The service raises what
  \<open>raise_for_status\<close> and \<open>response.json()\<close> raise, and otherwise returns the body of the answer.
\<close>

record http_request =
  hq_url :: string
  hq_headers :: "(string, string) dict"
  hq_body :: json
  hq_timeout :: nat

type_synonym model_service = "http_request \<Rightarrow> json comp"

text \<open>\<open>value[key]\<close>, \<open>value[0]\<close> and \<open>int(value)\<close> of values read from JSON.\<close>

definition json_item :: "json \<Rightarrow> string \<Rightarrow> exn + json" where
  "json_item j key =
     (case j of
        JObj d \<Rightarrow> (case dict_get d key of Some v \<Rightarrow> Inr v | None \<Rightarrow> Inl (OtherError ''KeyError''))
      | _ \<Rightarrow> Inl (OtherError ''TypeError''))"

fun json_first :: "json \<Rightarrow> exn + json" where
  "json_first (JList (j # js)) = Inr j"
| "json_first (JList []) = Inl (OtherError ''IndexError'')"
| "json_first (JStr (c # s)) = Inr (JStr [c])"
| "json_first (JStr []) = Inl (OtherError ''IndexError'')"
| "json_first (JObj d) = Inl (OtherError ''KeyError'')"
| "json_first _ = Inl (OtherError ''TypeError'')"

fun json_int :: "json \<Rightarrow> exn + int" where
  "json_int (JInt i) = Inr i"
| "json_int (JBool b) = Inr (if b then 1 else 0)"
| "json_int (JStr s) =
     (case py_int s of Some i \<Rightarrow> Inr i | None \<Rightarrow> Inl (OtherError ''ValueError''))"
| "json_int _ = Inl (OtherError ''TypeError'')"

definition get_int :: "details \<Rightarrow> string \<Rightarrow> exn + int" where
  "get_int d key = json_int (case dict_get d key of Some v \<Rightarrow> v | None \<Rightarrow> JInt 0)"

text \<open>\<open>ProviderCompletion(...)\<close> from the text of an answer and the object that holds the counts.\<close>

definition read_completion ::
  "agent_env \<Rightarrow> json \<Rightarrow> json \<Rightarrow> string \<Rightarrow> string \<Rightarrow> completion comp" where
  "read_completion G content usage prompt_key completion_key =
     (case content of
        JStr text \<Rightarrow>
          bindM (liftE (parse_json G text)) (\<lambda>j.
          bindM (liftE (as_object usage)) (\<lambda>counts.
          bindM (liftE (get_int counts prompt_key)) (\<lambda>prompt_tokens.
          bindM (liftE (get_int counts completion_key)) (\<lambda>completion_tokens.
          bindM (liftE (as_object j)) (\<lambda>data.
          returnM \<lparr>cm_data = data, cm_prompt_tokens = prompt_tokens,
            cm_completion_tokens = completion_tokens\<rparr>)))))
      | _ \<Rightarrow> raiseM (OtherError ''AttributeError''))"

definition usage_of :: "details \<Rightarrow> json" where
  "usage_of payload = (case dict_get payload ''usage'' of Some u \<Rightarrow> u | None \<Rightarrow> JObj [])"

text \<open>\<open>str(api_key)\<close>.\<close>

definition key_text :: "string option \<Rightarrow> string" where
  "key_text k = (case k of Some s \<Rightarrow> s | None \<Rightarrow> ''None'')"

definition chat_messages :: "string \<Rightarrow> string \<Rightarrow> json" where
  "chat_messages system prompt =
     JList [JObj [(''role'', JStr ''system''), (''content'', JStr system)],
            JObj [(''role'', JStr ''user''), (''content'', JStr prompt)]]"

definition openai_complete ::
  "agent_env \<Rightarrow> model_service \<Rightarrow> string \<Rightarrow> string \<Rightarrow> string option \<Rightarrow> string \<Rightarrow> string \<Rightarrow> int \<Rightarrow> completion comp" where
  "openai_complete G service base_url model api_key system prompt max_output_tokens =
     bindM (service \<lparr>hq_url = base_url @ ''/chat/completions'',
              hq_headers = [(''Authorization'', ''Bearer '' @ key_text api_key)],
              hq_body = JObj
                [(''model'', JStr model),
                 (''response_format'', JObj [(''type'', JStr ''json_object'')]),
                 (''max_tokens'', JInt max_output_tokens),
                 (''messages'', chat_messages system prompt)],
              hq_timeout = 60\<rparr>) (\<lambda>answer.
     bindM (liftE (as_object answer)) (\<lambda>payload.
     bindM (liftE (json_item answer ''choices'')) (\<lambda>choices.
     bindM (liftE (json_first choices)) (\<lambda>choice.
     bindM (liftE (json_item choice ''message'')) (\<lambda>message.
     bindM (liftE (json_item message ''content'')) (\<lambda>content.
     read_completion G content (usage_of payload) ''prompt_tokens'' ''completion_tokens''))))))"

definition anthropic_complete ::
  "agent_env \<Rightarrow> model_service \<Rightarrow> string \<Rightarrow> string \<Rightarrow> string option \<Rightarrow> string \<Rightarrow> string \<Rightarrow> int \<Rightarrow> completion comp" where
  "anthropic_complete G service base_url model api_key system prompt max_output_tokens =
     bindM (service \<lparr>hq_url = base_url @ ''/messages'',
              hq_headers = [(''x-api-key'', key_text api_key), (''anthropic-version'', ''2023-06-01'')],
              hq_body = JObj
                [(''model'', JStr model), (''max_tokens'', JInt max_output_tokens),
                 (''system'', JStr system),
                 (''messages'', JList [JObj [(''role'', JStr ''user''), (''content'', JStr prompt)]])],
              hq_timeout = 60\<rparr>) (\<lambda>answer.
     bindM (liftE (as_object answer)) (\<lambda>payload.
     bindM (liftE (json_item answer ''content'')) (\<lambda>blocks.
     bindM (liftE (json_first blocks)) (\<lambda>block.
     bindM (liftE (json_item block ''text'')) (\<lambda>content.
     read_completion G content (usage_of payload) ''input_tokens'' ''output_tokens'')))))"

definition ollama_complete ::
  "agent_env \<Rightarrow> model_service \<Rightarrow> string \<Rightarrow> string \<Rightarrow> string \<Rightarrow> string \<Rightarrow> int \<Rightarrow> completion comp" where
  "ollama_complete G service base_url model system prompt max_output_tokens =
     bindM (service \<lparr>hq_url = base_url @ ''/api/chat'', hq_headers = [],
              hq_body = JObj
                [(''model'', JStr model), (''format'', JStr ''json''), (''stream'', JBool False),
                 (''options'', JObj [(''num_predict'', JInt max_output_tokens)]),
                 (''messages'', chat_messages system prompt)],
              hq_timeout = 120\<rparr>) (\<lambda>answer.
     bindM (liftE (json_item answer ''message'')) (\<lambda>message.
     bindM (liftE (json_item message ''content'')) (\<lambda>content.
     read_completion G content answer ''prompt_eval_count'' ''eval_count'')))"

definition complete_json ::
  "agent_env \<Rightarrow> model_service \<Rightarrow> string \<Rightarrow> string \<Rightarrow> string \<Rightarrow> string option \<Rightarrow> string \<Rightarrow> string \<Rightarrow> int \<Rightarrow>
   completion comp" where
  "complete_json G service name base_url model api_key =
     (if name = ''openai'' then openai_complete G service base_url model api_key
      else if name = ''anthropic'' then anthropic_complete G service base_url model api_key
      else ollama_complete G service base_url model)"

text \<open>\<open>base_url.rstrip("/")\<close>.\<close>

definition rstrip_slash :: "string \<Rightarrow> string" where
  "rstrip_slash s = rev (dropWhile (\<lambda>c. c = CHR 0x2F) (rev s))"

definition new_provider ::
  "agent_env \<Rightarrow> model_service \<Rightarrow> string \<Rightarrow> string \<Rightarrow> string \<Rightarrow> string option \<Rightarrow> model_provider" where
  "new_provider G service name base_url model api_key =
     \<lparr>mp_name = name, mp_model = model,
      mp_complete = complete_json G service name (rstrip_slash base_url) model api_key\<rparr>"

definition build_provider ::
  "agent_env \<Rightarrow> model_service \<Rightarrow> settings \<Rightarrow> string \<Rightarrow> model_tier \<Rightarrow> model_provider option" where
  "build_provider G service S name tier =
     (let strong = (tier = Capable) in
      if name = ''openai'' then
        (let model = (if strong then st_openai_strong_model S else st_openai_economy_model S) in
         if truthy (st_openai_api_key S) \<and> truthy model
         then Some (new_provider G service name (st_openai_base_url S) (or_empty model)
                      (st_openai_api_key S))
         else None)
      else if name = ''anthropic'' then
        (let model = (if strong then st_anthropic_strong_model S else st_anthropic_economy_model S) in
         if truthy (st_anthropic_api_key S) \<and> truthy model
         then Some (new_provider G service name (st_anthropic_base_url S) (or_empty model)
                      (st_anthropic_api_key S))
         else None)
      else if name = ''ollama'' then
        (let model = (if strong then st_ollama_strong_model S else st_ollama_economy_model S) in
         if truthy model
         then Some (new_provider G service name (st_ollama_base_url S) (or_empty model) None)
         else None)
      else None)"

subsection \<open>Routing\<close>

fun responsibility :: "agent_name \<Rightarrow> string" where
  "responsibility Orchestrator =
     ''Synthesizes verified specialist reports and creates approval-gated plans.''"
| "responsibility LogAnalyst =
     ''Analyzes bounded structured system, authentication, kernel, boot, and package logs.''"
| "responsibility LinuxStateAnalyst =
     ''Analyzes packages, resources, services, kernel state, and reboot indicators.''"

definition routed_identity ::
  "agent_name \<Rightarrow> model_tier \<Rightarrow> string \<Rightarrow> string \<Rightarrow> int \<Rightarrow> string \<Rightarrow> agent_identity" where
  "routed_identity agent tier provider model version digest =
     \<lparr>ai_name = agent, ai_responsibility = responsibility agent, ai_model_tier = tier,
      ai_provider = provider, ai_model = model,
      ai_selection_reason =
        (if tier = Deterministic
         then ''No configured provider was available; verified local policy was used.''
         else if tier = Capable
         then ''Capable model selected for cross-agent decisions and operator explanations.''
         else ''Economy model selected for bounded specialist analysis and review.''),
      ai_contract_version = version, ai_contract_hash = digest\<rparr>"

text \<open>The first candidate that is configured.\<close>

definition route ::
  "agent_env \<Rightarrow> model_service \<Rightarrow> settings \<Rightarrow> agent_name \<Rightarrow> int \<Rightarrow> string \<Rightarrow> routed_model" where
  "route G service S agent version digest =
     (let tier = (if agent = Orchestrator then Capable else Economy);
          requested = (if agent = Orchestrator then st_ai_orchestrator_provider S
                       else st_ai_specialist_provider S);
          candidates = (if requested = ''auto'' then provider_order S else [requested])
      in case List.map_filter (\<lambda>name. build_provider G service S name tier) candidates of
           p # _ \<Rightarrow> \<lparr>rm_identity = routed_identity agent tier (mp_name p) (mp_model p) version digest,
                     rm_provider = Some p\<rparr>
         | [] \<Rightarrow> \<lparr>rm_identity = routed_identity agent Deterministic ''local'' ''policy-engine'' version digest,
                  rm_provider = None\<rparr>)"

definition routed_specialist ::
  "agent_env \<Rightarrow> model_service \<Rightarrow> settings \<Rightarrow> agent_name \<Rightarrow> agent_contract \<Rightarrow> specialist" where
  "routed_specialist G service S name ac =
     \<lparr>sp_name = name, sp_contract = ac,
      sp_routed = route G service S name (ac_version ac) (ac_content_hash ac)\<rparr>"

definition multi_agent_workflow ::
  "env \<Rightarrow> agent_env \<Rightarrow> config_env \<Rightarrow> model_service \<Rightarrow> settings \<Rightarrow> string \<Rightarrow> exn + workflow" where
  "multi_agent_workflow E G C service S folder =
     (case load_contract E C folder Orchestrator of Inl e \<Rightarrow> Inl e | Inr orchestrator \<Rightarrow>
      case load_contract E C folder LinuxStateAnalyst of Inl e \<Rightarrow> Inl e | Inr state \<Rightarrow>
      case load_contract E C folder LogAnalyst of Inl e \<Rightarrow> Inl e | Inr logs \<Rightarrow>
      Inr \<lparr>wf_state = routed_specialist G service S LinuxStateAnalyst state,
           wf_log = routed_specialist G service S LogAnalyst logs, wf_contract = orchestrator,
           wf_routed = route G service S Orchestrator (ac_version orchestrator)
                         (ac_content_hash orchestrator)\<rparr>)"

text \<open>The agents of a workflow have the names their classes fix.\<close>

definition workflow_names :: "workflow \<Rightarrow> bool" where
  "workflow_names W \<longleftrightarrow> sp_name (wf_state W) = LinuxStateAnalyst \<and> sp_name (wf_log W) = LogAnalyst \<and>
     ai_name (rm_identity (sp_routed (wf_state W))) = LinuxStateAnalyst \<and>
     ai_name (rm_identity (sp_routed (wf_log W))) = LogAnalyst"

lemma route_name: "ai_name (rm_identity (route G service S agent v x)) = agent"
  by (auto simp: route_def routed_identity_def Let_def split: list.split)

lemma multi_agent_workflow_names:
  "multi_agent_workflow E G C service S folder = Inr W \<Longrightarrow> workflow_names W"
  by (auto simp: multi_agent_workflow_def workflow_names_def routed_specialist_def route_name
      split: sum.splits)

end
