(* ===== verification/AgentProperties.thy ===== *)
theory AgentProperties
  imports Routing ServiceFrames ServiceFixtures
begin

text \<open>
  What the agents guarantee whatever a model provider answers and whatever the cache holds: the
  contract of a specialist's policy as a locale, what an orchestrator's answer may contain, and
  the properties of the workflow.
\<close>

subsection \<open>Policies\<close>

lemma collect_findings_Inr:
  assumes "collect_findings steps w = (Inr fs, w')" and "f \<in> set fs"
  shows "\<exists>m v v'. (True, m) \<in> set steps \<and> m v = (Inr f, v')"
  using assms
  by (induction steps arbitrary: w fs rule: collect_findings.induct)
     (fastforce simp: bindM_eq_Inr comp_simps split: if_splits)+

lemma make_finding_run:
  "\<exists>f w'. make_finding E h n ct sv sm ex ev ac cf w = (Inr f, w')"
  by (simp add: make_finding_def bindM_def new_id_def comp_simps)

lemma make_finding_Inr:
  "make_finding E h n ct sv sm ex ev ac cf w = (Inr f, w') \<Longrightarrow>
     f_source_agent f = n \<and> f_severity f = sv \<and> f_evidence f = ev \<and> f_category f = ct \<and>
     f_recommended_action f = ac \<and> f_confidence f = cf \<and> f_host_id f = h_id h \<and>
     f_requires_approval f = (ac \<noteq> None)"
  by (auto simp: make_finding_def bindM_eq_Inr comp_simps)

text \<open>What the workflow relies on in a specialist's policy.\<close>

definition policy_finding :: "agent_name \<Rightarrow> host \<Rightarrow> finding \<Rightarrow> bool" where
  "policy_finding n h f \<longleftrightarrow>
     f_source_agent f = n \<and> f_host_id f = h_id h \<and> f_evidence f \<noteq> [] \<and>
     3 / 4 \<le> f_confidence f \<and> f_confidence f \<le> 1 \<and> f_requires_approval f \<and>
     (\<exists>a. f_recommended_action f = Some a \<and> ra_action_type a \<in> {''package_upgrade'', ''manual_review''})"

locale specialist_policy =
  fixes n :: agent_name
    and policy :: "host \<Rightarrow> host_snapshot \<Rightarrow> finding list comp"
  assumes finding: "policy h sn w = (Inr fs, w') \<Longrightarrow> f \<in> set fs \<Longrightarrow> policy_finding n h f"
    and total: "\<exists>fs w'. policy h sn w = (Inr fs, w')"
begin

text \<open>Only citations and challenges can reject a finding of a policy.\<close>

lemma supported_iff:
  assumes "policy h sn w = (Inr fs, w')" and "f \<in> set fs"
  shows "supported s ms f \<longleftrightarrow>
    set (citations_of f) \<subseteq> set (evidence_registry s) \<and> f_id f \<notin> set (contested_claims ms)"
proof -
  have "policy_finding n h f"
    using finding assms by blast
  then show ?thesis
    by (auto simp: supported_def policy_finding_def citations_of_def contested_claims_def)
qed

lemma reviewed_confirm:
  assumes "policy h sn w = (Inr fs, w')" and "set claims \<subseteq> set fs"
  shows "rv_response (deterministic_review claims) = ''confirm'' \<and>
    rv_claim_ids (deterministic_review claims) = map f_id claims"
proof -
  have "\<forall>f \<in> set claims. f_evidence f \<noteq> []"
    using finding assms by (meson policy_finding_def subsetD)
  then have "filter (\<lambda>f. f_evidence f = []) claims = []"
    by simp
  then show ?thesis
    by (simp add: deterministic_review_def Let_def)
qed

end

text \<open>A step of a policy: it always makes a finding of the policy.\<close>

definition makes :: "agent_name \<Rightarrow> host \<Rightarrow> finding comp \<Rightarrow> bool" where
  "makes n h m \<longleftrightarrow> (\<forall>v. \<exists>g v'. m v = (Inr g, v') \<and> policy_finding n h g)"

lemma makes_finding:
  assumes "ev \<noteq> []" "3 / 4 \<le> cf" "cf \<le> 1" "t \<in> {''package_upgrade'', ''manual_review''}"
  shows "makes n h (make_finding E h n ct sv sm ex ev (recommend t a b) cf)"
proof -
  have "\<exists>g v'. make_finding E h n ct sv sm ex ev (recommend t a b) cf v = (Inr g, v') \<and>
      policy_finding n h g" for v
  proof -
    obtain g v' where run: "make_finding E h n ct sv sm ex ev (recommend t a b) cf v = (Inr g, v')"
      using make_finding_run by blast
    from make_finding_Inr [OF run] have "policy_finding n h g"
      using assms by (simp add: policy_finding_def recommend_def)
    with run show ?thesis by blast
  qed
  then show ?thesis
    by (simp add: makes_def)
qed

lemma policy_steps:
  assumes "\<forall>(b, m) \<in> set steps. makes n h m"
  shows "\<exists>fs w'. collect_findings steps w = (Inr fs, w') \<and> length fs = length (filter fst steps)"
    and "collect_findings steps w = (Inr fs, w') \<Longrightarrow> f \<in> set fs \<Longrightarrow> policy_finding n h f"
proof -
  show "\<exists>fs w'. collect_findings steps w = (Inr fs, w') \<and> length fs = length (filter fst steps)"
    using assms
  proof (induction steps arbitrary: w rule: collect_findings.induct)
    case (2 b m rest)
    then have rest: "\<exists>fs w'. collect_findings rest v = (Inr fs, w') \<and>
        length fs = length (filter fst rest)" for v
      by (cases b) auto
    from 2 obtain f v where run: "m w = (Inr f, v)"
      by (fastforce simp: makes_def)
    obtain fs v' where "collect_findings rest v = (Inr fs, v')" "length fs = length (filter fst rest)"
      using rest by blast
    with run rest show ?case
      by (cases b) (simp_all add: bindM_def comp_simps)
  qed (simp add: comp_simps)
next
  assume "collect_findings steps w = (Inr fs, w')" "f \<in> set fs"
  from collect_findings_Inr [OF this] obtain m v v' where
    step: "(True, m) \<in> set steps" and run: "m v = (Inr f, v')"
    by blast
  from step assms have "makes n h m"
    by blast
  then obtain g u where "m v = (Inr g, u)" "policy_finding n h g"
    unfolding makes_def by blast
  with run show "policy_finding n h f"
    by simp
qed

lemma log_steps: "\<forall>(b, m) \<in> set (log_policy_steps E h sn). makes LogAnalyst h m"
  by (simp add: log_policy_steps_def Let_def makes_finding)

lemma state_steps: "\<forall>(b, m) \<in> set (state_policy_steps E h sn). makes LinuxStateAnalyst h m"
  by (simp add: state_policy_steps_def Let_def makes_finding)

interpretation log_policy: specialist_policy LogAnalyst "policy_findings E LogAnalyst" for E
proof
  fix h sn w fs w' f
  assume "policy_findings E LogAnalyst h sn w = (Inr fs, w')" "f \<in> set fs"
  with policy_steps(2) [OF log_steps] show "policy_finding LogAnalyst h f"
    by (simp add: policy_findings_def)
next
  fix h sn w
  from policy_steps(1) [OF log_steps [of E h sn], of w]
  show "\<exists>fs w'. policy_findings E LogAnalyst h sn w = (Inr fs, w')"
    by (auto simp: policy_findings_def)
qed

interpretation state_policy: specialist_policy LinuxStateAnalyst "policy_findings E LinuxStateAnalyst" for E
proof
  fix h sn w fs w' f
  assume "policy_findings E LinuxStateAnalyst h sn w = (Inr fs, w')" "f \<in> set fs"
  with policy_steps(2) [OF state_steps] show "policy_finding LinuxStateAnalyst h f"
    by (simp add: policy_findings_def)
next
  fix h sn w
  from policy_steps(1) [OF state_steps [of E h sn], of w]
  show "\<exists>fs w'. policy_findings E LinuxStateAnalyst h sn w = (Inr fs, w')"
    by (auto simp: policy_findings_def)
qed

subsection \<open>The answer of the orchestrator\<close>

text \<open>What every accepted answer is: in the vocabulary, cited from the verified findings, and ready
  only when nothing is contested.\<close>

definition sound_answer :: "orchestration \<Rightarrow> orchestration \<Rightarrow> bool" where
  "sound_answer fallback r \<longleftrightarrow>
     oc_update_scope r \<in> set update_scopes \<and> oc_risk_level r \<in> set risk_levels \<and>
     oc_status r \<in> set plan_statuses \<and>
     set (oc_supporting_citations r) \<subseteq> set (oc_supporting_citations fallback) \<and>
     (oc_status r = ''plan_ready'' \<longrightarrow>
        oc_unresolved_conflicts r = [] \<and> oc_unresolved_conflicts fallback = [])"

lemma sound_fallback:
  "sound_answer (synthesis_fallback h sn fs ms rejected) (synthesis_fallback h sn fs ms rejected)"
  by (auto simp: sound_answer_def synthesis_fallback_def Let_def deterministic_scope_def
      update_scopes_def risk_levels_def plan_statuses_def)

lemma chosen_in: "x \<in> set allowed \<Longrightarrow> chosen d key allowed x \<in> set allowed"
  by (auto simp: chosen_def split: option.split json.split)

lemma take_unique_Nil: "take 10 (unique xs) = [] \<longleftrightarrow> xs = []"
  by (simp add: unique_def)

lemma allowed_items_Inr: "allowed_items E d key allowed = Inr xs \<Longrightarrow> set xs \<subseteq> set allowed"
  by (auto simp: allowed_items_def split: sum.splits)

lemma validated_fields:
  assumes "validate_orchestrator_response E d fallback cs = Inr r"
  obtains supplied js where "allowed_items E d ''supporting_citations'' cs = Inr supplied"
    and "oc_update_scope r = chosen d ''update_scope'' update_scopes (oc_update_scope fallback)"
    and "oc_risk_level r = chosen d ''risk_level'' risk_levels (oc_risk_level fallback)"
    and "oc_supporting_citations r =
      (if supplied \<noteq> [] then supplied else oc_supporting_citations fallback)"
    and "oc_unresolved_conflicts r = take 10 (unique (oc_unresolved_conflicts fallback @ js))"
    and "oc_status r = (if oc_unresolved_conflicts r \<noteq> [] then ''insufficient_evidence''
      else if oc_status fallback \<noteq> ''insufficient_evidence''
      then chosen d ''status'' plan_statuses (oc_status fallback) else oc_status fallback)"
proof -
  from assms obtain supplied js where
    eqs: "allowed_items E d ''supporting_citations'' cs = Inr supplied"
      "iterated d ''unresolved_conflicts'' = Inr js"
    unfolding validate_orchestrator_response_def Let_def by (auto split: sum.splits)
  note r = assms [unfolded validate_orchestrator_response_def Let_def eqs sum.case sum.inject]
  show ?thesis
    by (rule that [OF eqs(1), of "take 10 (map (\<lambda>j. take 500 (py_str E j)) js)"]) (simp_all add: r [symmetric])
qed

lemma validated_sound:
  assumes "validate_orchestrator_response E d fallback (oc_supporting_citations fallback) = Inr r"
    and fb: "sound_answer fallback fallback"
  shows "sound_answer fallback r"
proof -
  from assms(1) obtain supplied js where
    supplied: "allowed_items E d ''supporting_citations'' (oc_supporting_citations fallback) = Inr supplied"
    and f: "oc_update_scope r = chosen d ''update_scope'' update_scopes (oc_update_scope fallback)"
     "oc_risk_level r = chosen d ''risk_level'' risk_levels (oc_risk_level fallback)"
     "oc_supporting_citations r =
      (if supplied \<noteq> [] then supplied else oc_supporting_citations fallback)"
    and conflicts: "oc_unresolved_conflicts r = take 10 (unique (oc_unresolved_conflicts fallback @ js))"
    and status: "oc_status r = (if oc_unresolved_conflicts r \<noteq> [] then ''insufficient_evidence''
      else if oc_status fallback \<noteq> ''insufficient_evidence''
      then chosen d ''status'' plan_statuses (oc_status fallback) else oc_status fallback)"
    by (rule validated_fields)
  have "set (oc_supporting_citations r) \<subseteq> set (oc_supporting_citations fallback)"
    using allowed_items_Inr [OF supplied] f(3) by simp
  moreover have "oc_status r \<in> set plan_statuses"
    using fb chosen_in [of "oc_status fallback" plan_statuses d "''status''"]
    unfolding status by (simp add: sound_answer_def plan_statuses_def)
  moreover have "oc_unresolved_conflicts r = [] \<longleftrightarrow> oc_unresolved_conflicts fallback @ js = []"
    unfolding conflicts by (rule take_unique_Nil)
  moreover have "oc_status r = ''plan_ready'' \<longrightarrow> oc_unresolved_conflicts r = []"
    unfolding status by simp
  moreover have "oc_update_scope r \<in> set update_scopes"
    unfolding f(1) using fb by (intro chosen_in) (simp add: sound_answer_def)
  moreover have "oc_risk_level r \<in> set risk_levels"
    unfolding f(2) using fb by (intro chosen_in) (simp add: sound_answer_def)
  ultimately show ?thesis
    by (simp add: sound_answer_def)
qed

text \<open>Every result of a computation satisfies a predicate.\<close>

definition returns :: "('a \<Rightarrow> bool) \<Rightarrow> 'a comp \<Rightarrow> bool" where
  "returns P m \<longleftrightarrow> (\<forall>w x w'. m w = (Inr x, w') \<longrightarrow> P x)"

lemma returns_intros:
  "P x \<Longrightarrow> returns P (returnM x)"
  "(\<And>x. returns P (f x)) \<Longrightarrow> returns P (bindM m f)"
  by (auto simp: returns_def bindM_eq_Inr comp_simps)

lemma returns_lift: "(\<And>x. res = Inr x \<Longrightarrow> returns P (f x)) \<Longrightarrow> returns P (bindM (liftE res) f)"
  by (auto simp: returns_def bind_liftE_Inr)

lemma returnsD: "returns P m \<Longrightarrow> m w = (Inr x, w') \<Longrightarrow> P x"
  by (auto simp: returns_def)

lemma synthesis_answer_sound:
  assumes fb: "sound_answer fallback fallback"
  shows "returns (\<lambda>out. sound_answer fallback (fst out))
    (synthesis_answer E G ac rm fallback (oc_supporting_citations fallback) prompt key)"
proof -
  have cached: "returns (\<lambda>out. sound_answer fallback (fst out))
      (bindM (liftE (ag_loads G stored)) (\<lambda>j.
       bindM (liftE (as_object j)) (\<lambda>payload.
       bindM (liftE (validate_orchestrator_response E payload fallback
                       (oc_supporting_citations fallback))) (\<lambda>r.
       returnM (r, no_completion, True, None)))))" for stored
    using validated_sound [OF _ fb] by (auto intro!: returns_lift returns_intros(1))
  have completed: "returns (\<lambda>out. sound_answer fallback (fst out))
      (case answer of
           Inl e \<Rightarrow> returnM (fallback, no_completion, False, Some (safe_provider_error E e))
         | Inr c \<Rightarrow>
         case validate_orchestrator_response E (cm_data c) fallback (oc_supporting_citations fallback) of
           Inl e \<Rightarrow> returnM (fallback, c, False, Some (safe_provider_error E e))
         | Inr r \<Rightarrow>
             bindM (attempt (externalM (ag_put G key (plain_text (JObj (orchestration_details r))))))
               (\<lambda>stored.
             returnM (r, c, False,
               case stored of Inl e \<Rightarrow> Some (safe_provider_error E e) | Inr _ \<Rightarrow> None)))" for answer
    using validated_sound [OF _ fb] fb by (auto intro!: returns_intros split: sum.split)
  show ?thesis
    unfolding synthesis_answer_def
    by (rule returns_intros(2), cases "rm_provider rm"; simp only: option.case split: if_split;
        intro conjI impI cached returns_intros(2) completed returns_intros(1); simp add: fb)
qed

lemma impose_policy_sound:
  assumes "sound_answer fallback r"
  shows "sound_answer fallback (impose_policy h r)"
    and "pp_update_mode (h_patch_policy h) \<in> {''all'', ''security''} \<Longrightarrow>
      oc_update_scope (impose_policy h r) = pp_update_mode (h_patch_policy h)"
  using assms by (auto simp: sound_answer_def impose_policy_def Let_def update_scopes_def)

subsection \<open>The steps of the workflow\<close>

lemma new_message_Inr:
  "new_message E i a b resp cs reason cites w = (Inr m, w') \<Longrightarrow>
     am_response m = resp \<and> am_claim_ids m = cs \<and> am_reasoning m = reason \<and> am_round m = 1 \<and>
     am_citations m = cites"
  by (auto simp: new_message_def bindM_eq_Inr comp_simps)

lemma analyze_Inr:
  assumes "analyze E G a i h sn w = (Inr (rep, run, msg), w')"
  shows "\<exists>w1. policy_findings E (sp_name a) h sn w = (Inr (rp_findings rep), w1) \<and>
    rp_agent rep = rm_identity (sp_routed a) \<and> am_response msg = ''report'' \<and> am_round msg = 1"
  using assms unfolding analyze_def
  by (auto simp: bindM_eq_Inr comp_simps Let_def split_beta dest: new_message_Inr)

lemma synthesize_Inr:
  assumes "synthesize E G ac rm i h sn reports ms rejected w = (Inr (plan, run, msg), w')"
  shows "\<exists>answer v. sound_answer (synthesis_fallback h sn (concat (map rp_findings reports)) ms rejected) answer \<and>
    build_remediation E rm i h sn reports (impose_policy h answer) v = (Inr plan, w') \<and>
    am_response msg = ''synthesis'' \<and> am_round msg = 1"
proof -
  let ?fb = "synthesis_fallback h sn (concat (map rp_findings reports)) ms rejected"
  from assms obtain prompt key answer c hit reason v1 v2 v3 where
    a: "synthesis_answer E G ac rm ?fb (oc_supporting_citations ?fb) prompt key w =
      (Inr (answer, c, hit, reason), v1)"
    and m: "new_message E i Orchestrator Orchestrator ''synthesis''
      (map f_id (concat (map rp_findings reports))) (oc_explanation (impose_policy h answer))
      (oc_supporting_citations (impose_policy h answer)) v2 = (Inr msg, v3)"
    and b: "build_remediation E rm i h sn reports (impose_policy h answer) v3 = (Inr plan, w')"
    unfolding synthesize_def Let_def
    by (auto simp only: bindM_eq_Inr run_simps split_paired_Ex case_prod_conv prod.inject sum.inject)
  have "sound_answer ?fb answer"
    using returnsD [OF synthesis_answer_sound [OF sound_fallback] a] by simp
  with b new_message_Inr [OF m] show ?thesis by blast
qed

lemma run_agents_Inr:
  assumes "run_agents E G W i h sn w = (Inr res, w')"
  obtains rep1 rep2 run1 run2 msg1 msg2 m1 m2 msg3 w1 w2 w3 w4 o1 o2 run3 where
    "analyze E G (wf_state W) i h sn w = (Inr (rep1, run1, msg1), w1)"
    "analyze E G (wf_log W) i h sn w1 = (Inr (rep2, run2, msg2), w2)"
    "peer_review E G (wf_state W) i h rep1 rep2 w2 = (Inr (m1, o1), w3)"
    "peer_review E G (wf_log W) i h rep2 rep1 w3 = (Inr (m2, o2), w4)"
    "wr_findings res = fst (verify_findings sn (rp_findings rep1 @ rp_findings rep2) [m1, m2])"
    "wr_rejected_claims res = snd (verify_findings sn (rp_findings rep1 @ rp_findings rep2) [m1, m2])"
    "synthesize E G (wf_contract W) (wf_routed W) i h sn (wr_reports res) [m1, m2]
      (wr_rejected_claims res) w4 = (Inr (wr_remediation res, run3, msg3), w')"
    "wr_reports res =
      [rep1\<lparr>rp_findings := filter (\<lambda>f. f_source_agent f = LinuxStateAnalyst) (wr_findings res)\<rparr>,
       rep2\<lparr>rp_findings := filter (\<lambda>f. f_source_agent f = LogAnalyst) (wr_findings res)\<rparr>]"
    "wr_messages res = [msg1, msg2, m1, m2, msg3]"
  using assms unfolding run_agents_def Let_def
  by (auto simp only: bindM_eq_Inr run_simps split_paired_Ex case_prod_beta fst_conv snd_conv
      prod.inject sum.inject workflow_result.select_convs)

lemma verified_from:
  assumes "state = map (\<lambda>f. f\<lparr>f_verifier_status := ''verified''\<rparr>) (filter (supported s ms) fs)"
    and "\<forall>f \<in> set fs. f_source_agent f = n"
  shows "filter (\<lambda>f. f_source_agent f = m) state = (if m = n then state else [])"
  using assms by (auto simp: filter_empty_conv)

lemma supported_update:
  "supported s ms (f\<lparr>f_verifier_status := v\<rparr>) = supported s ms f"
  "citations_of (f\<lparr>f_verifier_status := v\<rparr>) = citations_of f"
  by (simp_all add: supported_def citations_of_def split: option.split)

lemma supported_citations: "supported s ms f \<Longrightarrow> set (citations_of f) \<subseteq> set (evidence_registry s)"
  by (auto simp: supported_def citations_of_def)

text \<open>C25: The models decide nothing about the findings. Whatever the providers answer and the
  cache holds, the findings of a scan are exactly those of the two deterministic policies whose
  citations the snapshot supports and which no peer review contests, marked as verified and
  otherwise unchanged; each report holds those of its own agent; every other finding is
  rejected with a reason.\<close>

theorem findings_come_from_policy:
  assumes "workflow_names W" and "run_agents E G W i h sn w = (Inr res, w')"
  shows "\<exists>fs1 fs2 v v1 v2 s1 s2 m1 m2 s3.
    policy_findings E LinuxStateAnalyst h sn w = (Inr fs1, v) \<and>
    policy_findings E LogAnalyst h sn v1 = (Inr fs2, v2) \<and>
    wr_messages res = [s1, s2, m1, m2, s3] \<and>
    map rp_findings (wr_reports res) =
      map (\<lambda>fs. map (\<lambda>f. f\<lparr>f_verifier_status := ''verified''\<rparr>) (filter (supported sn [m1, m2]) fs))
        [fs1, fs2] \<and>
    wr_findings res = concat (map rp_findings (wr_reports res)) \<and>
    length (wr_rejected_claims res) = length (filter (\<lambda>f. \<not> supported sn [m1, m2] f) (fs1 @ fs2))"
proof -
  obtain rep1 rep2 run1 run2 msg1 msg2 m1 m2 msg3 w1 w2 w3 w4 o1 o2 run3 where
    a1: "analyze E G (wf_state W) i h sn w = (Inr (rep1, run1, msg1), w1)"
    and a2: "analyze E G (wf_log W) i h sn w1 = (Inr (rep2, run2, msg2), w2)"
    and found: "wr_findings res = fst (verify_findings sn (rp_findings rep1 @ rp_findings rep2) [m1, m2])"
    and rejected: "wr_rejected_claims res =
      snd (verify_findings sn (rp_findings rep1 @ rp_findings rep2) [m1, m2])"
    and reports: "wr_reports res =
      [rep1\<lparr>rp_findings := filter (\<lambda>f. f_source_agent f = LinuxStateAnalyst) (wr_findings res)\<rparr>,
       rep2\<lparr>rp_findings := filter (\<lambda>f. f_source_agent f = LogAnalyst) (wr_findings res)\<rparr>]"
    and msgs: "wr_messages res = [msg1, msg2, m1, m2, msg3]"
    using assms(2) by (rule run_agents_Inr)
  let ?fs1 = "rp_findings rep1" and ?fs2 = "rp_findings rep2"
  let ?ok = "\<lambda>fs. map (\<lambda>f. f\<lparr>f_verifier_status := ''verified''\<rparr>) (filter (supported sn [m1, m2]) fs)"
  from analyze_Inr [OF a1] analyze_Inr [OF a2] assms(1) obtain v v2 where
    p: "policy_findings E LinuxStateAnalyst h sn w = (Inr ?fs1, v)"
      "policy_findings E LogAnalyst h sn w1 = (Inr ?fs2, v2)"
    by (auto simp: workflow_names_def)
  have names: "\<forall>f \<in> set ?fs1. f_source_agent f = LinuxStateAnalyst" "\<forall>f \<in> set ?fs2. f_source_agent f = LogAnalyst"
    using state_policy.finding [OF p(1)] log_policy.finding [OF p(2)] by (simp_all add: policy_finding_def)
  have "wr_findings res = ?ok ?fs1 @ ?ok ?fs2"
    unfolding found verify_findings_result by simp
  moreover have "map rp_findings (wr_reports res) = [?ok ?fs1, ?ok ?fs2]"
    using verified_from [OF refl names(1)] verified_from [OF refl names(2)]
    by (simp add: reports calculation)
  moreover have "length (wr_rejected_claims res) =
      length (filter (\<lambda>f. \<not> supported sn [m1, m2] f) (?fs1 @ ?fs2))"
    unfolding rejected by (rule verify_findings_result)
  ultimately show ?thesis
    using p msgs by (intro exI [of _ ?fs1] exI [of _ ?fs2]) auto
qed

subsection \<open>The plan\<close>

text \<open>A freshly proposed plan: nobody approved it and nothing ran.\<close>

definition awaits_approval :: "(string \<Rightarrow> string) \<Rightarrow> remediation \<Rightarrow> bool" where
  "awaits_approval H r \<longleftrightarrow>
     r_plan_version r = 1 \<and> r_plan_hash r = plan_hash H r \<and> r_execution_state r = ''not_started'' \<and>
     r_approval_state r = ''pending'' \<and> r_reboot_approval_state r = ''pending'' \<and>
     r_approved_by r = None \<and> r_reboot_approved_by r = None \<and> r_result r = None"

text \<open>Severities are ordered by their rank.\<close>

lemma severity_rank_inj: "severity_rank a = severity_rank b \<Longrightarrow> a = b"
  by (cases a; cases b) simp_all

instantiation severity :: linorder
begin

definition less_eq_severity :: "severity \<Rightarrow> severity \<Rightarrow> bool" where
  "a \<le> b \<longleftrightarrow> severity_rank a \<le> severity_rank b"

definition less_severity :: "severity \<Rightarrow> severity \<Rightarrow> bool" where
  "a < b \<longleftrightarrow> severity_rank a < severity_rank b"

instance
  by standard (auto simp: less_eq_severity_def less_severity_def dest: severity_rank_inj)

end

text \<open>The risk the host's policy sets, whatever a model says: the risk of a plan is the larger one.\<close>

definition risk_floor :: "host \<Rightarrow> host_snapshot \<Rightarrow> reboot_assessment \<Rightarrow> severity" where
  "risk_floor h sn reboot =
     (if 95 \<le> sy_disk_usage_percent (sn_system_summary sn) then SevCritical
      else if h_criticality h = ''high'' \<or> h_availability_class h = ''high_availability'' \<or>
        ss_failed_units (sn_service_summary sn) \<noteq> [] \<or>
        rb_status reboot \<in> {''required'', ''required_after_patch''} then SevHigh else SevMedium)"

lemma enforce_risk_max: "enforce_risk h sn v reboot = max v (risk_floor h sn reboot)"
proof -
  have "enforce_risk h sn v reboot =
      (if risk_floor h sn reboot \<le> v then v else risk_floor h sn reboot)"
    by (auto simp: enforce_risk_def risk_floor_def less_eq_severity_def Let_def)
  then show ?thesis
    by (auto simp: max_def)
qed

lemma high_risk_one_at_a_time: "SevHigh \<le> risk \<Longrightarrow> ro_batch_size (rollout_for h risk) = 1"
  by (cases risk) (simp_all add: rollout_for_def less_eq_severity_def)

lemma build_remediation_Inr:
  assumes "build_remediation E rm i h sn reports a w = (Inr (Some r), w')"
  shows "oc_status a = ''plan_ready'' \<and> oc_update_scope a \<noteq> ''none'' \<and> r_host_id r = h_id h \<and>
      r_scan_id r = Some i \<and> r_action_type r = ''package_upgrade'' \<and> r_update_scope r = oc_update_scope a"
    and "awaits_approval (e_H E) r"
    and "risk_floor h sn (r_reboot_assessment r) \<le> r_risk_level r"
    and "r_rollout_policy r = rollout_for h (r_risk_level r)"
    and "r_reboot_assessment r = assess_reboot sn (oc_update_scope a)"
    and "ad_update_scope (r_ai_decision r) = oc_update_scope a \<and> ad_status (r_ai_decision r) = oc_status a \<and>
      ad_supporting_citations (r_ai_decision r) = oc_supporting_citations a \<and>
      ad_unresolved_conflicts (r_ai_decision r) = oc_unresolved_conflicts a"
proof -
  from assms have ready: "oc_status a = ''plan_ready'' \<and> oc_update_scope a \<noteq> ''none''"
    by (auto simp: build_remediation_def comp_simps split: if_splits)
  from assms obtain v j t1 t2 where
    "r = (draft_plan rm i h sn reports a v j t1 t2)
      \<lparr>r_plan_hash := plan_hash (e_H E) (draft_plan rm i h sn reports a v j t1 t2)\<rparr>"
    by (auto simp: build_remediation_def comp_simps bindM_eq_Inr Let_def split: if_splits)
  moreover define d where "d = draft_plan rm i h sn reports a v j t1 t2"
  ultimately have r: "r = d\<lparr>r_plan_hash := plan_hash (e_H E) d\<rparr>"
    by simp
  have d: "r_host_id d = h_id h" "r_scan_id d = Some i" "r_action_type d = ''package_upgrade''"
    "r_update_scope d = oc_update_scope a" "r_plan_version d = 1" "r_execution_state d = ''not_started''"
    "r_approval_state d = ''pending''" "r_reboot_approval_state d = ''pending''"
    "r_approved_by d = None" "r_reboot_approved_by d = None" "r_result d = None"
    "r_reboot_assessment d = assess_reboot sn (oc_update_scope a)"
    "r_risk_level d = enforce_risk h sn v (assess_reboot sn (oc_update_scope a))"
    "r_rollout_policy d = rollout_for h (r_risk_level d)"
    "ad_update_scope (r_ai_decision d) = oc_update_scope a" "ad_status (r_ai_decision d) = oc_status a"
    "ad_supporting_citations (r_ai_decision d) = oc_supporting_citations a"
    "ad_unresolved_conflicts (r_ai_decision d) = oc_unresolved_conflicts a"
    by (simp_all add: d_def draft_plan_def Let_def)
  show "oc_status a = ''plan_ready'' \<and> oc_update_scope a \<noteq> ''none'' \<and> r_host_id r = h_id h \<and>
      r_scan_id r = Some i \<and> r_action_type r = ''package_upgrade'' \<and> r_update_scope r = oc_update_scope a"
    using ready by (simp add: r d)
  show "awaits_approval (e_H E) r"
    by (simp add: r d awaits_approval_def gate_simps)
  show "risk_floor h sn (r_reboot_assessment r) \<le> r_risk_level r"
    by (simp add: r d enforce_risk_max)
  show "r_rollout_policy r = rollout_for h (r_risk_level r)"
    "r_reboot_assessment r = assess_reboot sn (oc_update_scope a)"
    by (simp_all add: r d)
  show "ad_update_scope (r_ai_decision r) = oc_update_scope a \<and> ad_status (r_ai_decision r) = oc_status a \<and>
      ad_supporting_citations (r_ai_decision r) = oc_supporting_citations a \<and>
      ad_unresolved_conflicts (r_ai_decision r) = oc_unresolved_conflicts a"
    by (simp add: r d)
qed

lemma fallback_cites_evidence:
  assumes "map rp_findings reports =
      [filter p (fst (verify_findings sn fs ms)), filter q (fst (verify_findings sn fs ms))]"
  shows "set (oc_supporting_citations (synthesis_fallback h sn (concat (map rp_findings reports)) ms rejected))
    \<subseteq> set (evidence_registry sn)"
proof -
  have "\<forall>f \<in> set (fst (verify_findings sn fs ms)). set (citations_of f) \<subseteq> set (evidence_registry sn)"
    unfolding verify_findings_result
    by (auto simp: supported_update dest: subsetD [OF supported_citations])
  then show ?thesis
    by (auto simp: synthesis_fallback_def Let_def assms)
qed

text \<open>C24: A model cannot weaken a plan. Whatever the providers answer and the cache holds, a plan
  the workflow proposes is bound to the host and scan, unapproved, under the hash of its own
  content and eligible for no execution; its scope is a cataloged one, and the host's own when
  the host's policy fixes it; its risk is at least the floor of the host's criticality,
  availability, failures, disk and reboot assessment, with a rollout of one host at a time
  whenever that risk is high; its citations are evidence of the snapshot; and no claim was
  rejected, challenged or left in conflict.\<close>

theorem proposed_plan_is_bounded:
  assumes "workflow_names W" and "run_agents E G W i h sn w = (Inr res, w')"
    and "wr_remediation res = Some r"
  shows "r_host_id r = h_id h \<and> r_scan_id r = Some i \<and> awaits_approval (e_H E) r \<and>
    (\<forall>k job arf. \<not> gd_allowed (execution_eligibility (e_H E) r k job arf)) \<and>
    r_update_scope r \<in> {''all'', ''security''} \<and>
    (pp_update_mode (h_patch_policy h) \<in> {''all'', ''security''} \<longrightarrow>
       r_update_scope r = pp_update_mode (h_patch_policy h)) \<and>
    risk_floor h sn (r_reboot_assessment r) \<le> r_risk_level r \<and>
    (SevHigh \<le> r_risk_level r \<longrightarrow> ro_batch_size (r_rollout_policy r) = 1) \<and>
    set (ad_supporting_citations (r_ai_decision r)) \<subseteq> set (evidence_registry sn) \<and>
    wr_rejected_claims res = [] \<and> ad_unresolved_conflicts (r_ai_decision r) = [] \<and>
    (\<forall>m \<in> set (wr_messages res). am_response m \<notin> {''challenge'', ''request_evidence''})"
proof -
  obtain rep1 rep2 run1 run2 msg1 msg2 m1 m2 msg3 w1 w2 w3 w4 o1 o2 run3 where
    a1: "analyze E G (wf_state W) i h sn w = (Inr (rep1, run1, msg1), w1)"
    and a2: "analyze E G (wf_log W) i h sn w1 = (Inr (rep2, run2, msg2), w2)"
    and found: "wr_findings res = fst (verify_findings sn (rp_findings rep1 @ rp_findings rep2) [m1, m2])"
    and syn: "synthesize E G (wf_contract W) (wf_routed W) i h sn (wr_reports res) [m1, m2]
      (wr_rejected_claims res) w4 = (Inr (wr_remediation res, run3, msg3), w')"
    and reports: "wr_reports res =
      [rep1\<lparr>rp_findings := filter (\<lambda>f. f_source_agent f = LinuxStateAnalyst) (wr_findings res)\<rparr>,
       rep2\<lparr>rp_findings := filter (\<lambda>f. f_source_agent f = LogAnalyst) (wr_findings res)\<rparr>]"
    and msgs: "wr_messages res = [msg1, msg2, m1, m2, msg3]"
    using assms(2) by (rule run_agents_Inr)
  let ?fb = "synthesis_fallback h sn (concat (map rp_findings (wr_reports res))) [m1, m2]
    (wr_rejected_claims res)"
  from synthesize_Inr [OF syn] assms(3) obtain answer v where
    sound: "sound_answer ?fb answer" and m3: "am_response msg3 = ''synthesis''"
    and build: "build_remediation E (wf_routed W) i h sn (wr_reports res) (impose_policy h answer) v =
      (Inr (Some r), w')"
    by auto
  note b = build_remediation_Inr [OF build]
  note sound' = impose_policy_sound [OF sound, of h]
  have ready: "oc_unresolved_conflicts ?fb = []" "oc_unresolved_conflicts (impose_policy h answer) = []"
    using sound'(1) b(1) by (auto simp: sound_answer_def)
  have "set (oc_supporting_citations ?fb) \<subseteq> set (evidence_registry sn)"
    by (rule fallback_cites_evidence) (simp add: reports found)
  moreover have "\<not> gd_allowed (execution_eligibility (e_H E) r k job arf)" for k job arf
    using b(2) by (simp add: execution_eligibility_def approval_decision_iff plan_approved_def
        awaits_approval_def gate_simps)
  moreover have "r_update_scope r \<in> {''all'', ''security''}"
    using sound'(1) b(1) by (auto simp: sound_answer_def update_scopes_def)
  moreover have "SevHigh \<le> r_risk_level r \<longrightarrow> ro_batch_size (r_rollout_policy r) = 1"
    unfolding b(4) using high_risk_one_at_a_time by blast
  moreover have "wr_rejected_claims res = [] \<and>
      am_response m1 \<notin> {''challenge'', ''request_evidence''} \<and>
      am_response m2 \<notin> {''challenge'', ''request_evidence''}"
    using ready(1) by (auto simp: synthesis_fallback_def Let_def split: if_splits)
  moreover have "am_response msg1 = ''report''" "am_response msg2 = ''report''"
    using analyze_Inr [OF a1] analyze_Inr [OF a2] by auto
  ultimately show ?thesis
    using b sound' ready(2) m3 msgs by (auto simp: sound_answer_def)
qed

subsection \<open>Without a model\<close>

text \<open>No provider is configured and the cache has nothing.\<close>

definition offline :: "agent_env \<Rightarrow> workflow \<Rightarrow> bool" where
  "offline G W \<longleftrightarrow> rm_provider (sp_routed (wf_state W)) = None \<and>
     rm_provider (sp_routed (wf_log W)) = None \<and> rm_provider (wf_routed W) = None \<and>
     (\<forall>key v. \<exists>v'. ag_get G key v = (Inr None, v'))"

lemma no_cached_answer:
  assumes "\<forall>key v. \<exists>v'. ag_get G key v = (Inr None, v')"
  obtains v where "externalM (ag_get G key) w = (Inr None, v)"
  using assms unfolding externalM_def by (metis (no_types, lifting) case_prod_conv)

lemma new_run_total: "\<exists>r v. new_run E G i rm x d c hit reason w = (Inr r, v)"
  by (simp add: new_run_def bindM_def new_id_def latency_ms_def comp_simps)

lemma new_message_total: "\<exists>m v. new_message E i a b resp cs reason cites w = (Inr m, v)"
  by (simp add: new_message_def bindM_def new_id_def comp_simps)

lemma analyze_offline:
  assumes "\<forall>key v. \<exists>v'. ag_get G key v = (Inr None, v')" and "rm_provider (sp_routed a) = None"
    and "policy_findings E (sp_name a) h sn w = (Inr fs, w1)"
  shows "\<exists>rep run msg w'. analyze E G a i h sn w = (Inr (rep, run, msg), w')"
proof -
  obtain prompt x key where p: "prepare_prompt E G (sp_contract a) (sp_routed a) h
      (analysis_payload G h sn fs) ''analysis'' = (prompt, x, key)"
    using prod_cases3 by blast
  obtain v where "externalM (ag_get G key) w1 = (Inr None, v)"
    using no_cached_answer [OF assms(1)] .
  then have o: "analysis_overview E G a prompt key overview w1 =
      (Inr (overview, no_completion, False, Some no_provider_analysis), v)" for overview
    using assms(2) by (simp add: analysis_overview_def bindM_def comp_simps)
  define overview where "overview = fallback_overview (sp_name a) fs"
  define rep where "rep = \<lparr>rp_agent = rm_identity (sp_routed a), rp_overview = overview, rp_findings = fs\<rparr>"
  obtain run v1 where r: "new_run E G i (sp_routed a) x (ag_dump_report G rep) no_completion False
      (Some no_provider_analysis) v = (Inr run, v1)"
    using new_run_total by blast
  obtain msg v2 where m: "new_message E i (sp_name a) Orchestrator ''report'' (map f_id fs) overview
      (concat (map citations_of fs)) v1 = (Inr msg, v2)"
    using new_message_total by blast
  have "analyze E G a i h sn w = (Inr (rep, run, msg), v2)"
    unfolding analyze_def Let_def overview_def [symmetric]
    by (simp add: bindM_def assms(3) p o overview_def [symmetric] rep_def [symmetric] r m run_simps)
  then show ?thesis by blast
qed

lemma peer_review_offline:
  assumes "\<forall>key v. \<exists>v'. ag_get G key v = (Inr None, v')" and "rm_provider (sp_routed a) = None"
    and "\<forall>f \<in> set (rp_findings other). f_evidence f \<noteq> []"
  shows "\<exists>m run w'. peer_review E G a i h own other w = (Inr (m, run), w') \<and>
    am_response m \<in> {''confirm'', ''not_applicable''}"
proof (cases "relevant_claims own other = []")
  case True
  obtain m v where m: "new_message E i (sp_name a) (ai_name (rp_agent other)) ''not_applicable'' []
      no_relevant_claims [] w = (Inr m, v)"
    using new_message_total by blast
  then have "peer_review E G a i h own other w = (Inr (m, None), v)"
    using True by (simp add: peer_review_def bindM_def run_simps)
  with new_message_Inr [OF m] show ?thesis by auto
next
  case False
  let ?rel = "relevant_claims own other"
  obtain prompt x key where p: "prepare_prompt E G (sp_contract a) (sp_routed a) h
      (review_payload G own ?rel) ''peer-review'' = (prompt, x, key)"
    using prod_cases3 by blast
  obtain v where "externalM (ag_get G key) w = (Inr None, v)"
    using no_cached_answer [OF assms(1)] .
  then have o: "review_answer E G a ?rel prompt key w = (Inr ((deterministic_review ?rel,
      review_details (deterministic_review ?rel)), no_completion, False, Some no_provider_review), v)"
    using assms(2) by (simp add: review_answer_def Let_def bindM_def comp_simps)
  have "\<forall>f \<in> set ?rel. f_evidence f \<noteq> []"
    using assms(3) by (auto simp: relevant_claims_def split: if_splits)
  then have confirm: "rv_response (deterministic_review ?rel) = ''confirm''"
    by (simp add: deterministic_review_def Let_def filter_False)
  obtain m v1 where m: "new_message E i (sp_name a) (ai_name (rp_agent other))
      (rv_response (deterministic_review ?rel)) (rv_claim_ids (deterministic_review ?rel))
      (rv_reasoning (deterministic_review ?rel)) (rv_citations (deterministic_review ?rel)) v = (Inr m, v1)"
    using new_message_total by blast
  obtain run v2 where r: "new_run E G i (sp_routed a) x (review_details (deterministic_review ?rel))
      no_completion False (Some no_provider_review) v1 = (Inr run, v2)"
    using new_run_total by blast
  have "peer_review E G a i h own other w = (Inr (m, Some run), v2)"
    using False p by (simp add: peer_review_def Let_def bindM_def o m r run_simps)
  then show ?thesis
    using new_message_Inr [OF m] confirm by auto
qed

lemma severity_of_fallback: "\<exists>v. severity_of (if b then ''high'' else ''info'') = Inr v"
  by (simp add: severity_of_def)

lemma synthesize_offline:
  assumes "\<forall>key v. \<exists>v'. ag_get G key v = (Inr None, v')" and "rm_provider rm = None"
    and "\<forall>m \<in> set ms. am_response m \<in> {''confirm'', ''not_applicable''}"
  shows "\<exists>plan run msg w'. synthesize E G ac rm i h sn reports ms rejected w = (Inr (plan, run, msg), w') \<and>
    (plan \<noteq> None \<longleftrightarrow> rejected = [] \<and> ps_pending_package_updates (sn_package_summary sn) \<noteq> 0)"
proof -
  let ?fb = "synthesis_fallback h sn (concat (map rp_findings reports)) ms rejected"
  let ?a = "impose_policy h ?fb"
  have no_conflict: "filter (\<lambda>m. am_response m = ''challenge'' \<or> am_response m = ''request_evidence'') ms = []"
    using assms(3) by (auto simp: filter_empty_conv)
  have a: "oc_status ?a = ''plan_ready'' \<longleftrightarrow> rejected = []"
    "oc_update_scope ?a \<noteq> ''none'' \<or> ps_pending_package_updates (sn_package_summary sn) = 0"
    "\<exists>v. severity_of (oc_risk_level ?a) = Inr v"
    using severity_of_fallback [of "concat (map rp_findings reports) \<noteq> []"]
    by (auto simp: impose_policy_def synthesis_fallback_def Let_def no_conflict deterministic_scope_def
        split: if_splits)
  define prompt where "prompt = compact_json G (provider_payload G rm h (synthesis_payload G h reports ms))
    (ac_max_input_tokens ac)"
  define x where "x = stable_hash (e_H E) (JObj (identity_members ac rm prompt))"
  define key where "key = ''agent-cache:'' @ x"
  obtain v where "externalM (ag_get G key) w = (Inr None, v)"
    using no_cached_answer [OF assms(1)] .
  then have o: "synthesis_answer E G ac rm ?fb (oc_supporting_citations ?fb) prompt key w =
      (Inr (?fb, no_completion, False, Some no_provider_synthesis), v)"
    using assms(2) by (simp add: synthesis_answer_def bindM_def comp_simps)
  obtain run v1 where r: "new_run E G i rm x (orchestration_details ?a) no_completion False
      (Some no_provider_synthesis) v = (Inr run, v1)"
    using new_run_total by blast
  obtain msg v2 where m: "new_message E i Orchestrator Orchestrator ''synthesis''
      (map f_id (concat (map rp_findings reports))) (oc_explanation ?a) (oc_supporting_citations ?a) v1 =
      (Inr msg, v2)"
    using new_message_total by blast
  have "\<exists>plan v3. build_remediation E rm i h sn reports ?a v2 = (Inr plan, v3) \<and>
    (plan \<noteq> None \<longleftrightarrow> rejected = [] \<and> ps_pending_package_updates (sn_package_summary sn) \<noteq> 0)"
  proof (cases "rejected = [] \<and> ps_pending_package_updates (sn_package_summary sn) \<noteq> 0")
    case True
    moreover obtain risk where "severity_of (oc_risk_level ?a) = Inr risk"
      using a(3) by blast
    ultimately show ?thesis
      using a(1,2) by (simp add: build_remediation_def bindM_def new_id_def run_simps utc_now_def Let_def)
  next
    case False
    then show ?thesis
      using a(1) by (auto simp: build_remediation_def run_simps)
  qed
  then obtain plan v3 where b: "build_remediation E rm i h sn reports ?a v2 = (Inr plan, v3)"
    "plan \<noteq> None \<longleftrightarrow> rejected = [] \<and> ps_pending_package_updates (sn_package_summary sn) \<noteq> 0"
    by blast
  have "synthesize E G ac rm i h sn reports ms rejected w = (Inr (plan, run, msg), v3)"
    unfolding synthesize_def Let_def prompt_def [symmetric] x_def [symmetric] key_def [symmetric]
    by (simp add: bindM_def o r m b(1) run_simps)
  with b(2) show ?thesis by blast
qed

text \<open>What the policies cite.\<close>

lemma collected_citations:
  assumes "collect_findings steps w = (Inr fs, w')"
    and "list_all2 (\<lambda>(b, m) c. \<forall>v f v'. m v = (Inr f, v') \<longrightarrow> citations_of f = c) steps cs"
  shows "concat (map citations_of fs) = concat (map2 (\<lambda>(b, m) c. if b then c else []) steps cs)"
  using assms
proof (induction steps arbitrary: cs w fs rule: collect_findings.induct)
  case 1
  then show ?case
    by (simp add: comp_simps)
next
  case (2 b m rest)
  then obtain c cs' where "cs = c # cs'"
    by (cases cs) auto
  with 2 show ?case
    by (cases b) (fastforce simp: bindM_eq_Inr comp_simps)+
qed

lemma state_citations:
  assumes "policy_findings E LinuxStateAnalyst h sn w = (Inr fs, w')"
  shows "concat (map citations_of fs) =
    (if ps_pending_package_updates (sn_package_summary sn) \<noteq> 0 then [''commands.upgradable_packages''] else []) @
    (if 80 \<le> sy_disk_usage_percent (sn_system_summary sn) then [''systemSummary.diskUsagePercent''] else []) @
    (if ps_held_packages (sn_package_summary sn) \<noteq> [] then [''commands.held_packages''] else [])"
proof -
  have cited: "(\<forall>v f v'. make_finding E h n ct sv sm ex [cite s x c] ac cf v = (Inr f, v') \<longrightarrow>
      citations_of f = [c])" for n ct sv sm ex s x c ac cf
    by (auto simp: citations_of_def cite_def dest!: make_finding_Inr)
  have "list_all2 (\<lambda>(b, m) c. \<forall>v f v'. m v = (Inr f, v') \<longrightarrow> citations_of f = c)
      (state_policy_steps E h sn)
      [[''commands.upgradable_packages''], [''systemSummary.diskUsagePercent''], [''commands.held_packages'']]"
    unfolding state_policy_steps_def Let_def by (simp only: list_all2_Cons list_all2_Nil prod.case) (intro conjI cited refl)
  from collected_citations [OF assms [unfolded policy_findings_def, simplified] this] show ?thesis
    by (simp add: state_policy_steps_def Let_def)
qed

lemma log_citations:
  assumes "policy_findings E LogAnalyst h sn w = (Inr fs, w')"
  shows "set (concat (map citations_of fs)) \<subseteq> set fixed_citations"
proof -
  have "set (citations_of f) \<subseteq> {''serviceSummary.failedUnits'', ''logs.journal'', ''logs.auth'', ''logs.kernel''}"
    if "f \<in> set fs" for f
    using collect_findings_Inr [OF assms [unfolded policy_findings_def, simplified] that]
    by (auto simp: log_policy_steps_def Let_def citations_of_def cite_def dest!: make_finding_Inr)
  then show ?thesis
    by (fastforce simp: fixed_citations_def)
qed

lemma registry_commands:
  "''commands.'' @ k \<in> set (evidence_registry sn) \<longleftrightarrow> k \<in> fst ` set (sn_commands sn)"
  by (force simp: evidence_registry_def fixed_citations_def)

lemma fixed_in_registry: "set fixed_citations \<subseteq> set (evidence_registry sn)"
  by (simp add: evidence_registry_def)

lemma disk_in_registry: "''systemSummary.diskUsagePercent'' \<in> set (evidence_registry sn)"
  by (simp add: evidence_registry_def fixed_citations_def)

lemma offline_run:
  assumes "workflow_names W" and "offline G W"
  shows "\<exists>res w'. run_agents E G W i h sn w = (Inr res, w') \<and>
    (wr_remediation res \<noteq> None \<longleftrightarrow>
       ps_pending_package_updates (sn_package_summary sn) \<noteq> 0 \<and>
       ''upgradable_packages'' \<in> fst ` set (sn_commands sn) \<and>
       (ps_held_packages (sn_package_summary sn) \<noteq> [] \<longrightarrow> ''held_packages'' \<in> fst ` set (sn_commands sn)))"
proof -
  have names: "sp_name (wf_state W) = LinuxStateAnalyst" "sp_name (wf_log W) = LogAnalyst"
    and off: "\<forall>key v. \<exists>v'. ag_get G key v = (Inr None, v')" "rm_provider (sp_routed (wf_state W)) = None"
      "rm_provider (sp_routed (wf_log W)) = None" "rm_provider (wf_routed W) = None"
    using assms by (auto simp: workflow_names_def offline_def)
  obtain fs1 v1 where p1: "policy_findings E LinuxStateAnalyst h sn w = (Inr fs1, v1)"
    using state_policy.total by blast
  obtain rep1 run1 msg1 w1 where a1: "analyze E G (wf_state W) i h sn w = (Inr (rep1, run1, msg1), w1)"
    using analyze_offline [OF off(1,2), of E h sn w fs1 v1 i] p1 names(1) by auto
  obtain fs2 v2 where p2: "policy_findings E LogAnalyst h sn w1 = (Inr fs2, v2)"
    using log_policy.total by blast
  obtain rep2 run2 msg2 w2 where a2: "analyze E G (wf_log W) i h sn w1 = (Inr (rep2, run2, msg2), w2)"
    using analyze_offline [OF off(1,3), of E h sn w1 fs2 v2 i] p2 names(2) by auto
  have fs: "rp_findings rep1 = fs1" "rp_findings rep2 = fs2"
    using analyze_Inr [OF a1] analyze_Inr [OF a2] p1 p2 names by auto
  have pf: "\<forall>f \<in> set fs1. policy_finding LinuxStateAnalyst h f" "\<forall>f \<in> set fs2. policy_finding LogAnalyst h f"
    using state_policy.finding [OF p1] log_policy.finding [OF p2] by auto
  obtain m1 o1 w3 where m1: "peer_review E G (wf_state W) i h rep1 rep2 w2 = (Inr (m1, o1), w3)"
    "am_response m1 \<in> {''confirm'', ''not_applicable''}"
    using peer_review_offline [OF off(1,2), of rep2 E i h rep1 w2] pf(2) fs by (auto simp: policy_finding_def)
  obtain m2 o2 w4 where m2: "peer_review E G (wf_log W) i h rep2 rep1 w3 = (Inr (m2, o2), w4)"
    "am_response m2 \<in> {''confirm'', ''not_applicable''}"
    using peer_review_offline [OF off(1,3), of rep1 E i h rep2 w3] pf(1) fs by (auto simp: policy_finding_def)
  obtain verified rejected where V: "verify_findings sn (fs1 @ fs2) [m1, m2] = (verified, rejected)"
    by (cases "verify_findings sn (fs1 @ fs2) [m1, m2]")
  have uncontested: "contested_claims [m1, m2] = []"
    using m1(2) m2(2) by (auto simp: contested_claims_def)
  have sup: "\<forall>f \<in> set (fs1 @ fs2). supported sn [m1, m2] f \<longleftrightarrow>
      set (citations_of f) \<subseteq> set (evidence_registry sn)"
    by (auto simp only: set_append Un_iff state_policy.supported_iff [OF p1]
        log_policy.supported_iff [OF p2] uncontested empty_iff list.set not_False_eq_True simp_thms)
  have "rejected = [] \<longleftrightarrow> (\<forall>f \<in> set (fs1 @ fs2). supported sn [m1, m2] f)"
    using verify_findings_result(2) [of sn "fs1 @ fs2" "[m1, m2]"] V by simp
  also have "\<dots> \<longleftrightarrow> (\<forall>f \<in> set (fs1 @ fs2). set (citations_of f) \<subseteq> set (evidence_registry sn))"
    using sup by blast
  also have "\<dots> \<longleftrightarrow> set (concat (map citations_of fs1)) \<subseteq> set (evidence_registry sn)"
    using log_citations [OF p2] fixed_in_registry by auto
  also have "\<dots> \<longleftrightarrow>
      (ps_pending_package_updates (sn_package_summary sn) \<noteq> 0 \<longrightarrow> ''upgradable_packages'' \<in> fst ` set (sn_commands sn)) \<and>
      (ps_held_packages (sn_package_summary sn) \<noteq> [] \<longrightarrow> ''held_packages'' \<in> fst ` set (sn_commands sn))"
    unfolding state_citations [OF p1]
    using registry_commands [of "''upgradable_packages''" sn] registry_commands [of "''held_packages''" sn]
      disk_in_registry [of sn] by auto
  finally have rejected: "rejected = [] \<longleftrightarrow> \<dots>" .
  let ?r1 = "rep1\<lparr>rp_findings := filter (\<lambda>f. f_source_agent f = LinuxStateAnalyst) verified\<rparr>"
  let ?r2 = "rep2\<lparr>rp_findings := filter (\<lambda>f. f_source_agent f = LogAnalyst) verified\<rparr>"
  have "\<forall>m \<in> set [m1, m2]. am_response m \<in> {''confirm'', ''not_applicable''}"
    using m1(2) m2(2) by simp
  from synthesize_offline [OF off(1,4) this, of E "wf_contract W" i h sn "[?r1, ?r2]" rejected w4]
  obtain plan run3 msg3 w5 where
    syn: "synthesize E G (wf_contract W) (wf_routed W) i h sn [?r1, ?r2] [m1, m2] rejected w4 =
      (Inr (plan, run3, msg3), w5)"
    "plan \<noteq> None \<longleftrightarrow> rejected = [] \<and> ps_pending_package_updates (sn_package_summary sn) \<noteq> 0"
    by (elim exE conjE) (rule that)
  obtain res where "run_agents E G W i h sn w = (Inr res, w5)" "wr_remediation res = plan"
    using V by (simp add: run_agents_def bindM_def a1 a2 m1(1) m2(1) fs syn(1) Let_def run_simps)
  with syn(2) rejected show ?thesis by auto
qed

text \<open>C26: Without a model the policy alone proposes a plan. When no provider is configured and
  the cache is empty, the workflow returns for every host and snapshot, and it proposes a plan
  exactly when updates are pending and the snapshot has the output of the commands that the
  findings cite: the list of upgradable packages, and that of held ones when some are held.\<close>

theorem deterministic_plan:
  assumes "workflow_names W" and "offline G W"
  shows "\<exists>res w'. run_agents E G W i h sn w = (Inr res, w') \<and>
    (wr_remediation res \<noteq> None \<longleftrightarrow>
       ps_pending_package_updates (sn_package_summary sn) \<noteq> 0 \<and>
       ''upgradable_packages'' \<in> fst ` set (sn_commands sn) \<and>
       (ps_held_packages (sn_package_summary sn) \<noteq> [] \<longrightarrow> ''held_packages'' \<in> fst ` set (sn_commands sn)))"
  using assms by (rule offline_run)

text \<open>A workflow without a model on a host with one pending update.\<close>

definition offline_agents :: agent_env where
  "offline_agents = \<lparr>ag_get = (\<lambda>_. returnM None), ag_put = (\<lambda>_ _. returnM ()),
     ag_loads = (\<lambda>_. Inr JNull), ag_dumps = (\<lambda>_. ''''), ag_redact_payload = (\<lambda>j _. j),
     ag_dump_host = (\<lambda>_. JNull), ag_dump_snapshot = (\<lambda>_. JNull), ag_dump_finding = (\<lambda>_. JNull),
     ag_dump_report = (\<lambda>_. []), ag_dump_message = (\<lambda>_. JNull), ag_dump_policy = (\<lambda>_. JNull),
     ag_latency_ms = (\<lambda>_. 0), ag_validation_error = ''''\<rparr>"

definition offline_specialist :: "agent_name \<Rightarrow> specialist" where
  "offline_specialist n = \<lparr>sp_name = n,
     sp_contract = \<lparr>ac_agent = n, ac_version = 1, ac_model_tier = ''economy'',
       ac_max_input_tokens = 1000, ac_max_output_tokens = 100, ac_max_conversation_rounds = 1,
       ac_content = '''', ac_content_hash = '''', ac_path = ''''\<rparr>,
     sp_routed = \<lparr>rm_identity = routed_identity n Deterministic ''local'' ''policy-engine'' 1 '''',
       rm_provider = None\<rparr>\<rparr>"

definition offline_workflow :: workflow where
  "offline_workflow = \<lparr>wf_state = offline_specialist LinuxStateAnalyst,
     wf_log = offline_specialist LogAnalyst,
     wf_contract = sp_contract (offline_specialist Orchestrator),
     wf_routed = sp_routed (offline_specialist Orchestrator)\<rparr>"

definition pending_evidence :: host_snapshot where
  "pending_evidence = (sample_evidence [])
     \<lparr>sn_commands := [(''upgradable_packages'', ''openssl'')],
      sn_package_summary := (sn_package_summary (sample_evidence []))\<lparr>ps_pending_package_updates := 1\<rparr>\<rparr>"

definition sample_workflow_run :: "(exn + workflow_result) \<times> world" where
  "sample_workflow_run = run_agents (sample_env []) offline_agents offline_workflow ''scan-1''
     sample_host pending_evidence (sample_world approved_plan [])"

lemma offline_sample [sample_runs]:
  "workflow_names offline_workflow" "offline offline_agents offline_workflow"
  "patch_policy_valid (h_patch_policy sample_host)"
  by (simp_all add: workflow_names_def offline_workflow_def offline_specialist_def routed_identity_def
      offline_def offline_agents_def comp_simps patch_policy_valid_def sample_host_def sample_policy_def)

lemma sample_workflow_run:
  obtains res w' where "sample_workflow_run = (Inr res, w')" "wr_remediation res \<noteq> None"
  using offline_run [OF offline_sample(1,2), of "sample_env []" "''scan-1''" sample_host
      pending_evidence "sample_world approved_plan []"]
  unfolding sample_workflow_run_def [symmetric]
  by (auto simp: pending_evidence_def sample_evidence_def)

theorem deterministic_plan_witness:
  "\<exists>res w'. sample_workflow_run = (Inr res, w') \<and> wr_remediation res \<noteq> None"
  using deterministic_plan [OF offline_sample(1,2), of "sample_env []" "''scan-1''" sample_host
      pending_evidence "sample_world approved_plan []"]
  unfolding sample_workflow_run_def [symmetric]
  by (auto simp: pending_evidence_def sample_evidence_def)

theorem findings_come_from_policy_witness:
  "\<exists>res w'. sample_workflow_run = (Inr res, w') \<and>
    wr_findings res = concat (map rp_findings (wr_reports res))"
proof -
  obtain res w' where run: "sample_workflow_run = (Inr res, w')"
    by (rule sample_workflow_run)
  from findings_come_from_policy [OF offline_sample(1) this [unfolded sample_workflow_run_def]] run
  show ?thesis by blast
qed

theorem proposed_plan_is_bounded_witness:
  "\<exists>res w' r. sample_workflow_run = (Inr res, w') \<and> wr_remediation res = Some r \<and>
    awaits_approval flat_digest r \<and> ''scan-1'' \<in> set_option (r_scan_id r)"
proof -
  obtain res w' r where run: "sample_workflow_run = (Inr res, w')" and r: "wr_remediation res = Some r"
    by (metis not_None_eq sample_workflow_run)
  from proposed_plan_is_bounded [OF offline_sample(1) run [unfolded sample_workflow_run_def] r] run r
  show ?thesis by (auto simp: sample_runs)
qed

subsection \<open>Types\<close>

text \<open>The patterns and ranges pydantic checks in the classes the agents build.\<close>

definition message_valid :: "agent_message \<Rightarrow> bool" where
  "message_valid m \<longleftrightarrow> am_round m = 1 \<and>
     am_response m \<in> {''report'', ''confirm'', ''challenge'', ''request_evidence'', ''not_applicable'', ''synthesis''}"

definition plan_valid :: "remediation \<Rightarrow> bool" where
  "plan_valid r \<longleftrightarrow>
     ad_update_scope (r_ai_decision r) \<in> {''all'', ''security'', ''none''} \<and>
     ad_status (r_ai_decision r) \<in> {''plan_ready'', ''insufficient_evidence''} \<and>
     rb_status (r_reboot_assessment r) \<in>
       {''required'', ''likely'', ''required_after_patch'', ''not_expected'', ''unknown''} \<and>
     0 \<le> rb_estimated_downtime_minutes (r_reboot_assessment r) \<and>
     rb_estimated_downtime_minutes (r_reboot_assessment r) \<le> 180 \<and>
     rollout_policy_valid (r_rollout_policy r)"

lemma allowed_response: "in_set_of v xs = Inr True \<Longrightarrow> json_string v \<in> set xs"
  by (auto simp: in_set_of_def json_string_def split: option.splits json.splits)

lemma validated_review:
  assumes "validate_review_response E d fs fallback = Inr r" "rv_response fallback \<in> set review_responses"
  shows "rv_response r \<in> set review_responses"
proof -
  from assms(1) obtain accepted where
    "(if rv_response fallback \<noteq> ''request_evidence'' then in_set_of (dict_get d ''response'') review_responses
      else Inr False) = Inr accepted"
    "rv_response r = (if accepted then json_string (dict_get d ''response'') else rv_response fallback)"
    by (auto simp: validate_review_response_def Let_def split: sum.splits if_splits)
  then show ?thesis
    using allowed_response assms(2) by (auto split: if_splits)
qed

lemma read_review_valid:
  "read_review G j = Inr r \<Longrightarrow> rv_response r \<in> set review_responses \<union> {''report'', ''synthesis''}"
  by (auto simp: read_review_def split: json.splits option.splits if_splits)

lemma deterministic_response: "rv_response (deterministic_review fs) \<in> set review_responses"
  by (simp add: deterministic_review_def Let_def review_responses_def)

lemma review_answer_valid:
  "returns (\<lambda>out. rv_response (fst (fst out)) \<in> set review_responses \<union> {''report'', ''synthesis''})
     (review_answer E G a fs prompt key)"
proof -
  let ?ok = "\<lambda>out. rv_response (fst (fst out)) \<in> set review_responses \<union> {''report'', ''synthesis''}"
  let ?fb = "deterministic_review fs"
  let ?ans = "\<lambda>r c reason. returnM ((r, review_details r), c, False, reason)"
  have cached: "returns ?ok (bindM (liftE (ag_loads G stored)) (\<lambda>j.
        bindM (liftE (read_review G j)) (\<lambda>r.
        bindM (liftE (as_object j)) (\<lambda>d. returnM ((r, d), no_completion, True, None)))))" for stored
    using read_review_valid by (fastforce intro!: returns_lift returns_intros(1))
  have fallback: "returns ?ok (?ans ?fb c reason)" for c reason
    using deterministic_response by (auto intro!: returns_intros(1))
  have completed: "returns ?ok
      (case completed of Inl e \<Rightarrow> ?ans ?fb no_completion (Some (safe_provider_error E e))
          | Inr c \<Rightarrow>
          case validate_review_response E (cm_data c) fs ?fb of
            Inl e \<Rightarrow> ?ans ?fb c (Some (safe_provider_error E e))
          | Inr r \<Rightarrow>
              bindM (attempt (externalM (ag_put G key (plain_text (JObj (review_details r))))))
                (\<lambda>stored.
              case stored of
                Inl e \<Rightarrow> ?ans r c (Some (safe_provider_error E e))
              | Inr _ \<Rightarrow> ?ans r c None))" for completed
    using deterministic_response validated_review [OF _ deterministic_response]
    by (auto intro!: returns_intros split: sum.split)
  show ?thesis
    unfolding review_answer_def Let_def
    by (rule returns_intros(2), cases "rm_provider (sp_routed a)"; simp only: option.case split: if_split;
        intro conjI impI cached returns_intros(2) completed fallback)
qed

lemma peer_review_valid:
  "peer_review E G a i h own other w = (Inr (m, run), w') \<Longrightarrow> message_valid m"
  unfolding peer_review_def Let_def
  by (auto simp: bindM_eq_Inr run_simps message_valid_def review_responses_def split_beta
      split: if_splits dest!: new_message_Inr returnsD [OF review_answer_valid])

lemma assess_reboot_valid:
  "rb_status (assess_reboot sn scope) \<in> {''required'', ''required_after_patch'', ''unknown'', ''not_expected''} \<and>
   0 \<le> rb_estimated_downtime_minutes (assess_reboot sn scope) \<and>
   rb_estimated_downtime_minutes (assess_reboot sn scope) \<le> 180"
  by (simp add: assess_reboot_def Let_def)

lemma rollout_valid: "patch_policy_valid (h_patch_policy h) \<Longrightarrow> rollout_policy_valid (rollout_for h risk)"
  by (auto simp: rollout_for_def rollout_policy_valid_def patch_policy_valid_def)

definition result_valid :: "workflow_result \<Rightarrow> bool" where
  "result_valid res \<longleftrightarrow>
     (\<forall>m \<in> set (wr_messages res). message_valid m) \<and>
     (\<forall>f \<in> set (wr_findings res). 0 \<le> f_confidence f \<and> f_confidence f \<le> 1) \<and>
     pred_option plan_valid (wr_remediation res)"

lemma built_plan_valid:
  assumes "build_remediation E rm i h sn reports a w = (Inr (Some r), w')" and "patch_policy_valid (h_patch_policy h)"
    and "oc_update_scope a \<in> set update_scopes" and "oc_status a \<in> set plan_statuses"
  shows "plan_valid r"
proof -
  note b = build_remediation_Inr [OF assms(1)]
  show ?thesis
    unfolding plan_valid_def b(4,5) using b(6) assess_reboot_valid [of sn] rollout_valid [OF assms(2)] assms(3,4)
    by (auto simp: update_scopes_def plan_statuses_def)
qed

text \<open>C27: What the agents build has its type. Whatever the providers answer and the cache holds,
  the messages, findings and plan of a workflow satisfy the patterns and ranges their classes
  declare, given that the host's patch policy does: the response of a message, the confidence of
  a finding, the scope and status of a decision, the assessment of a reboot and the rollout.\<close>

theorem agents_build_valid_objects:
  assumes "workflow_names W" and "patch_policy_valid (h_patch_policy h)"
    and "run_agents E G W i h sn w = (Inr res, w')"
  shows "result_valid res"
proof -
  obtain rep1 rep2 run1 run2 msg1 msg2 m1 m2 msg3 w1 w2 w3 w4 o1 o2 run3 where
    a1: "analyze E G (wf_state W) i h sn w = (Inr (rep1, run1, msg1), w1)"
    and a2: "analyze E G (wf_log W) i h sn w1 = (Inr (rep2, run2, msg2), w2)"
    and p1: "peer_review E G (wf_state W) i h rep1 rep2 w2 = (Inr (m1, o1), w3)"
    and p2: "peer_review E G (wf_log W) i h rep2 rep1 w3 = (Inr (m2, o2), w4)"
    and found: "wr_findings res = fst (verify_findings sn (rp_findings rep1 @ rp_findings rep2) [m1, m2])"
    and syn: "synthesize E G (wf_contract W) (wf_routed W) i h sn (wr_reports res) [m1, m2]
      (wr_rejected_claims res) w4 = (Inr (wr_remediation res, run3, msg3), w')"
    and msgs: "wr_messages res = [msg1, msg2, m1, m2, msg3]"
    using assms(3) by (rule run_agents_Inr)
  from analyze_Inr [OF a1] analyze_Inr [OF a2] assms(1) obtain v1 v2 where
    "policy_findings E LinuxStateAnalyst h sn w = (Inr (rp_findings rep1), v1)"
    "policy_findings E LogAnalyst h sn w1 = (Inr (rp_findings rep2), v2)"
    by (auto simp: workflow_names_def)
  then have "\<forall>f \<in> set (rp_findings rep1 @ rp_findings rep2). 0 \<le> f_confidence f \<and> f_confidence f \<le> 1"
    using state_policy.finding log_policy.finding by (fastforce simp: policy_finding_def)
  then have "\<forall>f \<in> set (wr_findings res). 0 \<le> f_confidence f \<and> f_confidence f \<le> 1"
    unfolding found verify_findings_result by auto
  moreover obtain answer v where sound: "sound_answer (synthesis_fallback h sn
      (concat (map rp_findings (wr_reports res))) [m1, m2] (wr_rejected_claims res)) answer"
    and build: "build_remediation E (wf_routed W) i h sn (wr_reports res) (impose_policy h answer) v =
      (Inr (wr_remediation res), w')" and m3: "message_valid msg3"
    using synthesize_Inr [OF syn] by (auto simp: message_valid_def)
  have "plan_valid r" if "wr_remediation res = Some r" for r
    using built_plan_valid [OF build [unfolded that] assms(2)] impose_policy_sound(1) [OF sound]
    by (auto simp: sound_answer_def)
  then have "pred_option plan_valid (wr_remediation res)"
    by (cases "wr_remediation res") simp_all
  moreover have "message_valid msg1" "message_valid msg2"
    using analyze_Inr [OF a1] analyze_Inr [OF a2] by (auto simp: message_valid_def)
  ultimately show ?thesis
    using peer_review_valid [OF p1] peer_review_valid [OF p2] m3 msgs by (auto simp: result_valid_def)
qed

theorem agents_build_valid_objects_witness:
  "\<exists>res w'. sample_workflow_run = (Inr res, w') \<and> result_valid res"
proof -
  obtain res w' where run: "sample_workflow_run = (Inr res, w')"
    by (rule sample_workflow_run)
  from agents_build_valid_objects [OF offline_sample(1,3) this [unfolded sample_workflow_run_def]] run
  show ?thesis by blast
qed

end
