(* ===== verification/Api.thy ===== *)
theory Api
  imports Config ServicePlans ServiceCampaigns ServiceUpkeep ServiceScans ServiceHosts
begin

text \<open>
  The HTTP interface (\<open>main.py\<close>) and the dispatchers (\<open>queue.py\<close>): one definition per route,
  with its authorization, its statuses and what it catches. A request carries the session cookie,
  the CSRF header and the client's address; bodies and parameters are already parsed to their
  classes. An answer is a body under a status or an \<open>HTTPException\<close>; an exception that a route
  does not catch stays an exception, which the server answers with status 500.
\<close>

subsection \<open>Requests, answers, the application\<close>

record request =
  rq_session :: "string option"
  rq_csrf :: "string option"
  rq_client :: "string option"

record session_cookie =
  ck_value :: string
  ck_secure :: bool
  ck_max_age :: int

datatype body =
    NoBody
  | LoggedIn login_response session_cookie
  | LoggedOut
  | OneUser user
  | OneCredential ssh_credential
  | Credentials "ssh_credential list"
  | OneHost host
  | Hosts "host list"
  | Connection connection_test_result
  | OneScan scan_job
  | Scans "scan_job list"
  | Findings "finding list"
  | OnePlan remediation
  | Plans "remediation list"
  | Snapshots "rollback_snapshot list"
  | OneJob durable_job
  | Jobs "durable_job list"
  | OneSchedule host_schedule
  | Schedules "host_schedule list"
  | AgentRuns "agent_run list"
  | AgentMessages "agent_message list"
  | OneLog structured_log_event
  | LogPage "structured_log_event list" nat nat nat
  | OneAlert alert
  | Alerts "alert list"
  | Audits "audit_event list"
  | OneCampaign patch_campaign
  | Campaigns "patch_campaign list"
  | CampaignAction patch_campaign "durable_job list"

datatype reply = Answer nat body | HttpError nat string

record app =
  ap_env :: env
  ap_auth :: auth_env
  ap_cipher :: cipher
  ap_policy :: policy
  ap_settings :: settings
  ap_config :: config_env
  ap_delay :: "string \<Rightarrow> string \<Rightarrow> unit comp"   \<comment> \<open>\<open><task>.delay(job_id)\<close> of Celery\<close>
  ap_loads :: "string \<Rightarrow> exn + json"

subsection \<open>Dispatchers\<close>

definition inline_dispatch :: "env \<Rightarrow> durable_job \<Rightarrow> unit comp" where
  "inline_dispatch E job =
     (if j_status job \<noteq> ''queued'' then returnM ()
      else if j_job_type job = ''scan''
      then bindM (process_scan E (j_id job) None) (\<lambda>_. returnM ())
      else if j_job_type job = ''remediation''
      then bindM (process_remediation E (j_id job) None) (\<lambda>_. returnM ())
      else if j_job_type job = ''snapshot_delete''
      then bindM (process_snapshot_delete E (j_id job) None) (\<lambda>_. returnM ())
      else returnM ())"

definition task_of_type :: "string \<Rightarrow> string option" where
  "task_of_type job_type =
     (if job_type = ''scan'' then Some ''sysadmin.run_scan''
      else if job_type = ''remediation'' then Some ''sysadmin.run_remediation''
      else if job_type = ''snapshot_delete'' then Some ''sysadmin.run_snapshot_delete''
      else None)"

definition celery_dispatch :: "(string \<Rightarrow> string \<Rightarrow> unit comp) \<Rightarrow> durable_job \<Rightarrow> unit comp" where
  "celery_dispatch delay job =
     (if j_status job \<noteq> ''queued'' then returnM ()
      else case task_of_type (j_job_type job) of
        None \<Rightarrow> returnM ()
      | Some task \<Rightarrow> externalM (delay task (j_id job)))"

definition dispatches_inline :: "settings \<Rightarrow> bool" where
  "dispatches_inline S \<longleftrightarrow> st_app_environment S \<noteq> ''alpha'' \<and>
     (st_celery_task_always_eager S \<or> \<not> truthy (st_redis_url S))"

definition dispatch :: "app \<Rightarrow> durable_job \<Rightarrow> unit comp" where
  "dispatch A job =
     (if dispatches_inline (ap_settings A) then inline_dispatch (ap_env A) job
      else celery_dispatch (ap_delay A) job)"

subsection \<open>Authorization\<close>

definition authorize :: "app \<Rightarrow> request \<Rightarrow> protected_action \<Rightarrow> bool \<Rightarrow> (reply + user) comp" where
  "authorize A req action require_csrf =
     bindM (authenticate (ap_env A) (rq_session req)) (\<lambda>u.
     case u of
       None \<Rightarrow> returnM (Inl (HttpError 401 ''Authentication required''))
     | Some u \<Rightarrow>
         if \<not> authorized (ap_policy A) u action
         then returnM (Inl (HttpError 403 ''Not authorized for this action''))
         else if require_csrf then
           bindM (verify_csrf (ap_env A) (rq_session req) (rq_csrf req)) (\<lambda>ok.
           returnM (if ok then Inr u else Inl (HttpError 403 ''CSRF token is invalid'')))
         else returnM (Inr u))"

definition protected ::
  "app \<Rightarrow> request \<Rightarrow> protected_action \<Rightarrow> bool \<Rightarrow> (user \<Rightarrow> reply comp) \<Rightarrow> reply comp" where
  "protected A req action require_csrf handler =
     bindM (authorize A req action require_csrf) (\<lambda>r.
     case r of Inl refusal \<Rightarrow> returnM refusal | Inr u \<Rightarrow> handler u)"

text \<open>\<open>except ValueError as error: raise HTTPException(code, str(error))\<close>.\<close>

fun value_error :: "exn \<Rightarrow> bool" where
  "value_error (ValueError m) = True"
| "value_error (GateDenied d) = True"
| "value_error _ = False"

definition except_as ::
  "(exn \<Rightarrow> bool) \<Rightarrow> (exn \<Rightarrow> string) \<Rightarrow> nat \<Rightarrow> 'a comp \<Rightarrow> ('a \<Rightarrow> reply comp) \<Rightarrow> reply comp" where
  "except_as catches str_of status m answer w =
     (case m w of
        (Inr x, w') \<Rightarrow> answer x w'
      | (Inl e, w') \<Rightarrow>
          if catches e then (Inr (HttpError status (str_of e)), w') else (Inl e, w'))"

abbreviation caught :: "nat \<Rightarrow> 'a comp \<Rightarrow> ('a \<Rightarrow> reply comp) \<Rightarrow> reply comp" where
  "caught \<equiv> except_as value_error exn_message"

definition answer :: "nat \<Rightarrow> ('a \<Rightarrow> body) \<Rightarrow> 'a \<Rightarrow> reply comp" where
  "answer status f x = returnM (Answer status (f x))"

text \<open>What a view returns, read from the store.\<close>

definition view :: "(store \<Rightarrow> body) \<Rightarrow> reply comp" where
  "view f = bindM (readM f) (\<lambda>b. returnM (Answer 200 b))"

text \<open>A lookup whose absence is a 404, and one the response model refuses.\<close>

definition found :: "string \<Rightarrow> ('a \<Rightarrow> body) \<Rightarrow> (store \<Rightarrow> 'a option) \<Rightarrow> reply comp" where
  "found missing f g =
     bindM (readM g) (\<lambda>x.
     returnM (case x of None \<Rightarrow> HttpError 404 missing | Some x \<Rightarrow> Answer 200 (f x)))"

definition current_job :: "string \<Rightarrow> reply comp" where
  "current_job job_id =
     bindM (readM (\<lambda>s. mem_get (t_jobs s) job_id)) (\<lambda>j.
     case j of None \<Rightarrow> raiseM (OtherError ''ResponseValidationError'')
     | Some j \<Rightarrow> returnM (Answer 202 (OneJob j)))"

subsection \<open>Sessions\<close>

definition route_login :: "app \<Rightarrow> request \<Rightarrow> string \<Rightarrow> string \<Rightarrow> reply comp" where
  "route_login A req username password =
     (let client = (case rq_client req of Some c \<Rightarrow> c | None \<Rightarrow> ''unknown'') in
      caught 401 (login (ap_env A) (ap_auth A) username password (client @ '':'' @ username))
        (\<lambda>(response, token).
      bindM (audit (ap_env A) (u_username (lr_user response)) ''auth.login'' ''session'' None []) (\<lambda>_.
      returnM (Answer 200 (LoggedIn response
        \<lparr>ck_value = token, ck_secure = effective_cookie_secure (ap_config A) (ap_settings A),
         ck_max_age = st_session_ttl_hours (ap_settings A) * 3600\<rparr>)))))"

definition route_logout :: "app \<Rightarrow> request \<Rightarrow> reply comp" where
  "route_logout A req = protected A req LOGOUT True (\<lambda>u.
     bindM (logout (ap_env A) (rq_session req)) (\<lambda>_.
     bindM (audit (ap_env A) (u_username u) ''auth.logout'' ''session'' None []) (\<lambda>_.
     returnM (Answer 204 LoggedOut))))"

definition route_me :: "app \<Rightarrow> request \<Rightarrow> reply comp" where
  "route_me A req = protected A req VIEW_SESSION False (answer 200 OneUser)"

subsection \<open>Credentials\<close>

text \<open>\<open>text.encode("utf-8")\<close>.\<close>

definition utf8 :: "string \<Rightarrow> bytes" where
  "utf8 s = concat (map (\<lambda>c. if code c < 128 then [c]
     else [char_of (192 + code c div 64), char_of (128 + code c mod 64)]) s)"

record credential_create_request =
  cc_name :: string
  cc_credential_type :: credential_type
  cc_secret :: "string option"
  cc_metadata :: details

text \<open>The body of \<open>POST /credentials\<close>: a form with its text fields and the uploaded key, or what
  \<open>model_validate\<close> makes of a JSON body.\<close>

datatype credential_form =
    Multipart "(string, string) dict" "bytes option"
  | JsonBody "exn + credential_create_request"

definition form_text :: "(string, string) dict \<Rightarrow> string list \<Rightarrow> string \<Rightarrow> string" where
  "form_text form keys dflt =
     (case filter (\<lambda>k. truthy (dict_get form k)) keys of
        [] \<Rightarrow> dflt | k # _ \<Rightarrow> or_empty (dict_get form k))"

definition credential_type_of :: "string \<Rightarrow> exn + credential_type" where
  "credential_type_of s =
     (case List.find (\<lambda>t. credential_type_text t = s)
             [SshPrivateKey, ProxmoxToken, AwsAccessKey, AwsRole, VmwareSecret, LibvirtSsh] of
        Some t \<Rightarrow> Inr t
      | None \<Rightarrow> Inl (ValueError ([CHR 0x27] @ s @ [CHR 0x27] @ '' is not a valid CredentialType'')))"

fun parse_credential_create_request :: "app \<Rightarrow> credential_form \<Rightarrow> ssh_credential comp" where
  "parse_credential_create_request A (Multipart form key) =
     (let name = strip (form_text form [''name''] []) in
      if name = [] then raiseM (ValueError ''Credential name is required'')
      else
        bindM (liftE (credential_type_of
                 (form_text form [''credentialType'', ''credential_type''] ''ssh_private_key''))) (\<lambda>ct.
        bindM (liftE (ap_loads A (form_text form [''metadata'', ''metadataJson''] ''{}''))) (\<lambda>j.
        case j of
          JObj metadata \<Rightarrow>
            if ct = SshPrivateKey then
              (case key of
                 None \<Rightarrow> raiseM (ValueError ''SSH private key file is required'')
               | Some content \<Rightarrow> save_private_key (ap_env A) (ap_cipher A) name content)
            else save_secret (ap_env A) (ap_cipher A) name ct (utf8 (form_text form [''secret''] []))
                   metadata
        | _ \<Rightarrow> raiseM (ValueError ''Credential metadata must be an object''))))"
| "parse_credential_create_request A (JsonBody payload) =
     bindM (liftE payload) (\<lambda>p.
     save_secret (ap_env A) (ap_cipher A) (cc_name p) (cc_credential_type p)
       (utf8 (or_empty (cc_secret p))) (cc_metadata p))"

definition route_list_credentials :: "app \<Rightarrow> request \<Rightarrow> reply comp" where
  "route_list_credentials A req = protected A req VIEW_CREDENTIALS False (\<lambda>_.
     view (\<lambda>s. Credentials (list_credentials s)))"

definition route_create_credential :: "app \<Rightarrow> request \<Rightarrow> credential_form \<Rightarrow> reply comp" where
  "route_create_credential A req form = protected A req MANAGE_CREDENTIALS True (\<lambda>u.
     caught 400 (parse_credential_create_request A form) (\<lambda>c.
     bindM (audit (ap_env A) (u_username u) ''credential.created'' ''credential'' (Some (cr_id c))
              [(''fingerprint'', JStr (cr_fingerprint c)),
               (''credential_type'', JStr (credential_type_text (cr_credential_type c)))]) (\<lambda>_.
     returnM (Answer 201 (OneCredential c)))))"

definition route_delete_credential :: "app \<Rightarrow> request \<Rightarrow> string \<Rightarrow> reply comp" where
  "route_delete_credential A req credential_id = protected A req MANAGE_CREDENTIALS True (\<lambda>u.
     caught 409 (remove_credential credential_id) (\<lambda>_.
     bindM (audit (ap_env A) (u_username u) ''credential.deleted'' ''credential'' (Some credential_id) [])
       (\<lambda>_. returnM (Answer 204 NoBody))))"

subsection \<open>Hosts and schedules\<close>

definition newest_first :: "('a \<Rightarrow> datetime) \<Rightarrow> 'a list \<Rightarrow> 'a list" where
  "newest_first created = sorted_desc (\<lambda>x. normalized_datetime (created x))"

definition route_list_hosts :: "app \<Rightarrow> request \<Rightarrow> reply comp" where
  "route_list_hosts A req = protected A req VIEW_HOSTS False (\<lambda>_.
     view (\<lambda>s. Hosts (sort_key h_name (list_hosts s))))"

definition route_create_host :: "app \<Rightarrow> request \<Rightarrow> host_input \<Rightarrow> reply comp" where
  "route_create_host A req input = protected A req MANAGE_HOSTS True (\<lambda>u.
     bindM (create_host (ap_env A) input (u_username u)) (answer 201 OneHost))"

definition route_update_host :: "app \<Rightarrow> request \<Rightarrow> string \<Rightarrow> host_input \<Rightarrow> reply comp" where
  "route_update_host A req host_id input = protected A req MANAGE_HOSTS True (\<lambda>u.
     caught 404 (update_host (ap_env A) host_id input (u_username u)) (answer 200 OneHost))"

definition route_delete_host :: "app \<Rightarrow> request \<Rightarrow> string \<Rightarrow> reply comp" where
  "route_delete_host A req host_id = protected A req MANAGE_HOSTS True (\<lambda>u.
     caught 404 (remove_host (ap_env A) host_id (u_username u)) (\<lambda>_. returnM (Answer 204 NoBody)))"

definition route_test_connection :: "app \<Rightarrow> request \<Rightarrow> string \<Rightarrow> string option \<Rightarrow> reply comp" where
  "route_test_connection A req host_id confirm_fingerprint =
     protected A req TEST_HOST_CONNECTIONS True (\<lambda>u.
     caught 400 (test_connection (ap_env A) host_id confirm_fingerprint (u_username u))
       (answer 200 Connection))"

definition route_get_schedule :: "app \<Rightarrow> request \<Rightarrow> string \<Rightarrow> reply comp" where
  "route_get_schedule A req host_id = protected A req VIEW_SCHEDULES False (\<lambda>_.
     caught 404 (get_schedule host_id) (answer 200 OneSchedule))"

fun value_or_key_error :: "exn \<Rightarrow> bool" where
  "value_or_key_error (ZoneInfoNotFoundError m) = True"
| "value_or_key_error e = value_error e"

text \<open>\<open>str(error)\<close> of a \<open>KeyError\<close> is the representation of its argument.\<close>

definition key_error_text :: "env \<Rightarrow> exn \<Rightarrow> string" where
  "key_error_text E e =
     (case e of ZoneInfoNotFoundError m \<Rightarrow> e_repr E (JStr m) | _ \<Rightarrow> exn_message e)"

definition route_update_schedule ::
  "app \<Rightarrow> request \<Rightarrow> string \<Rightarrow> host_schedule_input \<Rightarrow> reply comp" where
  "route_update_schedule A req host_id input = protected A req MANAGE_SCHEDULES True (\<lambda>u.
     except_as value_or_key_error (key_error_text (ap_env A)) 400
       (save_schedule (ap_env A) host_id input (u_username u))
       (answer 200 OneSchedule))"

definition route_list_schedules :: "app \<Rightarrow> request \<Rightarrow> reply comp" where
  "route_list_schedules A req = protected A req VIEW_SCHEDULES False (\<lambda>_.
     view (\<lambda>s. Schedules (list_schedules s)))"

subsection \<open>Scans and findings\<close>

definition route_queue_scan :: "app \<Rightarrow> request \<Rightarrow> scan_request \<Rightarrow> reply comp" where
  "route_queue_scan A req payload = protected A req RUN_SCANS True (\<lambda>u.
     caught 400 (create_scan_job (ap_env A) payload (u_username u) None) (\<lambda>job.
     bindM (dispatch A job) (\<lambda>_. current_job (j_id job))))"

definition route_list_scans :: "app \<Rightarrow> request \<Rightarrow> string option \<Rightarrow> reply comp" where
  "route_list_scans A req host_id = protected A req VIEW_SCANS False (\<lambda>_.
     view (\<lambda>s. Scans (newest_first s_created_at (list_scans s host_id))))"

definition route_get_scan :: "app \<Rightarrow> request \<Rightarrow> string \<Rightarrow> reply comp" where
  "route_get_scan A req scan_id = protected A req VIEW_SCANS False (\<lambda>_.
     found ''Scan not found'' OneScan (\<lambda>s. get_scan s scan_id))"

definition route_list_findings :: "app \<Rightarrow> request \<Rightarrow> string option \<Rightarrow> reply comp" where
  "route_list_findings A req host_id = protected A req VIEW_FINDINGS False (\<lambda>_.
     view (\<lambda>s. Findings (current_findings s host_id)))"

subsection \<open>Plans and jobs\<close>

definition route_list_remediations :: "app \<Rightarrow> request \<Rightarrow> reply comp" where
  "route_list_remediations A req = protected A req VIEW_REMEDIATIONS False (\<lambda>_.
     view (\<lambda>s. Plans (newest_first r_created_at (list_remediations s))))"

definition route_list_snapshots ::
  "app \<Rightarrow> request \<Rightarrow> string option \<Rightarrow> string option \<Rightarrow> reply comp" where
  "route_list_snapshots A req host_id remediation_id = protected A req VIEW_REMEDIATIONS False (\<lambda>_.
     view (\<lambda>s. Snapshots (newest_first rs_created_at
       (list_rollback_snapshots s host_id remediation_id))))"

definition route_approve_remediation ::
  "app \<Rightarrow> request \<Rightarrow> string \<Rightarrow> approval_request \<Rightarrow> reply comp" where
  "route_approve_remediation A req remediation_id payload = protected A req MANAGE_REMEDIATIONS True (\<lambda>u.
     caught 400 (approve_remediation_plan (ap_env A) remediation_id payload (u_username u))
       (answer 200 OnePlan))"

definition route_approve_reboot ::
  "app \<Rightarrow> request \<Rightarrow> string \<Rightarrow> approval_request \<Rightarrow> reply comp" where
  "route_approve_reboot A req remediation_id payload = protected A req MANAGE_REMEDIATIONS True (\<lambda>u.
     caught 400 (approve_remediation_reboot (ap_env A) remediation_id payload (u_username u))
       (answer 200 OnePlan))"

definition route_execute_remediation :: "app \<Rightarrow> request \<Rightarrow> string \<Rightarrow> reply comp" where
  "route_execute_remediation A req remediation_id = protected A req MANAGE_REMEDIATIONS True (\<lambda>u.
     caught 400 (prepare_remediation_job (ap_env A) remediation_id (u_username u) None True) (\<lambda>job.
     bindM (dispatch A job) (\<lambda>_. current_job (j_id job))))"

definition route_reject_remediation :: "app \<Rightarrow> request \<Rightarrow> string \<Rightarrow> reply comp" where
  "route_reject_remediation A req remediation_id = protected A req MANAGE_REMEDIATIONS True (\<lambda>u.
     caught 400 (reject_remediation (ap_env A) remediation_id (u_username u)) (answer 200 OnePlan))"

definition route_list_jobs :: "app \<Rightarrow> request \<Rightarrow> reply comp" where
  "route_list_jobs A req = protected A req VIEW_JOBS False (\<lambda>_.
     view (\<lambda>s. Jobs (newest_first j_created_at (dict_values (t_jobs s)))))"

definition route_get_job :: "app \<Rightarrow> request \<Rightarrow> string \<Rightarrow> reply comp" where
  "route_get_job A req job_id = protected A req VIEW_JOBS False (\<lambda>_.
     found ''Job not found'' OneJob (\<lambda>s. mem_get (t_jobs s) job_id))"

subsection \<open>Activity\<close>

definition route_list_agent_runs :: "app \<Rightarrow> request \<Rightarrow> string option \<Rightarrow> reply comp" where
  "route_list_agent_runs A req scan_id = protected A req VIEW_AGENT_ACTIVITY False (\<lambda>_.
     view (\<lambda>s. AgentRuns (list_agent_runs s scan_id)))"

definition route_list_agent_messages :: "app \<Rightarrow> request \<Rightarrow> string \<Rightarrow> reply comp" where
  "route_list_agent_messages A req scan_id = protected A req VIEW_AGENT_ACTIVITY False (\<lambda>_.
     view (\<lambda>s. AgentMessages (list_agent_messages s scan_id)))"

text \<open>The bounds of the page are checked before the route runs.\<close>

definition route_list_logs ::
  "app \<Rightarrow> request \<Rightarrow> (string \<times> string option) list \<Rightarrow> nat \<Rightarrow> nat \<Rightarrow> reply comp" where
  "route_list_logs A req filters page page_size = protected A req VIEW_LOGS False (\<lambda>_.
     if page < 1 \<or> page_size < 1 \<or> 200 < page_size
     then returnM (HttpError 422 ''Unprocessable Entity'')
     else view (\<lambda>s. let (items, total) = list_log_events s filters page page_size
                    in LogPage items total page page_size))"

definition route_get_log :: "app \<Rightarrow> request \<Rightarrow> string \<Rightarrow> reply comp" where
  "route_get_log A req log_id = protected A req VIEW_LOGS False (\<lambda>_.
     found ''Log event not found'' OneLog (\<lambda>s. get_log_event s log_id))"

definition route_list_alerts :: "app \<Rightarrow> request \<Rightarrow> reply comp" where
  "route_list_alerts A req = protected A req VIEW_ALERTS False (\<lambda>_.
     view (\<lambda>s. Alerts (newest_first al_created_at (list_alerts s))))"

definition route_acknowledge_alert :: "app \<Rightarrow> request \<Rightarrow> string \<Rightarrow> reply comp" where
  "route_acknowledge_alert A req alert_id = protected A req ACKNOWLEDGE_ALERTS True (\<lambda>u.
     caught 404 (acknowledge_alert (ap_env A) alert_id (u_username u)) (answer 200 OneAlert))"

definition route_list_audits :: "app \<Rightarrow> request \<Rightarrow> reply comp" where
  "route_list_audits A req = protected A req VIEW_AUDIT False (\<lambda>_.
     view (\<lambda>s. Audits (newest_first au_created_at (list_audits s))))"

subsection \<open>Campaigns\<close>

definition route_list_campaigns :: "app \<Rightarrow> request \<Rightarrow> reply comp" where
  "route_list_campaigns A req = protected A req VIEW_CAMPAIGNS False (\<lambda>_.
     bindM (readM list_campaigns) (\<lambda>cs.
     bindM (mapM (sync_campaign (ap_env A)) cs) (answer 200 Campaigns)))"

definition route_get_campaign :: "app \<Rightarrow> request \<Rightarrow> string \<Rightarrow> reply comp" where
  "route_get_campaign A req campaign_id = protected A req VIEW_CAMPAIGNS False (\<lambda>_.
     caught 404 (get_campaign_synced (ap_env A) campaign_id) (answer 200 OneCampaign))"

definition route_create_campaign :: "app \<Rightarrow> request \<Rightarrow> campaign_request \<Rightarrow> reply comp" where
  "route_create_campaign A req payload = protected A req MANAGE_CAMPAIGNS True (\<lambda>u.
     caught 400 (create_campaign (ap_env A) payload (u_username u)) (answer 201 OneCampaign))"

text \<open>The jobs of an action, dispatched one after the other, and the campaign after that.\<close>

definition dispatched_action :: "app \<Rightarrow> patch_campaign \<times> durable_job list \<Rightarrow> reply comp" where
  "dispatched_action A = (\<lambda>(campaign, jobs).
     bindM (mapM (dispatch A) jobs) (\<lambda>_.
     bindM (get_campaign_synced (ap_env A) (c_id campaign)) (\<lambda>c.
     bindM (readM (\<lambda>s. List.map_filter (\<lambda>j. mem_get (t_jobs s) (j_id j)) jobs)) (\<lambda>current.
     returnM (Answer 202 (CampaignAction c current))))))"

definition route_campaign_proposals :: "app \<Rightarrow> request \<Rightarrow> string \<Rightarrow> reply comp" where
  "route_campaign_proposals A req campaign_id = protected A req MANAGE_CAMPAIGNS True (\<lambda>u.
     caught 400 (queue_campaign_proposals (ap_env A) campaign_id (u_username u))
       (dispatched_action A))"

definition route_approve_campaign_host ::
  "app \<Rightarrow> request \<Rightarrow> string \<Rightarrow> string \<Rightarrow> approval_request \<Rightarrow> reply comp" where
  "route_approve_campaign_host A req campaign_id host_id payload =
     protected A req MANAGE_CAMPAIGNS True (\<lambda>u.
     caught 400 (approve_campaign_host (ap_env A) campaign_id host_id payload (u_username u))
       (answer 200 OneCampaign))"

definition route_approve_campaign_host_reboot ::
  "app \<Rightarrow> request \<Rightarrow> string \<Rightarrow> string \<Rightarrow> approval_request \<Rightarrow> reply comp" where
  "route_approve_campaign_host_reboot A req campaign_id host_id payload =
     protected A req MANAGE_CAMPAIGNS True (\<lambda>u.
     caught 400 (approve_campaign_host_reboot (ap_env A) campaign_id host_id payload (u_username u))
       (answer 200 OneCampaign))"

definition route_reject_campaign_host :: "app \<Rightarrow> request \<Rightarrow> string \<Rightarrow> string \<Rightarrow> reply comp" where
  "route_reject_campaign_host A req campaign_id host_id = protected A req MANAGE_CAMPAIGNS True (\<lambda>u.
     caught 400 (reject_campaign_host (ap_env A) campaign_id host_id (u_username u))
       (answer 200 OneCampaign))"

definition route_execute_campaign :: "app \<Rightarrow> request \<Rightarrow> string \<Rightarrow> reply comp" where
  "route_execute_campaign A req campaign_id = protected A req MANAGE_CAMPAIGNS True (\<lambda>u.
     caught 400 (prepare_campaign_execution (ap_env A) campaign_id (u_username u))
       (dispatched_action A))"

definition route_cancel_campaign :: "app \<Rightarrow> request \<Rightarrow> string \<Rightarrow> reply comp" where
  "route_cancel_campaign A req campaign_id = protected A req MANAGE_CAMPAIGNS True (\<lambda>u.
     caught 400 (cancel_campaign (ap_env A) campaign_id (u_username u)) (answer 200 OneCampaign))"

subsection \<open>The routes\<close>

datatype call =
    Login string string
  | Logout
  | Me
  | ListCredentials
  | CreateCredential credential_form
  | DeleteCredential string
  | ListHosts
  | CreateHost host_input
  | UpdateHost string host_input
  | DeleteHost string
  | TestConnection string "string option"
  | GetSchedule string
  | UpdateSchedule string host_schedule_input
  | ListSchedules
  | QueueScan scan_request
  | ListScans "string option"
  | GetScan string
  | ListFindings "string option"
  | ListRemediations
  | ListSnapshots "string option" "string option"
  | ApproveRemediation string approval_request
  | ApproveReboot string approval_request
  | ExecuteRemediation string
  | RejectRemediation string
  | ListJobs
  | GetJob string
  | ListAgentRuns "string option"
  | ListAgentMessages string
  | ListLogs "(string \<times> string option) list" nat nat
  | GetLog string
  | ListAlerts
  | AcknowledgeAlert string
  | ListAudits
  | ListCampaigns
  | GetCampaign string
  | CreateCampaign campaign_request
  | CampaignProposals string
  | ApproveCampaignHost string string approval_request
  | ApproveCampaignHostReboot string string approval_request
  | RejectCampaignHost string string
  | ExecuteCampaign string
  | CancelCampaign string

fun serve :: "app \<Rightarrow> request \<Rightarrow> call \<Rightarrow> reply comp" where
  "serve A req (Login u p) = route_login A req u p"
| "serve A req Logout = route_logout A req"
| "serve A req Me = route_me A req"
| "serve A req ListCredentials = route_list_credentials A req"
| "serve A req (CreateCredential form) = route_create_credential A req form"
| "serve A req (DeleteCredential i) = route_delete_credential A req i"
| "serve A req ListHosts = route_list_hosts A req"
| "serve A req (CreateHost input) = route_create_host A req input"
| "serve A req (UpdateHost i input) = route_update_host A req i input"
| "serve A req (DeleteHost i) = route_delete_host A req i"
| "serve A req (TestConnection i f) = route_test_connection A req i f"
| "serve A req (GetSchedule i) = route_get_schedule A req i"
| "serve A req (UpdateSchedule i input) = route_update_schedule A req i input"
| "serve A req ListSchedules = route_list_schedules A req"
| "serve A req (QueueScan p) = route_queue_scan A req p"
| "serve A req (ListScans i) = route_list_scans A req i"
| "serve A req (GetScan i) = route_get_scan A req i"
| "serve A req (ListFindings i) = route_list_findings A req i"
| "serve A req ListRemediations = route_list_remediations A req"
| "serve A req (ListSnapshots i j) = route_list_snapshots A req i j"
| "serve A req (ApproveRemediation i p) = route_approve_remediation A req i p"
| "serve A req (ApproveReboot i p) = route_approve_reboot A req i p"
| "serve A req (ExecuteRemediation i) = route_execute_remediation A req i"
| "serve A req (RejectRemediation i) = route_reject_remediation A req i"
| "serve A req ListJobs = route_list_jobs A req"
| "serve A req (GetJob i) = route_get_job A req i"
| "serve A req (ListAgentRuns i) = route_list_agent_runs A req i"
| "serve A req (ListAgentMessages i) = route_list_agent_messages A req i"
| "serve A req (ListLogs fs page sz) = route_list_logs A req fs page sz"
| "serve A req (GetLog i) = route_get_log A req i"
| "serve A req ListAlerts = route_list_alerts A req"
| "serve A req (AcknowledgeAlert i) = route_acknowledge_alert A req i"
| "serve A req ListAudits = route_list_audits A req"
| "serve A req ListCampaigns = route_list_campaigns A req"
| "serve A req (GetCampaign i) = route_get_campaign A req i"
| "serve A req (CreateCampaign p) = route_create_campaign A req p"
| "serve A req (CampaignProposals i) = route_campaign_proposals A req i"
| "serve A req (ApproveCampaignHost i h p) = route_approve_campaign_host A req i h p"
| "serve A req (ApproveCampaignHostReboot i h p) = route_approve_campaign_host_reboot A req i h p"
| "serve A req (RejectCampaignHost i h) = route_reject_campaign_host A req i h"
| "serve A req (ExecuteCampaign i) = route_execute_campaign A req i"
| "serve A req (CancelCampaign i) = route_cancel_campaign A req i"

end
