(* ===== verification/Tasks.thy ===== *)
theory Tasks
  imports Api
begin

text \<open>
  The worker's tasks (\<open>tasks.py\<close>) and the health routes that read their markers (\<open>main.py\<close>).
  Celery's \<open>delay\<close> and \<open>apply_async\<close> and the Redis client are parameters; a task returns the job
  it worked on, which Celery stores redacted.
\<close>

record task_env =
  tk_env :: env
  tk_settings :: settings
  tk_health_set :: "(string \<Rightarrow> string \<Rightarrow> int \<Rightarrow> unit comp) option"  \<comment> \<open>key, value, seconds to live\<close>
  tk_delay :: "string \<Rightarrow> string \<Rightarrow> unit comp"
  tk_apply_async :: "string \<Rightarrow> string \<Rightarrow> int \<Rightarrow> unit comp"         \<comment> \<open>task, job, countdown\<close>
  tk_hostname :: "string option"
  tk_task_id :: "string option"
  tk_uuid_hex :: "nat \<Rightarrow> string"

definition worker_health_key :: string where
  "worker_health_key = ''ai-sysadm:health:worker''"

definition beat_health_key :: string where
  "beat_health_key = ''ai-sysadm:health:beat''"

definition record_health :: "task_env \<Rightarrow> string \<Rightarrow> unit comp" where
  "record_health T key =
     (case tk_health_set T of
        None \<Rightarrow> returnM ()
      | Some set_marker \<Rightarrow>
          bindM (utc_now (tk_env T)) (\<lambda>now.
          tryM (externalM (set_marker key (isoformat now)
                  (st_operational_health_ttl_seconds (tk_settings T)))) (\<lambda>_. returnM ())))"

text \<open>The handlers of Celery's signals \<open>worker_ready\<close> and \<open>heartbeat_sent\<close>.\<close>

definition record_worker_ready :: "task_env \<Rightarrow> unit comp" where
  "record_worker_ready T = record_health T worker_health_key"

definition record_worker_heartbeat :: "task_env \<Rightarrow> unit comp" where
  "record_worker_heartbeat T = record_health T worker_health_key"

definition task_worker_id :: "task_env \<Rightarrow> string comp" where
  "task_worker_id T w =
     (let hostname = (if truthy (tk_hostname T) then or_empty (tk_hostname T) else ''worker'');
          task_id = (if truthy (tk_task_id T) then or_empty (tk_task_id T) else ''delivery'')
      in (Inr (hostname @ '':'' @ task_id @ '':'' @ tk_uuid_hex T (w_uuid w)),
          w\<lparr>w_uuid := w_uuid w + 1\<rparr>))"

definition retry_countdown :: "durable_job \<Rightarrow> int" where
  "retry_countdown job = min 60 (2 ^ nat (max 0 (j_attempts job - 1)))"

definition schedule_retry :: "task_env \<Rightarrow> string \<Rightarrow> durable_job \<Rightarrow> unit comp" where
  "schedule_retry T task job =
     (if j_status job \<noteq> ''queued'' \<or> j_current_phase job \<noteq> Some ''retry_scheduled'' then returnM ()
      else externalM (tk_apply_async T task (j_id job) (retry_countdown job)))"

subsection \<open>Tasks that work on a job\<close>

definition run_job_task ::
  "task_env \<Rightarrow> string \<Rightarrow> (string option \<Rightarrow> durable_job comp) \<Rightarrow> durable_job comp" where
  "run_job_task T task process =
     bindM (record_health T worker_health_key) (\<lambda>_.
     bindM (task_worker_id T) (\<lambda>worker.
     bindM (process (Some worker)) (\<lambda>job.
     bindM (schedule_retry T task job) (\<lambda>_. returnM job))))"

definition run_scan :: "task_env \<Rightarrow> string \<Rightarrow> durable_job comp" where
  "run_scan T job_id = run_job_task T ''sysadmin.run_scan'' (process_scan (tk_env T) job_id)"

definition run_remediation :: "task_env \<Rightarrow> string \<Rightarrow> durable_job comp" where
  "run_remediation T job_id =
     run_job_task T ''sysadmin.run_remediation'' (process_remediation (tk_env T) job_id)"

definition run_snapshot_delete :: "task_env \<Rightarrow> string \<Rightarrow> durable_job comp" where
  "run_snapshot_delete T job_id =
     run_job_task T ''sysadmin.run_snapshot_delete'' (process_snapshot_delete (tk_env T) job_id)"

subsection \<open>Periodic tasks\<close>

definition publish_all :: "task_env \<Rightarrow> (durable_job \<Rightarrow> string option) \<Rightarrow> durable_job list \<Rightarrow> nat comp" where
  "publish_all T task_for jobs =
     bindM (foldM (\<lambda>_ job. case task_for job of None \<Rightarrow> returnM ()
              | Some task \<Rightarrow> externalM (tk_delay T task (j_id job))) () jobs) (\<lambda>_.
     returnM (length jobs))"

definition dispatch_schedules :: "task_env \<Rightarrow> nat comp" where
  "dispatch_schedules T =
     bindM (create_due_scan_jobs (tk_env T) None) (publish_all T (\<lambda>_. Some ''sysadmin.run_scan''))"

definition release_maintenance_jobs :: "task_env \<Rightarrow> nat comp" where
  "release_maintenance_jobs T =
     bindM (release_scheduled_remediation_jobs (tk_env T) None)
       (publish_all T (\<lambda>_. Some ''sysadmin.run_remediation''))"

definition release_snapshot_delete_jobs :: "task_env \<Rightarrow> nat comp" where
  "release_snapshot_delete_jobs T =
     bindM (release_scheduled_snapshot_delete_jobs (tk_env T) None)
       (publish_all T (\<lambda>_. Some ''sysadmin.run_snapshot_delete''))"

definition recover_jobs_task :: "task_env \<Rightarrow> nat comp" where
  "recover_jobs_task T =
     bindM (recover_expired_jobs (tk_env T) None) (publish_all T (\<lambda>job. task_of_type (j_job_type job)))"

definition operational_health_heartbeat :: "task_env \<Rightarrow> unit comp" where
  "operational_health_heartbeat T =
     bindM (record_health T worker_health_key) (\<lambda>_. record_health T beat_health_key)"

definition purge_logs_task :: "task_env \<Rightarrow> nat comp" where
  "purge_logs_task T = purge_expired_logs (tk_env T)"

text \<open>The beat's schedule: the seconds between two runs of a task.\<close>

definition beat_schedule :: "(string \<times> real) list" where
  "beat_schedule =
     [(''sysadmin.dispatch_schedules'', 60), (''sysadmin.release_maintenance_jobs'', 60),
      (''sysadmin.release_snapshot_delete_jobs'', 3600), (''sysadmin.recover_expired_jobs'', 30),
      (''sysadmin.operational_health_heartbeat'', 30), (''sysadmin.purge_logs'', 86400)]"

subsection \<open>Health\<close>

text \<open>A probe that raises counts as failed; without a Redis client there is none.\<close>

definition probe_ok :: "exn + bool \<Rightarrow> bool" where
  "probe_ok p = (case p of Inl _ \<Rightarrow> False | Inr b \<Rightarrow> b)"

definition route_readiness :: "exn + bool \<Rightarrow> (exn + bool) option \<Rightarrow> nat \<times> bool \<times> bool" where
  "route_readiness database ping =
     (let database_ready = probe_ok database;
          redis_ready = (case ping of None \<Rightarrow> False | Some p \<Rightarrow> probe_ok p)
      in (if database_ready \<and> redis_ready then 200 else 503, database_ready, redis_ready))"

definition health_marker :: "(string \<Rightarrow> exn + string option) option \<Rightarrow> string \<Rightarrow> string option" where
  "health_marker client key =
     (case client of None \<Rightarrow> None
      | Some get \<Rightarrow> (case get key of Inl _ \<Rightarrow> None | Inr v \<Rightarrow> v))"

definition route_operational_health ::
  "(string \<Rightarrow> exn + string option) option \<Rightarrow> nat \<times> string option \<times> string option" where
  "route_operational_health client =
     (let worker = health_marker client worker_health_key; beat = health_marker client beat_health_key
      in (if truthy worker \<and> truthy beat then 200 else 503, worker, beat))"

subsection \<open>Backoff\<close>

lemma retry_countdown_bounds: "1 \<le> retry_countdown j \<and> retry_countdown j \<le> 60"
  by (simp add: retry_countdown_def)

lemma retry_countdown_grows:
  assumes "1 \<le> j_attempts j"
  shows "retry_countdown (j\<lparr>j_attempts := j_attempts j + 1\<rparr>) = min 60 (2 * retry_countdown j)"
proof -
  obtain n where "j_attempts j = 1 + int n"
    using assms by (metis zero_le_imp_eq_int add.commute diff_add_cancel le_diff_eq add_0)
  then show ?thesis
    by (simp add: retry_countdown_def nat_add_distrib)
qed

end
