(* ===== verification/ApiProperties.thy ===== *)
theory ApiProperties
  imports Tasks AccessProperties
begin

text \<open>
  What the routes guarantee: who may do what, that nothing happens for anybody else, that a
  request made on behalf of a user without the session's CSRF token changes nothing of value,
  and what happens to an error no route catches.
\<close>

subsection \<open>Who sent the request\<close>

definition session_of :: "env \<Rightarrow> request \<Rightarrow> world \<Rightarrow> nat \<Rightarrow> session_row option" where
  "session_of E req w later =
     (if \<not> truthy (rq_session req) then None
      else case get_session (w_store w) (token_hash E (or_empty (rq_session req))) of
        None \<Rightarrow> None
      | Some row \<Rightarrow>
          if normalized_datetime (e_clock E (w_tick w + later)) < normalized_datetime (se_expires_at row)
          then Some row else None)"

definition session_user :: "env \<Rightarrow> request \<Rightarrow> world \<Rightarrow> user option" where
  "session_user E req w =
     (case session_of E req w 0 of None \<Rightarrow> None
      | Some row \<Rightarrow> get_user (w_store w) (se_user_id row))"

definition csrf_proven :: "env \<Rightarrow> request \<Rightarrow> world \<Rightarrow> bool" where
  "csrf_proven E req w \<longleftrightarrow> truthy (rq_csrf req) \<and>
     (\<exists>row \<in> set_option (session_of E req w 1). se_csrf_hash row = token_hash E (or_empty (rq_csrf req)))"

text \<open>The action a call needs and whether it needs the CSRF token.\<close>

fun requirement :: "call \<Rightarrow> (protected_action \<times> bool) option" where
  "requirement (Login _ _) = None"
| "requirement Logout = Some (LOGOUT, True)"
| "requirement Me = Some (VIEW_SESSION, False)"
| "requirement ListCredentials = Some (VIEW_CREDENTIALS, False)"
| "requirement (CreateCredential _) = Some (MANAGE_CREDENTIALS, True)"
| "requirement (DeleteCredential _) = Some (MANAGE_CREDENTIALS, True)"
| "requirement ListHosts = Some (VIEW_HOSTS, False)"
| "requirement (CreateHost _) = Some (MANAGE_HOSTS, True)"
| "requirement (UpdateHost _ _) = Some (MANAGE_HOSTS, True)"
| "requirement (DeleteHost _) = Some (MANAGE_HOSTS, True)"
| "requirement (TestConnection _ _) = Some (TEST_HOST_CONNECTIONS, True)"
| "requirement (GetSchedule _) = Some (VIEW_SCHEDULES, False)"
| "requirement (UpdateSchedule _ _) = Some (MANAGE_SCHEDULES, True)"
| "requirement ListSchedules = Some (VIEW_SCHEDULES, False)"
| "requirement (QueueScan _) = Some (RUN_SCANS, True)"
| "requirement (ListScans _) = Some (VIEW_SCANS, False)"
| "requirement (GetScan _) = Some (VIEW_SCANS, False)"
| "requirement (ListFindings _) = Some (VIEW_FINDINGS, False)"
| "requirement ListRemediations = Some (VIEW_REMEDIATIONS, False)"
| "requirement (ListSnapshots _ _) = Some (VIEW_REMEDIATIONS, False)"
| "requirement (ApproveRemediation _ _) = Some (MANAGE_REMEDIATIONS, True)"
| "requirement (ApproveReboot _ _) = Some (MANAGE_REMEDIATIONS, True)"
| "requirement (ExecuteRemediation _) = Some (MANAGE_REMEDIATIONS, True)"
| "requirement (RejectRemediation _) = Some (MANAGE_REMEDIATIONS, True)"
| "requirement ListJobs = Some (VIEW_JOBS, False)"
| "requirement (GetJob _) = Some (VIEW_JOBS, False)"
| "requirement (ListAgentRuns _) = Some (VIEW_AGENT_ACTIVITY, False)"
| "requirement (ListAgentMessages _) = Some (VIEW_AGENT_ACTIVITY, False)"
| "requirement (ListLogs _ _ _) = Some (VIEW_LOGS, False)"
| "requirement (GetLog _) = Some (VIEW_LOGS, False)"
| "requirement ListAlerts = Some (VIEW_ALERTS, False)"
| "requirement (AcknowledgeAlert _) = Some (ACKNOWLEDGE_ALERTS, True)"
| "requirement ListAudits = Some (VIEW_AUDIT, False)"
| "requirement ListCampaigns = Some (VIEW_CAMPAIGNS, False)"
| "requirement (GetCampaign _) = Some (VIEW_CAMPAIGNS, False)"
| "requirement (CreateCampaign _) = Some (MANAGE_CAMPAIGNS, True)"
| "requirement (CampaignProposals _) = Some (MANAGE_CAMPAIGNS, True)"
| "requirement (ApproveCampaignHost _ _ _) = Some (MANAGE_CAMPAIGNS, True)"
| "requirement (ApproveCampaignHostReboot _ _ _) = Some (MANAGE_CAMPAIGNS, True)"
| "requirement (RejectCampaignHost _ _) = Some (MANAGE_CAMPAIGNS, True)"
| "requirement (ExecuteCampaign _) = Some (MANAGE_CAMPAIGNS, True)"
| "requirement (CancelCampaign _) = Some (MANAGE_CAMPAIGNS, True)"

definition permitted :: "app \<Rightarrow> request \<Rightarrow> call \<Rightarrow> world \<Rightarrow> bool" where
  "permitted A req c w \<longleftrightarrow>
     (case requirement c of None \<Rightarrow> True
      | Some (action, csrf) \<Rightarrow>
          \<exists>u \<in> set_option (session_user (ap_env A) req w). authorized (ap_policy A) u action \<and>
            (csrf \<longrightarrow> csrf_proven (ap_env A) req w))"

subsection \<open>Authorization\<close>

text \<open>A store that differs at most in sessions that are gone.\<close>

definition sessions_ended :: "store \<Rightarrow> store \<Rightarrow> bool" where
  "sessions_ended s s' \<longleftrightarrow> s'\<lparr>t_sessions := t_sessions s\<rparr> = s \<and> set (t_sessions s') \<subseteq> set (t_sessions s)"

lemma sessions_ended_intros:
  "sessions_ended s s" "sessions_ended s (delete_session t s)"
  by (auto simp: sessions_ended_def delete_session_def AList.delete_eq)

lemma active_session_result:
  "\<exists>w'. active_session E (rq_session req) w = (Inr (session_of E req w 0), w') \<and>
    sessions_ended (w_store w) (w_store w') \<and>
    (session_of E req w 0 \<noteq> None \<longrightarrow> w' = w\<lparr>w_tick := w_tick w + 1\<rparr>)"
  by (auto simp: active_session_def session_of_def bindM_def comp_simps Let_def
      sessions_ended_intros split: option.split)

lemma authenticate_result:
  "\<exists>w'. authenticate E (rq_session req) w = (Inr (session_user E req w), w') \<and>
    sessions_ended (w_store w) (w_store w') \<and>
    (session_user E req w \<noteq> None \<longrightarrow> w' = w\<lparr>w_tick := w_tick w + 1\<rparr>)"
proof (cases "session_of E req w 0")
  case None
  with active_session_result [of E req w] show ?thesis
    by (auto simp: authenticate_def bindM_def session_user_def comp_simps)
next
  case (Some row)
  with active_session_result [of E req w]
  have "active_session E (rq_session req) w = (Inr (Some row), w\<lparr>w_tick := w_tick w + 1\<rparr>)"
    by auto
  then show ?thesis
    using Some by (simp add: authenticate_def bindM_def session_user_def comp_simps
        sessions_ended_intros split: option.split)
qed

lemma session_of_later: "session_of E req (w\<lparr>w_tick := w_tick w + 1\<rparr>) 0 = session_of E req w 1"
  by (simp add: session_of_def split: option.split)

lemma csrf_result:
  "\<exists>w'. verify_csrf E (rq_session req) (rq_csrf req) (w\<lparr>w_tick := w_tick w + 1\<rparr>) =
      (Inr (csrf_proven E req w), w') \<and> sessions_ended (w_store w) (w_store w')"
proof (cases "truthy (rq_session req) \<and> truthy (rq_csrf req)")
  case True
  let ?v = "w\<lparr>w_tick := w_tick w + 1\<rparr>"
  obtain v where "active_session E (rq_session req) ?v = (Inr (session_of E req w 1), v)"
    "sessions_ended (w_store ?v) (w_store v)"
    using active_session_result [of E req ?v] unfolding session_of_later by blast
  with True show ?thesis
    by (auto simp: verify_csrf_def csrf_proven_def bindM_def comp_simps split: option.split)
next
  case False
  then show ?thesis
    by (auto simp: verify_csrf_def csrf_proven_def session_of_def comp_simps sessions_ended_intros)
qed

lemma authorize_refuses:
  assumes "\<forall>u. session_user (ap_env A) req w = Some u \<longrightarrow> \<not> authorized (ap_policy A) u action \<or>
      csrf \<and> \<not> csrf_proven (ap_env A) req w"
  shows "\<exists>status msg w'. authorize A req action csrf w = (Inr (Inl (HttpError status msg)), w') \<and>
    status \<in> {401, 403} \<and> sessions_ended (w_store w) (w_store w')"
proof -
  obtain w1 where auth: "authenticate (ap_env A) (rq_session req) w =
      (Inr (session_user (ap_env A) req w), w1)" "sessions_ended (w_store w) (w_store w1)"
    "session_user (ap_env A) req w \<noteq> None \<longrightarrow> w1 = w\<lparr>w_tick := w_tick w + 1\<rparr>"
    using authenticate_result by blast
  show ?thesis
  proof (cases "session_user (ap_env A) req w")
    case None
    with auth show ?thesis
      by (simp add: authorize_def bindM_def comp_simps)
  next
    case (Some u)
    with auth have w1: "w1 = w\<lparr>w_tick := w_tick w + 1\<rparr>" by simp
    obtain w2 where "verify_csrf (ap_env A) (rq_session req) (rq_csrf req) (w\<lparr>w_tick := w_tick w + 1\<rparr>) =
        (Inr (csrf_proven (ap_env A) req w), w2)" "sessions_ended (w_store w) (w_store w2)"
      using csrf_result by blast
    with Some auth w1 assms show ?thesis
      by (auto simp: authorize_def bindM_def comp_simps)
  qed
qed

lemma authorize_accepts:
  assumes "session_user (ap_env A) req w = Some u" "authorized (ap_policy A) u action"
    and "csrf \<longrightarrow> csrf_proven (ap_env A) req w"
  shows "\<exists>w'. authorize A req action csrf w = (Inr (Inr u), w') \<and>
    sessions_ended (w_store w) (w_store w')"
proof -
  have auth: "authenticate (ap_env A) (rq_session req) w = (Inr (Some u), w\<lparr>w_tick := w_tick w + 1\<rparr>)"
    using authenticate_result [of "ap_env A" req w] assms(1) by auto
  obtain w2 where "verify_csrf (ap_env A) (rq_session req) (rq_csrf req) (w\<lparr>w_tick := w_tick w + 1\<rparr>) =
      (Inr (csrf_proven (ap_env A) req w), w2)" "sessions_ended (w_store w) (w_store w2)"
    using csrf_result by blast
  with auth assms show ?thesis
    by (auto simp: authorize_def bindM_def comp_simps sessions_ended_intros)
qed

lemmas route_defs = route_logout_def route_me_def route_list_credentials_def
  route_create_credential_def route_delete_credential_def route_list_hosts_def route_create_host_def
  route_update_host_def route_delete_host_def route_test_connection_def route_get_schedule_def
  route_update_schedule_def route_list_schedules_def route_queue_scan_def route_list_scans_def
  route_get_scan_def route_list_findings_def route_list_remediations_def route_list_snapshots_def
  route_approve_remediation_def route_approve_reboot_def route_execute_remediation_def
  route_reject_remediation_def route_list_jobs_def route_get_job_def route_list_agent_runs_def
  route_list_agent_messages_def route_list_logs_def route_get_log_def route_list_alerts_def
  route_acknowledge_alert_def route_list_audits_def route_list_campaigns_def route_get_campaign_def
  route_create_campaign_def route_campaign_proposals_def route_approve_campaign_host_def
  route_approve_campaign_host_reboot_def route_reject_campaign_host_def route_execute_campaign_def
  route_cancel_campaign_def

text \<open>Every route but the login is protected as required.\<close>

lemma serve_protected:
  assumes "requirement c = Some (action, csrf)"
  obtains handler where "\<And>A req. serve A req c = protected A req action csrf (handler A req)"
  using assms by (cases c) (auto simp: route_defs)

lemma refuses_unpermitted:
  assumes "\<not> permitted A req c w"
  shows "\<exists>status msg w'. serve A req c w = (Inr (HttpError status msg), w') \<and> status \<in> {401, 403} \<and>
    sessions_ended (w_store w) (w_store w')"
proof -
  from assms obtain action csrf where req: "requirement c = Some (action, csrf)"
    and "\<forall>u. session_user (ap_env A) req w = Some u \<longrightarrow> \<not> authorized (ap_policy A) u action \<or>
      csrf \<and> \<not> csrf_proven (ap_env A) req w"
    by (auto simp: permitted_def split: option.splits prod.splits)
  from authorize_refuses [OF this(2)] obtain status msg w' where
    "authorize A req action csrf w = (Inr (Inl (HttpError status msg)), w')"
    "status \<in> {401, 403}" "sessions_ended (w_store w) (w_store w')"
    by blast
  moreover obtain handler where "serve A req c = protected A req action csrf (handler A req)"
    using serve_protected [OF req] by metis
  ultimately show ?thesis
    by (auto simp: protected_def bindM_def comp_simps)
qed


subsection \<open>Forged requests\<close>

text \<open>The tables a forged request must leave alone.\<close>

definition managed :: "store \<Rightarrow> store" where
  "managed s = s\<lparr>t_sessions := [], t_campaigns := [], t_campaign_hosts := [], t_remediations := [],
     t_audits := []\<rparr>"

lemma managed_updates:
  "managed (delete_session t s) = managed s" "managed (save_campaign c s) = managed s"
  "managed (save_remediation r s) = managed s" "managed (save_audit a s) = managed s"
  by (simp_all add: managed_def delete_session_def save_campaign_def save_remediation_def save_audit_def)

lemma managed_sessions_ended: "sessions_ended s s' \<Longrightarrow> managed s' = managed s"
proof -
  assume "sessions_ended s s'"
  then have "managed s = managed (s'\<lparr>t_sessions := t_sessions s\<rparr>)"
    by (simp add: sessions_ended_def)
  then show ?thesis
    by (simp add: managed_def)
qed

lemma managed_sync: "preserves (\<lambda>s. managed s = m) (sync_campaign E c)"
  unfolding sync_campaign_def rebuild_hosts_def collect_current_def ensure_current_remediation_plan_def
    audit_def Let_def
  by (intro preserves_intros) (simp_all add: managed_updates)

lemma managed_view: "preserves P (view f)" "preserves P (found msg g h)" "preserves P (answer st k x)"
  unfolding view_def found_def answer_def by (auto intro!: preserves_intros)

lemma preserves_except [preserves_intros]:
  "preserves P m \<Longrightarrow> (\<And>x. preserves P (k x)) \<Longrightarrow> preserves P (except_as catches str_of st m k)"
  unfolding preserves_def except_as_def by (fastforce split: prod.split sum.split)

lemma preserves_authorize: "preserves (\<lambda>s. managed s = m) (authorize A req action csrf)"
  unfolding authorize_def authenticate_def verify_csrf_def active_session_def Let_def
  by (intro preserves_intros) (simp_all add: managed_updates)

lemma preserves_sum [preserves_intros]:
  "(\<And>a. preserves P (f a)) \<Longrightarrow> (\<And>b. preserves P (g b)) \<Longrightarrow>
     preserves P (case r of Inl a \<Rightarrow> f a | Inr b \<Rightarrow> g b)"
  by (simp split: sum.split)

lemma preserves_protected:
  "(\<And>u. preserves (\<lambda>s. managed s = m) (handler u)) \<Longrightarrow>
     preserves (\<lambda>s. managed s = m) (protected A req action csrf handler)"
  unfolding protected_def by (intro preserves_intros preserves_authorize)

lemma managed_routes:
  "preserves (\<lambda>s. managed s = m) (protected A req action csrf (\<lambda>_. view f))"
  "preserves (\<lambda>s. managed s = m) (protected A req action csrf (\<lambda>_. found msg g h))"
  "preserves (\<lambda>s. managed s = m) (protected A req action csrf (answer st k))"
  by (intro preserves_protected managed_view)+

lemma managed_other_routes:
  "preserves (\<lambda>s. managed s = m) (route_get_schedule A req i)"
  "preserves (\<lambda>s. managed s = m) (route_list_logs A req fs page sz)"
  "preserves (\<lambda>s. managed s = m) (route_list_campaigns A req)"
  "preserves (\<lambda>s. managed s = m) (route_get_campaign A req i)"
  unfolding route_get_schedule_def get_schedule_def route_list_logs_def route_list_campaigns_def
    route_get_campaign_def get_campaign_synced_def mapM_def
  by (intro preserves_protected preserves_intros managed_view managed_sync)+

lemma views_keep_managed:
  assumes "requirement c = Some (action, False)"
  shows "preserves (\<lambda>s. managed s = m) (serve A req c)"
  using assms
  by (cases c) (simp_all add: managed_other_routes, simp_all add: route_defs managed_routes)

text \<open>C29: A forged request changes nothing of value. A request that carries no valid CSRF token,
  such as one another site makes a browser send, whatever session it has, leaves every host,
  credential, schedule, scan, finding, job, log, alert, snapshot, user and agent record alone;
  it can at most end expired sessions and, by viewing campaigns, bring them and the plans'
  approvals up to date.\<close>

theorem forged_requests_are_harmless:
  assumes "\<not> csrf_proven (ap_env A) req w" and "\<nexists>name password. c = Login name password"
    and "serve A req c w = (r, w')"
  shows "managed (w_store w') = managed (w_store w)"
proof -
  obtain action csrf where req: "requirement c = Some (action, csrf)"
    using assms(2) by (cases c) auto
  show ?thesis
  proof (cases csrf)
    case True
    with req assms(1) have "\<not> permitted A req c w"
      by (auto simp: permitted_def)
    from refuses_unpermitted [OF this] assms(3) show ?thesis
      using managed_sessions_ended by auto
  next
    case False
    with req have "preserves (\<lambda>s. managed s = managed (w_store w)) (serve A req c)"
      using views_keep_managed by simp
    from preservesD [OF this assms(3)] show ?thesis by simp
  qed
qed

subsection \<open>An error nobody catches\<close>

lemma sessions_ended_fields:
  assumes "sessions_ended s s'"
  shows "t_hosts s' = t_hosts s" "t_credentials s' = t_credentials s"
proof -
  have "s'\<lparr>t_sessions := t_sessions s\<rparr> = s"
    using assms by (simp add: sessions_ended_def)
  then have "t_hosts (s'\<lparr>t_sessions := t_sessions s\<rparr>) = t_hosts s"
    "t_credentials (s'\<lparr>t_sessions := t_sessions s\<rparr>) = t_credentials s"
    by (simp_all only:)
  then show "t_hosts s' = t_hosts s" "t_credentials s' = t_credentials s"
    by simp_all
qed

lemma host_input_error_cong:
  "t_credentials s = t_credentials s' \<Longrightarrow> host_input_error s h = host_input_error s' h"
proof -
  assume "t_credentials s = t_credentials s'"
  then have same: "get_credential_record s = get_credential_record s'"
    by (simp add: fun_eq_iff get_credential_record_def)
  show ?thesis
    unfolding host_input_error_def same ..
qed

lemma host_input_error_value: "host_input_error s h = Some e \<Longrightarrow> value_error e"
  by (auto simp: host_input_error_def Let_def split: if_splits option.splits prod.splits)

lemma permitted_call:
  assumes "permitted A req c w" "requirement c = Some (action, csrf)"
    and "serve A req c = protected A req action csrf handler"
  shows "\<exists>u w1. serve A req c w = handler u w1 \<and> sessions_ended (w_store w) (w_store w1)"
proof -
  from assms(1,2) obtain u where "session_user (ap_env A) req w = Some u"
    "authorized (ap_policy A) u action" "csrf \<longrightarrow> csrf_proven (ap_env A) req w"
    by (auto simp: permitted_def)
  from authorize_accepts [OF this] obtain w1 where
    "authorize A req action csrf w = (Inr (Inr u), w1)" "sessions_ended (w_store w) (w_store w1)"
    by blast
  with assms(3) show ?thesis
    by (auto simp: protected_def bindM_def)
qed

text \<open>Creating a host with a bad snapshot configuration is a server error. When a permitted
  request creates a host whose snapshot settings the service refuses, the refusal leaves the
  route as an exception instead of an answer of the client's fault, while the same input to
  the update of a known host is answered with status 404.\<close>

theorem invalid_host_is_not_caught:
  assumes "permitted A req (CreateHost input) w" and "host_input_error (w_store w) input = Some e"
  shows "(\<exists>w'. serve A req (CreateHost input) w = (Inl e, w')) \<and>
    (get_host (w_store w) i \<noteq> None \<longrightarrow>
      (\<exists>w'. serve A req (UpdateHost i input) w = (Inr (HttpError 404 (exn_message e)), w')))"
proof (intro conjI impI)
  have same: "host_input_error s input = Some e" "get_host s i = get_host (w_store w) i"
    if "sessions_ended (w_store w) s" for s
    using host_input_error_cong [OF sessions_ended_fields(2) [OF that], of input] sessions_ended_fields(1) [OF that]
      assms(2) by (simp_all add: get_host_def)
  have "serve A req (CreateHost input) = protected A req MANAGE_HOSTS True (\<lambda>u.
      bindM (create_host (ap_env A) input (u_username u)) (answer 201 OneHost))"
    by (simp add: route_create_host_def)
  from permitted_call [OF assms(1) requirement.simps(8) this]
  obtain u :: user and w1 where "serve A req (CreateHost input) w =
      bindM (create_host (ap_env A) input (u_username u)) (answer 201 OneHost) w1"
    "sessions_ended (w_store w) (w_store w1)"
    by blast
  with same show "\<exists>w'. serve A req (CreateHost input) w = (Inl e, w')"
    by (simp add: create_host_def validate_host_input_def bindM_def comp_simps)
  assume known: "get_host (w_store w) i \<noteq> None"
  have "permitted A req (UpdateHost i input) w"
    using assms(1) by (simp add: permitted_def)
  moreover have "serve A req (UpdateHost i input) = protected A req MANAGE_HOSTS True (\<lambda>u.
      caught 404 (update_host (ap_env A) i input (u_username u)) (answer 200 OneHost))"
    by (simp add: route_update_host_def)
  ultimately obtain u :: user and w1 where "serve A req (UpdateHost i input) w =
      caught 404 (update_host (ap_env A) i input (u_username u)) (answer 200 OneHost) w1"
    "sessions_ended (w_store w) (w_store w1)"
    using permitted_call [OF _ requirement.simps(9)] by blast
  with same known host_input_error_value [OF assms(2)]
  show "\<exists>w'. serve A req (UpdateHost i input) w = (Inr (HttpError 404 (exn_message e)), w')"
    by (auto simp: update_host_def validate_host_input_def host_of_def except_as_def bindM_def comp_simps)
qed

subsection \<open>A session of Bob\<close>

definition plain_env :: env where
  "plain_env = (sample_env [])\<lparr>e_H := \<lambda>s. s\<rparr>"

definition sample_settings :: settings where
  "sample_settings = \<lparr>st_app_environment = ''development'', st_app_base_url = ''http://localhost:8080'',
     st_cookie_secure = False, st_allow_insecure_localhost_alpha_cookies = True,
     st_session_ttl_hours = 12, st_admin_username = ''admin'', st_admin_password = None,
     st_admin_password_file = None, st_encryption_key = None, st_encryption_key_file = None,
     st_database_url = None, st_redis_url = None, st_celery_task_always_eager = False,
     st_operational_health_ttl_seconds = 90, st_collector_mode = ''demo'',
     st_execution_mode = ''simulate'', st_data_dir = ''.data'',
     st_ai_provider_order = ''openai,anthropic,ollama'', st_ai_orchestrator_provider = ''auto'',
     st_ai_specialist_provider = ''auto'', st_openai_api_key = None, st_openai_base_url = '''',
     st_openai_strong_model = None, st_openai_economy_model = None, st_anthropic_api_key = None,
     st_anthropic_base_url = '''', st_anthropic_strong_model = None,
     st_anthropic_economy_model = None, st_ollama_base_url = '''', st_ollama_strong_model = None,
     st_ollama_economy_model = None\<rparr>"

definition sample_app :: app where
  "sample_app = \<lparr>ap_env = plain_env, ap_auth = sample_auth, ap_cipher = tagging_cipher,
     ap_policy = alpha_policy, ap_settings = sample_settings,
     ap_config = \<lparr>cf_file = (\<lambda>_. None), cf_url_hostname = (\<lambda>_. None), cf_b64decode = (\<lambda>_. None),
       cf_default_key = []\<rparr>,
     ap_delay = (\<lambda>_ _. returnM ()), ap_loads = (\<lambda>_. Inr JNull)\<rparr>"

definition bobs_session :: session_row where
  "bobs_session = \<lparr>se_id = ''session-1'', se_user_id = ''user-1'', se_csrf_hash = ''c1'',
     se_expires_at = Aware 1000000000, se_created_at = Aware 0\<rparr>"

definition signed_in :: world where
  "signed_in = bobs_world\<lparr>w_store := (w_store bobs_world)\<lparr>t_sessions := [(''t1'', bobs_session)]\<rparr>\<rparr>"

definition from_bob :: "string option \<Rightarrow> request" where
  "from_bob csrf = \<lparr>rq_session = Some ''t1'', rq_csrf = csrf, rq_client = None\<rparr>"

lemma signed_in_user:
  "session_user plain_env (from_bob csrf) signed_in = Some bob"
  "session_of plain_env (from_bob csrf) signed_in (Suc 0) = Some bobs_session"
  by (simp_all add: session_user_def session_of_def from_bob_def signed_in_def bobs_world_def
      sample_world_def sample_store_def get_session_def get_user_def token_hash_def plain_env_def
      sample_env_def bobs_session_def bob_def)

lemma signed_in_reads:
  "csrf_proven plain_env (from_bob (Some ''c1'')) signed_in"
  "\<not> csrf_proven plain_env (from_bob None) signed_in"
  "ap_env sample_app = plain_env" "authorized (ap_policy sample_app) bob action"
proof -
  have reads: "rq_csrf (from_bob csrf) = csrf" "token_hash plain_env v = v" for csrf v
    by (simp_all add: from_bob_def token_hash_def plain_env_def)
  show "csrf_proven plain_env (from_bob (Some ''c1'')) signed_in"
    "\<not> csrf_proven plain_env (from_bob None) signed_in"
    by (simp_all add: csrf_proven_def reads signed_in_user) (simp add: bobs_session_def)
qed (simp_all add: sample_app_def alpha_policy_admin bob_def)


theorem forged_requests_are_harmless_witness:
  "managed (w_store (snd (serve sample_app (from_bob None) ListCampaigns signed_in))) =
     managed (w_store signed_in)"
proof -
  have "\<not> csrf_proven (ap_env sample_app) (from_bob None) signed_in"
    by (simp add: signed_in_reads)
  then show ?thesis
    by (rule forged_requests_are_harmless [OF _ _ prod.collapse [symmetric]]) simp
qed

theorem invalid_host_is_not_caught_witness:
  "(\<exists>w'. serve sample_app (from_bob (Some ''c1'')) (CreateHost (host_input.truncate sample_host)) signed_in =
      (Inl (ValueError ''Snapshot credential not found''), w')) \<and>
   (\<exists>w'. serve sample_app (from_bob (Some ''c1'')) (UpdateHost ''host-1'' (host_input.truncate sample_host))
      signed_in = (Inr (HttpError 404 ''Snapshot credential not found''), w'))"
proof -
  have "permitted sample_app (from_bob (Some ''c1'')) (CreateHost (host_input.truncate sample_host)) signed_in"
    by (simp add: permitted_def signed_in_reads signed_in_user)
  moreover have "host_input_error (w_store signed_in) (host_input.truncate sample_host) =
      Some (ValueError ''Snapshot credential not found'')"
    by (simp add: host_input_error_def host_input.truncate_def sample_host_def signed_in_def
        bobs_world_def sample_world_def sample_store_def get_credential_record_def)
  moreover have "get_host (w_store signed_in) ''host-1'' \<noteq> None"
    by (simp add: signed_in_def bobs_world_def sample_world_def sample_store_def get_host_def)
  ultimately show ?thesis
    using invalid_host_is_not_caught by fastforce
qed

end
