(* ===== verification/Regex.thy ===== *)
theory Regex
  imports PyText
begin

text \<open>
  The part of Python's \<open>re\<close> that the sources use: classes with bounded or unbounded, greedy or
  lazy repetition, literals, word boundaries, one-character lookarounds, groups, and
  alternatives. A match is a position with what was captured; the list of all matches from a
  position is in the order in which a backtracking matcher tries them, so its first element is
  the match \<open>re\<close> finds. A position is the text before it, reversed, and the text after it.
\<close>

type_synonym position = "string \<times> string \<times> (nat \<times> string) list"

datatype re =
    Lit string                                  \<comment> \<open>the text itself\<close>
  | LitI string                                 \<comment> \<open>in any case; given in lower case\<close>
  | Rep bool "char \<Rightarrow> bool" nat "nat option"    \<comment> \<open>greedy, class, at least, at most\<close>
  | Boundary                                    \<comment> \<open>\<open>\\b\<close>\<close>
  | NotBehind "char \<Rightarrow> bool"                    \<comment> \<open>\<open>(?<![...])\<close>\<close>
  | NotAhead "char \<Rightarrow> bool"                     \<comment> \<open>\<open>(?![...])\<close>\<close>
  | Group nat re
  | Seq re re
  | Or re re
  | Empty

text \<open>\<open>\\w\<close>: letters, digits and other numeric characters, and the underscore.\<close>

definition is_word :: "char \<Rightarrow> bool" where
  "is_word c =
     (let n = code c in
      (48 \<le> n \<and> n \<le> 57) \<or> (65 \<le> n \<and> n \<le> 90) \<or> n = 95 \<or> (97 \<le> n \<and> n \<le> 122) \<or>
      n \<in> {170, 178, 179, 181, 185, 186, 188, 189, 190} \<or> (192 \<le> n \<and> n \<noteq> 215 \<and> n \<noteq> 247))"

definition at_boundary :: "string \<Rightarrow> string \<Rightarrow> bool" where
  "at_boundary before after \<longleftrightarrow>
     (before \<noteq> [] \<and> is_word (hd before)) \<noteq> (after \<noteq> [] \<and> is_word (hd after))"

definition advance :: "nat \<Rightarrow> position \<Rightarrow> position" where
  "advance n p = (case p of (before, after, caps) \<Rightarrow> (rev (take n after) @ before, drop n after, caps))"

text \<open>How many characters a repetition may take, in the order they are tried.\<close>

definition repetitions :: "bool \<Rightarrow> (char \<Rightarrow> bool) \<Rightarrow> nat \<Rightarrow> nat option \<Rightarrow> string \<Rightarrow> nat list" where
  "repetitions greedy P least most after =
     (let run = length (takeWhile P after);
          top = (case most of None \<Rightarrow> run | Some m \<Rightarrow> min m run);
          counts = [least..<Suc top]
      in if greedy then rev counts else counts)"

fun matches :: "re \<Rightarrow> position \<Rightarrow> position list" where
  "matches (Lit s) (before, after, caps) =
     (if starts_with after s then [advance (length s) (before, after, caps)] else [])"
| "matches (LitI s) (before, after, caps) =
     (if starts_with (lower (take (length s) after)) s then [advance (length s) (before, after, caps)] else [])"
| "matches (Rep greedy P least most) (before, after, caps) =
     map (\<lambda>n. advance n (before, after, caps)) (repetitions greedy P least most after)"
| "matches Boundary (before, after, caps) =
     (if at_boundary before after then [(before, after, caps)] else [])"
| "matches (NotBehind P) (before, after, caps) =
     (if before \<noteq> [] \<and> P (hd before) then [] else [(before, after, caps)])"
| "matches (NotAhead P) (before, after, caps) =
     (if after \<noteq> [] \<and> P (hd after) then [] else [(before, after, caps)])"
| "matches (Group i r) (before, after, caps) =
     map (\<lambda>(before', after', caps').
            (before', after', (i, take (length after - length after') after) # caps'))
       (matches r (before, after, caps))"
| "matches (Seq r s) p = concat (map (matches s) (matches r p))"
| "matches (Or r s) p = matches r p @ matches s p"
| "matches Empty p = [p]"

definition group :: "nat \<Rightarrow> position \<Rightarrow> string" where
  "group i p = or_empty (map_of (snd (snd p)) i)"

text \<open>\<open>pattern.search(text)\<close>, from the position the first argument tells.\<close>

fun found_from :: "re \<Rightarrow> string \<Rightarrow> string \<Rightarrow> bool" where
  "found_from r before [] = (matches r (before, [], []) \<noteq> [])"
| "found_from r before (c # after) =
     (matches r (before, c # after, []) \<noteq> [] \<or> found_from r (c # before) after)"

definition search :: "re \<Rightarrow> string \<Rightarrow> bool" where
  "search r text = found_from r [] text"

text \<open>
  \<open>pattern.sub(replacement, text)\<close> for a pattern that never matches the empty text: from the
  left, every match is replaced, and the search goes on behind it.
\<close>

function sub_from :: "re \<Rightarrow> (position \<Rightarrow> string) \<Rightarrow> string \<Rightarrow> string \<Rightarrow> string" where
  "sub_from r f before [] = []"
| "sub_from r f before (c # after) =
     (case matches r (before, c # after, []) of
        (before', after', caps) # _ \<Rightarrow>
          if length after' \<le> length after then f (before', after', caps) @ sub_from r f before' after'
          else c # sub_from r f (c # before) after
      | [] \<Rightarrow> c # sub_from r f (c # before) after)"
  by pat_completeness auto
termination
  by (relation "measure (\<lambda>(_, _, _, after). length after)") auto

definition sub :: "re \<Rightarrow> (position \<Rightarrow> string) \<Rightarrow> string \<Rightarrow> string" where
  "sub r f text = sub_from r f [] text"

declare sub_from.simps [simp del]

subsection \<open>Abbreviations for patterns\<close>

fun seqs :: "re list \<Rightarrow> re" where
  "seqs [] = Empty"
| "seqs [r] = r"
| "seqs (r # rs) = Seq r (seqs rs)"

fun alts :: "re list \<Rightarrow> re" where
  "alts [] = Empty"
| "alts [r] = r"
| "alts (r # rs) = Or r (alts rs)"

definition optional :: "re \<Rightarrow> re" where "optional r = Or r Empty"

definition one :: "(char \<Rightarrow> bool) \<Rightarrow> re" where "one P = Rep True P 1 (Some 1)"

definition many :: "(char \<Rightarrow> bool) \<Rightarrow> nat \<Rightarrow> re" where "many P least = Rep True P least None"

definition in_range :: "char \<Rightarrow> char \<Rightarrow> char \<Rightarrow> bool" where
  "in_range a b c \<longleftrightarrow> code a \<le> code c \<and> code c \<le> code b"

definition is_upper :: "char \<Rightarrow> bool" where "is_upper c \<longleftrightarrow> in_range (CHR ''A'') (CHR ''Z'') c"

definition is_alpha :: "char \<Rightarrow> bool" where
  "is_alpha c \<longleftrightarrow> is_upper c \<or> in_range (CHR ''a'') (CHR ''z'') c"

definition is_digit :: "char \<Rightarrow> bool" where "is_digit c \<longleftrightarrow> in_range (CHR ''0'') (CHR ''9'') c"

definition alnum_or :: "string \<Rightarrow> char \<Rightarrow> bool" where
  "alnum_or extra c \<longleftrightarrow> is_alpha c \<or> is_digit c \<or> c \<in> set extra"

subsection \<open>What substitution keeps and removes\<close>

text \<open>Where nothing matches, nothing is replaced.\<close>

lemma sub_from_id: "\<not> found_from r before after \<Longrightarrow> sub_from r f before after = after"
  by (induction r before after rule: found_from.induct) (simp_all add: sub_from.simps)

lemma sub_id: "\<not> search r text \<Longrightarrow> sub r f text = text"
  by (simp add: search_def sub_def sub_from_id)

text \<open>A match leaves a suffix of what was there and remembers what it consumed.\<close>

lemma matches_split:
  "(before', after', caps') \<in> set (matches r (before, after, caps)) \<Longrightarrow>
     rev before @ after = rev before' @ after' \<and> suffix after' after"
proof (induction r arbitrary: before after caps before' after' caps')
  case (Group i r)
  from Group.prems obtain c where "(before', after', c) \<in> set (matches r (before, after, caps))"
    by auto
  then show ?case
    by (rule Group.IH)
next
  case (Seq r s)
  from Seq.prems obtain b a c where "(b, a, c) \<in> set (matches r (before, after, caps))"
    "(before', after', caps') \<in> set (matches s (b, a, c))"
    by auto
  from Seq.IH(1) [OF this(1)] Seq.IH(2) [OF this(2)] show ?case
    by (auto intro: suffix_order.trans)
next
  case (Or r s)
  then show ?case
    by (auto simp only: matches.simps set_append Un_iff)
qed (auto simp: advance_def suffix_drop split: if_splits)

end
