(* ===== verification/Redaction.thy ===== *)
theory Redaction
  imports Regex AgentBase
begin

text \<open>
  What is taken out of text before it is logged, audited or sent to a model (\<open>redaction.py\<close>):
  the patterns, the placeholders, and the passes over strings, payloads and log events.
\<close>

subsection \<open>Patterns\<close>

definition email_pattern :: re where
  "email_pattern = seqs
     [Boundary, many (alnum_or ''._%+-'') 1, Lit ''@'', many (alnum_or ''.-'') 1, Lit ''.'',
      many is_alpha 2, Boundary]"

definition octet :: re where "octet = Rep True is_digit 1 (Some 3)"

definition dotted :: re where
  "dotted = seqs [octet, Lit ''.'', octet, Lit ''.'', octet, Lit ''.'', octet]"

definition ip_pattern :: re where "ip_pattern = seqs [Boundary, dotted, Boundary]"

definition upper_or_blank :: "char \<Rightarrow> bool" where
  "upper_or_blank c \<longleftrightarrow> is_upper c \<or> c = CHR '' ''"

definition private_key_pattern :: re where
  "private_key_pattern = seqs
     [Lit ''-----BEGIN '', many upper_or_blank 0, Lit ''PRIVATE KEY-----'',
      Rep False (\<lambda>_. True) 0 None,
      Lit ''-----END '', many upper_or_blank 0, Lit ''PRIVATE KEY-----'']"

definition bare_value :: "char \<Rightarrow> bool" where
  "bare_value c \<longleftrightarrow> \<not> is_space c \<and> c \<noteq> CHR '','' \<and> c \<noteq> CHR '';''"

definition separator :: re where
  "separator = Group 2 (one (\<lambda>c. c = CHR '':'' \<or> c = CHR ''=''))"

definition authorization_header_pattern :: re where
  "authorization_header_pattern = seqs
     [Boundary, LitI ''authorization'', Boundary, many is_space 0,
      Group 1 (one (\<lambda>c. c = CHR '':'' \<or> c = CHR ''='')), many is_space 0,
      optional (alts [LitI ''bearer'', LitI ''basic'', LitI ''token'']), many is_space 0,
      many bare_value 1]"

definition bearer_token_pattern :: re where
  "bearer_token_pattern = seqs
     [Boundary, LitI ''bearer'', many is_space 1, many (alnum_or ''._~+/=-'') 8]"

definition quoted_by :: "char \<Rightarrow> re" where
  "quoted_by q = seqs [one (\<lambda>c. c = q), many (\<lambda>c. c \<noteq> q) 0, one (\<lambda>c. c = q)]"

definition assigned_value :: re where
  "assigned_value = Group 3 (alts [quoted_by (CHR 0x22), quoted_by (CHR 0x27), many bare_value 1])"

definition joined :: "string \<Rightarrow> string \<Rightarrow> re" where
  "joined a b = seqs [LitI a, optional (one (\<lambda>c. c = CHR ''_'' \<or> c = CHR ''-'')), LitI b]"

definition key_value_secret_pattern :: re where
  "key_value_secret_pattern = seqs
     [Boundary,
      Group 1 (alts [LitI ''password'', LitI ''passwd'', LitI ''passphrase'', LitI ''secret'',
                     LitI ''token'', joined ''api'' ''key'', joined ''access'' ''key'',
                     joined ''client'' ''secret'']),
      Boundary, many is_space 0, separator, many is_space 0, assigned_value]"

definition identity_key_value_pattern :: re where
  "identity_key_value_pattern = seqs
     [Boundary,
      Group 1 (alts [LitI ''hostname'', LitI ''host'', LitI ''user'', LitI ''username'',
                     LitI ''login'', LitI ''address'']),
      Boundary, many is_space 0, separator, many is_space 0, assigned_value]"

definition upper_or_digit :: "char \<Rightarrow> bool" where
  "upper_or_digit c \<longleftrightarrow> is_upper c \<or> is_digit c"

definition api_key_patterns :: "re list" where
  "api_key_patterns =
     [seqs [Boundary, Lit ''sk-'', many (alnum_or ''_-'') 16, Boundary],
      seqs [Boundary, Lit ''gh'', one (\<lambda>c. c \<in> set ''pousr''), Lit ''_'', many (alnum_or []) 20, Boundary],
      seqs [Boundary, alts [Lit ''AKIA'', Lit ''ASIA''], Rep True upper_or_digit 16 (Some 16), Boundary],
      seqs [Boundary, Lit ''AIza'', Rep True (alnum_or ''-_'') 35 (Some 35), Boundary],
      seqs [Boundary, Lit ''xox'', one (\<lambda>c. c \<in> set ''baprs''), Lit ''-'', many (alnum_or ''-'') 10, Boundary]]"

text \<open>The host's own name, address and user, where they stand alone.\<close>

definition host_patterns :: "host option \<Rightarrow> (re \<times> string) list" where
  "host_patterns h =
     (case h of None \<Rightarrow> []
      | Some h \<Rightarrow>
          map (\<lambda>(value, placeholder).
                 (seqs [NotBehind (alnum_or ''._-''), Lit value, NotAhead (alnum_or ''._-'')], placeholder))
            (filter (\<lambda>(value, _). value \<noteq> [])
              [(h_name h, ''[HOSTNAME]''), (h_address h, ''[ADDRESS]''), (h_username h, ''[USERNAME]'')]))"

subsection \<open>Placeholders\<close>

definition preserve_quotes :: "string \<Rightarrow> string \<Rightarrow> string" where
  "preserve_quotes value placeholder =
     (if 2 \<le> length value \<and> hd value = last value \<and> hd value \<in> {CHR 0x27, CHR 0x22}
      then [hd value] @ placeholder @ [hd value] else placeholder)"

definition placeholder_for_key :: "string \<Rightarrow> string option" where
  "placeholder_for_key key =
     (let k = lower key; has = (\<lambda>t. str_in t k) in
      if has ''private_key'' \<or> has ''private-key'' \<or> has ''ssh_key'' then Some ''[PRIVATE_KEY]''
      else if has ''authorization'' \<or> k = ''auth_header'' then Some ''[AUTHORIZATION]''
      else if has ''bearer'' \<and> has ''token'' then Some ''[BEARER_TOKEN]''
      else if has ''password'' \<or> has ''passwd'' \<or> has ''passphrase'' then Some ''[PASSWORD]''
      else if has ''api_key'' \<or> k = ''apikey'' then Some ''[API_KEY]''
      else if has ''access_key'' then Some ''[API_KEY]''
      else if has ''client_secret'' \<or> k = ''secret'' then Some ''[SECRET]''
      else if has ''credential_id'' \<or> has ''credentialid'' \<or> ends_with k ''_credential''
        then Some ''[CREDENTIAL]''
      else if has ''provider_metadata'' \<or> has ''providermetadata'' \<or> k = ''metadata''
        then Some ''[PROVIDER_METADATA]''
      else if has ''snapshot_target'' \<or> has ''snapshottarget'' then Some ''[SNAPSHOT_TARGET]''
      else if has ''external_snapshot'' \<or> has ''externalsnapshot'' then Some ''[SNAPSHOT_ID]''
      else if k = ''token'' \<or> ends_with k ''_token'' then Some ''[TOKEN]''
      else if has ''email'' then Some ''[EMAIL]''
      else if k \<in> {''username'', ''user'', ''login''} \<or> ends_with k ''_username'' then Some ''[USERNAME]''
      else if has ''hostname'' \<or> ends_with k ''_hostname'' \<or> k = ''host_name'' then Some ''[HOSTNAME]''
      else if has ''address'' \<or> k \<in> {''ip'', ''ip_address''} \<or> ends_with k ''_address''
        then Some ''[ADDRESS]''
      else None)"

definition or_redacted :: "string option \<Rightarrow> string" where
  "or_redacted p = (case p of Some p \<Rightarrow> p | None \<Rightarrow> ''[REDACTED]'')"

definition identity_placeholder :: "string \<Rightarrow> string" where
  "identity_placeholder key =
     or_redacted (map_of
       [(''hostname'', ''[HOSTNAME]''), (''host'', ''[HOSTNAME]''), (''user'', ''[USERNAME]''),
        (''username'', ''[USERNAME]''), (''login'', ''[USERNAME]''), (''address'', ''[ADDRESS]'')]
       (lower key))"

definition replace_key_value_secret :: "position \<Rightarrow> string" where
  "replace_key_value_secret m =
     group 1 m @ group 2 m @
     preserve_quotes (group 3 m) (or_redacted (placeholder_for_key (group 1 m)))"

definition replace_identity_key_value :: "position \<Rightarrow> string" where
  "replace_identity_key_value m =
     group 1 m @ group 2 m @ preserve_quotes (group 3 m) (identity_placeholder (group 1 m))"

subsection \<open>Strings\<close>

record 'a redaction =
  rd_value :: 'a
  rd_applied :: bool
  rd_verified_safe :: bool

definition redact_host :: "host option \<Rightarrow> string \<Rightarrow> string" where
  "redact_host h text = fold (\<lambda>(r, placeholder). sub r (\<lambda>_. placeholder)) (host_patterns h) text"

definition redact_secrets :: "string \<Rightarrow> string" where
  "redact_secrets text =
     (let t1 = sub private_key_pattern (\<lambda>_. ''[PRIVATE_KEY]'') text;
          t2 = sub authorization_header_pattern
                 (\<lambda>m. ''Authorization'' @ group 1 m @ '' [AUTHORIZATION]'') t1;
          t3 = sub bearer_token_pattern (\<lambda>_. ''Bearer [BEARER_TOKEN]'') t2;
          t4 = sub key_value_secret_pattern replace_key_value_secret t3;
          t5 = sub identity_key_value_pattern replace_identity_key_value t4;
          t6 = fold (\<lambda>r. sub r (\<lambda>_. ''[API_KEY]'')) api_key_patterns t5
      in sub email_pattern (\<lambda>_. ''[EMAIL]'') t6)"

definition redact_text :: "string \<Rightarrow> host option \<Rightarrow> string" where
  "redact_text text h = sub ip_pattern (\<lambda>_. ''[IP_ADDRESS]'') (redact_host h (redact_secrets text))"

definition all_patterns :: "host option \<Rightarrow> re list" where
  "all_patterns h =
     [private_key_pattern, authorization_header_pattern, bearer_token_pattern,
      key_value_secret_pattern, identity_key_value_pattern, email_pattern, ip_pattern] @
     api_key_patterns @ map fst (host_patterns h)"

definition string_is_safe :: "string \<Rightarrow> host option \<Rightarrow> bool" where
  "string_is_safe text h \<longleftrightarrow> \<not> list_ex (\<lambda>r. search r text) (all_patterns h)"

definition sanitize_string :: "string \<Rightarrow> host option \<Rightarrow> string redaction" where
  "sanitize_string text h =
     (let redacted = redact_text text h; applied = (redacted \<noteq> text) in
      \<lparr>rd_value = redacted, rd_applied = applied,
       rd_verified_safe = (\<not> applied \<and> string_is_safe text h)\<rparr>)"

subsection \<open>Payloads\<close>

definition json_redaction :: "json \<Rightarrow> bool \<Rightarrow> bool \<Rightarrow> json redaction" where
  "json_redaction v applied safe = \<lparr>rd_value = v, rd_applied = applied, rd_verified_safe = safe\<rparr>"

fun sanitize_value :: "host option \<Rightarrow> json \<Rightarrow> json redaction"
  and sanitize_items :: "host option \<Rightarrow> json list \<Rightarrow> json list \<times> bool \<times> bool"
  and sanitize_members :: "host option \<Rightarrow> (string \<times> json) list \<Rightarrow> (string \<times> json) list \<times> bool \<times> bool" where
  "sanitize_value h (JStr s) =
     (let x = sanitize_string s h in json_redaction (JStr (rd_value x)) (rd_applied x) (rd_verified_safe x))"
| "sanitize_value h (JList js) =
     (let (js', applied, safe) = sanitize_items h js in json_redaction (JList js') applied safe)"
| "sanitize_value h (JObj ms) =
     (let (ms', applied, safe) = sanitize_members h ms in json_redaction (JObj ms') applied safe)"
| "sanitize_value h JNull = json_redaction JNull False True"
| "sanitize_value h (JBool b) = json_redaction (JBool b) False True"
| "sanitize_value h (JInt i) = json_redaction (JInt i) False True"
| "sanitize_items h [] = ([], False, True)"
| "sanitize_items h (j # js) =
     (let x = sanitize_value h j; (js', applied, safe) = sanitize_items h js
      in (rd_value x # js', rd_applied x \<or> applied, rd_verified_safe x \<and> safe))"
| "sanitize_members h [] = ([], False, True)"
| "sanitize_members h ((k, j) # ms) =
     (let (ms', applied, safe) = sanitize_members h ms in
      case placeholder_for_key k of
        Some p \<Rightarrow>
          if j \<noteq> JNull then ((k, JStr p) # ms', True, safe)
          else ((k, JNull) # ms', applied, safe)
      | None \<Rightarrow>
          let x = sanitize_value h j
          in ((k, rd_value x) # ms', rd_applied x \<or> applied, rd_verified_safe x \<and> safe))"

definition redact_payload :: "json \<Rightarrow> host option \<Rightarrow> json" where
  "redact_payload j h = rd_value (sanitize_value h j)"

definition sanitize_details :: "details \<Rightarrow> host option \<Rightarrow> details" where
  "sanitize_details ds h = (case redact_payload (JObj ds) h of JObj ds' \<Rightarrow> ds' | _ \<Rightarrow> [])"

subsection \<open>Log events\<close>

definition opt_json :: "string option \<Rightarrow> json" where
  "opt_json s = (case s of None \<Rightarrow> JNull | Some s \<Rightarrow> JStr s)"

definition event_payload :: "structured_log_event \<Rightarrow> details" where
  "event_payload e =
     [(''before_value'', l_before_value e), (''after_value'', l_after_value e),
      (''stdout'', JStr (l_stdout e)), (''stderr'', JStr (l_stderr e)),
      (''raw_output'', JStr (l_raw_output e)),
      (''command_description'', opt_json (l_command_description e)),
      (''source'', JStr (l_source e)),
      (''correlation_ids'', JObj (map (\<lambda>(k, v). (k, JStr v)) (l_correlation_ids e)))]"

definition text_member :: "details \<Rightarrow> string \<Rightarrow> string" where
  "text_member d key = (case dict_get d key of Some (JStr s) \<Rightarrow> s | _ \<Rightarrow> [])"

definition sanitize_log_event :: "structured_log_event \<Rightarrow> host option \<Rightarrow> structured_log_event" where
  "sanitize_log_event e h =
     (let summary = sanitize_value h (JObj (event_payload e));
          d = (case rd_value summary of JObj d \<Rightarrow> d | _ \<Rightarrow> []);
          member = (\<lambda>key. case dict_get d key of Some j \<Rightarrow> j | None \<Rightarrow> JNull)
      in e\<lparr>l_before_value := member ''before_value'', l_after_value := member ''after_value'',
           l_stdout := text_member d ''stdout'', l_stderr := text_member d ''stderr'',
           l_raw_output := text_member d ''raw_output'',
           l_command_description :=
             (case member ''command_description'' of JStr s \<Rightarrow> Some s | _ \<Rightarrow> None),
           l_source := text_member d ''source'',
           l_correlation_ids :=
             (case member ''correlation_ids'' of
                JObj ms \<Rightarrow> map (\<lambda>(k, j). (k, case j of JStr s \<Rightarrow> s | _ \<Rightarrow> [])) ms | _ \<Rightarrow> []),
           l_redacted := (rd_applied summary \<or> rd_verified_safe summary)\<rparr>)"

text \<open>The surroundings with the program's own redaction.\<close>

definition redacting :: "env \<Rightarrow> env" where
  "redacting E = E\<lparr>e_redact := redact_text,
     e_sanitize_audit := (\<lambda>ds. sanitize_details ds None),
     e_sanitize_log := (\<lambda>e h. sanitize_log_event e (Some h))\<rparr>"

end
