(* ===== verification/RedactionProperties.thy ===== *)
theory RedactionProperties
  imports Redaction ServiceFixtures Processes
begin

text \<open>
  What redaction guarantees: no address is left, what is stored under a sensitive key has no
  influence, what is reported as safe is; and where the mark of a redacted event is lost.

  What an address is, is said here without the program's patterns: \<open>contains_address\<close> reads the
  text itself, and \<open>address_found\<close> shows that the program's pattern finds exactly that.
\<close>

subsection \<open>A match depends on what it consumes and on what is next to it\<close>

text \<open>Patterns without lookarounds, and characters a pattern can consume.\<close>

fun plain :: "re \<Rightarrow> bool" where
  "plain (NotBehind P) = False"
| "plain (NotAhead P) = False"
| "plain (Group i r) = plain r"
| "plain (Seq r s) = (plain r \<and> plain s)"
| "plain (Or r s) = (plain r \<and> plain s)"
| "plain _ = True"

fun over :: "(char \<Rightarrow> bool) \<Rightarrow> re \<Rightarrow> bool" where
  "over Q (Lit s) = list_all Q s"
| "over Q (LitI s) = False"
| "over Q (Rep greedy P least most) = (\<forall>c. P c \<longrightarrow> Q c)"
| "over Q (Group i r) = over Q r"
| "over Q (Seq r s) = (over Q r \<and> over Q s)"
| "over Q (Or r s) = (over Q r \<and> over Q s)"
| "over Q _ = True"

definition at_word :: "string \<Rightarrow> bool" where
  "at_word s \<longleftrightarrow> s \<noteq> [] \<and> is_word (hd s)"

lemma at_boundary_word: "at_boundary b a \<longleftrightarrow> at_word b \<noteq> at_word a"
  by (simp add: at_boundary_def at_word_def)

text \<open>One match: what was consumed, as a prefix of the text.\<close>

lemma matches_consumed:
  assumes "(before', after', caps') \<in> set (matches r (before, after, caps))"
  obtains u where "after = u @ after'" "before' = rev u @ before"
proof -
  from matches_split [OF assms] obtain u where "after = u @ after'" and eq: "rev before @ after = rev before' @ after'"
    by (auto simp: suffix_def)
  then have "before' = rev u @ before"
    by (metis append_assoc append_same_eq rev_append rev_rev_ident)
  with \<open>after = u @ after'\<close> show thesis by (rule that)
qed

lemma lit_matches_iff:
  "(before', after', caps') \<in> set (matches (Lit s) (before, after, caps)) \<longleftrightarrow>
     after = s @ after' \<and> before' = rev s @ before \<and> caps' = caps"
  by (auto simp: advance_def prefix_def)

lemma liti_matches_iff:
  "(before', after', caps') \<in> set (matches (LitI s) (before, after, caps)) \<longleftrightarrow>
     (\<exists>u. after = u @ after' \<and> lower u = s \<and> before' = rev u @ before \<and> caps' = caps)"
proof (intro iffI)
  assume "(before', after', caps') \<in> set (matches (LitI s) (before, after, caps))"
  then have m: "starts_with (lower (take (length s) after)) s" "before' = rev (take (length s) after) @ before"
    "after' = drop (length s) after" "caps' = caps"
    by (auto simp: advance_def split: if_splits)
  have "length (lower (take (length s) after)) \<le> length s"
    by (simp add: lower_def)
  with m(1) have "lower (take (length s) after) = s"
    by (auto simp: prefix_def)
  with m show "\<exists>u. after = u @ after' \<and> lower u = s \<and> before' = rev u @ before \<and> caps' = caps"
    by (intro exI [of _ "take (length s) after"]) simp
next
  assume "\<exists>u. after = u @ after' \<and> lower u = s \<and> before' = rev u @ before \<and> caps' = caps"
  then obtain u where u: "after = u @ after'" "lower u = s" "before' = rev u @ before" "caps' = caps"
    by blast
  then have "length s = length u"
    by (auto simp: lower_def)
  with u show "(before', after', caps') \<in> set (matches (LitI s) (before, after, caps))"
    by (simp add: advance_def)
qed

lemma takeWhile_consumed: "list_all P u \<Longrightarrow> length u \<le> length (takeWhile P (u @ a))"
  by (induction u) auto

lemma repetitions_iff:
  "n \<in> set (repetitions greedy P least most after) \<longleftrightarrow>
     least \<le> n \<and> n \<le> length (takeWhile P after) \<and> (\<forall>m. most = Some m \<longrightarrow> n \<le> m)"
  by (auto simp: repetitions_def Let_def split: option.split)

lemma rep_matches_iff:
  "(before', after', caps') \<in> set (matches (Rep greedy P least most) (before, after, caps)) \<longleftrightarrow>
     (\<exists>u. after = u @ after' \<and> before' = rev u @ before \<and> caps' = caps \<and> list_all P u \<and>
       least \<le> length u \<and> (\<forall>m. most = Some m \<longrightarrow> length u \<le> m))"
proof (intro iffI)
  assume "(before', after', caps') \<in> set (matches (Rep greedy P least most) (before, after, caps))"
  then obtain n where n: "n \<in> set (repetitions greedy P least most after)"
    "before' = rev (take n after) @ before" "after' = drop n after" "caps' = caps"
    by (auto simp: advance_def)
  have "list_all P (take n (takeWhile P after))"
    by (auto simp: list_all_iff dest: in_set_takeD set_takeWhileD)
  moreover have "take n (takeWhile P after @ dropWhile P after) = take n (takeWhile P after)"
    using n(1) by (simp add: repetitions_iff del: takeWhile_dropWhile_id)
  ultimately have "list_all P (take n after)"
    by simp
  moreover have "n \<le> length after"
    using n(1) length_takeWhile_le [of P after] by (simp add: repetitions_iff)
  ultimately show "\<exists>u. after = u @ after' \<and> before' = rev u @ before \<and> caps' = caps \<and> list_all P u \<and>
       least \<le> length u \<and> (\<forall>m. most = Some m \<longrightarrow> length u \<le> m)"
    using n by (intro exI [of _ "take n after"]) (auto simp: repetitions_iff)
next
  assume "\<exists>u. after = u @ after' \<and> before' = rev u @ before \<and> caps' = caps \<and> list_all P u \<and>
       least \<le> length u \<and> (\<forall>m. most = Some m \<longrightarrow> length u \<le> m)"
  then obtain u where u: "after = u @ after'" "before' = rev u @ before" "caps' = caps" "list_all P u"
    "least \<le> length u" "\<forall>m. most = Some m \<longrightarrow> length u \<le> m"
    by blast
  then have "length u \<in> set (repetitions greedy P least most after)"
    using takeWhile_consumed [OF u(4), of after'] by (auto simp: repetitions_iff)
  with u show "(before', after', caps') \<in> set (matches (Rep greedy P least most) (before, after, caps))"
    by (force simp: advance_def)
qed

lemma matches_local:
  assumes "(before', after', caps') \<in> set (matches r (before, u @ after', caps))"
    and "plain r" "at_word before = at_word before2" "at_word after' = at_word after2"
  shows "\<exists>caps2'. (rev u @ before2, after2, caps2') \<in> set (matches r (before2, u @ after2, caps2))"
  using assms
proof (induction r arbitrary: before u after' caps before' caps' before2 after2 caps2)
  case (Lit s)
  then show ?case
    unfolding lit_matches_iff by auto
next
  case (LitI s)
  then show ?case
    unfolding liti_matches_iff by auto
next
  case (Rep greedy P least most)
  then show ?case
    unfolding rep_matches_iff by auto
next
  case Boundary
  then show ?case
    by (auto simp: at_boundary_word split: if_splits)
next
  case (Group i r)
  then obtain c where "(before', after', c) \<in> set (matches r (before, u @ after', caps))"
    by auto
  from Group.IH [OF this] Group.prems obtain c2 where
    "(rev u @ before2, after2, c2) \<in> set (matches r (before2, u @ after2, caps2))"
    by (metis plain.simps(3))
  then show ?case
    by force
next
  case (Seq r s)
  then obtain b1 a1 c1 where first: "(b1, a1, c1) \<in> set (matches r (before, u @ after', caps))"
    and second: "(before', after', caps') \<in> set (matches s (b1, a1, c1))"
    by auto
  obtain u1 where u1: "u @ after' = u1 @ a1" "b1 = rev u1 @ before"
    using first by (rule matches_consumed)
  obtain u2 where u2: "a1 = u2 @ after'" "before' = rev u2 @ b1"
    using second by (rule matches_consumed)
  have u: "u = u1 @ u2"
    using u1(1) u2(1) by simp
  have r: "(b1, a1, c1) \<in> set (matches r (before, u1 @ a1, caps))"
    using first u1(1) by simp
  have "at_word a1 = at_word (u2 @ after2)"
    using Seq.prems(4) u2(1) by (cases u2) (simp_all add: at_word_def)
  then obtain c2 where c2: "(rev u1 @ before2, u2 @ after2, c2) \<in>
      set (matches r (before2, u1 @ u2 @ after2, caps2))"
    using Seq.IH(1) [OF r] Seq.prems by (metis plain.simps(4))
  have "at_word b1 = at_word (rev u1 @ before2)"
    using Seq.prems(3) u1(2) by (cases "rev u1") (simp_all add: at_word_def)
  then obtain c3 where "(rev u2 @ rev u1 @ before2, after2, c3) \<in>
      set (matches s (rev u1 @ before2, u2 @ after2, c2))"
    using Seq.IH(2) [OF second [unfolded u2(1)]] Seq.prems by (metis plain.simps(4))
  with c2 u show ?case
    by force
next
  case (Or r s)
  then show ?case
    by (auto; metis)
qed (auto split: if_splits)

lemma matches_over:
  assumes "(before', after', caps') \<in> set (matches r (before, u @ after', caps))" and "over Q r"
  shows "list_all Q u"
  using assms
proof (induction r arbitrary: before u after' caps before' caps')
  case (Lit s)
  then show ?case
    unfolding lit_matches_iff by auto
next
  case (Rep greedy P least most)
  then show ?case
    unfolding rep_matches_iff by (auto simp: list_all_iff)
next
  case (Seq r s)
  then obtain b1 a1 c1 where first: "(b1, a1, c1) \<in> set (matches r (before, u @ after', caps))"
    and second: "(before', after', caps') \<in> set (matches s (b1, a1, c1))"
    by auto
  obtain u1 where u1: "u @ after' = u1 @ a1"
    using first by (rule matches_consumed)
  obtain u2 where u2: "a1 = u2 @ after'"
    using second by (rule matches_consumed)
  have "list_all Q u1" "list_all Q u2"
    using Seq.IH(1) [OF first [unfolded u1]] Seq.IH(2) [OF second [unfolded u2]] Seq.prems(2) by auto
  moreover have "u = u1 @ u2"
    using u1 u2 by simp
  ultimately show ?case by simp
qed (auto split: if_splits)

subsection \<open>No address is left\<close>

lemma seq_matches_iff:
  "(before', after', caps') \<in> set (matches (Seq r s) (before, after, caps)) \<longleftrightarrow>
     (\<exists>b a c. (b, a, c) \<in> set (matches r (before, after, caps)) \<and>
       (before', after', caps') \<in> set (matches s (b, a, c)))"
  by (simp add: split_paired_Ex Bex_def)

lemma digit_word: "is_digit c \<Longrightarrow> is_word c"
  by (simp add: is_digit_def in_range_def is_word_def Let_def code_def)

lemma dotted_match:
  assumes "(before', after', caps') \<in> set (matches dotted (before, after, caps))"
  shows "\<exists>u. after = u @ after' \<and> before' = rev u @ before \<and> u \<noteq> [] \<and> is_digit (hd u) \<and> is_digit (last u)"
proof -
  from assms obtain u1 u2 u3 u4 where u: "after = u1 @ ''.'' @ u2 @ ''.'' @ u3 @ ''.'' @ u4 @ after'"
    "before' = rev (u1 @ ''.'' @ u2 @ ''.'' @ u3 @ ''.'' @ u4) @ before"
    "list_all is_digit u1" "1 \<le> length u1" "list_all is_digit u4" "1 \<le> length u4"
    unfolding dotted_def octet_def seqs.simps seq_matches_iff rep_matches_iff lit_matches_iff
    by (elim exE conjE) simp
  from u(4,6) have "u1 \<noteq> []" "u4 \<noteq> []"
    by auto
  with u(3,5) have "is_digit (hd u1)" "is_digit (last u4)"
    by (simp_all add: list_all_iff)
  with u(1,2) \<open>u1 \<noteq> []\<close> \<open>u4 \<noteq> []\<close> show ?thesis
    by (intro exI [of _ "u1 @ ''.'' @ u2 @ ''.'' @ u3 @ ''.'' @ u4"]) simp
qed

definition digit_or_dot :: "char \<Rightarrow> bool" where
  "digit_or_dot c \<longleftrightarrow> is_digit c \<or> c = CHR ''.''"

lemma ip_pattern_shape: "plain ip_pattern" "over digit_or_dot ip_pattern"
  by (simp_all add: ip_pattern_def dotted_def octet_def digit_or_dot_def)

lemma ip_match:
  assumes "(before', after', caps') \<in> set (matches ip_pattern (before, after, caps))"
  shows "\<exists>u. after = u @ after' \<and> u \<noteq> [] \<and> is_digit (hd u) \<and> is_digit (last u) \<and>
    list_all digit_or_dot u \<and> \<not> at_word before \<and> \<not> at_word after'"
proof -
  from assms have m: "(before', after', caps') \<in> set (matches dotted (before, after, caps))"
    and bounds: "at_boundary before after" "at_boundary before' after'"
    by (auto simp: ip_pattern_def split: if_splits)
  from dotted_match [OF m] obtain u where u: "after = u @ after'" "before' = rev u @ before" "u \<noteq> []"
    "is_digit (hd u)" "is_digit (last u)"
    by blast
  then have "at_word after" "at_word before'"
    by (simp_all add: at_word_def digit_word hd_rev)
  with bounds have "\<not> at_word before" "\<not> at_word after'"
    by (simp_all add: at_boundary_word)
  moreover have "list_all digit_or_dot u"
    using matches_over [OF assms [unfolded u(1)] ip_pattern_shape(2)] .
  ultimately show ?thesis
    using u by blast
qed

text \<open>
  What counts as an address in a text, in terms of the text alone: four numbers of one to three
  decimal digits, joined by dots, with no letter, digit or underscore next to them on either side.
\<close>

definition octet_text :: "string \<Rightarrow> bool" where
  "octet_text s \<longleftrightarrow> s \<noteq> [] \<and> length s \<le> 3 \<and> set s \<subseteq> set ''0123456789''"

definition contains_address :: "string \<Rightarrow> bool" where
  "contains_address s \<longleftrightarrow>
     (\<exists>before a b c d after. s = before @ a @ ''.'' @ b @ ''.'' @ c @ ''.'' @ d @ after \<and>
        octet_text a \<and> octet_text b \<and> octet_text c \<and> octet_text d \<and>
        (before = [] \<or> \<not> is_word (last before)) \<and> (after = [] \<or> \<not> is_word (hd after)))"

lemma found_from_iff:
  "found_from r before after \<longleftrightarrow> (\<exists>u v. after = u @ v \<and> matches r (rev u @ before, v, []) \<noteq> [])"
proof (induction r before after rule: found_from.induct)
  case (2 r before c after)
  show ?case
  proof (intro iffI)
    assume "found_from r before (c # after)"
    then consider "matches r (before, c # after, []) \<noteq> []" | "found_from r (c # before) after"
      by auto
    then show "\<exists>u v. c # after = u @ v \<and> matches r (rev u @ before, v, []) \<noteq> []"
    proof cases
      case 1
      then show ?thesis
        by (intro exI [of _ "[]"] exI [of _ "c # after"]) simp
    next
      assume "found_from r (c # before) after"
      with 2 obtain u v where "after = u @ v" "matches r (rev u @ c # before, v, []) \<noteq> []"
        by blast
      then show ?thesis
        by (intro exI [of _ "c # u"] exI [of _ v]) simp
    qed
  next
    assume "\<exists>u v. c # after = u @ v \<and> matches r (rev u @ before, v, []) \<noteq> []"
    then obtain u v where "c # after = u @ v" "matches r (rev u @ before, v, []) \<noteq> []"
      by blast
    with 2 show "found_from r before (c # after)"
      by (cases u) auto
  qed
qed simp

lemma digits: "is_digit c \<longleftrightarrow> c \<in> set ''0123456789''"
proof -
  have eq: "c = d \<longleftrightarrow> code c = code d" for d
    by (simp add: code_def)
  have codes: "code (CHR ''0'') = 48" "code (CHR ''1'') = 49" "code (CHR ''2'') = 50" "code (CHR ''3'') = 51"
    "code (CHR ''4'') = 52" "code (CHR ''5'') = 53" "code (CHR ''6'') = 54" "code (CHR ''7'') = 55"
    "code (CHR ''8'') = 56" "code (CHR ''9'') = 57"
    by (simp_all add: code_def)
  show ?thesis
    unfolding is_digit_def in_range_def list.set insert_iff empty_iff eq codes by arith
qed

lemma octet_text_iff: "octet_text s \<longleftrightarrow> list_all is_digit s \<and> 1 \<le> length s \<and> length s \<le> 3"
proof -
  have "list_all is_digit s \<longleftrightarrow> set s \<subseteq> set ''0123456789''"
    unfolding list_all_iff digits by (rule subset_eq [symmetric])
  moreover have "s \<noteq> [] \<longleftrightarrow> 1 \<le> length s"
    by (cases s) simp_all
  ultimately show ?thesis
    unfolding octet_text_def by (simp only:) blast
qed

lemma boundary_before: "before = [] \<or> \<not> is_word (last before) \<longleftrightarrow> \<not> at_word (rev before)"
  by (simp add: at_word_def hd_rev)

lemma boundary_after: "after = [] \<or> \<not> is_word (hd after) \<longleftrightarrow> \<not> at_word after"
  by (simp add: at_word_def)

lemma octet_match_iff:
  "(before', after', caps') \<in> set (matches octet (before, after, caps)) \<longleftrightarrow>
     (\<exists>a. after = a @ after' \<and> before' = rev a @ before \<and> caps' = caps \<and> octet_text a)"
  unfolding octet_def rep_matches_iff octet_text_iff by auto

lemma dotted_matchI:
  assumes "octet_text a" "octet_text b" "octet_text c" "octet_text d"
  shows "(rev (a @ ''.'' @ b @ ''.'' @ c @ ''.'' @ d) @ before, after, caps) \<in>
    set (matches dotted (before, a @ ''.'' @ b @ ''.'' @ c @ ''.'' @ d @ after, caps))"
proof -
  have octet: "(rev x @ p, q, caps) \<in> set (matches octet (p, x @ q, caps))" if "octet_text x" for x p q
    unfolding octet_match_iff using that by blast
  have rev_dot: "rev ''.'' = ''.''"
    by simp
  have dot: "(''.'' @ p, q, caps) \<in> set (matches (Lit ''.'') (p, ''.'' @ q, caps))" for p q
    unfolding lit_matches_iff by simp
  have seq: "m2 \<in> set (matches (Seq r s) m)" if "m1 \<in> set (matches r m)" "m2 \<in> set (matches s m1)" for m m1 m2 r s
    using that by auto
  show ?thesis
    unfolding dotted_def seqs.simps rev_append append_assoc rev_dot
    using assms by (intro seq [OF octet] seq [OF dot] octet)
qed

lemma dotted_matchE:
  assumes "(before', after', caps') \<in> set (matches dotted (before, after, caps))"
  obtains a b c d where "after = a @ ''.'' @ b @ ''.'' @ c @ ''.'' @ d @ after'"
    "octet_text a" "octet_text b" "octet_text c" "octet_text d"
  using assms
  unfolding dotted_def seqs.simps seq_matches_iff octet_match_iff lit_matches_iff
  by (elim exE conjE) simp

lemma bounded_matches_iff:
  "(before', after', caps') \<in> set (matches (seqs [Boundary, r, Boundary]) (before, after, caps)) \<longleftrightarrow>
     at_boundary before after \<and> at_boundary before' after' \<and>
     (before', after', caps') \<in> set (matches r (before, after, caps))"
proof -
  have boundary: "(b, a, c) \<in> set (matches Boundary (b1, a1, c1)) \<longleftrightarrow>
      at_boundary b1 a1 \<and> b = b1 \<and> a = a1 \<and> c = c1" for b a c b1 a1 c1
    by auto
  show ?thesis
    unfolding seqs.simps seq_matches_iff boundary by blast
qed

text \<open>The program's pattern finds a text exactly when it contains an address.\<close>

lemma address_found: "search ip_pattern s \<longleftrightarrow> contains_address s"
proof (intro iffI)
  assume "search ip_pattern s"
  then obtain u v where s: "s = u @ v" and found: "matches ip_pattern (rev u, v, []) \<noteq> []"
    by (auto simp: search_def found_from_iff simp del: matches.simps)
  obtain before' after' caps' where m: "(before', after', caps') \<in> set (matches ip_pattern (rev u, v, []))"
    using found hd_in_set by (metis prod_cases3)
  then have "(before', after', caps') \<in> set (matches dotted (rev u, v, []))"
    by (auto simp: ip_pattern_def split: if_splits)
  then obtain a b c d where "v = a @ ''.'' @ b @ ''.'' @ c @ ''.'' @ d @ after'"
    "octet_text a" "octet_text b" "octet_text c" "octet_text d"
    by (rule dotted_matchE)
  moreover have "\<not> at_word (rev u)" "\<not> at_word after'"
    using ip_match [OF m] by blast+
  ultimately show "contains_address s"
    unfolding contains_address_def boundary_before boundary_after s by blast
next
  assume "contains_address s"
  then obtain before a b c d after where s: "s = before @ a @ ''.'' @ b @ ''.'' @ c @ ''.'' @ d @ after"
    and octets: "octet_text a" "octet_text b" "octet_text c" "octet_text d"
    and ends: "\<not> at_word (rev before)" "\<not> at_word after"
    unfolding contains_address_def boundary_before boundary_after by blast
  let ?v = "a @ ''.'' @ b @ ''.'' @ c @ ''.'' @ d @ after"
  let ?rest = "rev (a @ ''.'' @ b @ ''.'' @ c @ ''.'' @ d) @ rev before"
  have "a \<noteq> []" "is_digit (hd a)" "d \<noteq> []" "is_digit (last d)"
    using octets(1,4) by (cases a; cases d rule: rev_cases; simp add: octet_text_iff)+
  then have "at_word ?v" "at_word ?rest"
    by (simp_all add: at_word_def digit_word hd_rev)
  with ends have "at_boundary (rev before) ?v" "at_boundary ?rest after"
    by (simp_all add: at_boundary_word)
  moreover note dotted_matchI [OF octets, of "rev before" after "[]"]
  ultimately
  have "(?rest, after, []) \<in> set (matches ip_pattern (rev before, ?v, []))"
    unfolding ip_pattern_def bounded_matches_iff by blast
  then have "matches ip_pattern (rev before, ?v, []) \<noteq> []"
    by (metis empty_iff list.set(1))
  then show "search ip_pattern s"
    unfolding search_def found_from_iff s by (intro exI [of _ before] exI [of _ ?v]) (simp only: append_Nil2 simp_thms)
qed

definition ip_here :: "string \<Rightarrow> string \<Rightarrow> bool" where
  "ip_here before after \<longleftrightarrow> matches ip_pattern (before, after, []) \<noteq> []"

lemma ip_hereE:
  assumes "ip_here before after"
  obtains b u a c where "after = u @ a" "(b, a, c) \<in> set (matches ip_pattern (before, u @ a, []))"
    "u \<noteq> []" "is_digit (hd u)" "is_digit (last u)" "list_all digit_or_dot u" "\<not> at_word before" "\<not> at_word a"
proof -
  from assms obtain b a c where m: "(b, a, c) \<in> set (matches ip_pattern (before, after, []))"
    using hd_in_set by (metis ip_here_def prod_cases3)
  from ip_match [OF this] m that show thesis by auto
qed

lemma ip_nowhere: "\<not> at_word after \<Longrightarrow> \<not> ip_here before after"
  by (auto elim!: ip_hereE simp: at_word_def digit_word)

lemma ip_moves:
  assumes "ip_here before (u @ a)" "(b, a, c) \<in> set (matches ip_pattern (before, u @ a, []))"
    and "at_word before = at_word before2" "at_word a = at_word a2"
  shows "ip_here before2 (u @ a2)"
  using matches_local [OF assms(2) ip_pattern_shape(1) assms(3,4), of "[]"]
  by (auto simp: ip_here_def)

abbreviation ip_placeholder :: string where
  "ip_placeholder \<equiv> ''[IP_ADDRESS]''"

abbreviation without_ip :: "string \<Rightarrow> string \<Rightarrow> string" where
  "without_ip \<equiv> sub_from ip_pattern (\<lambda>_. ip_placeholder)"

lemma without_ip_Cons:
  "without_ip before (c # after) =
     (case matches ip_pattern (before, c # after, []) of
        [] \<Rightarrow> c # without_ip (c # before) after
      | (before', after', _) # _ \<Rightarrow> ip_placeholder @ without_ip before' after')"
proof (cases "matches ip_pattern (before, c # after, [])")
  case (Cons m ms)
  obtain b a cs where m: "m = (b, a, cs)"
    by (cases m)
  then have "(b, a, cs) \<in> set (matches ip_pattern (before, c # after, []))"
    using Cons by simp
  from ip_match [OF this] have "length a \<le> length after"
    by (auto simp: Cons_eq_append_conv)
  with Cons m show ?thesis
    by (simp add: sub_from.simps)
qed (simp add: sub_from.simps)

text \<open>The result agrees with the text up to the first address.\<close>

lemma without_ip_shape:
  "\<exists>u v. after = u @ v \<and>
     (without_ip before after = u \<and> v = [] \<or>
      ip_here (rev u @ before) v \<and> (\<exists>rest. without_ip before after = u @ ip_placeholder @ rest))"
proof (induction after arbitrary: before)
  case Nil
  then show ?case by (simp add: sub_from.simps)
next
  case (Cons c after)
  show ?case
  proof (cases "ip_here before (c # after)")
    case True
    then have "\<exists>rest. without_ip before (c # after) = ip_placeholder @ rest"
      by (auto simp: without_ip_Cons ip_here_def split: list.split)
    with True show ?thesis
      by (intro exI [of _ "[]"] exI [of _ "c # after"]) simp
  next
    case False
    then have "without_ip before (c # after) = c # without_ip (c # before) after"
      by (simp add: without_ip_Cons ip_here_def)
    moreover obtain u v where "after = u @ v" "without_ip (c # before) after = u \<and> v = [] \<or>
        ip_here (rev u @ c # before) v \<and> (\<exists>rest. without_ip (c # before) after = u @ ip_placeholder @ rest)"
      using Cons.IH by blast
    ultimately show ?thesis
      by (intro exI [of _ "c # u"] exI [of _ v]) auto
  qed
qed

lemma no_new_match:
  assumes none: "\<not> ip_here before (c # after)" and same: "at_word ctx = at_word before \<or> \<not> is_digit c"
  shows "\<not> ip_here ctx (c # without_ip (c # before) after)"
proof
  let ?out = "without_ip (c # before) after"
  assume here: "ip_here ctx (c # ?out)"
  then obtain b u a cs where split: "c # ?out = u @ a"
    and m: "(b, a, cs) \<in> set (matches ip_pattern (ctx, u @ a, []))"
    and u: "u \<noteq> []" "is_digit (hd u)" "is_digit (last u)" "list_all digit_or_dot u"
    by (rule ip_hereE)
  then obtain u' where u': "u = c # u'" "?out = u' @ a"
    by (cases u) auto
  have ctx: "at_word ctx = at_word before"
    using same u(2) u'(1) by simp
  have moved: "\<not> at_word a = at_word a2" if "c # after = u @ a2" for a2
    using ip_moves [OF here [unfolded split] m ctx] none that by metis
  obtain x v where after: "after = x @ v" and cases: "?out = x \<and> v = [] \<or>
      ip_here (rev x @ c # before) v \<and> (\<exists>rest. ?out = x @ ip_placeholder @ rest)"
    using without_ip_shape by blast
  show False
    using cases
  proof (elim disjE conjE exE)
    assume "?out = x" "v = []"
    with after u' moved [of a] show False by simp
  next
    fix rest
    assume later: "ip_here (rev x @ c # before) v" and "?out = x @ ip_placeholder @ rest"
    with u'(2) have "u' @ a = x @ ip_placeholder @ rest" by simp
    then obtain us where "u' = x @ us \<and> us @ a = ip_placeholder @ rest \<or>
        x = u' @ us \<and> us \<noteq> [] \<and> a = us @ ip_placeholder @ rest"
      unfolding append_eq_append_conv2 by fastforce
    then show False
    proof (elim disjE conjE)
      assume us: "u' = x @ us" "us @ a = ip_placeholder @ rest"
      have "us = []"
        using us u(4) u'(1) by (cases us) (auto simp: digit_or_dot_def is_digit_def in_range_def code_def)
      with us u'(1) have "u = c # x" by simp
      with u(3) have "at_word (rev x @ c # before)"
        by (cases x rule: rev_cases) (simp_all add: at_word_def digit_word)
      with later show False
        by (auto elim!: ip_hereE)
    next
      assume "x = u' @ us" "us \<noteq> []" "a = us @ ip_placeholder @ rest"
      with after u'(1) moved [of "us @ v"] show False
        by (simp add: at_word_def)
    qed
  qed
qed

lemma found_skip:
  "list_all (\<lambda>c. \<not> is_digit c) s \<Longrightarrow>
     found_from ip_pattern ctx (s @ t) = found_from ip_pattern (rev s @ ctx) t"
proof (induction s arbitrary: ctx)
  case (Cons c s)
  have "\<not> ip_here ctx (c # s @ t)"
    using Cons.prems by (auto elim!: ip_hereE simp: append_eq_Cons_conv Cons_eq_append_conv)
  with Cons show ?case
    by (simp add: ip_here_def)
qed simp

lemma without_ip_clean:
  assumes "at_word ctx = at_word before \<or> \<not> at_word after"
  shows "\<not> found_from ip_pattern ctx (without_ip before after)"
  using assms
proof (induction after arbitrary: ctx before rule: length_induct)
  case (1 after)
  show ?case
  proof (cases after)
    case Nil
    then show ?thesis
      using ip_nowhere [of "[]"] by (simp add: sub_from.simps at_word_def ip_here_def)
  next
    case (Cons c rest)
    show ?thesis
    proof (cases "matches ip_pattern (before, c # rest, [])")
      case Nil
      then have none: "\<not> ip_here before (c # rest)"
        by (simp add: ip_here_def)
      have "at_word ctx = at_word before \<or> \<not> is_digit c"
        using 1(2) Cons by (auto simp: at_word_def digit_word)
      from no_new_match [OF none this] 1(1) Cons Nil show ?thesis
        by (simp add: without_ip_Cons ip_here_def at_word_def)
    next
      case (Cons m ms)
      obtain b a cs where m: "m = (b, a, cs)"
        by (cases m)
      then have "(b, a, cs) \<in> set (matches ip_pattern (before, c # rest, []))"
        using Cons by simp
      from ip_match [OF this] obtain u where u: "c # rest = u @ a" "u \<noteq> []" "\<not> at_word a"
        by blast
      from arg_cong [OF u(1), of length] u(2,3) have a: "\<not> at_word a" "length a < length (c # rest)"
        by simp_all
      then have "\<not> found_from ip_pattern (rev ip_placeholder @ ctx) (without_ip b a)"
        using 1(1) \<open>after = c # rest\<close> by blast
      then have "\<not> found_from ip_pattern ctx (ip_placeholder @ without_ip b a)"
        by (subst found_skip) (simp_all add: is_digit_def in_range_def code_def)
      with Cons m \<open>after = c # rest\<close> show ?thesis
        by (simp add: without_ip_Cons)
    qed
  qed
qed

lemma redacted_text_clean: "\<not> search ip_pattern (redact_text text h)"
  unfolding search_def redact_text_def sub_def by (rule without_ip_clean) simp


subsection \<open>Payloads\<close>

text \<open>Every string value of a payload; those outside the sensitive members; and payloads that
  differ in sensitive members only.\<close>

fun texts :: "json \<Rightarrow> string list"
  and texts_items :: "json list \<Rightarrow> string list"
  and texts_members :: "(string \<times> json) list \<Rightarrow> string list" where
  "texts (JStr s) = [s]"
| "texts (JList js) = texts_items js"
| "texts (JObj ms) = texts_members ms"
| "texts _ = []"
| "texts_items [] = []"
| "texts_items (j # js) = texts j @ texts_items js"
| "texts_members [] = []"
| "texts_members ((k, j) # ms) = texts j @ texts_members ms"

fun exposed :: "json \<Rightarrow> string list"
  and exposed_items :: "json list \<Rightarrow> string list"
  and exposed_members :: "(string \<times> json) list \<Rightarrow> string list" where
  "exposed (JStr s) = [s]"
| "exposed (JList js) = exposed_items js"
| "exposed (JObj ms) = exposed_members ms"
| "exposed _ = []"
| "exposed_items [] = []"
| "exposed_items (j # js) = exposed j @ exposed_items js"
| "exposed_members [] = []"
| "exposed_members ((k, j) # ms) = (if placeholder_for_key k = None then exposed j else []) @ exposed_members ms"

fun agree :: "json \<Rightarrow> json \<Rightarrow> bool"
  and agree_items :: "json list \<Rightarrow> json list \<Rightarrow> bool"
  and agree_members :: "(string \<times> json) list \<Rightarrow> (string \<times> json) list \<Rightarrow> bool" where
  "agree (JList js) (JList js') = agree_items js js'"
| "agree (JObj ms) (JObj ms') = agree_members ms ms'"
| "agree j j' = (j = j')"
| "agree_items [] [] = True"
| "agree_items (j # js) (j' # js') = (agree j j' \<and> agree_items js js')"
| "agree_items _ _ = False"
| "agree_members [] [] = True"
| "agree_members ((k, j) # ms) ((k', j') # ms') =
     (k = k' \<and> (if placeholder_for_key k = None then agree j j' else (j = JNull) = (j' = JNull)) \<and>
      agree_members ms ms')"
| "agree_members _ _ = False"

definition digitless :: "string option \<Rightarrow> bool" where
  "digitless x \<longleftrightarrow> (case x of None \<Rightarrow> True | Some p \<Rightarrow> list_all (\<lambda>c. \<not> is_digit c) p)"

lemma digitless_if: "digitless a \<Longrightarrow> digitless b \<Longrightarrow> digitless (if c then a else b)"
  by simp

lemma digitless_placeholder: "digitless (placeholder_for_key k)"
  unfolding placeholder_for_key_def Let_def
  by (intro digitless_if) (simp_all add: digitless_def is_digit_def in_range_def code_def)

lemma placeholder_has_no_digit:
  "placeholder_for_key k = Some p \<Longrightarrow> list_all (\<lambda>c. \<not> is_digit c) p"
  using digitless_placeholder [of k] by (simp add: digitless_def)

lemma placeholder_is_clean: "placeholder_for_key k = Some p \<Longrightarrow> \<not> search ip_pattern p"
  using found_skip [of p "[]" "[]"] ip_nowhere [of "[]"] placeholder_has_no_digit [of k p]
  by (simp add: search_def ip_here_def at_word_def)

abbreviation no_ip :: "string \<Rightarrow> bool" where
  "no_ip \<equiv> \<lambda>s. \<not> search ip_pattern s"

lemma sanitized_texts:
  "list_all no_ip (texts (rd_value (sanitize_value h j)))"
  "list_all no_ip (texts_items (fst (sanitize_items h js)))"
  "list_all no_ip (texts_members (fst (sanitize_members h ms)))"
proof (induction h j and h js and h ms rule: sanitize_value_sanitize_items_sanitize_members.induct)
  case (1 h s)
  show ?case by (simp add: json_redaction_def sanitize_string_def redacted_text_clean Let_def)
qed (auto simp: json_redaction_def Let_def placeholder_is_clean split: prod.splits option.splits)

lemma agreeing_payloads:
  "agree j j' \<Longrightarrow> sanitize_value h j = sanitize_value h j'"
  "agree_items js js' \<Longrightarrow> sanitize_items h js = sanitize_items h js'"
  "agree_members ms ms' \<Longrightarrow> sanitize_members h ms = sanitize_members h ms'"
  by (induction j j' and js js' and ms ms' rule: agree_agree_items_agree_members.induct)
    (auto simp: Let_def split: if_splits option.splits)

lemma unapplied_is_unchanged:
  "\<not> rd_applied (sanitize_value h j) \<Longrightarrow> rd_value (sanitize_value h j) = j"
  "\<not> fst (snd (sanitize_items h js)) \<Longrightarrow> fst (sanitize_items h js) = js"
  "\<not> fst (snd (sanitize_members h ms)) \<Longrightarrow> fst (sanitize_members h ms) = ms"
  by (induction h j and h js and h ms rule: sanitize_value_sanitize_items_sanitize_members.induct)
    (auto simp: json_redaction_def sanitize_string_def Let_def split: prod.splits option.splits if_splits)

lemma reported_safe:
  "rd_verified_safe (sanitize_value h j) \<Longrightarrow> list_all (\<lambda>s. string_is_safe s h) (exposed j)"
  "snd (snd (sanitize_items h js)) \<Longrightarrow> list_all (\<lambda>s. string_is_safe s h) (exposed_items js)"
  "snd (snd (sanitize_members h ms)) \<Longrightarrow> list_all (\<lambda>s. string_is_safe s h) (exposed_members ms)"
  by (induction h j and h js and h ms rule: sanitize_value_sanitize_items_sanitize_members.induct)
    (auto simp: json_redaction_def sanitize_string_def Let_def split: prod.splits option.splits if_splits)

text \<open>C30: Whatever a payload holds, no string value of the redacted payload contains a dotted IPv4
  address that stands apart from letters, digits and underscores: four numbers of one to three
  digits joined by dots, neither one that was there nor one that the replacements of other secrets
  put together. An address glued to such a character, as in \<open>ip_10.0.0.1\<close>, is left as it is, and
  keys are not touched.\<close>

theorem redacted_payload_has_no_address:
  "list_all (\<lambda>s. \<not> contains_address s) (texts (redact_payload j h))"
  unfolding redact_payload_def address_found [symmetric] by (rule sanitized_texts)

text \<open>C31: What is stored under a sensitive key has no influence on the redacted payload: payloads
  that differ only there, by any values that are not null, are redacted to the same payload and
  reported alike.\<close>

theorem secrets_do_not_interfere:
  assumes "agree j j'"
  shows "sanitize_value h j = sanitize_value h j'"
  using assms by (rule agreeing_payloads)

theorem secrets_do_not_interfere_witness:
  "sanitize_value None (JObj [(''db_password'', JStr ''hunter2''), (''port'', JInt 22)]) =
     sanitize_value None (JObj [(''db_password'', JList [JInt 1]), (''port'', JInt 22)])"
proof (rule secrets_do_not_interfere)
  have "placeholder_for_key ''db_password'' \<noteq> None" "placeholder_for_key ''port'' = None"
    by code_simp+
  then show "agree (JObj [(''db_password'', JStr ''hunter2''), (''port'', JInt 22)])
      (JObj [(''db_password'', JList [JInt 1]), (''port'', JInt 22)])"
    by simp
qed

text \<open>The report of a redaction is truthful: what is reported as untouched is the payload as it
  was, and in what is reported as safe no text outside the sensitive members matches any of the
  patterns for secrets, identities, addresses or the host.\<close>

theorem redaction_report_is_truthful:
  "(\<not> rd_applied (sanitize_value h j) \<longrightarrow> redact_payload j h = j) \<and>
   (rd_verified_safe (sanitize_value h j) \<longrightarrow> list_all (\<lambda>s. string_is_safe s h) (exposed j))"
  unfolding redact_payload_def by (intro conjI impI unapplied_is_unchanged reported_safe)

theorem redaction_report_is_truthful_witness:
  "redact_payload (JObj [(''state'', JStr ''up'')]) None = JObj [(''state'', JStr ''up'')] \<and>
   string_is_safe ''up'' None"
proof -
  have report: "\<not> rd_applied (sanitize_value None (JObj [(''state'', JStr ''up'')]))"
    "rd_verified_safe (sanitize_value None (JObj [(''state'', JStr ''up'')]))"
    by code_simp+
  have "placeholder_for_key ''state'' = None"
    by code_simp
  then show ?thesis
    using redaction_report_is_truthful [of None "JObj [(''state'', JStr ''up'')]"] report by simp
qed

subsection \<open>Log events\<close>

text \<open>The texts of a redacted event are its redacted texts.\<close>

lemma payload_keys_plain:
  "list_all (\<lambda>k. placeholder_for_key k = None)
     [''before_value'', ''after_value'', ''stdout'', ''stderr'', ''raw_output'', ''command_description'',
      ''source'', ''correlation_ids'']"
  by code_simp

lemma sanitized_ids:
  "\<exists>f. fst (sanitize_members h (map (\<lambda>(k, v). (k, JStr v)) ids)) =
     map (\<lambda>(k, v). (k, JStr (f k v))) ids"
proof (intro exI)
  show "fst (sanitize_members h (map (\<lambda>(k, v). (k, JStr v)) ids)) =
      map (\<lambda>(k, v). (k, JStr (case placeholder_for_key k of
        Some p \<Rightarrow> p | None \<Rightarrow> rd_value (sanitize_string v h)))) ids"
    by (induction ids) (auto simp: json_redaction_def Let_def split: prod.splits option.splits)
qed

lemma sanitized_members_plain:
  "list_all (\<lambda>(k, _). placeholder_for_key k = None) ms \<Longrightarrow>
     fst (sanitize_members h ms) = map (\<lambda>(k, j). (k, rd_value (sanitize_value h j))) ms"
  by (induction ms) (auto simp: Let_def split: prod.splits)

lemma sanitized_event_members:
  "fst (sanitize_members h (event_payload e)) =
     map (\<lambda>(k, j). (k, rd_value (sanitize_value h j))) (event_payload e)"
  by (rule sanitized_members_plain)
    (use payload_keys_plain in \<open>simp only: event_payload_def list.pred_inject prod.case simp_thms\<close>)

lemma sanitized_event_fields:
  "l_before_value (sanitize_log_event e h) = rd_value (sanitize_value h (l_before_value e))"
  "l_after_value (sanitize_log_event e h) = rd_value (sanitize_value h (l_after_value e))"
  "l_stdout (sanitize_log_event e h) = rd_value (sanitize_string (l_stdout e) h)"
  "l_stderr (sanitize_log_event e h) = rd_value (sanitize_string (l_stderr e) h)"
  "l_raw_output (sanitize_log_event e h) = rd_value (sanitize_string (l_raw_output e) h)"
  "l_source (sanitize_log_event e h) = rd_value (sanitize_string (l_source e) h)"
  "opt_json (l_command_description (sanitize_log_event e h)) =
     rd_value (sanitize_value h (opt_json (l_command_description e)))"
proof -
  let ?d = "map (\<lambda>(k, j). (k, rd_value (sanitize_value h j))) (event_payload e)"
  have d: "rd_value (sanitize_value h (JObj (event_payload e))) = JObj ?d"
    by (simp add: json_redaction_def split_beta Let_def sanitized_event_members)
  show "l_before_value (sanitize_log_event e h) = rd_value (sanitize_value h (l_before_value e))"
    "l_after_value (sanitize_log_event e h) = rd_value (sanitize_value h (l_after_value e))"
    "l_stdout (sanitize_log_event e h) = rd_value (sanitize_string (l_stdout e) h)"
    "l_stderr (sanitize_log_event e h) = rd_value (sanitize_string (l_stderr e) h)"
    "l_raw_output (sanitize_log_event e h) = rd_value (sanitize_string (l_raw_output e) h)"
    "l_source (sanitize_log_event e h) = rd_value (sanitize_string (l_source e) h)"
    unfolding sanitize_log_event_def Let_def d
    by (simp_all add: event_payload_def text_member_def json_redaction_def Let_def)
  show "opt_json (l_command_description (sanitize_log_event e h)) =
     rd_value (sanitize_value h (opt_json (l_command_description e)))"
    unfolding sanitize_log_event_def Let_def d
    by (cases "l_command_description e")
      (simp_all add: event_payload_def opt_json_def json_redaction_def Let_def)
qed

lemma sanitized_event_ids:
  "JObj (map (\<lambda>(k, v). (k, JStr v)) (l_correlation_ids (sanitize_log_event e h))) =
     rd_value (sanitize_value h (JObj (map (\<lambda>(k, v). (k, JStr v)) (l_correlation_ids e))))"
proof -
  let ?d = "map (\<lambda>(k, j). (k, rd_value (sanitize_value h j))) (event_payload e)"
  have d: "rd_value (sanitize_value h (JObj (event_payload e))) = JObj ?d"
    by (simp add: json_redaction_def split_beta Let_def sanitized_event_members)
  obtain f where "fst (sanitize_members h (map (\<lambda>(k, v). (k, JStr v)) (l_correlation_ids e))) =
      map (\<lambda>(k, v). (k, JStr (f k v))) (l_correlation_ids e)"
    using sanitized_ids by blast
  then have ids: "rd_value (sanitize_value h (JObj (map (\<lambda>(k, v). (k, JStr v)) (l_correlation_ids e)))) =
      JObj (map (\<lambda>(k, v). (k, JStr (f k v))) (l_correlation_ids e))"
    by (simp add: json_redaction_def split_beta Let_def)
  have again: "map (\<lambda>(k, v). (k, JStr v)) (map (\<lambda>(k, j). (k, case j of JStr s \<Rightarrow> s | _ \<Rightarrow> []))
      (map (\<lambda>(k, v). (k, JStr (f k v))) xs)) = map (\<lambda>(k, v). (k, JStr (f k v))) xs" for xs
    by (induction xs) auto
  have "dict_get ?d ''correlation_ids'' =
      Some (rd_value (sanitize_value h (JObj (map (\<lambda>(k, v). (k, JStr v)) (l_correlation_ids e)))))"
    by (simp add: event_payload_def del: sanitize_value.simps)
  then have "l_correlation_ids (sanitize_log_event e h) =
      map (\<lambda>(k, j). (k, case j of JStr s \<Rightarrow> s | _ \<Rightarrow> []))
        (map (\<lambda>(k, v). (k, JStr (f k v))) (l_correlation_ids e))"
    unfolding sanitize_log_event_def Let_def d ids by (simp del: map_map)
  then show ?thesis
    unfolding ids by (simp only: again)
qed

lemma sanitized_payload: "event_payload (sanitize_log_event e h) = fst (sanitize_members h (event_payload e))"
  unfolding sanitized_event_members
  unfolding event_payload_def list.map prod.case sanitized_event_fields sanitized_event_ids
  by (simp add: json_redaction_def Let_def)

lemma sanitized_mark:
  "l_redacted (sanitize_log_event e h) \<longleftrightarrow>
     rd_applied (sanitize_value h (JObj (event_payload e))) \<or>
     rd_verified_safe (sanitize_value h (JObj (event_payload e)))"
  by (simp add: sanitize_log_event_def Let_def)

text \<open>Something is stored under a sensitive key: what redaction replaces whatever it is.\<close>

fun withheld :: "json \<Rightarrow> bool"
  and withheld_items :: "json list \<Rightarrow> bool"
  and withheld_members :: "(string \<times> json) list \<Rightarrow> bool" where
  "withheld (JList js) = withheld_items js"
| "withheld (JObj ms) = withheld_members ms"
| "withheld _ = False"
| "withheld_items [] = False"
| "withheld_items (j # js) = (withheld j \<or> withheld_items js)"
| "withheld_members [] = False"
| "withheld_members ((k, j) # ms) =
     ((if placeholder_for_key k = None then withheld j else j \<noteq> JNull) \<or> withheld_members ms)"

lemma unapplied_iff:
  "\<not> rd_applied (sanitize_value h j) \<longleftrightarrow> \<not> withheld j \<and> rd_value (sanitize_value h j) = j"
  "\<not> fst (snd (sanitize_items h js)) \<longleftrightarrow> \<not> withheld_items js \<and> fst (sanitize_items h js) = js"
  "\<not> fst (snd (sanitize_members h ms)) \<longleftrightarrow> \<not> withheld_members ms \<and> fst (sanitize_members h ms) = ms"
  by (induction h j and h js and h ms rule: sanitize_value_sanitize_items_sanitize_members.induct)
    (auto simp: json_redaction_def sanitize_string_def Let_def split: prod.splits option.splits)

lemma unapplied_safe_iff:
  "\<not> rd_applied (sanitize_value h j) \<Longrightarrow>
     rd_verified_safe (sanitize_value h j) \<longleftrightarrow> list_all (\<lambda>s. string_is_safe s h) (exposed j)"
  "\<not> fst (snd (sanitize_items h js)) \<Longrightarrow>
     snd (snd (sanitize_items h js)) \<longleftrightarrow> list_all (\<lambda>s. string_is_safe s h) (exposed_items js)"
  "\<not> fst (snd (sanitize_members h ms)) \<Longrightarrow>
     snd (snd (sanitize_members h ms)) \<longleftrightarrow> list_all (\<lambda>s. string_is_safe s h) (exposed_members ms)"
  by (induction h j and h js and h ms rule: sanitize_value_sanitize_items_sanitize_members.induct)
    (auto simp: json_redaction_def sanitize_string_def Let_def split: prod.splits option.splits if_splits)

lemma equal_events:
  assumes "event_payload a = event_payload b"
  shows "b\<lparr>l_before_value := l_before_value a, l_after_value := l_after_value a, l_stdout := l_stdout a,
      l_stderr := l_stderr a, l_raw_output := l_raw_output a,
      l_command_description := l_command_description a, l_source := l_source a,
      l_correlation_ids := l_correlation_ids a\<rparr> = b"
proof -
  have inj: "inj (\<lambda>(k, v). (k, JStr v))"
    by (auto intro: injI)
  from assms have "l_before_value a = l_before_value b" "l_after_value a = l_after_value b"
    "l_stdout a = l_stdout b" "l_stderr a = l_stderr b" "l_raw_output a = l_raw_output b"
    "opt_json (l_command_description a) = opt_json (l_command_description b)" "l_source a = l_source b"
    "l_correlation_ids a = l_correlation_ids b"
    by (auto simp: event_payload_def inj_map_eq_map [OF inj])
  moreover from this have "l_command_description a = l_command_description b"
    by (simp add: opt_json_def split: option.splits)
  ultimately show ?thesis by simp
qed

lemma sanitized_fields:
  "sanitize_log_event e h =
     e\<lparr>l_before_value := l_before_value (sanitize_log_event e h),
       l_after_value := l_after_value (sanitize_log_event e h),
       l_stdout := l_stdout (sanitize_log_event e h), l_stderr := l_stderr (sanitize_log_event e h),
       l_raw_output := l_raw_output (sanitize_log_event e h),
       l_command_description := l_command_description (sanitize_log_event e h),
       l_source := l_source (sanitize_log_event e h),
       l_correlation_ids := l_correlation_ids (sanitize_log_event e h),
       l_redacted := l_redacted (sanitize_log_event e h)\<rparr>"
  by (simp add: sanitize_log_event_def Let_def)

definition leaking_event :: structured_log_event where
  "leaking_event = (log_event ''event-1'' (Aware 0) sample_host ''ssh_command'' ''system'' ''ok'')
     \<lparr>l_stdout := ''token=x''\<rparr>"

definition marked_event :: structured_log_event where
  "marked_event = leaking_event\<lparr>l_stdout := ''token=[TOKEN]'', l_redacted := True\<rparr>"

lemma first_pass: "sanitize_log_event leaking_event (Some sample_host) = marked_event"
  by code_simp

lemma second_pass: "\<not> l_redacted (sanitize_log_event marked_event (Some sample_host))"
  by code_simp

text \<open>C32: When a redaction loses the mark of an event that was redacted before. Log events are
  redacted where they are collected or parsed and again where the service saves them. For every
  event and host, the second pass records the redacted event as not redacted exactly when it finds
  nothing under a sensitive key, changes nothing, and some text still matches one of the patterns;
  then the mark is all that changes. The placeholders of the first pass are such texts: the event
  whose output was \<open>token=x\<close> is stored as \<open>token=[TOKEN]\<close> and as not redacted.\<close>

theorem second_redaction_loses_the_mark:
  "(let e1 = sanitize_log_event e h; payload = JObj (event_payload e1); e2 = sanitize_log_event e1 h in
      (l_redacted e2 \<longleftrightarrow> withheld payload \<or> redact_payload payload h \<noteq> payload \<or>
         list_all (\<lambda>s. string_is_safe s h) (exposed payload)) \<and>
      (l_redacted e2 \<or> e2 = e1\<lparr>l_redacted := False\<rparr>)) \<and>
   (let e1 = sanitize_log_event leaking_event (Some sample_host) in
      l_redacted e1 \<and> l_stdout e1 = ''token=[TOKEN]'' \<and>
      sanitize_log_event e1 (Some sample_host) = e1\<lparr>l_redacted := False\<rparr>)"
proof -
  have mark: "l_redacted (sanitize_log_event x h) \<longleftrightarrow> withheld (JObj (event_payload x)) \<or>
      redact_payload (JObj (event_payload x)) h \<noteq> JObj (event_payload x) \<or>
      list_all (\<lambda>s. string_is_safe s h) (exposed (JObj (event_payload x)))" for x h
    unfolding sanitized_mark redact_payload_def
    using unapplied_iff(1) [of h "JObj (event_payload x)"] unapplied_safe_iff(1) [of h "JObj (event_payload x)"]
    by blast
  have kept: "sanitize_log_event x h = x\<lparr>l_redacted := False\<rparr>" if "\<not> l_redacted (sanitize_log_event x h)" for x h
  proof -
    from that have "rd_value (sanitize_value h (JObj (event_payload x))) = JObj (event_payload x)"
      using mark by (simp add: redact_payload_def)
    then have "event_payload (sanitize_log_event x h) = event_payload x"
      by (simp add: sanitized_payload json_redaction_def split_beta Let_def)
    note same = equal_events [OF this]
    have "sanitize_log_event x h = (x\<lparr>l_before_value := l_before_value (sanitize_log_event x h),
       l_after_value := l_after_value (sanitize_log_event x h),
       l_stdout := l_stdout (sanitize_log_event x h), l_stderr := l_stderr (sanitize_log_event x h),
       l_raw_output := l_raw_output (sanitize_log_event x h),
       l_command_description := l_command_description (sanitize_log_event x h),
       l_source := l_source (sanitize_log_event x h),
       l_correlation_ids := l_correlation_ids (sanitize_log_event x h)\<rparr>)
       \<lparr>l_redacted := l_redacted (sanitize_log_event x h)\<rparr>"
      by (subst sanitized_fields) (rule refl)
    with that show ?thesis
      unfolding same by simp
  qed
  let ?e1 = "sanitize_log_event e h"
  have "sanitize_log_event marked_event (Some sample_host) = marked_event\<lparr>l_redacted := False\<rparr>"
    by (rule kept) (rule second_pass)
  moreover have "l_redacted marked_event" "l_stdout marked_event = ''token=[TOKEN]''"
    by (simp_all add: marked_event_def)
  moreover have "l_redacted (sanitize_log_event ?e1 h) \<or> sanitize_log_event ?e1 h = ?e1\<lparr>l_redacted := False\<rparr>"
    using kept by blast
  ultimately show ?thesis
    unfolding Let_def first_pass using mark [of ?e1 h] by blast
qed

theorem second_redaction_loses_the_mark_witness:
  "\<not> l_redacted (sanitize_log_event marked_event (Some sample_host)) \<and>
   redact_payload (JObj (event_payload marked_event)) (Some sample_host) = JObj (event_payload marked_event)"
  using second_redaction_loses_the_mark [of leaking_event "Some sample_host"]
  by (simp add: Let_def first_pass second_pass)

end
