(* ===== verification/PyFloat.thy ===== *)
theory PyFloat
  imports Models PyText
begin

text \<open>
  \<open>float(text)\<close> and \<open>round(x, 1)\<close>. A float is a real, so results carry no rounding error. The
  spellings of infinity and of NaN are not covered: they are read as no number.
\<close>

definition signed_digits :: "string \<Rightarrow> int option" where
  "signed_digits s =
     (case s of
        [] \<Rightarrow> None
      | c # t \<Rightarrow>
          if c = CHR ''-'' then map_option (\<lambda>ds. - int (digits_val ds)) (digit_groups t)
          else if c = CHR ''+'' then map_option (\<lambda>ds. int (digits_val ds)) (digit_groups t)
          else map_option (\<lambda>ds. int (digits_val ds)) (digit_groups s))"

text \<open>The digits before or after the point; either may be missing.\<close>

definition digits_or_none :: "string \<Rightarrow> string option" where
  "digits_or_none s = (if s = [] then Some [] else digit_groups s)"

definition is_exponent_mark :: "char \<Rightarrow> bool" where
  "is_exponent_mark c \<longleftrightarrow> c = CHR ''e'' \<or> c = CHR ''E''"

definition unsigned_float :: "string \<Rightarrow> real option" where
  "unsigned_float s =
     (let (whole, _, fraction) = partition_at (CHR ''.'') (takeWhile (\<lambda>c. \<not> is_exponent_mark c) s);
          exponent = (case dropWhile (\<lambda>c. \<not> is_exponent_mark c) s of
                        [] \<Rightarrow> Some 0 | _ # digits \<Rightarrow> signed_digits digits)
      in if whole = [] \<and> fraction = [] then None
         else case (digits_or_none whole, digits_or_none fraction, exponent) of
           (Some ws, Some fs, Some e) \<Rightarrow>
             Some (real (digits_val (ws @ fs)) * 10 powi (e - int (length fs)))
         | _ \<Rightarrow> None)"

definition py_float :: "string \<Rightarrow> real option" where
  "py_float s =
     (case strip s of
        [] \<Rightarrow> None
      | c # t \<Rightarrow>
          if c = CHR ''-'' then map_option uminus (unsigned_float t)
          else if c = CHR ''+'' then unsigned_float t
          else unsigned_float (c # t))"

text \<open>To the nearest tenth, ties to the even one.\<close>

definition round_tenth :: "real \<Rightarrow> real" where
  "round_tenth x =
     (let f = \<lfloor>x * 10\<rfloor>; d = x * 10 - of_int f;
          n = (if d < 1/2 then f else if 1/2 < d then f + 1 else if even f then f else f + 1)
      in of_int n / 10)"

lemma round_tenth_near: "\<bar>round_tenth x - x\<bar> \<le> 1/20"
proof -
  define f where "f = \<lfloor>x * 10\<rfloor>"
  define n where "n = (let d = x * 10 - of_int f in
    if d < 1/2 then f else if 1/2 < d then f + 1 else if even f then f else f + 1)"
  have "of_int f \<le> x * 10" "x * 10 < of_int f + 1"
    by (simp_all add: f_def)
  then have "\<bar>of_int n - x * 10\<bar> \<le> 1/2"
    by (auto simp: n_def Let_def abs_le_iff)
  moreover have "round_tenth x = of_int n / 10"
    by (simp add: round_tenth_def n_def f_def Let_def)
  ultimately show ?thesis
    by linarith
qed

end
