(* ===== verification/Callback.thy ===== *)
theory Callback
  imports PyFloat Redaction
begin

text \<open>
  The ansible callback plugin (\<open>ai_jsonl.py\<close>): one line of JSON per finished task, with what the
  task returned redacted and bounded. It runs inside ansible and cannot import the service, so it
  has copies of the patterns and helpers of \<open>redaction.py\<close>; they are translated here from the
  plugin's own source, and \<open>CallbackProperties\<close> compares them with the service's.

  What ansible hands over is data: a task's name, id, action and host and the dictionary it
  returned. The readings of the clocks, the id of the event, the environment variables and
  \<open>bytes.decode\<close> are parameters. JSON texts have no floats.
\<close>

record task_outcome =
  tk_name :: string
  tk_uuid :: string
  tk_action :: "string option"
  tk_host :: string
  tk_result :: details

record callback_env =
  kb_environ :: "(string, string) dict"
  kb_id :: string
  kb_timestamp :: string
  kb_monotonic :: real             \<comment> \<open>when the result is recorded\<close>
  kb_monotonic_default :: real     \<comment> \<open>read next, used for a task that was not seen to start\<close>
  kb_decode :: "string \<Rightarrow> string"

record callback =
  cb_event_file :: "string option"
  cb_started :: "(string, real) dict"

subsection \<open>Patterns\<close>

definition callback_private_key_pattern :: re where
  "callback_private_key_pattern = seqs
     [Lit ''-----BEGIN '', many (\<lambda>c. is_upper c \<or> c = CHR '' '') 0, Lit ''PRIVATE KEY-----'',
      Rep False (\<lambda>_. True) 0 None,
      Lit ''-----END '', many (\<lambda>c. is_upper c \<or> c = CHR '' '') 0, Lit ''PRIVATE KEY-----'']"

definition callback_email_pattern :: re where
  "callback_email_pattern = seqs
     [Boundary, many (alnum_or ''._%+-'') 1, Lit ''@'', many (alnum_or ''.-'') 1, Lit ''.'',
      many is_alpha 2, Boundary]"

definition callback_ip_pattern :: re where
  "callback_ip_pattern = seqs
     [Boundary, seqs
        [Rep True is_digit 1 (Some 3), Lit ''.'', Rep True is_digit 1 (Some 3), Lit ''.'',
         Rep True is_digit 1 (Some 3), Lit ''.'', Rep True is_digit 1 (Some 3)], Boundary]"

definition callback_authorization_header_pattern :: re where
  "callback_authorization_header_pattern = seqs
     [Boundary, LitI ''authorization'', Boundary, many is_space 0,
      Group 1 (one (\<lambda>c. c = CHR '':'' \<or> c = CHR ''='')), many is_space 0,
      optional (alts [LitI ''bearer'', LitI ''basic'', LitI ''token'']), many is_space 0,
      many (\<lambda>c. \<not> is_space c \<and> c \<noteq> CHR '','' \<and> c \<noteq> CHR '';'') 1]"

definition callback_bearer_token_pattern :: re where
  "callback_bearer_token_pattern = seqs
     [Boundary, LitI ''bearer'', many is_space 1, many (alnum_or ''._~+/=-'') 8]"

text \<open>What both assignment patterns end with: the separator and a quoted or a bare value.\<close>

definition callback_assignment :: "re list" where
  "callback_assignment =
     [Boundary, many is_space 0, Group 2 (one (\<lambda>c. c = CHR '':'' \<or> c = CHR ''='')), many is_space 0,
      Group 3 (alts
        [seqs [one (\<lambda>c. c = CHR 0x22), many (\<lambda>c. c \<noteq> CHR 0x22) 0, one (\<lambda>c. c = CHR 0x22)],
         seqs [one (\<lambda>c. c = CHR 0x27), many (\<lambda>c. c \<noteq> CHR 0x27) 0, one (\<lambda>c. c = CHR 0x27)],
         many (\<lambda>c. \<not> is_space c \<and> c \<noteq> CHR '','' \<and> c \<noteq> CHR '';'') 1])]"

definition callback_key_value_secret_pattern :: re where
  "callback_key_value_secret_pattern = seqs
     ([Boundary,
       Group 1 (alts
         [LitI ''password'', LitI ''passwd'', LitI ''passphrase'', LitI ''secret'', LitI ''token'',
          seqs [LitI ''api'', optional (one (\<lambda>c. c = CHR ''_'' \<or> c = CHR ''-'')), LitI ''key''],
          seqs [LitI ''access'', optional (one (\<lambda>c. c = CHR ''_'' \<or> c = CHR ''-'')), LitI ''key''],
          seqs [LitI ''client'', optional (one (\<lambda>c. c = CHR ''_'' \<or> c = CHR ''-'')), LitI ''secret'']])] @
      callback_assignment)"

definition callback_identity_key_value_pattern :: re where
  "callback_identity_key_value_pattern = seqs
     ([Boundary,
       Group 1 (alts [LitI ''hostname'', LitI ''host'', LitI ''user'', LitI ''username'',
                      LitI ''login'', LitI ''address''])] @
      callback_assignment)"

definition callback_api_key_patterns :: "re list" where
  "callback_api_key_patterns =
     [seqs [Boundary, Lit ''sk-'', many (alnum_or ''_-'') 16, Boundary],
      seqs [Boundary, Lit ''gh'', one (\<lambda>c. c \<in> set ''pousr''), Lit ''_'', many (alnum_or []) 20, Boundary],
      seqs [Boundary, alts [Lit ''AKIA'', Lit ''ASIA''],
            Rep True (\<lambda>c. is_upper c \<or> is_digit c) 16 (Some 16), Boundary],
      seqs [Boundary, Lit ''AIza'', Rep True (alnum_or ''-_'') 35 (Some 35), Boundary],
      seqs [Boundary, Lit ''xox'', one (\<lambda>c. c \<in> set ''baprs''), Lit ''-'', many (alnum_or ''-'') 10, Boundary]]"

subsection \<open>Redaction\<close>

definition sensitive_keys :: "string list" where
  "sensitive_keys =
     [''password'', ''passwd'', ''passphrase'', ''private_key'', ''secret'', ''token'',
      ''authorization'', ''api_key'', ''access_key'', ''client_secret'', ''email'', ''username'',
      ''hostname'', ''address'']"

definition callback_placeholder :: "string \<Rightarrow> string" where
  "callback_placeholder key =
     (let k = lower key; has = (\<lambda>t. str_in t k) in
      if has ''private_key'' \<or> has ''private-key'' \<or> has ''ssh_key'' then ''[PRIVATE_KEY]''
      else if has ''authorization'' \<or> k = ''auth_header'' then ''[AUTHORIZATION]''
      else if has ''bearer'' \<and> has ''token'' then ''[BEARER_TOKEN]''
      else if has ''password'' \<or> has ''passwd'' \<or> has ''passphrase'' then ''[PASSWORD]''
      else if has ''api_key'' \<or> k = ''apikey'' then ''[API_KEY]''
      else if has ''access_key'' then ''[API_KEY]''
      else if has ''client_secret'' \<or> k = ''secret'' then ''[SECRET]''
      else if k = ''token'' \<or> ends_with k ''_token'' then ''[TOKEN]''
      else if has ''email'' then ''[EMAIL]''
      else if k \<in> {''username'', ''user'', ''login''} \<or> ends_with k ''_username'' then ''[USERNAME]''
      else if has ''hostname'' \<or> ends_with k ''_hostname'' \<or> k = ''host_name'' then ''[HOSTNAME]''
      else if has ''address'' \<or> k \<in> {''ip'', ''ip_address''} then ''[ADDRESS]''
      else ''[REDACTED]'')"

definition callback_preserve_quotes :: "string \<Rightarrow> string \<Rightarrow> string" where
  "callback_preserve_quotes value placeholder =
     (if 2 \<le> length value \<and> hd value = last value \<and> hd value \<in> {CHR 0x27, CHR 0x22}
      then hd value # placeholder @ [hd value] else placeholder)"

definition callback_replace_secret :: "position \<Rightarrow> string" where
  "callback_replace_secret m =
     group 1 m @ group 2 m @ callback_preserve_quotes (group 3 m) (callback_placeholder (group 1 m))"

definition callback_identity_placeholder :: "string \<Rightarrow> string" where
  "callback_identity_placeholder key =
     (case map_of
        [(''hostname'', ''[HOSTNAME]''), (''host'', ''[HOSTNAME]''), (''user'', ''[USERNAME]''),
         (''username'', ''[USERNAME]''), (''login'', ''[USERNAME]''), (''address'', ''[ADDRESS]'')]
        (lower key) of
        Some p \<Rightarrow> p | None \<Rightarrow> ''[REDACTED]'')"

definition callback_replace_identity :: "position \<Rightarrow> string" where
  "callback_replace_identity m =
     group 1 m @ group 2 m @
     callback_preserve_quotes (group 3 m) (callback_identity_placeholder (group 1 m))"

definition callback_redacted :: "string \<Rightarrow> string" where
  "callback_redacted text =
     (let t1 = sub callback_private_key_pattern (\<lambda>_. ''[PRIVATE_KEY]'') text;
          t2 = sub callback_authorization_header_pattern
                 (\<lambda>m. ''Authorization'' @ group 1 m @ '' [AUTHORIZATION]'') t1;
          t3 = sub callback_bearer_token_pattern (\<lambda>_. ''Bearer [BEARER_TOKEN]'') t2;
          t4 = sub callback_key_value_secret_pattern callback_replace_secret t3;
          t5 = sub callback_identity_key_value_pattern callback_replace_identity t4;
          t6 = fold (\<lambda>r. sub r (\<lambda>_. ''[API_KEY]'')) callback_api_key_patterns t5;
          t7 = sub callback_email_pattern (\<lambda>_. ''[EMAIL]'') t6
      in sub callback_ip_pattern (\<lambda>_. ''[IP_ADDRESS]'') t7)"

definition callback_string_is_safe :: "string \<Rightarrow> bool" where
  "callback_string_is_safe text \<longleftrightarrow>
     \<not> search callback_private_key_pattern text \<and>
     \<not> search callback_authorization_header_pattern text \<and>
     \<not> search callback_bearer_token_pattern text \<and>
     \<not> search callback_key_value_secret_pattern text \<and>
     \<not> search callback_identity_key_value_pattern text \<and>
     \<not> search callback_email_pattern text \<and> \<not> search callback_ip_pattern text \<and>
     \<not> list_ex (\<lambda>r. search r text) callback_api_key_patterns"

definition callback_sanitize_string :: "string \<Rightarrow> string \<times> bool \<times> bool" where
  "callback_sanitize_string text =
     (let redacted = callback_redacted text; applied = (redacted \<noteq> text)
      in (redacted, applied, \<not> applied \<and> callback_string_is_safe text))"

definition sensitive_member :: "string \<Rightarrow> bool" where
  "sensitive_member key \<longleftrightarrow> list_ex (\<lambda>t. str_in t (lower key)) sensitive_keys"

fun callback_sanitize :: "json \<Rightarrow> json \<times> bool \<times> bool"
  and callback_items :: "json list \<Rightarrow> json list \<times> bool \<times> bool"
  and callback_members :: "(string \<times> json) list \<Rightarrow> (string \<times> json) list \<times> bool \<times> bool" where
  "callback_sanitize (JObj ms) =
     (let (ms', applied, safe) = callback_members ms in (JObj ms', applied, safe))"
| "callback_sanitize (JList js) =
     (let (js', applied, safe) = callback_items js in (JList js', applied, safe))"
| "callback_sanitize (JStr s) =
     (let (s', applied, safe) = callback_sanitize_string s in (JStr s', applied, safe))"
| "callback_sanitize JNull = (JNull, False, True)"
| "callback_sanitize (JBool b) = (JBool b, False, True)"
| "callback_sanitize (JInt i) = (JInt i, False, True)"
| "callback_items [] = ([], False, True)"
| "callback_items (j # js) =
     (let (j', applied, safe) = callback_sanitize j; (js', applied', safe') = callback_items js
      in (j' # js', applied \<or> applied', safe \<and> safe'))"
| "callback_members [] = ([], False, True)"
| "callback_members ((k, j) # ms) =
     (let (ms', applied', safe') = callback_members ms in
      if k = ''invocation'' then (ms', applied', safe')
      else if sensitive_member k \<and> j \<noteq> JNull then ((k, JStr (callback_placeholder k)) # ms', True, safe')
      else let (j', applied, safe) = callback_sanitize j
           in ((k, j') # ms', applied \<or> applied', safe \<and> safe'))"

subsection \<open>Bounds\<close>

definition max_field_bytes :: nat where
  "max_field_bytes = 65536"

text \<open>UTF-8 of the characters below 256.\<close>

definition utf8 :: "string \<Rightarrow> string" where
  "utf8 s = concat (map (\<lambda>c.
     if code c < 128 then [c] else [char_of (192 + code c div 64), char_of (128 + code c mod 64)]) s)"

definition field_text :: "json \<Rightarrow> string" where
  "field_text j = (case j of JStr s \<Rightarrow> s | _ \<Rightarrow> plain_text j)"

text \<open>The retained text, whether something was cut off, and the size before.\<close>

definition bounded :: "(string \<Rightarrow> string) \<Rightarrow> json \<Rightarrow> string \<times> bool \<times> nat" where
  "bounded decode value =
     (let encoded = utf8 (field_text value); retained = take max_field_bytes encoded
      in (decode retained, length retained < length encoded, length encoded))"

subsection \<open>Events\<close>

definition task_pattern :: re where
  "task_pattern = seqs
     [Lit ''['', Group 1 (many (alnum_or ''_.-'') 1), Lit '']'', many is_space 0,
      Group 2 (many (\<lambda>c. c \<noteq> CHR 0x0A) 0), NotAhead (\<lambda>_. True)]"

text \<open>The id and the readable name of a task: \<open>[id] name\<close>, or the task's own id and name.\<close>

definition task_identity :: "task_outcome \<Rightarrow> string \<times> string" where
  "task_identity t =
     (let name = strip (tk_name t) in
      case matches task_pattern ([], name, []) of
        [] \<Rightarrow> (tk_uuid t, name)
      | m # _ \<Rightarrow> (group 1 m, group 2 m))"

definition evidence_category :: "string \<Rightarrow> string" where
  "evidence_category task_id =
     (case partition_at (CHR ''.'') task_id of
        (_, [], _) \<Rightarrow> ''remediation''
      | (_, _, rest) \<Rightarrow> takeWhile (\<lambda>c. c \<noteq> CHR ''.'') rest)"

definition classify_failure :: "string \<Rightarrow> string \<Rightarrow> string option" where
  "classify_failure status stderr =
     (let lowered = lower stderr in
      if status = ''unreachable'' then Some ''ssh_unreachable''
      else if str_in ''permission denied'' lowered then Some ''permission_denied''
      else if str_in ''lock'' lowered \<and> (str_in ''apt'' lowered \<or> str_in ''dpkg'' lowered)
        then Some ''package_manager_locked''
      else if status = ''failed'' then Some ''task_failed''
      else None)"

text \<open>\<open>int(value)\<close>.\<close>

fun int_of_json :: "json \<Rightarrow> exn + int" where
  "int_of_json (JInt i) = Inr i"
| "int_of_json (JBool b) = Inr (if b then 1 else 0)"
| "int_of_json (JStr s) =
     (case py_int s of
        Some i \<Rightarrow> Inr i
      | None \<Rightarrow> Inl (ValueError (''invalid literal for int() with base 10: '' @ [CHR 0x27] @ s @ [CHR 0x27])))"
| "int_of_json _ = Inl (OtherError ''int() argument must be a string or a number'')"

text \<open>\<open>raw.get(key, default)\<close>, and a variable of the environment or \<open>None\<close>.\<close>

definition member_or :: "details \<Rightarrow> string \<Rightarrow> json \<Rightarrow> json" where
  "member_or raw key fallback = (case dict_get raw key of Some j \<Rightarrow> j | None \<Rightarrow> fallback)"

definition variable :: "callback_env \<Rightarrow> string \<Rightarrow> json" where
  "variable B name =
     (case dict_get (kb_environ B) name of
        None \<Rightarrow> JNull | Some v \<Rightarrow> if v = [] then JNull else JStr v)"

text \<open>\<open>int(x)\<close> of a float: towards zero.\<close>

definition truncated_int :: "real \<Rightarrow> int" where
  "truncated_int x = (if x < 0 then - \<lfloor>- x\<rfloor> else \<lfloor>x\<rfloor>)"

definition task_duration_ms :: "callback_env \<Rightarrow> callback \<Rightarrow> task_outcome \<Rightarrow> int" where
  "task_duration_ms B cb t =
     truncated_int ((kb_monotonic B -
        (case dict_get (cb_started cb) (tk_uuid t) of
           Some s \<Rightarrow> s | None \<Rightarrow> kb_monotonic_default B)) * 1000)"

definition task_event ::
  "callback_env \<Rightarrow> callback \<Rightarrow> task_outcome \<Rightarrow> string \<Rightarrow> exn + details" where
  "task_event B cb t status =
     (let (task_id, readable_name) = task_identity t;
          (rendered, raw_applied, raw_safe) = callback_members (tk_result t);
          (stdout, stdout_cut, stdout_bytes) = bounded (kb_decode B) (member_or rendered ''stdout'' (JStr []));
          (stderr, stderr_cut, stderr_bytes) =
            bounded (kb_decode B) (member_or rendered ''stderr'' (member_or rendered ''msg'' (JStr [])));
          (raw_output, _, _) = bounded (kb_decode B) (JObj rendered)
      in case int_of_json (member_or rendered ''attempts'' (JInt 1)) of
           Inl e \<Rightarrow> Inl e
         | Inr attempts \<Rightarrow> Inr
        [(''id'', JStr (''log-'' @ kb_id B)), (''schema_version'', JStr ''1.0''),
         (''timestamp'', JStr (kb_timestamp B)), (''duration_ms'', JInt (task_duration_ms B cb t)),
         (''host_id'', variable B ''AI_SYSADM_HOST_ID''), (''job_id'', variable B ''AI_SYSADM_JOB_ID''),
         (''scan_id'', variable B ''AI_SYSADM_SCAN_ID''),
         (''remediation_id'', variable B ''AI_SYSADM_REMEDIATION_ID''),
         (''playbook_id'', variable B ''AI_SYSADM_PLAYBOOK_ID''),
         (''phase_id'', variable B ''AI_SYSADM_PHASE_ID''), (''task_id'', JStr task_id),
         (''event_type'', JStr ''ansible_task''),
         (''evidence_category'', JStr (evidence_category task_id)),
         (''severity'', JStr (if status \<in> {''failed'', ''unreachable''} then ''high'' else ''info'')),
         (''status'', JStr status),
         (''changed'', JBool (json_truthy (member_or rendered ''changed'' (JBool False)))),
         (''return_code'', member_or rendered ''rc'' JNull), (''retry_count'', JInt (attempts - 1)),
         (''failure_classification'',
           (case classify_failure status stderr of None \<Rightarrow> JNull | Some c \<Rightarrow> JStr c)),
         (''command_description'', JStr readable_name),
         (''before_value'', member_or rendered ''before'' JNull),
         (''after_value'', member_or rendered ''after'' JNull), (''stdout'', JStr stdout),
         (''stderr'', JStr stderr), (''raw_output'', JStr (take 131072 raw_output)),
         (''source'', JStr (case tk_action t of Some a \<Rightarrow> a | None \<Rightarrow> ''ansible'')),
         (''truncated'', JBool (stdout_cut \<or> stderr_cut)),
         (''original_bytes'', JInt (int (stdout_bytes + stderr_bytes))),
         (''redacted'', JBool (raw_applied \<or> raw_safe)), (''simulated'', JBool False),
         (''externally_processed'', JBool False),
         (''reboot_relevance'', JStr (if str_in ''reboot'' task_id then ''required'' else ''none'')),
         (''remediation_relevance'',
           JStr (if variable B ''AI_SYSADM_REMEDIATION_ID'' \<noteq> JNull then ''execution'' else ''diagnostic'')),
         (''correlation_ids'',
           JObj [(''ansible_host'', JStr (tk_host t)), (''task_uuid'', JStr (tk_uuid t))])])"

subsection \<open>The plugin\<close>

definition callback_init :: "(string, string) dict \<Rightarrow> callback" where
  "callback_init environ =
     \<lparr>cb_event_file = dict_get environ ''AI_SYSADM_EVENT_FILE'', cb_started = []\<rparr>"

definition on_task_start :: "string \<Rightarrow> real \<Rightarrow> callback \<Rightarrow> callback" where
  "on_task_start uuid now cb = cb\<lparr>cb_started := dict_set uuid now (cb_started cb)\<rparr>"

datatype runner_callback = RunnerOk | RunnerFailed | RunnerUnreachable | RunnerSkipped | RunnerRetry

fun runner_status :: "runner_callback \<Rightarrow> string" where
  "runner_status RunnerOk = ''succeeded''"
| "runner_status RunnerFailed = ''failed''"
| "runner_status RunnerUnreachable = ''unreachable''"
| "runner_status RunnerSkipped = ''skipped''"
| "runner_status RunnerRetry = ''retrying''"

text \<open>The line appended to the event file, if there is one.\<close>

definition record_result ::
  "callback_env \<Rightarrow> callback \<Rightarrow> task_outcome \<Rightarrow> runner_callback \<Rightarrow> exn + string option" where
  "record_result B cb t kind =
     (if \<not> truthy (cb_event_file cb) then Inr None
      else case task_event B cb t (runner_status kind) of
        Inl e \<Rightarrow> Inl e
      | Inr event \<Rightarrow> Inr (Some (text_of (JObj event) @ [CHR 0x0A])))"

end
