(* ===== verification/Collector.thy ===== *)
theory Collector
  imports PyFloat Redaction Processes Credentials ServiceJobs
begin

text \<open>
  Collecting evidence from a host (\<open>collector.py\<close>): the commands, one command over SSH with what
  is kept of its output, the reading of the outputs, and the two collectors.

  The streams \<open>x_ssh\<close> returns are bytes; \<open>bytes.decode(errors="replace")\<close> is a parameter, since
  it can yield characters beyond those of HOL's strings. So is the JSON text of a snapshot,
  which pydantic writes.
\<close>

record ssh_collector =
  cl_processes :: processes
  cl_max_bytes :: int
  cl_decode :: "bytes \<Rightarrow> string"
  cl_snapshot_text :: "host_snapshot \<Rightarrow> string"

definition read_only_commands :: "(string, string) dict" where
  "read_only_commands =
     [(''os_release'', ''cat /etc/os-release''),
      (''kernel'', ''uname -r''),
      (''boot_id'', ''cat /proc/sys/kernel/random/boot_id''),
      (''uptime'', ''cat /proc/uptime''),
      (''reboot_required'', ''test -f /var/run/reboot-required && cat /var/run/reboot-required || true''),
      (''reboot_history'', ''last -x reboot shutdown -n 20 2>/dev/null || true''),
      (''cpu'', ''LC_ALL=C lscpu 2>/dev/null || cat /proc/cpuinfo''),
      (''load_average'', ''cat /proc/loadavg''),
      (''disk_root'', ''df -P / | tail -1''),
      (''inode_root'', ''df -Pi / | tail -1''),
      (''filesystems'', ''df -PT -x tmpfs -x devtmpfs''),
      (''mounts'', ''findmnt -rn -o TARGET,SOURCE,FSTYPE,OPTIONS''),
      (''readonly_mounts'', ''findmnt -rn -o TARGET,OPTIONS | awk '$2 ~ /(^|,)ro(,|$)/ {print}'' @ [CHR 0x27]),
      (''memory'', ''free -m''),
      (''upgradable_packages'', ''apt list --upgradable 2>/dev/null''),
      (''held_packages'', ''apt-mark showhold 2>/dev/null || true''),
      (''package_audit'', ''dpkg --audit 2>&1 || true''),
      (''apt_locks'', ''for f in /var/lib/dpkg/lock-frontend /var/lib/apt/lists/lock /var/cache/apt/archives/lock; do fuser '' @ [CHR 0x22] @ ''$f'' @ [CHR 0x22] @ '' 2>/dev/null && echo '' @ [CHR 0x22] @ ''$f locked'' @ [CHR 0x22] @ ''; done || true''),
      (''failed_units'', ''systemctl --failed --no-legend --plain || true''),
      (''restarting_units'', ''systemctl list-units --state=activating,deactivating,reloading --no-legend --plain || true''),
      (''system_state'', ''systemctl is-system-running 2>/dev/null || true''),
      (''recent_unit_changes'', ''journalctl --since '-24 hours' -u '*.service' -p notice -n 500 --no-pager || true''),
      (''journal'', ''journalctl --since '-24 hours' -p warning -n 1000 --no-pager || true''),
      (''kernel_journal'', ''journalctl --since '-24 hours' -k -p warning -n 1000 --no-pager || true''),
      (''kernel_critical'', ''journalctl --since '-24 hours' -k --no-pager | grep -Ei 'oom|out of memory|i/o error|filesystem error|ext4-fs error|xfs.*error|hardware error' | tail -n 500 || true''),
      (''auth'', ''journalctl --since '-24 hours' -u ssh -u sshd -t sudo -n 1000 --no-pager || true''),
      (''apt_history'', ''tail -n 1000 /var/log/apt/history.log 2>/dev/null || true''),
      (''interfaces'', ''ip -brief address 2>/dev/null || true''),
      (''routes'', ''ip route show 2>/dev/null || true''),
      (''dns'', ''grep -E '^nameserver' /etc/resolv.conf 2>/dev/null || true''),
      (''listening_ports'', ''ss -lntupH 2>/dev/null || true''),
      (''failed_network_units'', ''systemctl --failed --no-legend --plain 'systemd-networkd*' 'NetworkManager*' 'networking*' 2>/dev/null || true''),
      (''users'', ''getent passwd | awk -F: '$3 >= 1000 {print $1 '' @ [CHR 0x22] @ '':'' @ [CHR 0x22]
         @ '' $3 '' @ [CHR 0x22] @ '':'' @ [CHR 0x22] @ '' $7}'' @ [CHR 0x27]),
      (''sudo_posture'', ''grep -RhsE '^[^#].*(ALL|NOPASSWD)' /etc/sudoers /etc/sudoers.d 2>/dev/null | sed -E 's/^[^ ]+/[USER]/' | head -n 200 || true'')]"

subsection \<open>Reading outputs\<close>

definition source :: "(string, string) dict \<Rightarrow> string \<Rightarrow> string \<Rightarrow> string" where
  "source outputs name fallback = (case dict_get outputs name of Some s \<Rightarrow> s | None \<Rightarrow> fallback)"

text \<open>\<open>re.match\<close> at the start of a line, and \<open>re.search\<close> with the match it finds.\<close>

definition match_start :: "re \<Rightarrow> string \<Rightarrow> position option" where
  "match_start r s = (case matches r ([], s, []) of [] \<Rightarrow> None | m # _ \<Rightarrow> Some m)"

fun first_match :: "re \<Rightarrow> string \<Rightarrow> string \<Rightarrow> position option" where
  "first_match r before [] =
     (case matches r (before, [], []) of [] \<Rightarrow> None | m # _ \<Rightarrow> Some m)"
| "first_match r before (c # after) =
     (case matches r (before, c # after, []) of
        [] \<Rightarrow> first_match r (c # before) after | m # _ \<Rightarrow> Some m)"

definition is_float :: "string \<Rightarrow> bool" where
  "is_float s \<longleftrightarrow> py_float s \<noteq> None"

definition to_float :: "string \<Rightarrow> exn + real" where
  "to_float s =
     (case py_float s of
        Some x \<Rightarrow> Inr x
      | None \<Rightarrow> Inl (ValueError (''could not convert string to float: '' @ [CHR 0x27] @ s @ [CHR 0x27])))"

definition update_pattern :: re where
  "update_pattern = seqs
     [Group 1 (many (\<lambda>c. c \<noteq> CHR 0x2F) 1), Lit [CHR 0x2F], Group 2 (many (\<lambda>c. \<not> is_space c) 1),
      many (\<lambda>c. c \<noteq> CHR 0x0A) 0, Lit ''[upgradable from: '', Group 3 (many (\<lambda>c. c \<noteq> CHR '']'') 1),
      Lit '']'']"

definition reboot_prefixes :: "string list" where
  "reboot_prefixes = [''linux-'', ''libc6'', ''systemd'', ''dbus'']"

definition parse_update :: "string \<Rightarrow> package_update option" where
  "parse_update line =
     (if line = [] \<or> starts_with line ''Listing'' then None
      else case match_start update_pattern line of
        None \<Rightarrow> None
      | Some m \<Rightarrow>
          Some \<lparr>pu_name = group 1 m, pu_current_version = Some (group 3 m),
                pu_candidate_version = group 2 m,
                pu_security_update = str_in ''security'' (lower line),
                pu_reboot_hint = list_ex (starts_with (group 1 m)) reboot_prefixes\<rparr>)"

definition parse_updates :: "string \<Rightarrow> package_update list" where
  "parse_updates out = List.map_filter parse_update (splitlines out)"

text \<open>The share of memory in use: from the first \<open>Mem:\<close> line that tells a positive total.\<close>

fun memory_in_lines :: "string list \<Rightarrow> exn + real" where
  "memory_in_lines [] = Inr 0"
| "memory_in_lines (line # rest) =
     (if starts_with (lower line) ''mem:'' then
        (case split_ws line of
           _ # available # used # _ \<Rightarrow>
             (case py_float available of
                Some t \<Rightarrow>
                  if 0 < t then
                    (case to_float used of
                       Inl e \<Rightarrow> Inl e | Inr u \<Rightarrow> Inr (round_tenth (u / t * 100)))
                  else memory_in_lines rest
              | None \<Rightarrow> memory_in_lines rest)
         | _ \<Rightarrow> memory_in_lines rest)
      else memory_in_lines rest)"

definition parse_memory_usage :: "string \<Rightarrow> exn + real" where
  "parse_memory_usage out = memory_in_lines (splitlines out)"

definition percent_pattern :: re where
  "percent_pattern = seqs [Group 1 (many Regex.is_digit 1), Lit ''%'']"

definition parse_percent :: "string \<Rightarrow> real" where
  "parse_percent out =
     (case first_match percent_pattern [] out of
        Some m \<Rightarrow> real (digits_val (group 1 m)) | None \<Rightarrow> 0)"

definition first_columns :: "string \<Rightarrow> string list" where
  "first_columns out =
     List.map_filter (\<lambda>line. case split_ws line of [] \<Rightarrow> None | w # _ \<Rightarrow> Some w) (splitlines out)"

definition bounded_lines :: "string \<Rightarrow> nat \<Rightarrow> string list" where
  "bounded_lines out maximum = take maximum (filter (\<lambda>line. \<not> is_blank line) (splitlines out))"

subsection \<open>The snapshot\<close>

text \<open>The digest covers everything but the digest itself and the time of collection.\<close>

definition snapshot_digest :: "env \<Rightarrow> (host_snapshot \<Rightarrow> string) \<Rightarrow> host_snapshot \<Rightarrow> string" where
  "snapshot_digest E json sn = e_H E (json (sn\<lparr>sn_collected_at := Aware 0, sn_snapshot_hash := []\<rparr>))"

definition uptime_hours :: "(string, string) dict \<Rightarrow> exn + real" where
  "uptime_hours outputs =
     (case split_ws (source outputs ''uptime'' ''0'') of
        [] \<Rightarrow> Inr 0
      | seconds # _ \<Rightarrow>
          (case to_float seconds of Inl e \<Rightarrow> Inl e | Inr x \<Rightarrow> Inr (x / 3600)))"

definition load_averages :: "(string, string) dict \<Rightarrow> real list" where
  "load_averages outputs =
     (let loads = List.map_filter py_float (take 3 (split_ws (source outputs ''load_average'' ''0 0 0'')))
      in loads @ replicate (3 - length loads) 0)"

definition package_summary_of :: "(string, string) dict \<Rightarrow> package_summary" where
  "package_summary_of outputs =
     (let updates = parse_updates (source outputs ''upgradable_packages'' []) in
      \<lparr>ps_pending_security_updates = int (length (filter pu_security_update updates)),
       ps_pending_package_updates = int (length updates),
       ps_reboot_required_now = (strip (source outputs ''reboot_required'' []) \<noteq> []),
       ps_held_packages =
         map strip (filter (\<lambda>line. \<not> is_blank line) (splitlines (source outputs ''held_packages'' []))),
       ps_updates = updates\<rparr>)"

definition service_summary_of :: "(string, string) dict \<Rightarrow> service_summary" where
  "service_summary_of outputs =
     \<lparr>ss_failed_units = first_columns (source outputs ''failed_units'' []),
      ss_restarting_units = first_columns (source outputs ''restarting_units'' []),
      ss_degraded = (strip (source outputs ''system_state'' []) \<notin> {''running'', []})\<rparr>"

definition network_summary_of :: "(string, string) dict \<Rightarrow> network_summary" where
  "network_summary_of outputs =
     \<lparr>nw_interfaces = bounded_lines (source outputs ''interfaces'' []) 200,
      nw_default_routes = bounded_lines (source outputs ''routes'' []) 200,
      nw_dns_servers = bounded_lines (source outputs ''dns'' []) 50,
      nw_listening_ports = bounded_lines (source outputs ''listening_ports'' []) 500\<rparr>"

definition host_logs_of :: "(string, string) dict \<Rightarrow> host_logs" where
  "host_logs_of outputs =
     \<lparr>lg_journal = source outputs ''journal'' [],
      lg_kernel = join_str [CHR 0x0A] (filter (\<lambda>s. s \<noteq> [])
        [source outputs ''kernel_journal'' [], source outputs ''kernel_critical'' []]),
      lg_auth = source outputs ''auth'' [], lg_apt_history = source outputs ''apt_history'' [],
      lg_reboot_history = source outputs ''reboot_history'' []\<rparr>"

definition system_summary_of :: "(string, string) dict \<Rightarrow> real \<Rightarrow> real \<Rightarrow> system_summary" where
  "system_summary_of outputs hours memory =
     \<lparr>sy_uptime_hours = hours, sy_load_average = load_averages outputs,
      sy_disk_usage_percent = parse_percent (source outputs ''disk_root'' []),
      sy_inode_usage_percent = parse_percent (source outputs ''inode_root'' []),
      sy_memory_usage_percent = memory,
      sy_kernel_version = source outputs ''kernel'' ''unknown'',
      sy_boot_id = source outputs ''boot_id'' ''unknown''\<rparr>"

definition normalize_snapshot ::
  "env \<Rightarrow> (host_snapshot \<Rightarrow> string) \<Rightarrow> host \<Rightarrow> (string, string) dict \<Rightarrow> (string, evidence_state) dict \<Rightarrow>
   host_snapshot comp" where
  "normalize_snapshot E json h outputs states =
     bindM (liftE (uptime_hours outputs)) (\<lambda>hours.
     bindM (new_id E ''snapshot'') (\<lambda>i.
     bindM (utc_now E) (\<lambda>now.
     bindM (liftE (parse_memory_usage (source outputs ''memory'' []))) (\<lambda>memory.
     let sn = \<lparr>sn_id = i, sn_host_id = h_id h, sn_collected_at = now, sn_commands = outputs,
               sn_evidence_states = states, sn_package_summary = package_summary_of outputs,
               sn_service_summary = service_summary_of outputs,
               sn_system_summary = system_summary_of outputs hours memory,
               sn_network_summary = network_summary_of outputs, sn_logs = host_logs_of outputs,
               sn_snapshot_hash = []\<rparr>
     in returnM (sn\<lparr>sn_snapshot_hash := snapshot_digest E json sn\<rparr>)))))"

subsection \<open>Events\<close>

definition collection_event ::
  "env \<Rightarrow> host \<Rightarrow> string \<Rightarrow> string \<Rightarrow> evidence_state \<Rightarrow> string \<Rightarrow> string \<Rightarrow> bool \<Rightarrow>
   structured_log_event comp" where
  "collection_event E h source_name out state job_id scan_id simulated =
     bindM (fresh_event E h ''evidence_collected'' source_name (es_status state)) (\<lambda>e.
     returnM (e_sanitize_log E
       (e\<lparr>l_job_id := or_none job_id, l_scan_id := or_none scan_id,
          l_severity :=
            (if es_status state \<in> {''missing'', ''unavailable'', ''permission_denied'', ''truncated''}
             then SevMedium else SevInfo),
          l_stdout := out, l_source := ''ssh:'' @ source_name, l_truncated := es_truncated state,
          l_original_bytes := es_original_bytes state, l_simulated := simulated,
          l_remediation_relevance := ''diagnostic'',
          l_correlation_ids := [(''host_id'', h_id h), (''scan_id'', scan_id)]\<rparr>)
       h))"

subsection \<open>Over SSH\<close>

definition ssh_arguments :: "host \<Rightarrow> string \<Rightarrow> string \<Rightarrow> string \<Rightarrow> string list" where
  "ssh_arguments h key_path known_hosts command =
     [''ssh'', ''-i'', key_path, ''-p'', dec_int (h_port h), ''-o'', ''BatchMode=yes'',
      ''-o'', ''ConnectTimeout=10'', ''-o'', ''StrictHostKeyChecking=yes'',
      ''-o'', ''UserKnownHostsFile='' @ known_hosts, h_username h @ ''@'' @ h_address h, command]"

definition failure_status :: "string \<Rightarrow> string" where
  "failure_status error_text =
     (if str_in ''permission denied'' (lower error_text) then ''permission_denied'' else ''unavailable'')"

text \<open>What is kept of a process: its output, up to the bound, and how complete it is.\<close>

definition evidence_of :: "ssh_collector \<Rightarrow> process_output \<Rightarrow> string \<times> evidence_state" where
  "evidence_of C p =
     (let failed = (po_returncode p \<noteq> 0);
          error_text = strip (cl_decode C (po_stderr p));
          combined = (if failed then po_stdout p @ [CHR 0x0A] @ po_stderr p else po_stdout p);
          retained = slice_to (cl_max_bytes C) combined;
          truncated = (length retained < length combined)
      in (strip (cl_decode C retained),
          \<lparr>es_status = (if failed then failure_status error_text
                        else if truncated then ''truncated'' else ''available''),
           es_original_bytes = int (length combined), es_retained_bytes = int (length retained),
           es_truncated = truncated,
           es_reason = (if failed then Some (take 500 error_text) else None)\<rparr>))"

definition run_command ::
  "ssh_collector \<Rightarrow> host \<Rightarrow> string \<Rightarrow> string \<Rightarrow> string \<Rightarrow> (string \<times> evidence_state) comp" where
  "run_command C h key_path known_hosts command =
     bindM (externalM (x_ssh (cl_processes C) (ssh_arguments h key_path known_hosts command))) (\<lambda>p.
     returnM (evidence_of C p))"

definition redacted_sources :: "string list" where
  "redacted_sources = [''auth'', ''users'', ''sudo_posture'', ''interfaces'', ''routes'', ''dns'']"

record collection =
  cn_outputs :: "(string, string) dict"
  cn_states :: "(string, evidence_state) dict"
  cn_events :: "structured_log_event list"

definition no_collection :: collection where
  "no_collection = \<lparr>cn_outputs = [], cn_states = [], cn_events = []\<rparr>"

definition collect_source ::
  "env \<Rightarrow> ssh_collector \<Rightarrow> host \<Rightarrow> string \<Rightarrow> string \<Rightarrow> string \<Rightarrow> string \<Rightarrow> collection \<Rightarrow>
   string \<times> string \<Rightarrow> collection comp" where
  "collect_source E C h key_path known_hosts job_id scan_id acc nc =
     (case nc of (name, command) \<Rightarrow>
     bindM (run_command C h key_path known_hosts command) (\<lambda>(out, state).
     let out' = (if name \<in> set redacted_sources then e_redact E out (Some h) else out) in
     bindM (collection_event E h name out' state job_id scan_id False) (\<lambda>e.
     returnM \<lparr>cn_outputs = dict_set name out' (cn_outputs acc),
              cn_states = dict_set name state (cn_states acc), cn_events = cn_events acc @ [e]\<rparr>)))"

definition ssh_collect ::
  "env \<Rightarrow> cipher \<Rightarrow> ssh_collector \<Rightarrow> host \<Rightarrow> string \<Rightarrow> string \<Rightarrow> collected_evidence comp" where
  "ssh_collect E K C h job_id scan_id =
     (if \<not> truthy (h_ssh_host_key_fingerprint h)
      then raiseM (RuntimeError ''SSH host key must be confirmed before collection'')
      else
        bindM (confirmed_key (cl_processes C) h) (\<lambda>(known_line, same_key).
        if \<not> same_key
        then raiseM (RuntimeError ''SSH host key fingerprint changed; collection blocked'')
        else
          bindM (temporary_key K (h_credential_id h)) (\<lambda>_.
          bindM (temp_path (cl_processes C)) (\<lambda>key_path.
          bindM (temp_path (cl_processes C)) (\<lambda>known_hosts.
          bindM (foldM (collect_source E C h key_path known_hosts job_id scan_id) no_collection
                   read_only_commands) (\<lambda>acc.
          bindM (normalize_snapshot E (cl_snapshot_text C) h (cn_outputs acc) (cn_states acc)) (\<lambda>sn.
          returnM \<lparr>ce_snapshot = sn, ce_events = cn_events acc\<rparr>)))))))"

definition failed_connection ::
  "string option \<Rightarrow> (string, string) dict \<Rightarrow> connection_test_result" where
  "failed_connection fingerprint checks =
     \<lparr>ct_success = False, ct_ssh_reachable = False, ct_sudo_available = False,
      ct_os_supported = False, ct_ansible_compatible = False,
      ct_host_key_fingerprint = fingerprint, ct_checks = checks\<rparr>"

definition supported_system :: "string \<Rightarrow> bool" where
  "supported_system os_output \<longleftrightarrow>
     list_ex (\<lambda>marker. str_in marker (lower os_output)) [''id=ubuntu'', ''id=debian'', ''id_like=debian'']"

definition examine_host ::
  "cipher \<Rightarrow> ssh_collector \<Rightarrow> host \<Rightarrow> string \<Rightarrow> connection_test_result comp" where
  "examine_host K C h fingerprint =
     bindM (temporary_key K (h_credential_id h)) (\<lambda>_.
     bindM (temp_path (cl_processes C)) (\<lambda>key_path.
     bindM (temp_path (cl_processes C)) (\<lambda>known_hosts.
     bindM (run_command C h key_path known_hosts ''cat /etc/os-release'') (\<lambda>(os_output, _).
     bindM (run_command C h key_path known_hosts ''sudo -n true && echo sudo_ok'')
       (\<lambda>(sudo_output, sudo_state).
     let os_supported = supported_system os_output;
         sudo_available = (str_in ''sudo_ok'' sudo_output \<and> es_status sudo_state = ''available'')
     in returnM \<lparr>ct_success = (os_supported \<and> sudo_available), ct_ssh_reachable = True,
          ct_sudo_available = sudo_available, ct_os_supported = os_supported,
          ct_ansible_compatible = True, ct_host_key_fingerprint = Some fingerprint,
          ct_checks =
            [(''host_key'', ''available''), (''ssh'', ''reachable''),
             (''sudo'', if sudo_available then ''available'' else es_status sudo_state),
             (''os'', if os_supported then ''supported'' else ''unsupported'')]\<rparr>)))))"

definition ssh_test_connection ::
  "env \<Rightarrow> cipher \<Rightarrow> ssh_collector \<Rightarrow> host \<Rightarrow> connection_test_result comp" where
  "ssh_test_connection E K C h =
     bindM (attempt (scan_host_key (cl_processes C) (h_address h) (h_port h))) (\<lambda>scan.
     case scan of
       Inl e \<Rightarrow>
         returnM (failed_connection None [(''host_key'', e_redact E (exn_message e) (Some h))])
     | Inr (_, fingerprint) \<Rightarrow>
         bindM (attempt (examine_host K C h fingerprint)) (\<lambda>res.
         case res of
           Inr res \<Rightarrow> returnM res
         | Inl e \<Rightarrow>
             returnM (failed_connection (Some fingerprint)
               [(''host_key'', ''available''), (''ssh'', e_redact E (exn_message e) (Some h))])))"

subsection \<open>The demonstration\<close>

definition demo_updates :: "package_update list" where
  "demo_updates =
     [\<lparr>pu_name = ''linux-image-generic'', pu_current_version = Some ''6.8.0.31'',
       pu_candidate_version = ''6.8.0.40'', pu_security_update = True, pu_reboot_hint = True\<rparr>,
      \<lparr>pu_name = ''openssl'', pu_current_version = Some ''3.0.1'', pu_candidate_version = ''3.0.2'',
       pu_security_update = True, pu_reboot_hint = False\<rparr>,
      \<lparr>pu_name = ''curl'', pu_current_version = Some ''8.5.0'', pu_candidate_version = ''8.5.1'',
       pu_security_update = False, pu_reboot_hint = False\<rparr>]"

definition demo_line :: "package_update \<Rightarrow> string" where
  "demo_line u =
     pu_name u @ [CHR 0x2F] @ pu_candidate_version u @ '' [upgradable from: '' @
     or_empty (pu_current_version u) @ '']''"

definition demo_commands :: "(string, string) dict" where
  "demo_commands =
     [(''upgradable_packages'', join_str [CHR 0x0A] (map demo_line demo_updates)),
      (''failed_units'', ''nginx.service loaded failed failed''),
      (''reboot_required'', []), (''held_packages'', []),
      (''journal'', ''nginx.service failed to bind and exited''), (''kernel_journal'', []),
      (''auth'', ''Accepted publickey for [USERNAME] from [IP_ADDRESS]'')]"

definition demo_state :: "string \<Rightarrow> evidence_state" where
  "demo_state value =
     \<lparr>es_status = ''available'', es_original_bytes = int (length value),
      es_retained_bytes = int (length value), es_truncated = False, es_reason = None\<rparr>"

definition demo_snapshot :: "string \<Rightarrow> host \<Rightarrow> datetime \<Rightarrow> host_snapshot" where
  "demo_snapshot i h now =
     \<lparr>sn_id = i, sn_host_id = h_id h, sn_collected_at = now, sn_commands = demo_commands,
      sn_evidence_states = map (\<lambda>(k, v). (k, demo_state v)) demo_commands,
      sn_package_summary =
        \<lparr>ps_pending_security_updates = 2, ps_pending_package_updates = 3,
         ps_reboot_required_now = False, ps_held_packages = [], ps_updates = demo_updates\<rparr>,
      sn_service_summary =
        \<lparr>ss_failed_units = [''nginx.service''], ss_restarting_units = [], ss_degraded = True\<rparr>,
      sn_system_summary =
        \<lparr>sy_uptime_hours = 340, sy_load_average = [0.41, 0.52, 0.49], sy_disk_usage_percent = 81,
         sy_inode_usage_percent = 22, sy_memory_usage_percent = 67,
         sy_kernel_version = ''6.8.0-31-generic'', sy_boot_id = ''demo-boot-id''\<rparr>,
      sn_network_summary =
        \<lparr>nw_interfaces = [''eth0 UP [ADDRESS]''], nw_default_routes = [''default via [ADDRESS]''],
         nw_dns_servers = [''[ADDRESS]''], nw_listening_ports = [''tcp LISTEN 0.0.0.0:22'']\<rparr>,
      sn_logs =
        \<lparr>lg_journal = ''nginx.service failed to bind and exited'', lg_kernel = [],
         lg_auth = ''Accepted publickey for [USERNAME] from [IP_ADDRESS]'',
         lg_apt_history = ''Upgrade: libc6'', lg_reboot_history = ''reboot system boot''\<rparr>,
      sn_snapshot_hash = []\<rparr>"

definition demo_collect ::
  "env \<Rightarrow> (host_snapshot \<Rightarrow> string) \<Rightarrow> host \<Rightarrow> string \<Rightarrow> string \<Rightarrow> collected_evidence comp" where
  "demo_collect E json h job_id scan_id =
     bindM (utc_now E) (\<lambda>now.
     bindM (new_id E ''snapshot'') (\<lambda>i.
     let sn = demo_snapshot i h now in
     bindM (mapM (\<lambda>(key, value). collection_event E h key value (demo_state value) job_id scan_id True)
              demo_commands) (\<lambda>events.
     returnM \<lparr>ce_snapshot = sn\<lparr>sn_snapshot_hash := snapshot_digest E json sn\<rparr>, ce_events = events\<rparr>)))"

definition demo_test_connection :: "host \<Rightarrow> connection_test_result comp" where
  "demo_test_connection h =
     returnM \<lparr>ct_success = True, ct_ssh_reachable = True, ct_sudo_available = True,
       ct_os_supported = True, ct_ansible_compatible = True,
       ct_host_key_fingerprint = Some ''SHA256:demo-host-key'',
       ct_checks = [(''mode'', ''simulation'')]\<rparr>"

end
