(* ===== verification/CollectorProperties.thy ===== *)
theory CollectorProperties
  imports Collector ExecutorProperties RedactionProperties
begin

text \<open>
  What collection over SSH guarantees: which commands it runs and against which key, what a
  completed collection holds, how its parts are bounded; and how the failure of a command turns
  into evidence or into the loss of all of it.
\<close>

subsection \<open>One source after the other\<close>

text \<open>What is stored of a source.\<close>

definition kept :: "env \<Rightarrow> ssh_collector \<Rightarrow> host \<Rightarrow> string \<times> string \<Rightarrow> process_output \<Rightarrow> string \<times> string" where
  "kept E C h nc p =
     (fst nc, if fst nc \<in> set redacted_sources then e_redact E (fst (evidence_of C p)) (Some h)
              else fst (evidence_of C p))"

definition ran_command :: "ssh_collector \<Rightarrow> host \<Rightarrow> string \<times> string \<Rightarrow> process_output \<Rightarrow> bool" where
  "ran_command C h nc p \<longleftrightarrow>
     (\<exists>key hosts u v. x_ssh (cl_processes C) (ssh_arguments h key hosts (snd nc)) u = (Inr p, v))"

lemma collect_source_Inr:
  assumes "collect_source E C h key hosts i j acc nc w = (Inr acc', w')"
  obtains p e where "ran_command C h nc p"
    "cn_outputs acc' = dict_set (fst nc) (snd (kept E C h nc p)) (cn_outputs acc)"
    "cn_states acc' = dict_set (fst nc) (snd (evidence_of C p)) (cn_states acc)"
    "cn_events acc' = cn_events acc @ [e]"
proof -
  obtain name command where nc: "nc = (name, command)"
    by (cases nc)
  from assms obtain out state w1 e where run: "run_command C h key hosts command w = (Inr (out, state), w1)"
    and acc': "acc' = \<lparr>cn_outputs = dict_set name (if name \<in> set redacted_sources then e_redact E out (Some h) else out)
        (cn_outputs acc), cn_states = dict_set name state (cn_states acc), cn_events = cn_events acc @ [e]\<rparr>"
    by (auto simp: nc collect_source_def bindM_eq_Inr comp_simps Let_def)
  from run obtain p v where p: "x_ssh (cl_processes C) (ssh_arguments h key hosts command) w = (Inr p, v)"
    "evidence_of C p = (out, state)"
    by (auto simp: run_command_def bindM_eq_Inr comp_simps externalM_eq_Inr)
  show thesis
    by (rule that [of p e]) (use p acc' in \<open>auto simp: nc ran_command_def kept_def\<close>)
qed

lemma collect_all:
  assumes "foldM (collect_source E C h key hosts i j) acc ncs w = (Inr acc', w')"
    and "distinct (map fst ncs)"
    and "fst ` set ncs \<inter> fst ` set (cn_outputs acc) = {}" "fst ` set ncs \<inter> fst ` set (cn_states acc) = {}"
  shows "\<exists>ps. list_all2 (ran_command C h) ncs ps \<and>
    cn_outputs acc' = cn_outputs acc @ map2 (kept E C h) ncs ps \<and>
    cn_states acc' = cn_states acc @ map2 (\<lambda>nc p. (fst nc, snd (evidence_of C p))) ncs ps \<and>
    length (cn_events acc') = length (cn_events acc) + length ncs"
  using assms
proof (induction ncs arbitrary: acc w)
  case Nil
  then show ?case by (auto simp: comp_simps)
next
  case (Cons nc ncs)
  from Cons.prems(1) obtain acc1 w1 where
    step: "collect_source E C h key hosts i j acc nc w = (Inr acc1, w1)"
    and rest: "foldM (collect_source E C h key hosts i j) acc1 ncs w1 = (Inr acc', w')"
    by (auto simp: bindM_eq_Inr)
  from step obtain p e where p: "ran_command C h nc p"
    "cn_outputs acc1 = dict_set (fst nc) (snd (kept E C h nc p)) (cn_outputs acc)"
    "cn_states acc1 = dict_set (fst nc) (snd (evidence_of C p)) (cn_states acc)"
    "cn_events acc1 = cn_events acc @ [e]"
    by (rule collect_source_Inr)
  have "fst nc \<notin> fst ` set (cn_outputs acc)" "fst nc \<notin> fst ` set (cn_states acc)"
    using Cons.prems(3,4) by auto
  with p have acc1: "cn_outputs acc1 = cn_outputs acc @ [kept E C h nc p]"
    "cn_states acc1 = cn_states acc @ [(fst nc, snd (evidence_of C p))]"
    by (simp_all add: dict_set_fresh) (simp add: kept_def)
  moreover have "fst (kept E C h nc p) = fst nc"
    by (simp add: kept_def)
  ultimately have "fst ` set ncs \<inter> fst ` set (cn_outputs acc1) = {}"
    "fst ` set ncs \<inter> fst ` set (cn_states acc1) = {}" "distinct (map fst ncs)"
    using Cons.prems(2,3,4) by auto
  with Cons.IH [OF rest] obtain ps where "list_all2 (ran_command C h) ncs ps"
    "cn_outputs acc' = cn_outputs acc1 @ map2 (kept E C h) ncs ps"
    "cn_states acc' = cn_states acc1 @ map2 (\<lambda>nc p. (fst nc, snd (evidence_of C p))) ncs ps"
    "length (cn_events acc') = length (cn_events acc1) + length ncs"
    by blast
  with p(1,4) acc1 show ?case
    by (intro exI [of _ "p # ps"]) simp
qed

lemma commands_distinct: "distinct (map fst read_only_commands)"
  by code_simp

lemma ssh_collect_Inr:
  assumes "ssh_collect E K C h i j w = (Inr ce, w')"
  obtains ps u u' where "list_all2 (ran_command C h) read_only_commands ps"
    "sn_commands (ce_snapshot ce) = map2 (kept E C h) read_only_commands ps"
    "sn_evidence_states (ce_snapshot ce) =
       map2 (\<lambda>nc p. (fst nc, snd (evidence_of C p))) read_only_commands ps"
    "length (ce_events ce) = length read_only_commands"
    "normalize_snapshot E (cl_snapshot_text C) h (sn_commands (ce_snapshot ce))
       (sn_evidence_states (ce_snapshot ce)) u = (Inr (ce_snapshot ce), u')"
proof -
  from assms obtain key hosts acc v v1 sn where
    loop: "foldM (collect_source E C h key hosts i j) no_collection read_only_commands v = (Inr acc, v1)"
    and norm: "normalize_snapshot E (cl_snapshot_text C) h (cn_outputs acc) (cn_states acc) v1 = (Inr sn, w')"
    and ce: "ce = \<lparr>ce_snapshot = sn, ce_events = cn_events acc\<rparr>"
    by (auto simp: ssh_collect_def bindM_eq_Inr comp_simps split: if_splits)
  have "sn_commands sn = cn_outputs acc" "sn_evidence_states sn = cn_states acc"
    using norm by (auto simp: normalize_snapshot_def bindM_eq_Inr comp_simps Let_def)
  with collect_all [OF loop commands_distinct] norm ce that show thesis
    by (auto simp: no_collection_def)
qed

text \<open>The stored output of one source comes from a run of its command.\<close>

lemma stored_output:
  assumes "list_all2 (ran_command C h) ncs ps" "distinct (map fst ncs)" "(name, command) \<in> set ncs"
  obtains p where "ran_command C h (name, command) p"
    "map_of (map2 (kept E C h) ncs ps) name = Some (snd (kept E C h (name, command) p))"
proof -
  from assms(3) obtain k where k: "k < length ncs" "ncs ! k = (name, command)"
    by (auto simp: in_set_conv_nth)
  have len: "length ps = length ncs"
    using assms(1) by (simp add: list_all2_lengthD)
  have keys: "map fst (map2 (kept E C h) ncs ps) = map fst ncs"
    using len by (intro nth_equalityI) (auto simp: kept_def)
  have "map2 (kept E C h) ncs ps ! k = (name, snd (kept E C h (name, command) (ps ! k)))"
    using k len by (simp add: kept_def)
  then have "(name, snd (kept E C h (name, command) (ps ! k))) \<in> set (map2 (kept E C h) ncs ps)"
    using k len by (metis length_map length_zip min.idem nth_mem)
  then have "map_of (map2 (kept E C h) ncs ps) name = Some (snd (kept E C h (name, command) (ps ! k)))"
    using assms(2) keys by (intro map_of_is_SomeI) simp_all
  moreover have "ran_command C h (name, command) (ps ! k)"
    using list_all2_nthD [OF assms(1) k(1)] k(2) by simp
  ultimately show thesis
    using that by blast
qed

subsection \<open>Bounds of what is kept\<close>

definition bounded_state :: "int \<Rightarrow> evidence_state \<Rightarrow> bool" where
  "bounded_state limit st \<longleftrightarrow>
     es_retained_bytes st \<le> limit \<and> es_retained_bytes st \<le> es_original_bytes st \<and>
     es_truncated st = (es_retained_bytes st < es_original_bytes st) \<and>
     es_status st \<in> {''available'', ''truncated'', ''unavailable'', ''permission_denied''} \<and>
     (es_status st = ''available'' \<longrightarrow> \<not> es_truncated st) \<and>
     (es_reason st = None \<longleftrightarrow> es_status st \<in> {''available'', ''truncated''})"

lemma evidence_bounded: "0 \<le> cl_max_bytes C \<Longrightarrow> bounded_state (cl_max_bytes C) (snd (evidence_of C p))"
  by (auto simp: bounded_state_def evidence_of_def failure_status_def slice_to_def Let_def)

lemma summary_lengths:
  "length (load_averages outputs) = 3" "length (bounded_lines out n) \<le> n"
proof -
  have "length (List.map_filter f (take 3 xs)) \<le> 3" for f :: "string \<Rightarrow> real option" and xs
    using length_filter_le [of "\<lambda>x. f x \<noteq> None" "take 3 xs"] by (simp add: List.map_filter_def comp_def)
  then show "length (load_averages outputs) = 3"
    by (simp add: load_averages_def Let_def)
qed (simp add: bounded_lines_def)

lemma normalize_snapshot_Inr:
  assumes "normalize_snapshot E json h outputs states w = (Inr sn, w')"
  shows "sn_package_summary sn = package_summary_of outputs" "sn_service_summary sn = service_summary_of outputs"
    "sn_network_summary sn = network_summary_of outputs" "sn_logs sn = host_logs_of outputs"
    "\<exists>hours. uptime_hours outputs = Inr hours"
    "sy_load_average (sn_system_summary sn) = load_averages outputs"
  using assms
  by (auto simp: normalize_snapshot_def system_summary_of_def bindM_eq_Inr comp_simps liftE_def Let_def)

text \<open>
  Where an output and the state beside it come from: \<open>ssh\<close> was run with the command of that name and
  returned \<open>p\<close>; \<open>b\<close> is what was read of it, the first bytes of its standard output, followed for a
  failed command by its standard error; the output is the decoded \<open>b\<close> without the white space around
  it, redacted for the sources about identities; and the state counts the bytes of both.
\<close>

definition read_from ::
  "env \<Rightarrow> ssh_collector \<Rightarrow> host \<Rightarrow> string \<times> string \<Rightarrow> string \<times> evidence_state \<Rightarrow> process_output \<Rightarrow> bytes \<Rightarrow> bool" where
  "read_from E C h named_output named_state p b \<longleftrightarrow>
     (\<exists>command key hosts u v.
        (fst named_output, command) \<in> set read_only_commands \<and>
        x_ssh (cl_processes C) (ssh_arguments h key hosts command) u = (Inr p, v)) \<and>
     fst named_state = fst named_output \<and>
     (let printed = (if po_returncode p = 0 then po_stdout p else po_stdout p @ [CHR 0x0A] @ po_stderr p);
          plain = strip (cl_decode C b)
      in prefix b printed \<and>
         snd named_output = (if fst named_output \<in> set redacted_sources then e_redact E plain (Some h) else plain) \<and>
         es_retained_bytes (snd named_state) = int (length b) \<and>
         es_original_bytes (snd named_state) = int (length printed))"

lemma kept_read_from:
  assumes "nc \<in> set read_only_commands" "ran_command C h nc p" "0 \<le> cl_max_bytes C"
  shows "\<exists>b. read_from E C h (kept E C h nc p) (fst nc, snd (evidence_of C p)) p b \<and>
    int (length b) \<le> cl_max_bytes C"
proof -
  let ?printed = "if po_returncode p = 0 then po_stdout p else po_stdout p @ [CHR 0x0A] @ po_stderr p"
  let ?b = "take (nat (cl_max_bytes C)) ?printed"
  have evidence: "fst (evidence_of C p) = strip (cl_decode C ?b)"
    "es_retained_bytes (snd (evidence_of C p)) = int (length ?b)"
    "es_original_bytes (snd (evidence_of C p)) = int (length ?printed)"
    using assms(3) by (simp_all add: evidence_of_def slice_to_def Let_def)
  have "fst (kept E C h nc p) = fst nc"
    "snd (kept E C h nc p) = (if fst nc \<in> set redacted_sources
       then e_redact E (strip (cl_decode C ?b)) (Some h) else strip (cl_decode C ?b))"
    by (simp_all add: kept_def evidence(1))
  moreover have "prefix ?b ?printed"
    by (rule take_is_prefix)
  moreover have "\<exists>command key hosts u v. (fst nc, command) \<in> set read_only_commands \<and>
      x_ssh (cl_processes C) (ssh_arguments h key hosts command) u = (Inr p, v)"
    using assms(1,2) unfolding ran_command_def by (metis prod.collapse)
  moreover have "int (length ?b) \<le> cl_max_bytes C"
    using assms(3) by simp
  ultimately show ?thesis
    unfolding read_from_def Let_def using evidence(2,3)
    by (intro exI [of _ ?b]) (simp only: fst_conv snd_conv simp_thms)
qed

text \<open>C37: A completed collection is complete and bounded. The snapshot holds an output and a state
  for each of the read-only commands, in their order and for nothing else, and there is one event
  for each; every output was read from no more bytes than the limit, the first ones the process
  printed, and from nothing else, and its state counts exactly those; a state is marked truncated
  exactly when bytes were cut off, is called available only when none were, and gives a reason
  exactly when the command failed; three load averages and at most 200, 200, 50 and 500 lines of
  network data are kept.\<close>

theorem collected_evidence_is_bounded:
  assumes "ssh_collect E K C h i j w = (Inr ce, w')" and "0 \<le> cl_max_bytes C"
  shows "let sn = ce_snapshot ce; nw = sn_network_summary sn in
    map fst (sn_commands sn) = map fst read_only_commands \<and>
    list_all2 (\<lambda>out st. \<exists>p b. read_from E C h out st p b \<and> int (length b) \<le> cl_max_bytes C)
      (sn_commands sn) (sn_evidence_states sn) \<and>
    length (ce_events ce) = length read_only_commands \<and>
    list_all (\<lambda>(_, st). bounded_state (cl_max_bytes C) st) (sn_evidence_states sn) \<and>
    length (sy_load_average (sn_system_summary sn)) = 3 \<and>
    length (nw_interfaces nw) \<le> 200 \<and> length (nw_default_routes nw) \<le> 200 \<and>
    length (nw_dns_servers nw) \<le> 50 \<and> length (nw_listening_ports nw) \<le> 500"
proof -
  from assms(1) obtain ps u u' where ps: "list_all2 (ran_command C h) read_only_commands ps"
    and sn: "sn_commands (ce_snapshot ce) = map2 (kept E C h) read_only_commands ps"
      "sn_evidence_states (ce_snapshot ce) = map2 (\<lambda>nc p. (fst nc, snd (evidence_of C p))) read_only_commands ps"
      "length (ce_events ce) = length read_only_commands"
    and norm: "normalize_snapshot E (cl_snapshot_text C) h (sn_commands (ce_snapshot ce))
       (sn_evidence_states (ce_snapshot ce)) u = (Inr (ce_snapshot ce), u')"
    by (rule ssh_collect_Inr)
  note len = list_all2_lengthD [OF ps]
  have "map fst (map2 (kept E C h) read_only_commands ps) = map fst read_only_commands"
    using len by (auto intro!: nth_equalityI simp: kept_def)
  moreover have "list_all2 (\<lambda>out st. \<exists>p b. read_from E C h out st p b \<and> int (length b) \<le> cl_max_bytes C)
      (map2 (kept E C h) read_only_commands ps)
      (map2 (\<lambda>nc p. (fst nc, snd (evidence_of C p))) read_only_commands ps)"
    using len kept_read_from [OF nth_mem list_all2_nthD [OF ps] assms(2)]
    by (simp add: list_all2_conv_all_nth) blast
  moreover have "list_all (\<lambda>(_, st). bounded_state (cl_max_bytes C) st)
      (map2 (\<lambda>nc p. (fst nc, snd (evidence_of C p))) read_only_commands ps)"
    using assms(2) evidence_bounded by (auto simp: list_all_iff)
  ultimately show ?thesis
    using sn normalize_snapshot_Inr [OF norm] summary_lengths by (simp add: network_summary_of_def Let_def)
qed

subsection \<open>Read-only commands, on the confirmed host\<close>

definition permitted :: "host \<Rightarrow> string list \<Rightarrow> bool" where
  "permitted h args \<longleftrightarrow>
     args \<noteq> [] \<and> hd args = ''ssh'' \<and> ''StrictHostKeyChecking=yes'' \<in> set args \<and>
     (h_username h @ ''@'' @ h_address h) \<in> set args \<and> last args \<in> snd ` set read_only_commands"

lemma arguments_permitted:
  "nc \<in> set read_only_commands \<Longrightarrow> permitted h (ssh_arguments h key hosts (snd nc))"
  by (simp add: permitted_def ssh_arguments_def)

lemma foldM_cong:
  "(\<And>b x w. x \<in> set xs \<Longrightarrow> f b x w = g b x w) \<Longrightarrow> foldM f b xs w = foldM g b xs w"
proof (induction xs arbitrary: b w)
  case (Cons x xs)
  have "foldM f b' xs w' = foldM g b' xs w'" for b' w'
    by (rule Cons.IH) (use Cons.prems in simp)
  with Cons.prems [of x b w] show ?case
    by (simp add: bindM_def split: prod.split sum.split)
qed simp

lemma same_programs:
  "x_keyscan (X\<lparr>x_ssh := run, x_playbook := pb\<rparr>) = x_keyscan X"
  "x_keygen (X\<lparr>x_ssh := run, x_playbook := pb\<rparr>) = x_keygen X"
  by simp_all

lemma same_key: "confirmed_key (X\<lparr>x_ssh := run, x_playbook := pb\<rparr>) h = confirmed_key X h"
  unfolding confirmed_key_def scan_host_key_def same_programs by (rule refl)

text \<open>C36: Collection only reads. What \<open>ssh\<close> would do for any other call than one of the catalogued
  read-only commands, sent with strict host key checking to the host's own address and user, has no
  influence on a collection, and neither has what a playbook would do: no other process is started.\<close>

theorem collection_only_reads:
  assumes "\<And>args. permitted h args \<Longrightarrow> run args = x_ssh (cl_processes C) args"
  shows "ssh_collect E K (C\<lparr>cl_processes := (cl_processes C)\<lparr>x_ssh := run, x_playbook := pb\<rparr>\<rparr>) h i j w =
    ssh_collect E K C h i j w"
proof -
  let ?C = "C\<lparr>cl_processes := (cl_processes C)\<lparr>x_ssh := run, x_playbook := pb\<rparr>\<rparr>"
  have same: "evidence_of ?C p = evidence_of C p" for p
    by (simp add: evidence_of_def)
  have "collect_source E ?C h key hosts i j b nc v = collect_source E C h key hosts i j b nc v"
    if "nc \<in> set read_only_commands" for key hosts b nc v
    using assms [OF arguments_permitted [OF that, of h key hosts]] same
    by (cases nc) (simp add: collect_source_def run_command_def)
  then have loop: "foldM (collect_source E ?C h key hosts i j) b read_only_commands v =
      foldM (collect_source E C h key hosts i j) b read_only_commands v" for key hosts b v
    by (rule foldM_cong)
  have "foldM (collect_source E ?C h key hosts i j) b read_only_commands =
      foldM (collect_source E C h key hosts i j) b read_only_commands" for key hosts b
    using loop by (intro ext)
  moreover have "temp_path (cl_processes ?C) = temp_path (cl_processes C)"
    "confirmed_key (cl_processes ?C) h = confirmed_key (cl_processes C) h"
    "cl_snapshot_text ?C = cl_snapshot_text C"
    by (auto simp: temp_path_def same_key)
  ultimately show ?thesis
    unfolding ssh_collect_def by (simp only:)
qed

subsection \<open>Failures as evidence\<close>

text \<open>What \<open>ssh\<close> leaves when the connection for one command times out, and what \<open>cat\<close> leaves when
  it may not read a file.\<close>

definition lost_connection :: process_output where
  "lost_connection = \<lparr>po_returncode = 255, po_stdout = [],
     po_stderr = ''ssh: connect to host 10.0.0.5 port 22: Connection timed out''\<rparr>"

definition unreadable_file :: process_output where
  "unreadable_file = \<lparr>po_returncode = 1, po_stdout = [],
     po_stderr = ''cat: /proc/uptime: Permission denied''\<rparr>"

definition decodes_ascii :: "ssh_collector \<Rightarrow> bool" where
  "decodes_ascii C \<longleftrightarrow> (\<forall>b. list_all (\<lambda>c. code c < 128) b \<longrightarrow> cl_decode C b = b)"

text \<open>A failed command without output leaves its error text.\<close>

lemma failed_output:
  assumes "decodes_ascii C" and "int (length (po_stderr p)) < cl_max_bytes C"
    and "po_returncode p \<noteq> 0" "po_stdout p = []" "list_all (\<lambda>c. code c < 128) (po_stderr p)"
  shows "fst (evidence_of C p) = strip (CHR 0x0A # po_stderr p)"
proof -
  have "length (CHR 0x0A # po_stderr p) \<le> nat (cl_max_bytes C)" "\<not> cl_max_bytes C < 0"
    using assms(2) by simp_all
  then have "slice_to (cl_max_bytes C) (CHR 0x0A # po_stderr p) = CHR 0x0A # po_stderr p"
    by (simp add: slice_to_def)
  moreover have "cl_decode C (CHR 0x0A # po_stderr p) = CHR 0x0A # po_stderr p"
    using assms(1,5) by (simp add: decodes_ascii_def code_def)
  ultimately show ?thesis
    using assms(3,4) by (simp add: evidence_of_def Let_def)
qed

lemma lost_output:
  assumes "decodes_ascii C" "100 \<le> cl_max_bytes C"
  shows "fst (evidence_of C lost_connection) = po_stderr lost_connection"
proof -
  have "list_all (\<lambda>c. code c < 128) (po_stderr lost_connection)"
    "strip (CHR 0x0A # po_stderr lost_connection) = po_stderr lost_connection"
    by code_simp+
  moreover have "length (po_stderr lost_connection) \<le> 90"
    by (simp add: lost_connection_def)
  ultimately show ?thesis
    using failed_output [of C lost_connection] assms by (simp add: lost_connection_def)
qed

lemma unreadable_output:
  assumes "decodes_ascii C" "100 \<le> cl_max_bytes C"
  shows "fst (evidence_of C unreadable_file) = po_stderr unreadable_file"
proof -
  have "list_all (\<lambda>c. code c < 128) (po_stderr unreadable_file)"
    "strip (CHR 0x0A # po_stderr unreadable_file) = po_stderr unreadable_file"
    by code_simp+
  moreover have "length (po_stderr unreadable_file) \<le> 90"
    by (simp add: unreadable_file_def)
  ultimately show ?thesis
    using failed_output [of C unreadable_file] assms by (simp add: unreadable_file_def)
qed

text \<open>What a collection stored under a name whose command always ends alike.\<close>

lemma stored_source:
  assumes "list_all2 (ran_command C h) read_only_commands ps" "(name, command) \<in> set read_only_commands"
    and "name \<notin> set redacted_sources"
    and "\<And>key hosts u p v. x_ssh (cl_processes C) (ssh_arguments h key hosts command) u = (Inr p, v) \<Longrightarrow> p = q"
  shows "source (map2 (kept E C h) read_only_commands ps) name fallback = fst (evidence_of C q)"
proof -
  obtain p where "ran_command C h (name, command) p"
    "map_of (map2 (kept E C h) read_only_commands ps) name = Some (snd (kept E C h (name, command) p))"
    using stored_output [OF assms(1) commands_distinct assms(2)] by blast
  moreover from this(1) have "p = q"
    using assms(4) by (auto simp: ran_command_def)
  ultimately show ?thesis
    using assms(3) by (simp add: source_def kept_def)
qed

abbreviation reboot_command :: string where
  "reboot_command \<equiv> ''test -f /var/run/reboot-required && cat /var/run/reboot-required || true''"

abbreviation failed_units_command :: string where
  "failed_units_command \<equiv> ''systemctl --failed --no-legend --plain || true''"

text \<open>A lost connection becomes evidence. When the connection times out for the commands that
  look for a required reboot and for failed units, a collection that completes reports that the
  host requires a reboot and that a unit named \<open>ssh:\<close> has failed: the error text is stored as the
  command's output and read like it.\<close>

theorem lost_command_becomes_evidence:
  assumes run: "ssh_collect E K C h i j w = (Inr ce, w')"
    and lost: "\<And>command key hosts u p v. command \<in> {reboot_command, failed_units_command} \<Longrightarrow>
      x_ssh (cl_processes C) (ssh_arguments h key hosts command) u = (Inr p, v) \<Longrightarrow> p = lost_connection"
    and "decodes_ascii C" "100 \<le> cl_max_bytes C"
  shows "ps_reboot_required_now (sn_package_summary (ce_snapshot ce)) \<and>
    ss_failed_units (sn_service_summary (ce_snapshot ce)) = [''ssh:'']"
proof -
  from run obtain ps u u' where ps: "list_all2 (ran_command C h) read_only_commands ps"
    and sn: "sn_commands (ce_snapshot ce) = map2 (kept E C h) read_only_commands ps"
    and norm: "normalize_snapshot E (cl_snapshot_text C) h (sn_commands (ce_snapshot ce))
       (sn_evidence_states (ce_snapshot ce)) u = (Inr (ce_snapshot ce), u')"
    by (rule ssh_collect_Inr)
  have commands: "(''reboot_required'', reboot_command) \<in> set read_only_commands"
    "(''failed_units'', failed_units_command) \<in> set read_only_commands"
    by (simp_all add: read_only_commands_def)
  have plain: "''reboot_required'' \<notin> set redacted_sources" "''failed_units'' \<notin> set redacted_sources"
    by (simp_all add: redacted_sources_def)
  have "source (sn_commands (ce_snapshot ce)) ''reboot_required'' [] = fst (evidence_of C lost_connection)"
    unfolding sn by (rule stored_source [OF ps commands(1) plain(1)]) (use lost in blast)
  moreover have "source (sn_commands (ce_snapshot ce)) ''failed_units'' [] = fst (evidence_of C lost_connection)"
    unfolding sn by (rule stored_source [OF ps commands(2) plain(2)]) (use lost in blast)
  moreover note lost_output [OF assms(3,4)]
  moreover have "strip (po_stderr lost_connection) \<noteq> []"
    "first_columns (po_stderr lost_connection) = [''ssh:'']"
    by code_simp+
  ultimately show ?thesis
    using normalize_snapshot_Inr(1,2) [OF norm] by (simp add: package_summary_of_def service_summary_of_def Let_def)
qed

text \<open>One unreadable file loses all evidence. When \<open>/proc/uptime\<close> cannot be read, the collection
  ends with an exception, whatever the other commands returned, although a failed command is
  otherwise recorded as unavailable evidence: the error text is converted to a number.\<close>

theorem unreadable_uptime_loses_evidence:
  assumes fails: "\<And>key hosts u p v.
      x_ssh (cl_processes C) (ssh_arguments h key hosts ''cat /proc/uptime'') u = (Inr p, v) \<Longrightarrow> p = unreadable_file"
    and "decodes_ascii C" "100 \<le> cl_max_bytes C"
  shows "fst (ssh_collect E K C h i j w) \<noteq> Inr ce"
proof
  assume "fst (ssh_collect E K C h i j w) = Inr ce"
  then obtain w' where run: "ssh_collect E K C h i j w = (Inr ce, w')"
    by (cases "ssh_collect E K C h i j w") auto
  then obtain ps u u' where ps: "list_all2 (ran_command C h) read_only_commands ps"
    and sn: "sn_commands (ce_snapshot ce) = map2 (kept E C h) read_only_commands ps"
    and norm: "normalize_snapshot E (cl_snapshot_text C) h (sn_commands (ce_snapshot ce))
       (sn_evidence_states (ce_snapshot ce)) u = (Inr (ce_snapshot ce), u')"
    by (rule ssh_collect_Inr)
  have command: "(''uptime'', ''cat /proc/uptime'') \<in> set read_only_commands"
    by (simp add: read_only_commands_def)
  have plain: "''uptime'' \<notin> set redacted_sources"
    by (simp add: redacted_sources_def)
  have "source (sn_commands (ce_snapshot ce)) ''uptime'' ''0'' = fst (evidence_of C unreadable_file)"
    unfolding sn by (rule stored_source [OF ps command plain]) (use fails in blast)
  moreover note unreadable_output [OF assms(2,3)]
  moreover have "split_ws (po_stderr unreadable_file) = [''cat:'', ''/proc/uptime:'', ''Permission'', ''denied'']"
    by code_simp
  moreover have "py_float ''cat:'' = None"
    by (simp add: py_float_def unsigned_float_def strip_def is_space_def code_def partition_at_def
        is_exponent_mark_def digits_or_none_def PyStr.is_digit_def Let_def split: option.split)
  ultimately show False
    using normalize_snapshot_Inr(5) [OF norm] by (simp add: uptime_hours_def to_float_def)
qed

subsection \<open>Updates\<close>

lemma group_matches_iff:
  "(b', a', caps') \<in> set (matches (Group n r) (b, a, caps)) \<longleftrightarrow>
     (\<exists>c. (b', a', c) \<in> set (matches r (b, a, caps)) \<and> caps' = (n, take (length a - length a') a) # c)"
  by (force simp: image_iff)

lemmas match_iffs = seq_matches_iff rep_matches_iff lit_matches_iff group_matches_iff

text \<open>The candidate version of an update is the word that follows the slash. In the lines of
  \<open>apt list\<close>, \<open>name/suite version architecture [upgradable from: version]\<close>, that is the suite: the
  version comes after a blank and cannot be part of it.\<close>

theorem candidate_follows_the_slash:
  assumes "parse_update line = Some u"
  shows "\<exists>rest. line = pu_name u @ [CHR 0x2F] @ pu_candidate_version u @ rest \<and>
    CHR 0x2F \<notin> set (pu_name u) \<and> list_all (\<lambda>c. \<not> is_space c) (pu_candidate_version u) \<and>
    pu_name u \<noteq> [] \<and> pu_candidate_version u \<noteq> []"
proof -
  from assms obtain m where m: "match_start update_pattern line = Some m"
    and u: "pu_name u = group 1 m" "pu_candidate_version u = group 2 m"
    by (auto simp: parse_update_def split: if_splits option.splits)
  obtain b a caps where m_eq: "m = (b, a, caps)"
    by (cases m)
  with m have "(b, a, caps) \<in> set (matches update_pattern ([], line, []))"
    by (auto simp: match_start_def split: list.splits)
  then obtain name candidate x y where line: "line = name @ [CHR 0x2F] @ candidate @ x"
    and caps: "caps = [(3, y), (2, candidate), (1, name)]"
    and name: "list_all (\<lambda>c. c \<noteq> CHR 0x2F) name" "1 \<le> length name"
    and candidate: "list_all (\<lambda>c. \<not> is_space c) candidate" "1 \<le> length candidate"
    unfolding update_pattern_def many_def seqs.simps match_iffs
    by (elim exE conjE) simp
  have "group 1 m = name" "group 2 m = candidate"
    by (simp_all add: m_eq caps group_def)
  with u have fields: "pu_name u = name" "pu_candidate_version u = candidate"
    by simp_all
  have "CHR 0x2F \<notin> set name"
    using name(1) unfolding list_all_iff by blast
  moreover have "name \<noteq> []" "candidate \<noteq> []"
    using name(2) candidate(2) by (cases name, simp_all) (cases candidate, simp_all)
  ultimately show ?thesis
    unfolding fields using line candidate(1) by (intro exI [of _ x] conjI)
qed

theorem candidate_follows_the_slash_witness:
  "\<exists>u rest. parse_update ''curl/noble 8.5.1 amd64 [upgradable from: 8.5.0]'' = Some u \<and>
     pu_candidate_version u = ''noble'' \<and>
     ''curl/noble 8.5.1 amd64 [upgradable from: 8.5.0]'' = pu_name u @ [CHR 0x2F] @ pu_candidate_version u @ rest"
proof -
  have "map_option (\<lambda>u. (pu_name u, pu_candidate_version u))
      (parse_update ''curl/noble 8.5.1 amd64 [upgradable from: 8.5.0]'') = Some (''curl'', ''noble'')"
    by code_simp
  then obtain u where u: "parse_update ''curl/noble 8.5.1 amd64 [upgradable from: 8.5.0]'' = Some u"
    "pu_candidate_version u = ''noble''"
    by auto
  with candidate_follows_the_slash [OF u(1)] show ?thesis
    by blast
qed

subsection \<open>Sample collections\<close>

definition sample_collector :: "(string list \<Rightarrow> process_output) \<Rightarrow> ssh_collector" where
  "sample_collector f = \<lparr>cl_processes = (sample_processes [])\<lparr>x_ssh := (\<lambda>args. returnM (f args))\<rparr>,
     cl_max_bytes = 65536, cl_decode = (\<lambda>b. b), cl_snapshot_text = (\<lambda>_. [])\<rparr>"

lemma sample_collector_fields:
  "x_ssh (cl_processes (sample_collector f)) args = returnM (f args)"
  "cl_max_bytes (sample_collector f) = 65536" "decodes_ascii (sample_collector f)"
  by (simp_all add: sample_collector_def decodes_ascii_def)

lemma sample_loop:
  "\<exists>acc' w'. foldM (collect_source E (sample_collector f) h key hosts i j) acc ncs w = (Inr acc', w')"
proof (induction ncs arbitrary: acc w)
  case (Cons nc ncs)
  have "\<exists>acc' w'. collect_source E (sample_collector f) h key hosts i j acc nc w = (Inr acc', w')"
    by (cases nc) (simp add: collect_source_def run_command_def externalM_def sample_collector_fields
        collection_event_def fresh_event_def new_id_def bindM_def comp_simps Let_def split: prod.split)
  with Cons show ?case
    by (fastforce simp: bindM_def)
qed (simp add: comp_simps)

lemma sample_collects:
  assumes quiet: "\<And>key hosts. f (ssh_arguments confirmed_host key hosts ''cat /proc/uptime'') = exit_ok []"
      "\<And>key hosts. f (ssh_arguments confirmed_host key hosts ''free -m'') = exit_ok []"
  shows "\<exists>ce w'. ssh_collect E sample_cipher (sample_collector f) confirmed_host ''job-1'' ''scan-1''
    (key_world []) = (Inr ce, w')"
proof -
  let ?C = "sample_collector f"
  let ?w = "(key_world [])\<lparr>w_uuid := w_uuid (key_world []) + 2\<rparr>"
  obtain acc v where loop: "foldM (collect_source E ?C confirmed_host (dec_nat (w_uuid (key_world [])))
      (dec_nat (w_uuid (key_world []) + 1)) ''job-1'' ''scan-1'') no_collection read_only_commands ?w = (Inr acc, v)"
    using sample_loop by blast
  from collect_all [OF loop commands_distinct] obtain ps where
    ps: "list_all2 (ran_command ?C confirmed_host) read_only_commands ps"
    and outputs: "cn_outputs acc = map2 (kept E ?C confirmed_host) read_only_commands ps"
    by (auto simp: no_collection_def)
  have names: "(''uptime'', ''cat /proc/uptime'') \<in> set read_only_commands"
    "(''memory'', ''free -m'') \<in> set read_only_commands"
    "''uptime'' \<notin> set redacted_sources" "''memory'' \<notin> set redacted_sources"
    by (simp_all add: read_only_commands_def redacted_sources_def)
  have silent: "fst (evidence_of ?C (exit_ok [])) = []"
    by (simp add: evidence_of_def exit_ok_def slice_to_def sample_collector_def strip_def Let_def)
  have "source (cn_outputs acc) ''uptime'' ''0'' = fst (evidence_of ?C (exit_ok []))"
    unfolding outputs
    by (rule stored_source [OF ps names(1,3)]) (simp add: sample_collector_fields returnM_def quiet)
  moreover have "source (cn_outputs acc) ''memory'' [] = fst (evidence_of ?C (exit_ok []))"
    unfolding outputs
    by (rule stored_source [OF ps names(2,4)]) (simp add: sample_collector_fields returnM_def quiet)
  ultimately have "uptime_hours (cn_outputs acc) = Inr 0" "parse_memory_usage (source (cn_outputs acc) ''memory'' []) = Inr 0"
    using silent by (simp_all add: uptime_hours_def parse_memory_usage_def split_ws.simps splitlines_def)
  then have "\<exists>sn w'. normalize_snapshot E (cl_snapshot_text ?C) confirmed_host (cn_outputs acc)
      (cn_states acc) v = (Inr sn, w')"
    by (simp add: normalize_snapshot_def new_id_def bindM_def comp_simps liftE_def Let_def)
  moreover have "confirmed_key (cl_processes ?C) confirmed_host (key_world []) =
      (Inr (''10.0.0.5 ssh-ed25519 AAAA'', True), key_world [])"
    using sample_key_scan(1) [of "[]" "key_world []"] same_key
      [where X = "sample_processes []" and run = "\<lambda>args. returnM (f args)"
        and pb = "x_playbook (sample_processes [])" and h = confirmed_host]
    by (simp add: sample_collector_def)
  moreover have "x_path (cl_processes ?C) = dec_nat"
    by (simp add: sample_collector_def sample_processes_def)
  moreover have "temporary_key sample_cipher (Some ''cred-1'') (key_world []) = (Inr ''PRIVATE KEY'', key_world [])"
    by (simp add: temporary_key_def decrypt_private_key_def decrypt_secret_def bindM_def comp_simps
        get_credential_record_def key_world_def sample_credential_def sample_cipher_def)
  ultimately show ?thesis
    using loop sample_hosts by (auto simp: ssh_collect_def bindM_def comp_simps temp_path_def)
qed

lemma last_argument: "last (ssh_arguments h key hosts command) = command"
  by (simp add: ssh_arguments_def)

abbreviation quiet_collector :: ssh_collector where
  "quiet_collector \<equiv> sample_collector (\<lambda>_. exit_ok [])"

theorem collected_evidence_is_bounded_witness:
  "\<exists>ce w'. ssh_collect (sample_env []) sample_cipher quiet_collector confirmed_host ''job-1'' ''scan-1''
     (key_world []) = (Inr ce, w') \<and> length (ce_events ce) = length read_only_commands \<and>
     list_all2 (\<lambda>out st. \<exists>p b. read_from (sample_env []) quiet_collector confirmed_host out st p b \<and>
         int (length b) \<le> 65536) (sn_commands (ce_snapshot ce)) (sn_evidence_states (ce_snapshot ce))"
proof -
  obtain ce w' where run: "ssh_collect (sample_env []) sample_cipher quiet_collector confirmed_host ''job-1''
      ''scan-1'' (key_world []) = (Inr ce, w')"
    using sample_collects [of "\<lambda>_. exit_ok []"] by blast
  have "0 \<le> cl_max_bytes quiet_collector"
    by (simp add: sample_collector_fields)
  from collected_evidence_is_bounded [OF run this] run show ?thesis
    by (auto simp: Let_def sample_collector_fields)
qed

theorem collection_only_reads_witness:
  "\<exists>ce w'. ssh_collect (sample_env []) sample_cipher (quiet_collector\<lparr>cl_processes :=
     (cl_processes quiet_collector)\<lparr>x_ssh :=
       (\<lambda>args. if permitted confirmed_host args then returnM (exit_ok []) else raiseM (OtherError ''refused'')),
       x_playbook := (\<lambda>_. raiseM (OtherError ''refused''))\<rparr>\<rparr>) confirmed_host ''job-1'' ''scan-1'' (key_world []) =
     (Inr ce, w')"
  using collection_only_reads [where C = quiet_collector and h = confirmed_host and
      run = "\<lambda>args. if permitted confirmed_host args then returnM (exit_ok []) else raiseM (OtherError ''refused'')"]
    sample_collects [of "\<lambda>_. exit_ok []"]
  by (simp add: sample_collector_fields)

theorem lost_command_becomes_evidence_witness:
  "\<exists>ce w'. ssh_collect (sample_env []) sample_cipher
     (sample_collector (\<lambda>args. if last args \<in> {reboot_command, failed_units_command} then lost_connection
        else exit_ok [])) confirmed_host ''job-1'' ''scan-1'' (key_world []) = (Inr ce, w') \<and>
     ps_reboot_required_now (sn_package_summary (ce_snapshot ce))"
proof -
  let ?f = "\<lambda>args. if last args \<in> {reboot_command, failed_units_command} then lost_connection else exit_ok []"
  obtain ce w' where run: "ssh_collect (sample_env []) sample_cipher (sample_collector ?f) confirmed_host ''job-1''
      ''scan-1'' (key_world []) = (Inr ce, w')"
    using sample_collects [of ?f "sample_env []"] by (auto simp: last_argument)
  have "ps_reboot_required_now (sn_package_summary (ce_snapshot ce)) \<and>
      ss_failed_units (sn_service_summary (ce_snapshot ce)) = [''ssh:'']"
    by (rule lost_command_becomes_evidence [OF run])
      (auto simp: sample_collector_fields last_argument returnM_def)
  with run show ?thesis by blast
qed

theorem unreadable_uptime_loses_evidence_witness:
  "isl (fst (ssh_collect (sample_env []) sample_cipher
     (sample_collector (\<lambda>args. if last args = ''cat /proc/uptime'' then unreadable_file else exit_ok []))
     confirmed_host ''job-1'' ''scan-1'' (key_world [])))"
proof -
  let ?f = "\<lambda>args. if last args = ''cat /proc/uptime'' then unreadable_file else exit_ok []"
  have "fst (ssh_collect (sample_env []) sample_cipher (sample_collector ?f) confirmed_host ''job-1''
      ''scan-1'' (key_world [])) \<noteq> Inr ce" for ce
    by (rule unreadable_uptime_loses_evidence) (simp_all add: sample_collector_fields last_argument returnM_def)
  then show ?thesis
    by (metis sum.collapse(2))
qed

end
