(* ===== verification/CallbackProperties.thy ===== *)
theory CallbackProperties
  imports Callback RedactionProperties CollectorProperties
begin

text \<open>
  The callback plugin repeats the redaction of the service in its own words: the two agree on every
  string, so a payload it records holds no address; and its fields are bounded.
\<close>

subsection \<open>Substitution by equal replacements\<close>

lemma sub_from_cong:
  "(\<And>before after m. m \<in> set (matches r (before, after, [])) \<Longrightarrow> f m = g m) \<Longrightarrow>
     sub_from r f before after = sub_from r g before after"
proof (induction after arbitrary: before rule: length_induct)
  case (1 after)
  show ?case
  proof (cases after)
    case (Cons c rest)
    have shorter: "sub_from r f b a = sub_from r g b a" if "length a \<le> length rest" for b a
      using 1 Cons that by auto
    show ?thesis
    proof (cases "matches r (before, c # rest, [])")
      case Nil
      then show ?thesis
        using shorter [of rest] Cons by (simp add: sub_from.simps)
    next
      case (Cons m ms)
      obtain b a caps where m: "m = (b, a, caps)"
        by (cases m)
      have "f m = g m"
        by (rule 1(2) [of m before "c # rest"]) (simp add: Cons)
      then show ?thesis
        using shorter Cons m \<open>after = c # rest\<close> by (simp add: sub_from.simps)
    qed
  qed (simp add: sub_from.simps)
qed

lemma sub_cong:
  "(\<And>before after m. m \<in> set (matches r (before, after, [])) \<Longrightarrow> f m = g m) \<Longrightarrow> sub r f text = sub r g text"
  unfolding sub_def by (rule sub_from_cong)

subsection \<open>The keys of the pattern for secrets\<close>

definition secret_keys :: "string list" where
  "secret_keys =
     [''password'', ''passwd'', ''passphrase'', ''secret'', ''token'', ''apikey'', ''api_key'', ''api-key'',
      ''accesskey'', ''access_key'', ''access-key'', ''clientsecret'', ''client_secret'', ''client-secret'']"

lemma lower_simps [simp]: "lower [] = []" "lower (s @ t) = lower s @ lower t"
  by (simp_all add: lower_def)

lemma lower_char_idem: "lower_char (lower_char c) = lower_char c"
proof -
  have "code (char_of (code c + 32)) = code c + 32" if "code c \<le> 222"
    using that by (simp add: code_def)
  then show ?thesis
    by (auto simp: lower_char_def Let_def)
qed

lemma lower_idem: "lower (lower s) = lower s"
  by (simp add: lower_def lower_char_idem)

lemma joined_iff:
  "(b', a', caps') \<in> set (matches (joined x y) (b, a, caps)) \<Longrightarrow>
     \<exists>u. a = u @ a' \<and> (lower u = x @ y \<or> lower u = x @ ''_'' @ y \<or> lower u = x @ ''-'' @ y)"
  unfolding joined_def optional_def one_def seqs.simps
proof (unfold seq_matches_iff liti_matches_iff, elim exE conjE)
  fix b1 a1 c1 u1 b2 a2 c2 u3
  assume mid: "(b2, a2, c2) \<in> set (matches (Or (Rep True (\<lambda>c. c = CHR ''_'' \<or> c = CHR ''-'') 1 (Some 1)) Empty)
      (b1, a1, c1))"
    and outer: "a = u1 @ a1" "lower u1 = x" "a2 = u3 @ a'" "lower u3 = y"
  have small: "lower ''_'' = ''_''" "lower ''-'' = ''-''"
    by code_simp+
  from mid obtain u2 where "a1 = u2 @ a2" "u2 = [] \<or> u2 = ''_'' \<or> u2 = ''-''"
    by (auto simp: length_Suc_conv le_Suc_eq simp del: matches.simps(3) elim!: ccontr
        dest!: rep_matches_iff [THEN iffD1])
  with outer small show ?thesis
    by (intro exI [of _ "u1 @ u2 @ u3"]) auto
qed

text \<open>A pattern leaves the captures of groups it does not have alone.\<close>

fun without_group :: "nat \<Rightarrow> re \<Rightarrow> bool" where
  "without_group n (Group k r) = (k \<noteq> n \<and> without_group n r)"
| "without_group n (Seq r s) = (without_group n r \<and> without_group n s)"
| "without_group n (Or r s) = (without_group n r \<and> without_group n s)"
| "without_group n _ = True"

lemma other_captures:
  "without_group n r \<Longrightarrow> (b', a', caps') \<in> set (matches r (b, a, caps)) \<Longrightarrow> map_of caps' n = map_of caps n"
proof (induction r arbitrary: b a caps b' a' caps')
  case (Group k r)
  then show ?case
    unfolding group_matches_iff by fastforce
next
  case (Seq r s)
  from Seq.prems(2) obtain b1 a1 c1 where "(b1, a1, c1) \<in> set (matches r (b, a, caps))"
    "(b', a', caps') \<in> set (matches s (b1, a1, c1))"
    unfolding seq_matches_iff by blast
  with Seq show ?case by (metis without_group.simps(2))
next
  case (Or r s)
  then show ?case by (auto simp only: matches.simps set_append Un_iff without_group.simps)
qed (auto simp: advance_def split: if_splits)

abbreviation secret_key_pattern :: re where
  "secret_key_pattern \<equiv> alts
     [LitI ''password'', LitI ''passwd'', LitI ''passphrase'', LitI ''secret'', LitI ''token'',
      joined ''api'' ''key'', joined ''access'' ''key'', joined ''client'' ''secret'']"

lemma secret_key_matched:
  assumes "m \<in> set (matches key_value_secret_pattern (before, after, []))"
  shows "lower (group 1 m) \<in> set secret_keys"
proof -
  define rest where "rest = seqs [Boundary, many is_space 0, separator, many is_space 0, assigned_value]"
  have pattern: "key_value_secret_pattern = Seq Boundary (Seq (Group 1 secret_key_pattern) rest)"
    by (simp add: key_value_secret_pattern_def rest_def)
  have free: "without_group 1 rest"
    by (simp add: rest_def separator_def assigned_value_def quoted_by_def many_def one_def)
  obtain b a caps where m: "m = (b, a, caps)"
    by (cases m)
  from assms obtain b0 a0 c0 b1 a1 c1 c where start: "(b0, a0, c0) \<in> set (matches Boundary (before, after, []))"
    and key: "(b1, a1, c) \<in> set (matches secret_key_pattern (b0, a0, c0))"
    and c1: "c1 = (1, take (length a0 - length a1) a0) # c"
    and rest: "(b, a, caps) \<in> set (matches rest (b1, a1, c1))"
    unfolding m pattern seq_matches_iff group_matches_iff by blast
  have "group 1 m = take (length a0 - length a1) a0"
    using other_captures [OF free rest] by (simp add: m c1 group_def)
  moreover from key have "\<exists>u. a0 = u @ a1 \<and> lower u \<in> set secret_keys"
    unfolding alts.simps matches.simps(9) set_append Un_iff
    by (elim disjE)
      (auto simp: secret_keys_def simp del: matches.simps dest!: liti_matches_iff [THEN iffD1] joined_iff)
  ultimately show ?thesis
    by auto
qed

subsection \<open>One redaction\<close>

text \<open>The service's placeholders for keys that the plugin does not know.\<close>

definition service_key :: "string \<Rightarrow> bool" where
  "service_key k \<longleftrightarrow>
     str_in ''credential_id'' k \<or> str_in ''credentialid'' k \<or> ends_with k ''_credential'' \<or>
     str_in ''provider_metadata'' k \<or> str_in ''providermetadata'' k \<or> k = ''metadata'' \<or>
     str_in ''snapshot_target'' k \<or> str_in ''snapshottarget'' k \<or>
     str_in ''external_snapshot'' k \<or> str_in ''externalsnapshot'' k"

lemma secret_keys_known: "list_all (\<lambda>k. \<not> service_key k) secret_keys"
  by code_simp

lemma address_suffix: "ends_with k ''_address'' \<Longrightarrow> str_in ''address'' k"
proof -
  assume "ends_with k ''_address''"
  then obtain p where "k = p @ ''_'' @ ''address'' @ []"
    by (auto simp: suffix_def)
  then show ?thesis
    unfolding sublist_def by (metis append.assoc)
qed

lemma or_redacted_if: "or_redacted (if c then a else b) = (if c then or_redacted a else or_redacted b)"
  by simp

lemma same_placeholders:
  assumes "lower key \<in> set secret_keys"
  shows "callback_placeholder key = or_redacted (placeholder_for_key key)"
proof -
  have "\<not> service_key (lower key)"
    using assms secret_keys_known by (auto simp: list_all_iff)
  then have unknown: "\<not> str_in ''credential_id'' (lower key)" "\<not> str_in ''credentialid'' (lower key)"
    "\<not> ends_with (lower key) ''_credential''" "\<not> str_in ''provider_metadata'' (lower key)"
    "\<not> str_in ''providermetadata'' (lower key)" "lower key \<noteq> ''metadata''"
    "\<not> str_in ''snapshot_target'' (lower key)" "\<not> str_in ''snapshottarget'' (lower key)"
    "\<not> str_in ''external_snapshot'' (lower key)" "\<not> str_in ''externalsnapshot'' (lower key)"
    by (simp_all add: service_key_def)
  have address: "(str_in ''address'' (lower key) \<or> lower key \<in> {''ip'', ''ip_address''} \<or>
      ends_with (lower key) ''_address'') = (str_in ''address'' (lower key) \<or> lower key \<in> {''ip'', ''ip_address''})"
    using address_suffix by blast
  have texts: "or_redacted (Some p) = p" "or_redacted None = ''[REDACTED]''" for p
    by (simp_all add: or_redacted_def)
  show ?thesis
    unfolding callback_placeholder_def placeholder_for_key_def Let_def or_redacted_if texts address
    using unknown by (simp only: simp_thms if_False)
qed

text \<open>The plugin's patterns are the service's, one by one.\<close>

lemma same_patterns:
  "callback_private_key_pattern = private_key_pattern" "callback_email_pattern = email_pattern"
  "callback_ip_pattern = ip_pattern"
  "callback_authorization_header_pattern = authorization_header_pattern"
  "callback_bearer_token_pattern = bearer_token_pattern"
  "callback_key_value_secret_pattern = key_value_secret_pattern"
  "callback_identity_key_value_pattern = identity_key_value_pattern"
  "callback_api_key_patterns = api_key_patterns"
proof -
  have classes: "upper_or_blank = (\<lambda>c. is_upper c \<or> c = CHR '' '')"
    "bare_value = (\<lambda>c. \<not> is_space c \<and> c \<noteq> CHR '','' \<and> c \<noteq> CHR '';'')"
    "upper_or_digit = (\<lambda>c. is_upper c \<or> is_digit c)"
    by (simp_all add: fun_eq_iff upper_or_blank_def bare_value_def upper_or_digit_def)
  show "callback_private_key_pattern = private_key_pattern"
    "callback_email_pattern = email_pattern"
    "callback_ip_pattern = ip_pattern"
    "callback_authorization_header_pattern = authorization_header_pattern"
    "callback_bearer_token_pattern = bearer_token_pattern"
    "callback_key_value_secret_pattern = key_value_secret_pattern"
    "callback_identity_key_value_pattern = identity_key_value_pattern"
    "callback_api_key_patterns = api_key_patterns"
    by (simp_all add: callback_private_key_pattern_def private_key_pattern_def
        callback_email_pattern_def email_pattern_def callback_ip_pattern_def ip_pattern_def dotted_def
        octet_def callback_authorization_header_pattern_def authorization_header_pattern_def
        callback_bearer_token_pattern_def bearer_token_pattern_def callback_key_value_secret_pattern_def
        key_value_secret_pattern_def callback_identity_key_value_pattern_def
        identity_key_value_pattern_def callback_assignment_def separator_def assigned_value_def
        quoted_by_def joined_def callback_api_key_patterns_def api_key_patterns_def classes)
qed

lemma same_replacements:
  "callback_preserve_quotes = preserve_quotes" "callback_replace_identity = replace_identity_key_value"
proof -
  show quotes: "callback_preserve_quotes = preserve_quotes"
    by (intro ext) (simp only: callback_preserve_quotes_def preserve_quotes_def append_Cons append_Nil)
  show "callback_replace_identity = replace_identity_key_value"
    by (simp add: fun_eq_iff callback_replace_identity_def replace_identity_key_value_def quotes
        callback_identity_placeholder_def identity_placeholder_def or_redacted_def)
qed

lemma callback_redacted_eq: "callback_redacted text = redact_text text None"
proof -
  have "sub key_value_secret_pattern callback_replace_secret t =
      sub key_value_secret_pattern replace_key_value_secret t" for t
    by (rule sub_cong)
      (simp only: callback_replace_secret_def replace_key_value_secret_def same_replacements
        same_placeholders [OF secret_key_matched])
  then show ?thesis
    by (simp add: callback_redacted_def redact_text_def redact_secrets_def redact_host_def host_patterns_def
        same_patterns same_replacements Let_def)
qed

text \<open>C40: The callback plugin redacts a string exactly as the service does without a host: the
  plugin's own copies of the patterns, the quoting and the placeholders, translated from its source
  apart from the service's, give the same text, the same mark for a change and the same verdict
  about safety, on every string.\<close>

theorem callback_redacts_like_the_service:
  "callback_sanitize_string text =
     (let x = sanitize_string text None in (rd_value x, rd_applied x, rd_verified_safe x))"
  by (simp add: callback_sanitize_string_def sanitize_string_def callback_redacted_eq string_is_safe_def
      callback_string_is_safe_def same_patterns all_patterns_def host_patterns_def Let_def conj_assoc)

subsection \<open>Recorded results\<close>

lemma digitless_callback_placeholder: "list_all (\<lambda>c. \<not> is_digit c) (callback_placeholder k)"
proof -
  have split: "list_all P a \<Longrightarrow> list_all P b \<Longrightarrow> list_all P (if c then a else b)" for P and a b :: string and c
    by simp
  show ?thesis
    unfolding callback_placeholder_def Let_def
    by (intro split) (simp_all add: is_digit_def in_range_def code_def)
qed

lemma callback_texts:
  "list_all no_ip (texts (fst (callback_sanitize j)))"
  "list_all no_ip (texts_items (fst (callback_items js)))"
  "list_all no_ip (texts_members (fst (callback_members ms)))"
proof (induction j and js and ms rule: callback_sanitize_callback_items_callback_members.induct)
  case (3 s)
  show ?case by (simp add: callback_sanitize_string_def callback_redacted_eq redacted_text_clean Let_def)
next
  case (10 k j ms)
  have "no_ip (callback_placeholder k)"
    using found_skip [OF digitless_callback_placeholder [of k], of "[]" "[]"] ip_nowhere [of "[]"]
    by (simp add: search_def ip_here_def at_word_def)
  with 10 show ?case
    by (auto simp: Let_def split: prod.splits)
qed (auto simp: Let_def split: prod.splits)

lemma bounded_field:
  assumes "bounded decode j = (s, dropped, n)"
  shows "n = length (utf8 (field_text j))" "dropped = (max_field_bytes < n)"
    "s = decode (take max_field_bytes (utf8 (field_text j)))"
  using assms by (auto simp: bounded_def Let_def max_field_bytes_def)

end
