(* ===== verification/Tables.thy ===== *)
theory Tables
  imports Credentials
begin

text \<open>
  The tables of \<open>database.py\<close> and what \<open>SqlRepository\<close> (\<open>repository.py\<close>) reads from and writes to
  them: a row holds the columns that queries filter on beside the whole object as JSON, except for
  users, sessions and credentials, which are columns only. The job table is in \<open>SqlJobStore\<close>.

  A table is a dictionary from the primary key to the row. The width of a text column is enforced
  by PostgreSQL and ignored by SQLite, so a database carries a flag for it. A write that is refused
  leaves the database as it was; outside a transaction the saves of a list are writes of their own.
  The columns \<open>nullable\<close>, \<open>index\<close> and \<open>default\<close> restrict nothing here: every insertion sets all
  columns, with optional values only where the column may be null.
\<close>

subsection \<open>Texts of enumerations\<close>

fun user_role_text :: "user_role \<Rightarrow> string" where
  "user_role_text RoleAdmin = ''admin''"
| "user_role_text RoleOperator = ''operator''"
| "user_role_text RoleAuditor = ''auditor''"

fun campaign_status_text :: "campaign_status \<Rightarrow> string" where
  "campaign_status_text CDraft = ''draft''"
| "campaign_status_text CProposing = ''proposing''"
| "campaign_status_text CAwaitingApproval = ''awaiting_approval''"
| "campaign_status_text CReady = ''ready''"
| "campaign_status_text CRunning = ''running''"
| "campaign_status_text CPartiallySucceeded = ''partially_succeeded''"
| "campaign_status_text CSucceeded = ''succeeded''"
| "campaign_status_text CFailed = ''failed''"
| "campaign_status_text CCancelling = ''cancelling''"
| "campaign_status_text CCanceled = ''canceled''"

fun campaign_host_state_text :: "campaign_host_state \<Rightarrow> string" where
  "campaign_host_state_text HSelected = ''selected''"
| "campaign_host_state_text HProposalQueued = ''proposal_queued''"
| "campaign_host_state_text HProposalRunning = ''proposal_running''"
| "campaign_host_state_text HAwaitingApproval = ''awaiting_approval''"
| "campaign_host_state_text HAwaitingRebootApproval = ''awaiting_reboot_approval''"
| "campaign_host_state_text HApproved = ''approved''"
| "campaign_host_state_text HScheduled = ''scheduled''"
| "campaign_host_state_text HQueued = ''queued''"
| "campaign_host_state_text HRunning = ''running''"
| "campaign_host_state_text HSucceeded = ''succeeded''"
| "campaign_host_state_text HFailed = ''failed''"
| "campaign_host_state_text HRejected = ''rejected''"
| "campaign_host_state_text HBlocked = ''blocked''"
| "campaign_host_state_text HCanceled = ''canceled''"
| "campaign_host_state_text HNoAction = ''no_action''"
| "campaign_host_state_text HPlanChanged = ''plan_changed''"

fun rollback_state_text :: "rollback_snapshot_state \<Rightarrow> string" where
  "rollback_state_text SnapCreating = ''creating''"
| "rollback_state_text SnapCreated = ''created''"
| "rollback_state_text SnapDeleteScheduled = ''delete_scheduled''"
| "rollback_state_text SnapDeleted = ''deleted''"
| "rollback_state_text SnapRollbackStarted = ''rollback_started''"
| "rollback_state_text SnapRolledBack = ''rolled_back''"
| "rollback_state_text SnapRollbackFailed = ''rollback_failed''"
| "rollback_state_text SnapDeleteFailed = ''delete_failed''"

text \<open>The enumeration's member of a text, or a validation error, as pydantic's models do it.\<close>

definition validate_enum :: "('a \<Rightarrow> string) \<Rightarrow> 'a list \<Rightarrow> string \<Rightarrow> exn + 'a" where
  "validate_enum shown members s =
     (case List.find (\<lambda>v. shown v = s) members of
        Some v \<Rightarrow> Inr v | None \<Rightarrow> Inl (ValueError ''Input is not a member of the enumeration''))"

text \<open>\<open>value.split(".", 1)[1].lower()\<close> of \<open>UserRole.ADMIN\<close>, and other values as they are.\<close>

definition normalized_user_role :: "string \<Rightarrow> string" where
  "normalized_user_role v =
     (if starts_with v ''UserRole.'' then lower (drop 9 v) else v)"

subsection \<open>Rows\<close>

definition fits :: "nat \<Rightarrow> string \<Rightarrow> bool" where
  "fits n s \<longleftrightarrow> length s \<le> n"

definition fits_opt :: "nat \<Rightarrow> string option \<Rightarrow> bool" where
  "fits_opt n v \<longleftrightarrow> pred_option (fits n) v"

record host_record =
  qho_id :: string
  qho_name :: string
  qho_address :: string
  qho_environment :: string
  qho_payload :: host
  qho_created_at :: datetime
  qho_updated_at :: datetime

definition host_values :: "host \<Rightarrow> host_record" where
  "host_values x =
     \<lparr>qho_id = h_id x, qho_name = h_name x, qho_address = h_address x,
      qho_environment = h_environment x, qho_payload = x, qho_created_at = h_created_at x,
      qho_updated_at = h_updated_at x\<rparr>"

definition host_fits :: "host_record \<Rightarrow> bool" where
  "host_fits r \<longleftrightarrow>
     fits 96 (qho_id r) \<and> fits 200 (qho_name r) \<and> fits 255 (qho_address r) \<and>
     fits 100 (qho_environment r)"

record schedule_record =
  qsd_id :: string
  qsd_host_id :: string
  qsd_enabled :: bool
  qsd_next_run_at :: "datetime option"
  qsd_payload :: host_schedule
  qsd_created_at :: datetime
  qsd_updated_at :: datetime

definition schedule_values :: "host_schedule \<Rightarrow> schedule_record" where
  "schedule_values x =
     \<lparr>qsd_id = hs_id x, qsd_host_id = hs_host_id x, qsd_enabled = hs_enabled x,
      qsd_next_run_at = hs_next_run_at x, qsd_payload = x, qsd_created_at = hs_created_at x,
      qsd_updated_at = hs_updated_at x\<rparr>"

definition schedule_fits :: "schedule_record \<Rightarrow> bool" where
  "schedule_fits r \<longleftrightarrow>
     fits 96 (qsd_id r) \<and> fits 96 (qsd_host_id r)"

record snapshot_record =
  qsp_id :: string
  qsp_host_id :: string
  qsp_snapshot_hash :: string
  qsp_payload :: host_snapshot
  qsp_collected_at :: datetime

definition snapshot_values :: "host_snapshot \<Rightarrow> snapshot_record" where
  "snapshot_values x =
     \<lparr>qsp_id = sn_id x, qsp_host_id = sn_host_id x, qsp_snapshot_hash = sn_snapshot_hash x,
      qsp_payload = x, qsp_collected_at = sn_collected_at x\<rparr>"

definition snapshot_fits :: "snapshot_record \<Rightarrow> bool" where
  "snapshot_fits r \<longleftrightarrow>
     fits 96 (qsp_id r) \<and> fits 96 (qsp_host_id r) \<and> fits 64 (qsp_snapshot_hash r)"

record rollback_record =
  qrb_id :: string
  qrb_host_id :: string
  qrb_remediation_id :: string
  qrb_provider :: string
  qrb_state :: string
  qrb_external_snapshot_id :: "string option"
  qrb_delete_after :: "datetime option"
  qrb_payload :: rollback_snapshot
  qrb_created_at :: datetime
  qrb_updated_at :: datetime

definition rollback_values :: "rollback_snapshot \<Rightarrow> rollback_record" where
  "rollback_values x =
     \<lparr>qrb_id = rs_id x, qrb_host_id = rs_host_id x, qrb_remediation_id = rs_remediation_id x,
      qrb_provider = snapshot_platform_text (rs_provider x),
      qrb_state = rollback_state_text (rs_state x),
      qrb_external_snapshot_id = rs_external_snapshot_id x, qrb_delete_after = rs_delete_after x,
      qrb_payload = x, qrb_created_at = rs_created_at x, qrb_updated_at = rs_updated_at x\<rparr>"

definition rollback_fits :: "rollback_record \<Rightarrow> bool" where
  "rollback_fits r \<longleftrightarrow>
     fits 96 (qrb_id r) \<and> fits 96 (qrb_host_id r) \<and> fits 96 (qrb_remediation_id r) \<and>
     fits 40 (qrb_provider r) \<and> fits 40 (qrb_state r) \<and> fits_opt 255 (qrb_external_snapshot_id r)"

record scan_record =
  qsc_id :: string
  qsc_host_id :: string
  qsc_status :: string
  qsc_trigger :: string
  qsc_payload :: scan_job
  qsc_created_at :: datetime
  qsc_updated_at :: datetime

definition scan_values :: "scan_job \<Rightarrow> scan_record" where
  "scan_values x =
     \<lparr>qsc_id = s_id x, qsc_host_id = s_host_id x, qsc_status = s_status x,
      qsc_trigger = s_trigger x, qsc_payload = x, qsc_created_at = s_created_at x,
      qsc_updated_at = s_updated_at x\<rparr>"

definition scan_fits :: "scan_record \<Rightarrow> bool" where
  "scan_fits r \<longleftrightarrow>
     fits 96 (qsc_id r) \<and> fits 96 (qsc_host_id r) \<and> fits 40 (qsc_status r) \<and>
     fits 40 (qsc_trigger r)"

record agent_run_record =
  qan_id :: string
  qan_scan_id :: string
  qan_agent_name :: string
  qan_provider :: string
  qan_model :: string
  qan_contract_hash :: string
  qan_input_hash :: string
  qan_payload :: agent_run
  qan_created_at :: datetime

definition agent_run_values :: "agent_run \<Rightarrow> agent_run_record" where
  "agent_run_values x =
     \<lparr>qan_id = ar_id x, qan_scan_id = ar_scan_id x,
      qan_agent_name = agent_name_text (ai_name (ar_agent x)),
      qan_provider = ai_provider (ar_agent x), qan_model = ai_model (ar_agent x),
      qan_contract_hash = ai_contract_hash (ar_agent x), qan_input_hash = ar_input_hash x,
      qan_payload = x, qan_created_at = ar_created_at x\<rparr>"

definition agent_run_fits :: "agent_run_record \<Rightarrow> bool" where
  "agent_run_fits r \<longleftrightarrow>
     fits 96 (qan_id r) \<and> fits 96 (qan_scan_id r) \<and> fits 64 (qan_agent_name r) \<and>
     fits 64 (qan_provider r) \<and> fits 160 (qan_model r) \<and> fits 64 (qan_contract_hash r) \<and>
     fits 64 (qan_input_hash r)"

record agent_message_record =
  qag_id :: string
  qag_scan_id :: string
  qag_from_agent :: string
  qag_to_agent :: string
  qag_response :: string
  qag_payload :: agent_message
  qag_created_at :: datetime

definition agent_message_values :: "agent_message \<Rightarrow> agent_message_record" where
  "agent_message_values x =
     \<lparr>qag_id = am_id x, qag_scan_id = am_scan_id x,
      qag_from_agent = agent_name_text (am_from_agent x),
      qag_to_agent = agent_name_text (am_to_agent x), qag_response = am_response x,
      qag_payload = x, qag_created_at = am_created_at x\<rparr>"

definition agent_message_fits :: "agent_message_record \<Rightarrow> bool" where
  "agent_message_fits r \<longleftrightarrow>
     fits 96 (qag_id r) \<and> fits 96 (qag_scan_id r) \<and> fits 64 (qag_from_agent r) \<and>
     fits 64 (qag_to_agent r) \<and> fits 40 (qag_response r)"

record finding_record =
  qfi_id :: string
  qfi_host_id :: string
  qfi_scan_id :: string
  qfi_severity :: string
  qfi_source_agent :: string
  qfi_payload :: finding
  qfi_created_at :: datetime

definition finding_values :: "finding \<Rightarrow> finding_record" where
  "finding_values x =
     \<lparr>qfi_id = f_id x, qfi_host_id = f_host_id x, qfi_scan_id = or_empty (f_scan_id x),
      qfi_severity = severity_text (f_severity x),
      qfi_source_agent = agent_name_text (f_source_agent x), qfi_payload = x,
      qfi_created_at = f_created_at x\<rparr>"

definition finding_fits :: "finding_record \<Rightarrow> bool" where
  "finding_fits r \<longleftrightarrow>
     fits 96 (qfi_id r) \<and> fits 96 (qfi_host_id r) \<and> fits 96 (qfi_scan_id r) \<and>
     fits 32 (qfi_severity r) \<and> fits 64 (qfi_source_agent r)"

record remediation_record =
  qre_id :: string
  qre_host_id :: string
  qre_scan_id :: "string option"
  qre_approval_state :: string
  qre_execution_state :: string
  qre_plan_hash :: string
  qre_payload :: remediation
  qre_created_at :: datetime
  qre_updated_at :: datetime

definition remediation_values :: "remediation \<Rightarrow> remediation_record" where
  "remediation_values x =
     \<lparr>qre_id = r_id x, qre_host_id = r_host_id x, qre_scan_id = r_scan_id x,
      qre_approval_state = r_approval_state x, qre_execution_state = r_execution_state x,
      qre_plan_hash = r_plan_hash x, qre_payload = x, qre_created_at = r_created_at x,
      qre_updated_at = r_updated_at x\<rparr>"

definition remediation_fits :: "remediation_record \<Rightarrow> bool" where
  "remediation_fits r \<longleftrightarrow>
     fits 96 (qre_id r) \<and> fits 96 (qre_host_id r) \<and> fits_opt 96 (qre_scan_id r) \<and>
     fits 40 (qre_approval_state r) \<and> fits 40 (qre_execution_state r) \<and> fits 64 (qre_plan_hash r)"

record campaign_record =
  qca_id :: string
  qca_status :: string
  qca_payload :: patch_campaign
  qca_created_at :: datetime
  qca_updated_at :: datetime

definition campaign_values :: "patch_campaign \<Rightarrow> campaign_record" where
  "campaign_values x =
     \<lparr>qca_id = c_id x, qca_status = campaign_status_text (c_status x), qca_payload = x,
      qca_created_at = c_created_at x, qca_updated_at = c_updated_at x\<rparr>"

definition campaign_fits :: "campaign_record \<Rightarrow> bool" where
  "campaign_fits r \<longleftrightarrow>
     fits 96 (qca_id r) \<and> fits 40 (qca_status r)"

record campaign_host_record =
  qch_id :: string
  qch_campaign_id :: string
  qch_host_id :: string
  qch_remediation_id :: "string option"
  qch_state :: string
  qch_approval_state :: string
  qch_reboot_approval_state :: string
  qch_plan_version :: "int option"
  qch_plan_hash :: "string option"
  qch_job_id :: "string option"
  qch_payload :: campaign_host_plan
  qch_created_at :: datetime
  qch_updated_at :: datetime

definition campaign_host_values :: "string \<Rightarrow> campaign_host_plan \<Rightarrow> campaign_host_record" where
  "campaign_host_values campaign_id x =
     \<lparr>qch_id = hp_id x, qch_campaign_id = campaign_id, qch_host_id = hp_host_id x,
      qch_remediation_id = hp_remediation_id x,
      qch_state = campaign_host_state_text (hp_state x),
      qch_approval_state = hp_approval_state x,
      qch_reboot_approval_state = hp_reboot_approval_state x,
      qch_plan_version = hp_plan_version x, qch_plan_hash = hp_plan_hash x,
      qch_job_id = hp_job_id x, qch_payload = x, qch_created_at = hp_created_at x,
      qch_updated_at = hp_updated_at x\<rparr>"

definition campaign_host_fits :: "campaign_host_record \<Rightarrow> bool" where
  "campaign_host_fits r \<longleftrightarrow>
     fits 196 (qch_id r) \<and> fits 96 (qch_campaign_id r) \<and> fits 96 (qch_host_id r) \<and>
     fits_opt 96 (qch_remediation_id r) \<and> fits 40 (qch_state r) \<and>
     fits 40 (qch_approval_state r) \<and> fits 40 (qch_reboot_approval_state r) \<and>
     fits_opt 64 (qch_plan_hash r) \<and> fits_opt 96 (qch_job_id r)"

record log_event_record =
  qle_id :: string
  qle_timestamp :: datetime
  qle_host_id :: "string option"
  qle_job_id :: "string option"
  qle_scan_id :: "string option"
  qle_remediation_id :: "string option"
  qle_agent_run_id :: "string option"
  qle_severity :: string
  qle_source :: string
  qle_phase_id :: "string option"
  qle_task_id :: "string option"
  qle_payload :: structured_log_event

definition log_event_values :: "structured_log_event \<Rightarrow> log_event_record" where
  "log_event_values x =
     \<lparr>qle_id = l_id x, qle_timestamp = l_timestamp x, qle_host_id = l_host_id x,
      qle_job_id = l_job_id x, qle_scan_id = l_scan_id x,
      qle_remediation_id = l_remediation_id x, qle_agent_run_id = l_agent_run_id x,
      qle_severity = severity_text (l_severity x), qle_source = l_source x,
      qle_phase_id = l_phase_id x, qle_task_id = l_task_id x, qle_payload = x\<rparr>"

definition log_event_fits :: "log_event_record \<Rightarrow> bool" where
  "log_event_fits r \<longleftrightarrow>
     fits 96 (qle_id r) \<and> fits_opt 96 (qle_host_id r) \<and> fits_opt 96 (qle_job_id r) \<and>
     fits_opt 96 (qle_scan_id r) \<and> fits_opt 96 (qle_remediation_id r) \<and>
     fits_opt 96 (qle_agent_run_id r) \<and> fits 32 (qle_severity r) \<and> fits 160 (qle_source r) \<and>
     fits_opt 160 (qle_phase_id r) \<and> fits_opt 160 (qle_task_id r)"

record alert_record =
  qav_id :: string
  qav_severity :: string
  qav_acknowledged :: bool
  qav_host_id :: "string option"
  qav_payload :: alert
  qav_created_at :: datetime

definition alert_values :: "alert \<Rightarrow> alert_record" where
  "alert_values x =
     \<lparr>qav_id = al_id x, qav_severity = severity_text (al_severity x),
      qav_acknowledged = al_acknowledged x, qav_host_id = al_host_id x, qav_payload = x,
      qav_created_at = al_created_at x\<rparr>"

definition alert_fits :: "alert_record \<Rightarrow> bool" where
  "alert_fits r \<longleftrightarrow>
     fits 96 (qav_id r) \<and> fits 32 (qav_severity r) \<and> fits_opt 96 (qav_host_id r)"

record audit_record =
  qat_id :: string
  qat_actor :: string
  qat_action :: string
  qat_target_type :: string
  qat_target_id :: "string option"
  qat_payload :: audit_event
  qat_created_at :: datetime

definition audit_values :: "audit_event \<Rightarrow> audit_record" where
  "audit_values x =
     \<lparr>qat_id = au_id x, qat_actor = au_actor x, qat_action = au_action x,
      qat_target_type = au_target_type x, qat_target_id = au_target_id x, qat_payload = x,
      qat_created_at = au_created_at x\<rparr>"

definition audit_fits :: "audit_record \<Rightarrow> bool" where
  "audit_fits r \<longleftrightarrow>
     fits 96 (qat_id r) \<and> fits 128 (qat_actor r) \<and> fits 160 (qat_action r) \<and>
     fits 80 (qat_target_type r) \<and> fits_opt 96 (qat_target_id r)"

record user_record =
  qur_id :: string
  qur_username :: string
  qur_role :: string
  qur_password_hash :: string
  qur_created_at :: datetime

definition user_values :: "string \<Rightarrow> user \<Rightarrow> user_record" where
  "user_values password_hash x =
     \<lparr>qur_id = u_id x, qur_username = u_username x, qur_role = user_role_text (u_role x),
      qur_password_hash = password_hash, qur_created_at = u_created_at x\<rparr>"

definition user_fits :: "user_record \<Rightarrow> bool" where
  "user_fits r \<longleftrightarrow>
     fits 96 (qur_id r) \<and> fits 128 (qur_username r) \<and> fits 32 (qur_role r)"

record session_record =
  qsr_id :: string
  qsr_user_id :: string
  qsr_token_hash :: string
  qsr_csrf_hash :: string
  qsr_expires_at :: datetime
  qsr_created_at :: datetime

definition session_values :: "string \<Rightarrow> session_row \<Rightarrow> session_record" where
  "session_values token_hash x =
     \<lparr>qsr_id = se_id x, qsr_user_id = se_user_id x, qsr_token_hash = token_hash,
      qsr_csrf_hash = se_csrf_hash x, qsr_expires_at = se_expires_at x,
      qsr_created_at = se_created_at x\<rparr>"

definition session_fits :: "session_record \<Rightarrow> bool" where
  "session_fits r \<longleftrightarrow>
     fits 96 (qsr_id r) \<and> fits 96 (qsr_user_id r) \<and> fits 64 (qsr_token_hash r) \<and>
     fits 64 (qsr_csrf_hash r)"

record credential_record =
  qce_id :: string
  qce_name :: string
  qce_credential_type :: string
  qce_fingerprint :: string
  qce_metadata :: details
  qce_encrypted_key :: bytes
  qce_nonce :: bytes
  qce_created_at :: datetime
  qce_last_used_at :: "datetime option"

definition credential_values :: "bytes \<Rightarrow> bytes \<Rightarrow> ssh_credential \<Rightarrow> credential_record" where
  "credential_values encrypted_key nonce x =
     \<lparr>qce_id = cr_id x, qce_name = cr_name x,
      qce_credential_type = credential_type_text (cr_credential_type x),
      qce_fingerprint = cr_fingerprint x, qce_metadata = cr_metadata x,
      qce_encrypted_key = encrypted_key, qce_nonce = nonce, qce_created_at = cr_created_at x,
      qce_last_used_at = cr_last_used_at x\<rparr>"

definition credential_fits :: "credential_record \<Rightarrow> bool" where
  "credential_fits r \<longleftrightarrow>
     fits 96 (qce_id r) \<and> fits 200 (qce_name r) \<and> fits 64 (qce_credential_type r) \<and>
     fits 64 (qce_fingerprint r)"

record database =
  d_checks_length :: bool
  d_hosts :: "(string, host_record) dict"
  d_credentials :: "(string, credential_record) dict"
  d_schedules :: "(string, schedule_record) dict"
  d_snapshots :: "(string, snapshot_record) dict"
  d_rollbacks :: "(string, rollback_record) dict"
  d_scans :: "(string, scan_record) dict"
  d_agent_runs :: "(string, agent_run_record) dict"
  d_agent_messages :: "(string, agent_message_record) dict"
  d_findings :: "(string, finding_record) dict"
  d_remediations :: "(string, remediation_record) dict"
  d_campaigns :: "(string, campaign_record) dict"
  d_campaign_hosts :: "(string, campaign_host_record) dict"
  d_jobs :: job_table
  d_logs :: "(string, log_event_record) dict"
  d_alerts :: "(string, alert_record) dict"
  d_audits :: "(string, audit_record) dict"
  d_users :: "(string, user_record) dict"
  d_sessions :: "(string, session_record) dict"

subsection \<open>Writing rows\<close>

type_synonym db_write = "database \<Rightarrow> (exn + unit) \<times> database"

text \<open>Update the row of a primary key or insert one: \<open>unique\<close> says that no other row takes a value
  of a unique column.\<close>

definition put_row ::
  "(((string, 'r) dict \<Rightarrow> (string, 'r) dict) \<Rightarrow> database \<Rightarrow> database) \<Rightarrow> bool \<Rightarrow> bool \<Rightarrow>
   string \<Rightarrow> 'r \<Rightarrow> db_write" where
  "put_row update_table fitting unique i row D =
     (if d_checks_length D \<and> \<not> fitting then (Inl (OtherError ''value too long for its column''), D)
      else if \<not> unique then (Inl (IntegrityError ''unique column''), D)
      else (Inr (), update_table (dict_set i row) D))"

definition others_free :: "('r \<Rightarrow> bool) \<Rightarrow> string \<Rightarrow> (string, 'r) dict \<Rightarrow> bool" where
  "others_free taken i d \<longleftrightarrow> list_all (\<lambda>(k, r). k = i \<or> \<not> taken r) d"

text \<open>A loop of saves stops at the first one that is refused.\<close>

fun save_all :: "('a \<Rightarrow> db_write) \<Rightarrow> 'a list \<Rightarrow> db_write" where
  "save_all save [] D = (Inr (), D)"
| "save_all save (x # xs) D =
     (case save x D of (Inl e, D') \<Rightarrow> (Inl e, D') | (Inr _, D') \<Rightarrow> save_all save xs D')"

text \<open>One transaction: refused as a whole.\<close>

definition at_once :: "db_write \<Rightarrow> db_write" where
  "at_once write D = (case write D of (Inl e, _) \<Rightarrow> (Inl e, D) | r \<Rightarrow> r)"

definition sql_save_host :: "host \<Rightarrow> db_write" where
  "sql_save_host x =
     put_row d_hosts_update (host_fits (host_values x)) True (h_id x) (host_values x)"

definition sql_delete_host :: "string \<Rightarrow> database \<Rightarrow> database" where
  "sql_delete_host i D = D\<lparr>d_hosts := filter (\<lambda>(_, r). qho_id r \<noteq> i) (d_hosts D)\<rparr>"

definition sql_save_credential :: "ssh_credential \<Rightarrow> bytes \<Rightarrow> bytes \<Rightarrow> db_write" where
  "sql_save_credential x encrypted_key nonce =
     (let row = credential_values encrypted_key nonce x
      in put_row d_credentials_update (credential_fits row) True (cr_id x) row)"

definition sql_delete_credential :: "string \<Rightarrow> database \<Rightarrow> database" where
  "sql_delete_credential i D =
     D\<lparr>d_credentials := filter (\<lambda>(_, r). qce_id r \<noteq> i) (d_credentials D)\<rparr>"

definition sql_save_schedule :: "host_schedule \<Rightarrow> db_write" where
  "sql_save_schedule x D =
     put_row d_schedules_update (schedule_fits (schedule_values x))
       (others_free (\<lambda>r. qsd_host_id r = hs_host_id x) (hs_id x) (d_schedules D))
       (hs_id x) (schedule_values x) D"

definition sql_delete_schedule :: "string \<Rightarrow> database \<Rightarrow> database" where
  "sql_delete_schedule host_id D =
     D\<lparr>d_schedules := filter (\<lambda>(_, r). qsd_host_id r \<noteq> host_id) (d_schedules D)\<rparr>"

definition sql_save_snapshot :: "host_snapshot \<Rightarrow> db_write" where
  "sql_save_snapshot x =
     put_row d_snapshots_update (snapshot_fits (snapshot_values x)) True (sn_id x) (snapshot_values x)"

definition sql_save_rollback_snapshot :: "rollback_snapshot \<Rightarrow> db_write" where
  "sql_save_rollback_snapshot x =
     put_row d_rollbacks_update (rollback_fits (rollback_values x)) True (rs_id x) (rollback_values x)"

definition sql_save_scan :: "scan_job \<Rightarrow> db_write" where
  "sql_save_scan x = put_row d_scans_update (scan_fits (scan_values x)) True (s_id x) (scan_values x)"

definition sql_save_agent_runs :: "agent_run list \<Rightarrow> db_write" where
  "sql_save_agent_runs = save_all (\<lambda>x.
     put_row d_agent_runs_update (agent_run_fits (agent_run_values x)) True (ar_id x) (agent_run_values x))"

definition sql_save_agent_messages :: "agent_message list \<Rightarrow> db_write" where
  "sql_save_agent_messages = save_all (\<lambda>x.
     put_row d_agent_messages_update (agent_message_fits (agent_message_values x)) True
       (am_id x) (agent_message_values x))"

definition sql_save_findings :: "finding list \<Rightarrow> db_write" where
  "sql_save_findings = save_all (\<lambda>x.
     put_row d_findings_update (finding_fits (finding_values x)) True (f_id x) (finding_values x))"

definition sql_save_remediation :: "remediation \<Rightarrow> db_write" where
  "sql_save_remediation x =
     put_row d_remediations_update (remediation_fits (remediation_values x)) True
       (r_id x) (remediation_values x)"

definition sql_save_host_plan :: "string \<Rightarrow> campaign_host_plan \<Rightarrow> db_write" where
  "sql_save_host_plan campaign_id x D =
     (let row = campaign_host_values campaign_id x
      in put_row d_campaign_hosts_update (campaign_host_fits row)
           (others_free (\<lambda>r. qch_campaign_id r = campaign_id \<and> qch_host_id r = hp_host_id x)
              (hp_id x) (d_campaign_hosts D))
           (hp_id x) row D)"

definition sql_save_campaign :: "patch_campaign \<Rightarrow> db_write" where
  "sql_save_campaign x = at_once (\<lambda>D.
     case put_row d_campaigns_update (campaign_fits (campaign_values x)) True
            (c_id x) (campaign_values x) D of
       (Inl e, D') \<Rightarrow> (Inl e, D')
     | (Inr _, D') \<Rightarrow> save_all (sql_save_host_plan (c_id x)) (c_hosts x) D')"

definition sql_save_log_events :: "structured_log_event list \<Rightarrow> db_write" where
  "sql_save_log_events = save_all (\<lambda>x.
     put_row d_logs_update (log_event_fits (log_event_values x)) True (l_id x) (log_event_values x))"

definition sql_purge_logs_before :: "datetime \<Rightarrow> database \<Rightarrow> nat \<times> database" where
  "sql_purge_logs_before cutoff D =
     (let old = (\<lambda>(k, r). normalized_datetime (qle_timestamp r) < normalized_datetime cutoff)
      in (length (filter old (d_logs D)), D\<lparr>d_logs := filter (\<lambda>e. \<not> old e) (d_logs D)\<rparr>))"

definition sql_save_alert :: "alert \<Rightarrow> db_write" where
  "sql_save_alert x = put_row d_alerts_update (alert_fits (alert_values x)) True (al_id x) (alert_values x)"

definition sql_save_audit :: "audit_event \<Rightarrow> db_write" where
  "sql_save_audit x = put_row d_audits_update (audit_fits (audit_values x)) True (au_id x) (audit_values x)"

definition sql_save_user :: "user \<Rightarrow> string \<Rightarrow> db_write" where
  "sql_save_user x password_hash D =
     (let row = user_values password_hash x
      in put_row d_users_update (user_fits row)
           (others_free (\<lambda>r. qur_username r = u_username x) (u_id x) (d_users D)) (u_id x) row D)"

text \<open>\<open>session.add\<close> always inserts: the primary key must be new as well.\<close>

definition sql_save_session :: "string \<Rightarrow> session_row \<Rightarrow> db_write" where
  "sql_save_session token_hash x D =
     (let row = session_values token_hash x
      in put_row d_sessions_update (session_fits row)
           (dict_get (d_sessions D) (se_id x) = None \<and>
            others_free (\<lambda>r. qsr_token_hash r = token_hash) (se_id x) (d_sessions D))
           (se_id x) row D)"

definition sql_delete_session :: "string \<Rightarrow> database \<Rightarrow> database" where
  "sql_delete_session token_hash D =
     D\<lparr>d_sessions := filter (\<lambda>(_, r). qsr_token_hash r \<noteq> token_hash) (d_sessions D)\<rparr>"

subsection \<open>Reading rows\<close>

text \<open>\<open>_get_payload\<close> and \<open>_list_payload\<close>, also of the rows a \<open>where\<close> selects.\<close>

definition get_payload :: "('r \<Rightarrow> 'a) \<Rightarrow> (string, 'r) dict \<Rightarrow> string \<Rightarrow> 'a option" where
  "get_payload payload d i = map_option payload (dict_get d i)"

definition list_payload :: "('r \<Rightarrow> 'a) \<Rightarrow> (string, 'r) dict \<Rightarrow> 'a list" where
  "list_payload payload d = map payload (dict_values d)"

definition select_payload :: "('r \<Rightarrow> 'a) \<Rightarrow> ('r \<Rightarrow> bool) \<Rightarrow> (string, 'r) dict \<Rightarrow> 'a list" where
  "select_payload payload whr d = map payload (filter whr (dict_values d))"

definition sql_get_host :: "database \<Rightarrow> string \<Rightarrow> host option" where
  "sql_get_host D = get_payload qho_payload (d_hosts D)"

definition sql_list_hosts :: "database \<Rightarrow> host list" where
  "sql_list_hosts D = list_payload qho_payload (d_hosts D)"

text \<open>A credential is put together from its columns; \<open>metadata or {}\<close> turns null into no metadata.\<close>

definition credential_from_row :: "credential_record \<Rightarrow> exn + ssh_credential" where
  "credential_from_row r =
     map_sum id (\<lambda>t. \<lparr>cr_id = qce_id r, cr_name = qce_name r, cr_credential_type = t,
         cr_fingerprint = qce_fingerprint r, cr_metadata = qce_metadata r,
         cr_created_at = qce_created_at r, cr_last_used_at = qce_last_used_at r\<rparr>)
       (validate_enum credential_type_text
         [SshPrivateKey, ProxmoxToken, AwsAccessKey, AwsRole, VmwareSecret, LibvirtSsh]
         (qce_credential_type r))"

fun all_rows :: "('r \<Rightarrow> exn + 'a) \<Rightarrow> 'r list \<Rightarrow> exn + 'a list" where
  "all_rows read [] = Inr []"
| "all_rows read (r # rs) =
     (case read r of
        Inl e \<Rightarrow> Inl e
      | Inr x \<Rightarrow> (case all_rows read rs of Inl e \<Rightarrow> Inl e | Inr xs \<Rightarrow> Inr (x # xs)))"

definition sql_list_credentials :: "database \<Rightarrow> exn + ssh_credential list" where
  "sql_list_credentials D = all_rows credential_from_row (dict_values (d_credentials D))"

definition sql_get_credential_record ::
  "database \<Rightarrow> string \<Rightarrow> exn + (ssh_credential \<times> bytes \<times> bytes) option" where
  "sql_get_credential_record D i =
     (case dict_get (d_credentials D) i of
        None \<Rightarrow> Inr None
      | Some r \<Rightarrow> map_sum id (\<lambda>c. Some (c, qce_encrypted_key r, qce_nonce r)) (credential_from_row r))"

definition sql_get_schedule :: "database \<Rightarrow> string \<Rightarrow> host_schedule option" where
  "sql_get_schedule D host_id =
     map_option qsd_payload (List.find (\<lambda>r. qsd_host_id r = host_id) (dict_values (d_schedules D)))"

definition sql_list_schedules :: "database \<Rightarrow> host_schedule list" where
  "sql_list_schedules D = list_payload qsd_payload (d_schedules D)"

definition sql_list_due_schedules :: "database \<Rightarrow> datetime \<Rightarrow> host_schedule list" where
  "sql_list_due_schedules D now =
     select_payload qsd_payload
       (\<lambda>r. qsd_enabled r \<and> (case qsd_next_run_at r of
          None \<Rightarrow> False | Some t \<Rightarrow> normalized_datetime t \<le> normalized_datetime now)) (d_schedules D)"

definition sql_get_snapshot :: "database \<Rightarrow> string \<Rightarrow> host_snapshot option" where
  "sql_get_snapshot D = get_payload qsp_payload (d_snapshots D)"

definition sql_get_rollback_snapshot :: "database \<Rightarrow> string \<Rightarrow> rollback_snapshot option" where
  "sql_get_rollback_snapshot D = get_payload qrb_payload (d_rollbacks D)"

definition sql_list_rollback_snapshots ::
  "database \<Rightarrow> string option \<Rightarrow> string option \<Rightarrow> rollback_snapshot list" where
  "sql_list_rollback_snapshots D host_id remediation_id =
     select_payload qrb_payload
       (\<lambda>r. (truthy host_id \<longrightarrow> Some (qrb_host_id r) = host_id) \<and>
            (truthy remediation_id \<longrightarrow> Some (qrb_remediation_id r) = remediation_id)) (d_rollbacks D)"

definition sql_get_scan :: "database \<Rightarrow> string \<Rightarrow> scan_job option" where
  "sql_get_scan D = get_payload qsc_payload (d_scans D)"

definition sql_list_scans :: "database \<Rightarrow> string option \<Rightarrow> scan_job list" where
  "sql_list_scans D host_id =
     select_payload qsc_payload (\<lambda>r. truthy host_id \<longrightarrow> Some (qsc_host_id r) = host_id) (d_scans D)"

definition sql_list_agent_runs :: "database \<Rightarrow> string option \<Rightarrow> agent_run list" where
  "sql_list_agent_runs D scan_id =
     select_payload qan_payload (\<lambda>r. truthy scan_id \<longrightarrow> Some (qan_scan_id r) = scan_id) (d_agent_runs D)"

definition sql_list_agent_messages :: "database \<Rightarrow> string \<Rightarrow> agent_message list" where
  "sql_list_agent_messages D scan_id =
     select_payload qag_payload (\<lambda>r. qag_scan_id r = scan_id) (d_agent_messages D)"

definition sql_list_findings :: "database \<Rightarrow> string option \<Rightarrow> finding list" where
  "sql_list_findings D host_id =
     select_payload qfi_payload (\<lambda>r. truthy host_id \<longrightarrow> Some (qfi_host_id r) = host_id) (d_findings D)"

definition sql_list_remediations :: "database \<Rightarrow> remediation list" where
  "sql_list_remediations D = list_payload qre_payload (d_remediations D)"

definition sql_get_remediation :: "database \<Rightarrow> string \<Rightarrow> remediation option" where
  "sql_get_remediation D = get_payload qre_payload (d_remediations D)"

definition sql_campaign_with_hosts :: "database \<Rightarrow> patch_campaign \<Rightarrow> patch_campaign" where
  "sql_campaign_with_hosts D c =
     (let plans = select_payload qch_payload (\<lambda>r. qch_campaign_id r = c_id c) (d_campaign_hosts D)
      in if plans = [] then c else c\<lparr>c_hosts := sort_key hp_hostname plans\<rparr>)"

definition sql_list_campaigns :: "database \<Rightarrow> patch_campaign list" where
  "sql_list_campaigns D = map (sql_campaign_with_hosts D) (list_payload qca_payload (d_campaigns D))"

definition sql_get_campaign :: "database \<Rightarrow> string \<Rightarrow> patch_campaign option" where
  "sql_get_campaign D i = map_option (sql_campaign_with_hosts D) (get_payload qca_payload (d_campaigns D) i)"

definition sql_get_log_event :: "database \<Rightarrow> string \<Rightarrow> structured_log_event option" where
  "sql_get_log_event D = get_payload qle_payload (d_logs D)"

definition sql_log_column :: "string \<Rightarrow> (log_event_record \<Rightarrow> string option) option" where
  "sql_log_column key = map_of
     [(''host_id'', qle_host_id), (''job_id'', qle_job_id), (''scan_id'', qle_scan_id),
      (''remediation_id'', qle_remediation_id), (''agent_run_id'', qle_agent_run_id),
      (''severity'', \<lambda>r. Some (qle_severity r)), (''source'', \<lambda>r. Some (qle_source r)),
      (''phase_id'', qle_phase_id), (''task_id'', qle_task_id)] key"

definition sql_log_matches :: "(string \<times> string option) list \<Rightarrow> log_event_record \<Rightarrow> bool" where
  "sql_log_matches filters r \<longleftrightarrow>
     (\<forall>(key, value) \<in> set filters. case (value, sql_log_column key) of
        (Some v, Some col) \<Rightarrow> col r = Some v | _ \<Rightarrow> True)"

definition sql_list_log_events ::
  "database \<Rightarrow> (string \<times> string option) list \<Rightarrow> nat \<Rightarrow> nat \<Rightarrow> structured_log_event list \<times> nat" where
  "sql_list_log_events D filters page page_size =
     (let found = filter (sql_log_matches filters) (dict_values (d_logs D));
          ordered = sorted_desc (\<lambda>r. normalized_datetime (qle_timestamp r)) found
      in (map qle_payload (take page_size (drop ((page - 1) * page_size) ordered)), length found))"

definition sql_list_alerts :: "database \<Rightarrow> alert list" where
  "sql_list_alerts D = list_payload qav_payload (d_alerts D)"

definition sql_get_alert :: "database \<Rightarrow> string \<Rightarrow> alert option" where
  "sql_get_alert D = get_payload qav_payload (d_alerts D)"

definition sql_list_audits :: "database \<Rightarrow> audit_event list" where
  "sql_list_audits D = list_payload qat_payload (d_audits D)"

definition user_from_row :: "user_record \<Rightarrow> exn + user" where
  "user_from_row r =
     map_sum id (\<lambda>role. \<lparr>u_id = qur_id r, u_username = qur_username r, u_role = role,
         u_created_at = qur_created_at r\<rparr>)
       (validate_enum user_role_text [RoleAdmin, RoleOperator, RoleAuditor]
         (normalized_user_role (qur_role r)))"

definition sql_get_user_by_username :: "database \<Rightarrow> string \<Rightarrow> exn + (user \<times> string) option" where
  "sql_get_user_by_username D name =
     (case List.find (\<lambda>r. qur_username r = name) (dict_values (d_users D)) of
        None \<Rightarrow> Inr None
      | Some r \<Rightarrow> map_sum id (\<lambda>u. Some (u, qur_password_hash r)) (user_from_row r))"

definition sql_get_user :: "database \<Rightarrow> string \<Rightarrow> exn + user option" where
  "sql_get_user D i =
     (case dict_get (d_users D) i of
        None \<Rightarrow> Inr None | Some r \<Rightarrow> map_sum id Some (user_from_row r))"

definition sql_get_session :: "database \<Rightarrow> string \<Rightarrow> session_row option" where
  "sql_get_session D token_hash =
     map_option (\<lambda>r. \<lparr>se_id = qsr_id r, se_user_id = qsr_user_id r, se_csrf_hash = qsr_csrf_hash r,
         se_expires_at = qsr_expires_at r, se_created_at = qsr_created_at r\<rparr>)
       (List.find (\<lambda>r. qsr_token_hash r = token_hash) (dict_values (d_sessions D)))"

end
