(* ===== verification/TableProperties.thy ===== *)
theory TableProperties
  imports Tables Fixtures
begin

text \<open>
  The tables implement the store that the services are modelled on: the columns are copies of the
  payload's fields, so a query on columns answers like a query on objects, and a sequence of writes
  that the database accepts is the same sequence of writes to the store.
\<close>

subsection \<open>Tables of objects\<close>

definition rows_of :: "('a \<Rightarrow> 'r) \<Rightarrow> (string, 'a) dict \<Rightarrow> (string, 'r) dict" where
  "rows_of row d = map (\<lambda>(k, x). (k, row x)) d"

lemma rows_of_set: "rows_of row (dict_set k x d) = dict_set k (row x) (rows_of row d)"
  unfolding rows_of_def by (rule dict_set_map)

lemma rows_of_get: "dict_get (rows_of row d) k = map_option row (dict_get d k)"
  unfolding rows_of_def by (rule dict_get_map)

lemma rows_of_values: "dict_values (rows_of row d) = map row (dict_values d)"
  by (induction d) (auto simp: rows_of_def)

lemma rows_of_filter:
  "(\<And>k x. (k, x) \<in> set d \<Longrightarrow> p (k, row x) = q (k, x)) \<Longrightarrow>
     filter p (rows_of row d) = rows_of row (filter q d)"
  by (induction d) (auto simp: rows_of_def)

text \<open>A table whose rows hold the whole object: whatever a query tests of the columns, it tests of
  the object.\<close>

locale object_table =
  fixes row :: "'a \<Rightarrow> 'r" and payload :: "'r \<Rightarrow> 'a"
  assumes payload_row: "payload (row x) = x"
begin

lemma payload_comp: "payload \<circ> row = id"
  by (rule ext) (simp add: payload_row)

lemma get_rows: "get_payload payload (rows_of row d) = dict_get d"
  by (rule ext) (simp add: get_payload_def rows_of_get option.map_comp payload_comp option.map_id)

lemma list_rows: "list_payload payload (rows_of row d) = dict_values d"
  by (simp add: list_payload_def rows_of_values payload_row)

lemma select_rows:
  assumes "\<And>x. whr (row x) = p x"
  shows "select_payload payload whr (rows_of row d) = filter p (dict_values d)"
proof -
  have "filter whr (map row xs) = map row (filter p xs)" for xs
    using assms by (induction xs) auto
  then show ?thesis
    by (simp add: select_payload_def rows_of_values payload_comp del: map_map)
      (simp add: payload_comp)
qed

lemma find_rows:
  assumes "\<And>x. whr (row x) = p x"
  shows "map_option payload (List.find whr (dict_values (rows_of row d))) = List.find p (dict_values d)"
proof -
  have "whr \<circ> row = p"
    using assms by auto
  then show ?thesis
    by (simp only: rows_of_values find_map [of whr row] option.map_comp payload_comp option.map_id id_apply)
qed

end

interpretation hosts: object_table host_values qho_payload
  by unfold_locales (simp add: host_values_def)

interpretation schedules: object_table schedule_values qsd_payload
  by unfold_locales (simp add: schedule_values_def)

interpretation snapshots: object_table snapshot_values qsp_payload
  by unfold_locales (simp add: snapshot_values_def)

interpretation rollbacks: object_table rollback_values qrb_payload
  by unfold_locales (simp add: rollback_values_def)

interpretation scans: object_table scan_values qsc_payload
  by unfold_locales (simp add: scan_values_def)

interpretation agent_runs: object_table agent_run_values qan_payload
  by unfold_locales (simp add: agent_run_values_def)

interpretation agent_messages: object_table agent_message_values qag_payload
  by unfold_locales (simp add: agent_message_values_def)

interpretation findings: object_table finding_values qfi_payload
  by unfold_locales (simp add: finding_values_def)

interpretation remediations: object_table remediation_values qre_payload
  by unfold_locales (simp add: remediation_values_def)

interpretation campaigns: object_table campaign_values qca_payload
  by unfold_locales (simp add: campaign_values_def)

interpretation logs: object_table log_event_values qle_payload
  by unfold_locales (simp add: log_event_values_def)

interpretation alerts: object_table alert_values qav_payload
  by unfold_locales (simp add: alert_values_def)

interpretation audits: object_table audit_values qat_payload
  by unfold_locales (simp add: audit_values_def)

text \<open>Host plans are stored with the id of the campaign they were saved under.\<close>

interpretation plans: object_table "\<lambda>(c, x). campaign_host_values c x"
    "\<lambda>r. (qch_campaign_id r, qch_payload r)"
  by unfold_locales (auto simp: campaign_host_values_def)

subsection \<open>The tables of a store\<close>

definition tables :: "bool \<Rightarrow> job_table \<Rightarrow> store \<Rightarrow> database" where
  "tables strict jobs s =
     \<lparr>d_checks_length = strict,
      d_hosts = rows_of host_values (t_hosts s),
      d_credentials = rows_of (\<lambda>(c, key, nonce). credential_values key nonce c) (t_credentials s),
      d_schedules = rows_of schedule_values (t_schedules s),
      d_snapshots = rows_of snapshot_values (t_snapshots s),
      d_rollbacks = rows_of rollback_values (t_rollbacks s),
      d_scans = rows_of scan_values (t_scans s),
      d_agent_runs = rows_of agent_run_values (t_agent_runs s),
      d_agent_messages = rows_of agent_message_values (t_agent_messages s),
      d_findings = rows_of finding_values (t_findings s),
      d_remediations = rows_of remediation_values (t_remediations s),
      d_campaigns = rows_of campaign_values (t_campaigns s),
      d_campaign_hosts = rows_of (\<lambda>(c, x). campaign_host_values c x) (t_campaign_hosts s),
      d_jobs = jobs,
      d_logs = rows_of log_event_values (t_logs s),
      d_alerts = rows_of alert_values (t_alerts s),
      d_audits = rows_of audit_values (t_audits s),
      d_users = rows_of (\<lambda>(u, h). user_values h u) (t_users s),
      d_sessions = map (\<lambda>(token_hash, x). (se_id x, session_values token_hash x)) (t_sessions s)\<rparr>"

lemma table_fields:
  "d_checks_length (tables strict jobs s) = strict"
  "d_hosts (tables strict jobs s) = rows_of host_values (t_hosts s)"
  "d_credentials (tables strict jobs s) = rows_of (\<lambda>(c, key, nonce). credential_values key nonce c) (t_credentials s)"
  "d_schedules (tables strict jobs s) = rows_of schedule_values (t_schedules s)"
  "d_snapshots (tables strict jobs s) = rows_of snapshot_values (t_snapshots s)"
  "d_rollbacks (tables strict jobs s) = rows_of rollback_values (t_rollbacks s)"
  "d_scans (tables strict jobs s) = rows_of scan_values (t_scans s)"
  "d_agent_runs (tables strict jobs s) = rows_of agent_run_values (t_agent_runs s)"
  "d_agent_messages (tables strict jobs s) = rows_of agent_message_values (t_agent_messages s)"
  "d_findings (tables strict jobs s) = rows_of finding_values (t_findings s)"
  "d_remediations (tables strict jobs s) = rows_of remediation_values (t_remediations s)"
  "d_campaigns (tables strict jobs s) = rows_of campaign_values (t_campaigns s)"
  "d_campaign_hosts (tables strict jobs s) = rows_of (\<lambda>(c, x). campaign_host_values c x) (t_campaign_hosts s)"
  "d_jobs (tables strict jobs s) = jobs"
  "d_logs (tables strict jobs s) = rows_of log_event_values (t_logs s)"
  "d_alerts (tables strict jobs s) = rows_of alert_values (t_alerts s)"
  "d_audits (tables strict jobs s) = rows_of audit_values (t_audits s)"
  "d_users (tables strict jobs s) = rows_of (\<lambda>(u, h). user_values h u) (t_users s)"
  "d_sessions (tables strict jobs s) = map (\<lambda>(token_hash, x). (se_id x, session_values token_hash x)) (t_sessions s)"
  by (simp_all add: tables_def)

text \<open>A database implements a store: its tables are the store's, and hosts and credentials are kept
  under their own ids.\<close>

definition implements :: "database \<Rightarrow> store \<Rightarrow> bool" where
  "implements D s \<longleftrightarrow>
     D = tables (d_checks_length D) (d_jobs D) s \<and> t_jobs s = job_abs (d_jobs D) \<and>
     (\<forall>(k, h) \<in> set (t_hosts s). k = h_id h) \<and>
     (\<forall>(k, c) \<in> set (t_credentials s). k = cr_id (fst c))"

definition same_answers :: "database \<Rightarrow> store \<Rightarrow> bool" where
  "same_answers D s \<longleftrightarrow>
     sql_get_host D = get_host s \<and> sql_list_hosts D = list_hosts s \<and>
     sql_list_credentials D = Inr (list_credentials s) \<and>
     (\<forall>i. sql_get_credential_record D i = Inr (get_credential_record s i)) \<and>
     sql_get_schedule D = get_schedule_row s \<and> sql_list_schedules D = list_schedules s \<and>
     sql_list_due_schedules D = list_due_schedules s \<and>
     sql_get_snapshot D = get_snapshot s \<and> sql_get_rollback_snapshot D = get_rollback_snapshot s \<and>
     sql_list_rollback_snapshots D = list_rollback_snapshots s \<and>
     sql_get_scan D = get_scan s \<and> sql_list_scans D = list_scans s \<and>
     sql_list_agent_runs D = list_agent_runs s \<and> sql_list_agent_messages D = list_agent_messages s \<and>
     sql_list_findings D = list_findings s \<and>
     sql_list_remediations D = list_remediations s \<and> sql_get_remediation D = get_remediation s \<and>
     sql_list_campaigns D = list_campaigns s \<and> sql_get_campaign D = get_campaign s \<and>
     sql_get_log_event D = get_log_event s \<and> sql_list_log_events D = list_log_events s \<and>
     sql_list_alerts D = list_alerts s \<and> sql_get_alert D = get_alert s \<and>
     sql_list_audits D = list_audits s \<and>
     (\<forall>n. sql_get_user_by_username D n = Inr (get_user_by_username s n)) \<and>
     (\<forall>i. sql_get_user D i = Inr (get_user s i)) \<and> sql_get_session D = get_session s"

subsection \<open>Reading\<close>

lemma credential_from_row_values: "credential_from_row (credential_values key nonce c) = Inr c"
proof -
  have "validate_enum credential_type_text
      [SshPrivateKey, ProxmoxToken, AwsAccessKey, AwsRole, VmwareSecret, LibvirtSsh]
      (credential_type_text t) = Inr t" for t
    by (cases t) (simp_all add: validate_enum_def)
  then show ?thesis
    by (simp add: credential_from_row_def credential_values_def)
qed

lemma user_from_row_values: "user_from_row (user_values h u) = Inr u"
proof -
  have "validate_enum user_role_text [RoleAdmin, RoleOperator, RoleAuditor]
      (normalized_user_role (user_role_text r)) = Inr r" for r
    by (cases r) (simp_all add: validate_enum_def normalized_user_role_def)
  then show ?thesis
    by (simp add: user_from_row_def user_values_def)
qed

lemma all_rows_map: "(\<And>x. read (row x) = Inr (f x)) \<Longrightarrow> all_rows read (map row xs) = Inr (map f xs)"
  by (induction xs) simp_all

lemma answers_users:
  "sql_get_user (tables b j s) i = Inr (get_user s i)"
  "sql_get_user_by_username (tables b j s) n = Inr (get_user_by_username s n)"
proof -
  show "sql_get_user (tables b j s) i = Inr (get_user s i)"
    by (auto simp: sql_get_user_def get_user_def table_fields rows_of_get user_from_row_values
        split: option.split)
  have name: "(\<lambda>r. qur_username r = n) \<circ> (\<lambda>(u, h). user_values h u) = (\<lambda>(u, _). u_username u = n)"
    by (auto simp: user_values_def)
  have hash: "qur_password_hash (user_values h u) = h" for h u
    by (simp add: user_values_def)
  show "sql_get_user_by_username (tables b j s) n = Inr (get_user_by_username s n)"
    by (auto simp: sql_get_user_by_username_def get_user_by_username_def table_fields rows_of_values
        find_map name hash user_from_row_values split: option.split simp del: map_map)
qed

lemma answers_credentials:
  "sql_list_credentials (tables b j s) = Inr (list_credentials s)"
  "sql_get_credential_record (tables b j s) i = Inr (get_credential_record s i)"
proof -
  have "all_rows credential_from_row
      (map (\<lambda>(c, key, nonce). credential_values key nonce c) xs) = Inr (map fst xs)" for xs
    by (rule all_rows_map) (auto simp: credential_from_row_values)
  then show "sql_list_credentials (tables b j s) = Inr (list_credentials s)"
    by (simp add: sql_list_credentials_def list_credentials_def table_fields rows_of_values del: map_map)
  have secret: "qce_encrypted_key (credential_values key nonce c) = key"
    "qce_nonce (credential_values key nonce c) = nonce" for key nonce c
    by (simp_all add: credential_values_def)
  show "sql_get_credential_record (tables b j s) i = Inr (get_credential_record s i)"
    by (auto simp: sql_get_credential_record_def get_credential_record_def table_fields rows_of_get
        credential_from_row_values secret split: option.split)
qed

lemma answers_sessions: "sql_get_session (tables b j s) = get_session s"
proof
  fix t
  have "map_option (\<lambda>r. \<lparr>se_id = qsr_id r, se_user_id = qsr_user_id r, se_csrf_hash = qsr_csrf_hash r,
         se_expires_at = qsr_expires_at r, se_created_at = qsr_created_at r\<rparr>)
       (List.find (\<lambda>r. qsr_token_hash r = t)
         (map snd (map (\<lambda>(token_hash, x). (se_id x, session_values token_hash x)) d))) = dict_get d t" for d
    by (induction d) (auto simp: session_values_def)
  then show "sql_get_session (tables b j s) t = get_session s t"
    by (simp add: sql_get_session_def get_session_def table_fields)
qed

lemma answers_schedules:
  "sql_get_schedule (tables b j s) = get_schedule_row s"
  "sql_list_due_schedules (tables b j s) = list_due_schedules s"
proof -
  show "sql_get_schedule (tables b j s) = get_schedule_row s"
    by (rule ext, simp only: sql_get_schedule_def get_schedule_row_def table_fields)
      (rule schedules.find_rows, simp add: schedule_values_def)
  show "sql_list_due_schedules (tables b j s) = list_due_schedules s"
    by (rule ext, simp only: sql_list_due_schedules_def list_due_schedules_def table_fields)
      (rule schedules.select_rows, simp add: schedule_values_def)
qed

lemma answers_campaigns:
  "sql_campaign_with_hosts (tables b j s) = campaign_with_hosts s"
proof
  fix c :: patch_campaign
  have "select_payload qch_payload (\<lambda>r. qch_campaign_id r = c_id c)
      (rows_of (\<lambda>(c, x). campaign_host_values c x) d) =
    map snd (filter (\<lambda>(cid, _). cid = c_id c) (dict_values d))" for d
    by (induction d) (auto simp: select_payload_def rows_of_def campaign_host_values_def)
  then show "sql_campaign_with_hosts (tables b j s) c = campaign_with_hosts s c"
    by (simp add: sql_campaign_with_hosts_def campaign_with_hosts_def campaign_rows_def table_fields Let_def)
qed

lemma sql_log_matches_values: "sql_log_matches filters (log_event_values x) = log_matches filters x"
proof -
  have "(case (v0, sql_log_column key) of
        (Some v, Some col) \<Rightarrow> col (log_event_values x) = Some v | _ \<Rightarrow> True) \<longleftrightarrow>
      (case (v0, log_column key) of (Some v, Some col) \<Rightarrow> col x = Some v | _ \<Rightarrow> True)" for key v0
    by (auto simp: sql_log_column_def log_column_def log_event_values_def split: option.split)
  then show ?thesis
    by (simp add: sql_log_matches_def log_matches_def)
qed

lemma sorted_desc_map: "sorted_desc f (map g xs) = map g (sorted_desc (f \<circ> g) xs)"
proof -
  have "sort_key f (map g ys) = map g (sort_key (f \<circ> g) ys)" for ys
  proof (induction ys)
    case (Cons y ys)
    have "insort_key f (g y) (map g zs) = map g (insort_key (f \<circ> g) y zs)" for zs
      by (induction zs) auto
    with Cons show ?case
      by (simp add: comp_def)
  qed simp
  then show ?thesis
    by (simp add: sorted_desc_def rev_map)
qed

lemma answers_logs: "sql_list_log_events (tables b j s) = list_log_events s"
proof (intro ext)
  fix filters page page_size
  have *: "filter (sql_log_matches filters) (map log_event_values xs) =
      map log_event_values (filter (log_matches filters) xs)" for xs
    by (induction xs) (simp_all add: sql_log_matches_values)
  have **: "(\<lambda>r. normalized_datetime (qle_timestamp r)) \<circ> log_event_values =
      (\<lambda>x. normalized_datetime (l_timestamp x))"
    by (auto simp: log_event_values_def)
  show "sql_list_log_events (tables b j s) filters page page_size = list_log_events s filters page page_size"
    unfolding sql_list_log_events_def list_log_events_def table_fields rows_of_values * ** sorted_desc_map
      take_map drop_map Let_def by (simp add: logs.payload_comp)
qed

lemma select_answers:
  "select_payload qrb_payload
     (\<lambda>r. (truthy host_id \<longrightarrow> Some (qrb_host_id r) = host_id) \<and>
        (truthy remediation_id \<longrightarrow> Some (qrb_remediation_id r) = remediation_id)) (rows_of rollback_values rd) =
   filter (\<lambda>x. (truthy host_id \<longrightarrow> Some (rs_host_id x) = host_id) \<and>
      (truthy remediation_id \<longrightarrow> Some (rs_remediation_id x) = remediation_id)) (dict_values rd)"
  "select_payload qsc_payload (\<lambda>r. truthy host_id \<longrightarrow> Some (qsc_host_id r) = host_id) (rows_of scan_values sd) =
   filter (\<lambda>x. truthy host_id \<longrightarrow> Some (s_host_id x) = host_id) (dict_values sd)"
  "select_payload qan_payload (\<lambda>r. truthy scan_id \<longrightarrow> Some (qan_scan_id r) = scan_id)
     (rows_of agent_run_values ad) =
   filter (\<lambda>x. truthy scan_id \<longrightarrow> Some (ar_scan_id x) = scan_id) (dict_values ad)"
  "select_payload qag_payload (\<lambda>r. qag_scan_id r = sid) (rows_of agent_message_values md) =
   filter (\<lambda>x. am_scan_id x = sid) (dict_values md)"
  "select_payload qfi_payload (\<lambda>r. truthy host_id \<longrightarrow> Some (qfi_host_id r) = host_id)
     (rows_of finding_values fd) =
   filter (\<lambda>x. truthy host_id \<longrightarrow> Some (f_host_id x) = host_id) (dict_values fd)"
  by (rule rollbacks.select_rows scans.select_rows agent_runs.select_rows agent_messages.select_rows
      findings.select_rows; simp add: rollback_values_def scan_values_def agent_run_values_def
      agent_message_values_def finding_values_def)+

lemma implements_same_answers:
  assumes "implements D s" shows "same_answers D s"
proof -
  from assms have D: "D = tables (d_checks_length D) (d_jobs D) s"
    by (simp add: implements_def)
  have "same_answers (tables b j s) s" for b j
    unfolding same_answers_def
    by (intro conjI allI answers_users answers_credentials answers_sessions answers_schedules answers_logs)
      (simp_all add: fun_eq_iff sql_get_host_def get_host_def sql_list_hosts_def list_hosts_def
        sql_list_schedules_def list_schedules_def sql_get_snapshot_def get_snapshot_def
        sql_get_rollback_snapshot_def get_rollback_snapshot_def sql_list_rollback_snapshots_def
        list_rollback_snapshots_def sql_get_scan_def get_scan_def sql_list_scans_def list_scans_def
        sql_list_agent_runs_def list_agent_runs_def sql_list_agent_messages_def list_agent_messages_def
        sql_list_findings_def list_findings_def sql_list_remediations_def list_remediations_def
        sql_get_remediation_def get_remediation_def sql_list_campaigns_def list_campaigns_def
        sql_get_campaign_def get_campaign_def sql_get_log_event_def get_log_event_def
        sql_list_alerts_def list_alerts_def sql_get_alert_def get_alert_def sql_list_audits_def
        list_audits_def answers_campaigns table_fields hosts.get_rows hosts.list_rows schedules.list_rows
        snapshots.get_rows rollbacks.get_rows scans.get_rows remediations.get_rows remediations.list_rows
        campaigns.get_rows campaigns.list_rows logs.get_rows alerts.get_rows alerts.list_rows
        audits.list_rows select_answers)
  with D show ?thesis
    by metis
qed

subsection \<open>Writing\<close>

text \<open>The writes of the repository, but for those of jobs, on the tables and on the store.\<close>

datatype row_write =
    SaveHost host
  | DeleteHost string
  | SaveCredential ssh_credential bytes bytes
  | DeleteCredential string
  | SaveSchedule host_schedule
  | DeleteSchedule string
  | SaveSnapshot host_snapshot
  | SaveRollback rollback_snapshot
  | SaveScan scan_job
  | SaveAgentRuns "agent_run list"
  | SaveAgentMessages "agent_message list"
  | SaveFindings "finding list"
  | SaveRemediation remediation
  | SaveCampaign patch_campaign
  | SaveLogEvents "structured_log_event list"
  | PurgeLogs datetime
  | SaveAlert alert
  | SaveAudit audit_event
  | SaveUser user string
  | SaveSession string session_row
  | DeleteSession string

fun sql_write :: "row_write \<Rightarrow> db_write" where
  "sql_write (SaveHost x) D = sql_save_host x D"
| "sql_write (DeleteHost i) D = (Inr (), sql_delete_host i D)"
| "sql_write (SaveCredential x key nonce) D = sql_save_credential x key nonce D"
| "sql_write (DeleteCredential i) D = (Inr (), sql_delete_credential i D)"
| "sql_write (SaveSchedule x) D = sql_save_schedule x D"
| "sql_write (DeleteSchedule i) D = (Inr (), sql_delete_schedule i D)"
| "sql_write (SaveSnapshot x) D = sql_save_snapshot x D"
| "sql_write (SaveRollback x) D = sql_save_rollback_snapshot x D"
| "sql_write (SaveScan x) D = sql_save_scan x D"
| "sql_write (SaveAgentRuns xs) D = sql_save_agent_runs xs D"
| "sql_write (SaveAgentMessages xs) D = sql_save_agent_messages xs D"
| "sql_write (SaveFindings xs) D = sql_save_findings xs D"
| "sql_write (SaveRemediation x) D = sql_save_remediation x D"
| "sql_write (SaveCampaign x) D = sql_save_campaign x D"
| "sql_write (SaveLogEvents xs) D = sql_save_log_events xs D"
| "sql_write (PurgeLogs t) D = (Inr (), snd (sql_purge_logs_before t D))"
| "sql_write (SaveAlert x) D = sql_save_alert x D"
| "sql_write (SaveAudit x) D = sql_save_audit x D"
| "sql_write (SaveUser x h) D = sql_save_user x h D"
| "sql_write (SaveSession t x) D = sql_save_session t x D"
| "sql_write (DeleteSession t) D = (Inr (), sql_delete_session t D)"

fun store_write :: "row_write \<Rightarrow> store \<Rightarrow> store" where
  "store_write (SaveHost x) s = save_host x s"
| "store_write (DeleteHost i) s = delete_host i s"
| "store_write (SaveCredential x key nonce) s = save_credential x key nonce s"
| "store_write (DeleteCredential i) s = delete_credential i s"
| "store_write (SaveSchedule x) s = save_schedule_row x s"
| "store_write (DeleteSchedule i) s = delete_schedule i s"
| "store_write (SaveSnapshot x) s = save_snapshot x s"
| "store_write (SaveRollback x) s = save_rollback_snapshot x s"
| "store_write (SaveScan x) s = save_scan x s"
| "store_write (SaveAgentRuns xs) s = save_agent_runs xs s"
| "store_write (SaveAgentMessages xs) s = save_agent_messages xs s"
| "store_write (SaveFindings xs) s = save_findings xs s"
| "store_write (SaveRemediation x) s = save_remediation x s"
| "store_write (SaveCampaign x) s = save_campaign x s"
| "store_write (SaveLogEvents xs) s = save_log_events xs s"
| "store_write (PurgeLogs t) s = snd (purge_logs_before t s)"
| "store_write (SaveAlert x) s = save_alert x s"
| "store_write (SaveAudit x) s = save_audit x s"
| "store_write (SaveUser x h) s = save_user x h s"
| "store_write (SaveSession t x) s = snd (save_session t x s)"
| "store_write (DeleteSession t) s = delete_session t s"

lemma put_row_Inr:
  "put_row upd fitting unique i row D = (Inr u, D') \<longleftrightarrow>
     (d_checks_length D \<longrightarrow> fitting) \<and> unique \<and> D' = upd (dict_set i row) D"
  by (auto simp: put_row_def)

lemma put_tables:
  "d_hosts_update (dict_set (h_id h) (host_values h)) (tables b j s) = tables b j (save_host h s)"
  "d_credentials_update (dict_set (cr_id c) (credential_values key nonce c)) (tables b j s) =
     tables b j (save_credential c key nonce s)"
  "d_schedules_update (dict_set (hs_id x) (schedule_values x)) (tables b j s) = tables b j (save_schedule_row x s)"
  "d_snapshots_update (dict_set (sn_id n) (snapshot_values n)) (tables b j s) = tables b j (save_snapshot n s)"
  "d_rollbacks_update (dict_set (rs_id r) (rollback_values r)) (tables b j s) =
     tables b j (save_rollback_snapshot r s)"
  "d_scans_update (dict_set (s_id y) (scan_values y)) (tables b j s) = tables b j (save_scan y s)"
  "d_remediations_update (dict_set (r_id p) (remediation_values p)) (tables b j s) =
     tables b j (save_remediation p s)"
  "d_alerts_update (dict_set (al_id a) (alert_values a)) (tables b j s) = tables b j (save_alert a s)"
  "d_audits_update (dict_set (au_id e) (audit_values e)) (tables b j s) = tables b j (save_audit e s)"
  "d_users_update (dict_set (u_id u) (user_values h' u)) (tables b j s) = tables b j (save_user u h' s)"
  by (simp_all add: tables_def rows_of_set save_host_def save_credential_def save_schedule_row_def
      save_snapshot_def save_rollback_snapshot_def save_scan_def save_remediation_def save_alert_def
      save_audit_def save_user_def)

subsubsection \<open>Loops\<close>

lemma save_all_tables:
  assumes "\<And>x s D'. put x (tables b j s) = (Inr (), D') \<Longrightarrow> D' = tables b j (st x s)"
  shows "save_all put xs (tables b j s) = (Inr (), D') \<Longrightarrow> D' = tables b j (fold st xs s)"
proof (induction xs arbitrary: s)
  case (Cons x xs)
  from Cons.prems obtain D where "put x (tables b j s) = (Inr (), D)" "save_all put xs D = (Inr (), D')"
    by (auto split: prod.splits sum.splits)
  with assms [of x s D] Cons.IH [of "st x s"] show ?case
    by simp
qed simp

lemma fold_saves:
  "fold (\<lambda>x s. s\<lparr>t_agent_runs := dict_set (ar_id x) x (t_agent_runs s)\<rparr>) runs s = save_agent_runs runs s"
  "fold (\<lambda>x s. s\<lparr>t_agent_messages := dict_set (am_id x) x (t_agent_messages s)\<rparr>) messages s =
     save_agent_messages messages s"
  "fold (\<lambda>x s. s\<lparr>t_findings := dict_set (f_id x) x (t_findings s)\<rparr>) found s = save_findings found s"
  "fold (\<lambda>x s. s\<lparr>t_logs := dict_set (l_id x) x (t_logs s)\<rparr>) events s = save_log_events events s"
  "fold (\<lambda>x s. s\<lparr>t_campaign_hosts := dict_set (hp_id x) (c, x) (t_campaign_hosts s)\<rparr>) plans s =
     s\<lparr>t_campaign_hosts := fold (\<lambda>x. dict_set (hp_id x) (c, x)) plans (t_campaign_hosts s)\<rparr>"
  subgoal by (induction runs arbitrary: s) (simp_all add: save_agent_runs_def)
  subgoal by (induction messages arbitrary: s) (simp_all add: save_agent_messages_def)
  subgoal by (induction found arbitrary: s) (simp_all add: save_findings_def)
  subgoal by (induction events arbitrary: s) (simp_all add: save_log_events_def)
  subgoal by (induction plans arbitrary: s) simp_all
  done

lemma list_saves:
  "sql_save_agent_runs runs (tables b j s) = (Inr (), D') \<Longrightarrow> D' = tables b j (save_agent_runs runs s)"
  "sql_save_agent_messages messages (tables b j s) = (Inr (), D') \<Longrightarrow>
     D' = tables b j (save_agent_messages messages s)"
  "sql_save_findings found (tables b j s) = (Inr (), D') \<Longrightarrow> D' = tables b j (save_findings found s)"
  "sql_save_log_events events (tables b j s) = (Inr (), D') \<Longrightarrow> D' = tables b j (save_log_events events s)"
  unfolding sql_save_agent_runs_def sql_save_agent_messages_def sql_save_findings_def
    sql_save_log_events_def fold_saves [symmetric]
  by (erule save_all_tables [rotated], simp add: put_row_Inr tables_def rows_of_set)+

lemma campaign_saved:
  assumes "sql_save_campaign x (tables b j s) = (Inr (), D')"
  shows "D' = tables b j (save_campaign x s)"
proof -
  have plan: "D'' = tables b j (s'\<lparr>t_campaign_hosts := dict_set (hp_id p) (c_id x, p) (t_campaign_hosts s')\<rparr>)"
    if "sql_save_host_plan (c_id x) p (tables b j s') = (Inr (), D'')" for p s' D''
    using that by (simp add: sql_save_host_plan_def put_row_Inr tables_def rows_of_set Let_def)
  let ?s = "s\<lparr>t_campaigns := dict_set (c_id x) x (t_campaigns s)\<rparr>"
  from assms have "save_all (sql_save_host_plan (c_id x)) (c_hosts x) (tables b j ?s) = (Inr (), D')"
    by (auto simp: sql_save_campaign_def at_once_def put_row_Inr tables_def rows_of_set
        split: prod.splits sum.splits)
  from save_all_tables [OF plan this] show ?thesis
    by (simp add: fold_saves save_campaign_def)
qed

subsubsection \<open>Deletions and sessions\<close>

lemma dict_pop_filter: "dict_pop i d = filter (\<lambda>(k, _). k \<noteq> i) d"
  by (auto simp: AList.delete_eq intro!: filter_cong)

lemma deleted_tables:
  "\<forall>(k, h) \<in> set (t_hosts s). k = h_id h \<Longrightarrow> sql_delete_host i (tables b j s) = tables b j (delete_host i s)"
  "\<forall>(k, c) \<in> set (t_credentials s). k = cr_id (fst c) \<Longrightarrow>
     sql_delete_credential i (tables b j s) = tables b j (delete_credential i s)"
  "sql_delete_schedule h (tables b j s) = tables b j (delete_schedule h s)"
  "snd (sql_purge_logs_before t (tables b j s)) = tables b j (snd (purge_logs_before t s))"
  by (auto simp: sql_delete_host_def delete_host_def sql_delete_credential_def delete_credential_def
      sql_delete_schedule_def delete_schedule_def sql_purge_logs_before_def purge_logs_before_def
      tables_def dict_pop_filter host_values_def credential_values_def schedule_values_def
      log_event_values_def Let_def intro!: rows_of_filter)

lemma session_deleted: "sql_delete_session t (tables b j s) = tables b j (delete_session t s)"
proof -
  have "filter (\<lambda>(_, r). qsr_token_hash r \<noteq> t)
      (map (\<lambda>(token_hash, x). (se_id x, session_values token_hash x)) d) =
    map (\<lambda>(token_hash, x). (se_id x, session_values token_hash x)) (dict_pop t d)" for d
    by (induction d) (auto simp: session_values_def)
  then show ?thesis
    by (simp add: sql_delete_session_def delete_session_def tables_def)
qed

lemma session_saved:
  assumes "sql_save_session t x (tables b j s) = (Inr (), D')"
  shows "D' = tables b j (snd (save_session t x s))"
proof -
  let ?f = "\<lambda>(token_hash, x). (se_id x, session_values token_hash x)"
  from assms have new: "dict_get (map ?f (t_sessions s)) (se_id x) = None"
    "others_free (\<lambda>r. qsr_token_hash r = t) (se_id x) (map ?f (t_sessions s))"
    and D': "D' = d_sessions_update (dict_set (se_id x) (session_values t x)) (tables b j s)"
    by (simp_all add: sql_save_session_def put_row_Inr table_fields Let_def)
  have id: "se_id x \<notin> fst ` set (map ?f (t_sessions s))"
    using new(1) by (simp only: map_of_eq_None_iff not_False_eq_True)
  have "token_hash \<noteq> t" if "(token_hash, y) \<in> set (t_sessions s)" for token_hash y
  proof -
    from that have y: "(se_id y, session_values token_hash y) \<in> set (map ?f (t_sessions s))"
      by force
    have "se_id y \<in> fst ` set (map ?f (t_sessions s))"
      using imageI [OF y, of fst] by (simp only: fst_conv)
    moreover have "b \<in> A \<Longrightarrow> a \<notin> A \<Longrightarrow> b \<noteq> a" for a b :: string and A
      by blast
    ultimately have "se_id y \<noteq> se_id x"
      using id by blast
    with y new(2) have "qsr_token_hash (session_values token_hash y) \<noteq> t"
      unfolding others_free_def list_all_iff by blast
    then show ?thesis
      by (simp add: session_values_def)
  qed
  then have token: "t \<notin> fst ` set (t_sessions s)"
    by force
  then have "dict_get (t_sessions s) t = None"
    by (simp add: map_of_eq_None_iff)
  with D' dict_set_fresh [OF id] dict_set_fresh [OF token] show ?thesis
    by (simp add: save_session_def tables_def)
qed

subsection \<open>The store is implemented\<close>

lemma sql_write_tables:
  assumes "\<forall>(k, h) \<in> set (t_hosts s). k = h_id h" and "\<forall>(k, c) \<in> set (t_credentials s). k = cr_id (fst c)"
    and "sql_write op (tables b j s) = (Inr (), D')"
  shows "D' = tables b j (store_write op s)"
  using assms(3)
  by (cases op)
    (auto simp: sql_save_host_def sql_save_credential_def sql_save_schedule_def sql_save_snapshot_def
      sql_save_rollback_snapshot_def sql_save_scan_def sql_save_remediation_def sql_save_alert_def
      sql_save_audit_def sql_save_user_def Let_def put_row_Inr put_tables session_deleted
      deleted_tables(1) [OF assms(1)] deleted_tables(2) [OF assms(2)] deleted_tables(3,4)
      dest: list_saves campaign_saved session_saved)

lemma keyed_set:
  "\<forall>(k, x) \<in> set d. P k x \<Longrightarrow> P i v \<Longrightarrow> \<forall>(k, x) \<in> set (dict_set i v d). P k x"
  using set_dict_set by fastforce

lemma store_write_keys:
  assumes "\<forall>(k, h) \<in> set (t_hosts s). k = h_id h" and "\<forall>(k, c) \<in> set (t_credentials s). k = cr_id (fst c)"
  shows "\<forall>(k, h) \<in> set (t_hosts (store_write op s)). k = h_id h"
    and "\<forall>(k, c) \<in> set (t_credentials (store_write op s)). k = cr_id (fst c)"
    and "t_jobs (store_write op s) = t_jobs s"
proof -
  note defs = save_host_def delete_host_def save_credential_def delete_credential_def
    save_schedule_row_def delete_schedule_def save_snapshot_def save_rollback_snapshot_def save_scan_def
    save_agent_runs_def save_agent_messages_def save_findings_def save_remediation_def save_campaign_def
    save_log_events_def purge_logs_before_def save_alert_def save_audit_def save_user_def
    save_session_def delete_session_def Let_def dict_pop_filter
  show "t_jobs (store_write op s) = t_jobs s"
    by (cases op) (simp_all add: defs)
  show "\<forall>(k, h) \<in> set (t_hosts (store_write op s)). k = h_id h"
    using assms(1) by (cases op) (simp_all add: defs keyed_set)
  show "\<forall>(k, c) \<in> set (t_credentials (store_write op s)). k = cr_id (fst c)"
    using assms(2) by (cases op) (simp_all add: defs, rule keyed_set, simp_all)
qed

lemma sql_write_implements:
  assumes "implements D s" and "sql_write op D = (Inr (), D')"
  shows "implements D' (store_write op s)"
proof -
  from assms(1) obtain b j where D: "D = tables b j s" and jobs: "t_jobs s = job_abs j"
    and keys: "\<forall>(k, h) \<in> set (t_hosts s). k = h_id h" "\<forall>(k, c) \<in> set (t_credentials s). k = cr_id (fst c)"
    unfolding implements_def by blast
  have "D' = tables b j (store_write op s)"
    using sql_write_tables [OF keys] assms(2) D by blast
  with store_write_keys [OF keys, of op] jobs show ?thesis
    by (simp add: implements_def table_fields)
qed

text \<open>C33: The tables implement the store. Any sequence of writes that the database accepts, starting
  from tables that hold a store, leaves the tables of the store after the same writes, and every
  read of the repository - by primary key, by columns, of log pages, of campaigns put together from
  two tables, of users and credentials put together from columns - answers as the store does.\<close>

theorem tables_refine_store:
  assumes "implements D s" and "save_all sql_write writes D = (Inr (), D')"
  shows "implements D' (fold store_write writes s) \<and> same_answers D' (fold store_write writes s)"
proof -
  from assms have "implements D' (fold store_write writes s)"
  proof (induction writes arbitrary: D s)
    case (Cons op writes)
    from Cons.prems(2) obtain D1 where "sql_write op D = (Inr (), D1)" "save_all sql_write writes D1 = (Inr (), D')"
      by (auto split: prod.splits sum.splits)
    with Cons.IH [of D1 "store_write op s"] sql_write_implements [OF Cons.prems(1)] show ?case
      by simp
  qed simp
  then show ?thesis
    using implements_same_answers by blast
qed

text \<open>A write that is refused leaves the database as it was, and it is refused only for a text that
  is too long for its column or a value that another row has in a unique column.\<close>

lemma put_row_refused: "put_row upd fitting unique i row D = (Inl e, D') \<Longrightarrow>
    D' = D \<and> (d_checks_length D \<and> \<not> fitting \<or> \<not> unique)"
  by (auto simp: put_row_def split: if_splits)

lemma refused_campaign_is_not_saved: "sql_save_campaign x D = (Inl e, D') \<Longrightarrow> D' = D"
  by (auto simp: sql_save_campaign_def at_once_def split: prod.splits sum.splits)

text \<open>Nothing but the column bounds the name of a host: whatever the rest of a valid host, there is
  a name with which the host is still valid and PostgreSQL refuses to store it.\<close>

theorem valid_host_is_refused:
  assumes "host_input_valid h" and "d_checks_length D"
  shows "\<exists>n e. host_input_valid (h\<lparr>h_name := n\<rparr>) \<and> sql_save_host (h\<lparr>h_name := n\<rparr>) D = (Inl e, D)"
proof (intro exI conjI)
  let ?h = "h\<lparr>h_name := replicate 201 CHR ''n''\<rparr>"
  show "host_input_valid ?h"
    using assms(1) by (simp add: host_input_valid_def)
  show "sql_save_host ?h D = (Inl (OtherError ''value too long for its column''), D)"
    using assms(2) by (simp add: sql_save_host_def put_row_def host_fits_def host_values_def fits_def)
qed

subsection \<open>Witnesses\<close>

definition empty_store :: store where
  "empty_store = \<lparr>t_hosts = [], t_credentials = [], t_schedules = [], t_snapshots = [], t_rollbacks = [],
     t_scans = [], t_agent_runs = [], t_agent_messages = [], t_findings = [], t_remediations = [],
     t_campaigns = [], t_campaign_hosts = [], t_jobs = [], t_logs = [], t_alerts = [], t_audits = [],
     t_users = [], t_sessions = []\<rparr>"

definition stored_user :: user where
  "stored_user = \<lparr>u_id = ''u1'', u_username = ''ann'', u_role = RoleOperator, u_created_at = Aware 0\<rparr>"

definition stored_session :: session_row where
  "stored_session = \<lparr>se_id = ''s1'', se_user_id = ''u1'', se_csrf_hash = ''c'', se_expires_at = Aware 9,
     se_created_at = Aware 0\<rparr>"

definition sample_writes :: "row_write list" where
  "sample_writes = [SaveUser stored_user ''hash'', SaveSession ''token'' stored_session, SaveHost sample_host]"

theorem tables_refine_store_witness:
  "same_answers (snd (save_all sql_write sample_writes (tables True [] empty_store)))
     (fold store_write sample_writes empty_store) \<and>
   sql_get_user (snd (save_all sql_write sample_writes (tables True [] empty_store))) ''u1'' =
     Inr (Some stored_user)"
proof -
  let ?run = "save_all sql_write sample_writes (tables True [] empty_store)"
  have "implements (tables True [] empty_store) empty_store"
    by (simp add: implements_def table_fields empty_store_def job_abs_def)
  moreover have "fst ?run = Inr ()"
    by code_simp
  then have "?run = (Inr (), snd ?run)"
    by (metis prod.collapse)
  ultimately have "implements (snd ?run) (fold store_write sample_writes empty_store) \<and>
      same_answers (snd ?run) (fold store_write sample_writes empty_store)"
    by (rule tables_refine_store)
  moreover have "sql_get_user (snd ?run) ''u1'' = Inr (Some stored_user)"
    by code_simp
  ultimately show ?thesis
    by blast
qed

theorem valid_host_is_refused_witness:
  "\<exists>n e. host_input_valid (sample_host\<lparr>h_name := n\<rparr>) \<and>
     sql_save_host (sample_host\<lparr>h_name := n\<rparr>) (tables True [] empty_store) =
       (Inl e, tables True [] empty_store)"
proof (rule valid_host_is_refused)
  show "host_input_valid sample_host"
    by (simp add: host_input_valid_def sample_host_def sample_policy_def patch_policy_valid_def)
  show "d_checks_length (tables True [] empty_store)"
    by (simp add: table_fields)
qed

end
