(* ===== verification/Snapshots.thy ===== *)
theory Snapshots
  imports Executor AgentBase
begin

text \<open>
  The providers of rollback snapshots (\<open>snapshots.py\<close>): the simulation, the one that runs
  ansible playbooks, and how the output of a playbook is read.

  A playbook run is a parameter, as for the executor, here also of the variables it finds in the
  file given with \<open>-e @\<close>. \<open>uuid4\<close>, the clock and redaction come from the environment.
\<close>

definition snapshot_playbook_catalog :: "(string, string) dict" where
  "snapshot_playbook_catalog =
     [(''simulated_create'', ''simulated-create.yml''), (''simulated_delete'', ''simulated-delete.yml''),
      (''simulated_rollback'', ''simulated-rollback.yml''), (''proxmox_create'', ''proxmox-create.yml''),
      (''proxmox_delete'', ''proxmox-delete.yml''), (''proxmox_rollback'', ''proxmox-rollback.yml''),
      (''health_check'', ''health-check.yml'')]"

subsection \<open>Events\<close>

text \<open>\<open>external_snapshot_id or (snapshot.external_snapshot_id if snapshot else "")\<close>.\<close>

definition snapshot_reference :: "string option \<Rightarrow> rollback_snapshot option \<Rightarrow> string option" where
  "snapshot_reference known_id snapshot =
     (if truthy known_id then known_id
      else case snapshot of None \<Rightarrow> Some [] | Some s \<Rightarrow> rs_external_snapshot_id s)"

text \<open>The plan an event belongs to: the plan at hand or the one the snapshot was taken for.\<close>

definition snapshot_plan_id :: "remediation option \<Rightarrow> rollback_snapshot option \<Rightarrow> string option" where
  "snapshot_plan_id r snapshot =
     (case r of Some r \<Rightarrow> Some (r_id r) | None \<Rightarrow> map_option rs_remediation_id snapshot)"

text \<open>A correlation id that is \<open>None\<close> is refused when the event is built.\<close>

definition snapshot_event ::
  "env \<Rightarrow> host \<Rightarrow> remediation option \<Rightarrow> string \<Rightarrow> string \<Rightarrow> string \<Rightarrow> string \<Rightarrow>
   rollback_snapshot option \<Rightarrow> string option \<Rightarrow> structured_log_event comp" where
  "snapshot_event E h r job_id phase_id status summary snapshot known_id =
     bindM (fresh_event E h ''snapshot_operation'' ''snapshot'' status) (\<lambda>e.
     case snapshot_reference known_id snapshot of
       None \<Rightarrow> raiseM (ValueError ''Input should be a valid string'')
     | Some reference \<Rightarrow>
         returnM (e_sanitize_log E
           (e\<lparr>l_job_id := or_none job_id, l_scan_id := Option.bind r r_scan_id,
              l_remediation_id := snapshot_plan_id r snapshot,
              l_playbook_id := Some ''simulated-snapshot'', l_phase_id := Some phase_id,
              l_task_id := Some (''snapshot.'' @ phase_id),
              l_severity := (if status = ''succeeded'' then SevInfo else SevHigh),
              l_stdout := summary, l_source := ''simulated-snapshot'', l_simulated := True,
              l_remediation_relevance := ''execution'',
              l_correlation_ids :=
                [(''job_id'', job_id), (''remediation_id'', or_empty (snapshot_plan_id r snapshot)),
                 (''rollback_snapshot_id'', (case snapshot of None \<Rightarrow> [] | Some s \<Rightarrow> rs_id s)),
                 (''external_snapshot_id'', reference)]\<rparr>)
           h))"

subsection \<open>The simulation\<close>

definition flagged :: "host \<Rightarrow> string \<Rightarrow> bool" where
  "flagged h key =
     (case dict_get (h_snapshot_provider_metadata h) key of None \<Rightarrow> False | Some v \<Rightarrow> json_truthy v)"

definition operation_result ::
  "bool \<Rightarrow> string option \<Rightarrow> string \<Rightarrow> structured_log_event list \<Rightarrow> snapshot_operation_result" where
  "operation_result success known_id summary events =
     \<lparr>so_success = success, so_external_snapshot_id = known_id, so_summary = summary,
      so_events = events\<rparr>"

definition simulated_create_snapshot ::
  "env \<Rightarrow> host \<Rightarrow> remediation \<Rightarrow> rollback_snapshot \<Rightarrow> string \<Rightarrow> snapshot_operation_result comp" where
  "simulated_create_snapshot E h r snapshot job_id =
     (if flagged h ''simulateSnapshotCreateFailure'' then
        bindM (snapshot_event E h (Some r) job_id ''snapshot_create'' ''failed''
                 ''Simulated snapshot creation failed.'' None None) (\<lambda>e.
        returnM (operation_result False None ''Simulated snapshot creation failed.'' [e]))
      else
        bindM (new_id E ''sim'') (\<lambda>external_id.
        bindM (snapshot_event E h (Some r) job_id ''snapshot_create'' ''succeeded''
                 ''Simulated snapshot was created.'' None (Some external_id)) (\<lambda>e.
        returnM (operation_result True (Some external_id) ''Simulated snapshot was created.'' [e]))))"

definition simulated_delete_snapshot ::
  "env \<Rightarrow> host \<Rightarrow> rollback_snapshot \<Rightarrow> string \<Rightarrow> snapshot_operation_result comp" where
  "simulated_delete_snapshot E h snapshot job_id =
     bindM (snapshot_event E h None job_id ''snapshot_delete'' ''succeeded''
              ''Simulated snapshot deletion completed.'' (Some snapshot) None) (\<lambda>e.
     returnM (operation_result True (rs_external_snapshot_id snapshot)
                ''Simulated snapshot deletion completed.'' [e]))"

definition simulated_rollback_snapshot ::
  "env \<Rightarrow> host \<Rightarrow> remediation \<Rightarrow> rollback_snapshot \<Rightarrow> string \<Rightarrow> snapshot_operation_result comp" where
  "simulated_rollback_snapshot E h r snapshot job_id =
     (if flagged h ''simulateRollbackFailure'' then
        bindM (snapshot_event E h (Some r) job_id ''snapshot_rollback'' ''failed''
                 ''Simulated snapshot rollback failed.'' (Some snapshot) None) (\<lambda>e.
        returnM (operation_result False (rs_external_snapshot_id snapshot)
                   ''Simulated snapshot rollback failed.'' [e]))
      else
        bindM (snapshot_event E h (Some r) job_id ''snapshot_rollback'' ''succeeded''
                 ''Simulated snapshot rollback completed.'' (Some snapshot) None) (\<lambda>e.
        returnM (operation_result True (rs_external_snapshot_id snapshot)
                   ''Simulated snapshot rollback completed.'' [e])))"

definition health_summary :: "bool \<Rightarrow> string" where
  "health_summary passed =
     (if passed then ''Deterministic post-reboot health checks passed.''
      else ''Deterministic post-reboot health checks failed.'')"

definition all_passed :: "(string, string) dict \<Rightarrow> bool" where
  "all_passed checks \<longleftrightarrow> list_all (\<lambda>(_, v). v = ''passed'') checks"

definition simulated_checks :: "host \<Rightarrow> (string, string) dict" where
  "simulated_checks h =
     (let c0 = [(''ssh_reachable'', ''passed'')];
          c1 = (if truthy (h_critical_service_name h) then dict_set ''critical_service'' ''passed'' c0 else c0);
          c2 = (if truthy (h_health_check_url h) then dict_set ''health_url'' ''passed'' c1 else c1)
      in if flagged h ''simulateUnhealthyAfterReboot'' then dict_set ''ssh_reachable'' ''failed'' c2 else c2)"

definition simulated_health_checks ::
  "env \<Rightarrow> host \<Rightarrow> remediation \<Rightarrow> rollback_snapshot \<Rightarrow> string \<Rightarrow> snapshot_health_result comp" where
  "simulated_health_checks E h r snapshot job_id =
     (let checks = simulated_checks h; healthy = all_passed checks in
      bindM (snapshot_event E h (Some r) job_id ''post_reboot_health_check'' (ended healthy)
               (health_summary healthy) (Some snapshot) None) (\<lambda>e.
      returnM \<lparr>sh_healthy = healthy, sh_summary = health_summary healthy, sh_checks = checks,
        sh_events = [e]\<rparr>))"

subsection \<open>Reading the output of a playbook\<close>

definition external_id_prefix :: string where
  "external_id_prefix = ''external_snapshot_id=''"

definition parse_external_snapshot_id :: "string \<Rightarrow> string option" where
  "parse_external_snapshot_id out =
     (case List.find (\<lambda>line. starts_with line external_id_prefix) (splitlines out) of
        None \<Rightarrow> None
      | Some line \<Rightarrow> or_none (strip (drop (length external_id_prefix) line)))"

definition parse_health_checks :: "string \<Rightarrow> (string, string) dict" where
  "parse_health_checks out =
     foldl (\<lambda>checks line.
         let (key, _, value) = partition_at (CHR ''='') line
         in dict_set (replace_all ''health_check.'' [] key) (strip value) checks)
       [] (filter (\<lambda>line. starts_with line ''health_check.'') (splitlines out))"

definition parse_snapshot_callback_events ::
  "env \<Rightarrow> processes \<Rightarrow> string \<Rightarrow> host \<Rightarrow> structured_log_event list" where
  "parse_snapshot_callback_events E X content h = parse_callback_events E X content h"

subsection \<open>Running a playbook\<close>

record snapshot_runner =
  sx_processes :: processes
  sx_playbook :: "playbook_run \<Rightarrow> details \<Rightarrow> (process_output \<times> string) comp"
  sx_playbook_dir :: string
  sx_callback_dir :: string

record snapshot_call =
  sc_host :: host
  sc_plan :: "remediation option"
  sc_snapshot :: rollback_snapshot
  sc_job_id :: string

definition snapshot_command ::
  "snapshot_runner \<Rightarrow> snapshot_call \<Rightarrow> string \<Rightarrow> string \<Rightarrow> string \<Rightarrow> string list \<Rightarrow> string \<Rightarrow> string \<Rightarrow>
   string \<Rightarrow> playbook_run" where
  "snapshot_command S c phase_id playbook inventory extra_args event_path vars_path scan_id =
     \<lparr>pb_arguments =
        [''ansible-playbook'', ''-i'', inventory, sx_playbook_dir S @ ''/'' @ playbook,
         ''-e'', ''@'' @ vars_path] @ extra_args,
      pb_variables =
        [(''ANSIBLE_CALLBACK_PLUGINS'', sx_callback_dir S),
         (''ANSIBLE_CALLBACKS_ENABLED'', ''ai_jsonl''),
         (''AI_SYSADM_EVENT_FILE'', event_path),
         (''AI_SYSADM_JOB_ID'', sc_job_id c),
         (''AI_SYSADM_HOST_ID'', h_id (sc_host c)),
         (''AI_SYSADM_SCAN_ID'', scan_id),
         (''AI_SYSADM_REMEDIATION_ID'', or_empty (snapshot_plan_id (sc_plan c) (Some (sc_snapshot c)))),
         (''AI_SYSADM_PHASE_ID'', phase_id),
         (''AI_SYSADM_PLAYBOOK_ID'', path_stem playbook)]\<rparr>"

text \<open>
  \<open>remediation.scan_id if remediation else ""\<close>: a plan without a scan sets the variable to
  \<open>None\<close>, which starting a process refuses.
\<close>

definition snapshot_scan_id :: "remediation option \<Rightarrow> string option" where
  "snapshot_scan_id r = (case r of None \<Rightarrow> Some [] | Some r \<Rightarrow> r_scan_id r)"

definition snapshot_process_event ::
  "env \<Rightarrow> snapshot_call \<Rightarrow> string \<Rightarrow> string \<Rightarrow> details \<Rightarrow> process_output \<Rightarrow> structured_log_event comp" where
  "snapshot_process_event E c phase_id playbook safe_payload p =
     bindM (fresh_event E (sc_host c) ''snapshot_process'' ''snapshot'' (ended (po_returncode p = 0)))
       (\<lambda>e.
     returnM (e_sanitize_log E
       (e\<lparr>l_job_id := or_none (sc_job_id c), l_scan_id := Option.bind (sc_plan c) r_scan_id,
          l_remediation_id := snapshot_plan_id (sc_plan c) (Some (sc_snapshot c)),
          l_playbook_id := Some (path_stem playbook), l_phase_id := Some phase_id,
          l_severity := (if po_returncode p = 0 then SevInfo else SevHigh),
          l_return_code := Some (po_returncode p), l_stdout := take 65536 (combined_output p),
          l_raw_output := plain_text (JObj safe_payload), l_source := ''ansible-playbook'',
          l_remediation_relevance := ''execution''\<rparr>)
       (sc_host c)))"

definition run_snapshot_process ::
  "env \<Rightarrow> snapshot_runner \<Rightarrow> snapshot_call \<Rightarrow> string \<Rightarrow> string \<Rightarrow> details \<Rightarrow> string \<Rightarrow> string list \<Rightarrow>
   (bool \<times> string \<times> structured_log_event list) comp" where
  "run_snapshot_process E S c phase_id playbook vars_payload inventory extra_args =
     bindM (temp_path (sx_processes S)) (\<lambda>event_path.
     bindM (temp_path (sx_processes S)) (\<lambda>vars_path.
     case snapshot_scan_id (sc_plan c) of
       None \<Rightarrow> raiseM (OtherError ''expected str, bytes or os.PathLike object, not NoneType'')
     | Some scan_id \<Rightarrow>
         bindM (externalM (sx_playbook S
                  (snapshot_command S c phase_id playbook inventory extra_args event_path vars_path scan_id)
                  vars_payload)) (\<lambda>(p, content).
         let events = parse_snapshot_callback_events E (sx_processes S) content (sc_host c);
             safe_payload = dict_set ''snapshot_metadata'' (JStr ''[PROVIDER_METADATA]'') vars_payload in
         bindM (if events = []
                then bindM (snapshot_process_event E c phase_id playbook safe_payload p) (\<lambda>e. returnM [e])
                else returnM events) (\<lambda>events'.
         returnM (po_returncode p = 0,
                  e_redact E (take 131072 (combined_output p)) (Some (sc_host c)), events')))))"

definition snapshot_variables :: "host \<Rightarrow> rollback_snapshot \<Rightarrow> string \<Rightarrow> details" where
  "snapshot_variables h snapshot secret_path =
     [(''snapshot_provider'', JStr (snapshot_platform_text (h_snapshot_platform h))),
      (''snapshot_target_id'', (case h_snapshot_target_id h of None \<Rightarrow> JNull | Some t \<Rightarrow> JStr t)),
      (''snapshot_metadata'', JObj (h_snapshot_provider_metadata h)),
      (''snapshot_secret_file'', JStr secret_path),
      (''external_snapshot_id'', JStr (or_empty (rs_external_snapshot_id snapshot)))]"

definition run_snapshot_playbook ::
  "env \<Rightarrow> cipher \<Rightarrow> snapshot_runner \<Rightarrow> snapshot_call \<Rightarrow> string \<Rightarrow> string \<Rightarrow>
   (bool \<times> string \<times> structured_log_event list) comp" where
  "run_snapshot_playbook E K S c phase_id playbook =
     bindM (temporary_secret K (h_snapshot_credential_id (sc_host c))) (\<lambda>_.
     bindM (temp_path (sx_processes S)) (\<lambda>secret_path.
     run_snapshot_process E S c phase_id playbook
       (snapshot_variables (sc_host c) (sc_snapshot c) secret_path) ''localhost,'' []))"

definition health_variables :: "host \<Rightarrow> details" where
  "health_variables h =
     [(''critical_service_name'', JStr (or_empty (h_critical_service_name h))),
      (''health_check_url'', JStr (or_empty (h_health_check_url h)))]"

definition run_health_playbook ::
  "env \<Rightarrow> snapshot_runner \<Rightarrow> snapshot_call \<Rightarrow> string \<Rightarrow> string \<Rightarrow>
   (bool \<times> string \<times> structured_log_event list) comp" where
  "run_health_playbook E S c key_path known_hosts =
     (let h = sc_host c in
      run_snapshot_process E S c ''post_reboot_health_check'' ''health-check.yml'' (health_variables h)
        (h_address h @ '','')
        [''-u'', h_username h, ''--private-key'', key_path, ''-e'', ''ansible_port='' @ dec_int (h_port h),
         ''-e'', ''ansible_ssh_common_args=-o StrictHostKeyChecking=yes '' @
                ''-o UserKnownHostsFile='' @ known_hosts])"

subsection \<open>The provider\<close>

definition catalogued :: "snapshot_platform \<Rightarrow> string \<Rightarrow> string" where
  "catalogued platform action =
     (case dict_get snapshot_playbook_catalog (snapshot_platform_text platform @ ''_'' @ action) of
        Some playbook \<Rightarrow> playbook
      | None \<Rightarrow> ''simulated-'' @ action @ ''.yml'')"

definition operation_summary :: "string \<Rightarrow> bool \<Rightarrow> string" where
  "operation_summary name success =
     ''Snapshot '' @ name @ (if success then '' completed.'' else '' failed.'')"

definition ansible_create_snapshot ::
  "env \<Rightarrow> cipher \<Rightarrow> snapshot_runner \<Rightarrow> host \<Rightarrow> remediation \<Rightarrow> rollback_snapshot \<Rightarrow> string \<Rightarrow>
   snapshot_operation_result comp" where
  "ansible_create_snapshot E K S h r snapshot job_id =
     bindM (run_snapshot_playbook E K S
              \<lparr>sc_host = h, sc_plan = Some r, sc_snapshot = snapshot, sc_job_id = job_id\<rparr>
              ''snapshot_create'' (catalogued (h_snapshot_platform h) ''create''))
       (\<lambda>(success, out, events).
     bindM (case parse_external_snapshot_id out of
              Some i \<Rightarrow> returnM i
            | None \<Rightarrow> new_id E ''snapshot'') (\<lambda>external_id.
     returnM (operation_result success (if success then Some external_id else None)
                (operation_summary ''creation'' success) events)))"

definition ansible_delete_snapshot ::
  "env \<Rightarrow> cipher \<Rightarrow> snapshot_runner \<Rightarrow> host \<Rightarrow> rollback_snapshot \<Rightarrow> string \<Rightarrow>
   snapshot_operation_result comp" where
  "ansible_delete_snapshot E K S h snapshot job_id =
     bindM (run_snapshot_playbook E K S
              \<lparr>sc_host = h, sc_plan = None, sc_snapshot = snapshot, sc_job_id = job_id\<rparr>
              ''snapshot_delete'' (catalogued (rs_provider snapshot) ''delete''))
       (\<lambda>(success, _, events).
     returnM (operation_result success (rs_external_snapshot_id snapshot)
                (operation_summary ''deletion'' success) events))"

definition ansible_rollback_snapshot ::
  "env \<Rightarrow> cipher \<Rightarrow> snapshot_runner \<Rightarrow> host \<Rightarrow> remediation \<Rightarrow> rollback_snapshot \<Rightarrow> string \<Rightarrow>
   snapshot_operation_result comp" where
  "ansible_rollback_snapshot E K S h r snapshot job_id =
     bindM (run_snapshot_playbook E K S
              \<lparr>sc_host = h, sc_plan = Some r, sc_snapshot = snapshot, sc_job_id = job_id\<rparr>
              ''snapshot_rollback'' (catalogued (rs_provider snapshot) ''rollback''))
       (\<lambda>(success, _, events).
     returnM (operation_result success (rs_external_snapshot_id snapshot)
                (operation_summary ''rollback'' success) events))"

definition unreachable_result :: "string \<Rightarrow> snapshot_health_result" where
  "unreachable_result summary =
     \<lparr>sh_healthy = False, sh_summary = summary, sh_checks = [(''ssh_reachable'', ''failed'')],
      sh_events = []\<rparr>"

definition reported_checks :: "bool \<Rightarrow> string \<Rightarrow> (string, string) dict" where
  "reported_checks success out =
     (let checks = parse_health_checks out in
      if checks = [] then [(''ansible_health_playbook'', if success then ''passed'' else ''failed'')]
      else checks)"

definition ansible_health_checks ::
  "env \<Rightarrow> cipher \<Rightarrow> snapshot_runner \<Rightarrow> host \<Rightarrow> remediation \<Rightarrow> rollback_snapshot \<Rightarrow> string \<Rightarrow>
   snapshot_health_result comp" where
  "ansible_health_checks E K S h r snapshot job_id =
     (if \<not> truthy (h_ssh_host_key_fingerprint h)
      then returnM (unreachable_result ''SSH host key has not been confirmed.'')
      else
        bindM (confirmed_key (sx_processes S) h) (\<lambda>(known_line, same_key).
        if \<not> same_key
        then returnM (unreachable_result ''SSH host key changed before health checks.'')
        else
          bindM (temporary_key K (h_credential_id h)) (\<lambda>_.
          bindM (temp_path (sx_processes S)) (\<lambda>key_path.
          bindM (temp_path (sx_processes S)) (\<lambda>known_hosts.
          bindM (run_health_playbook E S
                   \<lparr>sc_host = h, sc_plan = Some r, sc_snapshot = snapshot, sc_job_id = job_id\<rparr>
                   key_path known_hosts) (\<lambda>(success, out, events).
          let checks = reported_checks success out in
          returnM \<lparr>sh_healthy = (success \<and> all_passed checks), sh_summary = health_summary success,
            sh_checks = checks, sh_events = events\<rparr>))))))"

end
