(* ===== verification/SnapshotProperties.thy ===== *)
theory SnapshotProperties
  imports Snapshots ExecutorProperties
begin

text \<open>
  What a snapshot provider promises the service, that both providers of \<open>snapshots.py\<close> keep it,
  what a healthy host went through, and two ways in which a snapshot the provider reports does
  not exist.
\<close>

subsection \<open>The contract of a provider\<close>

locale snapshot_provider =
  fixes create :: "host \<Rightarrow> remediation \<Rightarrow> rollback_snapshot \<Rightarrow> string \<Rightarrow> snapshot_operation_result comp"
    and delete :: "host \<Rightarrow> rollback_snapshot \<Rightarrow> string \<Rightarrow> snapshot_operation_result comp"
    and rollback :: "host \<Rightarrow> remediation \<Rightarrow> rollback_snapshot \<Rightarrow> string \<Rightarrow> snapshot_operation_result comp"
    and health :: "host \<Rightarrow> remediation \<Rightarrow> rollback_snapshot \<Rightarrow> string \<Rightarrow> snapshot_health_result comp"
  assumes created: "create h r s i w = (Inr x, w') \<Longrightarrow> so_success x = truthy (so_external_snapshot_id x)"
    and deleted: "delete h s i w = (Inr x, w') \<Longrightarrow> so_external_snapshot_id x = rs_external_snapshot_id s"
    and rolled_back:
      "rollback h r s i w = (Inr x, w') \<Longrightarrow> so_external_snapshot_id x = rs_external_snapshot_id s"
    and healthy: "health h r s i w = (Inr y, w') \<Longrightarrow> sh_healthy y \<Longrightarrow> sh_checks y \<noteq> [] \<and> all_passed (sh_checks y)"
begin

text \<open>A snapshot the service keeps as created is one the provider can be asked for.\<close>

lemma created_rollback_snapshot:
  assumes "e_create_snapshot E = create" and "create_rollback_snapshot E job r h w = (Inr s, w')"
  shows "rs_state s = SnapCreated" "truthy (rs_external_snapshot_id s)" "rs_remediation_id s = r_id r"
proof -
  from assms(2) obtain s0 x u u' where x: "externalM (create h r s0 (j_id job)) u = (Inr x, u')"
    and ok: "so_success x" and id: "rs_external_snapshot_id s = so_external_snapshot_id x"
    and s: "rs_state s = SnapCreated" "rs_remediation_id s = r_id r"
    unfolding create_rollback_snapshot_def assms(1)
    by (auto simp: bindM_eq_Inr comp_simps Let_def snapshot_creation_def split: if_splits)
  from x obtain v where "create h r s0 (j_id job) u = (Inr x, v)"
    by (auto simp: externalM_eq_Inr)
  from created [OF this] ok id s show "rs_state s = SnapCreated" "truthy (rs_external_snapshot_id s)"
    "rs_remediation_id s = r_id r"
    by simp_all
qed

end

lemma operation_result_simps [simp]:
  "so_success (operation_result a b c d) = a" "so_external_snapshot_id (operation_result a b c d) = b"
  by (simp_all add: operation_result_def)

lemma operation_result_inject [simp]:
  "operation_result a b c d = operation_result a' b' c' d' \<longleftrightarrow> a = a' \<and> b = b' \<and> c = c' \<and> d = d'"
  by (simp add: operation_result_def)

lemma new_id_truthy: "new_id E pre w = (Inr i, w') \<Longrightarrow> i \<noteq> []"
  by (auto simp: new_id_def)

lemma parsed_id_truthy: "parse_external_snapshot_id out = Some i \<Longrightarrow> i \<noteq> []"
  by (auto simp: parse_external_snapshot_id_def or_none_def split: option.splits if_splits)

lemma simulated_checks_nonempty: "simulated_checks h \<noteq> []"
  by (simp add: simulated_checks_def Let_def)

lemma reported_checks_nonempty: "reported_checks ok out \<noteq> []"
  by (simp add: reported_checks_def Let_def)

interpretation simulated_provider: snapshot_provider
  "simulated_create_snapshot E" "simulated_delete_snapshot E" "simulated_rollback_snapshot E"
  "simulated_health_checks E" for E
proof unfold_locales
  fix h r s i w x w'
  assume "simulated_create_snapshot E h r s i w = (Inr x, w')"
  then show "so_success x = truthy (so_external_snapshot_id x)"
    by (auto simp: simulated_create_snapshot_def bindM_eq_Inr comp_simps dest: new_id_truthy split: if_splits)
qed (auto simp: simulated_delete_snapshot_def simulated_rollback_snapshot_def
      simulated_health_checks_def simulated_checks_nonempty bindM_eq_Inr comp_simps Let_def split: if_splits)

interpretation ansible_provider: snapshot_provider
  "ansible_create_snapshot E K S" "ansible_delete_snapshot E K S" "ansible_rollback_snapshot E K S"
  "ansible_health_checks E K S" for E K S
proof unfold_locales
  fix h r s i w x w'
  assume "ansible_create_snapshot E K S h r s i w = (Inr x, w')"
  then show "so_success x = truthy (so_external_snapshot_id x)"
    by (auto simp: ansible_create_snapshot_def bindM_eq_Inr comp_simps dest: new_id_truthy parsed_id_truthy
        split: if_splits option.splits)
next
  fix h r s i w y w'
  assume "ansible_health_checks E K S h r s i w = (Inr y, w')" "sh_healthy y"
  then show "sh_checks y \<noteq> [] \<and> all_passed (sh_checks y)"
    by (auto simp: ansible_health_checks_def unreachable_result_def reported_checks_nonempty
        bindM_eq_Inr comp_simps Let_def split: if_splits)
qed (auto simp: ansible_delete_snapshot_def ansible_rollback_snapshot_def bindM_eq_Inr comp_simps)

subsection \<open>What ran\<close>

lemma run_snapshot_process_Inr:
  assumes "run_snapshot_process E S c ph playbook vars inventory extra w = (Inr (ok, out, evs), w')"
  obtains run p content v v' where "sx_playbook S run vars v = (Inr (p, content), v')"
    and "take 4 (pb_arguments run) = [''ansible-playbook'', ''-i'', inventory, sx_playbook_dir S @ ''/'' @ playbook]"
    and "ok = (po_returncode p = 0)"
    and "out = e_redact E (take 131072 (combined_output p)) (Some (sc_host c))"
  using assms that
  by (fastforce simp: run_snapshot_process_def snapshot_command_def bindM_eq_Inr comp_simps
      externalM_eq_Inr Let_def split: option.splits prod.splits if_splits)

lemma run_snapshot_playbook_Inr:
  assumes "run_snapshot_playbook E K S c ph playbook w = (Inr (ok, out, evs), w')"
  obtains run vars p content v v' where "sx_playbook S run vars v = (Inr (p, content), v')"
    and "take 4 (pb_arguments run) = [''ansible-playbook'', ''-i'', ''localhost,'', sx_playbook_dir S @ ''/'' @ playbook]"
    and "ok = (po_returncode p = 0)"
    and "out = e_redact E (take 131072 (combined_output p)) (Some (sc_host c))"
  using assms that unfolding run_snapshot_playbook_def
  by (auto simp: bindM_eq_Inr elim!: run_snapshot_process_Inr)

subsection \<open>Sample runs\<close>

text \<open>A runner whose playbooks all end well and print the same text; the host's secret is stored.\<close>

definition sample_runner :: "string \<Rightarrow> snapshot_runner" where
  "sample_runner out = \<lparr>sx_processes = sample_processes [], sx_playbook = (\<lambda>_ _. returnM (exit_ok out, [])),
     sx_playbook_dir = ''snapshot'', sx_callback_dir = ''callbacks''\<rparr>"

definition snapshot_secret :: ssh_credential where
  "snapshot_secret = sample_credential\<lparr>cr_id := ''cred-2''\<rparr>"

definition secret_world :: world where
  "secret_world = (key_world [])
     \<lparr>w_store := (w_store (key_world []))
        \<lparr>t_credentials := [(''cred-1'', sample_credential, ''PRIVATE KEY'', ''n''),
                           (''cred-2'', snapshot_secret, ''SECRET'', ''n'')]\<rparr>\<rparr>"

definition sample_rollback :: rollback_snapshot where
  "sample_rollback = \<lparr>rs_id = ''rs-1'', rs_host_id = ''host-1'', rs_remediation_id = ''rem-1'',
     rs_provider = Proxmox, rs_external_snapshot_id = None, rs_state = SnapCreating,
     rs_delete_after = None, rs_created_at = Aware 0, rs_updated_at = Aware 0,
     rs_failure_summary = None, rs_health_check_result = []\<rparr>"

lemma sample_secrets:
  "w_store w = w_store secret_world \<Longrightarrow> temporary_secret sample_cipher (Some ''cred-2'') w = (Inr ''SECRET'', w)"
  "w_store w = w_store secret_world \<Longrightarrow> temporary_key sample_cipher (Some ''cred-1'') w = (Inr ''PRIVATE KEY'', w)"
  by (simp_all add: temporary_secret_def temporary_key_def decrypt_private_key_def decrypt_secret_def
      bindM_def comp_simps get_credential_record_def secret_world_def key_world_def snapshot_secret_def
      sample_credential_def sample_cipher_def)

lemma sample_snapshot_process:
  assumes "snapshot_scan_id (sc_plan c) = Some scan"
  shows "\<exists>evs w'. run_snapshot_process (sample_env []) (sample_runner out) c ph playbook vars inventory extra w =
    (Inr (True, take 131072 (combined_output (exit_ok out)), evs), w')"
  using assms
  by (simp add: run_snapshot_process_def sample_runner_def exit_ok_def temp_path_def externalM_def
      parse_snapshot_callback_events_def parse_callback_events_def snapshot_process_event_def
      fresh_event_def new_id_def bindM_def comp_simps Let_def sample_env_def splitlines_def)

lemma sample_creation:
  assumes "h_snapshot_credential_id h = Some ''cred-2''"
  shows "\<exists>x w'. ansible_create_snapshot (sample_env []) sample_cipher (sample_runner out) h approved_plan
      sample_rollback ''job-1'' secret_world = (Inr x, w') \<and> so_success x"
proof -
  let ?c = "\<lparr>sc_host = h, sc_plan = Some approved_plan, sc_snapshot = sample_rollback, sc_job_id = ''job-1''\<rparr>"
  have scan: "snapshot_scan_id (sc_plan ?c) = Some ''scan-1''"
    by (simp add: snapshot_scan_id_def approved_plan_def sample_plan_base_def)
  have path: "\<exists>i w'. temp_path (sx_processes (sample_runner out)) secret_world = (Inr i, w')"
    by (simp add: temp_path_def)
  then obtain i w1 where path: "temp_path (sx_processes (sample_runner out)) secret_world = (Inr i, w1)"
    by blast
  obtain evs w2 where run: "run_snapshot_playbook (sample_env []) sample_cipher (sample_runner out) ?c
      ''snapshot_create'' (catalogued (h_snapshot_platform h) ''create'') secret_world =
      (Inr (True, take 131072 (combined_output (exit_ok out)), evs), w2)"
    using sample_snapshot_process [OF scan] assms sample_secrets(1) [OF refl] path
    unfolding run_snapshot_playbook_def by (fastforce simp: bindM_def)
  then show ?thesis
    by (auto simp: ansible_create_snapshot_def bindM_def comp_simps new_id_def split: option.split)
qed

subsection \<open>Properties\<close>

text \<open>A rollback snapshot that the service records as created can be named to its provider:
  with either provider, a snapshot that \<open>_create_rollback_snapshot\<close> returns is in the state
  created, belongs to the plan at hand and has an external id that is not empty.\<close>

theorem created_snapshots_are_identified:
  assumes "e_create_snapshot E = simulated_create_snapshot E' \<or>
      e_create_snapshot E = ansible_create_snapshot E' K S"
    and "create_rollback_snapshot E job r h w = (Inr s, w')"
  shows "rs_state s = SnapCreated \<and> truthy (rs_external_snapshot_id s) \<and> rs_remediation_id s = r_id r"
  using assms simulated_provider.created_rollback_snapshot ansible_provider.created_rollback_snapshot
  by metis

text \<open>C35: A host that the ansible provider calls healthy was reached and checked: its key was
  scanned and is the confirmed one, the health check playbook was run against its address with its
  service and URL and ended with return code 0, and every check the playbook reported has passed.\<close>

theorem healthy_host_was_checked:
  assumes "ansible_health_checks E K S h r s i w = (Inr y, w')" and "sh_healthy y"
  shows "truthy (h_ssh_host_key_fingerprint h) \<and>
    (\<exists>line v. confirmed_key (sx_processes S) h w = (Inr (line, True), v)) \<and>
    (\<exists>run p content u u'. sx_playbook S run (health_variables h) u = (Inr (p, content), u') \<and>
       take 4 (pb_arguments run) =
         [''ansible-playbook'', ''-i'', h_address h @ '','', sx_playbook_dir S @ ''/health-check.yml''] \<and>
       po_returncode p = 0 \<and>
       sh_checks y = reported_checks True (e_redact E (take 131072 (combined_output p)) (Some h))) \<and>
    all_passed (sh_checks y)"
proof -
  from assms obtain line v c out evs u u' key hosts where key: "truthy (h_ssh_host_key_fingerprint h)"
    "confirmed_key (sx_processes S) h w = (Inr (line, True), v)"
    and run: "run_health_playbook E S c key hosts u = (Inr (True, out, evs), u')"
    and c: "sc_host c = h"
    and y: "sh_checks y = reported_checks True out" "all_passed (sh_checks y)"
    by (fastforce simp: ansible_health_checks_def unreachable_result_def bindM_eq_Inr comp_simps Let_def
        split: if_splits)
  from run [unfolded run_health_playbook_def Let_def c] obtain p run content w1 w2 where
    "sx_playbook S run (health_variables h) w1 = (Inr (p, content), w2)"
    "take 4 (pb_arguments run) =
       [''ansible-playbook'', ''-i'', h_address h @ '','', sx_playbook_dir S @ ''/health-check.yml'']"
    "True = (po_returncode p = 0)" "out = e_redact E (take 131072 (combined_output p)) (Some h)"
    unfolding c [symmetric] by (rule run_snapshot_process_Inr) simp
  with key y show ?thesis
    by blast
qed

text \<open>The id of a snapshot is made up. When no line of the playbook's output begins with
  \<open>external_snapshot_id=\<close>, as in the output of the catalogued playbooks, which ansible prints
  indented and quoted, a successful creation still returns an id, drawn at random, and the
  rollback and the deletion later ask the provider for a snapshot of that name.\<close>

theorem snapshot_id_is_made_up:
  assumes "ansible_create_snapshot E K S h r s i w = (Inr x, w')" and "so_success x"
    and "\<And>run vars u p content u' line. sx_playbook S run vars u = (Inr (p, content), u') \<Longrightarrow>
      line \<in> set (splitlines (e_redact E (take 131072 (combined_output p)) (Some h))) \<Longrightarrow>
      \<not> starts_with line external_id_prefix"
  shows "\<exists>n. so_external_snapshot_id x = Some (''snapshot-'' @ e_uuid E n)"
proof -
  from assms(1,2) obtain out evs u where
    run: "run_snapshot_playbook E K S \<lparr>sc_host = h, sc_plan = Some r, sc_snapshot = s, sc_job_id = i\<rparr>
      ''snapshot_create'' (catalogued (h_snapshot_platform h) ''create'') w = (Inr (True, out, evs), u)"
    and x: "(parse_external_snapshot_id out = None \<and>
        (\<exists>j u'. new_id E ''snapshot'' u = (Inr j, u') \<and> so_external_snapshot_id x = Some j)) \<or>
      parse_external_snapshot_id out \<noteq> None"
    by (auto simp: ansible_create_snapshot_def bindM_eq_Inr comp_simps split: if_splits option.splits)
  from run have "\<not> starts_with line external_id_prefix" if "line \<in> set (splitlines out)" for line
    by (elim run_snapshot_playbook_Inr) (use assms(3) that in auto)
  then have "parse_external_snapshot_id out = None"
    by (auto simp: parse_external_snapshot_id_def find_None_iff find_Some_iff split: option.splits)
  with x show ?thesis
    by (auto simp: new_id_def)
qed

text \<open>C38: On every platform but Proxmox the protection is a simulation. For a host on AWS, VMware or
  libvirt the provider runs the playbook \<open>simulated-create.yml\<close>, which takes no snapshot, and
  reports what that playbook's return code says as the outcome of the creation.\<close>

theorem other_platforms_are_simulated:
  assumes "h_snapshot_platform h \<noteq> Proxmox" and "ansible_create_snapshot E K S h r s i w = (Inr x, w')"
  shows "\<exists>run vars p content u u'. sx_playbook S run vars u = (Inr (p, content), u') \<and>
    take 4 (pb_arguments run) =
      [''ansible-playbook'', ''-i'', ''localhost,'', sx_playbook_dir S @ ''/simulated-create.yml''] \<and>
    so_success x = (po_returncode p = 0)"
proof -
  have "catalogued (h_snapshot_platform h) ''create'' = ''simulated-create.yml''"
    using assms(1) by (cases "h_snapshot_platform h") (simp_all add: catalogued_def snapshot_playbook_catalog_def)
  with assms(2) obtain ok out evs c u where "so_success x = ok"
    "run_snapshot_playbook E K S c ''snapshot_create'' ''simulated-create.yml'' w = (Inr (ok, out, evs), u)"
    by (auto simp: ansible_create_snapshot_def bindM_eq_Inr comp_simps)
  from this(2) obtain run vars p content v v' where
    "sx_playbook S run vars v = (Inr (p, content), v')"
    "take 4 (pb_arguments run) =
       [''ansible-playbook'', ''-i'', ''localhost,'', sx_playbook_dir S @ ''/simulated-create.yml'']"
    "ok = (po_returncode p = 0)"
    by (rule run_snapshot_playbook_Inr) simp
  with \<open>so_success x = ok\<close> show ?thesis
    by blast
qed

subsection \<open>Witnesses\<close>

definition simulating_snapshots :: env where
  "simulating_snapshots = (sample_env [])\<lparr>e_create_snapshot := simulated_create_snapshot (sample_env [])\<rparr>"

lemma simulated_creation:
  "\<exists>s w'. create_rollback_snapshot simulating_snapshots leased_job approved_plan sample_host leased_world = (Inr s, w')"
  by (simp add: create_rollback_snapshot_def simulating_snapshots_def simulated_create_snapshot_def
      flagged_def sample_host_def externalM_def snapshot_event_def snapshot_reference_def fresh_event_def
      new_id_def utc_now_def redact_def snapshot_creation_def audit_def bindM_def comp_simps Let_def)

theorem created_snapshots_are_identified_witness:
  "\<exists>s w'. create_rollback_snapshot simulating_snapshots leased_job approved_plan sample_host leased_world = (Inr s, w')
     \<and> truthy (rs_external_snapshot_id s)"
proof -
  obtain s w' where r: "create_rollback_snapshot simulating_snapshots leased_job approved_plan sample_host
      leased_world = (Inr s, w')"
    using simulated_creation by blast
  have "e_create_snapshot simulating_snapshots = simulated_create_snapshot (sample_env [])"
    by (simp add: simulating_snapshots_def)
  from created_snapshots_are_identified [OF disjI1 [OF this] r] r show ?thesis
    by blast
qed

lemma sample_health:
  assumes out: "out = ''health_check.ssh_reachable=passed''"
  shows "\<exists>y w'. ansible_health_checks (sample_env []) sample_cipher (sample_runner out) confirmed_host
    approved_plan sample_rollback ''job-1'' secret_world = (Inr y, w') \<and> sh_healthy y"
proof -
  let ?S = "sample_runner out"
  let ?c = "\<lparr>sc_host = confirmed_host, sc_plan = Some approved_plan, sc_snapshot = sample_rollback,
    sc_job_id = ''job-1''\<rparr>"
  have scan: "snapshot_scan_id (sc_plan ?c) = Some ''scan-1''"
    by (simp add: snapshot_scan_id_def approved_plan_def sample_plan_base_def)
  have "combined_output (exit_ok out) = ''health_check.ssh_reachable=passed''"
    unfolding out by code_simp
  then have "take 131072 (combined_output (exit_ok out)) = ''health_check.ssh_reachable=passed''"
    by simp
  moreover have "all_passed (reported_checks True ''health_check.ssh_reachable=passed'')"
    by code_simp
  moreover obtain line where "confirmed_key (sx_processes ?S) confirmed_host secret_world = (Inr (line, True), secret_world)"
    using sample_key_scan(1) [of "[]"] by (auto simp: sample_runner_def)
  moreover let ?n = "w_uuid secret_world"
  have "\<exists>evs w'. run_health_playbook (sample_env []) ?S ?c (dec_nat ?n) (dec_nat (?n + 1))
      (secret_world\<lparr>w_uuid := ?n + 2\<rparr>) = (Inr (True, take 131072 (combined_output (exit_ok out)), evs), w')"
    unfolding run_health_playbook_def Let_def by (rule sample_snapshot_process [OF scan])
  moreover have "x_path (sx_processes ?S) = dec_nat"
    by (simp add: sample_runner_def sample_processes_def)
  ultimately show ?thesis
    using sample_hosts sample_secrets(2) [OF refl]
    by (auto simp: ansible_health_checks_def bindM_def comp_simps temp_path_def Let_def)
qed

theorem healthy_host_was_checked_witness:
  "\<exists>run p content u u'. sx_playbook (sample_runner ''health_check.ssh_reachable=passed'') run
     (health_variables confirmed_host) u = (Inr (p, content), u') \<and>
     take 2 (pb_arguments run) = [''ansible-playbook'', ''-i''] \<and> po_returncode p = 0"
proof -
  obtain y w' where "ansible_health_checks (sample_env []) sample_cipher
      (sample_runner ''health_check.ssh_reachable=passed'') confirmed_host approved_plan sample_rollback
      ''job-1'' secret_world = (Inr y, w')" "sh_healthy y"
    using sample_health by blast
  from healthy_host_was_checked [OF this] obtain run p content u u' where
    "sx_playbook (sample_runner ''health_check.ssh_reachable=passed'') run (health_variables confirmed_host) u =
       (Inr (p, content), u')"
    and args: "take 4 (pb_arguments run) = [''ansible-playbook'', ''-i'', h_address confirmed_host @ '','',
       sx_playbook_dir (sample_runner ''health_check.ssh_reachable=passed'') @ ''/health-check.yml'']"
    and "po_returncode p = 0"
    by blast
  moreover from arg_cong [OF args, of "take 2"] have "take 2 (pb_arguments run) = [''ansible-playbook'', ''-i'']"
    by simp
  ultimately show ?thesis
    by blast
qed

text \<open>What ansible prints for the task of \<open>proxmox-create.yml\<close>.\<close>

definition debug_output :: string where
  "debug_output = ''ok: [localhost] => {'' @ [CHR 0x0A] @ ''    '' @ [CHR 0x22] @ ''msg'' @ [CHR 0x22] @ '': '' @
     [CHR 0x22] @ ''external_snapshot_id=proxmox-vm-100'' @ [CHR 0x22] @ [CHR 0x0A] @ ''}''"

lemma debug_lines:
  "list_all (\<lambda>line. \<not> starts_with line external_id_prefix)
     (splitlines (take 131072 (combined_output (exit_ok debug_output))))"
proof -
  have "combined_output (exit_ok debug_output) = debug_output"
    by code_simp
  moreover have "length debug_output \<le> 131072"
    by (simp add: debug_output_def)
  moreover have "list_all (\<lambda>line. \<not> starts_with line external_id_prefix) (splitlines debug_output)"
    by code_simp
  ultimately show ?thesis
    by simp
qed

lemma sample_host_secret: "h_snapshot_credential_id sample_host = Some ''cred-2''"
  by (simp add: sample_host_def)

theorem snapshot_id_is_made_up_witness:
  "\<exists>x w' n. ansible_create_snapshot (sample_env []) sample_cipher (sample_runner debug_output) sample_host
     approved_plan sample_rollback ''job-1'' secret_world = (Inr x, w') \<and>
     so_external_snapshot_id x = Some (''snapshot-'' @ dec_nat n)"
proof -
  obtain x w' where r: "ansible_create_snapshot (sample_env []) sample_cipher (sample_runner debug_output)
      sample_host approved_plan sample_rollback ''job-1'' secret_world = (Inr x, w')" "so_success x"
    using sample_creation [OF sample_host_secret] by blast
  have "p = exit_ok debug_output" if "sx_playbook (sample_runner debug_output) run vars u = (Inr (p, content), u')"
    for run vars u p content u'
    using that by (simp add: sample_runner_def returnM_def)
  then have "\<exists>n. so_external_snapshot_id x = Some (''snapshot-'' @ e_uuid (sample_env []) n)"
    using debug_lines [unfolded list_all_iff]
    by (intro snapshot_id_is_made_up [OF r]) (simp only: sample_env_fields, blast)
  with r show ?thesis
    unfolding sample_env_fields by blast
qed

definition aws_host :: host where
  "aws_host = sample_host\<lparr>h_snapshot_platform := Aws\<rparr>"

theorem other_platforms_are_simulated_witness:
  "\<exists>x w' (run :: playbook_run) (p :: process_output).
     ansible_create_snapshot (sample_env []) sample_cipher (sample_runner ''ok'') aws_host
     approved_plan sample_rollback ''job-1'' secret_world = (Inr x, w') \<and> so_success x \<and>
     take 4 (pb_arguments run) =
       [''ansible-playbook'', ''-i'', ''localhost,'', ''snapshot/simulated-create.yml''] \<and>
     po_returncode p = 0"
proof -
  have aws: "h_snapshot_platform aws_host \<noteq> Proxmox" "h_snapshot_credential_id aws_host = Some ''cred-2''"
    by (simp_all add: aws_host_def sample_host_def)
  obtain x w' where r: "ansible_create_snapshot (sample_env []) sample_cipher (sample_runner ''ok'') aws_host
      approved_plan sample_rollback ''job-1'' secret_world = (Inr x, w')" "so_success x"
    using sample_creation [OF aws(2)] by blast
  have "sx_playbook_dir (sample_runner ''ok'') @ ''/simulated-create.yml'' = ''snapshot/simulated-create.yml''"
    by (simp add: sample_runner_def)
  from other_platforms_are_simulated [OF aws(1) r(1), unfolded this] r(2) obtain run :: playbook_run
    and p :: process_output where
    "take 4 (pb_arguments run) = [''ansible-playbook'', ''-i'', ''localhost,'', ''snapshot/simulated-create.yml'']"
    "po_returncode p = 0"
    by blast
  with r show ?thesis
    by blast
qed

end
