(* ===== verification/Deployment.thy ===== *)
theory Deployment
  imports AgentProperties AccessProperties SnapshotProperties CollectorProperties ServiceProperties
begin

text \<open>
  The program as \<open>build_runtime\<close> puts it together (\<open>runtime.py\<close>): the service's surroundings with
  the redaction of \<open>redaction.py\<close> and the collector, agents, executor and snapshot provider that the
  runtime chose; and what holds of the composition.
\<close>

subsection \<open>The wiring\<close>

record components =
  dp_cipher :: cipher
  dp_processes :: processes
  dp_collector :: ssh_collector
  dp_runner :: snapshot_runner
  dp_agents :: agent_env
  dp_workflow :: workflow

definition deployed_agents :: "components \<Rightarrow> agent_env" where
  "deployed_agents D = (dp_agents D)\<lparr>ag_redact_payload := (\<lambda>j h. redact_payload j (Some h))\<rparr>"

definition deploy :: "components \<Rightarrow> runtime \<Rightarrow> env \<Rightarrow> env" where
  "deploy D R E0 =
     (let E = redacting E0; K = dp_cipher D; S = dp_runner D in
      E\<lparr>e_test_connection :=
          (if rt_ssh_collector R then ssh_test_connection E K (dp_collector D) else demo_test_connection),
        e_collect :=
          (if rt_ssh_collector R then ssh_collect E K (dp_collector D)
           else demo_collect E (cl_snapshot_text (dp_collector D))),
        e_workflow := run_agents E (deployed_agents D) (dp_workflow D),
        e_execute :=
          (if rt_ansible R then ansible_execute E K (dp_processes D) else simulated_execute E),
        e_create_snapshot :=
          (if rt_ansible R then ansible_create_snapshot E K S else simulated_create_snapshot E),
        e_health_checks :=
          (if rt_ansible R then ansible_health_checks E K S else simulated_health_checks E),
        e_rollback_snapshot :=
          (if rt_ansible R then ansible_rollback_snapshot E K S else simulated_rollback_snapshot E),
        e_delete_snapshot :=
          (if rt_ansible R then ansible_delete_snapshot E K S else simulated_delete_snapshot E)\<rparr>)"

lemma deploy_collect:
  "rt_ssh_collector R \<Longrightarrow> e_collect (deploy D R E) = ssh_collect (redacting E) (dp_cipher D) (dp_collector D)"
  by (simp add: deploy_def Let_def)

lemma redacting_fields:
  "e_redact (redacting E) = redact_text" "e_sanitize_log (redacting E) e h = sanitize_log_event e (Some h)"
  by (simp_all add: redacting_def)

subsection \<open>A host that was never confirmed, or is not the confirmed one any more\<close>

definition unconfirmed :: "processes \<Rightarrow> host \<Rightarrow> bool" where
  "unconfirmed X h \<longleftrightarrow> \<not> truthy (h_ssh_host_key_fingerprint h) \<or>
     (\<forall>w line same w'. confirmed_key X h w = (Inr (line, same), w') \<longrightarrow> \<not> same)"

lemma unconfirmed_not_collected:
  assumes "unconfirmed (cl_processes C) h"
  shows "ssh_collect E K C h i j w \<noteq> (Inr ce, w')"
  using assms by (auto simp: unconfirmed_def ssh_collect_def bindM_eq_Inr comp_simps split: if_splits)

lemma check_drift_needs_evidence:
  assumes "\<And>i j w ce w'. e_collect E h i j w \<noteq> (Inr ce, w')"
  shows "\<exists>e. fst (check_drift E r h ow w) = Inl e"
proof (rule ccontr)
  assume "\<not> ?thesis"
  then obtain u w' where "check_drift E r h ow w = (Inr u, w')"
    by (metis prod.collapse sum.exhaust_sel)
  with assms show False
    by (auto simp: check_drift_def bindM_eq_Inr externalM_eq_Inr)
qed

text \<open>C34: A host whose key was never confirmed or is not the confirmed one is not touched. In a
  deployment that collects over SSH the worker's run of a remediation on it ends with an exception,
  and what it does depends neither on the executor nor on the creation of snapshots.\<close>

theorem unconfirmed_host_is_not_remediated:
  assumes "rt_ssh_collector R" and "unconfirmed (cl_processes (dp_collector D)) h"
  shows "process_claimed_remediation ((deploy D R E)\<lparr>e_execute := x, e_create_snapshot := y\<rparr>) r h ow w =
      process_claimed_remediation (deploy D R E) r h ow w \<and>
    (\<exists>e. fst (process_claimed_remediation (deploy D R E) r h ow w) = Inl e)"
  by (rule stopped_at_drift, rule check_drift_needs_evidence)
    (simp add: deploy_collect [OF assms(1)] unconfirmed_not_collected [OF assms(2)])

subsection \<open>What a collection stores\<close>

lemma sanitized_event_clean: "list_all no_ip (texts_members (event_payload (sanitize_log_event e h)))"
  unfolding sanitized_payload by (rule sanitized_texts)

lemma dict_set_member: "(k', v') \<in> set (dict_set k v d) \<Longrightarrow> (k', v') = (k, v) \<or> (k', v') \<in> set d"
  by (induction d) (auto split: if_splits)

definition clean_collection :: "collection \<Rightarrow> bool" where
  "clean_collection acc \<longleftrightarrow>
     (\<forall>e \<in> set (cn_events acc). list_all no_ip (texts_members (event_payload e))) \<and>
     (\<forall>(name, out) \<in> set (cn_outputs acc). name \<in> set redacted_sources \<longrightarrow> no_ip out)"

lemma collection_event_clean:
  "collection_event (redacting E) h name out state i j b w = (Inr e, w') \<Longrightarrow>
     list_all no_ip (texts_members (event_payload e))"
  using sanitized_event_clean by (auto simp: collection_event_def bindM_eq_Inr comp_simps redacting_fields)

lemma collect_source_clean:
  assumes "clean_collection acc"
    and "collect_source (redacting E) C h key hosts i j acc nc w = (Inr acc', w')"
  shows "clean_collection acc'"
proof -
  obtain name command where nc: "nc = (name, command)"
    by (cases nc)
  from assms(2) obtain out out' state e w1 w2 where
    out': "out' = (if name \<in> set redacted_sources then e_redact (redacting E) out (Some h) else out)"
    and e: "collection_event (redacting E) h name out' state i j False w1 = (Inr e, w2)"
    and acc': "cn_outputs acc' = dict_set name out' (cn_outputs acc)" "cn_events acc' = cn_events acc @ [e]"
    by (auto simp: nc collect_source_def bindM_eq_Inr comp_simps Let_def)
  have "name \<in> set redacted_sources \<Longrightarrow> no_ip out'"
    by (simp add: out' redacting_fields redacted_text_clean)
  with assms(1) acc' collection_event_clean [OF e] show ?thesis
    by (auto simp: clean_collection_def dest!: dict_set_member)
qed

text \<open>C39: No address leaves a collection through its log. In a deployment that collects over SSH none
  of the texts of an event of a collection (standard output and error, raw output, description,
  source, the values before and after, and the values of the correlation ids) contains a dotted IPv4
  address that stands apart from letters, digits and underscores, and neither do the stored outputs
  about logins, users, sudo rules, interfaces, routes and name servers.\<close>

theorem collected_logs_have_no_address:
  assumes "rt_ssh_collector R" and "e_collect (deploy D R E) h i j w = (Inr ce, w')"
  shows "(\<forall>e \<in> set (ce_events ce). \<forall>s \<in> set (texts_members (event_payload e)). \<not> contains_address s) \<and>
    (\<forall>(name, out) \<in> set (sn_commands (ce_snapshot ce)).
       name \<in> {''auth'', ''users'', ''sudo_posture'', ''interfaces'', ''routes'', ''dns''} \<longrightarrow>
         \<not> contains_address out)"
proof -
  from assms obtain key hosts acc v v1 sn where
    loop: "foldM (collect_source (redacting E) (dp_collector D) h key hosts i j) no_collection
      read_only_commands v = (Inr acc, v1)"
    and norm: "normalize_snapshot (redacting E) (cl_snapshot_text (dp_collector D)) h (cn_outputs acc)
      (cn_states acc) v1 = (Inr sn, w')"
    and ce: "ce = \<lparr>ce_snapshot = sn, ce_events = cn_events acc\<rparr>"
    by (auto simp: deploy_collect ssh_collect_def bindM_eq_Inr comp_simps split: if_splits)
  have "clean_collection no_collection"
    by (simp add: clean_collection_def no_collection_def)
  then have "clean_collection acc"
    by (rule foldM_invariant [OF loop, where I = "\<lambda>b _. clean_collection b"]) (rule collect_source_clean)
  moreover have "sn_commands sn = cn_outputs acc"
    using norm by (auto simp: normalize_snapshot_def bindM_eq_Inr comp_simps Let_def)
  moreover have "set redacted_sources = {''auth'', ''users'', ''sudo_posture'', ''interfaces'', ''routes'', ''dns''}"
    by (simp add: redacted_sources_def)
  ultimately show ?thesis
    unfolding address_found [symmetric] by (simp add: ce clean_collection_def list_all_iff)
qed

subsection \<open>A sample deployment\<close>

definition sample_components :: components where
  "sample_components = \<lparr>dp_cipher = sample_cipher, dp_processes = sample_processes [],
     dp_collector = quiet_collector, dp_runner = sample_runner ''ok'', dp_agents = offline_agents,
     dp_workflow = offline_workflow\<rparr>"

definition sample_runtime :: runtime where
  "sample_runtime = \<lparr>rt_database = DevelopmentFile ''data'', rt_redis = False, rt_encryption_key = [],
     rt_ssh_collector = True, rt_ansible = True, rt_admin = bob\<rparr>"

theorem unconfirmed_host_is_not_remediated_witness:
  "\<exists>e. fst (process_claimed_remediation (deploy sample_components sample_runtime (sample_env []))
     approved_plan sample_host ''w1'' queued_world) = Inl e"
proof -
  have "unconfirmed (cl_processes (dp_collector sample_components)) sample_host"
    by (simp add: unconfirmed_def sample_host_def)
  moreover have "rt_ssh_collector sample_runtime"
    by (simp add: sample_runtime_def)
  ultimately show ?thesis
    using unconfirmed_host_is_not_remediated by blast
qed

theorem collected_logs_have_no_address_witness:
  "\<exists>ce w'. e_collect (deploy sample_components sample_runtime (sample_env [])) confirmed_host ''job-1'' ''scan-1''
     (key_world []) = (Inr ce, w') \<and>
     (\<forall>e \<in> set (ce_events ce). \<forall>s \<in> set (texts_members (event_payload e)). \<not> contains_address s)"
proof -
  have ssh: "rt_ssh_collector sample_runtime"
    by (simp add: sample_runtime_def)
  have "dp_cipher sample_components = sample_cipher" "dp_collector sample_components = quiet_collector"
    by (simp_all add: sample_components_def)
  with sample_collects [of "\<lambda>_. exit_ok []" "redacting (sample_env [])"] obtain ce w' where
    run: "e_collect (deploy sample_components sample_runtime (sample_env [])) confirmed_host ''job-1'' ''scan-1''
      (key_world []) = (Inr ce, w')"
    by (auto simp: deploy_collect [OF ssh])
  with collected_logs_have_no_address [OF ssh run] show ?thesis
    by blast
qed

end
