(* ===== verification/Spec2Isabelle.thy ===== *)
theory Spec2Isabelle
  imports GateProperties GateCampaign JobProperties JobSafety ServiceProperties ExecutorProperties
    AccessProperties
    AgentProperties ApiProperties RedactionProperties CallbackProperties TableProperties Deployment
begin

text \<open>
  A verification library for AISysAdm, a control plane that inspects Debian and Ubuntu hosts, has
  agents propose patch plans, and carries out the plans that an operator approved. It covers the
  Python program under \<open>src/apps/api/sysadmin_api\<close> and the ansible callback plugin
  \<open>src/ops/ansible/callback_plugins/ai_jsonl.py\<close>. File names below are relative to the former.

  \<^bold>\<open>The program.\<close> Requests arrive at the routes of \<open>main.py\<close>, which authenticate a session
  (\<open>security.py\<close>), check a role (\<open>authorization.py\<close>) and call \<open>SysadminService\<close>
  (\<open>service.py\<close>). The service keeps everything in a repository (\<open>repository.py\<close>,
  \<open>database.py\<close>) and queues durable jobs, which workers claim under a lease (\<open>queue.py\<close>,
  \<open>tasks.py\<close>). A scan job collects evidence from a host (\<open>collector.py\<close>), has two specialist
  agents and an orchestrator turn it into findings and a plan (\<open>agents.py\<close>, \<open>providers.py\<close>,
  \<open>contracts.py\<close>, \<open>verifier.py\<close>), and stores them. Every decision about a plan - whether it is
  current, approved, eligible, due, still backed by the evidence, how a run of it ended, what a
  recovered job may do, which hosts of a campaign go next - is made by \<open>TrustedChangeGate\<close>
  (\<open>trusted_change.py\<close>), a class of pure functions. A remediation job asks the gate, takes a
  rollback snapshot (\<open>snapshots.py\<close>) and runs the plan with an executor (\<open>executor.py\<close>) under
  secrets from the credential store (\<open>credentials.py\<close>) against a confirmed host key
  (\<open>ssh_utils.py\<close>). What is stored or shown of logs is redacted (\<open>redaction.py\<close>, and again by the
  callback plugin inside ansible). \<open>config.py\<close> and \<open>runtime.py\<close> put it together.

  \<^bold>\<open>How code is represented.\<close> A class of \<open>models.py\<close> is a record whose fields keep their names
  under a prefix, an enum is a datatype, a dictionary is an association list in insertion order
  (theory \<open>Prelude\<close>), a datetime is an instant in microseconds with its offset (\<open>PyTime\<close>). Code that
  only computes is a HOL function, with \<open>exn + 'a\<close> as its result where it may raise. Code that reads
  or changes state is a computation \<open>world \<Rightarrow> (exn + 'a) \<times> world\<close> (\<open>'a comp\<close>, theory
  \<open>ServiceBase\<close>): the world holds the store (the tables), the counters that clocks and identifiers
  are drawn from, and the job at hand; an exception leaves the writes that went before it in place
  and \<open>transactionM\<close> rolls them back, as \<open>repository.transaction()\<close> does. What is not under the
  sources is a field of an environment record or an argument: SHA-256 (\<open>e_H\<close>), clock and \<open>uuid4\<close>,
  the time zone database, the cipher, \<open>ssh\<close>, \<open>ssh-keyscan\<close> and \<open>ansible-playbook\<close>
  (\<open>processes\<close>, \<open>snapshot_runner\<close>), decoding of bytes, the AI providers and the cache, Redis,
  Celery's \<open>delay\<close>, croniter, pydantic's JSON texts. Theorems about them assume documented behaviour
  only, such as that two particular texts do not collide under the hash or that decryption inverts
  encryption, and each has a witness with a concrete function.

  All recursion is structural or has a measure, so no fuel is used anywhere: the retry and wait
  loops of the program are the schedules of \<open>Tasks\<close>, and the matcher of regular expressions
  recurses over what is left of the text.

  \<^bold>\<open>Python and its library.\<close> \<open>Prelude\<close> (dictionaries, truth values, stable sorting), \<open>PyStr\<close> and
  \<open>PyText\<close> (strings, splitting, stripping, lower case, numbers), \<open>PyFloat\<close> (numerals of floats,
  rounding), \<open>PyTime\<close> (datetimes, ISO texts, weekdays), \<open>Json\<close> (values and \<open>json.dumps\<close>), \<open>Regex\<close>
  (a backtracking matcher with groups, look-ahead and lazy repetition, and \<open>re.sub\<close>).

  \<^bold>\<open>Data.\<close> \<open>Models\<close>: every class of \<open>models.py\<close> with its bounds as \<open>_valid\<close> predicates.
  \<open>Fixtures\<close> and \<open>ServiceFixtures\<close> hold the concrete values of the witnesses.

  \<^bold>\<open>The gate\<close> (\<open>trusted_change.py\<close>). \<open>GateCore\<close>: codes and reasons, what a plan hash covers, the
  private checks. \<open>GateApproval\<close>: reconciliation, the two approvals, eligibility, snapshot
  requirement. \<open>GateExecution\<close>: timing, drift, health, outcomes, recovery. \<open>GateCampaign\<close>: batches
  and projections. \<open>GateProperties\<close> shows that what is eligible is what the operator reviewed, that a
  changed plan loses its approvals, that the approvals suffice, and what a hash pins down.

  \<^bold>\<open>The repositories\<close> (\<open>repository.py\<close>). \<open>JobStore\<close>: a job's transitions and the job operations of
  \<open>InMemoryRepository\<close>; the locale \<open>job_repository\<close> states what the services rely on and derives
  lease exclusion, bounded claims and final states from it. \<open>SqlJobStore\<close>: the same operations on
  rows of the job table, the abstraction \<open>job_abs\<close>, and the refinement proofs that make it the second
  interpretation. \<open>JobProperties\<close>: the guarantees for both, and what a save without a lease does to
  them. \<open>Repository\<close>: the store the services
  use, a dictionary of objects per table. \<open>Tables\<close> (\<open>database.py\<close>): the rows with their columns,
  widths and unique columns, and every write and read of \<open>SqlRepository\<close> on them; \<open>TableProperties\<close>
  proves with the locale \<open>object_table\<close>, interpreted for each table, that the rows implement the store.
  The other operations of \<open>InMemoryRepository\<close>, the repository of the unit tests, keep references to
  the objects of their callers and are not modelled.

  \<^bold>\<open>The service\<close> (\<open>service.py\<close>). \<open>ServiceBase\<close>: worlds, computations, environment, audit, alerts,
  helpers. \<open>ServiceSync\<close>: plans and campaigns kept current. \<open>ServicePlans\<close>: approvals, rejection,
  preparation of jobs. \<open>ServiceJobs\<close>: the remediation worker. \<open>ServiceUpkeep\<close>: release, recovery,
  snapshot deletion. \<open>ServiceCampaigns\<close>, \<open>ServiceScans\<close>, \<open>ServiceHosts\<close>: the rest of the class.
  \<open>ServiceFrames\<close>: what each group of operations leaves alone, drawn from the locales
  \<open>kept_by_bookkeeping\<close> and \<open>kept_by_records\<close>. \<open>JobSafety\<close>: what the operations of the service as
  a whole, saves without a lease included, can do to one stored job (locale \<open>kept_by_service\<close>):
  nothing to a finished one, and nothing to one another worker holds. \<open>ServiceProperties\<close>: the executor is called only when
  the gate permits it, a drifted host is left alone, what a prepared job is bound to, how a failing
  job ends, what is released and recovered.

  \<^bold>\<open>Access.\<close> \<open>Security\<close> (\<open>security.py\<close>, \<open>authorization.py\<close>), \<open>Credentials\<close>, \<open>AccessProperties\<close>
  (round trips of sessions and secrets, the bound of the login limiter).

  \<^bold>\<open>Hosts.\<close> \<open>Processes\<close> (\<open>ssh_utils.py\<close>, what a process returns), \<open>Executor\<close> and
  \<open>ExecutorProperties\<close> (locale \<open>plan_executor\<close>, both executors as interpretations), \<open>Collector\<close> and
  \<open>CollectorProperties\<close> (collection only reads, is complete and bounded, and how failures enter the
  evidence), \<open>Snapshots\<close> and \<open>SnapshotProperties\<close> (locale \<open>snapshot_provider\<close>, both providers as
  interpretations; what a healthy host went through).

  \<^bold>\<open>Agents.\<close> \<open>Verifier\<close>, \<open>Routing\<close> (\<open>providers.py\<close>, \<open>contracts.py\<close>), \<open>AgentBase\<close> and \<open>Agents\<close>
  (\<open>agents.py\<close>), \<open>AgentProperties\<close> (locale \<open>specialist_policy\<close>; whatever the models answer, the plan
  is bounded and the findings are those of the policies).

  \<^bold>\<open>Redaction.\<close> \<open>Redaction\<close>, \<open>RedactionProperties\<close> (no address that stands apart from letters,
  digits and underscores survives, where \<open>contains_address\<close> says what that is without the program's
  patterns; secrets do not interfere; when a second redaction loses the mark), \<open>Callback\<close> (the
  plugin's own patterns and helpers, from its source), \<open>CallbackProperties\<close> (they redact alike).

  \<^bold>\<open>Outside and composition.\<close> \<open>Config\<close> (\<open>config.py\<close>, \<open>build_runtime\<close>), \<open>Api\<close> and \<open>ApiProperties\<close>
  (one definition per route; who may do what), \<open>Tasks\<close> (worker tasks, retries, health markers),
  \<open>Deployment\<close> (the service with the parts the runtime chose: an unconfirmed host is not touched, no
  address leaves a collection through its log).

  \<^bold>\<open>Abstractions.\<close> An operation of the service runs to its end except where it awaits something:
  others act there and between operations, not between a read and the write that follows it.
  Transactions run one after another, row locks are not represented, and queries
  without \<open>ORDER BY\<close> return insertion order. Writing a model as JSON and validating it again gives the
  same model. Strings have the characters below 256. Floats are reals; infinities and NaN are not
  read. A heartbeat that loses its lease and a cancelled task are exceptions of the awaited
  computation. \<open>asyncio.gather\<close> runs the state agent before the log agent. Where the service reads a
  job again from the repository, the model does too; a plan or host object that the code keeps is kept.

  \<^bold>\<open>Not modelled.\<close> The web frontend, the shared TypeScript packages, the playbooks (their run is a
  parameter), the generated database migrations, the constant routes of \<open>main.py\<close>,
  \<open>RedisAgentMemory\<close> and \<open>InMemoryAgentMemory\<close> (two calls of a dictionary, an interface of the agents),
  FastAPI, CORS and Celery configuration, parsing of request bodies, and the contents, permissions
  and wiping of temporary files: these are libraries, other languages or input and output with no
  decision of their own.
\<close>

end
